(* ===== verification/Prelude.thy ===== *)
theory Prelude
  imports Main
begin

text \<open>
  Shared base of the development.

  \<^item> Programs: a request handler of the backend reads and writes the stores (PostgreSQL
    through Prisma, Redis) and may throw a Nest exception at any point, keeping what it wrote
    before. It is a function from the state to a result (\<open>Inl\<close> the exception,
    \<open>Inr\<close> the value) and the state it leaves; \<open>and_then\<close> is \<open>await\<close> followed
    by the rest of the handler, \<open>transaction\<close> is \<open>prisma.$transaction\<close>.
  \<^item> Tables: a Prisma model is the list of its rows; the query methods that the services
    use are the functions \<open>find_first\<close>, \<open>count_where\<close>, \<open>update_many\<close>,
    \<open>delete_many\<close> on it, with the \<open>where\<close> and \<open>data\<close> literals of the
    source as their arguments.
  \<^item> \<open>keeps\<close>: "this handler preserves that invariant", with one rule per way of
    building a handler, collected in \<open>keeps_rules\<close>.
  \<^item> \<open>guarded_update\<close>: the interface behind every \<open>updateMany\<close> whose data
    falsifies its own \<open>where\<close> (revoking a session, soft deletion, closing a
    playback session): it takes effect at most once per row.
\<close>

named_theorems prog_simps "equations that run a handler"
named_theorems table_simps "equations of the table operations"
named_theorems keeps_rules "rules that a handler keeps an invariant"

section \<open>Exceptions and programs\<close>

text \<open>
  The Nest exceptions the services throw, with their message, and \<open>Internal\<close> for an
  error of the database client that no handler translates (the exception filter answers 500).
\<close>

datatype http_error =
    BadRequest string
  | Unauthorized string
  | Forbidden string
  | NotFound string
  | Conflict string
  | TooManyRequests string
  | ServiceUnavailable string
  | Internal string

type_synonym ('s, 'a) prog = "'s \<Rightarrow> (http_error + 'a) \<times> 's"

definition ret :: "'a \<Rightarrow> ('s, 'a) prog" where
  "ret x s = (Inr x, s)"

definition throw :: "http_error \<Rightarrow> ('s, 'a) prog" where
  "throw e s = (Inl e, s)"

definition gets :: "('s \<Rightarrow> 'a) \<Rightarrow> ('s, 'a) prog" where
  "gets f s = (Inr (f s), s)"

definition modify :: "('s \<Rightarrow> 's) \<Rightarrow> ('s, unit) prog" where
  "modify f s = (Inr (), f s)"

definition and_then :: "('s, 'a) prog \<Rightarrow> ('a \<Rightarrow> ('s, 'b) prog) \<Rightarrow> ('s, 'b) prog" where
  "and_then m k s = (case m s of (Inl e, s') \<Rightarrow> (Inl e, s') | (Inr x, s') \<Rightarrow> k x s')"

text \<open>\<open>if (!b) throw e;\<close>\<close>

definition require :: "bool \<Rightarrow> http_error \<Rightarrow> ('s, unit) prog" where
  "require b e = (if b then ret () else throw e)"

text \<open>\<open>if (!row) throw e;\<close> and the rest of the handler with the row.\<close>

definition expect :: "'a option \<Rightarrow> http_error \<Rightarrow> ('s, 'a) prog" where
  "expect r e = (case r of None \<Rightarrow> throw e | Some x \<Rightarrow> ret x)"

text \<open>An exception that leaves the callback of \<open>$transaction\<close> rolls the writes back.\<close>

definition transaction :: "('s, 'a) prog \<Rightarrow> ('s, 'a) prog" where
  "transaction m s = (case m s of (Inl e, _) \<Rightarrow> (Inl e, s) | (Inr x, s') \<Rightarrow> (Inr x, s'))"

definition catch_error :: "('s, 'a) prog \<Rightarrow> (http_error \<Rightarrow> ('s, 'a) prog) \<Rightarrow> ('s, 'a) prog" where
  "catch_error m h s = (case m s of (Inl e, s') \<Rightarrow> h e s' | (Inr x, s') \<Rightarrow> (Inr x, s'))"

fun for_each :: "'a list \<Rightarrow> ('a \<Rightarrow> ('s, 'b) prog) \<Rightarrow> ('s, 'b list) prog" where
  "for_each [] f = ret []"
| "for_each (x # xs) f = and_then (f x) (\<lambda>y. and_then (for_each xs f) (\<lambda>ys. ret (y # ys)))"

lemma ret_apply [simp, prog_simps]: "ret x s = (Inr x, s)"
  by (simp add: ret_def)

lemma throw_apply [simp, prog_simps]: "throw e s = (Inl e, s)"
  by (simp add: throw_def)

lemma gets_apply [simp, prog_simps]: "gets f s = (Inr (f s), s)"
  by (simp add: gets_def)

lemma modify_apply [simp, prog_simps]: "modify f s = (Inr (), f s)"
  by (simp add: modify_def)

lemma and_then_ret [simp]: "and_then (ret x) k = k x"
  by (rule ext) (simp add: and_then_def)

lemma and_then_throw [simp]: "and_then (throw e) k = throw e"
  by (rule ext) (simp add: and_then_def)

lemma and_then_gets [simp, prog_simps]: "and_then (gets f) k s = k (f s) s"
  by (simp add: and_then_def)

lemma and_then_modify [simp, prog_simps]: "and_then (modify f) k s = k () (f s)"
  by (simp add: and_then_def)

lemma and_then_require [simp, prog_simps]:
  "and_then (require b e) k s = (if b then k () s else (Inl e, s))"
  by (simp add: require_def)

lemma and_then_expect [simp, prog_simps]:
  "and_then (expect r e) k s = (case r of None \<Rightarrow> (Inl e, s) | Some x \<Rightarrow> k x s)"
  by (simp add: expect_def split: option.split)

lemma and_then_Inr:
  "and_then m k s = (Inr y, s'') \<longleftrightarrow> (\<exists>x s'. m s = (Inr x, s') \<and> k x s' = (Inr y, s''))"
  by (auto simp: and_then_def split: prod.splits sum.splits)

lemma and_then_Inl:
  "and_then m k s = (Inl e, s'') \<longleftrightarrow>
     m s = (Inl e, s'') \<or> (\<exists>x s'. m s = (Inr x, s') \<and> k x s' = (Inl e, s''))"
  by (auto simp: and_then_def split: prod.splits sum.splits)

lemma and_then_throws [simp]: "and_then m (\<lambda>x. throw (e x)) s = (Inr y, s') \<longleftrightarrow> False"
  by (auto simp: and_then_def split: prod.splits sum.splits)

lemma require_Inr [simp]: "require b e s = (Inr x, s') \<longleftrightarrow> b \<and> s' = s"
  by (simp add: require_def eq_commute [of s])

lemma require_Inl [simp]: "require b e s = (Inl e', s') \<longleftrightarrow> \<not> b \<and> e' = e \<and> s' = s"
  by (auto simp: require_def)

lemma expect_Inl [simp]: "expect r e s = (Inl e', s') \<longleftrightarrow> r = None \<and> e' = e \<and> s' = s"
  by (auto simp: expect_def split: option.split)

lemma expect_Inr [simp]: "expect r e s = (Inr x, s') \<longleftrightarrow> r = Some x \<and> s' = s"
  by (auto simp: expect_def split: option.split)

lemma transaction_Inr [simp]: "transaction m s = (Inr x, s') \<longleftrightarrow> m s = (Inr x, s')"
  by (auto simp: transaction_def split: prod.splits sum.splits)

text \<open>A transaction that fails changes nothing.\<close>

lemma transaction_Inl: "transaction m s = (Inl e, s') \<Longrightarrow> s' = s"
  by (auto simp: transaction_def split: prod.splits sum.splits)

lemma and_then_assoc [prog_simps]: "and_then (and_then m k) l = and_then m (\<lambda>x. and_then (k x) l)"
  by (rule ext) (simp add: and_then_def split: prod.splits sum.splits)

lemma and_then_if [prog_simps]:
  "and_then (if b then m else n) k s = (if b then and_then m k s else and_then n k s)"
  by simp

lemma and_then_option [prog_simps]:
  "and_then (case r of None \<Rightarrow> m | Some x \<Rightarrow> f x) k s =
     (case r of None \<Rightarrow> and_then m k s | Some x \<Rightarrow> and_then (f x) k s)"
  by (simp split: option.split)

lemma and_then_transaction:
  "and_then (transaction m) k s = (case m s of (Inl e, _) \<Rightarrow> (Inl e, s) | (Inr x, s') \<Rightarrow> k x s')"
  by (simp add: and_then_def transaction_def split: prod.split sum.split)

lemma prog_result: "\<not> isl (fst (m s)) \<Longrightarrow> \<exists>x s'. m s = (Inr x, s')"
  by (metis isl_def old.sum.exhaust prod.collapse)

lemma prog_done: "\<not> isl (fst (m s)) \<Longrightarrow> \<exists>s'. m s = (Inr (), s')"
  by (metis (full_types) old.unit.exhaust prog_result)

section \<open>Invariants of programs\<close>

text \<open>Whatever the result, the state the handler leaves satisfies the invariant again.\<close>

definition keeps :: "('s \<Rightarrow> bool) \<Rightarrow> ('s, 'a) prog \<Rightarrow> bool" where
  "keeps I m \<longleftrightarrow> (\<forall>s. I s \<longrightarrow> I (snd (m s)))"

lemma keepsI: "(\<And>s. I s \<Longrightarrow> I (snd (m s))) \<Longrightarrow> keeps I m"
  by (simp add: keeps_def)

lemma keepsD: "keeps I m \<Longrightarrow> I s \<Longrightarrow> m s = (r, s') \<Longrightarrow> I s'"
  by (metis keeps_def snd_conv)

lemma keeps_apply: "keeps I m \<Longrightarrow> I s \<Longrightarrow> I (snd (m s))"
  by (simp add: keeps_def)

lemma keeps_ret [keeps_rules]: "keeps I (ret x)"
  by (simp add: keeps_def)

lemma keeps_throw [keeps_rules]: "keeps I (throw e)"
  by (simp add: keeps_def)

lemma keeps_gets [keeps_rules]: "keeps I (gets f)"
  by (simp add: keeps_def)

lemma keeps_require [keeps_rules]: "keeps I (require b e)"
  by (simp add: keeps_def require_def)

lemma keeps_expect [keeps_rules]: "keeps I (expect r e)"
  by (simp add: keeps_def expect_def split: option.split)

lemma keeps_modify [keeps_rules]: "(\<And>s. I s \<Longrightarrow> I (f s)) \<Longrightarrow> keeps I (modify f)"
  by (simp add: keeps_def)

lemma keeps_and_then [keeps_rules]:
  "keeps I m \<Longrightarrow> (\<And>x. keeps I (k x)) \<Longrightarrow> keeps I (and_then m k)"
  by (auto simp: keeps_def and_then_def split: prod.splits sum.splits)

lemma keeps_if [keeps_rules]: "keeps I m \<Longrightarrow> keeps I n \<Longrightarrow> keeps I (if b then m else n)"
  by simp

lemma keeps_case_option [keeps_rules]:
  "keeps I m \<Longrightarrow> (\<And>x. keeps I (k x)) \<Longrightarrow> keeps I (case r of None \<Rightarrow> m | Some x \<Rightarrow> k x)"
  by (cases r) simp_all

lemma keeps_transaction [keeps_rules]: "keeps I m \<Longrightarrow> keeps I (transaction m)"
  by (auto simp: keeps_def transaction_def split: prod.splits sum.splits)

lemma keeps_catch_error [keeps_rules]:
  "keeps I m \<Longrightarrow> (\<And>e. keeps I (h e)) \<Longrightarrow> keeps I (catch_error m h)"
  by (auto simp: keeps_def catch_error_def split: prod.splits sum.splits)

lemma keeps_for_each [keeps_rules]: "(\<And>x. keeps I (f x)) \<Longrightarrow> keeps I (for_each xs f)"
  by (induction xs) (auto intro!: keeps_rules)

section \<open>Tables\<close>

definition find_first :: "('r \<Rightarrow> bool) \<Rightarrow> 'r list \<Rightarrow> 'r option" where
  "find_first P t = List.find P t"

definition count_where :: "('r \<Rightarrow> bool) \<Rightarrow> 'r list \<Rightarrow> nat" where
  "count_where P t = length (filter P t)"

definition update_many :: "('r \<Rightarrow> bool) \<Rightarrow> ('r \<Rightarrow> 'r) \<Rightarrow> 'r list \<Rightarrow> 'r list" where
  "update_many P f t = map (\<lambda>r. if P r then f r else r) t"

definition delete_many :: "('r \<Rightarrow> bool) \<Rightarrow> 'r list \<Rightarrow> 'r list" where
  "delete_many P t = filter (\<lambda>r. \<not> P r) t"

text \<open>\<open>findFirst\<close> with \<open>orderBy: { k: 'desc' }\<close>: a row with the greatest key.\<close>

fun find_latest :: "('r \<Rightarrow> int) \<Rightarrow> 'r list \<Rightarrow> 'r option" where
  "find_latest k [] = None"
| "find_latest k (r # t) =
     (case find_latest k t of None \<Rightarrow> Some r | Some q \<Rightarrow> if k q \<le> k r then Some r else Some q)"

lemma find_first_Some [table_simps]: "find_first P t = Some r \<Longrightarrow> r \<in> set t \<and> P r"
  by (auto simp: find_first_def find_Some_iff)

lemma find_first_None [simp, table_simps]: "find_first P t = None \<longleftrightarrow> (\<forall>r\<in>set t. \<not> P r)"
  by (auto simp: find_first_def find_None_iff)

lemma find_first_Nil [simp]: "find_first P [] = None"
  by simp

lemma find_first_Cons [simp]: "find_first P (r # t) = (if P r then Some r else find_first P t)"
  by (simp add: find_first_def)

lemma find_first_append: "find_first P (t @ t') = (case find_first P t of None \<Rightarrow> find_first P t' | Some r \<Rightarrow> Some r)"
  by (induction t) (simp_all del: find_first_None)

lemma find_first_ex: "(\<exists>r. find_first P t = Some r) \<longleftrightarrow> (\<exists>r\<in>set t. P r)"
  by (metis find_first_None not_Some_eq)

lemma count_where_0 [simp, table_simps]: "count_where P t = 0 \<longleftrightarrow> (\<forall>r\<in>set t. \<not> P r)"
  by (simp add: count_where_def filter_empty_conv)

lemma count_where_pos [simp, table_simps]: "0 < count_where P t \<longleftrightarrow> (\<exists>r\<in>set t. P r)"
  by (simp add: count_where_def filter_empty_conv)

lemma count_where_simps [simp]:
  "count_where P [] = 0"
  "count_where P (r # t) = (if P r then Suc (count_where P t) else count_where P t)"
  "count_where P (t @ t') = count_where P t + count_where P t'"
  by (simp_all add: count_where_def)

lemma update_many_simps [simp]:
  "update_many P f [] = []"
  "update_many P f (r # t) = (if P r then f r else r) # update_many P f t"
  "update_many P f (t @ t') = update_many P f t @ update_many P f t'"
  by (simp_all add: update_many_def)

lemma length_update_many [simp]: "length (update_many P f t) = length t"
  by (simp add: update_many_def)

lemma set_update_many [table_simps]:
  "set (update_many P f t) = {r \<in> set t. \<not> P r} \<union> f ` {r \<in> set t. P r}"
  by (auto simp: update_many_def)

lemma in_update_many [simp]:
  "q \<in> set (update_many P f t) \<longleftrightarrow> (\<exists>r\<in>set t. q = (if P r then f r else r))"
  by (auto simp: update_many_def)

lemma bex_update_many: "(\<exists>q\<in>set (update_many P f t). Q q) \<longleftrightarrow> (\<exists>r\<in>set t. Q (if P r then f r else r))"
  by (induction t) (simp_all del: in_update_many)

lemma ball_update_many: "(\<forall>q\<in>set (update_many P f t). Q q) \<longleftrightarrow> (\<forall>r\<in>set t. Q (if P r then f r else r))"
  by (induction t) (simp_all del: in_update_many)

lemma map_update_many: "(\<And>r. P r \<Longrightarrow> g (f r) = g r) \<Longrightarrow> map g (update_many P f t) = map g t"
  by (induction t) auto

lemma image_update_many: "(\<And>r. P r \<Longrightarrow> g (f r) = g r) \<Longrightarrow> g ` set (update_many P f t) = g ` set t"
  by (metis image_set map_update_many)

lemma bex_update_keeps:
  "(\<And>r. P r \<Longrightarrow> Q (f r) = Q r) \<Longrightarrow> (\<exists>r\<in>set (update_many P f t). Q r) = (\<exists>r\<in>set t. Q r)"
  by (auto simp: bex_update_many simp del: in_update_many)

lemma filter_update_other:
  "(\<And>r. P r \<Longrightarrow> \<not> Q r) \<Longrightarrow> (\<And>r. P r \<Longrightarrow> \<not> Q (f r)) \<Longrightarrow>
     filter Q (update_many P f t) = filter Q t"
  by (induction t) auto

text \<open>\<open>updateMany\<close> that matches no row leaves the table as it is.\<close>

lemma update_many_none: "\<forall>r\<in>set t. \<not> P r \<Longrightarrow> update_many P f t = t"
  by (induction t) auto

lemma count_update_many_other:
  "(\<And>r. P r \<Longrightarrow> Q (f r) = Q r) \<Longrightarrow> count_where Q (update_many P f t) = count_where Q t"
  by (induction t) auto

lemma delete_many_set [simp, table_simps]: "set (delete_many P t) = {r \<in> set t. \<not> P r}"
  by (auto simp: delete_many_def)

lemma distinct_map_delete [simp]: "distinct (map g t) \<Longrightarrow> distinct (map g (delete_many P t))"
  by (simp add: delete_many_def distinct_map_filter)

lemma distinct_delete [simp]: "distinct t \<Longrightarrow> distinct (delete_many P t)"
  by (simp add: delete_many_def)

text \<open>Rows are identified by a key: at most one row of a table carries it.\<close>

lemma unique_key:
  "distinct (map k t) \<Longrightarrow> r \<in> set t \<Longrightarrow> q \<in> set t \<Longrightarrow> k r = k q \<Longrightarrow> r = q"
  by (induction t) (auto simp: image_iff)

lemma update_key_row:
  assumes d: "distinct (map k t)" and x: "x \<in> set t" "P x" and P: "\<And>r. P r \<Longrightarrow> k r = k x"
    and f: "\<And>r. k (f r) = k r"
  shows "y \<in> set (update_many P f t) \<and> k y = k x \<longleftrightarrow> y = f x"
proof
  assume y: "y \<in> set (update_many P f t) \<and> k y = k x"
  then obtain r where r: "r \<in> set t" "y = (if P r then f r else r)" by auto
  with y f have "k r = k x" by (metis (full_types))
  with d x r(1) have "r = x" by (metis unique_key)
  with r x show "y = f x" by simp
next
  assume "y = f x"
  with x f show "y \<in> set (update_many P f t) \<and> k y = k x" by (auto intro!: bexI [of _ x])
qed

lemma find_first_key:
  "distinct (map k t) \<Longrightarrow> r \<in> set t \<Longrightarrow> P r \<Longrightarrow> (\<And>q. P q \<Longrightarrow> k q = k r)
    \<Longrightarrow> find_first P t = Some r"
  by (metis find_first_None find_first_Some not_Some_eq unique_key)

lemma count_where_key_le_1:
  "distinct (map k t) \<Longrightarrow> (\<And>q. P q \<Longrightarrow> k q = x) \<Longrightarrow> count_where P t \<le> 1"
proof (induction t)
  case Nil
  then show ?case by simp
next
  case (Cons r t)
  then show ?case
    by (cases "P r") (auto simp: count_where_def filter_empty_conv image_iff)
qed

lemma find_latest_None [simp]: "find_latest k t = None \<longleftrightarrow> t = []"
  by (cases t) (auto split: option.splits)

lemma find_latest_Some: "find_latest k t = Some r \<Longrightarrow> r \<in> set t \<and> (\<forall>q\<in>set t. k q \<le> k r)"
proof (induction t arbitrary: r)
  case Nil
  then show ?case by simp
next
  case (Cons a t)
  then show ?case
    by (cases "find_latest k t") (force split: if_splits)+
qed

section \<open>Updates that disable their own condition\<close>

text \<open>
  The services revoke, close and soft-delete with
  \<open>updateMany({ where: guard, data: change })\<close> where the data falsifies the condition, and
  read the outcome from the number of rows. The contract and what a client may conclude.
\<close>

locale guarded_update =
  fixes key :: "'r \<Rightarrow> 'k"
    and guard :: "'r \<Rightarrow> bool"
    and change :: "'r \<Rightarrow> 'r"
  assumes change_key: "key (change r) = key r"
    and change_disables: "guard r \<Longrightarrow> \<not> guard (change r)"
begin

lemma keys_kept: "map key (update_many guard change t) = map key t"
  by (simp add: map_update_many change_key)

lemma none_left: "r \<in> set (update_many guard change t) \<Longrightarrow> \<not> guard r"
  using change_disables by (metis in_update_many)

lemma second_count: "count_where guard (update_many guard change t) = 0"
  unfolding count_where_0 by (blast dest: none_left)

lemma idempotent:
  "update_many guard change (update_many guard change t) = update_many guard change t"
  by (rule update_many_none) (blast dest: none_left)

lemma others_kept: "r \<in> set t \<Longrightarrow> \<not> guard r \<Longrightarrow> r \<in> set (update_many guard change t)"
  by (auto simp: intro!: bexI [of _ r])

lemma distinct_kept: "distinct (map key (update_many guard change t)) = distinct (map key t)"
  by (simp add: keys_kept)

end

section \<open>Partial data\<close>

text \<open>
  A column whose value in \<open>data\<close> is \<open>undefined\<close> keeps its value: \<open>set_or\<close> for a plain column,
  \<open>keep_or\<close> for a nullable one.
\<close>

definition set_or :: "'a option \<Rightarrow> 'a \<Rightarrow> 'a" where
  "set_or given old = (case given of None \<Rightarrow> old | Some x \<Rightarrow> x)"

definition keep_or :: "'a option \<Rightarrow> 'a option \<Rightarrow> 'a option" where
  "keep_or given old = (case given of None \<Rightarrow> old | Some x \<Rightarrow> Some x)"

lemma given_simps [simp]:
  "set_or None x = x" "set_or (Some y) x = y" "keep_or None z = z" "keep_or (Some y) z = Some y"
  by (simp_all add: set_or_def keep_or_def)

section \<open>Sets in insertion order\<close>

text \<open>\<open>[...new Set(xs)]\<close>: the first occurrence of each element, in order.\<close>

definition js_set :: "'a list \<Rightarrow> 'a list" where
  "js_set xs = rev (remdups (rev xs))"

lemma set_js_set [simp]: "set (js_set xs) = set xs"
  by (simp add: js_set_def)

lemma distinct_js_set [simp]: "distinct (js_set xs)"
  by (simp add: js_set_def)

section \<open>Strings\<close>

text \<open>
  The model's strings are ASCII: a \<open>char\<close> is one UTF-16 code unit below 128. Within that
  range these are JavaScript's \<open>trim\<close>, \<open>toLowerCase\<close>, \<open>startsWith\<close>,
  \<open>includes\<close> and \<open>slice(0, n)\<close> (\<open>take n\<close>).
\<close>

definition is_space :: "char \<Rightarrow> bool" where
  "is_space c = (let n = (of_char c :: nat) in n = 32 \<or> (9 \<le> n \<and> n \<le> 13))"

definition trim_left :: "string \<Rightarrow> string" where
  "trim_left s = dropWhile is_space s"

definition trim :: "string \<Rightarrow> string" where
  "trim s = rev (trim_left (rev (trim_left s)))"

definition lower_char :: "char \<Rightarrow> char" where
  "lower_char c = (let n = (of_char c :: nat) in if 65 \<le> n \<and> n \<le> 90 then char_of (n + 32) else c)"

definition to_lower :: "string \<Rightarrow> string" where
  "to_lower s = map lower_char s"

fun starts_with :: "string \<Rightarrow> string \<Rightarrow> bool" where
  "starts_with s [] = True"
| "starts_with [] (p # ps) = False"
| "starts_with (c # s) (p # ps) = (c = p \<and> starts_with s ps)"

fun str_includes :: "string \<Rightarrow> string \<Rightarrow> bool" where
  "str_includes [] p = (p = [])"
| "str_includes (c # s) p = (starts_with (c # s) p \<or> str_includes s p)"

text \<open>An optional string used as a condition: the empty string counts as absent.\<close>

definition truthy :: "string option \<Rightarrow> string option" where
  "truthy x = (case x of Some [] \<Rightarrow> None | _ \<Rightarrow> x)"

text \<open>A filter that is only applied when its query parameter is given.\<close>

definition given_eq :: "'a option \<Rightarrow> 'a \<Rightarrow> bool" where
  "given_eq q x \<longleftrightarrow> (case q of None \<Rightarrow> True | Some y \<Rightarrow> x = y)"

text \<open>Prisma's \<open>{ contains: p, mode: 'insensitive' }\<close>.\<close>

definition contains_ci :: "string \<Rightarrow> string \<Rightarrow> bool" where
  "contains_ci s p = str_includes (to_lower s) (to_lower p)"

text \<open>\<open>String(n)\<close> of a natural number, and \<open>split\<close> at a single character.\<close>

definition digit :: "nat \<Rightarrow> char" where
  "digit n = char_of (48 + n)"

fun decimal :: "nat \<Rightarrow> string" where
  "decimal n = (if n < 10 then [digit n] else decimal (n div 10) @ [digit (n mod 10)])"

declare decimal.simps [simp del]

fun split_on :: "char \<Rightarrow> string \<Rightarrow> string list" where
  "split_on c [] = [[]]"
| "split_on c (x # s) = (if x = c then [] # split_on c s
     else case split_on c s of [] \<Rightarrow> [[x]] | p # ps \<Rightarrow> (x # p) # ps)"

lemma split_on_none: "c \<notin> set s \<Longrightarrow> split_on c s = [s]"
  by (induction s) auto

lemma split_on_first: "c \<notin> set p \<Longrightarrow> split_on c (p @ c # s) = p # split_on c s"
  by (induction p) auto

lemma starts_with_append [simp]: "starts_with (p @ s) p"
  by (induction p) auto

lemma starts_with_iff: "starts_with s p \<longleftrightarrow> (\<exists>t. s = p @ t)"
  by (induction s p rule: starts_with.induct) auto

lemma str_includes_iff: "str_includes s p \<longleftrightarrow> (\<exists>a b. s = a @ p @ b)"
proof (induction s p rule: str_includes.induct)
  case (1 p)
  then show ?case by auto
next
  case (2 c s p)
  then show ?case
    by (auto simp: starts_with_iff Cons_eq_append_conv)
qed

section \<open>Pages\<close>

text \<open>The answer of every list endpoint: \<open>skip: (page - 1) * limit, take: limit\<close>.\<close>

record 'r page =
  pg_items :: "'r list"
  pg_page :: nat
  pg_limit :: nat
  pg_total :: nat
  pg_totalPages :: nat

definition ceil_div :: "nat \<Rightarrow> nat \<Rightarrow> nat" where
  "ceil_div n d = (n + d - 1) div d"

definition page_of :: "nat \<Rightarrow> nat \<Rightarrow> 'r list \<Rightarrow> 'r page" where
  "page_of p limit rows =
     \<lparr>pg_items = take limit (drop ((p - 1) * limit) rows), pg_page = p, pg_limit = limit,
      pg_total = length rows, pg_totalPages = ceil_div (length rows) limit\<rparr>"

text \<open>\<open>PageQueryDto\<close>: the page number and the page size of the query.\<close>

record page_query =
  pq_page :: nat
  pq_limit :: nat

definition list_page :: "page_query \<Rightarrow> 'r list \<Rightarrow> 'r page" where
  "list_page q rows = page_of (pq_page q) (pq_limit q) rows"

text \<open>Rows in the order of \<open>orderBy: { k: 'desc' }\<close> and \<open>'asc'\<close>.\<close>

definition order_desc :: "('r \<Rightarrow> int) \<Rightarrow> 'r list \<Rightarrow> 'r list" where
  "order_desc k rows = sort_key (\<lambda>r. - k r) rows"

definition order_asc :: "('r \<Rightarrow> int) \<Rightarrow> 'r list \<Rightarrow> 'r list" where
  "order_asc k rows = sort_key k rows"

lemma ceil_div_bounds: "0 < d \<Longrightarrow> n \<le> ceil_div n d * d \<and> ceil_div n d * d < n + d"
proof -
  assume d: "0 < d"
  have "(n + d - 1) div d * d = n + d - 1 - (n + d - 1) mod d"
    by (metis minus_mod_eq_div_mult)
  moreover have "(n + d - 1) mod d < d" using d by simp
  ultimately show ?thesis using d unfolding ceil_div_def by linarith
qed

lemma concat_pages:
  "concat (map (\<lambda>p. take l (drop (p * l) xs)) [0..<n]) = take (n * l) xs"
proof (induction n)
  case 0
  then show ?case by simp
next
  case (Suc n)
  have "take (n * l + l) xs = take (n * l) xs @ take l (drop (n * l) xs)"
    by (rule take_add)
  with Suc show ?case by (simp add: add.commute)
qed

lemma all_pages:
  assumes "0 < l"
  shows "concat (map (\<lambda>p. pg_items (page_of (Suc p) l xs)) [0..<ceil_div (length xs) l]) = xs"
  using assms ceil_div_bounds [of l "length xs"]
  by (simp add: page_of_def concat_pages)

section \<open>Time\<close>

text \<open>Instants are milliseconds since the epoch, as \<open>Date.getTime()\<close>.\<close>

type_synonym instant = int

abbreviation ms_per_day :: int where "ms_per_day \<equiv> 86400000"
abbreviation ms_per_minute :: int where "ms_per_minute \<equiv> 60000"

definition within :: "instant \<Rightarrow> instant \<Rightarrow> instant \<Rightarrow> bool" where
  "within starts ends now = (starts \<le> now \<and> now < ends)"

end
