(* ===== verification/Schema.thy ===== *)
theory Schema
  imports Prelude
begin

text \<open>
  The data the services share: the enums and models of \<open>prisma/schema.prisma\<close> as
  datatypes and records, the entries the backend keeps in Redis, the request context, the
  authenticated principal, the configuration and the third-party functions (hashes and token
  signatures) as parameters, and the state: one list of rows per Prisma model, and the Redis
  store.

  Not kept: the columns that no modelled handler reads or that the database fills in by itself
  (\<open>updatedAt\<close>, the ids of append-only log rows).
\<close>

section \<open>Enums\<close>

datatype user_status = User_ACTIVE | User_SUSPENDED | User_DISABLED
datatype role_code = SUPER_ADMIN | ADMIN | SUB_ADMIN | MODERATOR | USER
datatype grant_status = Grant_ACTIVE | Grant_REVOKED
datatype subscription_status = Sub_ACTIVE | Sub_CANCELLED | Sub_EXPIRED
datatype payment_status = Pay_PENDING | Pay_CONFIRMED | Pay_REJECTED | Pay_REFUNDED
datatype payment_method = CASH | BANK_TRANSFER | EASYPaisa | JAZZCASH | Method_OTHER
datatype audit_outcome = SUCCESS | FAILURE | DENIED
datatype content_visibility = PUBLIC | PRIVATE
datatype media_status = Media_PROCESSING | Media_ACTIVE | Media_INACTIVE | Media_ERROR
datatype media_type = MP4 | HLS | DASH | Media_OTHER
datatype episode_status = DRAFT | PUBLISHED | ARCHIVED
datatype device_status = Device_ACTIVE | Device_REVOKED
datatype playback_status = Play_ACTIVE | Play_CLOSED | Play_EXPIRED | Play_REVOKED
datatype download_access = GALLERY | APP_STORAGE | Both | NEVER
datatype conversation_status = Conv_OPEN | Conv_WAITING | Conv_RESOLVED | Conv_BLOCKED
datatype sender_type = Sender_USER | Sender_ADMIN | Sender_SYSTEM
datatype message_type = Msg_TEXT | Msg_IMAGE | Msg_VIDEO | Msg_VOICE | Msg_FILE | Msg_SYSTEM
datatype message_status = Msg_SENT | Msg_DELIVERED | Msg_SEEN

text \<open>JSON values, as far as audit metadata uses them.\<close>

datatype json = JStr string | JNum int | JBool bool | JNull

section \<open>Accounts\<close>

record user =
  u_id :: string
  u_username :: string
  u_email :: string
  u_passwordHash :: string
  u_status :: user_status
  u_profileImageKey :: "string option"
  u_failedLoginCount :: int
  u_lockedUntil :: "instant option"
  u_lastLoginAt :: "instant option"
  u_createdAt :: instant
  u_deletedAt :: "instant option"
  u_deviceToken :: "string option"

record refresh_session =
  rs_id :: string
  rs_userId :: string
  rs_tokenHash :: string
  rs_deviceId :: "string option"
  rs_deviceName :: "string option"
  rs_deviceToken :: "string option"
  rs_ipAddress :: string
  rs_userAgent :: string
  rs_lastSeenAt :: instant
  rs_expiresAt :: instant
  rs_revokedAt :: "instant option"
  rs_replacedById :: "string option"
  rs_createdAt :: instant

record trusted_device =
  td_id :: string
  td_userId :: string
  td_deviceId :: string
  td_deviceName :: "string option"
  td_fingerprintHash :: string
  td_status :: device_status
  td_lastSeenAt :: instant
  td_revokedAt :: "instant option"
  td_createdAt :: instant

record login_history =
  lh_userId :: "string option"
  lh_email :: string
  lh_succeeded :: bool
  lh_reason :: string
  lh_ipAddress :: string
  lh_userAgent :: string
  lh_createdAt :: instant

record role_definition =
  ro_id :: string
  ro_code :: role_code
  ro_name :: string
  ro_description :: "string option"
  ro_systemManaged :: bool

record permission =
  pe_id :: string
  pe_code :: string
  pe_description :: "string option"

record user_role =
  ur_userId :: string
  ur_roleId :: string

record role_permission =
  rp_roleId :: string
  rp_permissionId :: string

record user_permission =
  up_userId :: string
  up_permissionId :: string
  up_granted :: bool

record audit_event =
  au_actorId :: "string option"
  au_action :: string
  au_resource :: string
  au_resourceId :: "string option"
  au_outcome :: audit_outcome
  au_requestId :: string
  au_ipAddress :: "string option"
  au_userAgent :: "string option"
  au_metadata :: "(string \<times> json) list"
  au_createdAt :: instant

section \<open>Subscriptions and access\<close>

record subscription_plan =
  pl_id :: string
  pl_code :: string
  pl_name :: string
  pl_pricePkr :: int
  pl_durationDays :: int
  pl_isActive :: bool
  pl_createdAt :: instant

record subscription =
  su_id :: string
  su_userId :: string
  su_planId :: string
  su_status :: subscription_status
  su_startsAt :: instant
  su_endsAt :: instant
  su_cancelledAt :: "instant option"
  su_note :: "string option"
  su_createdAt :: instant

record subscription_history =
  sh_subscriptionId :: string
  sh_actorId :: "string option"
  sh_action :: string
  sh_oldStartsAt :: "instant option"
  sh_oldEndsAt :: "instant option"
  sh_newStartsAt :: "instant option"
  sh_newEndsAt :: "instant option"
  sh_note :: "string option"
  sh_createdAt :: instant

record payment_record =
  pa_id :: string
  pa_userId :: string
  pa_planId :: "string option"
  pa_actorId :: "string option"
  pa_amountPkr :: int
  pa_method :: payment_method
  pa_status :: payment_status
  pa_reference :: "string option"
  pa_proofKey :: "string option"
  pa_note :: "string option"
  pa_paidAt :: instant

record access_group =
  ag_id :: string
  ag_name :: string

record group_member =
  gm_id :: string
  gm_groupId :: string
  gm_userId :: string
  gm_startsAt :: instant
  gm_endsAt :: instant
  gm_revokedAt :: "instant option"
  gm_comment :: "string option"
  gm_subscription :: bool

record episode_grant =
  eg_id :: string
  eg_episodeId :: string
  eg_userId :: "string option"
  eg_groupId :: "string option"
  eg_startsAt :: instant
  eg_endsAt :: instant
  eg_status :: grant_status
  eg_revokedAt :: "instant option"
  eg_createdAt :: instant

record grant_history =
  gh_grantId :: string
  gh_actorId :: "string option"
  gh_action :: string
  gh_oldStatus :: "grant_status option"
  gh_newStatus :: "grant_status option"
  gh_oldEndsAt :: "instant option"
  gh_newEndsAt :: "instant option"
  gh_note :: "string option"
  gh_createdAt :: instant

section \<open>Content\<close>

record drama =
  dr_id :: string
  dr_name :: string
  dr_slug :: string
  dr_dramaNumber :: "int option"
  dr_totalSeasons :: int
  dr_description :: "string option"
  dr_thumbnailKey :: "string option"
  dr_isPublished :: bool
  dr_createdAt :: instant
  dr_deletedAt :: "instant option"

record season =
  se_id :: string
  se_dramaId :: string
  se_seasonNumber :: int
  se_title :: "string option"
  se_totalEpisodes :: int
  se_thumbnailKey :: "string option"
  se_createdAt :: instant
  se_deletedAt :: "instant option"

record episode =
  ep_id :: string
  ep_seasonId :: string
  ep_episodeNumber :: int
  ep_title :: "string option"
  ep_description :: "string option"
  ep_thumbnailKey :: "string option"
  ep_isPublished :: bool
  ep_status :: episode_status
  ep_visibility :: content_visibility
  ep_isPremium :: bool
  ep_downloadAccess :: download_access
  ep_createdAt :: instant
  ep_deletedAt :: "instant option"

record media_asset =
  ma_id :: string
  ma_episodeId :: string
  ma_kind :: media_type
  ma_mediaType :: media_type
  ma_provider :: string
  ma_encryptedLocator :: string
  ma_checksum :: "string option"
  ma_status :: media_status
  ma_metadata :: "(string \<times> json) list option"
  ma_version :: int
  ma_durationSeconds :: "int option"
  ma_sizeBytes :: "int option"
  ma_createdAt :: instant
  ma_rotatedAt :: "instant option"
  ma_deletedAt :: "instant option"

section \<open>Playback\<close>

record playback_session =
  ps_id :: string
  ps_userId :: string
  ps_episodeId :: string
  ps_mediaAssetId :: string
  ps_trustedDeviceId :: string
  ps_capabilityJti :: string
  ps_capabilityHash :: string
  ps_deviceFingerprintHash :: string
  ps_ipAddress :: string
  ps_userAgent :: string
  ps_status :: playback_status
  ps_startedAt :: instant
  ps_lastSeenAt :: instant
  ps_expiresAt :: instant
  ps_closedAt :: "instant option"
  ps_revokedAt :: "instant option"
  ps_lastPositionSeconds :: int
  ps_watchedSeconds :: int

record playback_heartbeat =
  hb_playbackSessionId :: string
  hb_positionSeconds :: int
  hb_bufferedSeconds :: "int option"
  hb_createdAt :: instant

record playback_history =
  ph_userId :: string
  ph_episodeId :: string
  ph_playbackSessionId :: string
  ph_startedAt :: instant
  ph_endedAt :: "instant option"
  ph_lastPositionSeconds :: int
  ph_watchedSeconds :: int
  ph_updatedAt :: instant

text \<open>\<open>PlaybackCapabilityPayload\<close>: the claims of a playback token, the optional registered claims aside.\<close>

record capability_payload =
  cp_sub :: string
  cp_sid :: string
  cp_jti :: string
  cp_uid :: string
  cp_eid :: string
  cp_mid :: string
  cp_did :: string
  cp_fp :: string
  cp_typ :: string

text \<open>\<open>PlaybackCapabilityState\<close>: what Redis keeps for a token that is still good.\<close>

record capability_state =
  cs_sessionId :: string
  cs_userId :: string
  cs_deviceId :: string
  cs_fingerprintHash :: string
  cs_mediaAssetId :: string
  cs_episodeId :: string
  cs_expiresAt :: instant
  cs_lastSeenAt :: instant
  cs_requestCount :: nat

section \<open>Support chat\<close>

record support_conversation =
  sc_id :: string
  sc_userId :: string
  sc_assignedAdminId :: "string option"
  sc_status :: conversation_status
  sc_lastMessageId :: "string option"
  sc_lastMessageAt :: "instant option"
  sc_userUnreadCount :: nat
  sc_adminUnreadCount :: nat
  sc_userLastSeenAt :: "instant option"
  sc_adminLastSeenAt :: "instant option"
  sc_createdAt :: instant
  sc_deletedAt :: "instant option"

record support_message =
  sm_id :: string
  sm_conversationId :: string
  sm_senderType :: sender_type
  sm_senderId :: "string option"
  sm_messageType :: message_type
  sm_text :: "string option"
  sm_mediaUrl :: "string option"
  sm_thumbnail :: "string option"
  sm_voiceDuration :: "int option"
  sm_fileSize :: "int option"
  sm_mimeType :: "string option"
  sm_replyToMessageId :: "string option"
  sm_status :: message_status
  sm_deliveredAt :: "instant option"
  sm_seenAt :: "instant option"
  sm_deletedByUser :: bool
  sm_deletedByAdmin :: bool
  sm_createdAt :: instant

section \<open>Redis entries\<close>

text \<open>\<open>MediaResourceState\<close> of the media gateway.\<close>

datatype resource_kind = Kind_manifest | Kind_segment

record media_resource =
  mr_sessionId :: string
  mr_mediaAssetId :: string
  mr_upstreamUrl :: string
  mr_kind :: resource_kind
  mr_expiresAt :: instant

text \<open>\<open>R2Part\<close> and \<open>UploadManifest\<close> of the upload service.\<close>

record r2_part =
  pt_chunkIndex :: int
  pt_partNumber :: int
  pt_eTag :: string
  pt_size :: int

record r2_state =
  r2_key :: string
  r2_providerUploadId :: string
  r2_parts :: "r2_part list"
  r2_uploadedBytes :: int

record upload_manifest =
  um_purpose :: string
  um_targetId :: "string option"
  um_originalName :: string
  um_mimeType :: string
  um_sizeBytes :: int
  um_totalChunks :: int
  um_uploadId :: string
  um_actorId :: string
  um_createdAt :: instant
  um_chunks :: "int list"
  um_r2 :: "r2_state option"

text \<open>
  A Redis value with the instant at which it expires, if it has a time to live. The JSON text of
  the source is parsed back to the same value, so the entry is the value.
\<close>

datatype redis_value =
    R_capability capability_state
  | R_resource media_resource
  | R_manifest upload_manifest
  | R_counter nat

type_synonym redis_store = "string \<Rightarrow> (redis_value \<times> instant option) option"

section \<open>The state\<close>

record state =
  users :: "user list"
  refreshSessions :: "refresh_session list"
  trustedDevices :: "trusted_device list"
  loginHistories :: "login_history list"
  roleDefinitions :: "role_definition list"
  permissions :: "permission list"
  userRoles :: "user_role list"
  rolePermissions :: "role_permission list"
  userPermissions :: "user_permission list"
  auditEvents :: "audit_event list"
  subscriptionPlans :: "subscription_plan list"
  subscriptions :: "subscription list"
  subscriptionHistories :: "subscription_history list"
  paymentRecords :: "payment_record list"
  accessGroups :: "access_group list"
  groupMembers :: "group_member list"
  episodeGrants :: "episode_grant list"
  grantHistories :: "grant_history list"
  dramas :: "drama list"
  seasons :: "season list"
  episodes :: "episode list"
  mediaAssets :: "media_asset list"
  playbackSessions :: "playback_session list"
  playbackHeartbeats :: "playback_heartbeat list"
  playbackHistories :: "playback_history list"
  supportConversations :: "support_conversation list"
  supportMessages :: "support_message list"
  redis_ready :: bool
  redis :: redis_store

type_synonym 'a handler = "(state, 'a) prog"

definition empty_state :: state where
  "empty_state =
     \<lparr>users = [], refreshSessions = [], trustedDevices = [], loginHistories = [],
      roleDefinitions = [], permissions = [], userRoles = [], rolePermissions = [],
      userPermissions = [], auditEvents = [], subscriptionPlans = [], subscriptions = [],
      subscriptionHistories = [], paymentRecords = [], accessGroups = [], groupMembers = [],
      episodeGrants = [], grantHistories = [], dramas = [], seasons = [], episodes = [],
      mediaAssets = [], playbackSessions = [], playbackHeartbeats = [], playbackHistories = [],
      supportConversations = [], supportMessages = [], redis_ready = True, redis = Map.empty\<rparr>"

section \<open>Requests, principals, configuration, third-party functions\<close>

text \<open>
  A request is handled at one instant (\<open>new Date()\<close> and \<open>Date.now()\<close> of one handler
  invocation are the same reading).
\<close>

record request =
  rq_now :: instant
  rq_ip :: string
  rq_userAgent :: string
  rq_id :: string

text \<open>\<open>AuthenticatedPrincipal\<close>.\<close>

record principal =
  pr_id :: string
  pr_sessionId :: string
  pr_roles :: "role_code list"
  pr_permissions :: "string list"
  pr_status :: user_status

text \<open>The validated environment variables that the modelled code reads.\<close>

record config =
  cf_argon2DummyHash :: string
  cf_refreshTtlDays :: int
  cf_accessTtlSeconds :: int
  cf_maxTrustedDevices :: nat
  cf_capabilityTtlSeconds :: int
  cf_maxConcurrentPlayback :: nat
  cf_mediaGatewayPublicUrl :: string
  cf_r2Bucket :: string
  cf_r2PublicBaseUrl :: string
  cf_maxUploadBytes :: int

text \<open>
  The cryptographic libraries (node:crypto, argon2, \<open>@nestjs/jwt\<close>): parameters of the model.
  \<open>pf_argonHash\<close> is the salted hash that \<open>argon2.hash\<close> returns in this request;
  \<open>pf_signAccess\<close> takes the claims \<open>sub\<close> and \<open>sid\<close>, \<open>pf_verifyAccess\<close> gives them back
  for a token that verifies at that instant.
\<close>

record platform =
  pf_sha256 :: "string \<Rightarrow> string"
  pf_argonHash :: "string \<Rightarrow> string"
  pf_argonVerify :: "string \<Rightarrow> string \<Rightarrow> bool"
  pf_signAccess :: "string \<Rightarrow> string \<Rightarrow> string"
  pf_verifyAccess :: "string \<Rightarrow> instant \<Rightarrow> (string \<times> string) option"
  pf_signPlayback :: "capability_payload \<Rightarrow> instant \<Rightarrow> int \<Rightarrow> string"
  pf_verifyPlayback :: "string \<Rightarrow> instant \<Rightarrow> capability_payload option"

section \<open>Audit trail\<close>

text \<open>\<open>AuditInput\<close> and \<open>AuditService.write\<close>: the event is appended.\<close>

definition audit_input :: "request \<Rightarrow> string option \<Rightarrow> string \<Rightarrow> string \<Rightarrow> string option
    \<Rightarrow> audit_outcome \<Rightarrow> (string \<times> json) list \<Rightarrow> audit_event" where
  "audit_input rq actor action resource resourceId outcome metadata =
     \<lparr>au_actorId = actor, au_action = action, au_resource = resource,
      au_resourceId = resourceId, au_outcome = outcome, au_requestId = rq_id rq,
      au_ipAddress = None, au_userAgent = None, au_metadata = metadata,
      au_createdAt = rq_now rq\<rparr>"

text \<open>The calls that also pass \<open>ipAddress\<close> and \<open>userAgent\<close>.\<close>

definition with_client :: "request \<Rightarrow> audit_event \<Rightarrow> audit_event" where
  "with_client rq e = e\<lparr>au_ipAddress := Some (rq_ip rq), au_userAgent := Some (rq_userAgent rq)\<rparr>"

definition audit_write :: "audit_event \<Rightarrow> unit handler" where
  "audit_write e = modify (\<lambda>s. s\<lparr>auditEvents := auditEvents s @ [e]\<rparr>)"

lemma audit_write_apply [simp, prog_simps]:
  "audit_write e s = (Inr (), s\<lparr>auditEvents := auditEvents s @ [e]\<rparr>)"
  by (simp add: audit_write_def)

lemma and_then_audit_write [simp, prog_simps]:
  "and_then (audit_write e) k s = k () (s\<lparr>auditEvents := auditEvents s @ [e]\<rparr>)"
  by (simp add: audit_write_def)

lemma keeps_audit_write [keeps_rules]:
  "(\<And>s es. I s \<Longrightarrow> I (s\<lparr>auditEvents := es\<rparr>)) \<Longrightarrow> keeps I (audit_write e)"
  by (auto simp: audit_write_def intro: keeps_rules)

end
