(* ===== verification/Redis.thy ===== *)
theory Redis
  imports Schema
begin

text \<open>
  \<open>src/common/redis/redis.service.ts\<close>: the four operations the services use, over the Redis
  store of the state. \<open>redis_ready\<close> is \<open>client.isReady\<close> after \<open>ensureConnected\<close>; when it
  is false every operation throws before it touches the store. An entry whose expiry has come is
  gone, as Redis documents for \<open>EX\<close> and \<open>EXPIRE\<close>.

  \<open>timed_cache\<close> is the contract a client relies on: a value can be read back until its time to
  live has passed, not after it was deleted, and other keys are untouched.
\<close>

definition redis_read :: "redis_store \<Rightarrow> instant \<Rightarrow> string \<Rightarrow> redis_value option" where
  "redis_read m now k =
     (case m k of
        None \<Rightarrow> None
      | Some (v, None) \<Rightarrow> Some v
      | Some (v, Some e) \<Rightarrow> if now < e then Some v else None)"

definition redis_write :: "redis_store \<Rightarrow> instant \<Rightarrow> string \<Rightarrow> redis_value \<Rightarrow> int \<Rightarrow> redis_store" where
  "redis_write m now k v ttlSeconds = m(k \<mapsto> (v, Some (now + ttlSeconds * 1000)))"

definition redis_remove :: "redis_store \<Rightarrow> string \<Rightarrow> redis_store" where
  "redis_remove m k = m(k := None)"

definition set_json :: "instant \<Rightarrow> string \<Rightarrow> redis_value \<Rightarrow> int \<Rightarrow> unit handler" where
  "set_json now k v ttlSeconds =
     and_then (gets redis_ready) (\<lambda>ready.
     and_then (require ready (ServiceUnavailable ''Redis is unavailable'')) (\<lambda>_.
     modify (\<lambda>s. s\<lparr>redis := redis_write (redis s) now k v ttlSeconds\<rparr>)))"

definition get_json :: "instant \<Rightarrow> string \<Rightarrow> redis_value option handler" where
  "get_json now k =
     and_then (gets redis_ready) (\<lambda>ready.
     and_then (require ready (ServiceUnavailable ''Redis is unavailable'')) (\<lambda>_.
     gets (\<lambda>s. redis_read (redis s) now k)))"

definition delete_key :: "string \<Rightarrow> unit handler" where
  "delete_key k =
     and_then (gets redis_ready) (\<lambda>ready.
     and_then (require ready (ServiceUnavailable ''Redis is unavailable'')) (\<lambda>_.
     modify (\<lambda>s. s\<lparr>redis := redis_remove (redis s) k\<rparr>)))"

text \<open>
  \<open>INCR\<close> keeps the expiry of a live key and starts a missing one at 1; the time to live is set
  only when the count is 1.
\<close>

definition live_counter :: "redis_store \<Rightarrow> instant \<Rightarrow> string \<Rightarrow> nat" where
  "live_counter m now k = (case redis_read m now k of Some (R_counter n) \<Rightarrow> n | _ \<Rightarrow> 0)"

definition increment_with_expiry :: "instant \<Rightarrow> string \<Rightarrow> int \<Rightarrow> nat handler" where
  "increment_with_expiry now k ttlSeconds =
     and_then (gets redis_ready) (\<lambda>ready.
     and_then (require ready (ServiceUnavailable ''Rate-limit service is unavailable'')) (\<lambda>_.
     and_then (gets redis) (\<lambda>m.
       let count = Suc (live_counter m now k);
           expiry = (if redis_read m now k = None then None else Option.bind (m k) snd);
           expiry' = (if count = 1 then Some (now + ttlSeconds * 1000) else expiry)
       in and_then (modify (\<lambda>s. s\<lparr>redis := m(k \<mapsto> (R_counter count, expiry'))\<rparr>)) (\<lambda>_. ret count))))"

section \<open>The cache contract\<close>

locale timed_cache =
  fixes put :: "'m \<Rightarrow> instant \<Rightarrow> 'k \<Rightarrow> 'v \<Rightarrow> int \<Rightarrow> 'm"
    and look :: "'m \<Rightarrow> instant \<Rightarrow> 'k \<Rightarrow> 'v option"
    and drop_key :: "'m \<Rightarrow> 'k \<Rightarrow> 'm"
  assumes look_put: "look (put m now k v ttl) t k = (if t < now + ttl * 1000 then Some v else None)"
    and look_put_other: "k \<noteq> k' \<Longrightarrow> look (put m now k v ttl) t k' = look m t k'"
    and look_drop: "look (drop_key m k) t k = None"
    and look_drop_other: "k \<noteq> k' \<Longrightarrow> look (drop_key m k) t k' = look m t k'"
begin

lemma put_fresh: "0 < ttl \<Longrightarrow> look (put m now k v ttl) now k = Some v"
  by (simp add: look_put)

lemma put_replaces: "look (put m now k v ttl) t k = Some w \<Longrightarrow> w = v"
  by (simp add: look_put split: if_splits)

lemma drop_then_put_other:
  "old \<noteq> new \<Longrightarrow> look (put (drop_key m old) now new v ttl) t old = None"
  by (simp add: look_put_other look_drop)

lemma expired: "now + ttl * 1000 \<le> t \<Longrightarrow> look (put m now k v ttl) t k = None"
  by (simp add: look_put)

end

interpretation rc: timed_cache redis_write redis_read redis_remove
  by unfold_locales (auto simp: redis_write_def redis_read_def redis_remove_def)

lemma set_json_apply [simp, prog_simps]:
  "set_json now k v ttl s =
     (if redis_ready s then (Inr (), s\<lparr>redis := redis_write (redis s) now k v ttl\<rparr>)
      else (Inl (ServiceUnavailable ''Redis is unavailable''), s))"
  by (simp add: set_json_def)

lemma get_json_apply [simp, prog_simps]:
  "get_json now k s =
     (if redis_ready s then (Inr (redis_read (redis s) now k), s)
      else (Inl (ServiceUnavailable ''Redis is unavailable''), s))"
  by (simp add: get_json_def)

lemma delete_key_apply [simp, prog_simps]:
  "delete_key k s =
     (if redis_ready s then (Inr (), s\<lparr>redis := redis_remove (redis s) k\<rparr>)
      else (Inl (ServiceUnavailable ''Redis is unavailable''), s))"
  by (simp add: delete_key_def)

lemma keeps_set_json [keeps_rules]:
  "(\<And>s m. I s \<Longrightarrow> I (s\<lparr>redis := m\<rparr>)) \<Longrightarrow> keeps I (set_json now k v ttl)"
  by (auto simp: keeps_def)

lemma keeps_get_json [keeps_rules]: "keeps I (get_json now k)"
  by (auto simp: keeps_def)

lemma keeps_delete_key [keeps_rules]:
  "(\<And>s m. I s \<Longrightarrow> I (s\<lparr>redis := m\<rparr>)) \<Longrightarrow> keeps I (delete_key k)"
  by (auto simp: keeps_def)

lemma increment_apply:
  "increment_with_expiry now k ttl s =
     (if redis_ready s then
        (Inr (Suc (live_counter (redis s) now k)),
         s\<lparr>redis := (redis s)(k \<mapsto> (R_counter (Suc (live_counter (redis s) now k)),
            if live_counter (redis s) now k = 0 then Some (now + ttl * 1000)
            else if redis_read (redis s) now k = None then None
            else Option.bind (redis s k) snd))\<rparr>)
      else (Inl (ServiceUnavailable ''Rate-limit service is unavailable''), s))"
  by (simp add: increment_with_expiry_def Let_def)

text \<open>Within its window a counter counts up and keeps the expiry of its first request.\<close>

lemma increment_counts:
  assumes "redis_ready s" and "redis s k = Some (R_counter (Suc n), Some e)" and "now < e"
  shows "increment_with_expiry now k ttl s =
    (Inr (Suc (Suc n)), s\<lparr>redis := (redis s)(k \<mapsto> (R_counter (Suc (Suc n)), Some e))\<rparr>)"
  using assms by (simp add: increment_apply live_counter_def redis_read_def)

lemma increment_starts:
  assumes "redis_ready s" and "redis_read (redis s) now k = None"
  shows "increment_with_expiry now k ttl s =
    (Inr 1, s\<lparr>redis := (redis s)(k \<mapsto> (R_counter 1, Some (now + ttl * 1000)))\<rparr>)"
  using assms by (simp add: increment_apply live_counter_def)

end
