(* ===== verification/Principals.thy ===== *)
theory Principals
  imports Redis
begin

text \<open>
  Who is asking, and may they: \<open>JwtStrategy.validate\<close> (\<open>src/common/auth/jwt.strategy.ts\<close>)
  and the four global guards of \<open>app.module.ts\<close>, in their order: \<open>JwtAuthGuard\<close>,
  \<open>RolesGuard\<close>, \<open>PermissionGuard\<close>, \<open>RedisRateLimitGuard\<close>. Route metadata
  (\<open>@Public\<close>, \<open>@Roles\<close>, \<open>@Permissions\<close>, \<open>@RateLimit\<close>) is a record.
\<close>

section \<open>Role and permission joins\<close>

definition find_user :: "state \<Rightarrow> string \<Rightarrow> user option" where
  "find_user s uid = find_first (\<lambda>u. u_id u = uid) (users s)"

text \<open>\<open>user: { deletedAt: null }\<close> as a relation filter.\<close>

definition user_not_deleted :: "state \<Rightarrow> string \<Rightarrow> bool" where
  "user_not_deleted s uid \<longleftrightarrow> (\<exists>u\<in>set (users s). u_id u = uid \<and> u_deletedAt u = None)"

definition roles_of_user :: "state \<Rightarrow> string \<Rightarrow> role_definition list" where
  "roles_of_user s uid =
     concat (map (\<lambda>ur. filter (\<lambda>ro. ro_id ro = ur_roleId ur) (roleDefinitions s))
       (filter (\<lambda>ur. ur_userId ur = uid) (userRoles s)))"

definition codes_of_role :: "state \<Rightarrow> string \<Rightarrow> string list" where
  "codes_of_role s rid =
     concat (map (\<lambda>rp. map pe_code (filter (\<lambda>pe. pe_id pe = rp_permissionId rp) (permissions s)))
       (filter (\<lambda>rp. rp_roleId rp = rid) (rolePermissions s)))"

definition direct_codes :: "state \<Rightarrow> string \<Rightarrow> string list" where
  "direct_codes s uid =
     concat (map (\<lambda>up. map pe_code (filter (\<lambda>pe. pe_id pe = up_permissionId up) (permissions s)))
       (filter (\<lambda>up. up_userId up = uid \<and> up_granted up) (userPermissions s)))"

section \<open>JwtStrategy\<close>

definition access_session :: "state \<Rightarrow> instant \<Rightarrow> string \<Rightarrow> string \<Rightarrow> refresh_session option" where
  "access_session s now sub sid =
     find_first (\<lambda>r. rs_id r = sid \<and> rs_userId r = sub \<and> rs_revokedAt r = None
       \<and> now < rs_expiresAt r \<and> user_not_deleted s (rs_userId r)) (refreshSessions s)"

definition principal_of :: "state \<Rightarrow> user \<Rightarrow> string \<Rightarrow> principal" where
  "principal_of s u sid =
     (let rs = roles_of_user s (u_id u) in
      \<lparr>pr_id = u_id u, pr_sessionId = sid, pr_roles = map ro_code rs,
       pr_permissions = js_set (concat (map (\<lambda>ro. codes_of_role s (ro_id ro)) rs) @ direct_codes s (u_id u)),
       pr_status = u_status u\<rparr>)"

definition jwt_validate :: "instant \<Rightarrow> string \<Rightarrow> string \<Rightarrow> principal handler" where
  "jwt_validate now sub sid =
     and_then (gets (\<lambda>s. access_session s now sub sid)) (\<lambda>session.
     and_then (expect session (Unauthorized ''Authentication session is no longer valid'')) (\<lambda>r.
     and_then (gets (\<lambda>s. find_user s (rs_userId r))) (\<lambda>u.
     and_then (expect u (Unauthorized ''Authentication session is no longer valid'')) (\<lambda>u.
     and_then (require (u_status u = User_ACTIVE)
                (Unauthorized ''Authentication session is no longer valid'')) (\<lambda>_.
     gets (\<lambda>s. principal_of s u sid))))))"

text \<open>The specification: a live session of an active account that is not deleted.\<close>

definition live_session :: "state \<Rightarrow> instant \<Rightarrow> string \<Rightarrow> string \<Rightarrow> bool" where
  "live_session s now sub sid \<longleftrightarrow>
     (\<exists>r\<in>set (refreshSessions s). rs_id r = sid \<and> rs_userId r = sub \<and> rs_revokedAt r = None
        \<and> now < rs_expiresAt r)"

definition active_account :: "state \<Rightarrow> string \<Rightarrow> bool" where
  "active_account s uid \<longleftrightarrow>
     (\<exists>u\<in>set (users s). u_id u = uid \<and> u_deletedAt u = None \<and> u_status u = User_ACTIVE)"

definition users_wf :: "state \<Rightarrow> bool" where
  "users_wf s \<longleftrightarrow> distinct (map u_id (users s))"

lemma find_user_key: "users_wf s \<Longrightarrow> u \<in> set (users s) \<Longrightarrow> find_user s (u_id u) = Some u"
  unfolding find_user_def users_wf_def by (rule find_first_key [where k = u_id]) auto

lemma find_user_Some: "find_user s uid = Some u \<Longrightarrow> u \<in> set (users s) \<and> u_id u = uid"
  unfolding find_user_def by (drule find_first_Some) simp

lemma access_session_Some:
  "access_session s now sub sid = Some r \<Longrightarrow>
     r \<in> set (refreshSessions s) \<and> rs_id r = sid \<and> rs_userId r = sub \<and> rs_revokedAt r = None
       \<and> now < rs_expiresAt r \<and> user_not_deleted s sub"
  unfolding access_session_def by (drule find_first_Some) auto

lemma access_session_ex:
  "(\<exists>r. access_session s now sub sid = Some r) \<longleftrightarrow>
     live_session s now sub sid \<and> user_not_deleted s sub"
  by (auto simp: access_session_def find_first_ex live_session_def)

lemma jwt_validate_state: "jwt_validate now sub sid s = (r, s') \<Longrightarrow> s' = s"
  by (auto simp: jwt_validate_def split: option.splits if_splits)

lemma jwt_validate_Inr:
  "jwt_validate now sub sid s = (Inr p, s') \<longleftrightarrow>
     s' = s \<and> (\<exists>r u. access_session s now sub sid = Some r \<and> find_user s (rs_userId r) = Some u
       \<and> u_status u = User_ACTIVE \<and> p = principal_of s u sid)"
  by (auto simp: jwt_validate_def split: option.splits if_splits)

lemma jwt_validate_iff:
  assumes wf: "users_wf s"
  shows "(\<exists>p. jwt_validate now sub sid s = (Inr p, s)) \<longleftrightarrow>
           live_session s now sub sid \<and> active_account s sub"
proof
  assume "\<exists>p. jwt_validate now sub sid s = (Inr p, s)"
  then obtain r u where r: "access_session s now sub sid = Some r"
    and u: "find_user s (rs_userId r) = Some u" "u_status u = User_ACTIVE"
    by (auto simp: jwt_validate_Inr)
  from access_session_Some [OF r] have "live_session s now sub sid" "user_not_deleted s sub"
    "rs_userId r = sub" by (auto simp: live_session_def)
  moreover have "active_account s sub"
    using wf u calculation unfolding active_account_def user_not_deleted_def users_wf_def
    by (metis find_user_Some unique_key)
  ultimately show "live_session s now sub sid \<and> active_account s sub" by simp
next
  assume h: "live_session s now sub sid \<and> active_account s sub"
  then obtain u where u: "u \<in> set (users s)" "u_id u = sub" "u_deletedAt u = None"
    "u_status u = User_ACTIVE" by (auto simp: active_account_def)
  from h u have "live_session s now sub sid \<and> user_not_deleted s sub"
    by (auto simp: user_not_deleted_def)
  then obtain r where r: "access_session s now sub sid = Some r"
    by (metis access_session_ex)
  have "find_user s (rs_userId r) = Some u"
    using access_session_Some [OF r] find_user_key [OF wf u(1)] u(2) by simp
  with r u show "\<exists>p. jwt_validate now sub sid s = (Inr p, s)"
    by (auto simp: jwt_validate_Inr)
qed

text \<open>Where a principal's rights come from.\<close>

lemma set_roles_of_user:
  "set (roles_of_user s uid) = {ro \<in> set (roleDefinitions s).
     \<exists>ur\<in>set (userRoles s). ur_userId ur = uid \<and> ur_roleId ur = ro_id ro}"
  by (auto simp: roles_of_user_def)

lemma set_codes_of_role:
  "set (codes_of_role s rid) = pe_code ` {pe \<in> set (permissions s).
     \<exists>rp\<in>set (rolePermissions s). rp_roleId rp = rid \<and> pe_id pe = rp_permissionId rp}"
  by (auto simp: codes_of_role_def intro!: imageI)

lemma set_direct_codes:
  "set (direct_codes s uid) = pe_code ` {pe \<in> set (permissions s).
     \<exists>up\<in>set (userPermissions s). up_userId up = uid \<and> up_granted up \<and> pe_id pe = up_permissionId up}"
  by (auto simp: direct_codes_def intro!: imageI)

lemma principal_of_simps [simp]:
  "pr_id (principal_of s u sid) = u_id u"
  "pr_sessionId (principal_of s u sid) = sid"
  "pr_status (principal_of s u sid) = u_status u"
  by (simp_all add: principal_of_def Let_def)

lemma set_principal_permissions:
  "set (pr_permissions (principal_of s u sid)) =
     (\<Union>ro\<in>set (roles_of_user s (u_id u)). set (codes_of_role s (ro_id ro))) \<union> set (direct_codes s (u_id u))"
  by (simp add: principal_of_def Let_def)

section \<open>Guards\<close>

record rate_limit =
  rl_limit :: nat
  rl_windowSeconds :: int
  rl_scope :: "string option"

record route =
  rt_method :: string
  rt_path :: string
  rt_public :: bool
  rt_roles :: "role_code list"
  rt_permissions :: "string list"
  rt_rateLimit :: "rate_limit option"

definition jwt_auth_guard :: "platform \<Rightarrow> request \<Rightarrow> route \<Rightarrow> string option \<Rightarrow> principal option handler" where
  "jwt_auth_guard pf rq rt bearer =
     (if rt_public rt then ret None
      else and_then (expect (Option.bind bearer (\<lambda>t. pf_verifyAccess pf t (rq_now rq)))
                      (Unauthorized ''Unauthorized'')) (\<lambda>(sub, sid).
           and_then (jwt_validate (rq_now rq) sub sid) (\<lambda>p. ret (Some p))))"

definition roles_guard :: "route \<Rightarrow> principal option \<Rightarrow> unit handler" where
  "roles_guard rt p =
     (if rt_roles rt = [] then ret ()
      else case p of
        None \<Rightarrow> throw (Forbidden ''Insufficient permissions'')
      | Some q \<Rightarrow> require (\<exists>r\<in>set (rt_roles rt). r \<in> set (pr_roles q)) (Forbidden ''Insufficient permissions''))"

definition permission_guard :: "route \<Rightarrow> principal option \<Rightarrow> unit handler" where
  "permission_guard rt p =
     (if rt_permissions rt = [] then ret ()
      else case p of
        None \<Rightarrow> throw (Forbidden ''Insufficient permissions'')
      | Some q \<Rightarrow> require (SUPER_ADMIN \<in> set (pr_roles q)
                     \<or> (\<forall>c\<in>set (rt_permissions rt). c \<in> set (pr_permissions q)))
                   (Forbidden ''Insufficient permissions''))"

definition default_limit :: rate_limit where
  "default_limit = \<lparr>rl_limit = 120, rl_windowSeconds = 60, rl_scope = Some ''global''\<rparr>"

definition rate_limit_of :: "route \<Rightarrow> rate_limit" where
  "rate_limit_of rt = (case rt_rateLimit rt of None \<Rightarrow> default_limit | Some o' \<Rightarrow> o')"

definition rate_key :: "request \<Rightarrow> route \<Rightarrow> principal option \<Rightarrow> string" where
  "rate_key rq rt p =
     (let actor = (case p of Some q \<Rightarrow> pr_id q | None \<Rightarrow> rq_ip rq);
          path = rt_method rt @ '':'' @ rt_path rt;
          scope = (case rl_scope (rate_limit_of rt) of None \<Rightarrow> ''route'' | Some sc \<Rightarrow> sc)
      in ''rl:'' @ scope @ '':'' @ path @ '':'' @ actor)"

definition rate_limit_guard :: "request \<Rightarrow> route \<Rightarrow> principal option \<Rightarrow> unit handler" where
  "rate_limit_guard rq rt p =
     and_then (catch_error
         (increment_with_expiry (rq_now rq) (rate_key rq rt p) (rl_windowSeconds (rate_limit_of rt)))
         (\<lambda>_. ret 0)) (\<lambda>count.
     if rl_limit (rate_limit_of rt) < count then throw (TooManyRequests ''Rate limit exceeded'') else ret ())"

text \<open>The guards of \<open>AppModule\<close>, in the order of its providers.\<close>

definition guard_request :: "platform \<Rightarrow> request \<Rightarrow> route \<Rightarrow> string option \<Rightarrow> principal option handler" where
  "guard_request pf rq rt bearer =
     and_then (jwt_auth_guard pf rq rt bearer) (\<lambda>p.
     and_then (roles_guard rt p) (\<lambda>_.
     and_then (permission_guard rt p) (\<lambda>_.
     and_then (rate_limit_guard rq rt p) (\<lambda>_. ret p))))"

lemma roles_guard_Inr:
  "roles_guard rt p s = (Inr (), s') \<longleftrightarrow> s' = s \<and>
     (rt_roles rt = [] \<or> (\<exists>q. p = Some q \<and> (\<exists>r\<in>set (rt_roles rt). r \<in> set (pr_roles q))))"
  by (auto simp: roles_guard_def split: option.splits)

lemma permission_guard_Inr:
  "permission_guard rt p s = (Inr (), s') \<longleftrightarrow> s' = s \<and>
     (rt_permissions rt = [] \<or> (\<exists>q. p = Some q \<and>
        (SUPER_ADMIN \<in> set (pr_roles q) \<or> set (rt_permissions rt) \<subseteq> set (pr_permissions q))))"
  by (auto simp: permission_guard_def split: option.splits)

lemma jwt_auth_guard_Inr:
  "jwt_auth_guard pf rq rt bearer s = (Inr p, s') \<longleftrightarrow> s' = s \<and>
     (if rt_public rt then p = None
      else \<exists>t sub sid q. bearer = Some t \<and> pf_verifyAccess pf t (rq_now rq) = Some (sub, sid)
        \<and> p = Some q \<and> jwt_validate (rq_now rq) sub sid s = (Inr q, s))"
proof (cases "rt_public rt")
  case True
  then show ?thesis by (auto simp: jwt_auth_guard_def)
next
  case False
  show ?thesis
  proof (cases "Option.bind bearer (\<lambda>t. pf_verifyAccess pf t (rq_now rq))")
    case None
    then have "\<And>t. bearer = Some t \<Longrightarrow> pf_verifyAccess pf t (rq_now rq) = None"
      by (simp add: bind_eq_None_conv)
    with False None show ?thesis
      by (auto simp: jwt_auth_guard_def)
  next
    case (Some c)
    then obtain t where "bearer = Some t" "pf_verifyAccess pf t (rq_now rq) = Some c"
      by (auto simp: bind_eq_Some_conv)
    with False show ?thesis
      by (cases c) (auto simp: jwt_auth_guard_def and_then_Inr dest: jwt_validate_state)
  qed
qed

lemma guard_request_Inr:
  assumes "guard_request pf rq rt bearer s = (Inr p, s')" and "\<not> rt_public rt"
  shows "\<exists>t sub sid q. bearer = Some t \<and> pf_verifyAccess pf t (rq_now rq) = Some (sub, sid)
     \<and> p = Some q \<and> jwt_validate (rq_now rq) sub sid s = (Inr q, s)
     \<and> roles_guard rt p s = (Inr (), s) \<and> permission_guard rt p s = (Inr (), s)"
  using assms
  by (auto simp: guard_request_def and_then_Inr jwt_auth_guard_Inr roles_guard_Inr permission_guard_Inr)

section \<open>Rate limiting over a window\<close>

text \<open>One actor calling one route at the given instants: which calls get through.\<close>

fun rate_run :: "request \<Rightarrow> route \<Rightarrow> principal option \<Rightarrow> instant list \<Rightarrow> state \<Rightarrow> bool list" where
  "rate_run rq rt p [] s = []"
| "rate_run rq rt p (t # ts) s =
     (case rate_limit_guard (rq\<lparr>rq_now := t\<rparr>) rt p s of
        (r, s') \<Rightarrow> (case r of Inr _ \<Rightarrow> True | Inl _ \<Rightarrow> False) # rate_run rq rt p ts s')"

lemma rate_key_now [simp]: "rate_key (rq\<lparr>rq_now := t\<rparr>) rt p = rate_key rq rt p"
  by (simp add: rate_key_def split: option.split)

lemma rate_guard_starts:
  assumes "redis_ready s" and "redis_read (redis s) t (rate_key rq rt p) = None"
  shows "rate_limit_guard (rq\<lparr>rq_now := t\<rparr>) rt p s =
    (if rl_limit (rate_limit_of rt) < 1 then Inl (TooManyRequests ''Rate limit exceeded'') else Inr (),
     s\<lparr>redis := (redis s)(rate_key rq rt p \<mapsto>
        (R_counter 1, Some (t + rl_windowSeconds (rate_limit_of rt) * 1000)))\<rparr>)"
  using increment_starts [OF assms] by (simp add: rate_limit_guard_def catch_error_def and_then_def)

lemma rate_guard_counts:
  assumes "redis_ready s" and "redis s (rate_key rq rt p) = Some (R_counter (Suc n), Some e)" and "t < e"
  shows "rate_limit_guard (rq\<lparr>rq_now := t\<rparr>) rt p s =
    (if rl_limit (rate_limit_of rt) < Suc (Suc n) then Inl (TooManyRequests ''Rate limit exceeded'') else Inr (),
     s\<lparr>redis := (redis s)(rate_key rq rt p \<mapsto> (R_counter (Suc (Suc n)), Some e))\<rparr>)"
  using increment_counts [OF assms] by (simp add: rate_limit_guard_def catch_error_def and_then_def)

lemma rate_run_counting:
  assumes "redis_ready s" and "redis s (rate_key rq rt p) = Some (R_counter (Suc n), Some e)"
    and "\<forall>t\<in>set ts. t < e"
  shows "rate_run rq rt p ts s =
    map (\<lambda>i. Suc n + Suc i \<le> rl_limit (rate_limit_of rt)) [0..<length ts]"
  using assms
proof (induction ts arbitrary: s n)
  case Nil
  then show ?case by simp
next
  case (Cons t ts)
  from Cons.prems have "t < e" by simp
  from rate_guard_counts [OF Cons.prems(1,2) this] Cons.prems Cons.IH
  show ?case
    by (auto simp: upt_conv_Cons map_Suc_upt [symmetric] simp del: upt_Suc)
qed


definition login_route :: route where
  "login_route = \<lparr>rt_method = ''POST'', rt_path = ''api/v1/auth/login'', rt_public = True, rt_roles = [],
     rt_permissions = [], rt_rateLimit = Some \<lparr>rl_limit = 5, rl_windowSeconds = 60, rl_scope = Some ''login''\<rparr>\<rparr>"


text \<open>
  C4. What a guarded request proves about its caller: a request to a route that is not public gets past
  the four guards only with a token whose session is live (not revoked, not expired) and whose account is
  active and not deleted at that instant, and only if the caller is a super admin or holds every declared
  permission through one of its roles or through a permission granted to it directly.
\<close>

theorem guarded_request_authorised:
  assumes wf: "users_wf s" and ok: "guard_request pf rq rt bearer s = (Inr p, s')" and "\<not> rt_public rt"
  shows "\<exists>t sub sid q. bearer = Some t \<and> pf_verifyAccess pf t (rq_now rq) = Some (sub, sid)
     \<and> p = Some q \<and> pr_id q = sub \<and> pr_sessionId q = sid
     \<and> live_session s (rq_now rq) sub sid \<and> active_account s sub
     \<and> (SUPER_ADMIN \<in> ro_code ` set (roles_of_user s sub)
         \<or> (\<forall>c\<in>set (rt_permissions rt). c \<in> set (direct_codes s sub)
              \<or> (\<exists>ro\<in>set (roles_of_user s sub). c \<in> set (codes_of_role s (ro_id ro)))))"
proof -
  from guard_request_Inr [OF ok \<open>\<not> rt_public rt\<close>] obtain t sub sid q where
    t: "bearer = Some t" "pf_verifyAccess pf t (rq_now rq) = Some (sub, sid)" "p = Some q"
    and v: "jwt_validate (rq_now rq) sub sid s = (Inr q, s)"
    and g: "permission_guard rt p s = (Inr (), s)" by blast
  from v obtain r u where r: "access_session s (rq_now rq) sub sid = Some r"
    and u: "find_user s (rs_userId r) = Some u" and q: "q = principal_of s u sid"
    by (auto simp: jwt_validate_Inr)
  have sub: "u_id u = sub"
    using access_session_Some [OF r] find_user_Some [OF u] by simp
  have "live_session s (rq_now rq) sub sid \<and> active_account s sub"
    using jwt_validate_iff [OF wf] v by blast
  moreover have "SUPER_ADMIN \<in> ro_code ` set (roles_of_user s sub)
         \<or> (\<forall>c\<in>set (rt_permissions rt). c \<in> set (direct_codes s sub)
              \<or> (\<exists>ro\<in>set (roles_of_user s sub). c \<in> set (codes_of_role s (ro_id ro))))"
    using g t(3) q sub set_principal_permissions [of s u sid]
    by (auto simp: permission_guard_Inr principal_of_def Let_def subset_iff)
  ultimately show ?thesis using t q sub by auto
qed

definition demo_user :: user where
  "demo_user = \<lparr>u_id = ''u1'', u_username = ''Ali'', u_email = ''a@b.c'', u_passwordHash = ''h'',
     u_status = User_ACTIVE, u_profileImageKey = None, u_failedLoginCount = 0, u_lockedUntil = None,
     u_lastLoginAt = None, u_createdAt = 0, u_deletedAt = None, u_deviceToken = None\<rparr>"

definition demo_session :: refresh_session where
  "demo_session = \<lparr>rs_id = ''s1'', rs_userId = ''u1'', rs_tokenHash = ''t1'', rs_deviceId = None,
     rs_deviceName = None, rs_deviceToken = None, rs_ipAddress = ''ip'', rs_userAgent = ''ua'',
     rs_lastSeenAt = 0, rs_expiresAt = 1000000, rs_revokedAt = None, rs_replacedById = None, rs_createdAt = 0\<rparr>"

definition demo_state :: state where
  "demo_state = empty_state\<lparr>users := [demo_user], refreshSessions := [demo_session],
     roleDefinitions := [\<lparr>ro_id = ''r1'', ro_code = ADMIN, ro_name = ''Admin'', ro_description = None, ro_systemManaged = True\<rparr>],
     permissions := [\<lparr>pe_id = ''p1'', pe_code = ''users.read'', pe_description = None\<rparr>],
     userRoles := [\<lparr>ur_userId = ''u1'', ur_roleId = ''r1''\<rparr>],
     rolePermissions := [\<lparr>rp_roleId = ''r1'', rp_permissionId = ''p1''\<rparr>]\<rparr>"

definition demo_platform :: platform where
  "demo_platform = \<lparr>pf_sha256 = (\<lambda>x. ''#'' @ x), pf_argonHash = (\<lambda>x. ''$'' @ x),
     pf_argonVerify = (\<lambda>h x. h = ''$'' @ x), pf_signAccess = (\<lambda>a b. a @ ''.'' @ b),
     pf_verifyAccess = (\<lambda>t _. if t = ''good'' then Some (''u1'', ''s1'') else None),
     pf_signPlayback = (\<lambda>p t ttl. cp_jti p),
     pf_verifyPlayback = (\<lambda>t n. if t = [] then None
       else Some \<lparr>cp_sub = ''u1'', cp_sid = ''ps1'', cp_jti = t, cp_uid = ''u1'', cp_eid = ''e1'',
         cp_mid = ''m1'', cp_did = ''d1'', cp_fp = ''#fp'', cp_typ = ''playback''\<rparr>)\<rparr>"

definition users_route :: route where
  "users_route = \<lparr>rt_method = ''GET'', rt_path = ''api/v1/users'', rt_public = False, rt_roles = [],
     rt_permissions = [''users.read''], rt_rateLimit = None\<rparr>"

definition demo_request :: request where
  "demo_request = \<lparr>rq_now = 5000, rq_ip = ''10.0.0.1'', rq_userAgent = ''agent'', rq_id = ''r1''\<rparr>"

lemmas demo_defs = demo_user_def demo_session_def demo_state_def demo_platform_def users_route_def
  demo_request_def empty_state_def

theorem guarded_request_authorised_witness:
  "live_session demo_state 5000 ''u1'' ''s1'' \<and> active_account demo_state ''u1''"
proof -
  have "\<not> isl (fst (guard_request demo_platform demo_request users_route (Some ''good'') demo_state))"
    by code_simp
  then obtain q s' where ok: "guard_request demo_platform demo_request users_route (Some ''good'') demo_state
      = (Inr q, s')"
    by (metis isl_def old.sum.exhaust prod.collapse)
  have "users_wf demo_state" "\<not> rt_public users_route"
    by (simp_all add: users_wf_def demo_defs)
  from guarded_request_authorised [OF this(1) ok this(2)] show ?thesis
    by (auto simp: demo_platform_def demo_request_def split: if_splits)
qed

end
