(* ===== verification/Auth.thy ===== *)
theory Auth
  imports Principals
begin

text \<open>
  \<open>src/auth/auth.service.ts\<close>: accounts, refresh sessions and trusted devices. Every public
  method of \<open>AuthService\<close> is one handler of the same name. \<open>refresh\<close> is the composition of
  its read (\<open>refresh_lookup\<close>) and of its transaction (\<open>refresh_commit\<close>), because other
  requests may run between the two; \<open>auth_step\<close> interleaves them.

  The ids and tokens that \<open>randomUUID\<close> and \<open>randomBytes\<close> return are arguments (\<open>sid\<close>,
  \<open>token\<close>). The unique constraints of the schema are checked by the \<open>create_\<close> functions, which
  throw \<open>Internal ''P2002''\<close> as Prisma does.
\<close>

section \<open>Rows\<close>

definition lock_threshold :: int where "lock_threshold = 5"
definition lock_minutes :: int where "lock_minutes = 15"

definition hash_token :: "platform \<Rightarrow> string \<Rightarrow> string" where
  "hash_token pf token = pf_sha256 pf token"

definition hash_fingerprint :: "platform \<Rightarrow> string \<Rightarrow> string" where
  "hash_fingerprint pf fingerprint = pf_sha256 pf (trim fingerprint)"

definition normalize_email :: "string \<Rightarrow> string" where
  "normalize_email e = to_lower (trim e)"

definition create_user :: "user \<Rightarrow> unit handler" where
  "create_user u =
     and_then (gets users) (\<lambda>t.
     and_then (require (\<forall>q\<in>set t. u_id q \<noteq> u_id u \<and> u_email q \<noteq> u_email u) (Internal ''P2002'')) (\<lambda>_.
     modify (\<lambda>s. s\<lparr>users := users s @ [u]\<rparr>)))"

definition create_user_role :: "user_role \<Rightarrow> unit handler" where
  "create_user_role ur =
     and_then (gets userRoles) (\<lambda>t.
     and_then (require (ur \<notin> set t) (Internal ''P2002'')) (\<lambda>_.
     modify (\<lambda>s. s\<lparr>userRoles := userRoles s @ [ur]\<rparr>)))"

definition create_session :: "refresh_session \<Rightarrow> unit handler" where
  "create_session r =
     and_then (gets refreshSessions) (\<lambda>t.
     and_then (require (\<forall>q\<in>set t. rs_id q \<noteq> rs_id r \<and> rs_tokenHash q \<noteq> rs_tokenHash r) (Internal ''P2002'')) (\<lambda>_.
     modify (\<lambda>s. s\<lparr>refreshSessions := refreshSessions s @ [r]\<rparr>)))"

definition write_login_history :: "request \<Rightarrow> string option \<Rightarrow> string \<Rightarrow> bool \<Rightarrow> string \<Rightarrow> unit handler" where
  "write_login_history rq uid email succeeded reason =
     modify (\<lambda>s. s\<lparr>loginHistories := loginHistories s @
       [\<lparr>lh_userId = uid, lh_email = email, lh_succeeded = succeeded, lh_reason = reason,
         lh_ipAddress = rq_ip rq, lh_userAgent = take 512 (rq_userAgent rq), lh_createdAt = rq_now rq\<rparr>]\<rparr>)"

text \<open>\<open>user.update({ where: { id }, data })\<close> of a row that was just read.\<close>

definition update_user :: "string \<Rightarrow> (user \<Rightarrow> user) \<Rightarrow> unit handler" where
  "update_user uid f = modify (\<lambda>s. s\<lparr>users := update_many (\<lambda>u. u_id u = uid) f (users s)\<rparr>)"

text \<open>
  \<open>refreshSession.updateMany({ where: { ..., revokedAt: null }, data: { revokedAt: new Date() } })\<close>:
  the number of sessions it revoked.
\<close>

definition revoke_sessions :: "instant \<Rightarrow> (refresh_session \<Rightarrow> bool) \<Rightarrow> nat handler" where
  "revoke_sessions now which =
     and_then (gets (\<lambda>s. count_where (\<lambda>r. which r \<and> rs_revokedAt r = None) (refreshSessions s))) (\<lambda>n.
     and_then (modify (\<lambda>s. s\<lparr>refreshSessions := update_many (\<lambda>r. which r \<and> rs_revokedAt r = None)
       (\<lambda>r. r\<lparr>rs_revokedAt := Some now\<rparr>) (refreshSessions s)\<rparr>)) (\<lambda>_. ret n))"

interpretation rv: guarded_update rs_id "\<lambda>r. which r \<and> rs_revokedAt r = None" "\<lambda>r. r\<lparr>rs_revokedAt := Some now\<rparr>"
  for which now
  by unfold_locales simp_all

text \<open>After a revocation no session that it selects is open.\<close>

lemma revoke_kills:
  "\<lbrakk>r \<in> set (update_many (\<lambda>r. which r \<and> rs_revokedAt r = None) (\<lambda>r. r\<lparr>rs_revokedAt := Some now\<rparr>) t);
    which r\<rbrakk> \<Longrightarrow> rs_revokedAt r \<noteq> None"
  by (drule rv.none_left) simp

section \<open>Registration and login\<close>

record token_pair =
  tp_accessToken :: string
  tp_refreshToken :: string
  tp_expiresIn :: int

definition new_session :: "config \<Rightarrow> platform \<Rightarrow> request \<Rightarrow> string \<Rightarrow> string option \<Rightarrow> string \<Rightarrow> string \<Rightarrow> refresh_session" where
  "new_session cf pf rq uid deviceId sid token =
     \<lparr>rs_id = sid, rs_userId = uid, rs_tokenHash = hash_token pf token, rs_deviceId = deviceId,
      rs_deviceName = None, rs_deviceToken = None, rs_ipAddress = rq_ip rq,
      rs_userAgent = take 512 (rq_userAgent rq), rs_lastSeenAt = rq_now rq,
      rs_expiresAt = rq_now rq + cf_refreshTtlDays cf * ms_per_day, rs_revokedAt = None,
      rs_replacedById = None, rs_createdAt = rq_now rq\<rparr>"

definition issue_token_pair :: "config \<Rightarrow> platform \<Rightarrow> request \<Rightarrow> string \<Rightarrow> string option \<Rightarrow> string \<Rightarrow> string
    \<Rightarrow> token_pair handler" where
  "issue_token_pair cf pf rq uid deviceId sid token =
     and_then (create_session (new_session cf pf rq uid deviceId sid token)) (\<lambda>_.
     ret \<lparr>tp_accessToken = pf_signAccess pf uid sid, tp_refreshToken = token,
          tp_expiresIn = cf_accessTtlSeconds cf\<rparr>)"

text \<open>
  The \<open>try\<close> of \<open>register\<close> ends before the awaited \<open>issueTokenPair\<close> (the promise is returned, not
  awaited), so only the first part translates \<open>P2002\<close>. \<open>findUniqueOrThrow\<close> throws \<open>P2025\<close>.
\<close>

definition register :: "config \<Rightarrow> platform \<Rightarrow> request \<Rightarrow> string \<Rightarrow> string \<Rightarrow> string \<Rightarrow> string option
    \<Rightarrow> string \<Rightarrow> string \<Rightarrow> string \<Rightarrow> token_pair handler" where
  "register cf pf rq username email0 password deviceId uid sid token =
     (let email = normalize_email email0 in
      and_then (catch_error
        (and_then (transaction
           (and_then (create_user \<lparr>u_id = uid, u_username = trim username, u_email = email,
                u_passwordHash = pf_argonHash pf password, u_status = User_ACTIVE, u_profileImageKey = None,
                u_failedLoginCount = 0, u_lockedUntil = None, u_lastLoginAt = None, u_createdAt = rq_now rq,
                u_deletedAt = None, u_deviceToken = None\<rparr>) (\<lambda>_.
            and_then (gets (\<lambda>s. find_first (\<lambda>ro. ro_code ro = USER) (roleDefinitions s))) (\<lambda>ro.
            and_then (expect ro (Internal ''P2025'')) (\<lambda>ro.
            create_user_role \<lparr>ur_userId = uid, ur_roleId = ro_id ro\<rparr>))))) (\<lambda>_.
         and_then (write_login_history rq (Some uid) email True ''registration'') (\<lambda>_.
         audit_write (with_client rq (audit_input rq (Some uid) ''auth.register'' ''user'' (Some uid) SUCCESS [])))))
        (\<lambda>e. throw (if e = Internal ''P2002'' then Conflict ''Email or username is already in use'' else e)))
      (\<lambda>_. issue_token_pair cf pf rq uid deviceId sid token))"

definition find_login :: "state \<Rightarrow> string \<Rightarrow> user option" where
  "find_login s email = find_first (\<lambda>u. u_email u = email \<and> u_deletedAt u = None) (users s)"

definition locked_at :: "user \<Rightarrow> instant \<Rightarrow> bool" where
  "locked_at u now = (case u_lockedUntil u of None \<Rightarrow> False | Some t \<Rightarrow> now < t)"

definition login_failed_user :: "instant \<Rightarrow> user \<Rightarrow> user" where
  "login_failed_user now u =
     (let n = u_failedLoginCount u + 1 in
      u\<lparr>u_failedLoginCount := n,
        u_lockedUntil := if lock_threshold \<le> n then Some (now + lock_minutes * ms_per_minute) else None\<rparr>)"

definition login :: "config \<Rightarrow> platform \<Rightarrow> request \<Rightarrow> string \<Rightarrow> string \<Rightarrow> string option \<Rightarrow> string \<Rightarrow> string
    \<Rightarrow> token_pair handler" where
  "login cf pf rq email0 password deviceId sid token =
     (let email = normalize_email email0 in
      and_then (gets (\<lambda>s. find_login s email)) (\<lambda>user.
      let hash = (case user of None \<Rightarrow> cf_argon2DummyHash cf | Some u \<Rightarrow> u_passwordHash u);
          passwordMatches = pf_argonVerify pf hash password;
          locked = (case user of None \<Rightarrow> False | Some u \<Rightarrow> locked_at u (rq_now rq));
          valid = (case user of None \<Rightarrow> False
                   | Some u \<Rightarrow> passwordMatches \<and> u_status u = User_ACTIVE \<and> \<not> locked);
          reason = (if locked then ''account_locked'' else ''invalid_credentials'')
      in if \<not> valid then
           and_then (case user of None \<Rightarrow> ret ()
             | Some u \<Rightarrow> if locked then ret ()
                 else update_user (u_id u) (\<lambda>q. q\<lparr>
                   u_failedLoginCount := u_failedLoginCount (login_failed_user (rq_now rq) u),
                   u_lockedUntil := u_lockedUntil (login_failed_user (rq_now rq) u)\<rparr>)) (\<lambda>_.
           and_then (write_login_history rq (map_option u_id user) email False reason) (\<lambda>_.
           and_then (audit_write (with_client rq (audit_input rq (map_option u_id user) ''auth.login'' ''user''
             (map_option u_id user) DENIED [(''reason'', JStr reason)]))) (\<lambda>_.
           throw (Unauthorized ''Invalid credentials''))))
         else
           and_then (expect user (Unauthorized ''Invalid credentials'')) (\<lambda>u.
           and_then (update_user (u_id u) (\<lambda>q. q\<lparr>u_failedLoginCount := 0, u_lockedUntil := None,
             u_lastLoginAt := Some (rq_now rq)\<rparr>)) (\<lambda>_.
           and_then (write_login_history rq (Some (u_id u)) email True ''login'') (\<lambda>_.
           and_then (audit_write (with_client rq (audit_input rq (Some (u_id u)) ''auth.login'' ''user''
             (Some (u_id u)) SUCCESS []))) (\<lambda>_.
           issue_token_pair cf pf rq (u_id u) deviceId sid token))))))"

section \<open>Refresh tokens\<close>

text \<open>
  What \<open>refresh\<close> reads: the session of the token. A token that was already used revokes every
  session of its account.
\<close>

definition refresh_lookup :: "platform \<Rightarrow> request \<Rightarrow> string \<Rightarrow> refresh_session handler" where
  "refresh_lookup pf rq token =
     (let invalid = Unauthorized ''Refresh token is invalid or expired'' in
      and_then (gets (\<lambda>s. find_first (\<lambda>r. rs_tokenHash r = hash_token pf token
        \<and> user_not_deleted s (rs_userId r)) (refreshSessions s))) (\<lambda>session.
      and_then (expect session invalid) (\<lambda>r.
      and_then (gets (\<lambda>s. find_user s (rs_userId r))) (\<lambda>u.
      and_then (require ((case u of None \<Rightarrow> False | Some v \<Rightarrow> u_status v = User_ACTIVE) \<and> rq_now rq < rs_expiresAt r) invalid) (\<lambda>_.
      if rs_revokedAt r \<noteq> None then
        and_then (revoke_sessions (rq_now rq) (\<lambda>q. rs_userId q = rs_userId r)) (\<lambda>_.
        and_then (audit_write (with_client rq (audit_input rq (Some (rs_userId r)) ''auth.refresh_replay''
          ''session'' (Some (rs_id r)) DENIED []))) (\<lambda>_.
        throw invalid))
      else ret r)))))"

text \<open>Its transaction: the replacement is created, then the consumed session is closed if it is still open.\<close>

definition refresh_commit :: "config \<Rightarrow> platform \<Rightarrow> request \<Rightarrow> refresh_session \<Rightarrow> string \<Rightarrow> string
    \<Rightarrow> token_pair handler" where
  "refresh_commit cf pf rq r replacementId replacementToken =
     and_then (transaction
       (and_then (create_session (new_session cf pf rq (rs_userId r) (rs_deviceId r) replacementId replacementToken)) (\<lambda>_.
        and_then (gets (\<lambda>s. count_where (\<lambda>q. rs_id q = rs_id r \<and> rs_revokedAt q = None) (refreshSessions s))) (\<lambda>count.
        and_then (modify (\<lambda>s. s\<lparr>refreshSessions := update_many (\<lambda>q. rs_id q = rs_id r \<and> rs_revokedAt q = None)
          (\<lambda>q. q\<lparr>rs_revokedAt := Some (rq_now rq), rs_replacedById := Some replacementId,
                 rs_lastSeenAt := rq_now rq\<rparr>) (refreshSessions s)\<rparr>)) (\<lambda>_.
        require (count = 1) (Unauthorized ''Refresh token is invalid or expired'')))))) (\<lambda>_.
     ret \<lparr>tp_accessToken = pf_signAccess pf (rs_userId r) replacementId, tp_refreshToken = replacementToken,
          tp_expiresIn = cf_accessTtlSeconds cf\<rparr>)"

definition refresh :: "config \<Rightarrow> platform \<Rightarrow> request \<Rightarrow> string \<Rightarrow> string \<Rightarrow> string \<Rightarrow> token_pair handler" where
  "refresh cf pf rq token replacementId replacementToken =
     and_then (refresh_lookup pf rq token) (\<lambda>r. refresh_commit cf pf rq r replacementId replacementToken)"

definition logout :: "platform \<Rightarrow> request \<Rightarrow> string \<Rightarrow> unit handler" where
  "logout pf rq token =
     and_then (revoke_sessions (rq_now rq) (\<lambda>r. rs_tokenHash r = hash_token pf token)) (\<lambda>n.
     audit_write (with_client rq (audit_input rq None ''auth.logout'' ''session'' None SUCCESS [(''revoked'', JNum (int n))])))"

definition logout_all :: "request \<Rightarrow> principal \<Rightarrow> nat handler" where
  "logout_all rq p =
     and_then (revoke_sessions (rq_now rq) (\<lambda>r. rs_userId r = pr_id p)) (\<lambda>n.
     and_then (audit_write (audit_input rq (Some (pr_id p)) ''auth.logout_all'' ''session'' None SUCCESS
       [(''revoked'', JNum (int n))])) (\<lambda>_. ret n))"

section \<open>Account queries\<close>

record current_user_view =
  cu_user :: user
  cu_roles :: "(role_code \<times> string \<times> string list) list"
  cu_permissions :: "string list"

definition current_user :: "principal \<Rightarrow> current_user_view handler" where
  "current_user p =
     and_then (gets (\<lambda>s. find_first (\<lambda>u. u_id u = pr_id p \<and> u_deletedAt u = None) (users s))) (\<lambda>u.
     and_then (expect u (Unauthorized ''Account is unavailable'')) (\<lambda>u.
     gets (\<lambda>s. \<lparr>cu_user = u,
       cu_roles = map (\<lambda>ro. (ro_code ro, ro_name ro, codes_of_role s (ro_id ro))) (roles_of_user s (u_id u)),
       cu_permissions = direct_codes s (u_id u)\<rparr>)))"

definition sessions :: "request \<Rightarrow> principal \<Rightarrow> refresh_session list handler" where
  "sessions rq p = gets (\<lambda>s. order_desc rs_lastSeenAt
     (filter (\<lambda>r. rs_userId r = pr_id p \<and> rs_revokedAt r = None \<and> rq_now rq < rs_expiresAt r) (refreshSessions s)))"

definition login_history_of :: "principal \<Rightarrow> login_history list handler" where
  "login_history_of p = gets (\<lambda>s. take 100 (order_desc lh_createdAt
     (filter (\<lambda>h. lh_userId h = Some (pr_id p)) (loginHistories s))))"

definition revoke_session :: "request \<Rightarrow> principal \<Rightarrow> string \<Rightarrow> unit handler" where
  "revoke_session rq p sid =
     and_then (revoke_sessions (rq_now rq) (\<lambda>r. rs_id r = sid \<and> rs_userId r = pr_id p)) (\<lambda>n.
     audit_write (audit_input rq (Some (pr_id p)) ''auth.session_revoke'' ''session'' (Some sid)
       (if n \<noteq> 0 then SUCCESS else DENIED) []))"

section \<open>Trusted devices\<close>

definition is_device :: "string \<Rightarrow> string \<Rightarrow> trusted_device \<Rightarrow> bool" where
  "is_device uid deviceId d \<longleftrightarrow> td_userId d = uid \<and> td_deviceId d = deviceId"

definition active_devices :: "state \<Rightarrow> string \<Rightarrow> nat" where
  "active_devices s uid = count_where (\<lambda>d. td_userId d = uid \<and> td_status d = Device_ACTIVE) (trustedDevices s)"

definition upsert_device :: "request \<Rightarrow> string \<Rightarrow> string \<Rightarrow> string option \<Rightarrow> string \<Rightarrow> string
    \<Rightarrow> trusted_device list \<Rightarrow> trusted_device list" where
  "upsert_device rq uid deviceId deviceName fph newId t =
     (if \<exists>d\<in>set t. is_device uid deviceId d then
        update_many (is_device uid deviceId) (\<lambda>d. d\<lparr>td_deviceName := keep_or deviceName (td_deviceName d),
          td_fingerprintHash := fph, td_status := Device_ACTIVE, td_revokedAt := None,
          td_lastSeenAt := rq_now rq\<rparr>) t
      else t @ [\<lparr>td_id = newId, td_userId = uid, td_deviceId = deviceId, td_deviceName = deviceName,
          td_fingerprintHash = fph, td_status = Device_ACTIVE, td_lastSeenAt = rq_now rq,
          td_revokedAt = None, td_createdAt = rq_now rq\<rparr>])"

definition register_device :: "config \<Rightarrow> platform \<Rightarrow> request \<Rightarrow> principal \<Rightarrow> string \<Rightarrow> string \<Rightarrow> string option
    \<Rightarrow> string option \<Rightarrow> string \<Rightarrow> string handler" where
  "register_device cf pf rq p deviceId fingerprint deviceName deviceToken newId =
     (let fph = hash_fingerprint pf fingerprint;
          mine = (\<lambda>r. rs_id r = pr_sessionId p \<and> rs_userId r = pr_id p \<and> rs_revokedAt r = None) in
      and_then (transaction
        (and_then (gets (\<lambda>s. count_where mine (refreshSessions s))) (\<lambda>count.
         and_then (modify (\<lambda>s. s\<lparr>refreshSessions := update_many mine (\<lambda>r. r\<lparr>rs_deviceId := Some deviceId,
           rs_deviceName := keep_or deviceName (rs_deviceName r),
           rs_deviceToken := keep_or deviceToken (rs_deviceToken r)\<rparr>) (refreshSessions s)\<rparr>)) (\<lambda>_.
         and_then (require (count \<noteq> 0) (Unauthorized ''Session is no longer valid'')) (\<lambda>_.
         and_then (gets (\<lambda>s. find_first (is_device (pr_id p) deviceId) (trustedDevices s))) (\<lambda>existing.
         and_then (gets (\<lambda>s. active_devices s (pr_id p))) (\<lambda>activeCount.
         and_then (require (existing \<noteq> None \<or> activeCount < cf_maxTrustedDevices cf)
           (Unauthorized ''Trusted device limit reached'')) (\<lambda>_.
         and_then (modify (\<lambda>s. s\<lparr>trustedDevices :=
           upsert_device rq (pr_id p) deviceId deviceName fph newId (trustedDevices s)\<rparr>)) (\<lambda>_.
         and_then (gets (\<lambda>s. find_first (is_device (pr_id p) deviceId) (trustedDevices s))) (\<lambda>d.
         expect (map_option td_id d) (Internal ''P2025''))))))))))) (\<lambda>devId.
      and_then (audit_write (audit_input rq (Some (pr_id p)) ''auth.device_register'' ''session''
        (Some (pr_sessionId p)) SUCCESS [(''deviceId'', JStr deviceId)])) (\<lambda>_. ret devId)))"

definition devices :: "principal \<Rightarrow> trusted_device list handler" where
  "devices p = gets (\<lambda>s. order_desc td_lastSeenAt (filter (\<lambda>d. td_userId d = pr_id p) (trustedDevices s)))"

definition revoke_device :: "request \<Rightarrow> principal \<Rightarrow> string \<Rightarrow> unit handler" where
  "revoke_device rq p devId =
     (let mine = (\<lambda>d. td_id d = devId \<and> td_userId d = pr_id p \<and> td_status d = Device_ACTIVE) in
      and_then (transaction
        (and_then (gets (\<lambda>s. count_where mine (trustedDevices s))) (\<lambda>count.
         and_then (modify (\<lambda>s. s\<lparr>trustedDevices := update_many mine (\<lambda>d. d\<lparr>td_status := Device_REVOKED,
           td_revokedAt := Some (rq_now rq)\<rparr>) (trustedDevices s)\<rparr>)) (\<lambda>_.
         and_then (if count \<noteq> 0 then modify (\<lambda>s. s\<lparr>playbackSessions :=
             update_many (\<lambda>x. ps_trustedDeviceId x = devId \<and> ps_status x = Play_ACTIVE)
               (\<lambda>x. x\<lparr>ps_status := Play_REVOKED, ps_revokedAt := Some (rq_now rq)\<rparr>) (playbackSessions s)\<rparr>)
           else ret ()) (\<lambda>_. ret count))))) (\<lambda>count.
      and_then (require (count \<noteq> 0) (Unauthorized ''Trusted device is unavailable'')) (\<lambda>_.
      audit_write (audit_input rq (Some (pr_id p)) ''auth.device_revoke'' ''trusted_device'' (Some devId) SUCCESS []))))"

definition change_password :: "platform \<Rightarrow> request \<Rightarrow> principal \<Rightarrow> string \<Rightarrow> string \<Rightarrow> unit handler" where
  "change_password pf rq p currentPassword newPassword =
     and_then (gets (\<lambda>s. find_first (\<lambda>u. u_id u = pr_id p \<and> u_deletedAt u = None) (users s))) (\<lambda>user.
     and_then (require (case user of None \<Rightarrow> False | Some u \<Rightarrow> pf_argonVerify pf (u_passwordHash u) currentPassword)
       (Unauthorized ''Current password is incorrect'')) (\<lambda>_.
     and_then (transaction
       (and_then (update_user (pr_id p) (\<lambda>u. u\<lparr>u_passwordHash := pf_argonHash pf newPassword\<rparr>)) (\<lambda>_.
        revoke_sessions (rq_now rq) (\<lambda>r. rs_userId r = pr_id p \<and> rs_id r \<noteq> pr_sessionId p)))) (\<lambda>_.
     audit_write (audit_input rq (Some (pr_id p)) ''auth.password_change'' ''user'' (Some (pr_id p)) SUCCESS []))))"

section \<open>Running the handlers\<close>

lemma revoke_sessions_apply [simp, prog_simps]:
  "revoke_sessions now which s =
     (Inr (count_where (\<lambda>r. which r \<and> rs_revokedAt r = None) (refreshSessions s)),
      s\<lparr>refreshSessions := update_many (\<lambda>r. which r \<and> rs_revokedAt r = None)
         (\<lambda>r. r\<lparr>rs_revokedAt := Some now\<rparr>) (refreshSessions s)\<rparr>)"
  by (simp add: revoke_sessions_def)

lemma and_then_revoke_sessions [simp, prog_simps]:
  "and_then (revoke_sessions now which) k s =
     k (count_where (\<lambda>r. which r \<and> rs_revokedAt r = None) (refreshSessions s))
       (s\<lparr>refreshSessions := update_many (\<lambda>r. which r \<and> rs_revokedAt r = None)
         (\<lambda>r. r\<lparr>rs_revokedAt := Some now\<rparr>) (refreshSessions s)\<rparr>)"
  by (simp add: and_then_def)

lemma and_then_update_user [simp, prog_simps]:
  "and_then (update_user uid f) k s = k () (s\<lparr>users := update_many (\<lambda>u. u_id u = uid) f (users s)\<rparr>)"
  by (simp add: update_user_def)

lemma and_then_write_login_history [simp, prog_simps]:
  "and_then (write_login_history rq uid e b r) k s = k () (snd (write_login_history rq uid e b r s))"
  by (simp add: write_login_history_def)

lemma write_login_history_other [simp]:
  "users (snd (write_login_history rq uid e b r s)) = users s"
  "refreshSessions (snd (write_login_history rq uid e b r s)) = refreshSessions s"
  by (simp_all add: write_login_history_def)

text \<open>A session id and a token that no row has yet.\<close>

definition fresh_session :: "platform \<Rightarrow> state \<Rightarrow> string \<Rightarrow> string \<Rightarrow> bool" where
  "fresh_session pf s sid token \<longleftrightarrow>
     (\<forall>q\<in>set (refreshSessions s). rs_id q \<noteq> sid \<and> rs_tokenHash q \<noteq> hash_token pf token)"

lemma issue_token_pair_apply:
  "issue_token_pair cf pf rq uid dev sid token s =
     (if fresh_session pf s sid token then
        (Inr \<lparr>tp_accessToken = pf_signAccess pf uid sid, tp_refreshToken = token, tp_expiresIn = cf_accessTtlSeconds cf\<rparr>,
         s\<lparr>refreshSessions := refreshSessions s @ [new_session cf pf rq uid dev sid token]\<rparr>)
      else (Inl (Internal ''P2002''), s))"
  by (auto simp: issue_token_pair_def create_session_def and_then_assoc fresh_session_def new_session_def)

text \<open>Sessions are identified by their id and by the hash of their token.\<close>

definition sessions_wf :: "state \<Rightarrow> bool" where
  "sessions_wf s \<longleftrightarrow> distinct (map rs_id (refreshSessions s)) \<and> distinct (map rs_tokenHash (refreshSessions s))"

text \<open>A session that exists and is revoked.\<close>

definition session_dead :: "string \<Rightarrow> state \<Rightarrow> bool" where
  "session_dead sid s \<longleftrightarrow> sid \<in> rs_id ` set (refreshSessions s) \<and>
     (\<forall>r\<in>set (refreshSessions s). rs_id r = sid \<longrightarrow> rs_revokedAt r \<noteq> None)"

lemma dead_not_live: "session_dead sid s \<Longrightarrow> \<not> live_session s t uid sid"
  by (auto simp: session_dead_def live_session_def)

lemma dead_rejected: "session_dead sid s \<Longrightarrow> fst (jwt_validate t uid sid s) = Inl (Unauthorized ''Authentication session is no longer valid'')"
  using dead_not_live [of sid s t uid] access_session_ex [of s t uid sid]
  by (auto simp: jwt_validate_def split: option.split)

section \<open>Revocation is permanent\<close>

lemma dead_other_tables [simp]:
  "session_dead sid (s\<lparr>users := a\<rparr>) = session_dead sid s"
  "session_dead sid (s\<lparr>userRoles := b\<rparr>) = session_dead sid s"
  "session_dead sid (s\<lparr>auditEvents := c\<rparr>) = session_dead sid s"
  "session_dead sid (s\<lparr>loginHistories := d\<rparr>) = session_dead sid s"
  "session_dead sid (s\<lparr>trustedDevices := e\<rparr>) = session_dead sid s"
  "session_dead sid (s\<lparr>playbackSessions := f\<rparr>) = session_dead sid s"
  by (simp_all add: session_dead_def)

lemma wf_other_tables [simp]:
  "sessions_wf (s\<lparr>users := a\<rparr>) = sessions_wf s"
  "sessions_wf (s\<lparr>userRoles := b\<rparr>) = sessions_wf s"
  "sessions_wf (s\<lparr>auditEvents := c\<rparr>) = sessions_wf s"
  "sessions_wf (s\<lparr>loginHistories := d\<rparr>) = sessions_wf s"
  "sessions_wf (s\<lparr>trustedDevices := e\<rparr>) = sessions_wf s"
  "sessions_wf (s\<lparr>playbackSessions := f\<rparr>) = sessions_wf s"
  by (simp_all add: sessions_wf_def)

lemma dead_update:
  assumes "session_dead sid s" and "\<And>r. rs_id (f r) = rs_id r"
    and "\<And>r. rs_revokedAt r \<noteq> None \<Longrightarrow> rs_revokedAt (f r) \<noteq> None"
  shows "session_dead sid (s\<lparr>refreshSessions := update_many P f (refreshSessions s)\<rparr>)"
proof -
  have "rs_id ` set (update_many P f (refreshSessions s)) = rs_id ` set (refreshSessions s)"
    using map_update_many [of P rs_id f "refreshSessions s"] assms(2) by (metis image_set)
  with assms show ?thesis by (auto simp: session_dead_def)
qed

lemma wf_update:
  assumes "sessions_wf s" and "\<And>r. rs_id (f r) = rs_id r" and "\<And>r. rs_tokenHash (f r) = rs_tokenHash r"
  shows "sessions_wf (s\<lparr>refreshSessions := update_many P f (refreshSessions s)\<rparr>)"
  using assms by (simp add: sessions_wf_def map_update_many)

text \<open>
  The two invariants of the session table: keys are unique, and a given dead session stays dead.
\<close>

definition session_inv :: "string set \<Rightarrow> state \<Rightarrow> bool" where
  "session_inv D s \<longleftrightarrow> sessions_wf s \<and> (\<forall>sid\<in>D. session_dead sid s)"

lemma session_inv_other [simp]:
  "session_inv D (s\<lparr>users := a\<rparr>) = session_inv D s"
  "session_inv D (s\<lparr>userRoles := b\<rparr>) = session_inv D s"
  "session_inv D (s\<lparr>auditEvents := c\<rparr>) = session_inv D s"
  "session_inv D (s\<lparr>loginHistories := d\<rparr>) = session_inv D s"
  "session_inv D (s\<lparr>trustedDevices := e\<rparr>) = session_inv D s"
  "session_inv D (s\<lparr>playbackSessions := f\<rparr>) = session_inv D s"
  by (simp_all add: session_inv_def)

named_theorems session_keeps "session_inv is kept by the building blocks"

lemma keeps_create_session [session_keeps]: "keeps (session_inv D) (create_session r)"
proof (rule keepsI)
  fix s assume inv: "session_inv D s"
  show "session_inv D (snd (create_session r s))"
  proof (cases "\<forall>q\<in>set (refreshSessions s). rs_id q \<noteq> rs_id r \<and> rs_tokenHash q \<noteq> rs_tokenHash r")
    case True
    with inv show ?thesis
      by (fastforce simp: create_session_def session_inv_def sessions_wf_def session_dead_def)
  next
    case False
    with inv show ?thesis by (auto simp: create_session_def)
  qed
qed

lemma keeps_revoke_sessions [session_keeps]: "keeps (session_inv D) (revoke_sessions now which)"
  by (rule keepsI) (auto simp: session_inv_def intro!: dead_update wf_update)

lemma keeps_update_sessions [session_keeps]:
  assumes "\<And>r. rs_id (f r) = rs_id r" and "\<And>r. rs_tokenHash (f r) = rs_tokenHash r"
    and "\<And>r. rs_revokedAt r \<noteq> None \<Longrightarrow> rs_revokedAt (f r) \<noteq> None"
  shows "keeps (session_inv D) (modify (\<lambda>s. s\<lparr>refreshSessions := update_many P f (refreshSessions s)\<rparr>))"
  using dead_update [OF _ assms(1,3)] wf_update [OF _ assms(1,2)]
  by (auto simp: keeps_def session_inv_def)

lemma keeps_other_tables [session_keeps]:
  "keeps (session_inv D) (update_user uid g)"
  "keeps (session_inv D) (create_user u)"
  "keeps (session_inv D) (create_user_role ur)"
  "keeps (session_inv D) (write_login_history rq x e b r)"
  "keeps (session_inv D) (audit_write ev)"
  by (auto simp: keeps_def update_user_def create_user_def create_user_role_def write_login_history_def)

lemma keeps_issue_token_pair [session_keeps]: "keeps (session_inv D) (issue_token_pair cf pf rq uid dev sid tok)"
  unfolding issue_token_pair_def by (intro keeps_rules session_keeps)

lemma keeps_register [session_keeps]:
  "keeps (session_inv D) (register cf pf rq un em pw dev uid sid tok)"
  unfolding register_def Let_def by (intro keeps_rules session_keeps)

lemma keeps_login [session_keeps]: "keeps (session_inv D) (login cf pf rq em pw dev sid tok)"
  unfolding login_def Let_def by (intro keeps_rules session_keeps)

lemma keeps_refresh_lookup [session_keeps]: "keeps (session_inv D) (refresh_lookup pf rq tok)"
  unfolding refresh_lookup_def Let_def by (intro keeps_rules session_keeps)

lemma keeps_refresh_commit [session_keeps]: "keeps (session_inv D) (refresh_commit cf pf rq r nid ntok)"
  unfolding refresh_commit_def by (intro keeps_rules session_keeps) simp_all

lemma keeps_logout [session_keeps]:
  "keeps (session_inv D) (logout pf rq tok)"
  "keeps (session_inv D) (logout_all rq p)"
  "keeps (session_inv D) (revoke_session rq p sid)"
  unfolding logout_def logout_all_def revoke_session_def by (intro keeps_rules session_keeps)+

lemma keeps_change_password [session_keeps]: "keeps (session_inv D) (change_password pf rq p a b)"
  unfolding change_password_def by (intro keeps_rules session_keeps)

lemma keeps_register_device [session_keeps]: "keeps (session_inv D) (register_device cf pf rq p d fp dn dt nid)"
  unfolding register_device_def Let_def by (intro keeps_rules session_keeps) simp_all

section \<open>Interleaved requests\<close>

text \<open>
  Requests run concurrently. \<open>as_pending\<close> are the refresh requests between their read and their
  transaction, with the row they read; \<open>as_consumed\<close> are the sessions that were exchanged for a
  token pair, latest first. Each other request is one step.
\<close>

record auth_system =
  as_state :: state
  as_pending :: "refresh_session list"
  as_consumed :: "string list"

inductive auth_step :: "config \<Rightarrow> platform \<Rightarrow> auth_system \<Rightarrow> auth_system \<Rightarrow> bool"
  for cf :: config and pf :: platform where
  lookup_ok: "refresh_lookup pf rq tok (as_state y) = (Inr r, s') \<Longrightarrow>
    auth_step cf pf y (y\<lparr>as_state := s', as_pending := r # as_pending y\<rparr>)"
| lookup_refused: "refresh_lookup pf rq tok (as_state y) = (Inl e, s') \<Longrightarrow>
    auth_step cf pf y (y\<lparr>as_state := s'\<rparr>)"
| commit_ok: "r \<in> set (as_pending y) \<Longrightarrow> refresh_commit cf pf rq r nid ntok (as_state y) = (Inr tp, s') \<Longrightarrow>
    auth_step cf pf y (y\<lparr>as_state := s', as_pending := remove1 r (as_pending y), as_consumed := rs_id r # as_consumed y\<rparr>)"
| commit_refused: "r \<in> set (as_pending y) \<Longrightarrow> refresh_commit cf pf rq r nid ntok (as_state y) = (Inl e, s') \<Longrightarrow>
    auth_step cf pf y (y\<lparr>as_state := s', as_pending := remove1 r (as_pending y)\<rparr>)"
| register_request: "register cf pf rq un em pw dev uid sid tok (as_state y) = (res, s') \<Longrightarrow>
    auth_step cf pf y (y\<lparr>as_state := s'\<rparr>)"
| login_request: "login cf pf rq em pw dev sid tok (as_state y) = (res, s') \<Longrightarrow>
    auth_step cf pf y (y\<lparr>as_state := s'\<rparr>)"
| logout_request: "logout pf rq tok (as_state y) = (res', s') \<Longrightarrow> auth_step cf pf y (y\<lparr>as_state := s'\<rparr>)"
| logout_all_request: "logout_all rq p (as_state y) = (res'', s') \<Longrightarrow> auth_step cf pf y (y\<lparr>as_state := s'\<rparr>)"
| revoke_request: "revoke_session rq p sid (as_state y) = (res', s') \<Longrightarrow> auth_step cf pf y (y\<lparr>as_state := s'\<rparr>)"
| device_request: "register_device cf pf rq p d fp dn dt nid (as_state y) = (res''', s') \<Longrightarrow>
    auth_step cf pf y (y\<lparr>as_state := s'\<rparr>)"
| password_request: "change_password pf rq p a b (as_state y) = (res', s') \<Longrightarrow>
    auth_step cf pf y (y\<lparr>as_state := s'\<rparr>)"

inductive_cases auth_step_elim: "auth_step cf pf y z"

lemma refresh_commit_Inr:
  assumes "refresh_commit cf pf rq r nid ntok s = (Inr tp, s')"
  shows "fresh_session pf s nid ntok"
    and "count_where (\<lambda>q. rs_id q = rs_id r \<and> rs_revokedAt q = None)
           (refreshSessions s @ [new_session cf pf rq (rs_userId r) (rs_deviceId r) nid ntok]) = 1"
    and "s' = s\<lparr>refreshSessions := update_many (\<lambda>q. rs_id q = rs_id r \<and> rs_revokedAt q = None)
          (\<lambda>q. q\<lparr>rs_revokedAt := Some (rq_now rq), rs_replacedById := Some nid, rs_lastSeenAt := rq_now rq\<rparr>)
          (refreshSessions s @ [new_session cf pf rq (rs_userId r) (rs_deviceId r) nid ntok])\<rparr>"
    and "tp = \<lparr>tp_accessToken = pf_signAccess pf (rs_userId r) nid, tp_refreshToken = ntok,
          tp_expiresIn = cf_accessTtlSeconds cf\<rparr>"
  using assms
  by (auto simp: refresh_commit_def and_then_Inr create_session_def and_then_assoc fresh_session_def
      new_session_def split: if_splits)

text \<open>A commit needs its session alive, and leaves it dead.\<close>

lemma commit_needs_live:
  assumes ok: "refresh_commit cf pf rq r nid ntok s = (Inr tp, s')" and inv: "session_inv D s"
    and known: "rs_id r \<in> rs_id ` set (refreshSessions s)"
  shows "rs_id r \<notin> D" and "session_dead (rs_id r) s'"
proof -
  let ?n = "new_session cf pf rq (rs_userId r) (rs_deviceId r) nid ntok"
  from refresh_commit_Inr(1) [OF ok] known have nid: "rs_id ?n \<noteq> rs_id r"
    by (auto simp: fresh_session_def new_session_def)
  with refresh_commit_Inr(2) [OF ok]
  have "count_where (\<lambda>q. rs_id q = rs_id r \<and> rs_revokedAt q = None) (refreshSessions s) \<noteq> 0"
    by (simp split: if_splits)
  then obtain q where q: "q \<in> set (refreshSessions s)" "rs_id q = rs_id r" "rs_revokedAt q = None"
    by (auto simp: count_where_0)
  show "rs_id r \<notin> D"
  proof
    assume "rs_id r \<in> D"
    with inv have "session_dead (rs_id r) s" by (simp add: session_inv_def)
    with q show False unfolding session_dead_def by blast
  qed
  have "rs_id ` set (refreshSessions s') = rs_id ` set (refreshSessions s @ [?n])"
    unfolding refresh_commit_Inr(3) [OF ok] by (simp add: image_set map_update_many del: set_map)
  moreover have "\<forall>q\<in>set (refreshSessions s'). rs_id q = rs_id r \<longrightarrow> rs_revokedAt q \<noteq> None"
    unfolding refresh_commit_Inr(3) [OF ok] by auto
  ultimately show "session_dead (rs_id r) s'"
    using known by (auto simp: session_dead_def)
qed

definition auth_inv :: "auth_system \<Rightarrow> bool" where
  "auth_inv y \<longleftrightarrow> session_inv (set (as_consumed y)) (as_state y) \<and> distinct (as_consumed y)
     \<and> (\<forall>r\<in>set (as_pending y). rs_id r \<in> rs_id ` set (refreshSessions (as_state y)))"

text \<open>The ids of the session table only grow.\<close>

definition knows :: "string set \<Rightarrow> state \<Rightarrow> bool" where
  "knows A s \<longleftrightarrow> A \<subseteq> rs_id ` set (refreshSessions s)"

lemma knows_other [simp]:
  "knows A (s\<lparr>users := a\<rparr>) = knows A s"
  "knows A (s\<lparr>userRoles := b\<rparr>) = knows A s"
  "knows A (s\<lparr>auditEvents := c\<rparr>) = knows A s"
  "knows A (s\<lparr>loginHistories := d\<rparr>) = knows A s"
  "knows A (s\<lparr>trustedDevices := e\<rparr>) = knows A s"
  by (simp_all add: knows_def)

named_theorems knows_keeps "knows is kept by the building blocks"

lemma keeps_knows_update [knows_keeps]:
  "(\<And>r. rs_id (f r) = rs_id r) \<Longrightarrow>
    keeps (knows A) (modify (\<lambda>s. s\<lparr>refreshSessions := update_many P f (refreshSessions s)\<rparr>))"
  by (rule keepsI) (auto simp: knows_def image_set map_update_many simp del: set_map)

lemma keeps_knows_blocks [knows_keeps]:
  "keeps (knows A) (create_session r)"
  "keeps (knows A) (revoke_sessions now which)"
  "keeps (knows A) (update_user uid g)"
  "keeps (knows A) (create_user u)"
  "keeps (knows A) (create_user_role ur)"
  "keeps (knows A) (write_login_history rq x e b k)"
  "keeps (knows A) (audit_write ev)"
  by (auto simp: keeps_def create_session_def update_user_def create_user_def create_user_role_def
      write_login_history_def) (auto simp: knows_def image_set map_update_many simp del: set_map)

lemma keeps_knows [knows_keeps]:
  "keeps (knows A) (register cf pf rq un em pw dev uid sid tok)"
  "keeps (knows A) (login cf pf rq em pw dev sid tok)"
  "keeps (knows A) (refresh_lookup pf rq tok)"
  "keeps (knows A) (refresh_commit cf pf rq r nid ntok)"
  "keeps (knows A) (logout pf rq tok)"
  "keeps (knows A) (logout_all rq p)"
  "keeps (knows A) (revoke_session rq p sid)"
  "keeps (knows A) (register_device cf pf rq p d fp dn dt did)"
  "keeps (knows A) (change_password pf rq p pa pb)"
  unfolding register_def login_def refresh_lookup_def refresh_commit_def logout_def logout_all_def
    revoke_session_def register_device_def change_password_def issue_token_pair_def Let_def
  by ((intro keeps_rules knows_keeps; simp?)+)


lemma known_after:
  assumes "m s = (res, s')" and "keeps (knows {sid}) m" and "sid \<in> rs_id ` set (refreshSessions s)"
  shows "sid \<in> rs_id ` set (refreshSessions s')"
  using keepsD [OF assms(2) _ assms(1)] assms(3) by (simp add: knows_def)

lemma refresh_lookup_Inr:
  "refresh_lookup pf rq tok s = (Inr r, s') \<longleftrightarrow> s' = s \<and>
     find_first (\<lambda>r. rs_tokenHash r = hash_token pf tok \<and> user_not_deleted s (rs_userId r)) (refreshSessions s) = Some r
     \<and> (\<exists>u. find_user s (rs_userId r) = Some u \<and> u_status u = User_ACTIVE)
     \<and> rq_now rq < rs_expiresAt r \<and> rs_revokedAt r = None"
  by (auto simp: refresh_lookup_def Let_def simp del: find_first_None split: option.splits)

lemma plain_step_inv:
  assumes "m (as_state y) = (res, s')" and "\<And>D. keeps (session_inv D) m" and "\<And>A. keeps (knows A) m"
    and "auth_inv y"
  shows "auth_inv (y\<lparr>as_state := s'\<rparr>)"
  using assms(4) keepsD [OF assms(2) _ assms(1)] known_after [OF assms(1) assms(3)]
  by (auto simp: auth_inv_def)

lemma auth_step_inv: "auth_step cf pf y z \<Longrightarrow> auth_inv y \<Longrightarrow> auth_inv z"
proof (induction rule: auth_step.induct)
  case (lookup_ok rq tok y r s')
  then have "s' = as_state y" and "r \<in> set (refreshSessions (as_state y))"
    by (auto simp: refresh_lookup_Inr dest: find_first_Some)
  with lookup_ok show ?case by (auto simp: auth_inv_def)
next
  case (commit_ok r y rq nid ntok tp s')
  from commit_ok have known: "rs_id r \<in> rs_id ` set (refreshSessions (as_state y))"
    and inv: "session_inv (set (as_consumed y)) (as_state y)" by (auto simp: auth_inv_def)
  have "session_inv (set (as_consumed y)) s'"
    using keepsD [OF keeps_refresh_commit inv commit_ok(2)] .
  with commit_needs_live [OF commit_ok(2) inv known] commit_ok
    known_after [OF commit_ok(2) keeps_knows(4)] set_remove1_subset [of r "as_pending y"]
  show ?case by (auto simp: auth_inv_def session_inv_def subset_iff)
next
  case (commit_refused r y rq nid ntok e s')
  with plain_step_inv [OF commit_refused(2) keeps_refresh_commit keeps_knows(4)]
    set_remove1_subset [of r "as_pending y"]
  show ?case by (auto simp: auth_inv_def subset_iff)
qed (blast intro: plain_step_inv session_keeps knows_keeps)+

definition idle_system :: "state \<Rightarrow> auth_system" where
  "idle_system s = \<lparr>as_state = s, as_pending = [], as_consumed = []\<rparr>"

lemma auth_reachable_inv:
  assumes "(auth_step cf pf)\<^sup>*\<^sup>* (idle_system s) y" and "sessions_wf s"
  shows "auth_inv y"
  using assms
proof (induction rule: rtranclp_induct)
  case base
  then show ?case by (simp add: auth_inv_def idle_system_def session_inv_def)
next
  case (step y z)
  then show ?case using auth_step_inv by blast
qed

text \<open>
  C3. Refresh tokens are single use under every interleaving: however refresh requests, whose read and
  transaction may be separated by any other requests, logins, registrations, logouts, revocations, device
  registrations and password changes are interleaved from a well-formed session table, no session is
  exchanged for a token pair twice, and every exchanged session is revoked and stays so.
\<close>

theorem refresh_exchanged_once:
  assumes "(auth_step cf pf)\<^sup>*\<^sup>* (idle_system s) y" and "sessions_wf s"
  shows "distinct (as_consumed y) \<and> (\<forall>sid\<in>set (as_consumed y). \<forall>t uid. \<not> live_session (as_state y) t uid sid)"
  using auth_reachable_inv [OF assms] dead_not_live
  by (auto simp: auth_inv_def session_inv_def)

text \<open>An uninterrupted \<open>refresh\<close> is one run of the system.\<close>

lemma refresh_is_run:
  assumes "refresh cf pf rq tok nid ntok s = (Inr tp, s')"
  shows "\<exists>r. refresh_lookup pf rq tok s = (Inr r, s)
     \<and> (auth_step cf pf)\<^sup>*\<^sup>* (idle_system s) \<lparr>as_state = s', as_pending = [], as_consumed = [rs_id r]\<rparr>"
proof -
  from assms obtain r where l: "refresh_lookup pf rq tok s = (Inr r, s)"
    and c: "refresh_commit cf pf rq r nid ntok s = (Inr tp, s')"
    by (auto simp: refresh_def and_then_Inr refresh_lookup_Inr)
  let ?y = "\<lparr>as_state = s, as_pending = [r], as_consumed = []\<rparr>"
  have "auth_step cf pf (idle_system s) ?y"
    using auth_step.lookup_ok [of pf rq tok "idle_system s" r s cf] l by (simp add: idle_system_def)
  moreover have "auth_step cf pf ?y \<lparr>as_state = s', as_pending = [], as_consumed = [rs_id r]\<rparr>"
    using auth_step.commit_ok [of r ?y cf pf rq nid ntok tp s'] c by simp
  ultimately show ?thesis using l by (meson converse_rtranclp_into_rtranclp r_into_rtranclp)
qed

definition demo_config :: config where
  "demo_config = \<lparr>cf_argon2DummyHash = ''dummy'', cf_refreshTtlDays = 30, cf_accessTtlSeconds = 900,
     cf_maxTrustedDevices = 2, cf_capabilityTtlSeconds = 120, cf_maxConcurrentPlayback = 2,
     cf_mediaGatewayPublicUrl = ''https://media'', cf_r2Bucket = ''bucket'',
     cf_r2PublicBaseUrl = ''https://r2'', cf_maxUploadBytes = 1000000\<rparr>"

definition refresh_demo :: state where
  "refresh_demo = demo_state\<lparr>refreshSessions := [demo_session\<lparr>rs_tokenHash := ''#tok''\<rparr>]\<rparr>"

lemma refresh_demo_ok:
  "\<exists>tp s'. refresh demo_config demo_platform demo_request ''tok'' ''s2'' ''tok2'' refresh_demo = (Inr tp, s')"
proof -
  have "\<not> isl (fst (refresh demo_config demo_platform demo_request ''tok'' ''s2'' ''tok2'' refresh_demo))"
    by code_simp
  then show ?thesis by (metis isl_def old.sum.exhaust prod.collapse)
qed

lemma refresh_demo_wf: "sessions_wf refresh_demo" "users_wf refresh_demo"
  by (simp_all add: sessions_wf_def users_wf_def refresh_demo_def demo_defs)

theorem refresh_exchanged_once_witness:
  "\<exists>y. (auth_step demo_config demo_platform)\<^sup>*\<^sup>* (idle_system refresh_demo) y \<and> as_consumed y = [''s1'']
     \<and> (\<forall>t uid. \<not> live_session (as_state y) t uid ''s1'')"
proof -
  from refresh_demo_ok obtain tp s' where "refresh demo_config demo_platform demo_request ''tok'' ''s2'' ''tok2'' refresh_demo = (Inr tp, s')" by blast
  from refresh_is_run [OF this] obtain r where l: "refresh_lookup demo_platform demo_request ''tok'' refresh_demo = (Inr r, refresh_demo)"
    and run: "(auth_step demo_config demo_platform)\<^sup>*\<^sup>* (idle_system refresh_demo) \<lparr>as_state = s', as_pending = [], as_consumed = [rs_id r]\<rparr>"
    by blast
  from l have "r \<in> set (refreshSessions refresh_demo)"
    unfolding refresh_lookup_Inr by (blast dest: find_first_Some)
  then have "rs_id r = ''s1''"
    by (simp add: refresh_demo_def demo_session_def)
  with run refresh_exchanged_once [OF run refresh_demo_wf(1)] show ?thesis
    by (intro exI [of _ "\<lparr>as_state = s', as_pending = [], as_consumed = [rs_id r]\<rparr>"]) auto
qed

section \<open>Rotation and replay\<close>

lemma refresh_Inr:
  "refresh cf pf rq tok nid ntok s = (Inr tp, s') \<longleftrightarrow>
     (\<exists>r. refresh_lookup pf rq tok s = (Inr r, s) \<and> refresh_commit cf pf rq r nid ntok s = (Inr tp, s'))"
  by (auto simp: refresh_def and_then_Inr refresh_lookup_Inr)

text \<open>The session of a token, whose row is determined by the hash of the token.\<close>

lemma token_session:
  assumes "sessions_wf s" and "r \<in> set (refreshSessions s)" and "rs_tokenHash r = hash_token pf tok"
    and "user_not_deleted s (rs_userId r)"
  shows "find_first (\<lambda>q. rs_tokenHash q = hash_token pf tok \<and> user_not_deleted s (rs_userId q)) (refreshSessions s) = Some r"
  using assms by (intro find_first_key [where k = rs_tokenHash]) (auto simp: sessions_wf_def)

text \<open>A used token that comes back before its expiry revokes every session of its account.\<close>

lemma replay_revokes:
  assumes wf: "sessions_wf s" and r: "r \<in> set (refreshSessions s)" "rs_tokenHash r = hash_token pf tok"
    and u: "user_not_deleted s (rs_userId r)" "find_user s (rs_userId r) = Some u" "u_status u = User_ACTIVE"
    and used: "rs_revokedAt r \<noteq> None" "rq_now rq < rs_expiresAt r"
  shows "\<exists>s'. refresh cf pf rq tok nid ntok s = (Inl (Unauthorized ''Refresh token is invalid or expired''), s')
     \<and> (\<forall>t sid. \<not> live_session s' t (rs_userId r) sid)"
proof -
  let ?s = "s\<lparr>refreshSessions := update_many (\<lambda>q. rs_userId q = rs_userId r \<and> rs_revokedAt q = None)
    (\<lambda>q. q\<lparr>rs_revokedAt := Some (rq_now rq)\<rparr>) (refreshSessions s)\<rparr>"
  have "\<exists>es. refresh cf pf rq tok nid ntok s =
     (Inl (Unauthorized ''Refresh token is invalid or expired''), ?s\<lparr>auditEvents := es\<rparr>)"
    using token_session [OF wf r u(1)] u used
    by (auto simp: refresh_def refresh_lookup_def Let_def and_then_assoc and_then_if)
  moreover have "\<not> live_session (?s\<lparr>auditEvents := es\<rparr>) t (rs_userId r) sid" for es t sid
    unfolding live_session_def
    using revoke_kills [where which = "\<lambda>q. rs_userId q = rs_userId r" and t = "refreshSessions s"]
    by (fastforce simp del: in_update_many)
  ultimately show ?thesis by blast
qed

text \<open>
  Rotation and replay: a refresh that succeeds closes the session of its token, links it to exactly one
  replacement, which is live for the same account and device until the configured time to live has passed,
  and returns the access token of that replacement. If the same token is presented again before the old
  session would have expired, the request is refused and every session of the account, the replacement
  included, is revoked.
\<close>

lemma refresh_rotation_replay:
  assumes wf: "sessions_wf s" and ok: "refresh cf pf rq tok nid ntok s = (Inr tp, s1)"
  shows "\<exists>r\<in>set (refreshSessions s). rs_tokenHash r = hash_token pf tok \<and> rs_revokedAt r = None
     \<and> tp_accessToken tp = pf_signAccess pf (rs_userId r) nid \<and> tp_refreshToken tp = ntok
     \<and> session_dead (rs_id r) s1
     \<and> (\<exists>n\<in>set (refreshSessions s1). rs_id n = nid \<and> rs_tokenHash n = hash_token pf ntok \<and> rs_userId n = rs_userId r
          \<and> rs_deviceId n = rs_deviceId r \<and> rs_revokedAt n = None
          \<and> rs_expiresAt n = rq_now rq + cf_refreshTtlDays cf * ms_per_day)
     \<and> (rq_now rq' < rs_expiresAt r \<longrightarrow>
          (\<exists>s2. refresh cf pf rq' tok nid' ntok' s1 = (Inl (Unauthorized ''Refresh token is invalid or expired''), s2)
             \<and> (\<forall>t sid. \<not> live_session s2 t (rs_userId r) sid)))"
proof -
  from ok obtain r where l: "refresh_lookup pf rq tok s = (Inr r, s)"
    and c: "refresh_commit cf pf rq r nid ntok s = (Inr tp, s1)" by (auto simp: refresh_Inr)
  let ?n = "new_session cf pf rq (rs_userId r) (rs_deviceId r) nid ntok"
  let ?r = "r\<lparr>rs_revokedAt := Some (rq_now rq), rs_replacedById := Some nid, rs_lastSeenAt := rq_now rq\<rparr>"
  from l have r: "r \<in> set (refreshSessions s)" "rs_tokenHash r = hash_token pf tok" "rs_revokedAt r = None"
    "user_not_deleted s (rs_userId r)" "\<exists>u. find_user s (rs_userId r) = Some u \<and> u_status u = User_ACTIVE"
    by (auto simp: refresh_lookup_Inr simp del: find_first_None dest!: find_first_Some)
  note s1 = refresh_commit_Inr(3) [OF c] and fresh = refresh_commit_Inr(1) [OF c]
  from fresh r(1) have ne: "rs_id ?n \<noteq> rs_id r" by (auto simp: fresh_session_def new_session_def)
  have r1: "?r \<in> set (refreshSessions s1)" using r by (auto simp: s1 intro!: bexI [of _ r])
  have n1: "?n \<in> set (refreshSessions s1)" using ne by (auto simp: s1)
  have wf1: "sessions_wf s1"
    using keepsD [OF keeps_refresh_commit _ c, of "{}"] wf by (simp add: session_inv_def)
  have same: "user_not_deleted s1 uid = user_not_deleted s uid" "find_user s1 uid = find_user s uid" for uid
    by (simp_all add: s1 user_not_deleted_def find_user_def)
  have dead: "session_dead (rs_id r) s1"
    using commit_needs_live(2) [OF c, of "{}"] wf r(1) by (simp add: session_inv_def)
  have replay: "\<exists>s2. refresh cf pf rq' tok nid' ntok' s1 = (Inl (Unauthorized ''Refresh token is invalid or expired''), s2)
             \<and> (\<forall>t sid. \<not> live_session s2 t (rs_userId r) sid)" if "rq_now rq' < rs_expiresAt r"
    using replay_revokes [OF wf1 r1] r that by (auto simp: same)
  show ?thesis
    using r dead n1 replay refresh_commit_Inr(4) [OF c]
    by (intro bexI [of _ r]) (auto simp: new_session_def intro!: bexI [of _ ?n])
qed

lemma refresh_rotation_replay_example:
  "\<exists>s1 s2. (\<exists>tp. refresh demo_config demo_platform demo_request ''tok'' ''s2'' ''tok2'' refresh_demo = (Inr tp, s1))
     \<and> refresh demo_config demo_platform demo_request ''tok'' ''s3'' ''tok3'' s1
          = (Inl (Unauthorized ''Refresh token is invalid or expired''), s2)
     \<and> \<not> live_session s2 6000 ''u1'' ''s2''"
proof -
  from refresh_demo_ok obtain tp s1 where ok: "refresh demo_config demo_platform demo_request ''tok'' ''s2'' ''tok2'' refresh_demo = (Inr tp, s1)" by blast
  from refresh_rotation_replay [OF refresh_demo_wf(1) ok, of demo_request "''s3''" "''tok3''"]
  obtain s2 where "refresh demo_config demo_platform demo_request ''tok'' ''s3'' ''tok3'' s1
          = (Inl (Unauthorized ''Refresh token is invalid or expired''), s2)"
    and "\<forall>t sid. \<not> live_session s2 t ''u1'' sid"
    by (auto simp: refresh_demo_def demo_session_def demo_request_def)
  with ok show ?thesis by blast
qed

section \<open>Login\<close>

text \<open>Accounts are identified by their id and by their e-mail address.\<close>

definition accounts_wf :: "state \<Rightarrow> bool" where
  "accounts_wf s \<longleftrightarrow> users_wf s \<and> distinct (map u_email (users s))"

lemma find_login_Some:
  "find_login s e = Some u \<Longrightarrow> u \<in> set (users s) \<and> u_email u = e \<and> u_deletedAt u = None"
  unfolding find_login_def by (drule find_first_Some) simp

lemma accounts_wf_update:
  "accounts_wf s \<Longrightarrow> (\<And>u. u_id (f u) = u_id u) \<Longrightarrow> (\<And>u. u_email (f u) = u_email u) \<Longrightarrow> users s' = update_many P f (users s) \<Longrightarrow> accounts_wf s'"
  by (simp add: accounts_wf_def users_wf_def map_update_many)

lemma find_login_update:
  assumes wf: "accounts_wf s" and u: "find_login s e = Some u"
    and f: "\<And>q. u_id (f q) = u_id q" "\<And>q. u_email (f q) = u_email q" "\<And>q. u_deletedAt (f q) = u_deletedAt q"
    and s': "users s' = update_many (\<lambda>q. u_id q = u_id u) f (users s)"
  shows "find_login s' e = Some (f u)"
proof -
  have "f u \<in> set (users s')" using find_login_Some [OF u] by (auto simp: s' intro!: bexI [of _ u])
  moreover have "accounts_wf s'" by (rule accounts_wf_update [OF wf f(1,2) s'])
  ultimately show ?thesis
    unfolding find_login_def
    using find_login_Some [OF u] f
    by (intro find_first_key [where k = u_email]) (auto simp: accounts_wf_def)
qed

text \<open>What login checks once the account is found.\<close>

definition login_valid :: "platform \<Rightarrow> instant \<Rightarrow> string \<Rightarrow> user \<Rightarrow> bool" where
  "login_valid pf now password u \<longleftrightarrow>
     pf_argonVerify pf (u_passwordHash u) password \<and> u_status u = User_ACTIVE \<and> \<not> locked_at u now"

lemma login_refused:
  assumes "case find_login s (normalize_email e) of None \<Rightarrow> True | Some u \<Rightarrow> \<not> login_valid pf (rq_now rq) pw u"
  shows "\<exists>s'. login cf pf rq e pw dev sid tok s = (Inl (Unauthorized ''Invalid credentials''), s')
     \<and> refreshSessions s' = refreshSessions s
     \<and> users s' = (case find_login s (normalize_email e) of None \<Rightarrow> users s
          | Some u \<Rightarrow> if locked_at u (rq_now rq) then users s
              else update_many (\<lambda>q. u_id q = u_id u) (\<lambda>q. q\<lparr>
                u_failedLoginCount := u_failedLoginCount (login_failed_user (rq_now rq) u),
                u_lockedUntil := u_lockedUntil (login_failed_user (rq_now rq) u)\<rparr>) (users s))"
  using assms
  by (auto simp: login_def Let_def login_valid_def and_then_if and_then_option write_login_history_def
      update_user_def split: option.splits simp del: find_first_None)

lemma login_accepted:
  assumes "find_login s (normalize_email e) = Some u" and "login_valid pf (rq_now rq) pw u"
  shows "\<exists>s'. login cf pf rq e pw dev sid tok s = issue_token_pair cf pf rq (u_id u) dev sid tok s'
     \<and> refreshSessions s' = refreshSessions s
     \<and> users s' = update_many (\<lambda>q. u_id q = u_id u) (\<lambda>q. q\<lparr>u_failedLoginCount := 0, u_lockedUntil := None,
             u_lastLoginAt := Some (rq_now rq)\<rparr>) (users s)"
  using assms
  by (auto simp: login_def Let_def login_valid_def write_login_history_def)

text \<open>
  C8. Login decides exactly on the account, the password, its status and its lock, and its refusal does not
  tell which of them failed: with a fresh session id and token it succeeds if and only if an account that is
  not deleted has the normalised e-mail address, the password verifies, the account is active and not
  locked; in every other case it answers the same error. The token pair it returns names a session with
  which the access guard lets the account in until the configured time to live has passed, and not later.
\<close>

theorem login_correct:
  assumes wf: "accounts_wf s" and fresh: "fresh_session pf s sid tok"
  shows "case find_login s (normalize_email e) of
      None \<Rightarrow> fst (login cf pf rq e pw dev sid tok s) = Inl (Unauthorized ''Invalid credentials'')
    | Some u \<Rightarrow>
        if login_valid pf (rq_now rq) pw u then
          \<exists>s'. login cf pf rq e pw dev sid tok s =
                 (Inr \<lparr>tp_accessToken = pf_signAccess pf (u_id u) sid, tp_refreshToken = tok,
                       tp_expiresIn = cf_accessTtlSeconds cf\<rparr>, s')
             \<and> (\<forall>t. (\<exists>p. jwt_validate t (u_id u) sid s' = (Inr p, s')) \<longleftrightarrow>
                     t < rq_now rq + cf_refreshTtlDays cf * ms_per_day)
        else fst (login cf pf rq e pw dev sid tok s) = Inl (Unauthorized ''Invalid credentials'')"
proof (cases "find_login s (normalize_email e)")
  case None
  with login_refused [where s = s and e = e and pf = pf and rq = rq and pw = pw and cf = cf and dev = dev and sid = sid and tok = tok] show ?thesis by auto
next
  case (Some u)
  show ?thesis
  proof (cases "login_valid pf (rq_now rq) pw u")
    case False
    with Some login_refused [where s = s and e = e and pf = pf and rq = rq and pw = pw and cf = cf and dev = dev and sid = sid and tok = tok] show ?thesis by auto
  next
    case True
    let ?f = "\<lambda>q. q\<lparr>u_failedLoginCount := 0, u_lockedUntil := None, u_lastLoginAt := Some (rq_now rq)\<rparr>"
    from login_accepted [OF Some True] obtain s0 where
      run: "login cf pf rq e pw dev sid tok s = issue_token_pair cf pf rq (u_id u) dev sid tok s0"
      and r0: "refreshSessions s0 = refreshSessions s"
      and u0: "users s0 = update_many (\<lambda>q. u_id q = u_id u) ?f (users s)" by blast
    from fresh r0 have fresh0: "fresh_session pf s0 sid tok" by (simp add: fresh_session_def)
    let ?n = "new_session cf pf rq (u_id u) dev sid tok"
    let ?s' = "s0\<lparr>refreshSessions := refreshSessions s0 @ [?n]\<rparr>"
    have "users_wf ?s'" using accounts_wf_update [OF wf _ _ u0] by (simp add: accounts_wf_def users_wf_def)
    moreover have "live_session ?s' t (u_id u) sid \<longleftrightarrow> t < rq_now rq + cf_refreshTtlDays cf * ms_per_day" for t
      using fresh r0 by (auto simp: live_session_def new_session_def fresh_session_def)
    moreover have "active_account ?s' (u_id u)"
    proof -
      have "?f u \<in> set (users s0)" using find_login_Some [OF Some] by (auto simp: u0 intro!: bexI [of _ u])
      with find_login_Some [OF Some] True show ?thesis
        by (auto simp: active_account_def login_valid_def intro!: bexI [of _ "?f u"])
    qed
    ultimately have "(\<exists>p. jwt_validate t (u_id u) sid ?s' = (Inr p, ?s')) \<longleftrightarrow>
         t < rq_now rq + cf_refreshTtlDays cf * ms_per_day" for t
      using jwt_validate_iff by metis
    with Some True run fresh0 show ?thesis by (simp add: issue_token_pair_apply)
  qed
qed

definition login_demo :: state where
  "login_demo = demo_state\<lparr>users := [demo_user\<lparr>u_passwordHash := ''$secret''\<rparr>]\<rparr>"

theorem login_correct_witness:
  "\<exists>tp s'. login demo_config demo_platform demo_request '' A@b.c'' ''secret'' None ''s9'' ''t9'' login_demo = (Inr tp, s')
     \<and> (\<exists>p. jwt_validate 6000 ''u1'' ''s9'' s' = (Inr p, s'))"
proof -
  have wf: "accounts_wf login_demo" and fr: "fresh_session demo_platform login_demo ''s9'' ''t9''"
    by (simp_all add: accounts_wf_def users_wf_def fresh_session_def hash_token_def login_demo_def demo_defs)
  have u: "find_login login_demo (normalize_email '' A@b.c'') = Some (demo_user\<lparr>u_passwordHash := ''$secret''\<rparr>)"
    by code_simp
  show ?thesis
    using login_correct [OF wf fr, where e = "'' A@b.c''" and cf = demo_config and rq = demo_request and pw = "''secret''" and dev = None] unfolding u
    by (auto simp: login_valid_def locked_at_def demo_platform_def demo_user_def demo_request_def demo_config_def)
qed

section \<open>Lockout\<close>

text \<open>Login attempts against one address: request, password, and the ids that would be issued.\<close>

type_synonym attempt = "request \<times> string \<times> string \<times> string"

fun login_run :: "config \<Rightarrow> platform \<Rightarrow> string \<Rightarrow> string option \<Rightarrow> attempt list \<Rightarrow> state \<Rightarrow> state" where
  "login_run cf pf e dev [] s = s"
| "login_run cf pf e dev ((rq, pw, sid, tok) # ats) s =
     login_run cf pf e dev ats (snd (login cf pf rq e pw dev sid tok s))"

lemma login_run_append [simp]:
  "login_run cf pf e dev (as @ bs) s = login_run cf pf e dev bs (login_run cf pf e dev as s)"
  by (induction cf pf e dev as s rule: login_run.induct) simp_all

definition wrong_passwords :: "platform \<Rightarrow> user \<Rightarrow> attempt list \<Rightarrow> bool" where
  "wrong_passwords pf u ats \<longleftrightarrow> (\<forall>a\<in>set ats. \<not> pf_argonVerify pf (u_passwordHash u) (fst (snd a)))"

lemma failed_login_step:
  assumes wf: "accounts_wf s" and u: "find_login s (normalize_email e) = Some u" and l: "u_lockedUntil u = None"
    and w: "\<not> pf_argonVerify pf (u_passwordHash u) pw"
    and s': "s' = snd (login cf pf rq e pw dev sid tok s)"
  shows "accounts_wf s'" and "find_login s' (normalize_email e) = Some (login_failed_user (rq_now rq) u)"
proof -
  let ?f = "\<lambda>q. q\<lparr>u_failedLoginCount := u_failedLoginCount (login_failed_user (rq_now rq) u),
                u_lockedUntil := u_lockedUntil (login_failed_user (rq_now rq) u)\<rparr>"
  have us: "users s' = update_many (\<lambda>q. u_id q = u_id u) ?f (users s)"
    using login_refused [where s = s and e = e and pf = pf and rq = rq and pw = pw and cf = cf and dev = dev and sid = sid and tok = tok]
      u l w by (auto simp: login_valid_def locked_at_def s')
  show "accounts_wf s'" by (rule accounts_wf_update [OF wf _ _ us]) simp_all
  have "find_login s' (normalize_email e) = Some (?f u)"
    by (rule find_login_update [OF wf u _ _ _ us]) simp_all
  then show "find_login s' (normalize_email e) = Some (login_failed_user (rq_now rq) u)"
    by (simp add: login_failed_user_def Let_def)
qed

text \<open>Below the threshold failures only count.\<close>

lemma failed_logins_count:
  assumes "accounts_wf s" and "find_login s (normalize_email e) = Some u" and "u_lockedUntil u = None"
    and "wrong_passwords pf u ats" and "u_failedLoginCount u + int (length ats) < lock_threshold"
  shows "accounts_wf (login_run cf pf e dev ats s)
    \<and> find_login (login_run cf pf e dev ats s) (normalize_email e)
        = Some (u\<lparr>u_failedLoginCount := u_failedLoginCount u + int (length ats)\<rparr>)"
  using assms
proof (induction ats arbitrary: s u)
  case Nil
  then show ?case by simp
next
  case (Cons a ats)
  obtain rq pw sid tok where a: "a = (rq, pw, sid, tok)" by (cases a)
  let ?s = "snd (login cf pf rq e pw dev sid tok s)" and ?u = "u\<lparr>u_failedLoginCount := u_failedLoginCount u + 1\<rparr>"
  from Cons.prems a have w: "\<not> pf_argonVerify pf (u_passwordHash u) pw" "wrong_passwords pf ?u ats"
    by (simp_all add: wrong_passwords_def)
  have "login_failed_user (rq_now rq) u = ?u"
    using Cons.prems by (simp add: login_failed_user_def Let_def)
  with failed_login_step [OF Cons.prems(1-3) w(1) refl, of cf rq dev sid tok]
  have "accounts_wf ?s" "find_login ?s (normalize_email e) = Some ?u" by simp_all
  from Cons.IH [OF this _ w(2)] Cons.prems(3,5) show ?case by (simp add: a algebra_simps)
qed

text \<open>A locked account refuses every password and is left as it is.\<close>

lemma locked_login:
  assumes "find_login s (normalize_email e) = Some u" and "locked_at u (rq_now rq)"
  shows "\<exists>s'. login cf pf rq e pw dev sid tok s = (Inl (Unauthorized ''Invalid credentials''), s')
    \<and> users s' = users s \<and> refreshSessions s' = refreshSessions s"
  using login_refused [where s = s and e = e and pf = pf and rq = rq and pw = pw and cf = cf and dev = dev and sid = sid and tok = tok] assms
  by (auto simp: login_valid_def)

text \<open>
  C30. Brute-force lockout: after the fifth consecutive wrong password on an unlocked account with no failure
  counted, whatever the times of the attempts, every login to it in the following fifteen minutes is refused,
  the one with the right password included; such attempts issue no session and do not prolong the lock.
\<close>

theorem login_lockout:
  assumes wf: "accounts_wf s" and u: "find_login s (normalize_email e) = Some u"
    and clean: "u_failedLoginCount u = 0" "u_lockedUntil u = None"
    and five: "length ats = 5" and wrong: "wrong_passwords pf u ats"
    and soon: "rq_now rq < rq_now (fst (last ats)) + 15 * ms_per_minute"
  shows "\<exists>s'. login cf pf rq e pw dev' sid' tok' (login_run cf pf e dev ats s)
            = (Inl (Unauthorized ''Invalid credentials''), s')
       \<and> users s' = users (login_run cf pf e dev ats s)
       \<and> refreshSessions s' = refreshSessions (login_run cf pf e dev ats s)"
proof -
  from five have ats: "ats = butlast ats @ [last ats]" by (cases ats rule: rev_cases) simp_all
  obtain rq5 pw5 sid5 tok5 where l: "last ats = (rq5, pw5, sid5, tok5)" by (cases "last ats")
  let ?s4 = "login_run cf pf e dev (butlast ats) s" and ?u4 = "u\<lparr>u_failedLoginCount := 4\<rparr>"
  from wrong have w: "wrong_passwords pf u (butlast ats)" "\<not> pf_argonVerify pf (u_passwordHash u) pw5"
    using l five by (auto simp: wrong_passwords_def dest: in_set_butlastD) (metis fst_conv last_in_set list.size(3) snd_conv zero_neq_numeral)
  have four: "accounts_wf ?s4" "find_login ?s4 (normalize_email e) = Some ?u4"
    using failed_logins_count [OF wf u clean(2) w(1), of cf dev] clean five by (simp_all add: lock_threshold_def)
  have run: "login_run cf pf e dev ats s = snd (login cf pf rq5 e pw5 dev sid5 tok5 ?s4)"
    by (subst ats) (simp add: l)
  have "find_login (login_run cf pf e dev ats s) (normalize_email e) = Some (login_failed_user (rq_now rq5) ?u4)"
    unfolding run by (rule failed_login_step(2) [OF four _ _ refl]) (simp_all add: clean w)
  then show ?thesis
    by (rule locked_login)
      (use soon l in \<open>simp add: locked_at_def login_failed_user_def lock_threshold_def lock_minutes_def\<close>)
qed

definition bad_attempt :: "instant \<Rightarrow> attempt" where
  "bad_attempt t = (demo_request\<lparr>rq_now := t\<rparr>, ''guess'', ''x'', ''y'')"

theorem login_lockout_witness:
  "fst (login demo_config demo_platform (demo_request\<lparr>rq_now := 900000\<rparr>) ''a@b.c'' ''secret'' None ''s9'' ''t9''
      (login_run demo_config demo_platform ''a@b.c'' None (map bad_attempt [1, 2, 3, 4, 5]) login_demo))
    = Inl (Unauthorized ''Invalid credentials'')"
proof -
  let ?u = "demo_user\<lparr>u_passwordHash := ''$secret''\<rparr>"
  have wf: "accounts_wf login_demo"
    by (simp add: accounts_wf_def users_wf_def login_demo_def demo_defs)
  have u: "find_login login_demo (normalize_email ''a@b.c'') = Some ?u"
    by code_simp
  have "wrong_passwords demo_platform ?u (map bad_attempt [1, 2, 3, 4, 5])"
    by (simp add: wrong_passwords_def bad_attempt_def demo_platform_def)
  from login_lockout [OF wf u _ _ _ this, where rq = "demo_request\<lparr>rq_now := 900000\<rparr>" and cf = demo_config
      and pw = "''secret''" and dev' = None and sid' = "''s9''" and tok' = "''t9''" and dev = None]
  show ?thesis by (auto simp: demo_user_def bad_attempt_def)
qed

section \<open>Ending sessions\<close>

lemma live_session_needs: "live_session s t uid sid \<Longrightarrow>
    \<exists>r\<in>set (refreshSessions s). rs_id r = sid \<and> rs_userId r = uid \<and> rs_revokedAt r = None"
  by (auto simp: live_session_def)

lemma jwt_needs_live: "jwt_validate t uid sid s = (Inr p, s') \<Longrightarrow> live_session s t uid sid"
  using access_session_ex [of s t uid sid] by (auto simp: jwt_validate_Inr)

text \<open>The sessions that live on after a revocation are those it did not select.\<close>

lemma live_after_revoke:
  assumes "refreshSessions s' = update_many (\<lambda>r. which r \<and> rs_revokedAt r = None)
      (\<lambda>r. r\<lparr>rs_revokedAt := Some now\<rparr>) (refreshSessions s)"
  shows "live_session s' t uid sid \<longleftrightarrow>
     (\<exists>r\<in>set (refreshSessions s). rs_id r = sid \<and> rs_userId r = uid \<and> rs_revokedAt r = None
        \<and> t < rs_expiresAt r \<and> \<not> which r)"
proof
  assume "live_session s' t uid sid"
  then obtain r where r: "r \<in> set (refreshSessions s')" "rs_id r = sid" "rs_userId r = uid"
    "rs_revokedAt r = None" "t < rs_expiresAt r" by (auto simp: live_session_def)
  from r(1) obtain q where "q \<in> set (refreshSessions s)"
    "r = (if which q \<and> rs_revokedAt q = None then q\<lparr>rs_revokedAt := Some now\<rparr> else q)"
    by (auto simp: assms)
  with r show "\<exists>r\<in>set (refreshSessions s). rs_id r = sid \<and> rs_userId r = uid \<and> rs_revokedAt r = None
        \<and> t < rs_expiresAt r \<and> \<not> which r" by (auto split: if_splits)
next
  assume "\<exists>r\<in>set (refreshSessions s). rs_id r = sid \<and> rs_userId r = uid \<and> rs_revokedAt r = None
        \<and> t < rs_expiresAt r \<and> \<not> which r"
  then obtain r where r: "r \<in> set (refreshSessions s)" "rs_id r = sid" "rs_userId r = uid"
    "rs_revokedAt r = None" "t < rs_expiresAt r" "\<not> which r" by blast
  then have "r \<in> set (refreshSessions s')" unfolding assms by (intro rv.others_kept) simp_all
  with r show "live_session s' t uid sid" by (auto simp: live_session_def)
qed

text \<open>
  Ending every session takes effect at once: after \<open>logoutAll\<close> no access token of the account, however
  long it would still verify, passes the access guard until the account logs in again; other accounts keep
  exactly the live sessions they had, and the answer is the number of sessions that were open.
\<close>

lemma logout_all_effect:
  "\<exists>s'. logout_all rq p s
       = (Inr (count_where (\<lambda>r. rs_userId r = pr_id p \<and> rs_revokedAt r = None) (refreshSessions s)), s')
     \<and> (\<forall>t sid. \<not> isl (fst (jwt_validate t uid sid s')) \<longrightarrow> uid \<noteq> pr_id p)
     \<and> (uid \<noteq> pr_id p \<longrightarrow> (\<forall>t sid. live_session s' t uid sid = live_session s t uid sid))"
proof -
  let ?s = "s\<lparr>refreshSessions := update_many (\<lambda>r. rs_userId r = pr_id p \<and> rs_revokedAt r = None)
      (\<lambda>r. r\<lparr>rs_revokedAt := Some (rq_now rq)\<rparr>) (refreshSessions s)\<rparr>"
  obtain es where run: "logout_all rq p s
       = (Inr (count_where (\<lambda>r. rs_userId r = pr_id p \<and> rs_revokedAt r = None) (refreshSessions s)), ?s\<lparr>auditEvents := es\<rparr>)"
    by (auto simp: logout_all_def)
  let ?s' = "?s\<lparr>auditEvents := es\<rparr>"
  have live: "live_session ?s' t uid' sid \<longleftrightarrow> uid' \<noteq> pr_id p \<and> live_session s t uid' sid" for t uid' sid
    by (subst live_after_revoke [where s = s and which = "\<lambda>r. rs_userId r = pr_id p" and now = "rq_now rq"])
      (auto simp: live_session_def)
  then have "\<not> isl (fst (jwt_validate t uid sid ?s')) \<Longrightarrow> uid \<noteq> pr_id p" for t sid
    using prog_result [of "jwt_validate t uid sid" ?s'] jwt_needs_live [of t uid sid ?s'] live [of t uid sid] by blast
  moreover have "uid \<noteq> pr_id p \<Longrightarrow> live_session ?s' t uid sid = live_session s t uid sid" for t sid
    by (simp add: live)
  ultimately show ?thesis using run by blast
qed

lemma logout_all_effect_example:
  "isl (fst (jwt_validate 6000 ''u1'' ''s1'' (snd (logout_all demo_request (principal_of demo_state demo_user ''s1'') demo_state))))"
proof -
  have "pr_id (principal_of demo_state demo_user ''s1'') = ''u1''"
    by (simp add: principal_of_def demo_user_def Let_def)
  with logout_all_effect [of demo_request "principal_of demo_state demo_user ''s1''" demo_state "''u1''"]
  show ?thesis by auto
qed

text \<open>
  Changing the password needs the current one, replaces it (a login with the new password verifies
  against the stored hash whenever the hash library accepts what it hashed) and ends every other session of
  the account: afterwards only the session that made the change passes the access guard.
\<close>

lemma change_password_effect:
  assumes wf: "accounts_wf s" and ok: "change_password pf rq p cur new s = (Inr (), s')"
  shows "(\<exists>u\<in>set (users s). u_id u = pr_id p \<and> u_deletedAt u = None \<and> pf_argonVerify pf (u_passwordHash u) cur
       \<and> u\<lparr>u_passwordHash := pf_argonHash pf new\<rparr> \<in> set (users s'))
     \<and> (\<forall>t sid. \<not> isl (fst (jwt_validate t (pr_id p) sid s')) \<longrightarrow> sid = pr_sessionId p)
     \<and> (\<forall>t. live_session s' t (pr_id p) (pr_sessionId p) = live_session s t (pr_id p) (pr_sessionId p))"
proof -
  let ?w = "\<lambda>r. rs_userId r = pr_id p \<and> rs_id r \<noteq> pr_sessionId p"
  from ok obtain u where u: "find_first (\<lambda>u. u_id u = pr_id p \<and> u_deletedAt u = None) (users s) = Some u"
    and v: "pf_argonVerify pf (u_passwordHash u) cur"
    by (auto simp: change_password_def simp del: find_first_None split: option.splits if_splits)
  from ok have us: "users s' = update_many (\<lambda>u. u_id u = pr_id p) (\<lambda>u. u\<lparr>u_passwordHash := pf_argonHash pf new\<rparr>) (users s)"
    and rs: "refreshSessions s' = update_many (\<lambda>r. ?w r \<and> rs_revokedAt r = None)
      (\<lambda>r. r\<lparr>rs_revokedAt := Some (rq_now rq)\<rparr>) (refreshSessions s)"
    by (auto simp: change_password_def and_then_transaction split: option.splits if_splits)
  have "\<not> live_session s' t (pr_id p) sid" if "sid \<noteq> pr_sessionId p" for t sid
    using that by (auto simp: live_after_revoke [OF rs])
  then have "\<not> isl (fst (jwt_validate t (pr_id p) sid s')) \<Longrightarrow> sid = pr_sessionId p" for t sid
    using prog_result [of "jwt_validate t (pr_id p) sid" s'] jwt_needs_live [of t "pr_id p" sid s'] by blast
  moreover have "live_session s' t (pr_id p) (pr_sessionId p) = live_session s t (pr_id p) (pr_sessionId p)" for t
    unfolding live_after_revoke [OF rs] by (auto simp: live_session_def)
  moreover have "u\<lparr>u_passwordHash := pf_argonHash pf new\<rparr> \<in> set (users s')"
    using find_first_Some [OF u] by (auto simp: us intro!: bexI [of _ u])
  ultimately show ?thesis using find_first_Some [OF u] v by blast
qed

definition me :: principal where
  "me = \<lparr>pr_id = ''u1'', pr_sessionId = ''s1'', pr_roles = [USER], pr_permissions = [], pr_status = User_ACTIVE\<rparr>"

lemma change_password_effect_example:
  "\<exists>s'. change_password demo_platform demo_request me ''secret'' ''changed'' login_demo = (Inr (), s')
     \<and> demo_user\<lparr>u_passwordHash := ''$changed''\<rparr> \<in> set (users s')"
proof -
  have "\<not> isl (fst (change_password demo_platform demo_request me ''secret'' ''changed'' login_demo))"
    by code_simp
  then obtain s' where ok: "change_password demo_platform demo_request me ''secret'' ''changed'' login_demo = (Inr (), s')"
    by (blast dest: prog_done)
  have "accounts_wf login_demo" by (simp add: accounts_wf_def users_wf_def login_demo_def demo_defs)
  from change_password_effect [OF this ok] obtain u where "u \<in> set (users login_demo)"
    "u\<lparr>u_passwordHash := pf_argonHash demo_platform ''changed''\<rparr> \<in> set (users s')" by blast
  with ok show ?thesis by (simp add: login_demo_def demo_defs)
qed

section \<open>Trusted devices\<close>

definition device_known :: "state \<Rightarrow> string \<Rightarrow> string \<Rightarrow> bool" where
  "device_known s uid deviceId \<longleftrightarrow> (\<exists>d\<in>set (trustedDevices s). is_device uid deviceId d)"

lemma register_device_Inr:
  assumes "register_device cf pf rq p deviceId fp dn dt newId s = (Inr d, s')"
  shows "trustedDevices s' = upsert_device rq (pr_id p) deviceId dn (hash_fingerprint pf fp) newId (trustedDevices s)"
    and "\<exists>r\<in>set (refreshSessions s). rs_id r = pr_sessionId p \<and> rs_userId r = pr_id p \<and> rs_revokedAt r = None"
    and "device_known s (pr_id p) deviceId \<or> active_devices s (pr_id p) < cf_maxTrustedDevices cf"
  using assms
  by (auto simp: register_device_def Let_def and_then_Inr device_known_def active_devices_def
      dest: find_first_Some split: if_splits)

lemma upsert_new_active:
  assumes "\<not> device_known s uid deviceId"
    and "trustedDevices s' = upsert_device rq uid deviceId dn fph newId (trustedDevices s)"
  shows "active_devices s' uid = Suc (active_devices s uid)"
  using assms by (auto simp: active_devices_def upsert_device_def device_known_def)

lemma upsert_known_active:
  assumes "\<forall>d\<in>set (trustedDevices s). is_device uid deviceId d \<longrightarrow> td_status d = Device_ACTIVE"
    and "device_known s uid deviceId"
    and "trustedDevices s' = upsert_device rq uid deviceId dn fph newId (trustedDevices s)"
  shows "active_devices s' uid = active_devices s uid"
proof -
  let ?f = "\<lambda>d. d\<lparr>td_deviceName := keep_or dn (td_deviceName d), td_fingerprintHash := fph,
     td_status := Device_ACTIVE, td_revokedAt := None, td_lastSeenAt := rq_now rq\<rparr>"
  have "count_where (\<lambda>d. td_userId d = uid \<and> td_status d = Device_ACTIVE) (update_many (is_device uid deviceId) ?f t)
      = count_where (\<lambda>d. td_userId d = uid \<and> td_status d = Device_ACTIVE) t"
    if "\<forall>d\<in>set t. is_device uid deviceId d \<longrightarrow> td_status d = Device_ACTIVE" for t
    using that by (induction t) (auto simp: is_device_def)
  with assms show ?thesis by (simp add: active_devices_def upsert_device_def device_known_def)
qed

text \<open>
  Trusted devices: registering a device needs a session of the caller that is not revoked. A device the
  account does not have yet is added only while the account has fewer active devices than the configured
  maximum, so their number stays within it, and registering a device that is already active again does not
  change their number.
\<close>

lemma device_limit:
  assumes ok: "register_device cf pf rq p deviceId fp dn dt newId s = (Inr d, s')"
  shows "(\<exists>r\<in>set (refreshSessions s). rs_id r = pr_sessionId p \<and> rs_userId r = pr_id p \<and> rs_revokedAt r = None)
     \<and> (\<not> device_known s (pr_id p) deviceId \<longrightarrow>
          active_devices s' (pr_id p) = Suc (active_devices s (pr_id p))
          \<and> active_devices s' (pr_id p) \<le> cf_maxTrustedDevices cf)
     \<and> (device_known s (pr_id p) deviceId
          \<and> (\<forall>d\<in>set (trustedDevices s). is_device (pr_id p) deviceId d \<longrightarrow> td_status d = Device_ACTIVE) \<longrightarrow>
          active_devices s' (pr_id p) = active_devices s (pr_id p))"
  using register_device_Inr [OF ok] upsert_new_active [OF _ register_device_Inr(1) [OF ok]]
    upsert_known_active [OF _ _ register_device_Inr(1) [OF ok]]
  by auto

lemma device_limit_example:
  "\<exists>d s'. register_device demo_config demo_platform demo_request me ''device-1'' ''fingerprint-123'' None None ''d1'' demo_state = (Inr d, s')
     \<and> active_devices s' ''u1'' = 1"
proof -
  let ?m = "register_device demo_config demo_platform demo_request me ''device-1'' ''fingerprint-123'' None None ''d1''"
  have "\<not> isl (fst (?m demo_state))" by code_simp
  from prog_result [of ?m, OF this] obtain d s' where ok: "?m demo_state = (Inr d, s')" by blast
  have "\<not> device_known demo_state ''u1'' ''device-1''" "active_devices demo_state ''u1'' = 0"
    by (simp_all add: device_known_def active_devices_def demo_defs)
  with device_limit [OF ok] ok show ?thesis by (auto simp: me_def)
qed

definition three_devices :: state where
  "three_devices = demo_state\<lparr>trustedDevices := map (\<lambda>(i, st).
     \<lparr>td_id = i, td_userId = ''u1'', td_deviceId = i, td_deviceName = None, td_fingerprintHash = [],
      td_status = st, td_lastSeenAt = 0, td_revokedAt = None, td_createdAt = 0\<rparr>)
     [(''device-1'', Device_REVOKED), (''device-2'', Device_ACTIVE), (''device-3'', Device_ACTIVE)]\<rparr>"

text \<open>
  The limit is not enforced when a revoked device is registered again: with a maximum of two, an account
  whose first device was revoked and which has two other active devices gets the first one back and then has
  three active devices.
\<close>

lemma device_limit_reactivation:
  "case register_device demo_config demo_platform demo_request me ''device-1'' ''fingerprint-123'' None None ''new'' three_devices of
     (Inr d, s') \<Rightarrow> d = ''device-1'' \<and> active_devices s' ''u1'' = 3 \<and> cf_maxTrustedDevices demo_config = 2
   | (Inl e, s') \<Rightarrow> False"
  by code_simp

end
