(* ===== verification/Subscriptions.thy ===== *)
theory Subscriptions
  imports Principals
begin

text \<open>
  \<open>src/subscriptions/subscriptions.service.ts\<close>: plans, subscriptions with their history, payments.
  The abstract view of an account is its \<open>paid_until\<close> instant: \<open>subscribe\<close> is proved to move it by
  exactly the duration of the plan, and the premium check of \<open>validate\<close> to hold exactly inside an
  active window.
\<close>

section \<open>Plans\<close>

definition list_plans :: "subscription_plan list handler" where
  "list_plans = gets (\<lambda>s. order_asc pl_pricePkr (subscriptionPlans s))"

definition create_plan :: "request \<Rightarrow> principal \<Rightarrow> string \<Rightarrow> string \<Rightarrow> string \<Rightarrow> int \<Rightarrow> int
    \<Rightarrow> subscription_plan handler" where
  "create_plan rq actor newId code name pricePkr durationDays =
     (let plan = \<lparr>pl_id = newId, pl_code = code, pl_name = name, pl_pricePkr = pricePkr,
        pl_durationDays = durationDays, pl_isActive = True, pl_createdAt = rq_now rq\<rparr> in
      and_then (gets subscriptionPlans) (\<lambda>t.
      and_then (require (\<forall>q\<in>set t. pl_code q \<noteq> code \<and> pl_id q \<noteq> newId) (Conflict ''Plan code already exists'')) (\<lambda>_.
      and_then (modify (\<lambda>s. s\<lparr>subscriptionPlans := subscriptionPlans s @ [plan]\<rparr>)) (\<lambda>_.
      and_then (audit_write (audit_input rq (Some (pr_id actor)) ''subscription.plan_create'' ''subscription_plan''
        (Some newId) SUCCESS [])) (\<lambda>_. ret plan)))))"

record plan_changes =
  pc_name :: "string option"
  pc_pricePkr :: "int option"
  pc_durationDays :: "int option"
  pc_isActive :: "bool option"

definition update_plan :: "request \<Rightarrow> principal \<Rightarrow> string \<Rightarrow> plan_changes \<Rightarrow> subscription_plan handler" where
  "update_plan rq actor pid dto =
     and_then (gets (\<lambda>s. find_first (\<lambda>q. pl_id q = pid) (subscriptionPlans s))) (\<lambda>plan.
     and_then (expect plan (Internal ''P2025'')) (\<lambda>plan.
     let plan' = plan\<lparr>pl_name := set_or (pc_name dto) (pl_name plan), pl_pricePkr := set_or (pc_pricePkr dto) (pl_pricePkr plan),
       pl_durationDays := set_or (pc_durationDays dto) (pl_durationDays plan),
       pl_isActive := set_or (pc_isActive dto) (pl_isActive plan)\<rparr> in
     and_then (modify (\<lambda>s. s\<lparr>subscriptionPlans := update_many (\<lambda>q. pl_id q = pid) (\<lambda>_. plan') (subscriptionPlans s)\<rparr>)) (\<lambda>_.
     and_then (audit_write (audit_input rq (Some (pr_id actor)) ''subscription.plan_update'' ''subscription_plan''
        (Some pid) SUCCESS [])) (\<lambda>_. ret plan'))))"

section \<open>Subscriptions\<close>

definition add_history :: "request \<Rightarrow> string \<Rightarrow> string \<Rightarrow> string \<Rightarrow> (instant \<times> instant) option \<Rightarrow> instant \<Rightarrow> instant
    \<Rightarrow> string option \<Rightarrow> unit handler" where
  "add_history rq sid actorId action old newStarts newEnds note =
     modify (\<lambda>s. s\<lparr>subscriptionHistories := subscriptionHistories s @
       [\<lparr>sh_subscriptionId = sid, sh_actorId = Some actorId, sh_action = action,
         sh_oldStartsAt = map_option fst old, sh_oldEndsAt = map_option snd old,
         sh_newStartsAt = Some newStarts, sh_newEndsAt = Some newEnds, sh_note = note,
         sh_createdAt = rq_now rq\<rparr>]\<rparr>)"

text \<open>The latest active subscription that has not ended: \<open>orderBy: { endsAt: 'desc' }\<close>.\<close>

definition current_subscription :: "state \<Rightarrow> string \<Rightarrow> instant \<Rightarrow> subscription option" where
  "current_subscription s uid now =
     find_latest su_endsAt (filter (\<lambda>q. su_userId q = uid \<and> su_status q = Sub_ACTIVE \<and> now < su_endsAt q) (subscriptions s))"

definition subscribe :: "request \<Rightarrow> principal \<Rightarrow> string \<Rightarrow> string \<Rightarrow> string \<Rightarrow> string option \<Rightarrow> subscription handler" where
  "subscribe rq actor newId uid planId note =
     and_then (gets (\<lambda>s. find_first (\<lambda>q. pl_id q = planId \<and> pl_isActive q) (subscriptionPlans s))) (\<lambda>plan.
     and_then (expect plan (NotFound ''Active plan not found'')) (\<lambda>plan.
     and_then (gets (\<lambda>s. user_not_deleted s uid)) (\<lambda>known.
     and_then (require known (NotFound ''User not found'')) (\<lambda>_.
     and_then (gets (\<lambda>s. current_subscription s uid (rq_now rq))) (\<lambda>current.
     let startsAt = (case current of None \<Rightarrow> rq_now rq
           | Some c \<Rightarrow> if rq_now rq < su_endsAt c then su_endsAt c else rq_now rq);
         endsAt = startsAt + pl_durationDays plan * ms_per_day;
         item = \<lparr>su_id = newId, su_userId = uid, su_planId = planId, su_status = Sub_ACTIVE,
           su_startsAt = startsAt, su_endsAt = endsAt, su_cancelledAt = None, su_note = note,
           su_createdAt = rq_now rq\<rparr> in
     and_then (transaction
       (and_then (gets subscriptions) (\<lambda>t.
        and_then (require (\<forall>q\<in>set t. su_id q \<noteq> newId) (Internal ''P2002'')) (\<lambda>_.
        and_then (modify (\<lambda>s. s\<lparr>subscriptions := subscriptions s @ [item]\<rparr>)) (\<lambda>_.
        add_history rq newId (pr_id actor) ''created'' None startsAt endsAt note))))) (\<lambda>_.
     and_then (audit_write (audit_input rq (Some (pr_id actor)) ''subscription.create'' ''subscription''
       (Some newId) SUCCESS [(''userId'', JStr uid), (''planId'', JStr planId)])) (\<lambda>_. ret item)))))))"

definition list_for_user :: "string \<Rightarrow> principal \<Rightarrow> page_query
    \<Rightarrow> (subscription \<times> subscription_plan option \<times> subscription_history list) page handler" where
  "list_for_user uid actor q =
     and_then (require (pr_id actor = uid \<or> ''subscriptions.read'' \<in> set (pr_permissions actor)
       \<or> SUPER_ADMIN \<in> set (pr_roles actor)) (NotFound ''Subscription not found'')) (\<lambda>_.
     gets (\<lambda>s. list_page q (map (\<lambda>x. (x, find_first (\<lambda>pl. pl_id pl = su_planId x) (subscriptionPlans s),
         take 20 (order_desc sh_createdAt (filter (\<lambda>h. sh_subscriptionId h = su_id x) (subscriptionHistories s)))))
       (order_desc su_startsAt (filter (\<lambda>x. su_userId x = uid) (subscriptions s))))))"

definition record_payment :: "request \<Rightarrow> principal \<Rightarrow> string \<Rightarrow> string \<Rightarrow> string option \<Rightarrow> int \<Rightarrow> payment_method
    \<Rightarrow> string option \<Rightarrow> string option \<Rightarrow> string option \<Rightarrow> instant option \<Rightarrow> payment_record handler" where
  "record_payment rq actor newId uid planId amountPkr method reference proofKey note paidAt =
     and_then (gets (\<lambda>s. user_not_deleted s uid)) (\<lambda>known.
     and_then (require known (NotFound ''User not found'')) (\<lambda>_.
     let payment = \<lparr>pa_id = newId, pa_userId = uid, pa_planId = planId, pa_actorId = Some (pr_id actor),
       pa_amountPkr = amountPkr, pa_method = method, pa_status = Pay_CONFIRMED, pa_reference = reference,
       pa_proofKey = proofKey, pa_note = note, pa_paidAt = set_or paidAt (rq_now rq)\<rparr> in
     and_then (gets subscriptionPlans) (\<lambda>plans.
     and_then (require (planId = None \<or> (\<exists>pl\<in>set plans. planId = Some (pl_id pl))) (Internal ''P2003'')) (\<lambda>_.
     and_then (modify (\<lambda>s. s\<lparr>paymentRecords := paymentRecords s @ [payment]\<rparr>)) (\<lambda>_.
     and_then (audit_write (audit_input rq (Some (pr_id actor)) ''subscription.payment_record'' ''payment''
       (Some newId) SUCCESS [])) (\<lambda>_. ret payment))))))"

definition find_subscription :: "state \<Rightarrow> string \<Rightarrow> subscription option" where
  "find_subscription s sid = find_first (\<lambda>q. su_id q = sid) (subscriptions s)"

definition extend_subscription :: "request \<Rightarrow> principal \<Rightarrow> string \<Rightarrow> int \<Rightarrow> string option \<Rightarrow> subscription handler" where
  "extend_subscription rq actor sid days note =
     and_then (gets (\<lambda>s. find_subscription s sid)) (\<lambda>current.
     and_then (expect current (NotFound ''Subscription not found'')) (\<lambda>current.
     let endsAt = max (su_endsAt current) (rq_now rq) + days * ms_per_day;
         f = (\<lambda>q. q\<lparr>su_endsAt := endsAt, su_status := Sub_ACTIVE, su_cancelledAt := None\<rparr>) in
     and_then (transaction
       (and_then (modify (\<lambda>s. s\<lparr>subscriptions := update_many (\<lambda>q. su_id q = sid) f (subscriptions s)\<rparr>)) (\<lambda>_.
        add_history rq sid (pr_id actor) ''extended'' (Some (su_startsAt current, su_endsAt current))
          (su_startsAt current) endsAt note))) (\<lambda>_.
     and_then (audit_write (audit_input rq (Some (pr_id actor)) ''subscription.extend'' ''subscription''
       (Some sid) SUCCESS [])) (\<lambda>_. ret (f current)))))"

definition cancel_subscription :: "request \<Rightarrow> principal \<Rightarrow> string \<Rightarrow> string option \<Rightarrow> subscription handler" where
  "cancel_subscription rq actor sid note =
     and_then (gets (\<lambda>s. find_subscription s sid)) (\<lambda>current.
     and_then (expect current (NotFound ''Subscription not found'')) (\<lambda>current.
     let f = (\<lambda>q. q\<lparr>su_status := Sub_CANCELLED, su_cancelledAt := Some (rq_now rq),
           su_note := keep_or note (su_note current)\<rparr>) in
     and_then (transaction
       (and_then (modify (\<lambda>s. s\<lparr>subscriptions := update_many (\<lambda>q. su_id q = sid) f (subscriptions s)\<rparr>)) (\<lambda>_.
        add_history rq sid (pr_id actor) ''cancelled'' (Some (su_startsAt current, su_endsAt current))
          (su_startsAt current) (su_endsAt current) note))) (\<lambda>_.
     and_then (audit_write (audit_input rq (Some (pr_id actor)) ''subscription.cancel'' ''subscription''
       (Some sid) SUCCESS [])) (\<lambda>_. ret (f current)))))"

definition validate_subscription :: "instant \<Rightarrow> string \<Rightarrow> (bool \<times> subscription option) handler" where
  "validate_subscription now uid = gets (\<lambda>s.
     let sub = find_latest su_endsAt (filter (\<lambda>q. su_userId q = uid \<and> su_status q = Sub_ACTIVE
       \<and> within (su_startsAt q) (su_endsAt q) now) (subscriptions s)) in (sub \<noteq> None, sub))"

section \<open>The account's paid-until instant\<close>

definition paid_until :: "state \<Rightarrow> string \<Rightarrow> instant \<Rightarrow> instant" where
  "paid_until s uid now =
     foldr max (map su_endsAt (filter (\<lambda>q. su_userId q = uid \<and> su_status q = Sub_ACTIVE) (subscriptions s))) now"

text \<open>Every window is proper, and ids are unique (the checks of the migration).\<close>

definition subscriptions_wf :: "state \<Rightarrow> bool" where
  "subscriptions_wf s \<longleftrightarrow> distinct (map su_id (subscriptions s))
     \<and> (\<forall>q\<in>set (subscriptions s). su_startsAt q < su_endsAt q)"

definition plans_wf :: "state \<Rightarrow> bool" where
  "plans_wf s \<longleftrightarrow> (\<forall>q\<in>set (subscriptionPlans s). 0 < pl_durationDays q)"

lemma foldr_max_append: "foldr max xs (max x y :: int) = max x (foldr max xs y)"
  by (induction xs) auto

lemma foldr_max_ge: "(n::int) \<le> foldr max xs n"
  by (induction xs) auto

lemma foldr_max_latest:
  "foldr max (map k (filter P t)) (n::int) =
     (case find_latest k (filter (\<lambda>q. P q \<and> n < k q) t) of None \<Rightarrow> n | Some q \<Rightarrow> k q)"
proof (induction t)
  case Nil
  then show ?case by simp
next
  case (Cons q t)
  let ?L = "find_latest k (filter (\<lambda>q. P q \<and> n < k q) t)"
  show ?case
  proof (cases ?L)
    case None
    with Cons show ?thesis by (simp add: max_def del: find_latest_None)
  next
    case (Some x)
    then have "n < k x" using find_latest_Some [OF Some] by simp
    with Some Cons show ?thesis by (simp add: max_def del: find_latest_None)
  qed
qed

text \<open>\<open>subscribe\<close> starts the new window at the paid-until instant.\<close>

lemma start_is_paid_until:
  "(case current_subscription s uid now of None \<Rightarrow> now
     | Some c \<Rightarrow> if now < su_endsAt c then su_endsAt c else now) = paid_until s uid now"
proof -
  have "now < su_endsAt c" if "current_subscription s uid now = Some c" for c
    using find_latest_Some [OF that [unfolded current_subscription_def]] by simp
  moreover have "paid_until s uid now = (case current_subscription s uid now of None \<Rightarrow> now | Some c \<Rightarrow> su_endsAt c)"
    unfolding paid_until_def foldr_max_latest current_subscription_def conj_assoc by (rule refl)
  ultimately show ?thesis by (cases "current_subscription s uid now") simp_all
qed

section \<open>What the operations do to it\<close>

definition active_sub :: "string \<Rightarrow> subscription \<Rightarrow> bool" where
  "active_sub uid q \<longleftrightarrow> su_userId q = uid \<and> su_status q = Sub_ACTIVE"

text \<open>The specification of the premium check: some active window contains the instant.\<close>

definition entitled :: "state \<Rightarrow> string \<Rightarrow> instant \<Rightarrow> bool" where
  "entitled s uid now \<longleftrightarrow> (\<exists>q\<in>set (subscriptions s). active_sub uid q \<and> within (su_startsAt q) (su_endsAt q) now)"

lemma validate_entitled:
  "\<exists>sub. validate_subscription now uid s = (Inr (entitled s uid now, sub), s)"
proof -
  have "(find_latest su_endsAt (filter (\<lambda>q. su_userId q = uid \<and> su_status q = Sub_ACTIVE
       \<and> within (su_startsAt q) (su_endsAt q) now) (subscriptions s)) \<noteq> None) = entitled s uid now"
    unfolding find_latest_None entitled_def active_sub_def filter_empty_conv by blast
  then show ?thesis by (simp only: validate_subscription_def Let_def gets_apply) blast
qed

lemma subscribe_Inr:
  assumes "subscribe rq actor newId uid planId note s = (Inr item, s')"
  obtains plan where "plan \<in> set (subscriptionPlans s)" "pl_id plan = planId" "pl_isActive plan"
    "user_not_deleted s uid"
    "item = \<lparr>su_id = newId, su_userId = uid, su_planId = planId, su_status = Sub_ACTIVE,
       su_startsAt = paid_until s uid (rq_now rq),
       su_endsAt = paid_until s uid (rq_now rq) + pl_durationDays plan * ms_per_day,
       su_cancelledAt = None, su_note = note, su_createdAt = rq_now rq\<rparr>"
    "\<forall>q\<in>set (subscriptions s). su_id q \<noteq> newId"
    "subscriptions s' = subscriptions s @ [item]" "subscriptionPlans s' = subscriptionPlans s"
proof -
  from assms obtain plan where plan: "find_first (\<lambda>q. pl_id q = planId \<and> pl_isActive q) (subscriptionPlans s) = Some plan"
    by (auto simp: subscribe_def Let_def simp del: find_first_None split: option.splits)
  show thesis
    using assms plan find_first_Some [OF plan]
    by (intro that [of plan])
      (auto simp: subscribe_def Let_def start_is_paid_until and_then_Inr add_history_def split: if_splits)
qed

lemma paid_until_append:
  "paid_until (s\<lparr>subscriptions := subscriptions s @ [q]\<rparr>) uid now =
     (if active_sub uid q then max (su_endsAt q) (paid_until s uid now) else paid_until s uid now)"
  by (simp add: paid_until_def active_sub_def foldr_max_append)

lemma paid_until_cong: "subscriptions s' = subscriptions s \<Longrightarrow> paid_until s' uid now = paid_until s uid now"
  by (simp add: paid_until_def)

lemma foldr_max_mem: "(x::int) \<in> set xs \<Longrightarrow> x \<le> foldr max xs n"
  by (induction xs) auto

lemma ends_before_paid_until:
  "q \<in> set (subscriptions s) \<Longrightarrow> active_sub uid q \<Longrightarrow> su_endsAt q \<le> paid_until s uid now"
  unfolding paid_until_def active_sub_def by (rule foldr_max_mem) simp

text \<open>
  C35. A purchase adds exactly the time it paid for: a subscription to an active plan starts where the paid
  time of the account ends (or now), lasts the duration of the plan, overlaps no other active subscription of
  the account, moves the paid-until instant by exactly that duration, entitles the account throughout, and
  changes no other account.
\<close>

theorem subscribe_adds_duration:
  assumes wf: "plans_wf s" and ok: "subscribe rq actor newId uid planId note s = (Inr item, s')"
  shows "\<exists>plan\<in>set (subscriptionPlans s). pl_id plan = planId \<and> pl_isActive plan
     \<and> paid_until s' uid (rq_now rq) = paid_until s uid (rq_now rq) + pl_durationDays plan * ms_per_day
     \<and> su_startsAt item = paid_until s uid (rq_now rq) \<and> su_endsAt item = paid_until s' uid (rq_now rq)
     \<and> (\<forall>q\<in>set (subscriptions s). active_sub uid q \<longrightarrow> su_endsAt q \<le> su_startsAt item)
     \<and> (\<forall>t. within (su_startsAt item) (su_endsAt item) t \<longrightarrow> entitled s' uid t)
     \<and> (\<forall>other t. other \<noteq> uid \<longrightarrow> entitled s' other t = entitled s other t)"
proof -
  obtain plan where plan: "plan \<in> set (subscriptionPlans s)" "pl_id plan = planId" "pl_isActive plan"
    and item: "item = \<lparr>su_id = newId, su_userId = uid, su_planId = planId, su_status = Sub_ACTIVE,
       su_startsAt = paid_until s uid (rq_now rq),
       su_endsAt = paid_until s uid (rq_now rq) + pl_durationDays plan * ms_per_day,
       su_cancelledAt = None, su_note = note, su_createdAt = rq_now rq\<rparr>"
    and subs: "subscriptions s' = subscriptions s @ [item]" by (rule subscribe_Inr [OF ok])
  have act: "active_sub uid item" by (simp add: active_sub_def item)
  have d: "0 < pl_durationDays plan * ms_per_day" using wf plan(1) by (simp add: plans_wf_def)
  have "paid_until s' uid (rq_now rq) = max (su_endsAt item) (paid_until s uid (rq_now rq))"
    using act paid_until_append [of s item] by (simp add: paid_until_def subs)
  then have pu: "paid_until s' uid (rq_now rq) = paid_until s uid (rq_now rq) + pl_durationDays plan * ms_per_day"
    using d by (simp add: item)
  show ?thesis
  proof (intro bexI [of _ plan] conjI)
    show "\<forall>q\<in>set (subscriptions s). active_sub uid q \<longrightarrow> su_endsAt q \<le> su_startsAt item"
      using ends_before_paid_until by (simp add: item)
    show "\<forall>t. within (su_startsAt item) (su_endsAt item) t \<longrightarrow> entitled s' uid t"
      using act by (auto simp: entitled_def subs)
    show "\<forall>other t. other \<noteq> uid \<longrightarrow> entitled s' other t = entitled s other t"
      by (auto simp: entitled_def subs active_sub_def item)
  qed (use plan pu in \<open>simp_all add: item\<close>)
qed

definition demo_plan :: subscription_plan where
  "demo_plan = \<lparr>pl_id = ''pl1'', pl_code = ''MONTH'', pl_name = ''Month'', pl_pricePkr = 500,
     pl_durationDays = 30, pl_isActive = True, pl_createdAt = 0\<rparr>"

definition subscription_demo :: state where
  "subscription_demo = demo_state\<lparr>subscriptionPlans := [demo_plan]\<rparr>"

definition demo_actor :: principal where
  "demo_actor = \<lparr>pr_id = ''u1'', pr_sessionId = ''s1'', pr_roles = [ADMIN], pr_permissions = [],
     pr_status = User_ACTIVE\<rparr>"

theorem subscribe_adds_duration_witness:
  "\<exists>item s'. subscribe demo_request demo_actor ''x1'' ''u1'' ''pl1'' None subscription_demo = (Inr item, s')
     \<and> entitled s' ''u1'' 6000"
proof -
  let ?m = "subscribe demo_request demo_actor ''x1'' ''u1'' ''pl1'' None"
  have "\<not> isl (fst (?m subscription_demo))" by code_simp
  from prog_result [of ?m, OF this] obtain item s' where ok: "?m subscription_demo = (Inr item, s')" by blast
  have wf: "plans_wf subscription_demo" by (simp add: plans_wf_def subscription_demo_def demo_plan_def)
  have "paid_until subscription_demo ''u1'' 5000 = 5000"
    by (simp add: paid_until_def subscription_demo_def demo_defs)
  with subscribe_adds_duration [OF wf ok] ok show ?thesis
    by (auto simp: within_def demo_request_def subscription_demo_def demo_plan_def)
qed

text \<open>What \<open>extend\<close> and \<open>cancel\<close> do to their row.\<close>

lemma extend_Inr:
  "extend_subscription rq actor sid days note s = (Inr x, s') \<Longrightarrow>
     \<exists>c. find_subscription s sid = Some c
       \<and> subscriptions s' = update_many (\<lambda>q. su_id q = sid)
             (\<lambda>q. q\<lparr>su_endsAt := max (su_endsAt c) (rq_now rq) + days * ms_per_day, su_status := Sub_ACTIVE,
                    su_cancelledAt := None\<rparr>) (subscriptions s)
       \<and> subscriptionPlans s' = subscriptionPlans s"
  by (auto simp: extend_subscription_def Let_def and_then_Inr add_history_def split: option.splits)

lemma cancel_Inr:
  "cancel_subscription rq actor sid note s = (Inr x, s') \<Longrightarrow>
     \<exists>c. find_subscription s sid = Some c
       \<and> subscriptions s' = update_many (\<lambda>q. su_id q = sid) (\<lambda>q. q\<lparr>su_status := Sub_CANCELLED,
            su_cancelledAt := Some (rq_now rq), su_note := keep_or note (su_note c)\<rparr>) (subscriptions s)
       \<and> subscriptionPlans s' = subscriptionPlans s"
  by (auto simp: cancel_subscription_def Let_def and_then_Inr add_history_def split: option.splits)

lemma find_subscription_Some:
  "find_subscription s sid = Some c \<Longrightarrow> c \<in> set (subscriptions s) \<and> su_id c = sid"
  unfolding find_subscription_def by (drule find_first_Some) simp

lemma subscription_unique:
  "subscriptions_wf s \<Longrightarrow> find_subscription s sid = Some c \<Longrightarrow> q \<in> set (subscriptions s) \<Longrightarrow> su_id q = sid \<Longrightarrow> q = c"
  by (metis find_subscription_Some subscriptions_wf_def unique_key)

text \<open>
  Extending never shortens and revives: the subscription then ends the given number of days after the later
  of its old end and now, the account is entitled from the start of the window to that end even if the
  subscription was cancelled or had expired, and the other accounts are unaffected. Cancelling takes the
  subscription out at once: if no other window of the account contains the instant it is not entitled.
\<close>

lemma extend_cancel_effect:
  assumes wf: "subscriptions_wf s" and days: "1 \<le> days"
    and ex: "extend_subscription rq actor sid days note s = (Inr x, s')"
    and ca: "cancel_subscription rq' actor' sid note' s = (Inr y, s'')"
  shows "\<exists>c. find_subscription s sid = Some c
     \<and> (\<exists>e. e = max (su_endsAt c) (rq_now rq) + days * ms_per_day \<and> su_endsAt c < e
          \<and> (\<forall>t. within (su_startsAt c) e t \<longrightarrow> entitled s' (su_userId c) t))
     \<and> (\<forall>t. entitled s'' (su_userId c) t \<longleftrightarrow>
          (\<exists>q\<in>set (subscriptions s). su_id q \<noteq> sid \<and> active_sub (su_userId c) q \<and> within (su_startsAt q) (su_endsAt q) t))
     \<and> (\<forall>other t. other \<noteq> su_userId c \<longrightarrow> entitled s' other t = entitled s other t \<and> entitled s'' other t = entitled s other t)"
proof -
  let ?e = "\<lambda>c. max (su_endsAt c) (rq_now rq) + days * ms_per_day"
  from extend_Inr [OF ex] obtain c where c: "find_subscription s sid = Some c"
    and s': "subscriptions s' = update_many (\<lambda>q. su_id q = sid)
       (\<lambda>q. q\<lparr>su_endsAt := ?e c, su_status := Sub_ACTIVE, su_cancelledAt := None\<rparr>) (subscriptions s)" by blast
  from cancel_Inr [OF ca] c obtain n where
    s'': "subscriptions s'' = update_many (\<lambda>q. su_id q = sid) (\<lambda>q. q\<lparr>su_status := Sub_CANCELLED,
            su_cancelledAt := Some (rq_now rq'), su_note := n\<rparr>) (subscriptions s)" by auto
  note mem = find_subscription_Some [OF c] and uniq = subscription_unique [OF wf c]
  let ?c = "c\<lparr>su_endsAt := ?e c, su_status := Sub_ACTIVE, su_cancelledAt := None\<rparr>"
  have "?c \<in> set (subscriptions s')" using mem by (auto simp: s' intro!: bexI [of _ c])
  moreover have "active_sub (su_userId c) ?c" by (simp add: active_sub_def)
  ultimately have revived: "within (su_startsAt c) (?e c) t \<Longrightarrow> entitled s' (su_userId c) t" for t
    unfolding entitled_def by (intro bexI [of _ ?c]) simp_all
  have out: "entitled s'' uid t \<longleftrightarrow>
      (\<exists>q\<in>set (subscriptions s). su_id q \<noteq> sid \<and> active_sub uid q \<and> within (su_startsAt q) (su_endsAt q) t)" for uid t
    unfolding entitled_def s'' active_sub_def bex_update_many by (rule bex_cong) auto
  have others: "entitled s' uid t = entitled s uid t" if "uid \<noteq> su_userId c" for uid t
    unfolding entitled_def s' active_sub_def bex_update_many
    by (rule bex_cong) (use uniq that in auto)
  have others': "entitled s'' uid t = entitled s uid t" if "uid \<noteq> su_userId c" for uid t
    by (subst out) (use uniq that in \<open>auto simp: entitled_def active_sub_def\<close>)
  have "su_endsAt c < ?e c" using days by simp
  with c revived out others others' show ?thesis by blast
qed

text \<open>The checks of the migration hold whatever the operations do, with the bounds of the DTOs.\<close>

definition subs_inv :: "state \<Rightarrow> bool" where
  "subs_inv s \<longleftrightarrow> subscriptions_wf s \<and> plans_wf s"

lemma subs_inv_other [simp]: "subs_inv (s\<lparr>auditEvents := e\<rparr>) = subs_inv s"
  by (simp add: subs_inv_def subscriptions_wf_def plans_wf_def)

lemma subscribe_wf:
  assumes inv: "subs_inv s" and ok: "subscribe rq actor newId uid planId note s = (Inr item, s')"
  shows "subs_inv s'"
proof -
  obtain plan where plan: "plan \<in> set (subscriptionPlans s)" "\<forall>q\<in>set (subscriptions s). su_id q \<noteq> newId"
    and item: "item = \<lparr>su_id = newId, su_userId = uid, su_planId = planId, su_status = Sub_ACTIVE,
       su_startsAt = paid_until s uid (rq_now rq),
       su_endsAt = paid_until s uid (rq_now rq) + pl_durationDays plan * ms_per_day,
       su_cancelledAt = None, su_note = note, su_createdAt = rq_now rq\<rparr>"
    and s': "subscriptions s' = subscriptions s @ [item]" "subscriptionPlans s' = subscriptionPlans s"
    by (rule subscribe_Inr [OF ok])
  from inv plan(1) have "0 < pl_durationDays plan" by (simp add: subs_inv_def plans_wf_def)
  with inv plan(2) show ?thesis by (auto simp: subs_inv_def subscriptions_wf_def plans_wf_def s' item)
qed

lemma extend_wf:
  assumes inv: "subs_inv s" and "1 \<le> days" and ok: "extend_subscription rq actor sid days note s = (Inr x, s')"
  shows "subs_inv s'"
proof -
  from extend_Inr [OF ok] obtain c where c: "find_subscription s sid = Some c"
    and s': "subscriptions s' = update_many (\<lambda>q. su_id q = sid) (\<lambda>q. q\<lparr>su_endsAt := max (su_endsAt c) (rq_now rq)
       + days * ms_per_day, su_status := Sub_ACTIVE, su_cancelledAt := None\<rparr>) (subscriptions s)"
    "subscriptionPlans s' = subscriptionPlans s" by blast
  have "subscriptions_wf s" using inv by (simp add: subs_inv_def)
  note uniq = subscription_unique [OF this c]
  have "su_startsAt c < su_endsAt c"
    using inv find_subscription_Some [OF c] by (simp add: subs_inv_def subscriptions_wf_def)
  then have "su_startsAt c < max (su_endsAt c) (rq_now rq) + days * ms_per_day" using \<open>1 \<le> days\<close> by linarith
  with inv uniq show ?thesis by (auto simp: subs_inv_def subscriptions_wf_def plans_wf_def s' map_update_many)
qed

text \<open>The administration of subscriptions as a step relation; the guards are those of the DTOs.\<close>

inductive subscription_step :: "state \<Rightarrow> state \<Rightarrow> bool" where
  plan_created: "create_plan rq actor newId code name price days s = (Inr pl, s') \<Longrightarrow> 1 \<le> days
    \<Longrightarrow> subscription_step s s'"
| plan_updated: "update_plan rq actor pid dto s = (Inr pl, s') \<Longrightarrow> \<forall>d. pc_durationDays dto = Some d \<longrightarrow> 1 \<le> d
    \<Longrightarrow> subscription_step s s'"
| subscribed: "subscribe rq actor newId uid planId note s = (Inr item, s') \<Longrightarrow> subscription_step s s'"
| extended: "extend_subscription rq actor sid days note s = (Inr item, s') \<Longrightarrow> 1 \<le> days \<Longrightarrow> subscription_step s s'"
| cancelled: "cancel_subscription rq actor sid note s = (Inr item, s') \<Longrightarrow> subscription_step s s'"
| paid: "record_payment rq actor newId uid planId amount method ref proof note at s = (Inr pay, s')
    \<Longrightarrow> subscription_step s s'"

lemma cancel_wf:
  assumes inv: "subs_inv s" and ok: "cancel_subscription rq actor sid note s = (Inr x, s')"
  shows "subs_inv s'"
  using cancel_Inr [OF ok] inv
  by (auto simp: subs_inv_def subscriptions_wf_def plans_wf_def map_update_many)

lemma create_plan_wf:
  "create_plan rq actor newId code name price days s = (Inr pl, s') \<Longrightarrow> 1 \<le> days \<Longrightarrow> subs_inv s \<Longrightarrow> subs_inv s'"
  by (auto simp: create_plan_def Let_def subs_inv_def subscriptions_wf_def plans_wf_def split: if_splits)

lemma update_plan_wf:
  assumes ok: "update_plan rq actor pid dto s = (Inr pl, s')" and d: "\<forall>d. pc_durationDays dto = Some d \<longrightarrow> 1 \<le> d"
    and inv: "subs_inv s"
  shows "subs_inv s'"
proof -
  from ok obtain q where q: "find_first (\<lambda>q. pl_id q = pid) (subscriptionPlans s) = Some q"
    by (auto simp: update_plan_def simp del: find_first_None split: option.splits)
  have "0 < pl_durationDays q" using inv find_first_Some [OF q] by (simp add: subs_inv_def plans_wf_def)
  then have "0 < set_or (pc_durationDays dto) (pl_durationDays q)"
    using d by (cases "pc_durationDays dto") (auto simp: int_one_le_iff_zero_less)
  with ok q inv show ?thesis
    by (auto simp: update_plan_def Let_def subs_inv_def subscriptions_wf_def plans_wf_def)
qed

lemma record_payment_wf:
  "record_payment rq actor newId uid planId amount method ref proof note at s = (Inr pay, s') \<Longrightarrow> subs_inv s \<Longrightarrow> subs_inv s'"
  by (auto simp: record_payment_def Let_def subs_inv_def subscriptions_wf_def plans_wf_def split: if_splits)

lemma subscription_step_inv: "subscription_step s s' \<Longrightarrow> subs_inv s \<Longrightarrow> subs_inv s'"
  by (induction rule: subscription_step.induct)
    (blast intro: create_plan_wf update_plan_wf subscribe_wf extend_wf cancel_wf record_payment_wf)+

text \<open>
  The windows stay proper: whatever sequence of plan creations and updates, purchases, extensions,
  cancellations and payments runs within the bounds of their DTOs, every subscription starts before it ends
  and subscription ids stay unique, so the database's window check never rejects one of these writes.
\<close>

lemma subscription_windows_proper:
  assumes "subscription_step\<^sup>*\<^sup>* s s'" and "subscriptions_wf s" and "plans_wf s"
  shows "subscriptions_wf s' \<and> plans_wf s'"
  using assms(1)
proof (induction rule: rtranclp_induct)
  case base
  with assms show ?case by simp
next
  case (step y z)
  then show ?case using subscription_step_inv by (auto simp: subs_inv_def)
qed

lemma subscription_windows_proper_example:
  "\<exists>s'. subscription_step\<^sup>*\<^sup>* subscription_demo s' \<and> s' \<noteq> subscription_demo \<and> subscriptions_wf s'"
proof -
  let ?m = "subscribe demo_request demo_actor ''x1'' ''u1'' ''pl1'' None"
  have "\<not> isl (fst (?m subscription_demo))" by code_simp
  from prog_result [of ?m, OF this] obtain item s' where ok: "?m subscription_demo = (Inr item, s')" by blast
  then have run: "subscription_step\<^sup>*\<^sup>* subscription_demo s'" by (blast intro: subscription_step.subscribed)
  have "subscriptions_wf subscription_demo" "plans_wf subscription_demo"
    by (simp_all add: subscriptions_wf_def plans_wf_def subscription_demo_def demo_plan_def demo_defs)
  from subscription_windows_proper [OF run this] have "subscriptions_wf s'" by simp
  moreover have "subscriptions s' = subscriptions subscription_demo @ [item]"
    by (rule subscribe_Inr [OF ok])
  then have "s' \<noteq> subscription_demo" by auto
  ultimately show ?thesis using run by blast
qed

definition expired_demo :: state where
  "expired_demo = demo_state\<lparr>subscriptions := [\<lparr>su_id = ''x1'', su_userId = ''u1'', su_planId = ''pl1'',
     su_status = Sub_EXPIRED, su_startsAt = 0, su_endsAt = 100, su_cancelledAt = None, su_note = None, su_createdAt = 0\<rparr>]\<rparr>"

lemma extend_cancel_effect_example:
  "\<exists>x s'. extend_subscription demo_request demo_actor ''x1'' 2 None expired_demo = (Inr x, s') \<and> entitled s' ''u1'' 100000"
proof -
  let ?m = "extend_subscription demo_request demo_actor ''x1'' 2 None"
    and ?n = "cancel_subscription demo_request demo_actor ''x1'' None"
  have "\<not> isl (fst (?m expired_demo))" "\<not> isl (fst (?n expired_demo))" by code_simp+
  with prog_result [of ?m] prog_result [of ?n] obtain x s' y s'' where ok: "?m expired_demo = (Inr x, s')"
    and ca: "?n expired_demo = (Inr y, s'')" by metis
  have wf: "subscriptions_wf expired_demo" by (simp add: subscriptions_wf_def expired_demo_def)
  show ?thesis
    using extend_cancel_effect [OF wf _ ok ca] ok
    by (auto simp: find_subscription_def expired_demo_def within_def demo_request_def)
qed

end
