(* ===== verification/Access.thy ===== *)
theory Access
  imports Auth Subscriptions "HOL-Library.List_Lexorder" "HOL-Library.Char_ord"
begin

text \<open>
  \<open>src/access/access.service.ts\<close>: access groups, their members, and episode grants to a user or to a
  group. \<open>validate_access\<close> is the check that playback relies on; its specification is \<open>may_access\<close>.
  Dates arrive parsed: \<open>None\<close> is an invalid \<open>Date\<close>.
\<close>

section \<open>Groups and members\<close>

definition find_group :: "state \<Rightarrow> string \<Rightarrow> access_group option" where
  "find_group s gid = find_first (\<lambda>g. ag_id g = gid) (accessGroups s)"

definition list_groups :: "(access_group \<times> nat \<times> nat) list handler" where
  "list_groups = gets (\<lambda>s. map (\<lambda>g. (g, count_where (\<lambda>m. gm_groupId m = ag_id g) (groupMembers s),
     count_where (\<lambda>e. eg_groupId e = Some (ag_id g)) (episodeGrants s)))
     (sort_key ag_name (accessGroups s)))"

record access_list =
  al_page :: page_query
  al_search :: "string option"
  al_episodeId :: "string option"
  al_userId :: "string option"
  al_groupId :: "string option"

definition list_members :: "string \<Rightarrow> access_list \<Rightarrow> (group_member \<times> user option) page handler" where
  "list_members gid q = gets (\<lambda>s.
     let matches = (\<lambda>m. case truthy (al_search q) of None \<Rightarrow> True
           | Some p \<Rightarrow> (case find_user s (gm_userId m) of None \<Rightarrow> False
               | Some u \<Rightarrow> contains_ci (u_username u) p \<or> contains_ci (u_email u) p))
     in list_page (al_page q) (map (\<lambda>m. (m, find_user s (gm_userId m)))
          (order_desc gm_startsAt (filter (\<lambda>m. gm_groupId m = gid \<and> matches m) (groupMembers s)))))"

definition create_group :: "request \<Rightarrow> principal \<Rightarrow> string \<Rightarrow> string \<Rightarrow> access_group handler" where
  "create_group rq actor newId name =
     and_then (gets accessGroups) (\<lambda>t.
     and_then (require (\<forall>g\<in>set t. ag_name g \<noteq> trim name \<and> ag_id g \<noteq> newId) (Conflict ''Group name already exists'')) (\<lambda>_.
     and_then (modify (\<lambda>s. s\<lparr>accessGroups := accessGroups s @ [\<lparr>ag_id = newId, ag_name = trim name\<rparr>]\<rparr>)) (\<lambda>_.
     and_then (audit_write (audit_input rq (Some (pr_id actor)) ''access.group_create'' ''access_group'' (Some newId) SUCCESS [])) (\<lambda>_.
     ret \<lparr>ag_id = newId, ag_name = trim name\<rparr>))))"

definition update_group :: "request \<Rightarrow> principal \<Rightarrow> string \<Rightarrow> string \<Rightarrow> access_group handler" where
  "update_group rq actor gid name =
     and_then (gets accessGroups) (\<lambda>t.
     and_then (require (\<exists>g\<in>set t. ag_id g = gid) (NotFound ''Group not found'')) (\<lambda>_.
     and_then (require (\<forall>g\<in>set t. ag_id g \<noteq> gid \<longrightarrow> ag_name g \<noteq> trim name) (Conflict ''Group name already exists'')) (\<lambda>_.
     and_then (modify (\<lambda>s. s\<lparr>accessGroups := update_many (\<lambda>g. ag_id g = gid) (\<lambda>g. g\<lparr>ag_name := trim name\<rparr>) (accessGroups s)\<rparr>)) (\<lambda>_.
     and_then (audit_write (audit_input rq (Some (pr_id actor)) ''access.group_update'' ''access_group'' (Some gid) SUCCESS [])) (\<lambda>_.
     ret \<lparr>ag_id = gid, ag_name = trim name\<rparr>)))))"

text \<open>The rows of members and grants go with the group (\<open>onDelete: Cascade\<close>).\<close>

definition delete_group :: "request \<Rightarrow> principal \<Rightarrow> string \<Rightarrow> unit handler" where
  "delete_group rq actor gid =
     and_then (gets (\<lambda>s. find_group s gid)) (\<lambda>g.
     and_then (require (g \<noteq> None) (NotFound ''Group not found'')) (\<lambda>_.
     and_then (modify (\<lambda>s. s\<lparr>accessGroups := delete_many (\<lambda>g. ag_id g = gid) (accessGroups s),
       groupMembers := delete_many (\<lambda>m. gm_groupId m = gid) (groupMembers s),
       episodeGrants := delete_many (\<lambda>e. eg_groupId e = Some gid) (episodeGrants s)\<rparr>)) (\<lambda>_.
     audit_write (audit_input rq (Some (pr_id actor)) ''access.group_delete'' ''access_group'' (Some gid) SUCCESS []))))"

definition assert_window :: "instant option \<Rightarrow> instant option \<Rightarrow> (instant \<times> instant) handler" where
  "assert_window starts ends = expect
     (case (starts, ends) of (Some a, Some b) \<Rightarrow> if a < b then Some (a, b) else None | _ \<Rightarrow> None)
     (BadRequest ''startsAt must be before endsAt'')"

definition ensure_user :: "string \<Rightarrow> unit handler" where
  "ensure_user uid = and_then (gets (\<lambda>s. user_not_deleted s uid)) (\<lambda>b. require b (NotFound ''User not found''))"

definition is_member :: "string \<Rightarrow> string \<Rightarrow> group_member \<Rightarrow> bool" where
  "is_member gid uid m \<longleftrightarrow> gm_groupId m = gid \<and> gm_userId m = uid"

definition add_member :: "request \<Rightarrow> principal \<Rightarrow> string \<Rightarrow> string \<Rightarrow> string \<Rightarrow> instant option \<Rightarrow> instant option
    \<Rightarrow> string option \<Rightarrow> bool option \<Rightarrow> string handler" where
  "add_member rq actor newId gid uid starts ends comment subscription =
     and_then (assert_window starts ends) (\<lambda>(startsAt, endsAt).
     and_then (ensure_user uid) (\<lambda>_.
     and_then (gets (\<lambda>s. find_first (is_member gid uid) (groupMembers s))) (\<lambda>old.
     and_then (gets (\<lambda>s. find_group s gid)) (\<lambda>g.
     and_then (require (old \<noteq> None \<or> g \<noteq> None) (NotFound ''Group not found'')) (\<lambda>_.
     and_then (modify (\<lambda>s. s\<lparr>groupMembers := (case old of
         Some _ \<Rightarrow> update_many (is_member gid uid) (\<lambda>m. m\<lparr>gm_startsAt := startsAt, gm_endsAt := endsAt,
           gm_comment := keep_or comment (gm_comment m), gm_subscription := set_or subscription False,
           gm_revokedAt := None\<rparr>) (groupMembers s)
       | None \<Rightarrow> groupMembers s @ [\<lparr>gm_id = newId, gm_groupId = gid, gm_userId = uid, gm_startsAt = startsAt,
           gm_endsAt = endsAt, gm_revokedAt = None, gm_comment = comment,
           gm_subscription = set_or subscription False\<rparr>])\<rparr>)) (\<lambda>_.
     let mid = (case old of Some m \<Rightarrow> gm_id m | None \<Rightarrow> newId) in
     and_then (audit_write (audit_input rq (Some (pr_id actor)) ''access.member_add'' ''group_member'' (Some mid) SUCCESS [])) (\<lambda>_.
     ret mid)))))))"

definition remove_member :: "request \<Rightarrow> principal \<Rightarrow> string \<Rightarrow> string \<Rightarrow> unit handler" where
  "remove_member rq actor gid uid =
     (let mine = (\<lambda>m. is_member gid uid m \<and> gm_revokedAt m = None) in
      and_then (gets (\<lambda>s. count_where mine (groupMembers s))) (\<lambda>n.
      and_then (modify (\<lambda>s. s\<lparr>groupMembers := update_many mine (\<lambda>m. m\<lparr>gm_revokedAt := Some (rq_now rq)\<rparr>) (groupMembers s)\<rparr>)) (\<lambda>_.
      and_then (require (n \<noteq> 0) (NotFound ''Group member not found'')) (\<lambda>_.
      audit_write (audit_input rq (Some (pr_id actor)) ''access.member_remove'' ''group_member'' None SUCCESS
        [(''groupId'', JStr gid), (''userId'', JStr uid)])))))"

section \<open>Grants\<close>

definition grant_row :: "request \<Rightarrow> string \<Rightarrow> string \<Rightarrow> string option \<Rightarrow> string option \<Rightarrow> instant \<Rightarrow> instant \<Rightarrow> episode_grant" where
  "grant_row rq newId episodeId uid gid startsAt endsAt =
     \<lparr>eg_id = newId, eg_episodeId = episodeId, eg_userId = uid, eg_groupId = gid, eg_startsAt = startsAt,
      eg_endsAt = endsAt, eg_status = Grant_ACTIVE, eg_revokedAt = None, eg_createdAt = rq_now rq\<rparr>"

definition add_grant_history :: "request \<Rightarrow> principal \<Rightarrow> string \<Rightarrow> string \<Rightarrow> grant_status option \<Rightarrow> grant_status
    \<Rightarrow> instant option \<Rightarrow> instant \<Rightarrow> string option \<Rightarrow> unit handler" where
  "add_grant_history rq actor gid action oldStatus newStatus oldEnds newEnds note =
     modify (\<lambda>s. s\<lparr>grantHistories := grantHistories s @
       [\<lparr>gh_grantId = gid, gh_actorId = Some (pr_id actor), gh_action = action, gh_oldStatus = oldStatus,
         gh_newStatus = Some newStatus, gh_oldEndsAt = oldEnds, gh_newEndsAt = Some newEnds,
         gh_note = note, gh_createdAt = rq_now rq\<rparr>]\<rparr>)"

text \<open>The two writes of one grant, inside the transaction.\<close>

definition insert_grant :: "request \<Rightarrow> principal \<Rightarrow> string option \<Rightarrow> episode_grant \<Rightarrow> episode_grant handler" where
  "insert_grant rq actor note e =
     and_then (gets episodeGrants) (\<lambda>t.
     and_then (require (\<forall>q\<in>set t. eg_id q \<noteq> eg_id e) (Internal ''P2002'')) (\<lambda>_.
     and_then (modify (\<lambda>s. s\<lparr>episodeGrants := episodeGrants s @ [e]\<rparr>)) (\<lambda>_.
     and_then (add_grant_history rq actor (eg_id e) ''created'' None Grant_ACTIVE None (eg_endsAt e) note) (\<lambda>_.
     ret e))))"

definition ensure_group :: "string option \<Rightarrow> unit handler" where
  "ensure_group gid = (case gid of None \<Rightarrow> ret ()
     | Some g \<Rightarrow> and_then (gets (\<lambda>s. find_group s g)) (\<lambda>r. require (r \<noteq> None) (NotFound ''Group not found'')))"

definition ensure_user_opt :: "string option \<Rightarrow> unit handler" where
  "ensure_user_opt uid = (case uid of None \<Rightarrow> ret () | Some u \<Rightarrow> ensure_user u)"

definition subject_meta :: "string option \<Rightarrow> string option \<Rightarrow> (string \<times> json) list" where
  "subject_meta uid gid = (case uid of None \<Rightarrow> [] | Some u \<Rightarrow> [(''userId'', JStr u)])
     @ (case gid of None \<Rightarrow> [] | Some g \<Rightarrow> [(''groupId'', JStr g)])"

definition create_grant :: "request \<Rightarrow> principal \<Rightarrow> string \<Rightarrow> string \<Rightarrow> string option \<Rightarrow> string option \<Rightarrow> instant option
    \<Rightarrow> instant option \<Rightarrow> string option \<Rightarrow> episode_grant handler" where
  "create_grant rq actor newId episodeId uid gid starts ends note =
     and_then (assert_window starts ends) (\<lambda>(startsAt, endsAt).
     and_then (gets (\<lambda>s. find_first (\<lambda>e. ep_id e = episodeId) (episodes s))) (\<lambda>ep.
     and_then (require (ep \<noteq> None) (NotFound ''Episode not found'')) (\<lambda>_.
     and_then (ensure_user_opt uid) (\<lambda>_.
     and_then (ensure_group gid) (\<lambda>_.
     and_then (transaction (insert_grant rq actor note (grant_row rq newId episodeId uid gid startsAt endsAt))) (\<lambda>e.
     and_then (audit_write (audit_input rq (Some (pr_id actor))
       (if uid \<noteq> None then ''access.direct_grant'' else ''access.group_grant'') ''episode_grant'' (Some (eg_id e)) SUCCESS
       ((''episodeId'', JStr episodeId) # subject_meta uid gid))) (\<lambda>_. ret e)))))))"

definition create_bulk_grants :: "request \<Rightarrow> principal \<Rightarrow> string list \<Rightarrow> string list \<Rightarrow> string option \<Rightarrow> string option
    \<Rightarrow> instant option \<Rightarrow> instant option \<Rightarrow> string option \<Rightarrow> episode_grant list handler" where
  "create_bulk_grants rq actor newIds episodeIds uid gid starts ends note =
     and_then (assert_window starts ends) (\<lambda>(startsAt, endsAt).
     and_then (ensure_user_opt uid) (\<lambda>_.
     and_then (ensure_group gid) (\<lambda>_.
     and_then (gets (\<lambda>s. count_where (\<lambda>e. ep_id e \<in> set episodeIds \<and> ep_deletedAt e = None) (episodes s))) (\<lambda>found.
     and_then (require (found = length episodeIds) (NotFound ''One or more episodes not found'')) (\<lambda>_.
     and_then (transaction (for_each (zip newIds episodeIds) (\<lambda>(newId, episodeId).
       insert_grant rq actor note (grant_row rq newId episodeId uid gid startsAt endsAt)))) (\<lambda>grants.
     and_then (audit_write (audit_input rq (Some (pr_id actor))
       (if uid \<noteq> None then ''access.direct_grant_bulk'' else ''access.group_grant_bulk'') ''episode_grant'' None SUCCESS
       ((''count'', JNum (int (length grants))) # subject_meta uid gid))) (\<lambda>_. ret grants)))))))"

definition grant_direct :: "request \<Rightarrow> principal \<Rightarrow> string \<Rightarrow> string \<Rightarrow> string \<Rightarrow> instant option \<Rightarrow> instant option
    \<Rightarrow> string option \<Rightarrow> episode_grant handler" where
  "grant_direct rq actor newId episodeId uid = create_grant rq actor newId episodeId (Some uid) None"

definition grant_group :: "request \<Rightarrow> principal \<Rightarrow> string \<Rightarrow> string \<Rightarrow> string \<Rightarrow> instant option \<Rightarrow> instant option
    \<Rightarrow> string option \<Rightarrow> episode_grant handler" where
  "grant_group rq actor newId episodeId gid = create_grant rq actor newId episodeId None (Some gid)"

definition grant_direct_bulk :: "request \<Rightarrow> principal \<Rightarrow> string list \<Rightarrow> string list \<Rightarrow> string \<Rightarrow> instant option
    \<Rightarrow> instant option \<Rightarrow> string option \<Rightarrow> episode_grant list handler" where
  "grant_direct_bulk rq actor newIds episodeIds uid = create_bulk_grants rq actor newIds episodeIds (Some uid) None"

definition grant_group_bulk :: "request \<Rightarrow> principal \<Rightarrow> string list \<Rightarrow> string list \<Rightarrow> string \<Rightarrow> instant option
    \<Rightarrow> instant option \<Rightarrow> string option \<Rightarrow> episode_grant list handler" where
  "grant_group_bulk rq actor newIds episodeIds gid = create_bulk_grants rq actor newIds episodeIds None (Some gid)"

definition find_grant :: "state \<Rightarrow> string \<Rightarrow> episode_grant option" where
  "find_grant s gid = find_first (\<lambda>e. eg_id e = gid) (episodeGrants s)"

definition revoke_grant :: "request \<Rightarrow> principal \<Rightarrow> string \<Rightarrow> episode_grant handler" where
  "revoke_grant rq actor gid =
     and_then (gets (\<lambda>s. find_grant s gid)) (\<lambda>current.
     and_then (expect current (NotFound ''Grant not found'')) (\<lambda>current.
     let f = (\<lambda>e. e\<lparr>eg_status := Grant_REVOKED, eg_revokedAt := Some (rq_now rq)\<rparr>) in
     and_then (transaction
       (and_then (modify (\<lambda>s. s\<lparr>episodeGrants := update_many (\<lambda>e. eg_id e = gid) f (episodeGrants s)\<rparr>)) (\<lambda>_.
        add_grant_history rq actor gid ''revoked'' (Some (eg_status current)) Grant_REVOKED (Some (eg_endsAt current))
          (eg_endsAt current) None))) (\<lambda>_.
     and_then (audit_write (audit_input rq (Some (pr_id actor)) ''access.grant_revoke'' ''episode_grant'' (Some gid) SUCCESS [])) (\<lambda>_.
     ret (f current)))))"

definition list_grants :: "access_list \<Rightarrow> (episode_grant \<times> episode option \<times> user option \<times> access_group option) page handler" where
  "list_grants q = gets (\<lambda>s. list_page (al_page q)
     (map (\<lambda>e. (e, find_first (\<lambda>x. ep_id x = eg_episodeId e) (episodes s),
         Option.bind (eg_userId e) (find_user s), Option.bind (eg_groupId e) (find_group s)))
       (order_desc eg_createdAt (filter (\<lambda>e. given_eq (truthy (al_episodeId q)) (eg_episodeId e)
         \<and> given_eq (map_option Some (truthy (al_userId q))) (eg_userId e)
         \<and> given_eq (map_option Some (truthy (al_groupId q))) (eg_groupId e)) (episodeGrants s)))))"

definition grant_history_of :: "string \<Rightarrow> grant_history list handler" where
  "grant_history_of gid = gets (\<lambda>s. order_desc gh_createdAt (filter (\<lambda>h. gh_grantId h = gid) (grantHistories s)))"

section \<open>The access check\<close>

definition open_member :: "state \<Rightarrow> instant \<Rightarrow> string \<Rightarrow> string \<Rightarrow> bool" where
  "open_member s now gid uid \<longleftrightarrow> (\<exists>m\<in>set (groupMembers s). is_member gid uid m \<and> gm_revokedAt m = None
     \<and> within (gm_startsAt m) (gm_endsAt m) now)"

definition open_grant :: "instant \<Rightarrow> episode_grant \<Rightarrow> bool" where
  "open_grant now e \<longleftrightarrow> eg_status e = Grant_ACTIVE \<and> within (eg_startsAt e) (eg_endsAt e) now \<and> eg_revokedAt e = None"

definition via_group :: "state \<Rightarrow> instant \<Rightarrow> string \<Rightarrow> episode_grant \<Rightarrow> bool" where
  "via_group s now uid e \<longleftrightarrow> (case eg_groupId e of None \<Rightarrow> False | Some g \<Rightarrow> open_member s now g uid)"

datatype grant_source = Source_direct | Source_group

record access_result =
  ar_allowed :: bool
  ar_grantId :: "string option"
  ar_source :: "grant_source option"

definition validate_access :: "instant \<Rightarrow> string \<Rightarrow> string \<Rightarrow> access_result handler" where
  "validate_access now episodeId uid = gets (\<lambda>s.
     let direct = find_first (\<lambda>e. eg_episodeId e = episodeId \<and> eg_userId e = Some uid \<and> open_grant now e) (episodeGrants s);
         grp = find_first (\<lambda>e. eg_episodeId e = episodeId \<and> open_grant now e \<and> via_group s now uid e) (episodeGrants s)
     in \<lparr>ar_allowed = (direct \<noteq> None \<or> grp \<noteq> None),
         ar_grantId = (case direct of Some d \<Rightarrow> Some (eg_id d) | None \<Rightarrow> map_option eg_id grp),
         ar_source = (if direct \<noteq> None then Some Source_direct else if grp \<noteq> None then Some Source_group else None)\<rparr>)"

fun distinct_by :: "('r \<Rightarrow> 'k) \<Rightarrow> 'r list \<Rightarrow> 'r list" where
  "distinct_by k [] = []"
| "distinct_by k (r # t) = r # filter (\<lambda>q. k q \<noteq> k r) (distinct_by k t)"

record unlocked_item =
  ui_grantId :: string
  ui_source :: grant_source
  ui_group :: "access_group option"
  ui_startsAt :: instant
  ui_endsAt :: instant
  ui_episode :: "episode option"

definition list_my_unlocked :: "instant \<Rightarrow> string \<Rightarrow> access_list \<Rightarrow> unlocked_item page handler" where
  "list_my_unlocked now uid q = gets (\<lambda>s.
     let rows = filter (\<lambda>e. open_grant now e \<and> (eg_userId e = Some uid \<or> via_group s now uid e)
           \<and> given_eq (truthy (al_episodeId q)) (eg_episodeId e)) (episodeGrants s);
         view = (\<lambda>e. \<lparr>ui_grantId = eg_id e,
           ui_source = (if eg_userId e = Some uid then Source_direct else Source_group),
           ui_group = Option.bind (eg_groupId e) (find_group s), ui_startsAt = eg_startsAt e, ui_endsAt = eg_endsAt e,
           ui_episode = find_first (\<lambda>x. ep_id x = eg_episodeId e) (episodes s)\<rparr>);
         items = map view (distinct_by eg_episodeId (order_asc eg_endsAt rows))
     in (list_page (al_page q) items)\<lparr>pg_total := length rows,
          pg_totalPages := ceil_div (length rows) (pq_limit (al_page q))\<rparr>)"

section \<open>What the check decides\<close>

text \<open>The specification: a grant that is active, not revoked and inside its window names the account, or a group in which the account has a membership that is open at that instant.\<close>

definition grants_access :: "state \<Rightarrow> instant \<Rightarrow> string \<Rightarrow> episode_grant \<Rightarrow> bool" where
  "grants_access s now uid e \<longleftrightarrow> open_grant now e \<and> (eg_userId e = Some uid \<or> via_group s now uid e)"

definition may_access :: "state \<Rightarrow> instant \<Rightarrow> string \<Rightarrow> string \<Rightarrow> bool" where
  "may_access s now episodeId uid \<longleftrightarrow>
     (\<exists>e\<in>set (episodeGrants s). eg_episodeId e = episodeId \<and> grants_access s now uid e)"

lemma validate_access_state: "validate_access now ep uid s = (r, s') \<Longrightarrow> s' = s"
  by (auto simp: validate_access_def Let_def)

lemma validate_access_decides:
  "\<exists>r. validate_access now ep uid s = (Inr r, s) \<and> ar_allowed r = may_access s now ep uid
     \<and> (\<forall>g. ar_grantId r = Some g \<longrightarrow> (\<exists>e\<in>set (episodeGrants s). eg_id e = g \<and> eg_episodeId e = ep
          \<and> grants_access s now uid e \<and> (ar_source r = Some Source_direct \<longrightarrow> eg_userId e = Some uid)))
     \<and> (ar_grantId r = None \<longleftrightarrow> \<not> may_access s now ep uid)
     \<and> (ar_source r = Some Source_direct \<longleftrightarrow>
          (\<exists>e\<in>set (episodeGrants s). eg_episodeId e = ep \<and> eg_userId e = Some uid \<and> open_grant now e))"
proof -
  let ?D = "\<lambda>e. eg_episodeId e = ep \<and> eg_userId e = Some uid \<and> open_grant now e"
    and ?G = "\<lambda>e. eg_episodeId e = ep \<and> open_grant now e \<and> via_group s now uid e"
  define d g where "d = find_first ?D (episodeGrants s)" and "g = find_first ?G (episodeGrants s)"
  have d: "d = None \<longleftrightarrow> (\<forall>e\<in>set (episodeGrants s). \<not> ?D e)" "\<And>e. d = Some e \<Longrightarrow> e \<in> set (episodeGrants s) \<and> ?D e"
    unfolding d_def by (simp, blast dest: find_first_Some)
  have g: "g = None \<longleftrightarrow> (\<forall>e\<in>set (episodeGrants s). \<not> ?G e)" "\<And>e. g = Some e \<Longrightarrow> e \<in> set (episodeGrants s) \<and> ?G e"
    unfolding g_def by (simp, blast dest: find_first_Some)
  have may: "may_access s now ep uid \<longleftrightarrow> d \<noteq> None \<or> g \<noteq> None"
    unfolding d(1) g(1) may_access_def grants_access_def by blast
  have run: "validate_access now ep uid s = (Inr \<lparr>ar_allowed = (d \<noteq> None \<or> g \<noteq> None),
         ar_grantId = (case d of Some x \<Rightarrow> Some (eg_id x) | None \<Rightarrow> map_option eg_id g),
         ar_source = (if d \<noteq> None then Some Source_direct else if g \<noteq> None then Some Source_group else None)\<rparr>, s)"
    by (simp only: validate_access_def Let_def gets_apply d_def g_def)
  have direct: "d \<noteq> None \<longleftrightarrow> (\<exists>e\<in>set (episodeGrants s). ?D e)" unfolding d(1) by blast
  have gr: "grants_access s now uid e" if "?D e \<or> ?G e" for e using that by (auto simp: grants_access_def)
  show ?thesis
    unfolding run may direct [symmetric]
    using d(2) g(2) gr by (cases d; cases g) auto
qed


definition demo_grant :: episode_grant where
  "demo_grant = \<lparr>eg_id = ''g1'', eg_episodeId = ''e1'', eg_userId = Some ''u1'', eg_groupId = None, eg_startsAt = 0,
     eg_endsAt = 100000, eg_status = Grant_ACTIVE, eg_revokedAt = None, eg_createdAt = 0\<rparr>"

definition access_demo :: state where
  "access_demo = demo_state\<lparr>episodeGrants := [demo_grant]\<rparr>"


section \<open>Taking access away\<close>

lemma find_grant_Some: "find_grant s gid = Some e \<Longrightarrow> e \<in> set (episodeGrants s) \<and> eg_id e = gid"
  unfolding find_grant_def by (drule find_first_Some) simp

lemma revoke_grant_Inr:
  assumes "revoke_grant rq actor gid s = (Inr x, s')"
  shows "episodeGrants s' = update_many (\<lambda>e. eg_id e = gid)
      (\<lambda>e. e\<lparr>eg_status := Grant_REVOKED, eg_revokedAt := Some (rq_now rq)\<rparr>) (episodeGrants s)"
    and "groupMembers s' = groupMembers s"
  using assms by (auto simp: revoke_grant_def Let_def and_then_Inr add_grant_history_def split: option.splits)

lemma remove_member_Inr:
  assumes "remove_member rq actor gid uid s = (Inr x, s')"
  shows "groupMembers s' = update_many (\<lambda>m. is_member gid uid m \<and> gm_revokedAt m = None)
      (\<lambda>m. m\<lparr>gm_revokedAt := Some (rq_now rq)\<rparr>) (groupMembers s)"
    and "episodeGrants s' = episodeGrants s"
  using assms by (auto simp: remove_member_def Let_def and_then_Inr split: if_splits)

lemma delete_group_Inr:
  assumes "delete_group rq actor gid s = (Inr x, s')"
  shows "groupMembers s' = delete_many (\<lambda>m. gm_groupId m = gid) (groupMembers s)"
    and "episodeGrants s' = delete_many (\<lambda>e. eg_groupId e = Some gid) (episodeGrants s)"
  using assms by (auto simp: delete_group_def and_then_Inr split: if_splits)

lemma open_member_cong: "groupMembers s' = groupMembers s \<Longrightarrow> open_member s' now g uid = open_member s now g uid"
  by (simp add: open_member_def)

lemma remove_member_open:
  assumes "remove_member rq actor gid uid s = (Inr x, s')"
  shows "open_member s' now g u \<longleftrightarrow> open_member s now g u \<and> (g, u) \<noteq> (gid, uid)"
  unfolding open_member_def remove_member_Inr(1) [OF assms] bex_update_many
  by (auto simp: is_member_def)


definition group_demo :: state where
  "group_demo = demo_state\<lparr>accessGroups := [\<lparr>ag_id = ''gr'', ag_name = ''Club''\<rparr>],
     groupMembers := [\<lparr>gm_id = ''m1'', gm_groupId = ''gr'', gm_userId = ''u1'', gm_startsAt = 0, gm_endsAt = 100000,
       gm_revokedAt = None, gm_comment = None, gm_subscription = False\<rparr>],
     episodeGrants := [demo_grant, demo_grant\<lparr>eg_id := ''g2'', eg_userId := None, eg_groupId := Some ''gr''\<rparr>]\<rparr>"


section \<open>Bulk grants\<close>

lemma insert_grant_Inr:
  "insert_grant rq actor note e s = (Inr x, s') \<longleftrightarrow> x = e \<and> (\<forall>q\<in>set (episodeGrants s). eg_id q \<noteq> eg_id e)
     \<and> (\<exists>h. gh_grantId h = eg_id e \<and> gh_newStatus h = Some Grant_ACTIVE
         \<and> (h = \<lparr>gh_grantId = eg_id e, gh_actorId = Some (pr_id actor), gh_action = ''created'', gh_oldStatus = None,
              gh_newStatus = Some Grant_ACTIVE, gh_oldEndsAt = None, gh_newEndsAt = Some (eg_endsAt e), gh_note = note,
              gh_createdAt = rq_now rq\<rparr>)
         \<and> s' = s\<lparr>episodeGrants := episodeGrants s @ [e], grantHistories := grantHistories s @ [h]\<rparr>)"
  by (auto simp: insert_grant_def and_then_Inr add_grant_history_def split: if_splits)

lemma insert_grants_Inr:
  assumes "for_each ps (\<lambda>(newId, episodeId). insert_grant rq actor note (mk newId episodeId)) s = (Inr gs, s')"
  shows "gs = map (\<lambda>(i, ep). mk i ep) ps \<and> episodeGrants s' = episodeGrants s @ gs
     \<and> map gh_grantId (grantHistories s') = map gh_grantId (grantHistories s) @ map eg_id gs
     \<and> groupMembers s' = groupMembers s"
  using assms
proof (induction ps arbitrary: s gs)
  case Nil
  then show ?case by simp
next
  case (Cons p ps)
  obtain i ep where p: "p = (i, ep)" by (cases p)
  from Cons.prems obtain s1 gs1 where one: "insert_grant rq actor note (mk i ep) s = (Inr (mk i ep), s1)"
    and rest: "for_each ps (\<lambda>(newId, episodeId). insert_grant rq actor note (mk newId episodeId)) s1 = (Inr gs1, s')"
    and gs: "gs = mk i ep # gs1" by (auto simp: p and_then_Inr insert_grant_Inr)
  from Cons.IH [OF rest] one show ?case by (auto simp: gs p insert_grant_Inr)
qed

lemma grant_rows_episodes:
  "length ids = length eps \<Longrightarrow>
    map eg_episodeId (map (\<lambda>(i, ep). grant_row rq i ep uid gid a b) (zip ids eps)) = eps"
  by (induction ids eps rule: list_induct2) (simp_all add: grant_row_def)

text \<open>
  Bulk grants are all or nothing: if the request fails at any point no grant and no history row is left
  behind; if it succeeds there is exactly one new grant for each requested episode, in order, each with its
  history row, and the account named may access every one of those episodes from the start of the window to
  its end.
\<close>

lemma bulk_grants_atomic:
  assumes run: "grant_direct_bulk rq actor newIds episodeIds uid starts ends note s = (res, s')"
    and ids: "length newIds = length episodeIds"
  shows "case res of
      Inl e \<Rightarrow> episodeGrants s' = episodeGrants s \<and> grantHistories s' = grantHistories s
    | Inr gs \<Rightarrow> episodeGrants s' = episodeGrants s @ gs \<and> map eg_episodeId gs = episodeIds
        \<and> map gh_grantId (grantHistories s') = map gh_grantId (grantHistories s) @ map eg_id gs
        \<and> user_not_deleted s uid
        \<and> (\<exists>a b. starts = Some a \<and> ends = Some b \<and> a < b
             \<and> (\<forall>ep\<in>set episodeIds. \<forall>t. within a b t \<longrightarrow> may_access s' t ep uid))"
proof (cases res)
  case (Inl e)
  with run have "s' = s"
    by (auto simp: grant_direct_bulk_def create_bulk_grants_def assert_window_def ensure_user_opt_def ensure_user_def
        ensure_group_def and_then_Inl dest: transaction_Inl split: if_splits option.splits prod.splits)
  with Inl show ?thesis by simp
next
  case (Inr gs)
  let ?mk = "\<lambda>a b i ep. grant_row rq i ep (Some uid) None a b"
  from run Inr obtain a b s1 where w: "starts = Some a" "ends = Some b" "a < b" and u: "user_not_deleted s uid"
    and loop: "for_each (zip newIds episodeIds) (\<lambda>(i, ep). insert_grant rq actor note (?mk a b i ep)) s = (Inr gs, s1)"
    and s': "episodeGrants s' = episodeGrants s1" "grantHistories s' = grantHistories s1"
    by (auto simp: grant_direct_bulk_def create_bulk_grants_def assert_window_def ensure_user_opt_def ensure_user_def
        ensure_group_def and_then_Inr split: if_splits option.splits prod.splits)
  note l = insert_grants_Inr [of _ rq actor "note" "?mk a b", OF loop]
  have eps: "map eg_episodeId gs = episodeIds"
    using l grant_rows_episodes [OF ids] by simp
  have "may_access s' t ep uid" if "ep \<in> set episodeIds" "within a b t" for ep t
  proof -
    from that(1) eps obtain e where "e \<in> set gs" "eg_episodeId e = ep" by (metis in_set_conv_nth length_map nth_map nth_mem)
    then show ?thesis using l s' that(2)
      by (auto simp: may_access_def grants_access_def open_grant_def grant_row_def)
  qed
  with Inr w u eps l s' show ?thesis by simp
qed

definition bulk_demo :: state where
  "bulk_demo = demo_state\<lparr>episodes := map (\<lambda>i. \<lparr>ep_id = i, ep_seasonId = ''se1'', ep_episodeNumber = 1, ep_title = None,
     ep_description = None, ep_thumbnailKey = None, ep_isPublished = True, ep_status = PUBLISHED, ep_visibility = PRIVATE,
     ep_isPremium = True, ep_downloadAccess = NEVER, ep_createdAt = 0, ep_deletedAt = None\<rparr>) [''e1'', ''e2'']\<rparr>"

lemma bulk_grants_atomic_example:
  "\<exists>gs s'. grant_direct_bulk demo_request me [''g1'', ''g2''] [''e1'', ''e2''] ''u1'' (Some 0) (Some 9000) None bulk_demo = (Inr gs, s')
     \<and> may_access s' 5000 ''e2'' ''u1''"
proof -
  let ?m = "grant_direct_bulk demo_request me [''g1'', ''g2''] [''e1'', ''e2''] ''u1'' (Some 0) (Some 9000) None"
  have "\<not> isl (fst (?m bulk_demo))" by code_simp
  from prog_result [of ?m, OF this] obtain gs s' where ok: "?m bulk_demo = (Inr gs, s')" by blast
  from bulk_grants_atomic [OF ok] ok show ?thesis by (auto simp: within_def)
qed

end
