(* ===== verification/Content.thy ===== *)
theory Content
  imports Access "HOL-Library.Product_Lexorder"
begin

text \<open>
  The catalogue: \<open>src/dramas/dramas.service.ts\<close>, \<open>src/seasons/seasons.service.ts\<close>,
  \<open>src/episodes/episodes.service.ts\<close> and \<open>src/media-assets/media-assets.service.ts\<close>. Deletion is
  soft and cascades from a drama to its seasons, their episodes and their media. The column \<open>updatedAt\<close>,
  which the database maintains, is an argument of the list queries that can sort by it; strings are
  ordered character by character.
\<close>

section \<open>Queries shared by the four services\<close>

definition can_read_all :: "principal option \<Rightarrow> bool" where
  "can_read_all actor = (case actor of None \<Rightarrow> False
     | Some p \<Rightarrow> SUPER_ADMIN \<in> set (pr_roles p) \<or> ''content.read'' \<in> set (pr_permissions p))"

datatype sort_order = Asc | Desc

definition sort_rows :: "sort_order \<Rightarrow> ('r \<Rightarrow> 'k::linorder) \<Rightarrow> 'r list \<Rightarrow> 'r list" where
  "sort_rows ord k rows = (case ord of Asc \<Rightarrow> sort_key k rows | Desc \<Rightarrow> rev (sort_key k (rev rows)))"

text \<open>PostgreSQL sorts \<open>NULL\<close> after every value.\<close>

definition null_last :: "string option \<Rightarrow> bool \<times> string" where
  "null_last x = (case x of None \<Rightarrow> (True, []) | Some t \<Rightarrow> (False, t))"

record content_query =
  cq_page :: page_query
  cq_search :: "string option"
  cq_sort :: string
  cq_order :: sort_order
  cq_includeDeleted :: bool

definition search_in :: "string option \<Rightarrow> string option \<Rightarrow> bool" where
  "search_in search text = (case truthy search of None \<Rightarrow> True
     | Some p \<Rightarrow> (case text of None \<Rightarrow> False | Some t \<Rightarrow> contains_ci t (trim p)))"

definition drama_active :: "state \<Rightarrow> string \<Rightarrow> bool" where
  "drama_active s did \<longleftrightarrow> (\<exists>d\<in>set (dramas s). dr_id d = did \<and> dr_deletedAt d = None)"

definition season_active :: "state \<Rightarrow> string \<Rightarrow> bool" where
  "season_active s sid \<longleftrightarrow> (\<exists>q\<in>set (seasons s). se_id q = sid \<and> se_deletedAt q = None \<and> drama_active s (se_dramaId q))"

definition episode_active :: "state \<Rightarrow> string \<Rightarrow> bool" where
  "episode_active s eid \<longleftrightarrow> (\<exists>e\<in>set (episodes s). ep_id e = eid \<and> ep_deletedAt e = None \<and> season_active s (ep_seasonId e))"

definition find_drama :: "state \<Rightarrow> string \<Rightarrow> drama option" where
  "find_drama s did = find_first (\<lambda>d. dr_id d = did) (dramas s)"

definition find_season :: "state \<Rightarrow> string \<Rightarrow> season option" where
  "find_season s sid = find_first (\<lambda>q. se_id q = sid) (seasons s)"

definition visible_drama :: "state \<Rightarrow> string \<Rightarrow> bool" where
  "visible_drama s did \<longleftrightarrow> (\<exists>d\<in>set (dramas s). dr_id d = did \<and> dr_deletedAt d = None \<and> dr_isPublished d)"

definition visible_season :: "state \<Rightarrow> string \<Rightarrow> bool" where
  "visible_season s sid \<longleftrightarrow> (\<exists>q\<in>set (seasons s). se_id q = sid \<and> se_deletedAt q = None \<and> visible_drama s (se_dramaId q))"

section \<open>The soft-delete cascade\<close>

definition delete_season_rows :: "instant \<Rightarrow> (season \<Rightarrow> bool) \<Rightarrow> unit handler" where
  "delete_season_rows now P = modify (\<lambda>s. s\<lparr>seasons := update_many (\<lambda>q. P q \<and> se_deletedAt q = None)
     (\<lambda>q. q\<lparr>se_deletedAt := Some now\<rparr>) (seasons s)\<rparr>)"

definition delete_episode_rows :: "instant \<Rightarrow> (episode \<Rightarrow> bool) \<Rightarrow> unit handler" where
  "delete_episode_rows now P = modify (\<lambda>s. s\<lparr>episodes := update_many (\<lambda>e. P e \<and> ep_deletedAt e = None)
     (\<lambda>e. e\<lparr>ep_deletedAt := Some now, ep_isPublished := False, ep_status := ARCHIVED\<rparr>) (episodes s)\<rparr>)"

definition delete_media_rows :: "instant \<Rightarrow> (media_asset \<Rightarrow> bool) \<Rightarrow> unit handler" where
  "delete_media_rows now P = modify (\<lambda>s. s\<lparr>mediaAssets := update_many (\<lambda>m. P m \<and> ma_deletedAt m = None)
     (\<lambda>m. m\<lparr>ma_deletedAt := Some now, ma_status := Media_INACTIVE\<rparr>) (mediaAssets s)\<rparr>)"

definition season_ids_of :: "state \<Rightarrow> string list \<Rightarrow> string list" where
  "season_ids_of s dids = map se_id (filter (\<lambda>q. se_dramaId q \<in> set dids) (seasons s))"

definition episode_ids_of :: "state \<Rightarrow> string list \<Rightarrow> string list" where
  "episode_ids_of s sids = map ep_id (filter (\<lambda>e. ep_seasonId e \<in> set sids) (episodes s))"

section \<open>Dramas\<close>

definition list_dramas :: "(drama \<Rightarrow> int) \<Rightarrow> content_query \<Rightarrow> bool option \<Rightarrow> principal option
    \<Rightarrow> (drama \<times> nat) page handler" where
  "list_dramas updatedAt q published actor = gets (\<lambda>s.
     let admin = can_read_all actor;
         rows = filter (\<lambda>d. (admin \<and> cq_includeDeleted q \<or> dr_deletedAt d = None)
           \<and> (if admin then given_eq published (dr_isPublished d) else dr_isPublished d)
           \<and> (case truthy (cq_search q) of None \<Rightarrow> True
              | Some p \<Rightarrow> contains_ci (dr_name d) (trim p) \<or> contains_ci (dr_slug d) (to_lower (trim p)))) (dramas s);
         sorted = (if cq_sort q = ''name'' then sort_rows (cq_order q) dr_name rows
           else if cq_sort q = ''slug'' then sort_rows (cq_order q) dr_slug rows
           else if cq_sort q = ''updatedAt'' then sort_rows (cq_order q) updatedAt rows
           else sort_rows (cq_order q) dr_createdAt rows)
     in list_page (cq_page q) (map (\<lambda>d. (d, count_where (\<lambda>x. se_dramaId x = dr_id d) (seasons s))) sorted))"

definition drama_details :: "string \<Rightarrow> principal option \<Rightarrow> (drama \<times> (season \<times> nat) list) handler" where
  "drama_details did actor =
     (let admin = can_read_all actor in
      and_then (gets (\<lambda>s. find_first (\<lambda>d. dr_id d = did \<and> (admin \<or> dr_deletedAt d = None \<and> dr_isPublished d)) (dramas s))) (\<lambda>d.
      and_then (expect d (NotFound ''Drama not found'')) (\<lambda>d.
      gets (\<lambda>s. (d, map (\<lambda>q. (q, count_where (\<lambda>e. ep_seasonId e = se_id q) (episodes s)))
        (order_asc se_seasonNumber (filter (\<lambda>q. se_dramaId q = did \<and> (admin \<or> se_deletedAt q = None)) (seasons s))))))))"

record drama_dto =
  dd_name :: "string option"
  dd_slug :: "string option"
  dd_dramaNumber :: "int option"
  dd_totalSeasons :: "int option"
  dd_description :: "string option"
  dd_thumbnailKey :: "string option"
  dd_isPublished :: "bool option"

text \<open>\<open>name\<close> and \<open>slug\<close> are required by the create DTO, so they are separate arguments there.\<close>

definition create_drama :: "request \<Rightarrow> principal \<Rightarrow> string \<Rightarrow> string \<Rightarrow> string \<Rightarrow> drama_dto \<Rightarrow> drama handler" where
  "create_drama rq actor newId name slug dto =
     (let d = \<lparr>dr_id = newId, dr_name = trim name, dr_slug = to_lower slug, dr_dramaNumber = dd_dramaNumber dto,
        dr_totalSeasons = set_or (dd_totalSeasons dto) 0, dr_description = dd_description dto,
        dr_thumbnailKey = dd_thumbnailKey dto, dr_isPublished = set_or (dd_isPublished dto) False,
        dr_createdAt = rq_now rq, dr_deletedAt = None\<rparr> in
      and_then (gets dramas) (\<lambda>t.
      and_then (require (\<forall>q\<in>set t. dr_slug q \<noteq> dr_slug d \<and> dr_id q \<noteq> newId) (Conflict ''Drama slug already exists'')) (\<lambda>_.
      and_then (modify (\<lambda>s. s\<lparr>dramas := dramas s @ [d]\<rparr>)) (\<lambda>_.
      and_then (audit_write (audit_input rq (Some (pr_id actor)) ''content.drama_create'' ''drama'' (Some newId) SUCCESS [])) (\<lambda>_.
      ret d)))))"

definition apply_drama :: "drama_dto \<Rightarrow> drama \<Rightarrow> drama" where
  "apply_drama dto d = d\<lparr>dr_name := set_or (map_option trim (dd_name dto)) (dr_name d),
     dr_slug := set_or (map_option to_lower (dd_slug dto)) (dr_slug d),
     dr_dramaNumber := keep_or (dd_dramaNumber dto) (dr_dramaNumber d),
     dr_totalSeasons := set_or (dd_totalSeasons dto) (dr_totalSeasons d),
     dr_description := keep_or (dd_description dto) (dr_description d),
     dr_thumbnailKey := keep_or (dd_thumbnailKey dto) (dr_thumbnailKey d),
     dr_isPublished := set_or (dd_isPublished dto) (dr_isPublished d)\<rparr>"

definition update_drama :: "request \<Rightarrow> principal \<Rightarrow> string \<Rightarrow> drama_dto \<Rightarrow> unit handler" where
  "update_drama rq actor did dto =
     and_then (gets (\<lambda>s. drama_active s did)) (\<lambda>ok.
     and_then (require ok (NotFound ''Drama not found'')) (\<lambda>_.
     and_then (gets (\<lambda>s. case dd_slug dto of None \<Rightarrow> True
       | Some sl \<Rightarrow> \<forall>q\<in>set (dramas s). dr_id q \<noteq> did \<longrightarrow> dr_slug q \<noteq> to_lower sl)) (\<lambda>free.
     and_then (require free (Conflict ''Drama slug already exists'')) (\<lambda>_.
     and_then (modify (\<lambda>s. s\<lparr>dramas := update_many (\<lambda>d. dr_id d = did) (apply_drama dto) (dramas s)\<rparr>)) (\<lambda>_.
     audit_write (audit_input rq (Some (pr_id actor)) ''content.drama_update'' ''drama'' (Some did) SUCCESS []))))))"

definition delete_drama_rows :: "instant \<Rightarrow> (drama \<Rightarrow> bool) \<Rightarrow> nat handler" where
  "delete_drama_rows now P =
     and_then (gets (\<lambda>s. count_where (\<lambda>d. P d \<and> dr_deletedAt d = None) (dramas s))) (\<lambda>n.
     and_then (modify (\<lambda>s. s\<lparr>dramas := update_many (\<lambda>d. P d \<and> dr_deletedAt d = None)
       (\<lambda>d. d\<lparr>dr_deletedAt := Some now, dr_isPublished := False\<rparr>) (dramas s)\<rparr>)) (\<lambda>_. ret n))"

definition remove_drama :: "request \<Rightarrow> principal \<Rightarrow> string \<Rightarrow> unit handler" where
  "remove_drama rq actor did =
     and_then (transaction
       (and_then (delete_drama_rows (rq_now rq) (\<lambda>d. dr_id d = did)) (\<lambda>n.
        if n = 0 then ret (0::nat) else
        and_then (gets (\<lambda>s. season_ids_of s [did])) (\<lambda>seasonIds.
        and_then (gets (\<lambda>s. episode_ids_of s seasonIds)) (\<lambda>episodeIds.
        and_then (if seasonIds \<noteq> [] then delete_season_rows (rq_now rq) (\<lambda>q. se_id q \<in> set seasonIds) else ret ()) (\<lambda>_.
        and_then (if episodeIds \<noteq> [] then
            and_then (delete_episode_rows (rq_now rq) (\<lambda>e. ep_id e \<in> set episodeIds)) (\<lambda>_.
            delete_media_rows (rq_now rq) (\<lambda>m. ma_episodeId m \<in> set episodeIds)) else ret ()) (\<lambda>_.
        ret 1))))))) (\<lambda>result.
     and_then (require (result \<noteq> 0) (NotFound ''Drama not found'')) (\<lambda>_.
     audit_write (audit_input rq (Some (pr_id actor)) ''content.drama_delete'' ''drama'' (Some did) SUCCESS [])))"

definition restore_drama_rows :: "(drama \<Rightarrow> bool) \<Rightarrow> nat handler" where
  "restore_drama_rows P =
     and_then (gets (\<lambda>s. count_where (\<lambda>d. P d \<and> dr_deletedAt d \<noteq> None) (dramas s))) (\<lambda>n.
     and_then (modify (\<lambda>s. s\<lparr>dramas := update_many (\<lambda>d. P d \<and> dr_deletedAt d \<noteq> None)
       (\<lambda>d. d\<lparr>dr_deletedAt := None\<rparr>) (dramas s)\<rparr>)) (\<lambda>_. ret n))"

definition publish_drama_rows :: "(drama \<Rightarrow> bool) \<Rightarrow> bool \<Rightarrow> nat handler" where
  "publish_drama_rows P b =
     and_then (gets (\<lambda>s. count_where (\<lambda>d. P d \<and> dr_deletedAt d = None) (dramas s))) (\<lambda>n.
     and_then (modify (\<lambda>s. s\<lparr>dramas := update_many (\<lambda>d. P d \<and> dr_deletedAt d = None)
       (\<lambda>d. d\<lparr>dr_isPublished := b\<rparr>) (dramas s)\<rparr>)) (\<lambda>_. ret n))"

definition restore_drama :: "request \<Rightarrow> principal \<Rightarrow> string \<Rightarrow> unit handler" where
  "restore_drama rq actor did =
     and_then (restore_drama_rows (\<lambda>d. dr_id d = did)) (\<lambda>n.
     and_then (require (n \<noteq> 0) (NotFound ''Deleted drama not found'')) (\<lambda>_.
     audit_write (audit_input rq (Some (pr_id actor)) ''content.drama_restore'' ''drama'' (Some did) SUCCESS [])))"

definition publish_drama :: "request \<Rightarrow> principal \<Rightarrow> string \<Rightarrow> bool \<Rightarrow> bool handler" where
  "publish_drama rq actor did b =
     and_then (publish_drama_rows (\<lambda>d. dr_id d = did) b) (\<lambda>n.
     and_then (require (n \<noteq> 0) (NotFound ''Drama not found'')) (\<lambda>_.
     and_then (audit_write (audit_input rq (Some (pr_id actor))
       (if b then ''content.drama_publish'' else ''content.drama_unpublish'') ''drama'' (Some did) SUCCESS [])) (\<lambda>_.
     ret b)))"

datatype bulk_action = Bulk_publish | Bulk_unpublish | Bulk_delete | Bulk_restore

fun bulk_name :: "bulk_action \<Rightarrow> string" where
  "bulk_name Bulk_publish = ''publish''"
| "bulk_name Bulk_unpublish = ''unpublish''"
| "bulk_name Bulk_delete = ''delete''"
| "bulk_name Bulk_restore = ''restore''"

definition bulk_drama_rows :: "instant \<Rightarrow> string list \<Rightarrow> bulk_action \<Rightarrow> nat handler" where
  "bulk_drama_rows now ids action = (case action of
       Bulk_publish \<Rightarrow> publish_drama_rows (\<lambda>d. dr_id d \<in> set ids) True
     | Bulk_unpublish \<Rightarrow> publish_drama_rows (\<lambda>d. dr_id d \<in> set ids) False
     | Bulk_restore \<Rightarrow> restore_drama_rows (\<lambda>d. dr_id d \<in> set ids)
     | Bulk_delete \<Rightarrow>
         and_then (delete_drama_rows now (\<lambda>d. dr_id d \<in> set ids)) (\<lambda>n.
         and_then (delete_season_rows now (\<lambda>q. se_dramaId q \<in> set ids)) (\<lambda>_.
         and_then (gets (\<lambda>s. season_ids_of s ids)) (\<lambda>seasonIds.
         and_then (if seasonIds \<noteq> [] then
             and_then (delete_episode_rows now (\<lambda>e. ep_seasonId e \<in> set seasonIds)) (\<lambda>_.
             and_then (gets (\<lambda>s. episode_ids_of s seasonIds)) (\<lambda>episodeIds.
             delete_media_rows now (\<lambda>m. ma_episodeId m \<in> set episodeIds))) else ret ()) (\<lambda>_.
         ret n)))))"

definition bulk_audit :: "request \<Rightarrow> principal \<Rightarrow> string \<Rightarrow> string \<Rightarrow> bulk_action \<Rightarrow> string list \<Rightarrow> nat \<Rightarrow> nat handler" where
  "bulk_audit rq actor prefix resource action ids n =
     and_then (audit_write (audit_input rq (Some (pr_id actor)) (prefix @ bulk_name action) resource None SUCCESS
       [(''requested'', JNum (int (length ids))), (''affected'', JNum (int n))])) (\<lambda>_. ret n)"

definition bulk_dramas :: "request \<Rightarrow> principal \<Rightarrow> string list \<Rightarrow> bulk_action \<Rightarrow> nat handler" where
  "bulk_dramas rq actor ids action =
     and_then (bulk_drama_rows (rq_now rq) ids action) (\<lambda>n.
     bulk_audit rq actor ''content.drama_bulk_'' ''drama'' action ids n)"

section \<open>Seasons\<close>

definition list_seasons :: "(season \<Rightarrow> int) \<Rightarrow> content_query \<Rightarrow> string option \<Rightarrow> principal option
    \<Rightarrow> (season \<times> drama option \<times> nat) page handler" where
  "list_seasons updatedAt q dramaId actor = gets (\<lambda>s.
     let admin = can_read_all actor;
         drama_ok = (\<lambda>x. if admin then
             (case truthy dramaId of
                Some did \<Rightarrow> \<exists>d\<in>set (dramas s). dr_id d = se_dramaId x \<and> dr_id d = did \<and> (cq_includeDeleted q \<or> dr_deletedAt d = None)
              | None \<Rightarrow> cq_includeDeleted q \<or> drama_active s (se_dramaId x))
           else given_eq dramaId (se_dramaId x) \<and> visible_drama s (se_dramaId x));
         rows = filter (\<lambda>x. (admin \<and> cq_includeDeleted q \<or> se_deletedAt x = None) \<and> drama_ok x
           \<and> search_in (cq_search q) (se_title x)) (seasons s);
         sorted = (if cq_sort q = ''seasonNumber'' then sort_rows (cq_order q) se_seasonNumber rows
           else if cq_sort q = ''title'' then sort_rows (cq_order q) (\<lambda>x. null_last (se_title x)) rows
           else if cq_sort q = ''updatedAt'' then sort_rows (cq_order q) updatedAt rows
           else sort_rows (cq_order q) se_createdAt rows)
     in list_page (cq_page q) (map (\<lambda>x. (x, find_drama s (se_dramaId x), count_where (\<lambda>e. ep_seasonId e = se_id x) (episodes s))) sorted))"

definition season_details :: "string \<Rightarrow> principal option \<Rightarrow> (season \<times> drama option \<times> episode list) handler" where
  "season_details sid actor =
     (let admin = can_read_all actor in
      and_then (gets (\<lambda>s. find_first (\<lambda>q. se_id q = sid
        \<and> (admin \<or> se_deletedAt q = None \<and> visible_drama s (se_dramaId q))) (seasons s))) (\<lambda>q.
      and_then (expect q (NotFound ''Season not found'')) (\<lambda>q.
      gets (\<lambda>s. (q, find_drama s (se_dramaId q), order_asc ep_episodeNumber (filter (\<lambda>e. ep_seasonId e = sid
        \<and> (admin \<or> ep_deletedAt e = None \<and> ep_isPublished e \<and> ep_visibility e = PUBLIC)) (episodes s)))))))"

record season_dto =
  sd_dramaId :: "string option"
  sd_seasonNumber :: "int option"
  sd_title :: "string option"
  sd_totalEpisodes :: "int option"
  sd_thumbnailKey :: "string option"

definition season_number_free :: "state \<Rightarrow> string \<Rightarrow> string \<Rightarrow> int \<Rightarrow> bool" where
  "season_number_free s self did n \<longleftrightarrow>
     (\<forall>q\<in>set (seasons s). se_id q \<noteq> self \<longrightarrow> (se_dramaId q, se_seasonNumber q) \<noteq> (did, n))"

definition create_season :: "request \<Rightarrow> principal \<Rightarrow> string \<Rightarrow> string \<Rightarrow> int \<Rightarrow> season_dto \<Rightarrow> season handler" where
  "create_season rq actor newId dramaId seasonNumber dto =
     (let q = \<lparr>se_id = newId, se_dramaId = dramaId, se_seasonNumber = seasonNumber, se_title = map_option trim (sd_title dto),
        se_totalEpisodes = set_or (sd_totalEpisodes dto) 0, se_thumbnailKey = sd_thumbnailKey dto,
        se_createdAt = rq_now rq, se_deletedAt = None\<rparr> in
      and_then (gets (\<lambda>s. drama_active s dramaId)) (\<lambda>ok.
      and_then (require ok (NotFound ''Drama not found'')) (\<lambda>_.
      and_then (gets (\<lambda>s. season_number_free s newId dramaId seasonNumber \<and> (\<forall>x\<in>set (seasons s). se_id x \<noteq> newId))) (\<lambda>free.
      and_then (require free (Conflict ''Season number already exists for this drama'')) (\<lambda>_.
      and_then (modify (\<lambda>s. s\<lparr>seasons := seasons s @ [q]\<rparr>)) (\<lambda>_.
      and_then (audit_write (audit_input rq (Some (pr_id actor)) ''content.season_create'' ''season'' (Some newId) SUCCESS [])) (\<lambda>_.
      ret q)))))))"

definition apply_season :: "season_dto \<Rightarrow> season \<Rightarrow> season" where
  "apply_season dto q = q\<lparr>se_dramaId := set_or (sd_dramaId dto) (se_dramaId q),
     se_seasonNumber := set_or (sd_seasonNumber dto) (se_seasonNumber q),
     se_title := keep_or (map_option trim (sd_title dto)) (se_title q),
     se_totalEpisodes := set_or (sd_totalEpisodes dto) (se_totalEpisodes q),
     se_thumbnailKey := keep_or (sd_thumbnailKey dto) (se_thumbnailKey q)\<rparr>"

definition update_season :: "request \<Rightarrow> principal \<Rightarrow> string \<Rightarrow> season_dto \<Rightarrow> unit handler" where
  "update_season rq actor sid dto =
     and_then (gets (\<lambda>s. season_active s sid)) (\<lambda>ok.
     and_then (require ok (NotFound ''Season not found'')) (\<lambda>_.
     and_then (gets (\<lambda>s. case sd_dramaId dto of None \<Rightarrow> True | Some did \<Rightarrow> drama_active s did)) (\<lambda>ok.
     and_then (require ok (NotFound ''Drama not found'')) (\<lambda>_.
     and_then (gets (\<lambda>s. case find_season s sid of None \<Rightarrow> True
       | Some q \<Rightarrow> season_number_free s sid (se_dramaId (apply_season dto q)) (se_seasonNumber (apply_season dto q)))) (\<lambda>free.
     and_then (require free (Conflict ''Season number already exists for this drama'')) (\<lambda>_.
     and_then (modify (\<lambda>s. s\<lparr>seasons := update_many (\<lambda>q. se_id q = sid) (apply_season dto) (seasons s)\<rparr>)) (\<lambda>_.
     audit_write (audit_input rq (Some (pr_id actor)) ''content.season_update'' ''season'' (Some sid) SUCCESS []))))))))"

definition count_seasons :: "(season \<Rightarrow> bool) \<Rightarrow> nat handler" where
  "count_seasons P = gets (\<lambda>s. count_where P (seasons s))"

definition remove_season :: "request \<Rightarrow> principal \<Rightarrow> string \<Rightarrow> unit handler" where
  "remove_season rq actor sid =
     and_then (transaction
       (and_then (count_seasons (\<lambda>q. se_id q = sid \<and> se_deletedAt q = None)) (\<lambda>n.
        and_then (delete_season_rows (rq_now rq) (\<lambda>q. se_id q = sid)) (\<lambda>_.
        if n = 0 then ret (0::nat) else
        and_then (gets (\<lambda>s. episode_ids_of s [sid])) (\<lambda>episodeIds.
        and_then (if episodeIds \<noteq> [] then
            and_then (delete_episode_rows (rq_now rq) (\<lambda>e. ep_id e \<in> set episodeIds)) (\<lambda>_.
            delete_media_rows (rq_now rq) (\<lambda>m. ma_episodeId m \<in> set episodeIds)) else ret ()) (\<lambda>_.
        ret 1)))))) (\<lambda>result.
     and_then (require (result \<noteq> 0) (NotFound ''Season not found'')) (\<lambda>_.
     audit_write (audit_input rq (Some (pr_id actor)) ''content.season_delete'' ''season'' (Some sid) SUCCESS [])))"

definition restore_season_rows :: "(season \<Rightarrow> bool) \<Rightarrow> nat handler" where
  "restore_season_rows P =
     and_then (count_seasons (\<lambda>q. P q \<and> se_deletedAt q \<noteq> None)) (\<lambda>n.
     and_then (modify (\<lambda>s. s\<lparr>seasons := update_many (\<lambda>q. P q \<and> se_deletedAt q \<noteq> None)
       (\<lambda>q. q\<lparr>se_deletedAt := None\<rparr>) (seasons s)\<rparr>)) (\<lambda>_. ret n))"

definition restore_season :: "request \<Rightarrow> principal \<Rightarrow> string \<Rightarrow> unit handler" where
  "restore_season rq actor sid =
     and_then (restore_season_rows (\<lambda>q. se_id q = sid)) (\<lambda>n.
     and_then (require (n \<noteq> 0) (NotFound ''Deleted season not found'')) (\<lambda>_.
     audit_write (audit_input rq (Some (pr_id actor)) ''content.season_restore'' ''season'' (Some sid) SUCCESS [])))"

text \<open>The season service is only called with \<open>delete\<close> and \<open>restore\<close>.\<close>

definition bulk_season_rows :: "instant \<Rightarrow> string list \<Rightarrow> bulk_action \<Rightarrow> nat handler" where
  "bulk_season_rows now ids action = (case action of
       Bulk_restore \<Rightarrow> restore_season_rows (\<lambda>q. se_id q \<in> set ids)
     | Bulk_delete \<Rightarrow>
         and_then (count_seasons (\<lambda>q. se_id q \<in> set ids \<and> se_deletedAt q = None)) (\<lambda>n.
         and_then (delete_season_rows now (\<lambda>q. se_id q \<in> set ids)) (\<lambda>_.
         and_then (gets (\<lambda>s. episode_ids_of s ids)) (\<lambda>episodeIds.
         and_then (if episodeIds \<noteq> [] then
             and_then (delete_episode_rows now (\<lambda>e. ep_id e \<in> set episodeIds)) (\<lambda>_.
             delete_media_rows now (\<lambda>m. ma_episodeId m \<in> set episodeIds)) else ret ()) (\<lambda>_.
         ret n))))
     | _ \<Rightarrow> ret 0)"

definition bulk_seasons :: "request \<Rightarrow> principal \<Rightarrow> string list \<Rightarrow> bulk_action \<Rightarrow> nat handler" where
  "bulk_seasons rq actor ids action =
     and_then (bulk_season_rows (rq_now rq) ids action) (\<lambda>n.
     bulk_audit rq actor ''content.season_bulk_'' ''season'' action ids n)"

section \<open>Episodes\<close>

record episode_filter =
  ef_seasonId :: "string option"
  ef_dramaId :: "string option"
  ef_published :: "bool option"
  ef_visibility :: "content_visibility option"
  ef_premium :: "bool option"
  ef_status :: "episode_status option"

type_synonym episode_view = "episode \<times> season option \<times> media_asset option"

definition view_episode :: "state \<Rightarrow> episode \<Rightarrow> episode_view" where
  "view_episode s e = (e, find_season s (ep_seasonId e), find_first (\<lambda>m. ma_episodeId m = ep_id e) (mediaAssets s))"

definition list_episodes :: "(episode \<Rightarrow> int) \<Rightarrow> content_query \<Rightarrow> episode_filter \<Rightarrow> principal option
    \<Rightarrow> episode_view page handler" where
  "list_episodes updatedAt q f actor = gets (\<lambda>s.
     let admin = can_read_all actor;
         season_ok = (\<lambda>e. \<exists>x\<in>set (seasons s). se_id x = ep_seasonId e
           \<and> given_eq (truthy (ef_seasonId f)) (se_id x) \<and> given_eq (truthy (ef_dramaId f)) (se_dramaId x)
           \<and> (admin \<and> cq_includeDeleted q \<or> se_deletedAt x = None)
           \<and> (admin \<or> visible_drama s (se_dramaId x)));
         rows = filter (\<lambda>e. (admin \<and> cq_includeDeleted q \<or> ep_deletedAt e = None) \<and> season_ok e
           \<and> (if admin then given_eq (ef_published f) (ep_isPublished e) else ep_isPublished e)
           \<and> (if admin then given_eq (ef_status f) (ep_status e) else ep_status e = PUBLISHED)
           \<and> (if admin then given_eq (ef_visibility f) (ep_visibility e) else ep_visibility e = PUBLIC)
           \<and> given_eq (ef_premium f) (ep_isPremium e) \<and> search_in (cq_search q) (ep_title e)) (episodes s);
         sorted = (if cq_sort q = ''episodeNumber'' then sort_rows (cq_order q) ep_episodeNumber rows
           else if cq_sort q = ''title'' then sort_rows (cq_order q) (\<lambda>x. null_last (ep_title x)) rows
           else if cq_sort q = ''updatedAt'' then sort_rows (cq_order q) updatedAt rows
           else sort_rows (cq_order q) ep_createdAt rows)
     in list_page (cq_page q) (map (view_episode s) sorted))"

definition episode_details :: "string \<Rightarrow> principal option \<Rightarrow> episode_view handler" where
  "episode_details eid actor =
     (let admin = can_read_all actor in
      and_then (gets (\<lambda>s. find_first (\<lambda>e. ep_id e = eid \<and> (admin \<or> ep_deletedAt e = None \<and> ep_isPublished e
        \<and> ep_status e = PUBLISHED \<and> ep_visibility e = PUBLIC \<and> visible_season s (ep_seasonId e))) (episodes s))) (\<lambda>e.
      and_then (expect e (NotFound ''Episode not found'')) (\<lambda>e.
      gets (\<lambda>s. case view_episode s e of (e, q, m) \<Rightarrow> (e, q,
        case m of None \<Rightarrow> None | Some m \<Rightarrow> if \<not> admin \<and> ma_deletedAt m \<noteq> None then None else Some m)))))"

record episode_dto =
  ed_seasonId :: "string option"
  ed_episodeNumber :: "int option"
  ed_title :: "string option"
  ed_description :: "string option"
  ed_thumbnailKey :: "string option"
  ed_isPublished :: "bool option"
  ed_visibility :: "content_visibility option"
  ed_isPremium :: "bool option"
  ed_downloadAccess :: "download_access option"
  ed_status :: "episode_status option"

definition episode_number_free :: "state \<Rightarrow> string \<Rightarrow> string \<Rightarrow> int \<Rightarrow> bool" where
  "episode_number_free s self sid n \<longleftrightarrow>
     (\<forall>e\<in>set (episodes s). ep_id e \<noteq> self \<longrightarrow> (ep_seasonId e, ep_episodeNumber e) \<noteq> (sid, n))"

definition episode_row :: "request \<Rightarrow> string \<Rightarrow> string \<Rightarrow> int \<Rightarrow> episode_dto \<Rightarrow> episode" where
  "episode_row rq newId seasonId episodeNumber dto =
     (let status = (case ed_status dto of Some st \<Rightarrow> st
        | None \<Rightarrow> if ed_isPublished dto = Some True then PUBLISHED else DRAFT) in
      \<lparr>ep_id = newId, ep_seasonId = seasonId, ep_episodeNumber = episodeNumber, ep_title = map_option trim (ed_title dto),
       ep_description = ed_description dto, ep_thumbnailKey = ed_thumbnailKey dto, ep_isPublished = (status = PUBLISHED),
       ep_status = status, ep_visibility = set_or (ed_visibility dto) PRIVATE, ep_isPremium = set_or (ed_isPremium dto) True,
       ep_downloadAccess = set_or (ed_downloadAccess dto) GALLERY, ep_createdAt = rq_now rq, ep_deletedAt = None\<rparr>)"

definition create_episode :: "request \<Rightarrow> principal \<Rightarrow> string \<Rightarrow> string \<Rightarrow> int \<Rightarrow> episode_dto \<Rightarrow> episode handler" where
  "create_episode rq actor newId seasonId episodeNumber dto =
     (let e = episode_row rq newId seasonId episodeNumber dto in
      and_then (gets (\<lambda>s. season_active s seasonId)) (\<lambda>ok.
      and_then (require ok (NotFound ''Season not found'')) (\<lambda>_.
      and_then (gets (\<lambda>s. episode_number_free s newId seasonId episodeNumber \<and> (\<forall>x\<in>set (episodes s). ep_id x \<noteq> newId))) (\<lambda>free.
      and_then (require free (Conflict ''Episode number already exists for this season'')) (\<lambda>_.
      and_then (modify (\<lambda>s. s\<lparr>episodes := episodes s @ [e]\<rparr>)) (\<lambda>_.
      and_then (audit_write (audit_input rq (Some (pr_id actor)) ''content.episode_create'' ''episode'' (Some newId) SUCCESS [])) (\<lambda>_.
      ret e)))))))"

definition apply_episode :: "episode_dto \<Rightarrow> episode \<Rightarrow> episode" where
  "apply_episode dto e =
     (let status = (case ed_status dto of Some st \<Rightarrow> Some st
        | None \<Rightarrow> map_option (\<lambda>b. if b then PUBLISHED else DRAFT) (ed_isPublished dto)) in
      e\<lparr>ep_seasonId := set_or (ed_seasonId dto) (ep_seasonId e),
        ep_episodeNumber := set_or (ed_episodeNumber dto) (ep_episodeNumber e),
        ep_title := keep_or (map_option trim (ed_title dto)) (ep_title e),
        ep_description := keep_or (ed_description dto) (ep_description e),
        ep_thumbnailKey := keep_or (ed_thumbnailKey dto) (ep_thumbnailKey e),
        ep_isPublished := (case status of None \<Rightarrow> ep_isPublished e | Some st \<Rightarrow> st = PUBLISHED),
        ep_status := set_or status (ep_status e),
        ep_visibility := set_or (ed_visibility dto) (ep_visibility e),
        ep_isPremium := set_or (ed_isPremium dto) (ep_isPremium e),
        ep_downloadAccess := set_or (ed_downloadAccess dto) (ep_downloadAccess e)\<rparr>)"

definition update_episode :: "request \<Rightarrow> principal \<Rightarrow> string \<Rightarrow> episode_dto \<Rightarrow> unit handler" where
  "update_episode rq actor eid dto =
     and_then (gets (\<lambda>s. episode_active s eid)) (\<lambda>ok.
     and_then (require ok (NotFound ''Episode not found'')) (\<lambda>_.
     and_then (gets (\<lambda>s. case ed_seasonId dto of None \<Rightarrow> True | Some sid \<Rightarrow> season_active s sid)) (\<lambda>ok.
     and_then (require ok (NotFound ''Season not found'')) (\<lambda>_.
     and_then (gets (\<lambda>s. \<forall>e\<in>set (episodes s). ep_id e = eid \<longrightarrow>
        episode_number_free s eid (ep_seasonId (apply_episode dto e)) (ep_episodeNumber (apply_episode dto e)))) (\<lambda>free.
     and_then (require free (Conflict ''Episode number already exists for this season'')) (\<lambda>_.
     and_then (modify (\<lambda>s. s\<lparr>episodes := update_many (\<lambda>e. ep_id e = eid) (apply_episode dto) (episodes s)\<rparr>)) (\<lambda>_.
     audit_write (audit_input rq (Some (pr_id actor)) ''content.episode_update'' ''episode'' (Some eid) SUCCESS []))))))))"

definition count_episodes :: "(state \<Rightarrow> episode \<Rightarrow> bool) \<Rightarrow> nat handler" where
  "count_episodes P = gets (\<lambda>s. count_where (P s) (episodes s))"

definition remove_episode :: "request \<Rightarrow> principal \<Rightarrow> string \<Rightarrow> unit handler" where
  "remove_episode rq actor eid =
     and_then (transaction
       (and_then (count_episodes (\<lambda>s e. ep_id e = eid \<and> ep_deletedAt e = None)) (\<lambda>n.
        and_then (delete_episode_rows (rq_now rq) (\<lambda>e. ep_id e = eid)) (\<lambda>_.
        and_then (if n \<noteq> 0 then delete_media_rows (rq_now rq) (\<lambda>m. ma_episodeId m = eid) else ret ()) (\<lambda>_.
        ret n))))) (\<lambda>n.
     and_then (require (n \<noteq> 0) (NotFound ''Episode not found'')) (\<lambda>_.
     audit_write (audit_input rq (Some (pr_id actor)) ''content.episode_delete'' ''episode'' (Some eid) SUCCESS [])))"

definition restore_episode_rows :: "(episode \<Rightarrow> bool) \<Rightarrow> nat handler" where
  "restore_episode_rows P =
     and_then (count_episodes (\<lambda>s e. P e \<and> ep_deletedAt e \<noteq> None \<and> season_active s (ep_seasonId e))) (\<lambda>n.
     and_then (modify (\<lambda>s. s\<lparr>episodes := update_many (\<lambda>e. P e \<and> ep_deletedAt e \<noteq> None \<and> season_active s (ep_seasonId e))
       (\<lambda>e. e\<lparr>ep_deletedAt := None, ep_status := DRAFT\<rparr>) (episodes s)\<rparr>)) (\<lambda>_. ret n))"

definition publish_episode_rows :: "(episode \<Rightarrow> bool) \<Rightarrow> bool \<Rightarrow> nat handler" where
  "publish_episode_rows P b =
     and_then (count_episodes (\<lambda>s e. P e \<and> ep_deletedAt e = None \<and> season_active s (ep_seasonId e))) (\<lambda>n.
     and_then (modify (\<lambda>s. s\<lparr>episodes := update_many (\<lambda>e. P e \<and> ep_deletedAt e = None \<and> season_active s (ep_seasonId e))
       (\<lambda>e. e\<lparr>ep_isPublished := b, ep_status := (if b then PUBLISHED else DRAFT)\<rparr>) (episodes s)\<rparr>)) (\<lambda>_. ret n))"

definition restore_episode :: "request \<Rightarrow> principal \<Rightarrow> string \<Rightarrow> unit handler" where
  "restore_episode rq actor eid =
     and_then (restore_episode_rows (\<lambda>e. ep_id e = eid)) (\<lambda>n.
     and_then (require (n \<noteq> 0) (NotFound ''Deleted episode or parent is unavailable'')) (\<lambda>_.
     audit_write (audit_input rq (Some (pr_id actor)) ''content.episode_restore'' ''episode'' (Some eid) SUCCESS [])))"

definition publish_episode :: "request \<Rightarrow> principal \<Rightarrow> string \<Rightarrow> bool \<Rightarrow> bool handler" where
  "publish_episode rq actor eid b =
     and_then (publish_episode_rows (\<lambda>e. ep_id e = eid) b) (\<lambda>n.
     and_then (require (n \<noteq> 0) (NotFound ''Episode not found'')) (\<lambda>_.
     and_then (audit_write (audit_input rq (Some (pr_id actor))
       (if b then ''content.episode_publish'' else ''content.episode_unpublish'') ''episode'' (Some eid) SUCCESS [])) (\<lambda>_.
     ret b)))"

definition bulk_episode_rows :: "instant \<Rightarrow> string list \<Rightarrow> bulk_action \<Rightarrow> nat handler" where
  "bulk_episode_rows now ids action = (case action of
       Bulk_publish \<Rightarrow> publish_episode_rows (\<lambda>e. ep_id e \<in> set ids) True
     | Bulk_unpublish \<Rightarrow> publish_episode_rows (\<lambda>e. ep_id e \<in> set ids) False
     | Bulk_restore \<Rightarrow> restore_episode_rows (\<lambda>e. ep_id e \<in> set ids)
     | Bulk_delete \<Rightarrow>
         and_then (count_episodes (\<lambda>s e. ep_id e \<in> set ids \<and> ep_deletedAt e = None)) (\<lambda>n.
         and_then (delete_episode_rows now (\<lambda>e. ep_id e \<in> set ids)) (\<lambda>_.
         and_then (delete_media_rows now (\<lambda>m. ma_episodeId m \<in> set ids)) (\<lambda>_.
         ret n))))"

definition bulk_episodes :: "request \<Rightarrow> principal \<Rightarrow> string list \<Rightarrow> bulk_action \<Rightarrow> nat handler" where
  "bulk_episodes rq actor ids action =
     and_then (bulk_episode_rows (rq_now rq) ids action) (\<lambda>n.
     bulk_audit rq actor ''content.episode_bulk_'' ''episode'' action ids n)"

section \<open>Media assets\<close>

record media_dto =
  md_mediaType :: "media_type option"
  md_provider :: "string option"
  md_encryptedLocator :: "string option"
  md_checksum :: "string option"
  md_status :: "media_status option"
  md_metadata :: "(string \<times> json) list option"
  md_version :: "int option"
  md_durationSeconds :: "int option"
  md_sizeBytes :: "int option"

definition list_media :: "(media_asset \<Rightarrow> int) \<Rightarrow> content_query \<Rightarrow> string option \<Rightarrow> media_status option \<Rightarrow> media_type option
    \<Rightarrow> media_asset page handler" where
  "list_media updatedAt q episodeId status mediaType = gets (\<lambda>s.
     let rows = filter (\<lambda>m. (cq_includeDeleted q \<or> ma_deletedAt m = None) \<and> given_eq (truthy episodeId) (ma_episodeId m)
           \<and> given_eq status (ma_status m) \<and> given_eq mediaType (ma_mediaType m)
           \<and> search_in (cq_search q) (Some (ma_provider m))) (mediaAssets s);
         sorted = (if cq_sort q = ''version'' then sort_rows (cq_order q) ma_version rows
           else if cq_sort q = ''updatedAt'' then sort_rows (cq_order q) updatedAt rows
           else sort_rows (cq_order q) ma_createdAt rows)
     in list_page (cq_page q) sorted)"

definition find_media :: "state \<Rightarrow> string \<Rightarrow> media_asset option" where
  "find_media s mid = find_first (\<lambda>m. ma_id m = mid \<and> ma_deletedAt m = None) (mediaAssets s)"

definition media_details :: "string \<Rightarrow> media_asset handler" where
  "media_details mid = and_then (gets (\<lambda>s. find_media s mid)) (\<lambda>m. expect m (NotFound ''Media asset not found''))"

text \<open>\<open>validate\<close>: the locator is decrypted and its host checked; both functions are the media gateway's.\<close>

record media_report =
  mv_valid :: bool
  mv_assetId :: string
  mv_provider :: string
  mv_mediaType :: media_type
  mv_status :: media_status
  mv_location :: "(string \<times> string) option"

definition validate_media :: "(string \<Rightarrow> string option) \<Rightarrow> (string \<Rightarrow> (string \<times> string) option) \<Rightarrow> string
    \<Rightarrow> media_report handler" where
  "validate_media decrypt validateUrl mid =
     and_then (gets (\<lambda>s. find_media s mid)) (\<lambda>m.
     and_then (expect m (NotFound ''Media asset not found'')) (\<lambda>m.
     ret (case Option.bind (decrypt (ma_encryptedLocator m)) validateUrl of
        Some loc \<Rightarrow> \<lparr>mv_valid = True, mv_assetId = ma_id m, mv_provider = ma_provider m, mv_mediaType = ma_mediaType m,
          mv_status = ma_status m, mv_location = Some loc\<rparr>
      | None \<Rightarrow> \<lparr>mv_valid = False, mv_assetId = ma_id m, mv_provider = ma_provider m, mv_mediaType = ma_mediaType m,
          mv_status = Media_ERROR, mv_location = None\<rparr>)))"

definition create_media :: "request \<Rightarrow> principal \<Rightarrow> string \<Rightarrow> string \<Rightarrow> media_type \<Rightarrow> string \<Rightarrow> string \<Rightarrow> media_dto
    \<Rightarrow> media_asset handler" where
  "create_media rq actor newId episodeId mediaType provider locator dto =
     (let m = \<lparr>ma_id = newId, ma_episodeId = episodeId, ma_kind = mediaType, ma_mediaType = mediaType,
        ma_provider = trim provider, ma_encryptedLocator = locator, ma_checksum = map_option to_lower (md_checksum dto),
        ma_status = set_or (md_status dto) Media_PROCESSING, ma_metadata = md_metadata dto,
        ma_version = set_or (md_version dto) 1, ma_durationSeconds = md_durationSeconds dto,
        ma_sizeBytes = md_sizeBytes dto, ma_createdAt = rq_now rq, ma_rotatedAt = None, ma_deletedAt = None\<rparr> in
      and_then (gets (\<lambda>s. episode_active s episodeId)) (\<lambda>ok.
      and_then (require ok (NotFound ''Episode not found'')) (\<lambda>_.
      and_then (gets (\<lambda>s. \<forall>x\<in>set (mediaAssets s). ma_episodeId x \<noteq> episodeId)) (\<lambda>free.
      and_then (require free (Conflict ''Episode already has a media asset; update or restore it instead'')) (\<lambda>_.
      and_then (gets (\<lambda>s. \<forall>x\<in>set (mediaAssets s). ma_id x \<noteq> newId)) (\<lambda>free.
      and_then (require free (Conflict ''Episode already has a media asset'')) (\<lambda>_.
      and_then (modify (\<lambda>s. s\<lparr>mediaAssets := mediaAssets s @ [m]\<rparr>)) (\<lambda>_.
      and_then (audit_write (audit_input rq (Some (pr_id actor)) ''content.media_create'' ''media_asset'' (Some newId) SUCCESS [])) (\<lambda>_.
      ret m)))))))))"

definition apply_media :: "instant \<Rightarrow> media_dto \<Rightarrow> media_asset \<Rightarrow> media_asset" where
  "apply_media now dto m =
     (let changed = (case md_encryptedLocator dto of None \<Rightarrow> False | Some l \<Rightarrow> l \<noteq> ma_encryptedLocator m) in
      m\<lparr>ma_mediaType := set_or (md_mediaType dto) (ma_mediaType m), ma_kind := set_or (md_mediaType dto) (ma_kind m),
        ma_provider := set_or (map_option trim (md_provider dto)) (ma_provider m),
        ma_encryptedLocator := set_or (md_encryptedLocator dto) (ma_encryptedLocator m),
        ma_checksum := keep_or (map_option to_lower (md_checksum dto)) (ma_checksum m),
        ma_status := set_or (md_status dto) (ma_status m), ma_metadata := keep_or (md_metadata dto) (ma_metadata m),
        ma_durationSeconds := keep_or (md_durationSeconds dto) (ma_durationSeconds m),
        ma_sizeBytes := keep_or (md_sizeBytes dto) (ma_sizeBytes m),
        ma_version := (case md_version dto of Some v \<Rightarrow> v | None \<Rightarrow> if changed then ma_version m + 1 else ma_version m),
        ma_rotatedAt := (if changed then Some now else ma_rotatedAt m)\<rparr>)"

definition update_media :: "request \<Rightarrow> principal \<Rightarrow> string \<Rightarrow> media_dto \<Rightarrow> media_asset handler" where
  "update_media rq actor mid dto =
     and_then (gets (\<lambda>s. find_media s mid)) (\<lambda>m.
     and_then (expect m (NotFound ''Media asset not found'')) (\<lambda>m.
     let m' = apply_media (rq_now rq) dto m in
     and_then (modify (\<lambda>s. s\<lparr>mediaAssets := update_many (\<lambda>x. ma_id x = mid) (\<lambda>_. m') (mediaAssets s)\<rparr>)) (\<lambda>_.
     and_then (audit_write (audit_input rq (Some (pr_id actor)) ''content.media_update'' ''media_asset'' (Some mid) SUCCESS
       [(''locatorRotated'', JBool (case md_encryptedLocator dto of None \<Rightarrow> False | Some l \<Rightarrow> l \<noteq> ma_encryptedLocator m))])) (\<lambda>_.
     ret m'))))"

definition remove_media :: "request \<Rightarrow> principal \<Rightarrow> string \<Rightarrow> unit handler" where
  "remove_media rq actor mid =
     and_then (gets (\<lambda>s. count_where (\<lambda>m. ma_id m = mid \<and> ma_deletedAt m = None) (mediaAssets s))) (\<lambda>n.
     and_then (delete_media_rows (rq_now rq) (\<lambda>m. ma_id m = mid)) (\<lambda>_.
     and_then (require (n \<noteq> 0) (NotFound ''Media asset not found'')) (\<lambda>_.
     audit_write (audit_input rq (Some (pr_id actor)) ''content.media_delete'' ''media_asset'' (Some mid) SUCCESS []))))"

definition restore_media :: "request \<Rightarrow> principal \<Rightarrow> string \<Rightarrow> unit handler" where
  "restore_media rq actor mid =
     and_then (gets (\<lambda>s. find_first (\<lambda>m. ma_id m = mid \<and> ma_deletedAt m \<noteq> None \<and> episode_active s (ma_episodeId m)) (mediaAssets s))) (\<lambda>m.
     and_then (require (m \<noteq> None) (NotFound ''Deleted media asset or parent is unavailable'')) (\<lambda>_.
     and_then (modify (\<lambda>s. s\<lparr>mediaAssets := update_many (\<lambda>m. ma_id m = mid)
       (\<lambda>m. m\<lparr>ma_deletedAt := None, ma_status := Media_PROCESSING\<rparr>) (mediaAssets s)\<rparr>)) (\<lambda>_.
     audit_write (audit_input rq (Some (pr_id actor)) ''content.media_restore'' ''media_asset'' (Some mid) SUCCESS []))))"

end
