(* ===== verification/Playback.thy ===== *)
theory Playback
  imports Access
begin

text \<open>
  \<open>src/playback\<close>: the authorisation of a playback (\<open>playback-policy.service.ts\<close>), its signed
  capability and the copy of it in Redis (\<open>playback-token.service.ts\<close>), and the life of a playback session
  (\<open>playback.service.ts\<close>). \<open>start\<close> is its authorisation followed by \<open>start_authorized\<close>, because
  another request may run between them.

  \<open>decision_service\<close> is the interface through which the policy asks the subscription and the access
  component; it is interpreted on their models.
\<close>

section \<open>The entitlement decisions\<close>

locale decision_service =
  fixes decide :: "instant \<Rightarrow> string \<Rightarrow> string \<Rightarrow> bool handler"
    and allowed :: "state \<Rightarrow> instant \<Rightarrow> string \<Rightarrow> string \<Rightarrow> bool"
  assumes decides: "decide now uid ep s = (Inr (allowed s now uid ep), s)"
begin

lemma and_then_decide: "and_then (decide now uid ep) k s = k (allowed s now uid ep) s"
  by (simp add: and_then_def decides)

lemma decide_reads: "decide now uid ep s = (r, s') \<Longrightarrow> s' = s"
  by (simp add: decides)

lemma keeps_decide: "keeps I (decide now uid ep)"
  by (simp add: keeps_def decides)

end

definition subscription_active :: "instant \<Rightarrow> string \<Rightarrow> string \<Rightarrow> bool handler" where
  "subscription_active now uid ep = and_then (validate_subscription now uid) (\<lambda>r. ret (fst r))"

definition grant_allowed :: "instant \<Rightarrow> string \<Rightarrow> string \<Rightarrow> bool handler" where
  "grant_allowed now uid ep = and_then (validate_access now ep uid) (\<lambda>r. ret (ar_allowed r))"

interpretation sub: decision_service subscription_active "\<lambda>s now uid ep. entitled s uid now"
proof unfold_locales
  fix now uid ep s
  show "subscription_active now uid ep s = (Inr (entitled s uid now), s)"
    using validate_entitled [of now uid s] by (auto simp: subscription_active_def and_then_def)
qed

interpretation acc: decision_service grant_allowed "\<lambda>s now uid ep. may_access s now ep uid"
proof unfold_locales
  fix now uid ep s
  show "grant_allowed now uid ep s = (Inr (may_access s now ep uid), s)"
    using validate_access_decides [of now ep uid s] by (auto simp: grant_allowed_def and_then_def)
qed

section \<open>Authorisation\<close>

record device_dto =
  dv_deviceId :: string
  dv_fingerprint :: string

record playback_context =
  pc_userId :: string
  pc_episodeId :: string
  pc_mediaAssetId :: string
  pc_mediaType :: media_type
  pc_encryptedLocator :: string
  pc_isPremium :: bool
  pc_trustedDeviceId :: string
  pc_fingerprintHash :: string
  pc_deviceId :: string

text \<open>The relation filter of the episode query: the season and the drama are there and the drama is published.\<close>

definition season_visible :: "state \<Rightarrow> string \<Rightarrow> bool" where
  "season_visible s sid \<longleftrightarrow> (\<exists>se\<in>set (seasons s). se_id se = sid \<and> se_deletedAt se = None
     \<and> (\<exists>d\<in>set (dramas s). dr_id d = se_dramaId se \<and> dr_deletedAt d = None \<and> dr_isPublished d))"

definition playable_episode :: "state \<Rightarrow> string \<Rightarrow> episode option" where
  "playable_episode s eid = find_first (\<lambda>e. ep_id e = eid \<and> ep_deletedAt e = None \<and> ep_isPublished e
     \<and> ep_status e = PUBLISHED \<and> ep_visibility e = PUBLIC \<and> season_visible s (ep_seasonId e)) (episodes s)"

definition media_of :: "state \<Rightarrow> string \<Rightarrow> media_asset option" where
  "media_of s eid = find_first (\<lambda>m. ma_episodeId m = eid) (mediaAssets s)"

definition device_of :: "state \<Rightarrow> string \<Rightarrow> string \<Rightarrow> trusted_device option" where
  "device_of s uid did = find_first (is_device uid did) (trustedDevices s)"

definition play_live :: "instant \<Rightarrow> string \<Rightarrow> playback_session \<Rightarrow> bool" where
  "play_live now uid x \<longleftrightarrow> ps_userId x = uid \<and> ps_status x = Play_ACTIVE \<and> now < ps_expiresAt x"

definition denied :: "string \<Rightarrow> instant \<Rightarrow> string \<Rightarrow> string \<Rightarrow> string \<Rightarrow> unit handler" where
  "denied reqId now actor episodeId reason = audit_write
     \<lparr>au_actorId = Some actor, au_action = ''playback.authorization_denied'', au_resource = ''episode'',
      au_resourceId = Some episodeId, au_outcome = DENIED, au_requestId = reqId, au_ipAddress = None,
      au_userAgent = None, au_metadata = [(''reason'', JStr reason)], au_createdAt = now\<rparr>"

definition authorize :: "config \<Rightarrow> platform \<Rightarrow> request \<Rightarrow> principal \<Rightarrow> string \<Rightarrow> device_dto \<Rightarrow> bool
    \<Rightarrow> playback_context handler" where
  "authorize cf pf rq p episodeId device allowExisting =
     (let deny = denied (rq_id rq) (rq_now rq) (pr_id p) episodeId in
      and_then (require (pr_status p = User_ACTIVE) (Forbidden ''Account is not active'')) (\<lambda>_.
      and_then (gets (\<lambda>s. playable_episode s episodeId)) (\<lambda>ep.
      and_then (expect ep (NotFound ''Published episode not found'')) (\<lambda>ep.
      and_then (gets (\<lambda>s. media_of s (ep_id ep))) (\<lambda>media.
      and_then (expect (case media of Some m \<Rightarrow> if ma_deletedAt m = None \<and> ma_status m = Media_ACTIVE then Some m else None
                        | None \<Rightarrow> None) (Forbidden ''Media is not available'')) (\<lambda>media.
      and_then (if ep_isPremium ep then
          and_then (subscription_active (rq_now rq) (pr_id p) episodeId) (\<lambda>active.
          and_then (grant_allowed (rq_now rq) (pr_id p) episodeId) (\<lambda>granted.
          if \<not> active \<and> \<not> granted then
            and_then (deny ''subscription_or_episode_access_missing'') (\<lambda>_.
            throw (Forbidden ''An active subscription or episode access is required''))
          else ret ()))
        else ret ()) (\<lambda>_.
      and_then (gets (\<lambda>s. device_of s (pr_id p) (dv_deviceId device))) (\<lambda>td.
      case td of
        None \<Rightarrow> and_then (deny ''device_not_trusted'') (\<lambda>_. throw (Forbidden ''Trusted device is required''))
      | Some td \<Rightarrow>
          if td_status td \<noteq> Device_ACTIVE then
            and_then (deny ''device_not_trusted'') (\<lambda>_. throw (Forbidden ''Trusted device is required''))
          else if td_fingerprintHash td \<noteq> hash_fingerprint pf (dv_fingerprint device) then
            and_then (deny ''device_fingerprint_mismatch'') (\<lambda>_. throw (Forbidden ''Device validation failed''))
          else
            and_then (gets (\<lambda>s. if allowExisting then 0 else count_where (\<lambda>x. play_live (rq_now rq) (pr_id p) x
              \<and> \<not> (ps_episodeId x = episodeId \<and> ps_trustedDeviceId x = td_id td)) (playbackSessions s))) (\<lambda>activeSessions.
            if \<not> allowExisting \<and> cf_maxConcurrentPlayback cf \<le> activeSessions then
              and_then (deny ''concurrent_session_limit'') (\<lambda>_. throw (Forbidden ''Concurrent playback limit reached''))
            else ret \<lparr>pc_userId = pr_id p, pc_episodeId = ep_id ep, pc_mediaAssetId = ma_id media,
              pc_mediaType = ma_mediaType media, pc_encryptedLocator = ma_encryptedLocator media,
              pc_isPremium = ep_isPremium ep, pc_trustedDeviceId = td_id td,
              pc_fingerprintHash = hash_fingerprint pf (dv_fingerprint device),
              pc_deviceId = dv_deviceId device\<rparr>)))))))))"

section \<open>Capabilities\<close>

definition cache_key :: "string \<Rightarrow> string" where
  "cache_key jti = ''playback:capability:'' @ jti"

definition resource_key :: "string \<Rightarrow> string" where
  "resource_key i = ''playback:resource:'' @ i"

definition token_issue :: "config \<Rightarrow> platform \<Rightarrow> instant \<Rightarrow> capability_payload \<Rightarrow> string \<times> instant" where
  "token_issue cf pf now payload =
     (pf_signPlayback pf (payload\<lparr>cp_typ := ''playback''\<rparr>) now (cf_capabilityTtlSeconds cf),
      now + cf_capabilityTtlSeconds cf * 1000)"

definition payload_ok :: "capability_payload \<Rightarrow> bool" where
  "payload_ok p \<longleftrightarrow> cp_typ p = ''playback'' \<and> cp_sub p = cp_uid p \<and> cp_sid p \<noteq> [] \<and> cp_jti p \<noteq> []
     \<and> cp_did p \<noteq> [] \<and> cp_fp p \<noteq> []"

text \<open>Both refusals of \<open>verify\<close> are replaced by the same exception in its \<open>catch\<close>.\<close>

definition token_verify :: "platform \<Rightarrow> instant \<Rightarrow> string \<Rightarrow> capability_payload handler" where
  "token_verify pf now token = expect
     (case pf_verifyPlayback pf token now of None \<Rightarrow> None | Some p \<Rightarrow> if payload_ok p then Some p else None)
     (Unauthorized ''Playback capability is invalid or expired'')"

definition token_cache :: "instant \<Rightarrow> capability_payload \<Rightarrow> capability_state \<Rightarrow> int \<Rightarrow> unit handler" where
  "token_cache now payload st ttl = set_json now (cache_key (cp_jti payload)) (R_capability st) ttl"

definition token_cached :: "instant \<Rightarrow> string \<Rightarrow> capability_state option handler" where
  "token_cached now jti = and_then (get_json now (cache_key jti)) (\<lambda>v.
     ret (case v of Some (R_capability c) \<Rightarrow> Some c | _ \<Rightarrow> None))"

definition token_revoke :: "string \<Rightarrow> unit handler" where
  "token_revoke jti = delete_key (cache_key jti)"

text \<open>\<open>issue\<close> signs the claims and reads them back with \<open>verify\<close>.\<close>

record issued_capability =
  ic_token :: string
  ic_expiresAt :: instant
  ic_payload :: capability_payload

definition issue_capability :: "config \<Rightarrow> platform \<Rightarrow> instant \<Rightarrow> string \<Rightarrow> string \<Rightarrow> playback_context
    \<Rightarrow> issued_capability handler" where
  "issue_capability cf pf now sessionId jti c =
     (let issued = token_issue cf pf now \<lparr>cp_sub = pc_userId c, cp_sid = sessionId, cp_jti = jti, cp_uid = pc_userId c,
           cp_eid = pc_episodeId c, cp_mid = pc_mediaAssetId c, cp_did = pc_deviceId c, cp_fp = pc_fingerprintHash c,
           cp_typ = ''playback''\<rparr> in
      and_then (token_verify pf now (fst issued)) (\<lambda>payload.
      ret \<lparr>ic_token = fst issued, ic_expiresAt = snd issued, ic_payload = payload\<rparr>))"

definition cache_capability :: "config \<Rightarrow> instant \<Rightarrow> capability_payload \<Rightarrow> playback_context \<Rightarrow> instant \<Rightarrow> unit handler" where
  "cache_capability cf now payload c expiresAt = token_cache now payload
     \<lparr>cs_sessionId = cp_sid payload, cs_userId = pc_userId c, cs_deviceId = pc_deviceId c,
      cs_fingerprintHash = pc_fingerprintHash c, cs_mediaAssetId = pc_mediaAssetId c, cs_episodeId = pc_episodeId c,
      cs_expiresAt = expiresAt, cs_lastSeenAt = now, cs_requestCount = 0\<rparr> (cf_capabilityTtlSeconds cf)"

section \<open>Sessions\<close>

record playback_response =
  pb_sessionId :: string
  pb_token :: string
  pb_gatewayUrl :: string
  pb_expiresAt :: instant
  pb_mediaType :: media_type
  pb_isPremium :: bool
  pb_resumePositionSeconds :: int

text \<open>\<open>replace(/\/$/, '')\<close>: one slash at the end goes.\<close>

definition strip_slash :: "string \<Rightarrow> string" where
  "strip_slash u = (if u \<noteq> [] \<and> last u = CHR ''/'' then butlast u else u)"

definition playback_answer :: "config \<Rightarrow> string \<Rightarrow> string \<Rightarrow> instant \<Rightarrow> playback_context \<Rightarrow> int \<Rightarrow> playback_response" where
  "playback_answer cf sessionId token expiresAt c pos =
     \<lparr>pb_sessionId = sessionId, pb_token = token,
      pb_gatewayUrl = strip_slash (cf_mediaGatewayPublicUrl cf) @ ''/sessions/'' @ sessionId @ ''/manifest'',
      pb_expiresAt = expiresAt, pb_mediaType = pc_mediaType c, pb_isPremium = pc_isPremium c,
      pb_resumePositionSeconds = pos\<rparr>"

fun media_type_name :: "media_type \<Rightarrow> string" where
  "media_type_name MP4 = ''MP4''"
| "media_type_name HLS = ''HLS''"
| "media_type_name DASH = ''DASH''"
| "media_type_name Media_OTHER = ''OTHER''"

definition update_play :: "(playback_session \<Rightarrow> bool) \<Rightarrow> (playback_session \<Rightarrow> playback_session) \<Rightarrow> unit handler" where
  "update_play P f = modify (\<lambda>s. s\<lparr>playbackSessions := update_many P f (playbackSessions s)\<rparr>)"

definition update_play_history :: "(playback_history \<Rightarrow> bool) \<Rightarrow> (playback_history \<Rightarrow> playback_history) \<Rightarrow> unit handler" where
  "update_play_history P f = modify (\<lambda>s. s\<lparr>playbackHistories := update_many P f (playbackHistories s)\<rparr>)"

definition find_play :: "state \<Rightarrow> string \<Rightarrow> playback_session option" where
  "find_play s sid = find_first (\<lambda>x. ps_id x = sid) (playbackSessions s)"

definition rotate_session :: "config \<Rightarrow> platform \<Rightarrow> request \<Rightarrow> principal \<Rightarrow> string \<Rightarrow> playback_context \<Rightarrow> string
    \<Rightarrow> playback_response handler" where
  "rotate_session cf pf rq p sessionId c jti =
     and_then (gets (\<lambda>s. find_play s sessionId)) (\<lambda>current.
     and_then (expect current (Internal ''P2025'')) (\<lambda>current.
     and_then (issue_capability cf pf (rq_now rq) sessionId jti c) (\<lambda>issued.
     and_then (gets (\<lambda>s. \<forall>x\<in>set (playbackSessions s). ps_id x \<noteq> sessionId \<longrightarrow>
        ps_capabilityJti x \<noteq> jti \<and> ps_capabilityHash x \<noteq> hash_token pf (ic_token issued))) (\<lambda>free.
     and_then (require free (Internal ''P2002'')) (\<lambda>_.
     and_then (update_play (\<lambda>x. ps_id x = sessionId) (\<lambda>x. x\<lparr>ps_capabilityJti := jti,
       ps_capabilityHash := hash_token pf (ic_token issued), ps_deviceFingerprintHash := pc_fingerprintHash c,
       ps_expiresAt := ic_expiresAt issued, ps_lastSeenAt := rq_now rq, ps_ipAddress := rq_ip rq,
       ps_userAgent := take 512 (rq_userAgent rq)\<rparr>)) (\<lambda>_.
     and_then (token_revoke (ps_capabilityJti current)) (\<lambda>_.
     and_then (cache_capability cf (rq_now rq) (ic_payload issued) c (ic_expiresAt issued)) (\<lambda>_.
     and_then (audit_write (audit_input rq (Some (pr_id p)) ''playback.resumed'' ''playback_session'' (Some sessionId)
       SUCCESS [(''episodeId'', JStr (pc_episodeId c))])) (\<lambda>_.
     ret (playback_answer cf sessionId (ic_token issued) (ic_expiresAt issued) c (ps_lastPositionSeconds current)))))))))))"

text \<open>The session and the entry of the watch history are written together.\<close>

definition create_play :: "request \<Rightarrow> platform \<Rightarrow> string \<Rightarrow> string \<Rightarrow> playback_context \<Rightarrow> issued_capability \<Rightarrow> unit handler" where
  "create_play rq pf sessionId jti c issued =
     and_then (gets (\<lambda>s. \<forall>x\<in>set (playbackSessions s). ps_id x \<noteq> sessionId \<and> ps_capabilityJti x \<noteq> jti
        \<and> ps_capabilityHash x \<noteq> hash_token pf (ic_token issued))) (\<lambda>free.
     and_then (require free (Internal ''P2002'')) (\<lambda>_.
     and_then (modify (\<lambda>s. s\<lparr>playbackSessions := playbackSessions s @
       [\<lparr>ps_id = sessionId, ps_userId = pc_userId c, ps_episodeId = pc_episodeId c, ps_mediaAssetId = pc_mediaAssetId c,
         ps_trustedDeviceId = pc_trustedDeviceId c, ps_capabilityJti = jti,
         ps_capabilityHash = hash_token pf (ic_token issued), ps_deviceFingerprintHash = pc_fingerprintHash c,
         ps_ipAddress = rq_ip rq, ps_userAgent = take 512 (rq_userAgent rq), ps_status = Play_ACTIVE,
         ps_startedAt = rq_now rq, ps_lastSeenAt = rq_now rq, ps_expiresAt = ic_expiresAt issued, ps_closedAt = None,
         ps_revokedAt = None, ps_lastPositionSeconds = 0, ps_watchedSeconds = 0\<rparr>]\<rparr>)) (\<lambda>_.
     modify (\<lambda>s. s\<lparr>playbackHistories :=
       (if \<exists>h\<in>set (playbackHistories s). ph_userId h = pc_userId c \<and> ph_episodeId h = pc_episodeId c then
          update_many (\<lambda>h. ph_userId h = pc_userId c \<and> ph_episodeId h = pc_episodeId c)
            (\<lambda>h. h\<lparr>ph_playbackSessionId := sessionId, ph_startedAt := rq_now rq, ph_endedAt := None,
                   ph_updatedAt := rq_now rq\<rparr>) (playbackHistories s)
        else playbackHistories s @ [\<lparr>ph_userId = pc_userId c, ph_episodeId = pc_episodeId c,
          ph_playbackSessionId = sessionId, ph_startedAt = rq_now rq, ph_endedAt = None, ph_lastPositionSeconds = 0,
          ph_watchedSeconds = 0, ph_updatedAt = rq_now rq\<rparr>])\<rparr>))))"

definition start_authorized :: "config \<Rightarrow> platform \<Rightarrow> request \<Rightarrow> principal \<Rightarrow> string \<Rightarrow> playback_context \<Rightarrow> string \<Rightarrow> string
    \<Rightarrow> playback_response handler" where
  "start_authorized cf pf rq p episodeId c sessionId jti =
     and_then (gets (\<lambda>s. find_latest ps_startedAt (filter (\<lambda>x. play_live (rq_now rq) (pr_id p) x
       \<and> ps_episodeId x = episodeId \<and> ps_trustedDeviceId x = pc_trustedDeviceId c) (playbackSessions s)))) (\<lambda>existing.
     case existing of
       Some x \<Rightarrow> rotate_session cf pf rq p (ps_id x) c jti
     | None \<Rightarrow>
         and_then (issue_capability cf pf (rq_now rq) sessionId jti c) (\<lambda>issued.
         and_then (transaction (create_play rq pf sessionId jti c issued)) (\<lambda>_.
         and_then (cache_capability cf (rq_now rq) (ic_payload issued) c (ic_expiresAt issued)) (\<lambda>_.
         and_then (audit_write (with_client rq (audit_input rq (Some (pr_id p)) ''playback.started'' ''playback_session''
           (Some sessionId) SUCCESS [(''episodeId'', JStr episodeId), (''mediaType'', JStr (media_type_name (pc_mediaType c)))]))) (\<lambda>_.
         ret (playback_answer cf sessionId (ic_token issued) (ic_expiresAt issued) c 0))))))"

definition start_playback :: "config \<Rightarrow> platform \<Rightarrow> request \<Rightarrow> principal \<Rightarrow> string \<Rightarrow> device_dto \<Rightarrow> string \<Rightarrow> string
    \<Rightarrow> playback_response handler" where
  "start_playback cf pf rq p episodeId device sessionId jti =
     and_then (authorize cf pf rq p episodeId device False) (\<lambda>c.
     start_authorized cf pf rq p episodeId c sessionId jti)"

definition resume_playback :: "config \<Rightarrow> platform \<Rightarrow> request \<Rightarrow> principal \<Rightarrow> string \<Rightarrow> device_dto \<Rightarrow> string
    \<Rightarrow> playback_response handler" where
  "resume_playback cf pf rq p sessionId device jti =
     and_then (gets (\<lambda>s. find_first (\<lambda>x. ps_id x = sessionId \<and> play_live (rq_now rq) (pr_id p) x) (playbackSessions s))) (\<lambda>x.
     and_then (expect x (NotFound ''Playback session is unavailable'')) (\<lambda>x.
     and_then (authorize cf pf rq p (ps_episodeId x) device True) (\<lambda>c.
     and_then (require (pc_trustedDeviceId c = ps_trustedDeviceId x) (Forbidden ''Playback device mismatch'')) (\<lambda>_.
     and_then (rotate_session cf pf rq p (ps_id x) c jti) (\<lambda>r.
     ret (r\<lparr>pb_resumePositionSeconds := ps_lastPositionSeconds x\<rparr>))))))"

text \<open>The audit events of the security checks carry a fixed request id.\<close>

definition revoke_by_session :: "instant \<Rightarrow> string \<Rightarrow> string option \<Rightarrow> string \<Rightarrow> unit handler" where
  "revoke_by_session now sid uid reason =
     and_then (gets (\<lambda>s. find_first (\<lambda>x. ps_id x = sid \<and> given_eq (truthy uid) (ps_userId x)) (playbackSessions s))) (\<lambda>x.
     case x of
       None \<Rightarrow> ret ()
     | Some x \<Rightarrow>
         and_then (update_play (\<lambda>y. ps_id y = sid) (\<lambda>y. y\<lparr>
           ps_status := (if reason = ''expired'' then Play_EXPIRED else Play_REVOKED),
           ps_revokedAt := (if reason = ''expired'' then None else Some now)\<rparr>)) (\<lambda>_.
         and_then (token_revoke (ps_capabilityJti x)) (\<lambda>_.
         audit_write \<lparr>au_actorId = Some (ps_userId x), au_action = ''playback.'' @ reason,
           au_resource = ''playback_session'', au_resourceId = Some sid, au_outcome = DENIED,
           au_requestId = ''playback-security'', au_ipAddress = None, au_userAgent = None, au_metadata = [],
           au_createdAt = now\<rparr>)))"

definition security_event :: "request \<Rightarrow> string \<Rightarrow> string \<Rightarrow> string \<Rightarrow> unit handler" where
  "security_event rq actor sid reason = audit_write (audit_input rq (Some actor) ''playback.security_violation''
     ''playback_session'' (Some sid) DENIED [(''reason'', JStr reason)])"

definition expire_play :: "instant \<Rightarrow> string \<Rightarrow> unit handler" where
  "expire_play now sid =
     and_then (update_play (\<lambda>x. ps_id x = sid \<and> ps_status x = Play_ACTIVE \<and> ps_expiresAt x \<le> now)
       (\<lambda>x. x\<lparr>ps_status := Play_EXPIRED\<rparr>)) (\<lambda>_.
     and_then (update_play_history (\<lambda>h. ph_playbackSessionId h = sid \<and> ph_endedAt h = None)
       (\<lambda>h. h\<lparr>ph_endedAt := Some now, ph_updatedAt := now\<rparr>)) (\<lambda>_.
     revoke_by_session now sid None ''expired''))"

definition ceil_seconds :: "int \<Rightarrow> int" where
  "ceil_seconds ms = - ((- ms) div 1000)"

text \<open>The session that the presented capability, device and account select.\<close>

definition capability_session :: "platform \<Rightarrow> state \<Rightarrow> instant \<Rightarrow> string \<Rightarrow> string \<Rightarrow> string \<Rightarrow> string \<Rightarrow> device_dto
    \<Rightarrow> playback_session option" where
  "capability_session pf s now uid sid jti token device =
     find_first (\<lambda>x. ps_id x = sid \<and> ps_userId x = uid \<and> ps_capabilityJti x = jti
       \<and> ps_capabilityHash x = hash_token pf token \<and> ps_status x = Play_ACTIVE \<and> now < ps_expiresAt x
       \<and> (\<exists>d\<in>set (trustedDevices s). td_id d = ps_trustedDeviceId x \<and> td_status d = Device_ACTIVE
            \<and> td_deviceId d = dv_deviceId device
            \<and> td_fingerprintHash d = hash_fingerprint pf (dv_fingerprint device))) (playbackSessions s)"

definition media_available :: "state \<Rightarrow> string \<Rightarrow> bool" where
  "media_available s mid \<longleftrightarrow> (case find_first (\<lambda>m. ma_id m = mid) (mediaAssets s) of
     None \<Rightarrow> False | Some m \<Rightarrow> ma_status m = Media_ACTIVE \<and> ma_deletedAt m = None)"

text \<open>The last step of \<open>validateCapability\<close>: the recorded session is looked up and its use is noted.\<close>

definition touch_capability :: "platform \<Rightarrow> request \<Rightarrow> principal \<Rightarrow> string \<Rightarrow> string \<Rightarrow> device_dto
    \<Rightarrow> capability_payload \<Rightarrow> capability_state \<Rightarrow> playback_session handler" where
  "touch_capability pf rq p sid token device payload cached =
     and_then (gets (\<lambda>s. case capability_session pf s (rq_now rq) (pr_id p) sid (cp_jti payload) token device of
         None \<Rightarrow> None | Some x \<Rightarrow> if media_available s (ps_mediaAssetId x) then Some x else None)) (\<lambda>session.
     case session of
       None \<Rightarrow> and_then (security_event rq (pr_id p) sid ''capability_session_invalid'') (\<lambda>_.
         throw (Unauthorized ''Playback session is no longer valid''))
     | Some x \<Rightarrow>
         let remaining = max 1 (ceil_seconds (cs_expiresAt cached - rq_now rq)) in
         and_then (token_cache (rq_now rq) payload (cached\<lparr>cs_lastSeenAt := rq_now rq,
           cs_requestCount := cs_requestCount cached + 1\<rparr>) remaining) (\<lambda>_.
         and_then (update_play (\<lambda>y. ps_id y = sid) (\<lambda>y. y\<lparr>ps_lastSeenAt := rq_now rq\<rparr>)) (\<lambda>_.
         ret x)))"

definition validate_capability :: "config \<Rightarrow> platform \<Rightarrow> request \<Rightarrow> principal \<Rightarrow> string \<Rightarrow> string \<Rightarrow> device_dto
    \<Rightarrow> playback_session handler" where
  "validate_capability cf pf rq p sid token device =
     and_then (token_verify pf (rq_now rq) token) (\<lambda>payload.
     and_then (require (cp_sid payload = sid \<and> cp_uid payload = pr_id p \<and> cp_did payload = dv_deviceId device)
       (Unauthorized ''Playback capability does not match this session'')) (\<lambda>_.
     and_then (token_cached (rq_now rq) (cp_jti payload)) (\<lambda>cached.
     case (case cached of None \<Rightarrow> None
           | Some c \<Rightarrow> if cs_sessionId c = sid \<and> cs_userId c = pr_id p then Some c else None) of
       None \<Rightarrow> and_then (security_event rq (pr_id p) sid ''capability_replay_or_expiry'') (\<lambda>_.
         throw (Unauthorized ''Playback capability has expired or was revoked''))
     | Some cached \<Rightarrow>
         let fph = hash_fingerprint pf (dv_fingerprint device) in
         if cp_fp payload \<noteq> fph \<or> cs_fingerprintHash cached \<noteq> fph then
           and_then (revoke_by_session (rq_now rq) sid (Some (pr_id p)) ''device_mismatch'') (\<lambda>_.
           throw (Unauthorized ''Playback device validation failed''))
         else
           and_then (authorize cf pf rq p (cp_eid payload) device True) (\<lambda>policy.
           if pc_mediaAssetId policy \<noteq> cp_mid payload \<or> pc_episodeId policy \<noteq> cp_eid payload then
             and_then (revoke_by_session (rq_now rq) sid (Some (pr_id p)) ''capability_scope_mismatch'') (\<lambda>_.
             throw (Unauthorized ''Playback capability scope is invalid''))
           else touch_capability pf rq p sid token device payload cached))))"

text \<open>The gateway presents the account named by the token, without roles.\<close>

definition validate_gateway_capability :: "config \<Rightarrow> platform \<Rightarrow> request \<Rightarrow> string \<Rightarrow> string \<Rightarrow> device_dto
    \<Rightarrow> playback_session handler" where
  "validate_gateway_capability cf pf rq sid token device =
     and_then (token_verify pf (rq_now rq) token) (\<lambda>payload.
     and_then (gets (\<lambda>s. find_first (\<lambda>u. u_id u = cp_uid payload \<and> u_status u = User_ACTIVE \<and> u_deletedAt u = None) (users s))) (\<lambda>u.
     and_then (expect u (Unauthorized ''Playback account is unavailable'')) (\<lambda>u.
     validate_capability cf pf rq \<lparr>pr_id = u_id u, pr_sessionId = ''gateway'', pr_roles = [], pr_permissions = [],
       pr_status = u_status u\<rparr> sid token device)))"

record heartbeat_result =
  hr_sessionId :: string
  hr_status :: playback_status
  hr_lastPositionSeconds :: int
  hr_expiresAt :: instant

definition watched_delta :: "int \<Rightarrow> int \<Rightarrow> int" where
  "watched_delta pos lastPos = min 60 (max 0 (pos - lastPos))"

definition heartbeat :: "config \<Rightarrow> platform \<Rightarrow> request \<Rightarrow> principal \<Rightarrow> string \<Rightarrow> string \<Rightarrow> device_dto \<Rightarrow> int
    \<Rightarrow> int option \<Rightarrow> heartbeat_result handler" where
  "heartbeat cf pf rq p sid token device pos buffered =
     and_then (validate_capability cf pf rq p sid token device) (\<lambda>session.
     let delta = watched_delta pos (ps_lastPositionSeconds session) in
     and_then (transaction
       (and_then (update_play (\<lambda>x. ps_id x = sid) (\<lambda>x. x\<lparr>ps_lastSeenAt := rq_now rq, ps_lastPositionSeconds := pos,
          ps_watchedSeconds := ps_watchedSeconds x + delta\<rparr>)) (\<lambda>_.
        and_then (gets (\<lambda>s. find_play s sid)) (\<lambda>updated.
        and_then (modify (\<lambda>s. s\<lparr>playbackHeartbeats := playbackHeartbeats s @ [\<lparr>hb_playbackSessionId = sid,
          hb_positionSeconds = pos, hb_bufferedSeconds = buffered, hb_createdAt = rq_now rq\<rparr>]\<rparr>)) (\<lambda>_.
        and_then (update_play_history (\<lambda>h. ph_playbackSessionId h = sid) (\<lambda>h. h\<lparr>ph_lastPositionSeconds := pos,
          ph_watchedSeconds := ph_watchedSeconds h + delta, ph_updatedAt := rq_now rq\<rparr>)) (\<lambda>_.
        expect updated (Internal ''P2025''))))))) (\<lambda>x.
     ret \<lparr>hr_sessionId = ps_id x, hr_status = ps_status x, hr_lastPositionSeconds = ps_lastPositionSeconds x,
       hr_expiresAt = ps_expiresAt x\<rparr>))"

definition stop_playback :: "config \<Rightarrow> platform \<Rightarrow> request \<Rightarrow> principal \<Rightarrow> string \<Rightarrow> string \<Rightarrow> device_dto \<Rightarrow> unit handler" where
  "stop_playback cf pf rq p sid token device =
     (let mine = (\<lambda>x. ps_id x = sid \<and> ps_userId x = pr_id p \<and> ps_status x = Play_ACTIVE) in
      and_then (validate_capability cf pf rq p sid token device) (\<lambda>_.
      and_then (transaction
        (and_then (gets (\<lambda>s. count_where mine (playbackSessions s))) (\<lambda>count.
         and_then (update_play mine (\<lambda>x. x\<lparr>ps_status := Play_CLOSED, ps_closedAt := Some (rq_now rq),
           ps_lastSeenAt := rq_now rq\<rparr>)) (\<lambda>_.
         and_then (update_play_history (\<lambda>h. ph_playbackSessionId h = sid) (\<lambda>h. h\<lparr>ph_endedAt := Some (rq_now rq),
           ph_updatedAt := rq_now rq\<rparr>)) (\<lambda>_. ret count))))) (\<lambda>count.
      and_then (gets (\<lambda>s. find_play s sid)) (\<lambda>x.
      and_then (case x of None \<Rightarrow> ret () | Some x \<Rightarrow> token_revoke (ps_capabilityJti x)) (\<lambda>_.
      audit_write (audit_input rq (Some (pr_id p)) ''playback.ended'' ''playback_session'' (Some sid)
        (if count \<noteq> 0 then SUCCESS else DENIED) []))))))"

definition playback_status_of :: "request \<Rightarrow> principal \<Rightarrow> string \<Rightarrow> playback_session handler" where
  "playback_status_of rq p sid =
     and_then (gets (\<lambda>s. find_first (\<lambda>x. ps_id x = sid \<and> ps_userId x = pr_id p) (playbackSessions s))) (\<lambda>x.
     and_then (expect x (NotFound ''Playback session not found'')) (\<lambda>x.
     if ps_status x = Play_ACTIVE \<and> ps_expiresAt x \<le> rq_now rq then
       and_then (expire_play (rq_now rq) (ps_id x)) (\<lambda>_. ret (x\<lparr>ps_status := Play_EXPIRED\<rparr>))
     else ret x))"

definition history_query :: "page_query \<Rightarrow> string option \<Rightarrow> principal \<Rightarrow> (playback_history \<Rightarrow> bool)
    \<Rightarrow> (playback_history \<times> episode option) page handler" where
  "history_query q episodeId p extra = gets (\<lambda>s. list_page q
     (map (\<lambda>h. (h, find_first (\<lambda>e. ep_id e = ph_episodeId h) (episodes s)))
       (order_desc ph_updatedAt (filter (\<lambda>h. ph_userId h = pr_id p \<and> given_eq (truthy episodeId) (ph_episodeId h)
         \<and> extra h) (playbackHistories s)))))"

definition playback_history_of :: "page_query \<Rightarrow> string option \<Rightarrow> principal
    \<Rightarrow> (playback_history \<times> episode option) page handler" where
  "playback_history_of q e p = history_query q e p (\<lambda>_. True)"

definition continue_watching :: "page_query \<Rightarrow> string option \<Rightarrow> principal
    \<Rightarrow> (playback_history \<times> episode option) page handler" where
  "continue_watching q e p = history_query q e p (\<lambda>h. 0 < ph_lastPositionSeconds h)"

definition recent_playback :: "page_query \<Rightarrow> string option \<Rightarrow> principal
    \<Rightarrow> (playback_history \<times> episode option) page handler" where
  "recent_playback q e p = history_query q e p (\<lambda>_. True)"

section \<open>What authorisation decides\<close>

lemma denied_apply [simp]: "\<exists>es. denied r now a e why s = (Inr (), s\<lparr>auditEvents := es\<rparr>)"
  by (auto simp: denied_def)

lemma and_then_denied_throw [simp]:
  "and_then (denied r now a e why) (\<lambda>_. throw x) s = (Inr y, s') \<longleftrightarrow> False"
  by (simp add: denied_def)

definition usable_media :: "media_asset \<Rightarrow> bool" where
  "usable_media m \<longleftrightarrow> ma_deletedAt m = None \<and> ma_status m = Media_ACTIVE"

definition other_sessions :: "state \<Rightarrow> instant \<Rightarrow> string \<Rightarrow> string \<Rightarrow> string \<Rightarrow> nat" where
  "other_sessions s now uid eid tdid = count_where (\<lambda>x. play_live now uid x
     \<and> \<not> (ps_episodeId x = eid \<and> ps_trustedDeviceId x = tdid)) (playbackSessions s)"

lemma authorize_Inr:
  "authorize cf pf rq p eid dev existing s = (Inr c, s') \<longleftrightarrow> s' = s \<and> pr_status p = User_ACTIVE \<and>
     (\<exists>ep m td. playable_episode s eid = Some ep \<and> media_of s (ep_id ep) = Some m \<and> usable_media m
        \<and> (ep_isPremium ep \<longrightarrow> entitled s (pr_id p) (rq_now rq) \<or> may_access s (rq_now rq) eid (pr_id p))
        \<and> device_of s (pr_id p) (dv_deviceId dev) = Some td \<and> td_status td = Device_ACTIVE
        \<and> td_fingerprintHash td = hash_fingerprint pf (dv_fingerprint dev)
        \<and> (existing \<or> other_sessions s (rq_now rq) (pr_id p) eid (td_id td) < cf_maxConcurrentPlayback cf)
        \<and> c = \<lparr>pc_userId = pr_id p, pc_episodeId = ep_id ep, pc_mediaAssetId = ma_id m, pc_mediaType = ma_mediaType m,
              pc_encryptedLocator = ma_encryptedLocator m, pc_isPremium = ep_isPremium ep, pc_trustedDeviceId = td_id td,
              pc_fingerprintHash = hash_fingerprint pf (dv_fingerprint dev), pc_deviceId = dv_deviceId dev\<rparr>)"
  (is "?run \<longleftrightarrow> ?spec")
proof (cases "pr_status p = User_ACTIVE")
  case False
  then show ?thesis by (simp add: authorize_def Let_def)
next
  case act: True
  show ?thesis
  proof (cases "playable_episode s eid")
    case None
    then show ?thesis by (simp add: authorize_def Let_def)
  next
    case ep: (Some ep)
    show ?thesis
    proof (cases "media_of s (ep_id ep)")
      case None
      with ep show ?thesis by (simp add: authorize_def Let_def)
    next
      case m: (Some m)
      show ?thesis
      proof (cases "usable_media m")
        case False
        with ep m show ?thesis by (auto simp: authorize_def Let_def usable_media_def)
      next
        case True
        with act ep m show ?thesis
          by (auto simp: authorize_def Let_def usable_media_def and_then_if and_then_assoc sub.and_then_decide
              acc.and_then_decide other_sessions_def denied_def
              simp del: not_None_eq split: option.split if_splits)
      qed
    qed
  qed
qed

text \<open>The specification over the rows: the episode is public, its media is usable, it is free or the account is entitled to it, and the device is a trusted one with this fingerprint.\<close>

definition may_play :: "platform \<Rightarrow> state \<Rightarrow> instant \<Rightarrow> principal \<Rightarrow> string \<Rightarrow> device_dto \<Rightarrow> bool" where
  "may_play pf s now p eid dev \<longleftrightarrow> pr_status p = User_ACTIVE
     \<and> (\<exists>ep\<in>set (episodes s). ep_id ep = eid \<and> ep_deletedAt ep = None \<and> ep_isPublished ep \<and> ep_status ep = PUBLISHED
          \<and> ep_visibility ep = PUBLIC \<and> season_visible s (ep_seasonId ep)
          \<and> (ep_isPremium ep \<longrightarrow> entitled s (pr_id p) now \<or> may_access s now eid (pr_id p)))
     \<and> (\<exists>m\<in>set (mediaAssets s). ma_episodeId m = eid \<and> usable_media m)
     \<and> (\<exists>d\<in>set (trustedDevices s). is_device (pr_id p) (dv_deviceId dev) d \<and> td_status d = Device_ACTIVE
          \<and> td_fingerprintHash d = hash_fingerprint pf (dv_fingerprint dev))"

text \<open>The unique keys of episodes, media assets and trusted devices.\<close>

definition play_wf :: "state \<Rightarrow> bool" where
  "play_wf s \<longleftrightarrow> distinct (map ep_id (episodes s)) \<and> distinct (map ma_episodeId (mediaAssets s))
     \<and> distinct (map (\<lambda>d. (td_userId d, td_deviceId d)) (trustedDevices s))"

lemma playable_episode_iff:
  assumes "play_wf s"
  shows "playable_episode s eid = Some ep \<longleftrightarrow> ep \<in> set (episodes s) \<and> ep_id ep = eid \<and> ep_deletedAt ep = None
     \<and> ep_isPublished ep \<and> ep_status ep = PUBLISHED \<and> ep_visibility ep = PUBLIC \<and> season_visible s (ep_seasonId ep)"
  unfolding playable_episode_def
  by (rule iffI, drule find_first_Some, simp, rule find_first_key [where k = ep_id])
    (use assms in \<open>auto simp: play_wf_def\<close>)

lemma media_of_iff:
  assumes "play_wf s"
  shows "media_of s eid = Some m \<longleftrightarrow> m \<in> set (mediaAssets s) \<and> ma_episodeId m = eid"
  unfolding media_of_def
  by (rule iffI, drule find_first_Some, simp, rule find_first_key [where k = ma_episodeId])
    (use assms in \<open>auto simp: play_wf_def\<close>)

lemma device_of_iff:
  assumes "play_wf s"
  shows "device_of s uid did = Some d \<longleftrightarrow> d \<in> set (trustedDevices s) \<and> is_device uid did d"
  unfolding device_of_def
  by (rule iffI, drule find_first_Some, simp, rule find_first_key [where k = "\<lambda>d. (td_userId d, td_deviceId d)"])
    (use assms in \<open>auto simp: play_wf_def is_device_def\<close>)

lemma authorize_decides:
  assumes wf: "play_wf s"
  shows "((\<exists>c. authorize cf pf rq p eid dev True s = (Inr c, s)) \<longleftrightarrow> may_play pf s (rq_now rq) p eid dev)
    \<and> ((\<exists>c. authorize cf pf rq p eid dev False s = (Inr c, s)) \<longleftrightarrow> may_play pf s (rq_now rq) p eid dev
       \<and> (\<exists>d\<in>set (trustedDevices s). is_device (pr_id p) (dv_deviceId dev) d
            \<and> other_sessions s (rq_now rq) (pr_id p) eid (td_id d) < cf_maxConcurrentPlayback cf))"
proof -
  have uniq: "d = d'" if "d \<in> set (trustedDevices s)" "d' \<in> set (trustedDevices s)"
    "is_device (pr_id p) (dv_deviceId dev) d" "is_device (pr_id p) (dv_deviceId dev) d'" for d d'
    using device_of_iff [OF wf] that by (metis option.inject)
  show ?thesis
    unfolding authorize_Inr may_play_def playable_episode_iff [OF wf] media_of_iff [OF wf] device_of_iff [OF wf]
    using uniq by (intro conjI iffI) (blast | fastforce)+
qed

text \<open>
  C1. Playback is authorised exactly when it may be: with an existing session, authorisation succeeds if and
  only if the account is active, the episode is published and public under a season and a published drama that
  are not deleted, its media is usable, it is free or the account has an active subscription window or an open
  grant, and the device is an active trusted device with the presented fingerprint; for a new session, also if
  and only if the account has fewer live sessions elsewhere than the configured maximum. A success writes nothing.
\<close>

theorem authorize_correct:
  assumes wf: "play_wf s"
  shows "((\<exists>c. authorize cf pf rq p eid dev True s = (Inr c, s)) \<longleftrightarrow> may_play pf s (rq_now rq) p eid dev)
    \<and> ((\<exists>c. authorize cf pf rq p eid dev False s = (Inr c, s)) \<longleftrightarrow> may_play pf s (rq_now rq) p eid dev
       \<and> (\<exists>d\<in>set (trustedDevices s). is_device (pr_id p) (dv_deviceId dev) d
            \<and> other_sessions s (rq_now rq) (pr_id p) eid (td_id d) < cf_maxConcurrentPlayback cf))"
  using assms by (rule authorize_decides)

definition demo_drama :: drama where
  "demo_drama = \<lparr>dr_id = ''dr1'', dr_name = ''Drama'', dr_slug = ''drama'', dr_dramaNumber = None, dr_totalSeasons = 1,
     dr_description = None, dr_thumbnailKey = None, dr_isPublished = True, dr_createdAt = 0, dr_deletedAt = None\<rparr>"

definition demo_season :: season where
  "demo_season = \<lparr>se_id = ''se1'', se_dramaId = ''dr1'', se_seasonNumber = 1, se_title = None, se_totalEpisodes = 1,
     se_thumbnailKey = None, se_createdAt = 0, se_deletedAt = None\<rparr>"

definition demo_episode :: episode where
  "demo_episode = \<lparr>ep_id = ''e1'', ep_seasonId = ''se1'', ep_episodeNumber = 1, ep_title = None, ep_description = None,
     ep_thumbnailKey = None, ep_isPublished = True, ep_status = PUBLISHED, ep_visibility = PUBLIC, ep_isPremium = True,
     ep_downloadAccess = NEVER, ep_createdAt = 0, ep_deletedAt = None\<rparr>"

definition demo_media :: media_asset where
  "demo_media = \<lparr>ma_id = ''m1'', ma_episodeId = ''e1'', ma_kind = HLS, ma_mediaType = HLS, ma_provider = ''r2'',
     ma_encryptedLocator = ''x'', ma_checksum = None, ma_status = Media_ACTIVE, ma_metadata = None, ma_version = 1,
     ma_durationSeconds = None, ma_sizeBytes = None, ma_createdAt = 0, ma_rotatedAt = None, ma_deletedAt = None\<rparr>"

definition demo_device :: trusted_device where
  "demo_device = \<lparr>td_id = ''td1'', td_userId = ''u1'', td_deviceId = ''d1'', td_deviceName = None,
     td_fingerprintHash = ''#fp'', td_status = Device_ACTIVE, td_lastSeenAt = 0, td_revokedAt = None, td_createdAt = 0\<rparr>"

definition demo_dto :: device_dto where
  "demo_dto = \<lparr>dv_deviceId = ''d1'', dv_fingerprint = '' fp ''\<rparr>"

definition play_demo :: state where
  "play_demo = access_demo\<lparr>dramas := [demo_drama], seasons := [demo_season], episodes := [demo_episode],
     mediaAssets := [demo_media], trustedDevices := [demo_device]\<rparr>"

lemma play_demo_wf: "play_wf play_demo"
  by (simp add: play_wf_def play_demo_def)

lemma play_demo_may: "may_play demo_platform play_demo 5000 me ''e1'' demo_dto"
proof -
  have "hash_fingerprint demo_platform '' fp '' = ''#fp''" by code_simp
  then show ?thesis
    by (simp add: may_play_def play_demo_def access_demo_def me_def demo_episode_def demo_media_def demo_device_def
        demo_dto_def season_visible_def demo_season_def demo_drama_def usable_media_def is_device_def may_access_def
        grants_access_def open_grant_def within_def demo_grant_def)
qed

theorem authorize_correct_witness:
  "\<exists>c. authorize demo_config demo_platform demo_request me ''e1'' demo_dto True play_demo = (Inr c, play_demo)"
  using authorize_correct [OF play_demo_wf, of demo_config demo_platform demo_request me "''e1''" demo_dto] play_demo_may
  by (simp add: demo_request_def)

section \<open>The end of a session is final\<close>

definition play_ended :: "string \<Rightarrow> state \<Rightarrow> bool" where
  "play_ended sid s \<longleftrightarrow> sid \<in> ps_id ` set (playbackSessions s) \<and>
     (\<forall>x\<in>set (playbackSessions s). ps_id x = sid \<longrightarrow> ps_status x \<noteq> Play_ACTIVE)"

named_theorems play_keeps "play_ended is kept by the building blocks"

lemma play_ended_other [simp]:
  "play_ended sid (s\<lparr>auditEvents := a\<rparr>) = play_ended sid s"
  "play_ended sid (s\<lparr>redis := b\<rparr>) = play_ended sid s"
  "play_ended sid (s\<lparr>playbackHistories := c\<rparr>) = play_ended sid s"
  "play_ended sid (s\<lparr>playbackHeartbeats := d\<rparr>) = play_ended sid s"
  "play_ended sid (s\<lparr>trustedDevices := e\<rparr>) = play_ended sid s"
  by (simp_all add: play_ended_def)

lemma play_ended_update:
  assumes e: "play_ended sid s" and f: "\<And>x. ps_id (f x) = ps_id x"
    and st: "\<And>x. P x \<Longrightarrow> ps_status x \<noteq> Play_ACTIVE \<Longrightarrow> ps_status (f x) \<noteq> Play_ACTIVE"
  shows "play_ended sid (s\<lparr>playbackSessions := update_many P f (playbackSessions s)\<rparr>)"
proof -
  have "ps_id ` set (update_many P f (playbackSessions s)) = ps_id ` set (playbackSessions s)"
    using map_update_many [of P ps_id f "playbackSessions s"] f by (metis image_set)
  with assms show ?thesis by (auto simp: play_ended_def ball_update_many)
qed

lemma keeps_update_play [play_keeps]:
  assumes "\<And>x. ps_id (f x) = ps_id x"
    and "\<And>x. P x \<Longrightarrow> ps_status x \<noteq> Play_ACTIVE \<Longrightarrow> ps_status (f x) \<noteq> Play_ACTIVE"
  shows "keeps (play_ended sid) (update_play P f)"
  using assms by (auto simp: keeps_def update_play_def intro!: play_ended_update)

lemma keeps_play_blocks [play_keeps]:
  "keeps (play_ended sid) (update_play_history Q g)"
  "keeps (play_ended sid) (denied r now a e why)"
  "keeps (play_ended sid) (security_event rq a x why)"
  "keeps (play_ended sid) (audit_write ev)"
  "keeps (play_ended sid) (set_json now k v ttl)"
  "keeps (play_ended sid) (delete_key k)"
  "keeps (play_ended sid) (get_json now k)"
  "keeps (play_ended sid) (subscription_active now uid ep)"
  "keeps (play_ended sid) (grant_allowed now uid ep)"
  by (auto simp: keeps_def update_play_history_def denied_def security_event_def sub.decides acc.decides)

lemma keeps_add_heartbeat [play_keeps]:
  "keeps (play_ended sid) (modify (\<lambda>s. s\<lparr>playbackHeartbeats := h s\<rparr>))"
  by (auto simp: keeps_def)

lemma keeps_create_play [play_keeps]: "keeps (play_ended sid) (create_play rq pf i j c issued)"
proof (rule keepsI)
  fix s assume "play_ended sid s"
  then show "play_ended sid (snd (create_play rq pf i j c issued s))"
    by (auto simp: create_play_def play_ended_def split: if_splits)
qed

lemma keeps_play_helpers [play_keeps]:
  "keeps (play_ended sid) (token_verify pf now tok)"
  "keeps (play_ended sid) (token_cache now pl st ttl)"
  "keeps (play_ended sid) (token_cached now jti)"
  "keeps (play_ended sid) (token_revoke jti)"
  "keeps (play_ended sid) (issue_capability cf pf now i j c)"
  "keeps (play_ended sid) (cache_capability cf now pl c e)"
  unfolding token_cache_def token_cached_def token_revoke_def issue_capability_def cache_capability_def token_verify_def Let_def
  by (intro keeps_rules play_keeps)+

lemma keeps_authorize [play_keeps]: "keeps (play_ended sid) (authorize cf pf rq p e dev ex)"
  unfolding authorize_def Let_def by (intro keeps_rules play_keeps)

lemma keeps_rotate [play_keeps]: "keeps (play_ended sid) (rotate_session cf pf rq p i c j)"
  unfolding rotate_session_def by (intro keeps_rules play_keeps) simp_all

lemma keeps_start_authorized [play_keeps]: "keeps (play_ended sid) (start_authorized cf pf rq p e c i j)"
  unfolding start_authorized_def by (intro keeps_rules play_keeps)

lemma keeps_start [play_keeps]:
  "keeps (play_ended sid) (start_playback cf pf rq p e dev i j)"
  "keeps (play_ended sid) (resume_playback cf pf rq p i dev j)"
  unfolding start_playback_def resume_playback_def by (intro keeps_rules play_keeps)+

lemma keeps_revoke_by_session [play_keeps]: "keeps (play_ended sid) (revoke_by_session now i u why)"
  unfolding revoke_by_session_def by (intro keeps_rules play_keeps) simp_all

lemma keeps_validate_capability [play_keeps]: "keeps (play_ended sid) (validate_capability cf pf rq p i tok dev)"
  unfolding validate_capability_def touch_capability_def Let_def by (intro keeps_rules play_keeps) simp_all

lemma keeps_session_requests [play_keeps]:
  "keeps (play_ended sid) (validate_gateway_capability cf pf rq i tok dev)"
  "keeps (play_ended sid) (heartbeat cf pf rq p i tok dev pos buf)"
  "keeps (play_ended sid) (stop_playback cf pf rq p i tok dev)"
  "keeps (play_ended sid) (playback_status_of rq p i)"
  unfolding validate_gateway_capability_def heartbeat_def stop_playback_def playback_status_of_def expire_play_def Let_def
  by ((intro keeps_rules play_keeps; simp?)+)

lemma keeps_revoke_device_play [play_keeps]: "keeps (play_ended sid) (revoke_device rq p d)"
  unfolding revoke_device_def Let_def by (intro keeps_rules) (simp_all add: play_ended_update)

text \<open>One request that touches playback sessions; a start may be split around other requests.\<close>

inductive play_step :: "config \<Rightarrow> platform \<Rightarrow> state \<Rightarrow> state \<Rightarrow> bool" for cf :: config and pf :: platform where
  started: "start_playback cf pf rq p e dev i j s = (r1, s') \<Longrightarrow> play_step cf pf s s'"
| started_later: "start_authorized cf pf rq p e c i j s = (r1, s') \<Longrightarrow> play_step cf pf s s'"
| resumed: "resume_playback cf pf rq p i dev j s = (r1, s') \<Longrightarrow> play_step cf pf s s'"
| beaten: "heartbeat cf pf rq p i tok dev pos buf s = (r2, s') \<Longrightarrow> play_step cf pf s s'"
| stopped: "stop_playback cf pf rq p i tok dev s = (r3, s') \<Longrightarrow> play_step cf pf s s'"
| asked: "playback_status_of rq p i s = (r4, s') \<Longrightarrow> play_step cf pf s s'"
| validated: "validate_capability cf pf rq p i tok dev s = (r4, s') \<Longrightarrow> play_step cf pf s s'"
| served: "validate_gateway_capability cf pf rq i tok dev s = (r4, s') \<Longrightarrow> play_step cf pf s s'"
| device_revoked: "revoke_device rq p d s = (r3, s') \<Longrightarrow> play_step cf pf s s'"
| registered: "register_device cf pf rq p d fp dn dt nid s = (r5, s') \<Longrightarrow> play_step cf pf s s'"

lemma keeps_register_device_play [play_keeps]: "keeps (play_ended sid) (register_device cf pf rq p d fp dn dt nid)"
  unfolding register_device_def Let_def
  by (intro keeps_rules) (simp_all add: play_ended_def)

lemma play_step_ended: "play_step cf pf s s' \<Longrightarrow> play_ended sid s \<Longrightarrow> play_ended sid s'"
  by (induction rule: play_step.induct) (blast intro: keepsD play_keeps)+

lemma play_steps_ended: "(play_step cf pf)\<^sup>*\<^sup>* s s' \<Longrightarrow> play_ended sid s \<Longrightarrow> play_ended sid s'"
  by (induction rule: rtranclp_induct) (auto dest: play_step_ended)

text \<open>What a successful validation read.\<close>

lemma capability_session_Some:
  "capability_session pf s now uid sid jti tok dev = Some x \<Longrightarrow>
     x \<in> set (playbackSessions s) \<and> ps_id x = sid \<and> ps_userId x = uid \<and> ps_capabilityJti x = jti
     \<and> ps_capabilityHash x = hash_token pf tok \<and> ps_status x = Play_ACTIVE \<and> now < ps_expiresAt x
     \<and> (\<exists>d\<in>set (trustedDevices s). td_id d = ps_trustedDeviceId x \<and> td_status d = Device_ACTIVE
          \<and> td_deviceId d = dv_deviceId dev \<and> td_fingerprintHash d = hash_fingerprint pf (dv_fingerprint dev))"
  unfolding capability_session_def by (drule find_first_Some) auto

lemma token_verify_Inr:
  "token_verify pf now tok s = (Inr pl, s') \<longleftrightarrow> s' = s \<and> pf_verifyPlayback pf tok now = Some pl \<and> payload_ok pl"
  by (auto simp: token_verify_def split: option.split)

lemma token_cached_Inr:
  "token_cached now jti s = (Inr c, s') \<longleftrightarrow> s' = s \<and> redis_ready s
     \<and> c = (case redis_read (redis s) now (cache_key jti) of Some (R_capability c) \<Rightarrow> Some c | _ \<Rightarrow> None)"
  by (auto simp: token_cached_def and_then_def split: if_splits)

definition cached_capability :: "state \<Rightarrow> instant \<Rightarrow> string \<Rightarrow> capability_state option" where
  "cached_capability s now jti =
     (case redis_read (redis s) now (cache_key jti) of Some (R_capability c) \<Rightarrow> Some c | _ \<Rightarrow> None)"

lemma touch_capability_Inr:
  "touch_capability pf rq p sid tok dev pl c s = (Inr x, s') \<Longrightarrow>
     capability_session pf s (rq_now rq) (pr_id p) sid (cp_jti pl) tok dev = Some x
     \<and> media_available s (ps_mediaAssetId x)
     \<and> (\<exists>m. s' = s\<lparr>redis := m, playbackSessions := update_many (\<lambda>y. ps_id y = sid)
           (\<lambda>y. y\<lparr>ps_lastSeenAt := rq_now rq\<rparr>) (playbackSessions s)\<rparr>)"
  by (auto simp: touch_capability_def Let_def token_cache_def update_play_def and_then_Inr split: option.splits if_splits)

lemma authorize_state: "authorize cf pf rq p e dev ex s = (Inr c, s') \<Longrightarrow> s' = s"
  by (simp add: authorize_Inr)

lemma validate_capability_Inr:
  assumes "validate_capability cf pf rq p sid tok dev s = (Inr x, s')"
  shows "\<exists>pl c pol. pf_verifyPlayback pf tok (rq_now rq) = Some pl \<and> payload_ok pl
     \<and> cp_sid pl = sid \<and> cp_uid pl = pr_id p \<and> cp_did pl = dv_deviceId dev
     \<and> redis_ready s \<and> cached_capability s (rq_now rq) (cp_jti pl) = Some c \<and> cs_sessionId c = sid \<and> cs_userId c = pr_id p
     \<and> cp_fp pl = hash_fingerprint pf (dv_fingerprint dev) \<and> cs_fingerprintHash c = cp_fp pl
     \<and> authorize cf pf rq p (cp_eid pl) dev True s = (Inr pol, s) \<and> pc_mediaAssetId pol = cp_mid pl
     \<and> capability_session pf s (rq_now rq) (pr_id p) sid (cp_jti pl) tok dev = Some x
     \<and> media_available s (ps_mediaAssetId x)
     \<and> (\<exists>m. s' = s\<lparr>redis := m, playbackSessions := update_many (\<lambda>y. ps_id y = sid)
           (\<lambda>y. y\<lparr>ps_lastSeenAt := rq_now rq\<rparr>) (playbackSessions s)\<rparr>)"
  using assms
  by (fastforce simp: validate_capability_def and_then_Inr token_verify_Inr token_cached_Inr cached_capability_def Let_def
      split: if_splits option.splits dest: authorize_state dest!: touch_capability_Inr)

lemma validate_needs_active:
  assumes "validate_capability cf pf rq p sid tok dev s = (Inr x, s')"
  shows "\<not> play_ended sid s"
proof -
  from validate_capability_Inr [OF assms] obtain j where
    "capability_session pf s (rq_now rq) (pr_id p) sid j tok dev = Some x" by blast
  from capability_session_Some [OF this] show ?thesis by (auto simp: play_ended_def)
qed

text \<open>
  C29. The end of a playback session is final: once a session is closed, expired or revoked, then whatever
  starts, resumptions, heartbeats, stops, status queries, capability checks, device revocations and device
  registrations follow, no capability for it is accepted any more and it cannot be resumed.
\<close>

theorem play_session_end_final:
  assumes "play_ended sid s" and "(play_step cf pf)\<^sup>*\<^sup>* s s'"
  shows "isl (fst (validate_capability cf pf rq p sid tok dev s')) \<and> isl (fst (resume_playback cf pf rq p sid dev j s'))"
proof -
  have e: "play_ended sid s'" using play_steps_ended [OF assms(2,1)] .
  have "isl (fst (validate_capability cf pf rq p sid tok dev s'))"
    using validate_needs_active e prog_result [of "validate_capability cf pf rq p sid tok dev" s'] by blast
  moreover have "find_first (\<lambda>x. ps_id x = sid \<and> play_live (rq_now rq) (pr_id p) x) (playbackSessions s') = None"
    using e by (auto simp: play_ended_def play_live_def)
  then have "isl (fst (resume_playback cf pf rq p sid dev j s'))"
    by (simp add: resume_playback_def del: find_first_None)
  ultimately show ?thesis ..
qed

section \<open>What an accepted capability means\<close>

text \<open>
  C2. An accepted capability is a current right to watch: the token verifies at that instant and names this
  session, account and device; its copy is still in Redis; the recorded session is active, not expired, and
  holds exactly this token's id and hash and the trusted device of the request, which is still active with the
  same fingerprint; and the account may play that episode at that instant, so a token outlives neither the
  subscription or grant, nor the publication of the episode, nor the trust in the device.
\<close>

theorem capability_sound:
  assumes wf: "play_wf s" and ok: "validate_capability cf pf rq p sid tok dev s = (Inr x, s')"
  shows "\<exists>pl. pf_verifyPlayback pf tok (rq_now rq) = Some pl
     \<and> cp_typ pl = ''playback'' \<and> cp_sid pl = sid \<and> cp_uid pl = pr_id p \<and> cp_did pl = dv_deviceId dev
     \<and> cp_fp pl = hash_fingerprint pf (dv_fingerprint dev)
     \<and> cached_capability s (rq_now rq) (cp_jti pl) \<noteq> None
     \<and> may_play pf s (rq_now rq) p (cp_eid pl) dev
     \<and> x \<in> set (playbackSessions s) \<and> ps_id x = sid \<and> play_live (rq_now rq) (pr_id p) x
     \<and> ps_capabilityJti x = cp_jti pl \<and> ps_capabilityHash x = hash_token pf tok
     \<and> (\<exists>d\<in>set (trustedDevices s). td_id d = ps_trustedDeviceId x \<and> td_status d = Device_ACTIVE
          \<and> td_deviceId d = dv_deviceId dev \<and> td_fingerprintHash d = cp_fp pl)"
proof -
  from validate_capability_Inr [OF ok] obtain pl c pol where
    v: "pf_verifyPlayback pf tok (rq_now rq) = Some pl" "payload_ok pl"
    and m: "cp_sid pl = sid" "cp_uid pl = pr_id p" "cp_did pl = dv_deviceId dev"
      "cp_fp pl = hash_fingerprint pf (dv_fingerprint dev)"
    and c: "cached_capability s (rq_now rq) (cp_jti pl) = Some c"
    and pol: "authorize cf pf rq p (cp_eid pl) dev True s = (Inr pol, s)"
    and x: "capability_session pf s (rq_now rq) (pr_id p) sid (cp_jti pl) tok dev = Some x" by blast
  have "may_play pf s (rq_now rq) p (cp_eid pl) dev"
    using authorize_decides [OF wf, of cf pf rq p "cp_eid pl" dev] pol by blast
  with v m c capability_session_Some [OF x] show ?thesis
    by (intro exI [of _ pl]) (simp add: payload_ok_def play_live_def)
qed

definition demo_payload :: "string \<Rightarrow> capability_payload" where
  "demo_payload t = \<lparr>cp_sub = ''u1'', cp_sid = ''ps1'', cp_jti = t, cp_uid = ''u1'', cp_eid = ''e1'', cp_mid = ''m1'',
     cp_did = ''d1'', cp_fp = ''#fp'', cp_typ = ''playback''\<rparr>"

text \<open>A session started in the demo state with the token \<open>''j1''\<close>.\<close>

definition watching_demo :: state where
  "watching_demo = snd (start_playback demo_config demo_platform demo_request me ''e1'' demo_dto ''ps1'' ''j1'' play_demo)"

lemma watching_demo_valid:
  "\<exists>x s'. validate_capability demo_config demo_platform demo_request me ''ps1'' ''j1'' demo_dto watching_demo = (Inr x, s')"
proof -
  let ?m = "validate_capability demo_config demo_platform demo_request me ''ps1'' ''j1'' demo_dto"
  have "\<not> isl (fst (?m watching_demo))" by code_simp
  from prog_result [of ?m, OF this] show ?thesis by blast
qed

lemma watching_demo_wf: "play_wf watching_demo"
  unfolding play_wf_def by code_simp

theorem capability_sound_witness:
  "may_play demo_platform watching_demo 5000 me ''e1'' demo_dto"
proof -
  from watching_demo_valid obtain x s' where
    "validate_capability demo_config demo_platform demo_request me ''ps1'' ''j1'' demo_dto watching_demo = (Inr x, s')" by blast
  from capability_sound [OF watching_demo_wf this] show ?thesis
    by (auto simp: demo_platform_def demo_request_def)
qed

definition closed_demo :: state where
  "closed_demo = watching_demo\<lparr>playbackSessions :=
     map (\<lambda>x. x\<lparr>ps_status := Play_CLOSED\<rparr>) (playbackSessions watching_demo)\<rparr>"

theorem play_session_end_final_witness:
  "isl (fst (validate_capability demo_config demo_platform demo_request me ''ps1'' ''j1'' demo_dto
     (snd (playback_status_of demo_request me ''ps1'' closed_demo))))"
proof -
  have "map (\<lambda>x. (ps_id x, ps_status x)) (playbackSessions closed_demo) = [(''ps1'', Play_CLOSED)]" by code_simp
  then have "play_ended ''ps1'' closed_demo" by (auto simp: play_ended_def map_eq_Cons_conv)
  moreover have "(play_step demo_config demo_platform)\<^sup>*\<^sup>* closed_demo (snd (playback_status_of demo_request me ''ps1'' closed_demo))"
    by (rule r_into_rtranclp, rule play_step.asked [of demo_request me "''ps1''" closed_demo "fst (playback_status_of demo_request me ''ps1'' closed_demo)"]) simp
  ultimately show ?thesis by (rule play_session_end_final [THEN conjunct1])
qed

section \<open>Stopping and rotating\<close>

definition play_ids :: "state \<Rightarrow> bool" where
  "play_ids s \<longleftrightarrow> distinct (map ps_id (playbackSessions s))"

lemma stop_Inr:
  assumes ids: "play_ids s" and ok: "stop_playback cf pf rq p sid tok dev s = (Inr u, s')"
  shows "\<exists>x\<in>set (playbackSessions s). ps_id x = sid \<and> ps_userId x = pr_id p \<and> ps_status x = Play_ACTIVE
     \<and> play_ended sid s' \<and> cached_capability s' t (ps_capabilityJti x) = None
     \<and> (\<forall>y\<in>set (playbackSessions s'). ps_id y = sid \<longrightarrow> ps_status y = Play_CLOSED \<and> ps_closedAt y = Some (rq_now rq))"
proof -
  let ?f = "\<lambda>y. y\<lparr>ps_lastSeenAt := rq_now rq\<rparr>"
    and ?g = "\<lambda>y. y\<lparr>ps_status := Play_CLOSED, ps_closedAt := Some (rq_now rq), ps_lastSeenAt := rq_now rq\<rparr>"
    and ?mine = "\<lambda>y. ps_id y = sid \<and> ps_userId y = pr_id p \<and> ps_status y = Play_ACTIVE"
  from ok obtain x s1 where v: "validate_capability cf pf rq p sid tok dev s = (Inr x, s1)"
    by (auto simp: stop_playback_def Let_def and_then_Inr)
  from validate_capability_Inr [OF v] obtain j m where ready: "redis_ready s"
    and cs: "capability_session pf s (rq_now rq) (pr_id p) sid j tok dev = Some x"
    and s1: "s1 = s\<lparr>redis := m, playbackSessions := update_many (\<lambda>y. ps_id y = sid) ?f (playbackSessions s)\<rparr>" by blast
  note x = capability_session_Some [OF cs]
  let ?t1 = "update_many (\<lambda>y. ps_id y = sid) ?f (playbackSessions s)"
  have d1: "distinct (map ps_id ?t1)" using ids by (simp add: play_ids_def map_update_many)
  have rows: "y \<in> set ?t1 \<and> ps_id y = sid \<longleftrightarrow> y = ?f x" for y
    using update_key_row [of ps_id "playbackSessions s" x "\<lambda>y. ps_id y = sid" ?f y] ids x by (simp add: play_ids_def)
  have x1: "?f x \<in> set ?t1" using rows [of "?f x"] by blast
  have rows2: "y \<in> set (update_many ?mine ?g ?t1) \<and> ps_id y = sid \<longleftrightarrow> y = ?g (?f x)" for y
    using update_key_row [of ps_id ?t1 "?f x" ?mine ?g y] d1 x1 x by simp
  have found: "find_play s2 sid = Some (?g (?f x))" if "playbackSessions s2 = update_many ?mine ?g ?t1" for s2
    unfolding find_play_def that
    by (rule find_first_key [where k = ps_id]) (use d1 rows2 [of "?g (?f x)"] x in \<open>simp_all add: map_update_many\<close>)
  have s': "playbackSessions s' = update_many ?mine ?g ?t1"
    and c: "redis s' = redis_remove m (cache_key (ps_capabilityJti x))"
    using ok v ready s1 found
    by (auto simp: stop_playback_def Let_def and_then_def [of "validate_capability cf pf rq p sid tok dev"]
        and_then_transaction update_play_def update_play_history_def token_revoke_def and_then_def [of "delete_key k" for k])
  have cached: "cached_capability s' t (ps_capabilityJti x) = None"
    by (simp add: cached_capability_def c rc.look_drop)
  define T where "T = playbackSessions s'"
  have rowsT: "y \<in> set T \<and> ps_id y = sid \<longleftrightarrow> y = ?g (?f x)" for y
    unfolding T_def s' by (rule rows2)
  have "?g (?f x) \<in> set T \<and> ps_id (?g (?f x)) = sid" using rowsT by blast
  then have "sid \<in> ps_id ` set T" by (metis (no_types) image_eqI)
  moreover have "\<forall>y\<in>set T. ps_id y = sid \<longrightarrow> ps_status y = Play_CLOSED \<and> ps_closedAt y = Some (rq_now rq)"
    using rowsT by force
  ultimately show ?thesis using x cached unfolding play_ended_def T_def [symmetric] by (intro bexI [of _ x]) auto
qed

text \<open>
  Stopping ends the session for good: a stop that succeeds is of an active session of the caller, which is
  then closed, with the closing time recorded, its capability removed from the cache, and accepted by no later
  request whatever happens in between.
\<close>

lemma stop_ends_session:
  assumes ids: "play_ids s" and ok: "stop_playback cf pf rq p sid tok dev s = (Inr u, s')"
    and later: "(play_step cf pf)\<^sup>*\<^sup>* s' s''"
  shows "\<exists>x\<in>set (playbackSessions s). ps_id x = sid \<and> ps_userId x = pr_id p \<and> ps_status x = Play_ACTIVE
     \<and> cached_capability s' t (ps_capabilityJti x) = None
     \<and> (\<forall>y\<in>set (playbackSessions s'). ps_id y = sid \<longrightarrow> ps_status y = Play_CLOSED \<and> ps_closedAt y = Some (rq_now rq))
     \<and> (\<forall>rq' p' tok' dev'. isl (fst (validate_capability cf pf rq' p' sid tok' dev' s'')))"
proof -
  obtain x where x: "x \<in> set (playbackSessions s)" "ps_id x = sid" "ps_userId x = pr_id p" "ps_status x = Play_ACTIVE"
    "play_ended sid s'" "cached_capability s' t (ps_capabilityJti x) = None"
    "\<forall>y\<in>set (playbackSessions s'). ps_id y = sid \<longrightarrow> ps_status y = Play_CLOSED \<and> ps_closedAt y = Some (rq_now rq)"
    using stop_Inr [OF ids ok] by blast
  have "isl (fst (validate_capability cf pf rq' p' sid tok' dev' s''))" for rq' p' tok' dev'
    using validate_needs_active play_steps_ended [OF later x(5)]
      prog_result [of "validate_capability cf pf rq' p' sid tok' dev'" s''] by blast
  with x show ?thesis by blast
qed

lemma stop_ends_session_example:
  "\<exists>s'. stop_playback demo_config demo_platform demo_request me ''ps1'' ''j1'' demo_dto watching_demo = (Inr (), s')
     \<and> isl (fst (validate_capability demo_config demo_platform demo_request me ''ps1'' ''j1'' demo_dto s'))"
proof -
  let ?m = "stop_playback demo_config demo_platform demo_request me ''ps1'' ''j1'' demo_dto"
  have "\<not> isl (fst (?m watching_demo))" by code_simp
  from prog_done [of ?m, OF this] obtain s' where ok: "?m watching_demo = (Inr (), s')" by blast
  have "play_ids watching_demo" unfolding play_ids_def by code_simp
  from stop_ends_session [OF this ok rtranclp.rtrancl_refl] ok show ?thesis by blast
qed

text \<open>After a rotation the session row holds the new token.\<close>

lemma rotate_Inr:
  assumes ids: "play_ids s" and ok: "rotate_session cf pf rq p sid c j s = (Inr r, s')"
  shows "\<exists>x. find_play s sid = Some x \<and> pb_token r = fst (token_issue cf pf (rq_now rq) \<lparr>cp_sub = pc_userId c,
        cp_sid = sid, cp_jti = j, cp_uid = pc_userId c, cp_eid = pc_episodeId c, cp_mid = pc_mediaAssetId c,
        cp_did = pc_deviceId c, cp_fp = pc_fingerprintHash c, cp_typ = ''playback''\<rparr>)
     \<and> playbackSessions s' = update_many (\<lambda>x. ps_id x = sid) (\<lambda>x. x\<lparr>ps_capabilityJti := j,
       ps_capabilityHash := hash_token pf (pb_token r), ps_deviceFingerprintHash := pc_fingerprintHash c,
       ps_expiresAt := rq_now rq + cf_capabilityTtlSeconds cf * 1000, ps_lastSeenAt := rq_now rq, ps_ipAddress := rq_ip rq,
       ps_userAgent := take 512 (rq_userAgent rq)\<rparr>) (playbackSessions s)"
  using ok
  by (auto simp: rotate_session_def issue_capability_def token_issue_def Let_def and_then_Inr token_verify_Inr token_revoke_def
      cache_capability_def token_cache_def update_play_def playback_answer_def
      split: if_splits option.splits)

lemma resume_Inr:
  assumes "resume_playback cf pf rq p sid dev j s = (Inr r, s')"
  shows "\<exists>x c r0. x \<in> set (playbackSessions s) \<and> ps_id x = sid \<and> play_live (rq_now rq) (pr_id p) x
     \<and> authorize cf pf rq p (ps_episodeId x) dev True s = (Inr c, s)
     \<and> pc_trustedDeviceId c = ps_trustedDeviceId x
     \<and> rotate_session cf pf rq p sid c j s = (Inr r0, s') \<and> r = r0\<lparr>pb_resumePositionSeconds := ps_lastPositionSeconds x\<rparr>"
proof -
  from assms obtain x where x: "find_first (\<lambda>x. ps_id x = sid \<and> play_live (rq_now rq) (pr_id p) x) (playbackSessions s) = Some x"
    by (auto simp: resume_playback_def simp del: find_first_None split: option.splits)
  with assms find_first_Some [OF x] show ?thesis
    by (fastforce simp: resume_playback_def and_then_Inr split: if_splits dest: authorize_state)
qed

text \<open>
  A resumed session has one good token: resuming needs a live session of the caller on the device that
  started it, continues at its last position, and from then on every token that does not hash like the one just
  returned, the previous one included, is refused for the session.
\<close>

lemma resume_replaces_token:
  assumes ids: "play_ids s" and ok: "resume_playback cf pf rq p sid dev j s = (Inr r, s')"
  shows "(\<exists>x\<in>set (playbackSessions s). ps_id x = sid \<and> play_live (rq_now rq) (pr_id p) x
        \<and> pb_resumePositionSeconds r = ps_lastPositionSeconds x
        \<and> (\<exists>d\<in>set (trustedDevices s). is_device (pr_id p) (dv_deviceId dev) d \<and> td_id d = ps_trustedDeviceId x))
     \<and> (hash_token pf tok \<noteq> hash_token pf (pb_token r) \<longrightarrow>
          isl (fst (validate_capability cf pf rq' p' sid tok dev' s')))"
proof (intro conjI impI)
  from resume_Inr [OF ok] obtain x c r0 where x: "x \<in> set (playbackSessions s)" "ps_id x = sid" "play_live (rq_now rq) (pr_id p) x"
    and a: "authorize cf pf rq p (ps_episodeId x) dev True s = (Inr c, s)" "pc_trustedDeviceId c = ps_trustedDeviceId x"
    and rot: "rotate_session cf pf rq p sid c j s = (Inr r0, s')" and r: "r = r0\<lparr>pb_resumePositionSeconds := ps_lastPositionSeconds x\<rparr>"
    by blast
  from a obtain d where "device_of s (pr_id p) (dv_deviceId dev) = Some d" "td_id d = ps_trustedDeviceId x"
    by (auto simp: authorize_Inr)
  then have "\<exists>d\<in>set (trustedDevices s). is_device (pr_id p) (dv_deviceId dev) d \<and> td_id d = ps_trustedDeviceId x"
    unfolding device_of_def by (blast dest: find_first_Some)
  with x r show "\<exists>x\<in>set (playbackSessions s). ps_id x = sid \<and> play_live (rq_now rq) (pr_id p) x
        \<and> pb_resumePositionSeconds r = ps_lastPositionSeconds x
        \<and> (\<exists>d\<in>set (trustedDevices s). is_device (pr_id p) (dv_deviceId dev) d \<and> td_id d = ps_trustedDeviceId x)"
    by (intro bexI [of _ x]) simp_all
  assume ne: "hash_token pf tok \<noteq> hash_token pf (pb_token r)"
  show "isl (fst (validate_capability cf pf rq' p' sid tok dev' s'))"
  proof (rule ccontr)
    assume "\<not> isl (fst (validate_capability cf pf rq' p' sid tok dev' s'))"
    from prog_result [of "validate_capability cf pf rq' p' sid tok dev'", OF this]
    obtain y s'' where v: "validate_capability cf pf rq' p' sid tok dev' s' = (Inr y, s'')" by blast
    from validate_capability_Inr [OF v] obtain k where
      "capability_session pf s' (rq_now rq') (pr_id p') sid k tok dev' = Some y" by blast
    note y = capability_session_Some [OF this]
    from rotate_Inr [OF ids rot] have rows: "playbackSessions s' = update_many (\<lambda>x. ps_id x = sid) (\<lambda>x. x\<lparr>ps_capabilityJti := j,
       ps_capabilityHash := hash_token pf (pb_token r0), ps_deviceFingerprintHash := pc_fingerprintHash c,
       ps_expiresAt := rq_now rq + cf_capabilityTtlSeconds cf * 1000, ps_lastSeenAt := rq_now rq, ps_ipAddress := rq_ip rq,
       ps_userAgent := take 512 (rq_userAgent rq)\<rparr>) (playbackSessions s)" by blast
    have "\<forall>z\<in>set (playbackSessions s'). ps_id z = sid \<longrightarrow> ps_capabilityHash z = hash_token pf (pb_token r0)"
      unfolding rows ball_update_many by simp
    with y have "hash_token pf tok = hash_token pf (pb_token r0)" by metis
    with ne r show False by simp
  qed
qed

lemma resume_replaces_token_example:
  "\<exists>r s'. resume_playback demo_config demo_platform demo_request me ''ps1'' demo_dto ''j2'' watching_demo = (Inr r, s')
     \<and> isl (fst (validate_capability demo_config demo_platform demo_request me ''ps1'' ''j1'' demo_dto s'))"
proof -
  let ?m = "resume_playback demo_config demo_platform demo_request me ''ps1'' demo_dto ''j2''"
  have "case ?m watching_demo of (Inl e, _) \<Rightarrow> False | (Inr r, _) \<Rightarrow> pb_token r = ''j2''" by code_simp
  then obtain r s' where ok: "?m watching_demo = (Inr r, s')" and t: "pb_token r = ''j2''"
    by (auto split: prod.splits sum.splits)
  have ids: "play_ids watching_demo" unfolding play_ids_def by code_simp
  have "hash_token demo_platform ''j1'' \<noteq> hash_token demo_platform (pb_token r)"
    by (simp add: t hash_token_def demo_platform_def)
  with resume_replaces_token [OF ids ok, of "''j1''" demo_request me demo_dto] ok show ?thesis by blast
qed

section \<open>Concurrent sessions\<close>

definition live_sessions :: "state \<Rightarrow> instant \<Rightarrow> string \<Rightarrow> nat" where
  "live_sessions s now uid = count_where (play_live now uid) (playbackSessions s)"

definition here_sessions :: "state \<Rightarrow> instant \<Rightarrow> string \<Rightarrow> string \<Rightarrow> string \<Rightarrow> nat" where
  "here_sessions s now uid eid tdid = count_where (\<lambda>x. play_live now uid x
     \<and> (ps_episodeId x = eid \<and> ps_trustedDeviceId x = tdid)) (playbackSessions s)"

lemma count_where_split:
  "count_where P t = count_where (\<lambda>x. P x \<and> Q x) t + count_where (\<lambda>x. P x \<and> \<not> Q x) t"
  by (induction t) auto

lemma live_split: "live_sessions s now uid = here_sessions s now uid e d + other_sessions s now uid e d"
  unfolding live_sessions_def here_sessions_def other_sessions_def by (rule count_where_split)

lemma count_update_row_le:
  assumes d: "distinct (map k t)" and x: "x \<in> set t" "Q x"
    and P: "\<And>r. P r \<longleftrightarrow> k r = k x"
  shows "count_where Q (update_many P f t) \<le> count_where Q t"
proof -
  have "\<forall>r\<in>set t. P r \<longrightarrow> r = x" using d x(1) P by (metis unique_key)
  then show ?thesis using x(2) by (induction t) auto
qed

text \<open>
  The session limit: when a start succeeds, the account has at most the configured maximum of live sessions,
  provided it did not already have two for the same episode and device; starting again on the same episode and
  device reuses the session, so it never uses up a second place.
\<close>

lemma start_within_limit:
  assumes ids: "play_ids s" and ok: "start_playback cf pf rq p eid dev sid j s = (Inr r, s')"
    and one: "\<forall>d. here_sessions s (rq_now rq) (pr_id p) eid d \<le> 1"
  shows "live_sessions s' (rq_now rq) (pr_id p) \<le> cf_maxConcurrentPlayback cf
     \<and> (pb_sessionId r \<noteq> sid \<longrightarrow> live_sessions s' (rq_now rq) (pr_id p) \<le> live_sessions s (rq_now rq) (pr_id p))"
proof -
  from ok obtain c s0 where a0: "authorize cf pf rq p eid dev False s = (Inr c, s0)"
    and st0: "start_authorized cf pf rq p eid c sid j s0 = (Inr r, s')"
    by (auto simp: start_playback_def and_then_Inr)
  have s0: "s0 = s" using authorize_state [OF a0] .
  let ?td = "pc_trustedDeviceId c" and ?now = "rq_now rq" and ?u = "pr_id p"
  from a0 have room: "other_sessions s ?now ?u eid ?td < cf_maxConcurrentPlayback cf" and u: "pc_userId c = ?u"
    by (auto simp: authorize_Inr)
  let ?here = "\<lambda>x. play_live ?now ?u x \<and> ps_episodeId x = eid \<and> ps_trustedDeviceId x = ?td"
  show ?thesis
  proof (cases "find_latest ps_startedAt (filter ?here (playbackSessions s))")
    case None
    then have "filter ?here (playbackSessions s) = []" by (simp only: find_latest_None)
    then have "here_sessions s ?now ?u eid ?td = 0" by (simp add: here_sessions_def count_where_def)
    then have old: "live_sessions s ?now ?u = other_sessions s ?now ?u eid ?td"
      using live_split [of s ?now ?u eid ?td] by simp
    from st0 None obtain row where "playbackSessions s' = playbackSessions s @ [row]" "pb_sessionId r = sid"
      by (auto simp: start_authorized_def s0 create_play_def cache_capability_def token_cache_def issue_capability_def Let_def
          and_then_Inr token_verify_Inr playback_answer_def simp del: find_latest_None split: if_splits)
    then show ?thesis using old room by (simp add: live_sessions_def)
  next
    case (Some x)
    from find_latest_Some [OF Some] have x: "x \<in> set (playbackSessions s)" "?here x" by simp_all
    from st0 Some have rot: "rotate_session cf pf rq p (ps_id x) c j s = (Inr r, s')"
      by (simp add: start_authorized_def s0 del: find_latest_None)
    from rotate_Inr [OF ids rot] obtain f where s': "playbackSessions s' = update_many (\<lambda>y. ps_id y = ps_id x) f (playbackSessions s)"
      by blast
    have "live_sessions s' ?now ?u \<le> live_sessions s ?now ?u"
      unfolding live_sessions_def s'
      by (rule count_update_row_le [where k = ps_id and x = x]) (use ids x in \<open>simp_all add: play_ids_def\<close>)
    moreover have "live_sessions s ?now ?u \<le> cf_maxConcurrentPlayback cf"
      using live_split [of s ?now ?u eid ?td] room one [rule_format, of ?td] by linarith
    ultimately show ?thesis by simp
  qed
qed

lemma start_within_limit_example:
  "\<exists>r s'. start_playback demo_config demo_platform demo_request me ''e1'' demo_dto ''ps1'' ''j1'' play_demo = (Inr r, s')
     \<and> live_sessions s' 5000 ''u1'' \<le> 2"
proof -
  let ?m = "start_playback demo_config demo_platform demo_request me ''e1'' demo_dto ''ps1'' ''j1''"
  have "\<not> isl (fst (?m play_demo))" by code_simp
  from prog_result [of ?m, OF this] obtain r s' where ok: "?m play_demo = (Inr r, s')" by blast
  have "playbackSessions play_demo = []" by (simp add: play_demo_def access_demo_def demo_state_def empty_state_def)
  then have "play_ids play_demo" "\<forall>d. here_sessions play_demo (rq_now demo_request) (pr_id me) ''e1'' d \<le> 1"
    by (simp_all add: play_ids_def here_sessions_def)
  from start_within_limit [OF this(1) ok this(2)] ok show ?thesis
    by (auto simp: demo_config_def demo_request_def me_def)
qed

definition two_devices_demo :: state where
  "two_devices_demo = play_demo\<lparr>trustedDevices := [demo_device, demo_device\<lparr>td_id := ''td2'', td_deviceId := ''d2''\<rparr>]\<rparr>"

definition two_starts :: "config \<Rightarrow> playback_response list handler" where
  "two_starts cf =
     and_then (authorize cf demo_platform demo_request me ''e1'' demo_dto False) (\<lambda>c1.
     and_then (authorize cf demo_platform demo_request me ''e1'' (demo_dto\<lparr>dv_deviceId := ''d2''\<rparr>) False) (\<lambda>c2.
     and_then (start_authorized cf demo_platform demo_request me ''e1'' c1 ''ps1'' ''j1'') (\<lambda>r1.
     and_then (start_authorized cf demo_platform demo_request me ''e1'' c2 ''ps2'' ''j2'') (\<lambda>r2. ret [r1, r2]))))"

text \<open>
  The limit is checked before the session is written: two starts on two devices whose authorisations both
  run before either writes its session both succeed, and with a maximum of one the account then has two live
  sessions.
\<close>

lemma concurrent_starts_exceed_limit:
  "case two_starts (demo_config\<lparr>cf_maxConcurrentPlayback := 1\<rparr>) two_devices_demo of
     (Inr rs, s') \<Rightarrow> length rs = 2 \<and> live_sessions s' 5000 ''u1'' = 2
   | (Inl e, s') \<Rightarrow> False"
  by code_simp

section \<open>Heartbeats\<close>

lemma heartbeat_Inr:
  assumes "heartbeat cf pf rq p sid tok dev pos buf s = (Inr h, s')"
  shows "\<exists>x. x \<in> set (playbackSessions s) \<and> ps_id x = sid \<and> play_live (rq_now rq) (pr_id p) x
     \<and> (\<exists>m hs bs. s' = s\<lparr>redis := m, playbackSessions := update_many (\<lambda>y. ps_id y = sid) (\<lambda>y. y\<lparr>ps_lastSeenAt := rq_now rq,
           ps_lastPositionSeconds := pos, ps_watchedSeconds := ps_watchedSeconds y + watched_delta pos (ps_lastPositionSeconds x)\<rparr>)
           (update_many (\<lambda>y. ps_id y = sid) (\<lambda>y. y\<lparr>ps_lastSeenAt := rq_now rq\<rparr>) (playbackSessions s)),
           playbackHeartbeats := bs, playbackHistories := hs\<rparr>)"
proof -
  from assms obtain x s1 where v: "validate_capability cf pf rq p sid tok dev s = (Inr x, s1)"
    and rest: "(\<lambda>session. let delta = watched_delta pos (ps_lastPositionSeconds session) in
     and_then (transaction
       (and_then (update_play (\<lambda>x. ps_id x = sid) (\<lambda>x. x\<lparr>ps_lastSeenAt := rq_now rq, ps_lastPositionSeconds := pos,
          ps_watchedSeconds := ps_watchedSeconds x + delta\<rparr>)) (\<lambda>_.
        and_then (gets (\<lambda>s. find_play s sid)) (\<lambda>updated.
        and_then (modify (\<lambda>s. s\<lparr>playbackHeartbeats := playbackHeartbeats s @ [\<lparr>hb_playbackSessionId = sid,
          hb_positionSeconds = pos, hb_bufferedSeconds = buf, hb_createdAt = rq_now rq\<rparr>]\<rparr>)) (\<lambda>_.
        and_then (update_play_history (\<lambda>h. ph_playbackSessionId h = sid) (\<lambda>h. h\<lparr>ph_lastPositionSeconds := pos,
          ph_watchedSeconds := ph_watchedSeconds h + delta, ph_updatedAt := rq_now rq\<rparr>)) (\<lambda>_.
        expect updated (Internal ''P2025''))))))) (\<lambda>x.
     ret \<lparr>hr_sessionId = ps_id x, hr_status = ps_status x, hr_lastPositionSeconds = ps_lastPositionSeconds x,
       hr_expiresAt = ps_expiresAt x\<rparr>)) x s1 = (Inr h, s')"
    unfolding heartbeat_def and_then_Inr by blast
  from validate_capability_Inr [OF v] obtain j m where
    cs: "capability_session pf s (rq_now rq) (pr_id p) sid j tok dev = Some x"
    and s1: "s1 = s\<lparr>redis := m, playbackSessions := update_many (\<lambda>y. ps_id y = sid) (\<lambda>y. y\<lparr>ps_lastSeenAt := rq_now rq\<rparr>) (playbackSessions s)\<rparr>"
    by blast
  from capability_session_Some [OF cs] have x: "x \<in> set (playbackSessions s)" "ps_id x = sid" "play_live (rq_now rq) (pr_id p) x"
    by (simp_all add: play_live_def)
  with rest show ?thesis
    unfolding s1
    by (intro exI [of _ x]) (auto simp: Let_def and_then_transaction update_play_def update_play_history_def
      split: option.splits prod.splits sum.splits)
qed

text \<open>
  C33. A heartbeat counts at most a minute: it needs an accepted capability, moves the session to the reported
  position, adds between 0 and 60 seconds to the watched time (nothing when the position went back), and leaves
  the status and the expiry of every session as they were, so heartbeats neither revive nor prolong a session.
\<close>

theorem heartbeat_bounded:
  assumes ids: "play_ids s" and ok: "heartbeat cf pf rq p sid tok dev pos buf s = (Inr h, s')"
  shows "\<exists>x\<in>set (playbackSessions s). \<exists>y\<in>set (playbackSessions s'). ps_id x = sid \<and> ps_id y = sid
     \<and> play_live (rq_now rq) (pr_id p) x \<and> ps_lastPositionSeconds y = pos
     \<and> ps_watchedSeconds x \<le> ps_watchedSeconds y \<and> ps_watchedSeconds y \<le> ps_watchedSeconds x + 60
     \<and> (pos \<le> ps_lastPositionSeconds x \<longrightarrow> ps_watchedSeconds y = ps_watchedSeconds x)
     \<and> map (\<lambda>z. (ps_id z, ps_status z, ps_expiresAt z)) (playbackSessions s')
         = map (\<lambda>z. (ps_id z, ps_status z, ps_expiresAt z)) (playbackSessions s)"
proof -
  from heartbeat_Inr [OF ok] obtain x where x: "x \<in> set (playbackSessions s)" "ps_id x = sid" "play_live (rq_now rq) (pr_id p) x"
    and s': "playbackSessions s' = update_many (\<lambda>y. ps_id y = sid) (\<lambda>y. y\<lparr>ps_lastSeenAt := rq_now rq,
           ps_lastPositionSeconds := pos, ps_watchedSeconds := ps_watchedSeconds y + watched_delta pos (ps_lastPositionSeconds x)\<rparr>)
           (update_many (\<lambda>y. ps_id y = sid) (\<lambda>y. y\<lparr>ps_lastSeenAt := rq_now rq\<rparr>) (playbackSessions s))"
    by auto
  let ?x1 = "x\<lparr>ps_lastSeenAt := rq_now rq\<rparr>"
  let ?y = "x\<lparr>ps_lastSeenAt := rq_now rq, ps_lastPositionSeconds := pos,
    ps_watchedSeconds := ps_watchedSeconds x + watched_delta pos (ps_lastPositionSeconds x)\<rparr>"
  have "?x1 \<in> set (update_many (\<lambda>y. ps_id y = sid) (\<lambda>y. y\<lparr>ps_lastSeenAt := rq_now rq\<rparr>) (playbackSessions s))"
    using x by (auto intro!: bexI [of _ x])
  then have "?y \<in> set (playbackSessions s')"
    unfolding s' by (subst in_update_many) (rule bexI [of _ ?x1], simp_all add: x)
  moreover have "map (\<lambda>z. (ps_id z, ps_status z, ps_expiresAt z)) (playbackSessions s')
         = map (\<lambda>z. (ps_id z, ps_status z, ps_expiresAt z)) (playbackSessions s)"
    unfolding s' by (simp add: map_update_many)
  ultimately show ?thesis using x
    by (intro bexI [of _ x] bexI [of _ ?y]) (simp_all add: watched_delta_def)
qed

theorem heartbeat_bounded_witness:
  "\<exists>h s'. heartbeat demo_config demo_platform demo_request me ''ps1'' ''j1'' demo_dto 500 None watching_demo = (Inr h, s')
     \<and> (\<exists>y\<in>set (playbackSessions s'). ps_lastPositionSeconds y = 500)"
proof -
  let ?m = "heartbeat demo_config demo_platform demo_request me ''ps1'' ''j1'' demo_dto 500 None"
  have "\<not> isl (fst (?m watching_demo))" by code_simp
  from prog_result [of ?m, OF this] obtain h s' where ok: "?m watching_demo = (Inr h, s')" by blast
  have "play_ids watching_demo" unfolding play_ids_def by code_simp
  from heartbeat_bounded [OF this ok] ok show ?thesis by blast
qed

end
