(* ===== verification/ContentProps.thy ===== *)
theory ContentProps
  imports Content Playback "HOL-Library.Multiset"
begin

text \<open>
  What the catalogue guarantees: the publication invariant of episodes under every content operation, the
  completeness of the soft-delete cascade and its effect on playback, and that public queries show exactly the
  visible episodes.
\<close>

section \<open>The publication invariant\<close>

definition episode_ok :: "episode \<Rightarrow> bool" where
  "episode_ok e \<longleftrightarrow> (ep_isPublished e \<longleftrightarrow> ep_status e = PUBLISHED) \<and> (ep_deletedAt e \<noteq> None \<longrightarrow> \<not> ep_isPublished e)"

definition publication_inv :: "state \<Rightarrow> bool" where
  "publication_inv s \<longleftrightarrow> distinct (map ep_id (episodes s)) \<and> (\<forall>e\<in>set (episodes s). episode_ok e)"

lemma publication_inv_other [simp]:
  "publication_inv (s\<lparr>dramas := a\<rparr>) = publication_inv s"
  "publication_inv (s\<lparr>seasons := b\<rparr>) = publication_inv s"
  "publication_inv (s\<lparr>mediaAssets := c\<rparr>) = publication_inv s"
  "publication_inv (s\<lparr>auditEvents := d\<rparr>) = publication_inv s"
  by (simp_all add: publication_inv_def)

named_theorems content_keeps "publication_inv is kept by the building blocks"

lemma publication_inv_update:
  assumes "publication_inv s" and "\<And>e. ep_id (f e) = ep_id e"
    and "\<And>e. e \<in> set (episodes s) \<Longrightarrow> P e \<Longrightarrow> episode_ok e \<Longrightarrow> episode_ok (f e)"
  shows "publication_inv (s\<lparr>episodes := update_many P f (episodes s)\<rparr>)"
  using assms by (auto simp: publication_inv_def map_update_many ball_update_many)

lemma keeps_catalog_rows [content_keeps]:
  "keeps publication_inv (modify (\<lambda>s. s\<lparr>dramas := f s\<rparr>))"
  "keeps publication_inv (modify (\<lambda>s. s\<lparr>seasons := g s\<rparr>))"
  "keeps publication_inv (modify (\<lambda>s. s\<lparr>mediaAssets := h s\<rparr>))"
  "keeps publication_inv (audit_write ev)"
  "keeps publication_inv (delete_season_rows now P)"
  "keeps publication_inv (delete_media_rows now Q)"
  by (auto simp: keeps_def delete_season_rows_def delete_media_rows_def)

lemma keeps_delete_episode_rows [content_keeps]: "keeps publication_inv (delete_episode_rows now P)"
  by (auto simp: keeps_def delete_episode_rows_def episode_ok_def intro!: publication_inv_update)

lemma keeps_publish_episode_rows [content_keeps]: "keeps publication_inv (publish_episode_rows P b)"
  by (auto simp: keeps_def publish_episode_rows_def count_episodes_def episode_ok_def intro!: publication_inv_update)

lemma keeps_restore_episode_rows [content_keeps]: "keeps publication_inv (restore_episode_rows P)"
  by (auto simp: keeps_def restore_episode_rows_def count_episodes_def episode_ok_def intro!: publication_inv_update)

lemma keeps_catalog_blocks [content_keeps]:
  "keeps publication_inv (delete_drama_rows now P)"
  "keeps publication_inv (restore_drama_rows P)"
  "keeps publication_inv (publish_drama_rows P b)"
  "keeps publication_inv (restore_season_rows Q)"
  "keeps publication_inv (bulk_audit rq actor pre res act ids n)"
  "keeps publication_inv (count_seasons Q)"
  "keeps publication_inv (count_episodes R)"
  unfolding delete_drama_rows_def restore_drama_rows_def publish_drama_rows_def restore_season_rows_def bulk_audit_def
    count_seasons_def count_episodes_def
  by (intro keeps_rules content_keeps)+

lemma keeps_dramas [content_keeps]:
  "keeps publication_inv (create_drama rq actor i nm sl ddto)"
  "keeps publication_inv (update_drama rq actor i ddto)"
  "keeps publication_inv (remove_drama rq actor i)"
  "keeps publication_inv (restore_drama rq actor i)"
  "keeps publication_inv (publish_drama rq actor i b)"
  unfolding create_drama_def update_drama_def remove_drama_def restore_drama_def publish_drama_def Let_def
  by (intro keeps_rules content_keeps)+

lemma keeps_bulk_dramas [content_keeps]: "keeps publication_inv (bulk_dramas rq actor ids act)"
  unfolding bulk_dramas_def bulk_drama_rows_def by (cases act; simp; intro keeps_rules content_keeps)

lemma keeps_seasons [content_keeps]:
  "keeps publication_inv (create_season rq actor i did n sdto)"
  "keeps publication_inv (update_season rq actor i sdto)"
  "keeps publication_inv (remove_season rq actor i)"
  "keeps publication_inv (restore_season rq actor i)"
  unfolding create_season_def update_season_def remove_season_def restore_season_def Let_def
  by (intro keeps_rules content_keeps)+

lemma keeps_bulk_seasons [content_keeps]: "keeps publication_inv (bulk_seasons rq actor ids act)"
  unfolding bulk_seasons_def bulk_season_rows_def by (cases act; simp; intro keeps_rules content_keeps)

lemma keeps_create_episode [content_keeps]: "keeps publication_inv (create_episode rq actor i sid n edto)"
  by (rule keepsI) (auto simp: create_episode_def Let_def episode_row_def publication_inv_def episode_ok_def)

text \<open>An episode that is not deleted stays consistent when it is edited: status and flag are set together.\<close>

lemma apply_episode_ok: "episode_ok e \<Longrightarrow> ep_deletedAt e = None \<Longrightarrow> episode_ok (apply_episode dto e)"
  by (auto simp: episode_ok_def apply_episode_def Let_def split: option.split)

lemma keeps_update_episode [content_keeps]: "keeps publication_inv (update_episode rq actor i edto)"
proof (rule keepsI)
  fix s assume inv: "publication_inv s"
  have "ep_deletedAt e = None" if "episode_active s i" "e \<in> set (episodes s)" "ep_id e = i" for e
    using inv that unfolding episode_active_def publication_inv_def by (metis unique_key)
  with inv show "publication_inv (snd (update_episode rq actor i edto s))"
    by (auto simp: update_episode_def intro!: publication_inv_update apply_episode_ok) (simp add: apply_episode_def Let_def)
qed

lemma keeps_episodes [content_keeps]:
  "keeps publication_inv (remove_episode rq actor i)"
  "keeps publication_inv (restore_episode rq actor i)"
  "keeps publication_inv (publish_episode rq actor i b)"
  unfolding remove_episode_def restore_episode_def publish_episode_def
  by (intro keeps_rules content_keeps)+

lemma keeps_bulk_episodes [content_keeps]: "keeps publication_inv (bulk_episodes rq actor ids act)"
  unfolding bulk_episodes_def bulk_episode_rows_def by (cases act; simp; intro keeps_rules content_keeps)

lemma keeps_media [content_keeps]:
  "keeps publication_inv (create_media rq actor i eid mt pr loc mdto)"
  "keeps publication_inv (update_media rq actor i mdto)"
  "keeps publication_inv (remove_media rq actor i)"
  "keeps publication_inv (restore_media rq actor i)"
  unfolding create_media_def update_media_def remove_media_def restore_media_def Let_def
  by (intro keeps_rules content_keeps)+

text \<open>Every content request as a step.\<close>

inductive content_step :: "state \<Rightarrow> state \<Rightarrow> bool" where
  "create_drama rq actor i nm sl ddto s = (r1, s') \<Longrightarrow> content_step s s'"
| "update_drama rq actor i ddto s = (r2, s') \<Longrightarrow> content_step s s'"
| "remove_drama rq actor i s = (r2, s') \<Longrightarrow> content_step s s'"
| "restore_drama rq actor i s = (r2, s') \<Longrightarrow> content_step s s'"
| "publish_drama rq actor i b s = (r3, s') \<Longrightarrow> content_step s s'"
| "bulk_dramas rq actor ids act s = (r4, s') \<Longrightarrow> content_step s s'"
| "create_season rq actor i did n sdto s = (r5, s') \<Longrightarrow> content_step s s'"
| "update_season rq actor i sdto s = (r2, s') \<Longrightarrow> content_step s s'"
| "remove_season rq actor i s = (r2, s') \<Longrightarrow> content_step s s'"
| "restore_season rq actor i s = (r2, s') \<Longrightarrow> content_step s s'"
| "bulk_seasons rq actor ids act s = (r4, s') \<Longrightarrow> content_step s s'"
| "create_episode rq actor i sid n edto s = (r6, s') \<Longrightarrow> content_step s s'"
| "update_episode rq actor i edto s = (r2, s') \<Longrightarrow> content_step s s'"
| "remove_episode rq actor i s = (r2, s') \<Longrightarrow> content_step s s'"
| "restore_episode rq actor i s = (r2, s') \<Longrightarrow> content_step s s'"
| "publish_episode rq actor i b s = (r3, s') \<Longrightarrow> content_step s s'"
| "bulk_episodes rq actor ids act s = (r4, s') \<Longrightarrow> content_step s s'"
| "create_media rq actor i eid mt pr loc mdto s = (r7, s') \<Longrightarrow> content_step s s'"
| "update_media rq actor i mdto s = (r7, s') \<Longrightarrow> content_step s s'"
| "remove_media rq actor i s = (r2, s') \<Longrightarrow> content_step s s'"
| "restore_media rq actor i s = (r2, s') \<Longrightarrow> content_step s s'"

lemma content_step_inv: "content_step s s' \<Longrightarrow> publication_inv s \<Longrightarrow> publication_inv s'"
  by (induction rule: content_step.induct) (blast intro: keepsD content_keeps)+



section \<open>The cascade\<close>

lemma update_many_False [simp]: "update_many (\<lambda>r. False) f t = t"
  by (rule update_many_none) simp

text \<open>The state after the cascade below the given seasons.\<close>

definition cascade :: "instant \<Rightarrow> string list \<Rightarrow> string list \<Rightarrow> state \<Rightarrow> state" where
  "cascade now sids eids s = s\<lparr>
     seasons := update_many (\<lambda>q. se_id q \<in> set sids \<and> se_deletedAt q = None)
       (\<lambda>q. q\<lparr>se_deletedAt := Some now\<rparr>) (seasons s),
     episodes := update_many (\<lambda>e. ep_id e \<in> set eids \<and> ep_deletedAt e = None)
       (\<lambda>e. e\<lparr>ep_deletedAt := Some now, ep_isPublished := False, ep_status := ARCHIVED\<rparr>) (episodes s),
     mediaAssets := update_many (\<lambda>m. ma_episodeId m \<in> set eids \<and> ma_deletedAt m = None)
       (\<lambda>m. m\<lparr>ma_deletedAt := Some now, ma_status := Media_INACTIVE\<rparr>) (mediaAssets s)\<rparr>"

lemma remove_drama_Inr:
  assumes ok: "remove_drama rq actor did s = (Inr u, s')"
  shows "\<exists>d\<in>set (dramas s). dr_id d = did \<and> dr_deletedAt d = None"
    and "\<exists>es. s' = (cascade (rq_now rq) (season_ids_of s [did]) (episode_ids_of s (season_ids_of s [did]))
       (s\<lparr>dramas := update_many (\<lambda>d. dr_id d = did \<and> dr_deletedAt d = None)
          (\<lambda>d. d\<lparr>dr_deletedAt := Some (rq_now rq), dr_isPublished := False\<rparr>) (dramas s)\<rparr>))\<lparr>auditEvents := es\<rparr>"
proof -
  let ?s1 = "s\<lparr>dramas := update_many (\<lambda>d. dr_id d = did \<and> dr_deletedAt d = None)
       (\<lambda>d. d\<lparr>dr_deletedAt := Some (rq_now rq), dr_isPublished := False\<rparr>) (dramas s)\<rparr>"
  have ids: "season_ids_of ?s1 ds = season_ids_of s ds" "episode_ids_of ?s1 qs = episode_ids_of s qs" for ds qs
    by (simp_all add: season_ids_of_def episode_ids_of_def)
  have none: "episode_ids_of s [] = []" by (simp add: episode_ids_of_def)
  from ok have n: "count_where (\<lambda>d. dr_id d = did \<and> dr_deletedAt d = None) (dramas s) \<noteq> 0"
    by (auto simp: remove_drama_def delete_drama_rows_def and_then_transaction and_then_assoc and_then_if split: if_splits)
  then show "\<exists>d\<in>set (dramas s). dr_id d = did \<and> dr_deletedAt d = None" by simp
  show "\<exists>es. s' = (cascade (rq_now rq) (season_ids_of s [did]) (episode_ids_of s (season_ids_of s [did]))
       (s\<lparr>dramas := update_many (\<lambda>d. dr_id d = did \<and> dr_deletedAt d = None)
          (\<lambda>d. d\<lparr>dr_deletedAt := Some (rq_now rq), dr_isPublished := False\<rparr>) (dramas s)\<rparr>))\<lparr>auditEvents := es\<rparr>"
    using ok n
    by (cases "season_ids_of s [did] = []"; cases "episode_ids_of s (season_ids_of s [did]) = []")
      (auto simp: remove_drama_def delete_drama_rows_def and_then_transaction and_then_assoc and_then_if ids none
        delete_season_rows_def delete_episode_rows_def delete_media_rows_def cascade_def simp del: count_where_0 count_where_pos)
qed

definition catalog_wf :: "state \<Rightarrow> bool" where
  "catalog_wf s \<longleftrightarrow> distinct (map dr_id (dramas s)) \<and> distinct (map se_id (seasons s)) \<and> distinct (map ep_id (episodes s))"

text \<open>The drama that an episode belongs to.\<close>

definition belongs_to :: "state \<Rightarrow> string \<Rightarrow> episode \<Rightarrow> bool" where
  "belongs_to s did e \<longleftrightarrow> (\<exists>q\<in>set (seasons s). se_id q = ep_seasonId e \<and> se_dramaId q = did)"

lemma kept_row: "r \<in> set t \<Longrightarrow> \<not> P r \<Longrightarrow> r \<in> set (update_many P f t)"
  by (auto intro!: bexI [of _ r])

lemma belongs_to_deleted:
  "belongs_to s did (e\<lparr>ep_deletedAt := a, ep_isPublished := b, ep_status := c\<rparr>) = belongs_to s did e"
  by (simp add: belongs_to_def)

lemma cascade_belongs: "belongs_to (cascade now sids eids s) did e = belongs_to s did e"
  by (auto simp: belongs_to_def cascade_def bex_update_many)

text \<open>
  Deleting a drama deletes everything below it and nothing else: afterwards the drama is deleted and
  unpublished, every season of it is deleted, every episode of those seasons is deleted and unpublished, the
  media of those episodes is deleted and unusable, no playback of them is authorised for anybody, and every
  drama, season, episode and media asset outside is exactly as before.
\<close>

lemma drama_delete_cascade:
  assumes wf: "catalog_wf s" and ok: "remove_drama rq actor did s = (Inr u, s')"
  shows "(\<forall>d\<in>set (dramas s'). dr_id d = did \<longrightarrow> dr_deletedAt d \<noteq> None \<and> \<not> dr_isPublished d)
     \<and> (\<forall>q\<in>set (seasons s'). se_dramaId q = did \<longrightarrow> se_deletedAt q \<noteq> None)
     \<and> (\<forall>e\<in>set (episodes s'). belongs_to s did e \<longrightarrow> ep_deletedAt e \<noteq> None)
     \<and> (\<forall>e\<in>set (episodes s). belongs_to s did e \<longrightarrow>
          (\<forall>m\<in>set (mediaAssets s'). ma_episodeId m = ep_id e \<longrightarrow> ma_deletedAt m \<noteq> None)
          \<and> (\<forall>cf pf rq' p dev ex. isl (fst (authorize cf pf rq' p (ep_id e) dev ex s'))))
     \<and> (\<forall>d\<in>set (dramas s). dr_id d \<noteq> did \<longrightarrow> d \<in> set (dramas s'))
     \<and> (\<forall>q\<in>set (seasons s). se_dramaId q \<noteq> did \<longrightarrow> q \<in> set (seasons s'))
     \<and> (\<forall>e\<in>set (episodes s). \<not> belongs_to s did e \<longrightarrow> e \<in> set (episodes s')
          \<and> (\<forall>m\<in>set (mediaAssets s). ma_episodeId m = ep_id e \<longrightarrow> m \<in> set (mediaAssets s')))"
proof -
  let ?sids = "season_ids_of s [did]" let ?eids = "episode_ids_of s ?sids"
  from remove_drama_Inr(2) [OF ok] obtain es where s': "s' = (cascade (rq_now rq) ?sids ?eids
       (s\<lparr>dramas := update_many (\<lambda>d. dr_id d = did \<and> dr_deletedAt d = None)
          (\<lambda>d. d\<lparr>dr_deletedAt := Some (rq_now rq), dr_isPublished := False\<rparr>) (dramas s)\<rparr>))\<lparr>auditEvents := es\<rparr>" by blast
  from remove_drama_Inr(1) [OF ok] obtain d0 where d0: "d0 \<in> set (dramas s)" "dr_id d0 = did" "dr_deletedAt d0 = None" by blast
  have one: "d = d0" if "d \<in> set (dramas s)" "dr_id d = did" for d
    using wf d0 that unfolding catalog_wf_def by (metis unique_key)
  have sid: "se_id q \<in> set ?sids \<longleftrightarrow> se_dramaId q = did" if "q \<in> set (seasons s)" for q
    using wf that unfolding catalog_wf_def by (auto simp: season_ids_of_def) (metis unique_key)
  have eid: "ep_id e \<in> set ?eids \<longleftrightarrow> belongs_to s did e" if "e \<in> set (episodes s)" for e
  proof -
    have "ep_id e \<in> set ?eids \<longleftrightarrow> ep_seasonId e \<in> set ?sids"
      using wf that unfolding catalog_wf_def by (auto simp: episode_ids_of_def) (metis unique_key)
    moreover have "ep_seasonId e \<in> set ?sids \<longleftrightarrow> belongs_to s did e"
      by (force simp: season_ids_of_def belongs_to_def)
    ultimately show ?thesis by blast
  qed
  have dramas': "\<forall>d\<in>set (dramas s'). dr_id d = did \<longrightarrow> dr_deletedAt d \<noteq> None \<and> \<not> dr_isPublished d"
  proof -
    have "\<forall>d\<in>set (dramas s). dr_id d = did \<longrightarrow> dr_deletedAt d = None" using one d0(3) by metis
    then show ?thesis by (simp add: s' cascade_def ball_update_many)
  qed
  have seasons': "\<forall>q\<in>set (seasons s'). se_dramaId q = did \<longrightarrow> se_deletedAt q \<noteq> None"
    using sid by (simp add: s' cascade_def ball_update_many)
  have episodes': "\<forall>e\<in>set (episodes s'). belongs_to s did e \<longrightarrow> ep_deletedAt e \<noteq> None"
    using eid by (simp add: s' cascade_def ball_update_many belongs_to_deleted)
  have media': "\<forall>m\<in>set (mediaAssets s'). ma_episodeId m = ep_id e \<longrightarrow> ma_deletedAt m \<noteq> None"
    if "e \<in> set (episodes s)" "belongs_to s did e" for e
    using eid that by (simp add: s' cascade_def ball_update_many)
  have auth': "isl (fst (authorize cf pf rq' p (ep_id e) dev ex s'))"
    if e: "e \<in> set (episodes s)" "belongs_to s did e" for e cf pf rq' p dev ex
  proof (rule ccontr)
    assume "\<not> isl (fst (authorize cf pf rq' p (ep_id e) dev ex s'))"
    from prog_result [of "authorize cf pf rq' p (ep_id e) dev ex", OF this]
    obtain ep m where ep: "playable_episode s' (ep_id e) = Some ep" and m: "media_of s' (ep_id ep) = Some m" "usable_media m"
      by (auto simp: authorize_Inr)
    have "ep_id ep = ep_id e" using ep unfolding playable_episode_def by (drule_tac find_first_Some) simp
    moreover have "m \<in> set (mediaAssets s')" "ma_episodeId m = ep_id ep"
      using m(1) unfolding media_of_def by (drule_tac find_first_Some, simp)+
    ultimately show False using media' [OF e] m(2) by (auto simp: usable_media_def)
  qed
  have "\<forall>d\<in>set (dramas s). dr_id d \<noteq> did \<longrightarrow> d \<in> set (dramas s')"
    by (auto simp: s' cascade_def intro: bexI)
  moreover have "\<forall>q\<in>set (seasons s). se_dramaId q \<noteq> did \<longrightarrow> q \<in> set (seasons s')"
    using sid by (auto simp: s' cascade_def intro: bexI)
  moreover have "\<forall>e\<in>set (episodes s). \<not> belongs_to s did e \<longrightarrow> e \<in> set (episodes s')
          \<and> (\<forall>m\<in>set (mediaAssets s). ma_episodeId m = ep_id e \<longrightarrow> m \<in> set (mediaAssets s'))"
    using eid by (auto simp: s' cascade_def simp del: in_update_many intro!: kept_row)
  ultimately show ?thesis using dramas' seasons' episodes' media' auth' by blast
qed

lemma drama_delete_cascade_example:
  "\<exists>s'. remove_drama demo_request me ''dr1'' play_demo = (Inr (), s')
     \<and> isl (fst (authorize demo_config demo_platform demo_request me ''e1'' demo_dto True s'))"
proof -
  let ?m = "remove_drama demo_request me ''dr1''"
  have "\<not> isl (fst (?m play_demo))" by code_simp
  from prog_done [of ?m, OF this] obtain s' where ok: "?m play_demo = (Inr (), s')" by blast
  have "catalog_wf play_demo" by (simp add: catalog_wf_def play_demo_def)
  note c = drama_delete_cascade [OF this ok]
  have "demo_episode \<in> set (episodes play_demo)" "belongs_to play_demo ''dr1'' demo_episode" "ep_id demo_episode = ''e1''"
    by (simp_all add: belongs_to_def play_demo_def demo_episode_def demo_season_def)
  with c ok show ?thesis by metis
qed

section \<open>Public lists\<close>

definition public_episode :: "state \<Rightarrow> episode \<Rightarrow> bool" where
  "public_episode s e \<longleftrightarrow> ep_deletedAt e = None \<and> ep_isPublished e \<and> ep_status e = PUBLISHED \<and> ep_visibility e = PUBLIC
     \<and> visible_season s (ep_seasonId e)"

text \<open>The filters a visitor may set; the others are overridden for visitors.\<close>

definition visitor_filter :: "state \<Rightarrow> content_query \<Rightarrow> episode_filter \<Rightarrow> episode \<Rightarrow> bool" where
  "visitor_filter s q f e \<longleftrightarrow> (\<forall>x\<in>set (seasons s). se_id x = ep_seasonId e \<longrightarrow>
       given_eq (truthy (ef_seasonId f)) (se_id x) \<and> given_eq (truthy (ef_dramaId f)) (se_dramaId x))
     \<and> given_eq (ef_premium f) (ep_isPremium e) \<and> search_in (cq_search q) (ep_title e)"

definition episode_page :: "(episode \<Rightarrow> int) \<Rightarrow> content_query \<Rightarrow> episode_filter \<Rightarrow> principal option \<Rightarrow> state \<Rightarrow> nat
    \<Rightarrow> episode_view page" where
  "episode_page upd q f actor s n =
     projr (fst (list_episodes upd (q\<lparr>cq_page := \<lparr>pq_page = n, pq_limit = pq_limit (cq_page q)\<rparr>\<rparr>) f actor s))"

lemma mset_sort_rows [simp]: "mset (sort_rows ord k rows) = mset rows"
  by (cases ord) (simp_all add: sort_rows_def)

lemma visible_season_wf:
  assumes "distinct (map se_id (seasons s))"
  shows "(\<exists>x\<in>set (seasons s). se_id x = ep_seasonId e \<and> A x \<and> B x \<and> se_deletedAt x = None \<and> visible_drama s (se_dramaId x))
     \<longleftrightarrow> visible_season s (ep_seasonId e) \<and> (\<forall>x\<in>set (seasons s). se_id x = ep_seasonId e \<longrightarrow> A x \<and> B x)"
  using assms unfolding visible_season_def by (metis unique_key)

text \<open>
  Public episode lists show exactly the public episodes: for a visitor, the pages of the list taken together
  hold each episode that is published, public and not deleted under a season and a published drama that are not
  deleted, and that matches the visitor's filters, exactly once, and nothing else, whatever the order, the page
  size and the administrative filters in the query.
\<close>

lemma public_episode_list_exact:
  assumes visitor: "\<not> can_read_all actor" and size: "0 < pq_limit (cq_page q)"
    and wf: "distinct (map se_id (seasons s))"
  shows "mset (map fst (concat (map (\<lambda>n. pg_items (episode_page upd q f actor s (Suc n)))
        [0..<pg_totalPages (episode_page upd q f actor s 1)])))
     = mset (filter (\<lambda>e. public_episode s e \<and> visitor_filter s q f e) (episodes s))"
proof -
  let ?P = "\<lambda>e. ep_deletedAt e = None \<and> (\<exists>x\<in>set (seasons s). se_id x = ep_seasonId e
           \<and> given_eq (truthy (ef_seasonId f)) (se_id x) \<and> given_eq (truthy (ef_dramaId f)) (se_dramaId x)
           \<and> se_deletedAt x = None \<and> visible_drama s (se_dramaId x))
           \<and> ep_isPublished e \<and> ep_status e = PUBLISHED \<and> ep_visibility e = PUBLIC
           \<and> given_eq (ef_premium f) (ep_isPremium e) \<and> search_in (cq_search q) (ep_title e)"
  obtain rows where rows: "mset rows = mset (filter ?P (episodes s))"
    and page: "\<And>n. episode_page upd q f actor s n
       = page_of n (pq_limit (cq_page q)) (map (view_episode s) rows)"
  proof -
    have pg: "episode_page upd q f actor s n = page_of n (pq_limit (cq_page q)) (map (view_episode s)
        (if cq_sort q = ''episodeNumber'' then sort_rows (cq_order q) ep_episodeNumber (filter ?P (episodes s))
           else if cq_sort q = ''title'' then sort_rows (cq_order q) (\<lambda>x. null_last (ep_title x)) (filter ?P (episodes s))
           else if cq_sort q = ''updatedAt'' then sort_rows (cq_order q) upd (filter ?P (episodes s))
           else sort_rows (cq_order q) ep_createdAt (filter ?P (episodes s))))" for n
      using visitor by (simp add: episode_page_def list_episodes_def Let_def list_page_def)
    show thesis by (rule that [OF _ pg]) simp
  qed
  have "concat (map (\<lambda>n. pg_items (episode_page upd q f actor s (Suc n)))
        [0..<pg_totalPages (episode_page upd q f actor s 1)]) = map (view_episode s) rows"
    using all_pages [OF size, of "map (view_episode s) rows"] by (simp add: page) (simp add: page_of_def)
  moreover have "map fst (map (view_episode s) rows) = rows" by (simp add: view_episode_def comp_def)
  moreover have "?P = (\<lambda>e. public_episode s e \<and> visitor_filter s q f e)"
    by (rule ext) (auto simp: visible_season_wf [OF wf] public_episode_def visitor_filter_def)
  ultimately show ?thesis using rows by simp
qed

lemma public_episode_list_exact_example:
  "mset (map fst (concat (map (\<lambda>n. pg_items (episode_page (\<lambda>e. 0) \<lparr>cq_page = \<lparr>pq_page = 1, pq_limit = 20\<rparr>,
        cq_search = None, cq_sort = ''title'', cq_order = Asc, cq_includeDeleted = True\<rparr>
        \<lparr>ef_seasonId = None, ef_dramaId = None, ef_published = None, ef_visibility = None, ef_premium = None, ef_status = None\<rparr>
        None play_demo (Suc n))) [0..<1]))) = {#demo_episode#}"
proof -
  let ?q = "\<lparr>cq_page = \<lparr>pq_page = 1, pq_limit = 20\<rparr>, cq_search = None, cq_sort = ''title'', cq_order = Asc, cq_includeDeleted = True\<rparr>"
    and ?f = "\<lparr>ef_seasonId = None, ef_dramaId = None, ef_published = None, ef_visibility = None, ef_premium = None, ef_status = None\<rparr>"
  have "pg_totalPages (episode_page (\<lambda>e. 0) ?q ?f None play_demo 1) = 1" by code_simp
  moreover have "filter (\<lambda>e. public_episode play_demo e \<and> visitor_filter play_demo ?q ?f e) (episodes play_demo) = [demo_episode]"
    by (simp add: public_episode_def visitor_filter_def visible_season_def visible_drama_def play_demo_def demo_episode_def
        demo_season_def demo_drama_def given_eq_def truthy_def search_in_def)
  ultimately show ?thesis
    using public_episode_list_exact [of None ?q play_demo "\<lambda>e. 0" ?f]
    by (simp add: can_read_all_def play_demo_def)
qed

end
