(* ===== verification/Rbac.thy ===== *)
theory Rbac
  imports Principals "HOL-Library.List_Lexorder" "HOL-Library.Char_ord"
begin

text \<open>
  \<open>src/rbac/rbac.service.ts\<close>: roles, permissions and their assignment to accounts. The integrity of
  the five tables (\<open>rbac_wf\<close>: the unique and foreign keys of the schema) is kept by every operation, and
  a change of an assignment is seen by the next request, because \<open>jwt_validate\<close> reads the tables again.

  The order of \<open>listRoles\<close> is the order of the enum in the schema, as PostgreSQL sorts enums.
\<close>

section \<open>Roles\<close>

definition role_rank :: "role_code \<Rightarrow> nat" where
  "role_rank c = (case c of SUPER_ADMIN \<Rightarrow> 0 | ADMIN \<Rightarrow> 1 | SUB_ADMIN \<Rightarrow> 2 | MODERATOR \<Rightarrow> 3 | USER \<Rightarrow> 4)"

definition role_text :: "role_code \<Rightarrow> string" where
  "role_text c = (case c of SUPER_ADMIN \<Rightarrow> ''SUPER_ADMIN'' | ADMIN \<Rightarrow> ''ADMIN'' | SUB_ADMIN \<Rightarrow> ''SUB_ADMIN''
     | MODERATOR \<Rightarrow> ''MODERATOR'' | USER \<Rightarrow> ''USER'')"

definition role_view :: "state \<Rightarrow> role_definition \<Rightarrow> role_definition \<times> string list \<times> nat" where
  "role_view s ro = (ro, codes_of_role s (ro_id ro), count_where (\<lambda>ur. ur_roleId ur = ro_id ro) (userRoles s))"

definition list_roles :: "(role_definition \<times> string list \<times> nat) list handler" where
  "list_roles = gets (\<lambda>s. map (role_view s) (sort_key (\<lambda>ro. role_rank (ro_code ro)) (roleDefinitions s)))"

definition find_role :: "string \<Rightarrow> (role_definition \<times> string list \<times> nat) handler" where
  "find_role rid =
     and_then (gets (\<lambda>s. find_first (\<lambda>ro. ro_id ro = rid) (roleDefinitions s))) (\<lambda>ro.
     and_then (expect ro (Internal ''P2025'')) (\<lambda>ro. gets (\<lambda>s. role_view s ro)))"

text \<open>\<open>data: dto\<close> does not name \<open>systemManaged\<close>, whose default in the schema is \<open>true\<close>.\<close>

definition create_role :: "request \<Rightarrow> principal \<Rightarrow> string \<Rightarrow> role_code \<Rightarrow> string \<Rightarrow> string option
    \<Rightarrow> role_definition handler" where
  "create_role rq actor newId code name description =
     (let role = \<lparr>ro_id = newId, ro_code = code, ro_name = name, ro_description = description, ro_systemManaged = True\<rparr> in
      and_then (gets roleDefinitions) (\<lambda>t.
      and_then (require (\<forall>q\<in>set t. ro_id q \<noteq> newId \<and> ro_code q \<noteq> code) (Conflict ''Role already exists'')) (\<lambda>_.
      and_then (modify (\<lambda>s. s\<lparr>roleDefinitions := roleDefinitions s @ [role]\<rparr>)) (\<lambda>_.
      and_then (audit_write (audit_input rq (Some (pr_id actor)) ''rbac.role_create'' ''role'' (Some newId) SUCCESS [])) (\<lambda>_.
      ret role)))))"

definition update_role :: "request \<Rightarrow> principal \<Rightarrow> string \<Rightarrow> string option \<Rightarrow> string option
    \<Rightarrow> role_definition handler" where
  "update_role rq actor rid name description =
     (let change = (\<lambda>ro. ro\<lparr>ro_name := set_or name (ro_name ro), ro_description := keep_or description (ro_description ro)\<rparr>) in
      and_then (gets (\<lambda>s. find_first (\<lambda>ro. ro_id ro = rid) (roleDefinitions s))) (\<lambda>ro.
      and_then (expect ro (Internal ''P2025'')) (\<lambda>ro.
      and_then (modify (\<lambda>s. s\<lparr>roleDefinitions := update_many (\<lambda>ro. ro_id ro = rid) change (roleDefinitions s)\<rparr>)) (\<lambda>_.
      and_then (audit_write (audit_input rq (Some (pr_id actor)) ''rbac.role_update'' ''role'' (Some rid) SUCCESS [])) (\<lambda>_.
      ret (change ro))))))"

text \<open>The assignments of the role go with it (\<open>onDelete: Cascade\<close>).\<close>

definition delete_role :: "request \<Rightarrow> principal \<Rightarrow> string \<Rightarrow> unit handler" where
  "delete_role rq actor rid =
     and_then (gets (\<lambda>s. find_first (\<lambda>ro. ro_id ro = rid) (roleDefinitions s))) (\<lambda>ro.
     and_then (expect ro (NotFound ''Role not found'')) (\<lambda>ro.
     and_then (require (\<not> ro_systemManaged ro) (Conflict ''System roles cannot be deleted'')) (\<lambda>_.
     and_then (modify (\<lambda>s. s\<lparr>roleDefinitions := delete_many (\<lambda>ro. ro_id ro = rid) (roleDefinitions s),
       userRoles := delete_many (\<lambda>ur. ur_roleId ur = rid) (userRoles s),
       rolePermissions := delete_many (\<lambda>rp. rp_roleId rp = rid) (rolePermissions s)\<rparr>)) (\<lambda>_.
     audit_write (audit_input rq (Some (pr_id actor)) ''rbac.role_delete'' ''role'' (Some rid) SUCCESS [])))))"

section \<open>Permissions\<close>

definition list_permissions :: "permission list handler" where
  "list_permissions = gets (\<lambda>s. sort_key pe_code (permissions s))"

definition create_permission :: "request \<Rightarrow> principal \<Rightarrow> string \<Rightarrow> string \<Rightarrow> string option \<Rightarrow> permission handler" where
  "create_permission rq actor newId code description =
     (let row = \<lparr>pe_id = newId, pe_code = code, pe_description = description\<rparr> in
      and_then (gets permissions) (\<lambda>t.
      and_then (require (\<forall>q\<in>set t. pe_id q \<noteq> newId \<and> pe_code q \<noteq> code) (Conflict ''Permission already exists'')) (\<lambda>_.
      and_then (modify (\<lambda>s. s\<lparr>permissions := permissions s @ [row]\<rparr>)) (\<lambda>_.
      and_then (audit_write (audit_input rq (Some (pr_id actor)) ''rbac.permission_create'' ''permission'' (Some newId) SUCCESS [])) (\<lambda>_.
      ret row)))))"

definition update_permission :: "request \<Rightarrow> principal \<Rightarrow> string \<Rightarrow> string option \<Rightarrow> permission handler" where
  "update_permission rq actor pid description =
     (let change = (\<lambda>pe. pe\<lparr>pe_description := keep_or description (pe_description pe)\<rparr>) in
      and_then (gets (\<lambda>s. find_first (\<lambda>pe. pe_id pe = pid) (permissions s))) (\<lambda>pe.
      and_then (expect pe (Internal ''P2025'')) (\<lambda>pe.
      and_then (modify (\<lambda>s. s\<lparr>permissions := update_many (\<lambda>pe. pe_id pe = pid) change (permissions s)\<rparr>)) (\<lambda>_.
      and_then (audit_write (audit_input rq (Some (pr_id actor)) ''rbac.permission_update'' ''permission'' (Some pid) SUCCESS [])) (\<lambda>_.
      ret (change pe))))))"

definition delete_permission :: "request \<Rightarrow> principal \<Rightarrow> string \<Rightarrow> unit handler" where
  "delete_permission rq actor pid =
     and_then (gets (\<lambda>s. find_first (\<lambda>pe. pe_id pe = pid) (permissions s))) (\<lambda>pe.
     and_then (require (pe \<noteq> None) (NotFound ''Permission not found'')) (\<lambda>_.
     and_then (modify (\<lambda>s. s\<lparr>permissions := delete_many (\<lambda>pe. pe_id pe = pid) (permissions s),
       rolePermissions := delete_many (\<lambda>rp. rp_permissionId rp = pid) (rolePermissions s),
       userPermissions := delete_many (\<lambda>up. up_permissionId up = pid) (userPermissions s)\<rparr>)) (\<lambda>_.
     audit_write (audit_input rq (Some (pr_id actor)) ''rbac.permission_delete'' ''permission'' (Some pid) SUCCESS []))))"

section \<open>Assignments\<close>

text \<open>\<open>findUnique({ where: { code } })\<close>.\<close>

definition role_by_code :: "state \<Rightarrow> role_code \<Rightarrow> role_definition option" where
  "role_by_code s c = find_first (\<lambda>ro. ro_code ro = c) (roleDefinitions s)"

text \<open>An \<open>upsert\<close> inserts the row only if it is missing; then both foreign keys must exist (\<open>P2003\<close>).\<close>

definition assign_role :: "request \<Rightarrow> principal \<Rightarrow> string \<Rightarrow> role_code \<Rightarrow> unit handler" where
  "assign_role rq actor uid code =
     and_then (gets (\<lambda>s. role_by_code s code)) (\<lambda>role.
     and_then (expect role (NotFound ''Role not found'')) (\<lambda>role.
     let row = \<lparr>ur_userId = uid, ur_roleId = ro_id role\<rparr> in
     and_then (gets (\<lambda>s. row \<in> set (userRoles s))) (\<lambda>known.
     and_then (gets (\<lambda>s. find_user s uid)) (\<lambda>u.
     and_then (require (known \<or> u \<noteq> None) (Internal ''P2003'')) (\<lambda>_.
     and_then (modify (\<lambda>s. s\<lparr>userRoles := (if known then userRoles s else userRoles s @ [row])\<rparr>)) (\<lambda>_.
     audit_write (audit_input rq (Some (pr_id actor)) ''rbac.user_role_assign'' ''user'' (Some uid) SUCCESS
       [(''role'', JStr (role_text code))])))))))"

definition remove_role :: "request \<Rightarrow> principal \<Rightarrow> string \<Rightarrow> role_code \<Rightarrow> unit handler" where
  "remove_role rq actor uid code =
     and_then (gets (\<lambda>s. role_by_code s code)) (\<lambda>role.
     and_then (expect role (NotFound ''Role not found'')) (\<lambda>role.
     and_then (modify (\<lambda>s. s\<lparr>userRoles := delete_many (\<lambda>ur. ur_userId ur = uid \<and> ur_roleId ur = ro_id role) (userRoles s)\<rparr>)) (\<lambda>_.
     audit_write (audit_input rq (Some (pr_id actor)) ''rbac.user_role_remove'' ''user'' (Some uid) SUCCESS
       [(''role'', JStr (role_text code))]))))"

definition assign_role_permission :: "request \<Rightarrow> principal \<Rightarrow> string \<Rightarrow> string \<Rightarrow> unit handler" where
  "assign_role_permission rq actor rid pid =
     (let row = \<lparr>rp_roleId = rid, rp_permissionId = pid\<rparr> in
      and_then (gets (\<lambda>s. row \<in> set (rolePermissions s))) (\<lambda>known.
      and_then (gets (\<lambda>s. rid \<in> ro_id ` set (roleDefinitions s) \<and> pid \<in> pe_id ` set (permissions s))) (\<lambda>keys.
      and_then (require (known \<or> keys) (Internal ''P2003'')) (\<lambda>_.
      and_then (modify (\<lambda>s. s\<lparr>rolePermissions := (if known then rolePermissions s else rolePermissions s @ [row])\<rparr>)) (\<lambda>_.
      audit_write (audit_input rq (Some (pr_id actor)) ''rbac.role_permission_assign'' ''role'' (Some rid) SUCCESS
        [(''permissionId'', JStr pid)]))))))"

definition remove_role_permission :: "request \<Rightarrow> principal \<Rightarrow> string \<Rightarrow> string \<Rightarrow> unit handler" where
  "remove_role_permission rq actor rid pid =
     and_then (modify (\<lambda>s. s\<lparr>rolePermissions := delete_many (\<lambda>rp. rp_roleId rp = rid \<and> rp_permissionId rp = pid) (rolePermissions s)\<rparr>)) (\<lambda>_.
     audit_write (audit_input rq (Some (pr_id actor)) ''rbac.role_permission_remove'' ''role'' (Some rid) SUCCESS
       [(''permissionId'', JStr pid)]))"

definition is_user_permission :: "string \<Rightarrow> string \<Rightarrow> user_permission \<Rightarrow> bool" where
  "is_user_permission uid pid up \<longleftrightarrow> up_userId up = uid \<and> up_permissionId up = pid"

definition assign_user_permission :: "request \<Rightarrow> principal \<Rightarrow> string \<Rightarrow> string \<Rightarrow> bool option \<Rightarrow> unit handler" where
  "assign_user_permission rq actor uid pid granted =
     and_then (gets (\<lambda>s. \<exists>up\<in>set (userPermissions s). is_user_permission uid pid up)) (\<lambda>known.
     and_then (gets (\<lambda>s. find_user s uid \<noteq> None \<and> pid \<in> pe_id ` set (permissions s))) (\<lambda>keys.
     and_then (require (known \<or> keys) (Internal ''P2003'')) (\<lambda>_.
     and_then (modify (\<lambda>s. s\<lparr>userPermissions :=
       (if known then update_many (is_user_permission uid pid) (\<lambda>up. up\<lparr>up_granted := set_or granted True\<rparr>) (userPermissions s)
        else userPermissions s @ [\<lparr>up_userId = uid, up_permissionId = pid, up_granted = set_or granted True\<rparr>])\<rparr>)) (\<lambda>_.
     audit_write (audit_input rq (Some (pr_id actor)) ''rbac.user_permission_assign'' ''user'' (Some uid) SUCCESS
       [(''permissionId'', JStr pid), (''granted'', JBool (set_or granted True))])))))"

definition remove_user_permission :: "request \<Rightarrow> principal \<Rightarrow> string \<Rightarrow> string \<Rightarrow> unit handler" where
  "remove_user_permission rq actor uid pid =
     and_then (modify (\<lambda>s. s\<lparr>userPermissions := delete_many (is_user_permission uid pid) (userPermissions s)\<rparr>)) (\<lambda>_.
     audit_write (audit_input rq (Some (pr_id actor)) ''rbac.user_permission_remove'' ''user'' (Some uid) SUCCESS
       [(''permissionId'', JStr pid)]))"


section \<open>Integrity\<close>

text \<open>The primary, unique and foreign keys of the five tables.\<close>

definition rbac_wf :: "state \<Rightarrow> bool" where
  "rbac_wf s \<longleftrightarrow>
     distinct (map ro_id (roleDefinitions s)) \<and> distinct (map ro_code (roleDefinitions s))
   \<and> distinct (map pe_id (permissions s)) \<and> distinct (map pe_code (permissions s))
   \<and> distinct (userRoles s) \<and> distinct (rolePermissions s)
   \<and> distinct (map (\<lambda>up. (up_userId up, up_permissionId up)) (userPermissions s))
   \<and> (\<forall>ur\<in>set (userRoles s). ur_roleId ur \<in> ro_id ` set (roleDefinitions s) \<and> ur_userId ur \<in> u_id ` set (users s))
   \<and> (\<forall>rp\<in>set (rolePermissions s). rp_roleId rp \<in> ro_id ` set (roleDefinitions s)
        \<and> rp_permissionId rp \<in> pe_id ` set (permissions s))
   \<and> (\<forall>up\<in>set (userPermissions s). up_permissionId up \<in> pe_id ` set (permissions s)
        \<and> up_userId up \<in> u_id ` set (users s))"

text \<open>A role that the system manages is still there, with its code.\<close>

definition has_system_role :: "string \<Rightarrow> role_code \<Rightarrow> state \<Rightarrow> bool" where
  "has_system_role rid code s \<longleftrightarrow>
     (\<exists>ro\<in>set (roleDefinitions s). ro_id ro = rid \<and> ro_code ro = code \<and> ro_systemManaged ro)"

definition rbac_inv :: "(string \<times> role_code) set \<Rightarrow> state \<Rightarrow> bool" where
  "rbac_inv R s \<longleftrightarrow> rbac_wf s \<and> (\<forall>(rid, code)\<in>R. has_system_role rid code s)"

inductive rbac_step :: "state \<Rightarrow> state \<Rightarrow> bool" where
  "rbac_step s (snd (create_role rq p newId code name description s))"
| "rbac_step s (snd (update_role rq p rid name' description s))"
| "rbac_step s (snd (delete_role rq p rid s))"
| "rbac_step s (snd (create_permission rq p newId pcode description s))"
| "rbac_step s (snd (update_permission rq p pid description s))"
| "rbac_step s (snd (delete_permission rq p pid s))"
| "rbac_step s (snd (assign_role rq p uid code s))"
| "rbac_step s (snd (remove_role rq p uid code s))"
| "rbac_step s (snd (assign_role_permission rq p rid pid s))"
| "rbac_step s (snd (remove_role_permission rq p rid pid s))"
| "rbac_step s (snd (assign_user_permission rq p uid pid granted s))"
| "rbac_step s (snd (remove_user_permission rq p uid pid s))"

lemma rbac_inv_audit [simp]: "rbac_inv R (s\<lparr>auditEvents := es\<rparr>) = rbac_inv R s"
  by (simp add: rbac_inv_def rbac_wf_def has_system_role_def)

named_theorems rbac_keeps "the operations keep the integrity of the tables"

lemma keeps_create_role [rbac_keeps]: "rbac_inv R s \<Longrightarrow> rbac_inv R (snd (create_role rq p newId code name description s))"
  by (auto simp: create_role_def Let_def rbac_inv_def rbac_wf_def has_system_role_def)

lemma keeps_update_role [rbac_keeps]: "rbac_inv R s \<Longrightarrow> rbac_inv R (snd (update_role rq p rid name description s))"
  by (simp add: update_role_def Let_def rbac_inv_def rbac_wf_def has_system_role_def map_update_many image_update_many
      bex_update_keeps del: in_update_many split: option.split)

lemma keeps_delete_role [rbac_keeps]:
  assumes "rbac_inv R s"
  shows "rbac_inv R (snd (delete_role rq p rid s))"
proof (cases "\<exists>ro. find_first (\<lambda>ro. ro_id ro = rid) (roleDefinitions s) = Some ro \<and> \<not> ro_systemManaged ro")
  case True
  then obtain ro where ro: "ro \<in> set (roleDefinitions s)" "ro_id ro = rid" "\<not> ro_systemManaged ro"
    and f: "find_first (\<lambda>ro. ro_id ro = rid) (roleDefinitions s) = Some ro"
    by (metis (mono_tags, lifting) find_first_Some)
  from assms have d: "distinct (map ro_id (roleDefinitions s))" by (simp add: rbac_inv_def rbac_wf_def)
  have "ro_id q \<noteq> rid" if "q \<in> set (roleDefinitions s)" "ro_systemManaged q" for q
    using unique_key [OF d that(1) ro(1)] ro that by auto
  with assms f ro show ?thesis
    by (fastforce simp: delete_role_def rbac_inv_def rbac_wf_def has_system_role_def)
next
  case False
  with assms show ?thesis by (auto simp: delete_role_def simp del: find_first_None split: option.split)
qed

lemma keeps_create_permission [rbac_keeps]:
  "rbac_inv R s \<Longrightarrow> rbac_inv R (snd (create_permission rq p newId pcode description s))"
  by (auto simp: create_permission_def Let_def rbac_inv_def rbac_wf_def has_system_role_def)

lemma keeps_update_permission [rbac_keeps]:
  "rbac_inv R s \<Longrightarrow> rbac_inv R (snd (update_permission rq p pid description s))"
  by (simp add: update_permission_def Let_def rbac_inv_def rbac_wf_def has_system_role_def map_update_many image_update_many
      del: in_update_many split: option.split)

lemma keeps_delete_permission [rbac_keeps]:
  "rbac_inv R s \<Longrightarrow> rbac_inv R (snd (delete_permission rq p pid s))"
  by (auto simp: delete_permission_def rbac_inv_def rbac_wf_def has_system_role_def)

lemma keeps_assign_role [rbac_keeps]: "rbac_inv R s \<Longrightarrow> rbac_inv R (snd (assign_role rq p uid code s))"
  by (auto simp: assign_role_def role_by_code_def Let_def rbac_inv_def rbac_wf_def has_system_role_def simp del: find_first_None
      split: option.split dest!: find_first_Some find_user_Some)

lemma keeps_remove_role [rbac_keeps]: "rbac_inv R s \<Longrightarrow> rbac_inv R (snd (remove_role rq p uid code s))"
  by (auto simp: remove_role_def rbac_inv_def rbac_wf_def has_system_role_def split: option.split)

lemma keeps_assign_role_permission [rbac_keeps]:
  "rbac_inv R s \<Longrightarrow> rbac_inv R (snd (assign_role_permission rq p rid pid s))"
  by (auto simp: assign_role_permission_def Let_def rbac_inv_def rbac_wf_def has_system_role_def)

lemma keeps_remove_role_permission [rbac_keeps]:
  "rbac_inv R s \<Longrightarrow> rbac_inv R (snd (remove_role_permission rq p rid pid s))"
  by (auto simp: remove_role_permission_def rbac_inv_def rbac_wf_def has_system_role_def)

lemma keeps_assign_user_permission [rbac_keeps]:
  "rbac_inv R s \<Longrightarrow> rbac_inv R (snd (assign_user_permission rq p uid pid granted s))"
  by (auto simp: assign_user_permission_def rbac_inv_def rbac_wf_def has_system_role_def map_update_many
      is_user_permission_def dest!: find_user_Some)

lemma keeps_remove_user_permission [rbac_keeps]:
  "rbac_inv R s \<Longrightarrow> rbac_inv R (snd (remove_user_permission rq p uid pid s))"
  by (auto simp: remove_user_permission_def rbac_inv_def rbac_wf_def has_system_role_def)

lemma rbac_step_inv: "rbac_step s s' \<Longrightarrow> rbac_inv R s \<Longrightarrow> rbac_inv R s'"
  by (induction rule: rbac_step.induct) (auto intro: rbac_keeps)

lemma rbac_steps_inv: "rbac_step\<^sup>*\<^sup>* s s' \<Longrightarrow> rbac_inv R s \<Longrightarrow> rbac_inv R s'"
  by (induction rule: rtranclp_induct) (auto intro: rbac_step_inv)

section \<open>What an assignment changes\<close>

lemma direct_codes_iff:
  "c \<in> set (direct_codes s uid) \<longleftrightarrow> (\<exists>pe\<in>set (permissions s). pe_code pe = c
     \<and> (\<exists>up\<in>set (userPermissions s). is_user_permission uid (pe_id pe) up \<and> up_granted up))"
  unfolding set_direct_codes is_user_permission_def image_iff Bex_def mem_Collect_eq by metis

lemma assign_user_permission_rows:
  assumes "assign_user_permission rq p uid pid granted s = (Inr (), s')"
  shows "(\<exists>up\<in>set (userPermissions s'). is_user_permission v q up \<and> up_granted up) \<longleftrightarrow>
     (if v = uid \<and> q = pid then set_or granted True
      else (\<exists>up\<in>set (userPermissions s). is_user_permission v q up \<and> up_granted up))"
proof (cases "\<exists>up\<in>set (userPermissions s). is_user_permission uid pid up")
  case True
  with assms have "userPermissions s' = update_many (is_user_permission uid pid)
      (\<lambda>up. up\<lparr>up_granted := set_or granted True\<rparr>) (userPermissions s)"
    by (auto simp: assign_user_permission_def)
  with True show ?thesis
    by (auto simp: is_user_permission_def bex_update_many simp del: in_update_many)
next
  case False
  with assms have "userPermissions s' = userPermissions s @
      [\<lparr>up_userId = uid, up_permissionId = pid, up_granted = set_or granted True\<rparr>]"
    by (auto simp: assign_user_permission_def split: if_splits)
  with False show ?thesis by (auto simp: is_user_permission_def)
qed

lemma assign_user_permission_frame:
  "assign_user_permission rq p uid pid granted s = (r, s') \<Longrightarrow>
     permissions s' = permissions s \<and> roleDefinitions s' = roleDefinitions s \<and> userRoles s' = userRoles s
     \<and> rolePermissions s' = rolePermissions s \<and> users s' = users s \<and> refreshSessions s' = refreshSessions s"
  by (auto simp: assign_user_permission_def split: if_splits)


lemma rbac_keys:
  assumes "rbac_wf s"
  shows "distinct (map ro_id (roleDefinitions s))" and "distinct (map ro_code (roleDefinitions s))"
    and "distinct (map pe_id (permissions s))" and "distinct (map pe_code (permissions s))"
  using assms by (simp_all add: rbac_wf_def)

lemma role_by_code_Some: "role_by_code s c = Some ro \<Longrightarrow> ro \<in> set (roleDefinitions s) \<and> ro_code ro = c"
  unfolding role_by_code_def by (drule find_first_Some) simp

lemma role_codes_iff:
  "c \<in> ro_code ` set (roles_of_user s uid) \<longleftrightarrow> (\<exists>ro\<in>set (roleDefinitions s). ro_code ro = c
     \<and> \<lparr>ur_userId = uid, ur_roleId = ro_id ro\<rparr> \<in> set (userRoles s))"
proof -
  have "(\<exists>ur\<in>set (userRoles s). ur_userId ur = uid \<and> ur_roleId ur = i)
      \<longleftrightarrow> \<lparr>ur_userId = uid, ur_roleId = i\<rparr> \<in> set (userRoles s)" for i
    by (metis (full_types) user_role.select_convs user_role.surjective old.unit.exhaust)
  then show ?thesis unfolding set_roles_of_user image_iff Bex_def mem_Collect_eq by metis
qed

lemma assign_role_rows:
  "assign_role rq p uid code s = (Inr (), s') \<Longrightarrow> \<exists>ro. role_by_code s code = Some ro
     \<and> roleDefinitions s' = roleDefinitions s
     \<and> set (userRoles s') = insert \<lparr>ur_userId = uid, ur_roleId = ro_id ro\<rparr> (set (userRoles s))"
  by (auto simp: assign_role_def Let_def split: option.splits if_splits)

lemma remove_role_rows:
  "remove_role rq p uid code s = (Inr (), s') \<Longrightarrow> \<exists>ro. role_by_code s code = Some ro
     \<and> roleDefinitions s' = roleDefinitions s
     \<and> set (userRoles s') = set (userRoles s) - {\<lparr>ur_userId = uid, ur_roleId = ro_id ro\<rparr>}"
  by (auto simp: remove_role_def split: option.splits)

text \<open>
  A role assigned to or removed from an account counts from the next request on: the account has the
  role exactly after an assignment and not after a removal, whatever it had before, and no other role and
  no other account changes.
\<close>

lemma role_in_force:
  assumes "rbac_wf s"
    and "(b \<and> assign_role rq p uid code s = (Inr (), s')) \<or> (\<not> b \<and> remove_role rq p uid code s = (Inr (), s'))"
  shows "c \<in> ro_code ` set (roles_of_user s' v) \<longleftrightarrow>
      (if v = uid \<and> c = code then b else c \<in> ro_code ` set (roles_of_user s v))"
proof -
  from assms(2) obtain ro where ro: "role_by_code s code = Some ro" and d: "roleDefinitions s' = roleDefinitions s"
    and rows: "\<And>r. r \<in> set (userRoles s') \<longleftrightarrow>
      (if r = \<lparr>ur_userId = uid, ur_roleId = ro_id ro\<rparr> then b else r \<in> set (userRoles s))"
    by (cases b) (auto dest!: assign_role_rows remove_role_rows)
  note ro' = role_by_code_Some [OF ro]
  have i: "q = ro" if "q \<in> set (roleDefinitions s)" "ro_id q = ro_id ro \<or> ro_code q = code" for q
    using unique_key [OF rbac_keys(1) [OF assms(1)] that(1)] unique_key [OF rbac_keys(2) [OF assms(1)] that(1)]
      ro' that(2) by metis
  show ?thesis unfolding role_codes_iff d rows using i ro' by auto
qed

text \<open>
  Every sequence of RBAC operations keeps the keys of the role and permission tables, and no sequence
  can remove a role that was made through \<open>createRole\<close>: the handler leaves \<open>systemManaged\<close> at its
  default, so deleting the role is refused for ever.
\<close>

lemma created_role_permanent:
  assumes "rbac_wf s" and "create_role rq p rid code name description s = (Inr ro, s1)" and "rbac_step\<^sup>*\<^sup>* s1 s2"
  shows "rbac_wf s2 \<and> (\<exists>q\<in>set (roleDefinitions s2). ro_id q = rid \<and> ro_code q = code)
    \<and> delete_role rq' p' rid s2 = (Inl (Conflict ''System roles cannot be deleted''), s2)"
proof -
  have "rbac_inv {} s" using assms(1) by (simp add: rbac_inv_def)
  from keeps_create_role [OF this] have "rbac_wf s1"
    using assms(2) unfolding rbac_inv_def by (metis snd_conv)
  moreover have "has_system_role rid code s1"
    using assms(2) by (auto simp: create_role_def Let_def has_system_role_def split: if_splits)
  ultimately have "rbac_inv {(rid, code)} s1" by (simp add: rbac_inv_def)
  from rbac_steps_inv [OF assms(3) this] have w: "rbac_wf s2" and h: "has_system_role rid code s2"
    by (simp_all add: rbac_inv_def)
  from h obtain q where q: "q \<in> set (roleDefinitions s2)" "ro_id q = rid" "ro_code q = code" "ro_systemManaged q"
    by (auto simp: has_system_role_def)
  have "find_first (\<lambda>ro. ro_id ro = rid) (roleDefinitions s2) = Some q"
    by (rule find_first_key [OF rbac_keys(1) [OF w] q(1)]) (simp_all add: q(2))
  with w q show ?thesis by (auto simp: delete_role_def)
qed

text \<open>
  A permission assigned to an account directly is in force from the next request on: with \<open>granted\<close>
  (the default) its code joins the codes of the account, otherwise it leaves them; no other code and no other
  account changes.
\<close>

lemma user_permission_in_force:
  assumes "rbac_wf s" and "pe \<in> set (permissions s)"
    and "assign_user_permission rq p uid (pe_id pe) granted s = (Inr (), s')"
  shows "c \<in> set (direct_codes s' v) \<longleftrightarrow>
      (if v = uid \<and> c = pe_code pe then set_or granted True else c \<in> set (direct_codes s v))"
proof -
  have d: "distinct (map pe_id (permissions s))" "distinct (map pe_code (permissions s))"
    using assms(1) by (simp_all add: rbac_wf_def)
  have i: "q = pe" if "q \<in> set (permissions s)" "pe_id q = pe_id pe \<or> pe_code q = pe_code pe" for q
    using unique_key [OF d(1) that(1) assms(2)] unique_key [OF d(2) that(1) assms(2)] that(2) by blast
  note f = assign_user_permission_frame [OF assms(3)]
  note rows = assign_user_permission_rows [OF assms(3)]
  show ?thesis
  proof (cases "v = uid \<and> c = pe_code pe")
    case True
    then have "(\<exists>q\<in>set (permissions s). pe_code q = c \<and> A q) \<longleftrightarrow> A pe" for A
      using i assms(2) by blast
    with True show ?thesis unfolding direct_codes_iff rows conjunct1 [OF f] by simp
  next
    case False
    then have n: "\<not> (v = uid \<and> pe_id q = pe_id pe)" if "q \<in> set (permissions s)" "pe_code q = c" for q
      using i that by blast
    show ?thesis unfolding direct_codes_iff rows conjunct1 [OF f] if_not_P [OF False]
      by (rule bex_cong [OF refl], rule conj_cong [OF refl]) (simp add: n)
  qed
qed

definition rbac_demo :: state where
  "rbac_demo = demo_state\<lparr>permissions := permissions demo_state @
     [\<lparr>pe_id = ''p2'', pe_code = ''roles.write'', pe_description = None\<rparr>]\<rparr>"

lemma rbac_demo_wf: "rbac_wf rbac_demo"
  by (simp add: rbac_wf_def rbac_demo_def demo_defs)

lemma user_permission_in_force_example:
  "''roles.write'' \<notin> set (direct_codes rbac_demo ''u1'')
   \<and> (\<exists>s'. assign_user_permission demo_request (principal_of rbac_demo demo_user ''s1'') ''u1'' ''p2'' None rbac_demo
       = (Inr (), s') \<and> ''roles.write'' \<in> set (direct_codes s' ''u1''))"
proof -
  let ?pe = "\<lparr>pe_id = ''p2'', pe_code = ''roles.write'', pe_description = None\<rparr>"
  let ?m = "assign_user_permission demo_request (principal_of rbac_demo demo_user ''s1'') ''u1'' (pe_id ?pe) None"
  have "\<not> isl (fst (?m rbac_demo))" by code_simp
  from prog_done [of ?m, OF this] obtain s' where ok: "?m rbac_demo = (Inr (), s')" by blast
  have pe: "?pe \<in> set (permissions rbac_demo)" by (simp add: rbac_demo_def)
  from user_permission_in_force [OF rbac_demo_wf pe ok, of "''roles.write''" "''u1''"]
  have "''roles.write'' \<in> set (direct_codes s' ''u1'')" by simp
  moreover have "''roles.write'' \<notin> set (direct_codes rbac_demo ''u1'')" by code_simp
  ultimately show ?thesis using ok by auto
qed

lemma role_in_force_example:
  "\<exists>s'. remove_role demo_request (principal_of rbac_demo demo_user ''s1'') ''u1'' ADMIN rbac_demo = (Inr (), s')
     \<and> ADMIN \<notin> ro_code ` set (roles_of_user s' ''u1'') \<and> ADMIN \<in> ro_code ` set (roles_of_user rbac_demo ''u1'')"
proof -
  let ?m = "remove_role demo_request (principal_of rbac_demo demo_user ''s1'') ''u1'' ADMIN"
  have "\<not> isl (fst (?m rbac_demo))" by code_simp
  from prog_done [of ?m, OF this] obtain s' where ok: "?m rbac_demo = (Inr (), s')" by blast
  have "ADMIN \<notin> ro_code ` set (roles_of_user s' ''u1'')"
    using role_in_force [OF rbac_demo_wf, of False, where c = ADMIN and v = "''u1''"] ok by simp
  moreover have "ADMIN \<in> ro_code ` set (roles_of_user rbac_demo ''u1'')" by code_simp
  ultimately show ?thesis using ok by blast
qed

lemma created_role_permanent_example:
  "\<exists>s1. fst (create_role demo_request (principal_of rbac_demo demo_user ''s1'') ''r9'' MODERATOR ''Mods'' None rbac_demo)
        = Inr \<lparr>ro_id = ''r9'', ro_code = MODERATOR, ro_name = ''Mods'', ro_description = None, ro_systemManaged = True\<rparr>
     \<and> fst (delete_role demo_request (principal_of rbac_demo demo_user ''s1'') ''r9'' s1)
        = Inl (Conflict ''System roles cannot be deleted'')"
proof -
  let ?m = "create_role demo_request (principal_of rbac_demo demo_user ''s1'') ''r9'' MODERATOR ''Mods'' None"
  let ?ro = "\<lparr>ro_id = ''r9'', ro_code = MODERATOR, ro_name = ''Mods'', ro_description = None, ro_systemManaged = True\<rparr>"
  have f: "fst (?m rbac_demo) = Inr ?ro" by code_simp
  then obtain s1 where "?m rbac_demo = (Inr ?ro, s1)" by (metis prod.collapse)
  from created_role_permanent [OF rbac_demo_wf this rtranclp.rtrancl_refl] f show ?thesis by (metis fst_conv)
qed

end
