(* ===== verification/SupportChat.thy ===== *)
theory SupportChat
  imports Principals
begin

text \<open>
  \<open>src/support-chat/support-chat.service.ts\<close>: the support inbox. One conversation per account, its
  messages, the unread counters of the two sides, and the authentication of a socket
  (\<open>principal_from_token\<close>), which has to agree with the one of HTTP requests.

  \<open>lastMessageAt\<close> is set to the creation time of the message: both are the instant of the request.
\<close>

section \<open>Who is calling\<close>

definition set_add :: "'a list \<Rightarrow> 'a \<Rightarrow> 'a list" where
  "set_add xs x = (if x \<in> set xs then xs else xs @ [x])"

text \<open>\<open>null\<close> is \<open>None\<close>; whatever throws inside is \<open>null\<close> too.\<close>

definition principal_from_token :: "platform \<Rightarrow> request \<Rightarrow> string \<Rightarrow> principal option handler" where
  "principal_from_token pf rq token =
     (case pf_verifyAccess pf token (rq_now rq) of
        None \<Rightarrow> ret None
      | Some (sub, sid) \<Rightarrow> gets (\<lambda>s.
          case find_first (\<lambda>r. rs_id r = sid \<and> rs_userId r = sub \<and> rs_revokedAt r = None
                 \<and> rq_now rq < rs_expiresAt r \<and> user_not_deleted s (rs_userId r)) (refreshSessions s) of
            None \<Rightarrow> None
          | Some r \<Rightarrow> (case find_user s (rs_userId r) of
              None \<Rightarrow> None
            | Some u \<Rightarrow> if u_status u \<noteq> User_ACTIVE then None
                else let roles = roles_of_user s (u_id u);
                         fromRoles = foldl (\<lambda>p ro. foldl set_add p (codes_of_role s (ro_id ro))) [] roles;
                         perms = foldl set_add fromRoles (direct_codes s (u_id u))
                     in Some \<lparr>pr_id = u_id u, pr_sessionId = sid, pr_roles = map ro_code roles,
                          pr_permissions = perms, pr_status = u_status u\<rparr>)))"

definition is_staff :: "principal \<Rightarrow> bool" where
  "is_staff a \<longleftrightarrow> SUPER_ADMIN \<in> set (pr_roles a) \<or> ADMIN \<in> set (pr_roles a) \<or> SUB_ADMIN \<in> set (pr_roles a)
     \<or> MODERATOR \<in> set (pr_roles a) \<or> ''messages.read'' \<in> set (pr_permissions a)"

definition assert_staff :: "principal \<Rightarrow> unit handler" where
  "assert_staff a = require (is_staff a) (Forbidden ''Support chat inbox is not available'')"

section \<open>What is shown\<close>

definition starts_http :: "string \<Rightarrow> bool" where
  "starts_http v \<longleftrightarrow> starts_with (to_lower v) ''http://'' \<or> starts_with (to_lower v) ''https://''"

definition is_slash :: "char \<Rightarrow> bool" where
  "is_slash c \<longleftrightarrow> c = CHR ''/''"

definition public_media_url :: "config \<Rightarrow> string option \<Rightarrow> string option" where
  "public_media_url cf value =
     (case truthy value of
        None \<Rightarrow> None
      | Some v \<Rightarrow>
          if starts_http v then Some v
          else let base = rev (dropWhile is_slash (rev (cf_r2PublicBaseUrl cf)))
               in Some (if base \<noteq> [] then base @ ''/'' @ dropWhile is_slash v else v))"

text \<open>The sender joins the message with its id, name and e-mail address.\<close>

record message_view =
  mv_message :: support_message
  mv_mediaUrl :: "string option"
  mv_fileSize :: "int option"
  mv_sender :: "(string \<times> string \<times> string) option"

definition person_of :: "state \<Rightarrow> string option \<Rightarrow> (string \<times> string \<times> string) option" where
  "person_of s i = map_option (\<lambda>u. (u_id u, u_username u, u_email u)) (Option.bind i (find_user s))"

definition present_message :: "config \<Rightarrow> state \<Rightarrow> support_message \<Rightarrow> message_view" where
  "present_message cf s m =
     \<lparr>mv_message = m, mv_mediaUrl = public_media_url cf (sm_mediaUrl m),
      mv_fileSize = (if sm_fileSize m = Some 0 then None else sm_fileSize m),
      mv_sender = person_of s (sm_senderId m)\<rparr>"

record conversation_view =
  cv_conversation :: support_conversation
  cv_user :: "(string \<times> string \<times> string) option"
  cv_assignedAdmin :: "(string \<times> string \<times> string) option"
  cv_lastMessage :: "support_message option"

text \<open>\<open>conversationInclude\<close> and \<open>presentConversation\<close>: the newest message, whether it was deleted or not.\<close>

definition present_conversation :: "state \<Rightarrow> support_conversation \<Rightarrow> conversation_view" where
  "present_conversation s c =
     \<lparr>cv_conversation = c, cv_user = person_of s (Some (sc_userId c)),
      cv_assignedAdmin = person_of s (sc_assignedAdminId c),
      cv_lastMessage = find_latest sm_createdAt (filter (\<lambda>m. sm_conversationId m = sc_id c) (supportMessages s))\<rparr>"

section \<open>Conversations\<close>

definition welcome_text :: string where
  "welcome_text = ''Welcome to Urdu Bolo Support.'' @ [CHR 0x0A] @ ''How can we help you today?''"

definition conversation_of :: "state \<Rightarrow> string \<Rightarrow> support_conversation option" where
  "conversation_of s uid = find_first (\<lambda>c. sc_userId c = uid \<and> sc_deletedAt c = None) (supportConversations s)"

definition blank_message :: "request \<Rightarrow> string \<Rightarrow> string \<Rightarrow> sender_type \<Rightarrow> message_type \<Rightarrow> support_message" where
  "blank_message rq mid cid sender kind =
     \<lparr>sm_id = mid, sm_conversationId = cid, sm_senderType = sender, sm_senderId = None, sm_messageType = kind,
      sm_text = None, sm_mediaUrl = None, sm_thumbnail = None, sm_voiceDuration = None, sm_fileSize = None,
      sm_mimeType = None, sm_replyToMessageId = None, sm_status = Msg_DELIVERED,
      sm_deliveredAt = Some (rq_now rq), sm_seenAt = None, sm_deletedByUser = False, sm_deletedByAdmin = False,
      sm_createdAt = rq_now rq\<rparr>"

definition create_message_row :: "support_message \<Rightarrow> unit handler" where
  "create_message_row m =
     and_then (gets supportMessages) (\<lambda>t.
     and_then (require (\<forall>q\<in>set t. sm_id q \<noteq> sm_id m) (Internal ''P2002'')) (\<lambda>_.
     modify (\<lambda>s. s\<lparr>supportMessages := supportMessages s @ [m]\<rparr>)))"

definition update_conversation :: "string \<Rightarrow> (support_conversation \<Rightarrow> support_conversation) \<Rightarrow> unit handler" where
  "update_conversation cid f =
     and_then (gets (\<lambda>s. \<exists>c\<in>set (supportConversations s). sc_id c = cid)) (\<lambda>b.
     and_then (require b (Internal ''P2025'')) (\<lambda>_.
     modify (\<lambda>s. s\<lparr>supportConversations := update_many (\<lambda>c. sc_id c = cid) f (supportConversations s)\<rparr>)))"

text \<open>
  \<open>userId\<close> is unique over all rows, so an account whose conversation was soft-deleted cannot open another
  (\<open>P2002\<close>). \<open>cid\<close> and \<open>mid\<close> are the fresh ids.
\<close>

definition ensure_conversation :: "request \<Rightarrow> string \<Rightarrow> string \<Rightarrow> string \<Rightarrow> support_conversation handler" where
  "ensure_conversation rq uid cid mid =
     and_then (gets (\<lambda>s. conversation_of s uid)) (\<lambda>existing.
     case existing of
       Some c \<Rightarrow> ret c
     | None \<Rightarrow>
         let conversation = \<lparr>sc_id = cid, sc_userId = uid, sc_assignedAdminId = None, sc_status = Conv_OPEN,
               sc_lastMessageId = None, sc_lastMessageAt = None, sc_userUnreadCount = 0, sc_adminUnreadCount = 0,
               sc_userLastSeenAt = None, sc_adminLastSeenAt = None, sc_createdAt = rq_now rq, sc_deletedAt = None\<rparr>;
             last = (\<lambda>c. c\<lparr>sc_lastMessageId := Some mid, sc_lastMessageAt := Some (rq_now rq)\<rparr>)
         in transaction
           (and_then (gets supportConversations) (\<lambda>t.
            and_then (require (\<forall>c\<in>set t. sc_userId c \<noteq> uid \<and> sc_id c \<noteq> cid) (Internal ''P2002'')) (\<lambda>_.
            and_then (modify (\<lambda>s. s\<lparr>supportConversations := supportConversations s @ [conversation]\<rparr>)) (\<lambda>_.
            and_then (create_message_row ((blank_message rq mid cid Sender_SYSTEM Msg_SYSTEM)\<lparr>sm_text := Some welcome_text\<rparr>)) (\<lambda>_.
            and_then (update_conversation cid last) (\<lambda>_. ret (last conversation))))))))"

definition require_conversation :: "principal \<Rightarrow> string \<Rightarrow> support_conversation handler" where
  "require_conversation a cid =
     and_then (gets (\<lambda>s. find_first (\<lambda>c. sc_id c = cid \<and> sc_deletedAt c = None) (supportConversations s))) (\<lambda>c.
     and_then (expect c (NotFound ''Conversation not found'')) (\<lambda>c.
     and_then (require (is_staff a \<or> sc_userId c = pr_id a) (Forbidden ''Conversation is not available'')) (\<lambda>_.
     ret c)))"

definition get_my_conversation :: "request \<Rightarrow> principal \<Rightarrow> string \<Rightarrow> string \<Rightarrow> conversation_view handler" where
  "get_my_conversation rq a cid mid =
     and_then (ensure_conversation rq (pr_id a) cid mid) (\<lambda>c. gets (\<lambda>s. present_conversation s c))"

datatype status_filter = Only conversation_status | UNREAD

record conversation_query =
  vq_page :: page_query
  vq_search :: "string option"
  vq_status :: "status_filter option"
  vq_oldest :: bool

definition conversation_matches :: "state \<Rightarrow> conversation_query \<Rightarrow> support_conversation \<Rightarrow> bool" where
  "conversation_matches s q c \<longleftrightarrow> sc_deletedAt c = None
     \<and> (case vq_status q of None \<Rightarrow> True | Some UNREAD \<Rightarrow> 0 < sc_adminUnreadCount c | Some (Only st) \<Rightarrow> sc_status c = st)
     \<and> (case truthy (vq_search q) of None \<Rightarrow> True
        | Some p \<Rightarrow> (case find_user s (sc_userId c) of None \<Rightarrow> False
            | Some u \<Rightarrow> contains_ci (u_username u) (trim p) \<or> contains_ci (u_email u) (to_lower (trim p))))"

text \<open>PostgreSQL puts a null \<open>lastMessageAt\<close> last when ascending and first when descending.\<close>

definition by_last_message :: "bool \<Rightarrow> support_conversation list \<Rightarrow> support_conversation list" where
  "by_last_message oldest t =
     (let dated = filter (\<lambda>c. sc_lastMessageAt c \<noteq> None) t;
          undated = filter (\<lambda>c. sc_lastMessageAt c = None) t;
          key = (\<lambda>c. case sc_lastMessageAt c of None \<Rightarrow> 0 | Some x \<Rightarrow> x)
      in if oldest then order_asc key dated @ undated else undated @ order_desc key dated)"

definition list_conversations :: "principal \<Rightarrow> conversation_query \<Rightarrow> conversation_view page handler" where
  "list_conversations a q =
     and_then (assert_staff a) (\<lambda>_.
     gets (\<lambda>s. list_page (vq_page q) (map (present_conversation s)
       (by_last_message (vq_oldest q) (filter (conversation_matches s q) (supportConversations s))))))"

record support_stats =
  ss_total :: nat
  ss_unread :: nat
  ss_waiting :: nat
  ss_resolved :: nat
  ss_blocked :: nat

definition stats :: "principal \<Rightarrow> support_stats handler" where
  "stats a =
     and_then (assert_staff a) (\<lambda>_.
     gets (\<lambda>s. let n = (\<lambda>P. count_where (\<lambda>c. sc_deletedAt c = None \<and> P c) (supportConversations s)) in
       \<lparr>ss_total = n (\<lambda>_. True), ss_unread = n (\<lambda>c. 0 < sc_adminUnreadCount c),
        ss_waiting = n (\<lambda>c. sc_status c = Conv_WAITING), ss_resolved = n (\<lambda>c. sc_status c = Conv_RESOLVED),
        ss_blocked = n (\<lambda>c. sc_status c = Conv_BLOCKED)\<rparr>))"

definition visible_to :: "principal \<Rightarrow> support_message \<Rightarrow> bool" where
  "visible_to a m \<longleftrightarrow> (if is_staff a then \<not> sm_deletedByAdmin m else \<not> sm_deletedByUser m)"

text \<open>The newest page first, but each page in the order of writing (\<open>items.reverse()\<close>).\<close>

definition list_conversation_messages :: "config \<Rightarrow> string \<Rightarrow> principal \<Rightarrow> page_query \<Rightarrow> message_view page handler" where
  "list_conversation_messages cf cid a q =
     and_then (require_conversation a cid) (\<lambda>c.
     gets (\<lambda>s. let pg = list_page q (order_desc sm_createdAt
            (filter (\<lambda>m. sm_conversationId m = sc_id c \<and> visible_to a m) (supportMessages s)))
       in \<lparr>pg_items = map (present_message cf s) (rev (pg_items pg)), pg_page = pg_page pg, pg_limit = pg_limit pg,
           pg_total = pg_total pg, pg_totalPages = pg_totalPages pg\<rparr>))"

definition list_my_messages :: "config \<Rightarrow> request \<Rightarrow> principal \<Rightarrow> string \<Rightarrow> string \<Rightarrow> page_query \<Rightarrow> message_view page handler" where
  "list_my_messages cf rq a cid mid q =
     and_then (ensure_conversation rq (pr_id a) cid mid) (\<lambda>c. list_conversation_messages cf (sc_id c) a q)"

section \<open>Messages\<close>

record message_input =
  mi_text :: "string option"
  mi_message :: "string option"
  mi_messageType :: "message_type option"
  mi_mediaUrl :: "string option"
  mi_thumbnail :: "string option"
  mi_mimeType :: "string option"
  mi_originalName :: "string option"
  mi_fileSize :: "int option"
  mi_voiceDuration :: "int option"
  mi_replyToMessageId :: "string option"

text \<open>A plain string is the payload \<open>{ text }\<close>.\<close>

definition text_input :: "string \<Rightarrow> message_input" where
  "text_input t = \<lparr>mi_text = Some t, mi_message = None, mi_messageType = None, mi_mediaUrl = None, mi_thumbnail = None,
     mi_mimeType = None, mi_originalName = None, mi_fileSize = None, mi_voiceDuration = None, mi_replyToMessageId = None\<rparr>"

definition message_type_text :: "message_type \<Rightarrow> string" where
  "message_type_text t = (case t of Msg_TEXT \<Rightarrow> ''TEXT'' | Msg_IMAGE \<Rightarrow> ''IMAGE'' | Msg_VIDEO \<Rightarrow> ''VIDEO''
     | Msg_VOICE \<Rightarrow> ''VOICE'' | Msg_FILE \<Rightarrow> ''FILE'' | Msg_SYSTEM \<Rightarrow> ''SYSTEM'')"

definition input_text :: "message_input \<Rightarrow> string" where
  "input_text i = trim (set_or (case mi_text i of None \<Rightarrow> mi_message i | t \<Rightarrow> t) [])"

definition input_type :: "message_input \<Rightarrow> message_type" where
  "input_type i = set_or (mi_messageType i) (if truthy (mi_mediaUrl i) \<noteq> None then Msg_FILE else Msg_TEXT)"

definition message_row :: "request \<Rightarrow> string \<Rightarrow> string \<Rightarrow> principal \<Rightarrow> sender_type \<Rightarrow> message_input \<Rightarrow> support_message" where
  "message_row rq mid cid a sender i =
     (blank_message rq mid cid sender (input_type i))\<lparr>sm_senderId := Some (pr_id a),
        sm_text := Some (if input_text i \<noteq> [] then input_text i
          else case truthy (mi_originalName i) of Some n \<Rightarrow> n | None \<Rightarrow> message_type_text (input_type i)),
        sm_mediaUrl := mi_mediaUrl i, sm_thumbnail := mi_thumbnail i, sm_voiceDuration := mi_voiceDuration i,
        sm_fileSize := (if mi_fileSize i = Some 0 then None else mi_fileSize i), sm_mimeType := mi_mimeType i\<rparr>"

definition after_message :: "request \<Rightarrow> principal \<Rightarrow> sender_type \<Rightarrow> string \<Rightarrow> support_conversation \<Rightarrow> support_conversation" where
  "after_message rq a sender mid c =
     c\<lparr>sc_assignedAdminId := (if sender = Sender_ADMIN then Some (pr_id a) else sc_assignedAdminId c),
       sc_status := (if sender = Sender_USER then Conv_WAITING else Conv_OPEN),
       sc_lastMessageId := Some mid, sc_lastMessageAt := Some (rq_now rq),
       sc_adminUnreadCount := sc_adminUnreadCount c + (if sender = Sender_USER then 1 else 0),
       sc_userUnreadCount := sc_userUnreadCount c + (if sender = Sender_ADMIN then 1 else 0)\<rparr>"

definition create_message :: "config \<Rightarrow> request \<Rightarrow> string \<Rightarrow> principal \<Rightarrow> sender_type \<Rightarrow> message_input \<Rightarrow> string
    \<Rightarrow> message_view handler" where
  "create_message cf rq cid a sender i mid =
     and_then (require (input_text i \<noteq> [] \<or> truthy (mi_mediaUrl i) \<noteq> None)
       (BadRequest ''Message text or media is required'')) (\<lambda>_.
     let row = message_row rq mid cid a sender i in
     and_then (transaction
       (and_then (create_message_row row) (\<lambda>_.
        update_conversation cid (after_message rq a sender mid)))) (\<lambda>_.
     gets (\<lambda>s. present_message cf s row)))"

text \<open>\<open>if (requestId)\<close>: the HTTP routes pass one, the socket does not.\<close>

definition audit_message :: "request \<Rightarrow> bool \<Rightarrow> principal \<Rightarrow> string \<Rightarrow> string \<Rightarrow> unit handler" where
  "audit_message rq http a action cid = (if http then
     audit_write (audit_input rq (Some (pr_id a)) action ''support_conversation'' (Some cid) SUCCESS []) else ret ())"

definition send_user_message :: "config \<Rightarrow> request \<Rightarrow> bool \<Rightarrow> principal \<Rightarrow> message_input \<Rightarrow> string \<Rightarrow> string \<Rightarrow> string
    \<Rightarrow> message_view handler" where
  "send_user_message cf rq http a i newCid newMid mid =
     and_then (ensure_conversation rq (pr_id a) newCid newMid) (\<lambda>c.
     and_then (create_message cf rq (sc_id c) a Sender_USER i mid) (\<lambda>m.
     and_then (audit_message rq http a ''support.message_user_create'' (sc_id c)) (\<lambda>_. ret m)))"

definition send_admin_message :: "config \<Rightarrow> request \<Rightarrow> bool \<Rightarrow> string \<Rightarrow> principal \<Rightarrow> message_input \<Rightarrow> string
    \<Rightarrow> message_view handler" where
  "send_admin_message cf rq http cid a i mid =
     and_then (assert_staff a) (\<lambda>_.
     and_then (require_conversation a cid) (\<lambda>c.
     and_then (create_message cf rq (sc_id c) a Sender_ADMIN i mid) (\<lambda>m.
     and_then (audit_message rq http a ''support.message_admin_create'' (sc_id c)) (\<lambda>_. ret m))))"

definition mark_seen :: "request \<Rightarrow> string \<Rightarrow> principal \<Rightarrow> (string \<times> instant) handler" where
  "mark_seen rq cid a =
     and_then (require_conversation a cid) (\<lambda>c.
     let sender = (if is_staff a then Sender_USER else Sender_ADMIN) in
     and_then (transaction
       (and_then (modify (\<lambda>s. s\<lparr>supportMessages := update_many
          (\<lambda>m. sm_conversationId m = sc_id c \<and> sm_senderType m = sender \<and> sm_status m \<noteq> Msg_SEEN)
          (\<lambda>m. m\<lparr>sm_status := Msg_SEEN, sm_seenAt := Some (rq_now rq)\<rparr>) (supportMessages s)\<rparr>)) (\<lambda>_.
        update_conversation (sc_id c) (\<lambda>c. if is_staff a
          then c\<lparr>sc_adminUnreadCount := 0, sc_adminLastSeenAt := Some (rq_now rq)\<rparr>
          else c\<lparr>sc_userUnreadCount := 0, sc_userLastSeenAt := Some (rq_now rq)\<rparr>)))) (\<lambda>_.
     ret (sc_id c, rq_now rq)))"

definition update_conversation_status :: "string \<Rightarrow> principal \<Rightarrow> conversation_status \<Rightarrow> conversation_view handler" where
  "update_conversation_status cid a status =
     and_then (assert_staff a) (\<lambda>_.
     and_then (require_conversation a cid) (\<lambda>c.
     let change = (\<lambda>c. c\<lparr>sc_status := status, sc_assignedAdminId := Some (pr_id a)\<rparr>) in
     and_then (update_conversation (sc_id c) change) (\<lambda>_.
     gets (\<lambda>s. present_conversation s (change c)))))"

definition delete_message :: "config \<Rightarrow> string \<Rightarrow> principal \<Rightarrow> message_view handler" where
  "delete_message cf mid a =
     and_then (gets (\<lambda>s. find_first (\<lambda>m. sm_id m = mid) (supportMessages s))) (\<lambda>m.
     and_then (expect m (NotFound ''Message not found'')) (\<lambda>m.
     and_then (require_conversation a (sm_conversationId m)) (\<lambda>_.
     let change = (\<lambda>m. if is_staff a then m\<lparr>sm_deletedByAdmin := True\<rparr> else m\<lparr>sm_deletedByUser := True\<rparr>) in
     and_then (modify (\<lambda>s. s\<lparr>supportMessages := update_many (\<lambda>m. sm_id m = mid) change (supportMessages s)\<rparr>)) (\<lambda>_.
     gets (\<lambda>s. present_message cf s (change m))))))"

section \<open>A socket and a request are authenticated alike\<close>

lemma foldl_set_add: "foldl set_add [] xs = js_set xs"
proof (induction xs rule: rev_induct)
  case Nil
  then show ?case by (simp add: js_set_def)
next
  case (snoc x xs)
  then show ?case by (auto simp: set_add_def js_set_def)
qed

lemma foldl_set_add_concat: "foldl (\<lambda>p x. foldl set_add p (f x)) p xs = foldl set_add p (concat (map f xs))"
  by (induction xs arbitrary: p) simp_all

lemma foldl_set_add_js_set: "foldl set_add (foldl set_add [] xs) ys = js_set (xs @ ys)"
  by (metis foldl_append foldl_set_add)

text \<open>
  The socket gateway accepts exactly the tokens that an HTTP request would be accepted with, at the
  same instant, and gives the connection the same principal.
\<close>

lemma socket_token_as_http:
  "principal_from_token pf rq token s =
     (Inr (case pf_verifyAccess pf token (rq_now rq) of
        None \<Rightarrow> None
      | Some (sub, sid) \<Rightarrow> (case jwt_validate (rq_now rq) sub sid s of (Inr p, _) \<Rightarrow> Some p | (Inl _, _) \<Rightarrow> None)), s)"
  by (simp add: principal_from_token_def jwt_validate_def access_session_def principal_of_def Let_def
      foldl_set_add_concat foldl_set_add_js_set del: find_first_None split: option.split)

section \<open>Unread counters\<close>

definition unseen :: "sender_type \<Rightarrow> string \<Rightarrow> support_message list \<Rightarrow> nat" where
  "unseen sender cid t = count_where
     (\<lambda>m. sm_conversationId m = cid \<and> sm_senderType m = sender \<and> sm_status m \<noteq> Msg_SEEN) t"

definition chat_wf :: "state \<Rightarrow> bool" where
  "chat_wf s \<longleftrightarrow> distinct (map sc_id (supportConversations s)) \<and> distinct (map sc_userId (supportConversations s))
     \<and> distinct (map sm_id (supportMessages s))
     \<and> (\<forall>m\<in>set (supportMessages s). sm_conversationId m \<in> sc_id ` set (supportConversations s))"

text \<open>The two counters of a conversation are the numbers of messages the other side has not seen.\<close>

definition counters_ok :: "state \<Rightarrow> bool" where
  "counters_ok s \<longleftrightarrow> (\<forall>c\<in>set (supportConversations s).
     sc_adminUnreadCount c = unseen Sender_USER (sc_id c) (supportMessages s)
   \<and> sc_userUnreadCount c = unseen Sender_ADMIN (sc_id c) (supportMessages s))"

definition chat_inv :: "state \<Rightarrow> bool" where
  "chat_inv s \<longleftrightarrow> chat_wf s \<and> counters_ok s"

lemma chat_inv_audit [simp]: "chat_inv (s\<lparr>auditEvents := es\<rparr>) = chat_inv s"
  by (simp add: chat_inv_def chat_wf_def counters_ok_def)

lemma unseen_append [simp]: "unseen sender cid (t @ t') = unseen sender cid t + unseen sender cid t'"
  by (simp add: unseen_def)

lemma unseen_single: "unseen sender cid [m] =
    (if sm_conversationId m = cid \<and> sm_senderType m = sender \<and> sm_status m \<noteq> Msg_SEEN then 1 else 0)"
  by (simp add: unseen_def)

lemma unseen_no_conversation: "chat_wf s \<Longrightarrow> cid \<notin> sc_id ` set (supportConversations s)
    \<Longrightarrow> unseen sender cid (supportMessages s) = 0"
  by (auto simp: unseen_def chat_wf_def)

text \<open>A new message with the matching change of its conversation.\<close>

lemma chat_inv_message:
  assumes inv: "chat_inv s" and fresh: "sm_id m \<notin> sm_id ` set (supportMessages s)"
    and c: "sm_conversationId m \<in> sc_id ` set (supportConversations s)"
    and f: "\<And>c. sc_id (f c) = sc_id c" "\<And>c. sc_userId (f c) = sc_userId c"
      "\<And>c. sc_adminUnreadCount (f c) = sc_adminUnreadCount c + unseen Sender_USER (sm_conversationId m) [m]"
      "\<And>c. sc_userUnreadCount (f c) = sc_userUnreadCount c + unseen Sender_ADMIN (sm_conversationId m) [m]"
  shows "chat_inv (s\<lparr>supportMessages := supportMessages s @ [m],
    supportConversations := update_many (\<lambda>c. sc_id c = sm_conversationId m) f (supportConversations s)\<rparr>)"
proof -
  have i: "sc_id ` set (update_many (\<lambda>c. sc_id c = sm_conversationId m) f (supportConversations s))
      = sc_id ` set (supportConversations s)"
    using map_update_many [of _ sc_id f] f(1) by (metis image_set)
  show ?thesis
    using inv fresh c f unfolding chat_inv_def chat_wf_def counters_ok_def
    by (auto simp: map_update_many i ball_update_many unseen_single simp del: in_update_many)
qed

lemma chat_inv_conversation:
  assumes "chat_inv s" and "\<And>c. sc_id (f c) = sc_id c" and "\<And>c. sc_userId (f c) = sc_userId c"
    and "\<And>c. sc_adminUnreadCount (f c) = sc_adminUnreadCount c" and "\<And>c. sc_userUnreadCount (f c) = sc_userUnreadCount c"
  shows "chat_inv (s\<lparr>supportConversations := update_many P f (supportConversations s)\<rparr>)"
proof -
  have i: "sc_id ` set (update_many P f (supportConversations s)) = sc_id ` set (supportConversations s)"
    using map_update_many [of _ sc_id f] assms(2) by (metis image_set)
  show ?thesis
    using assms unfolding chat_inv_def chat_wf_def counters_ok_def
    by (auto simp: map_update_many i ball_update_many simp del: in_update_many)
qed

text \<open>The building blocks keep the invariant; a message and its conversation change together.\<close>

named_theorems chat_keeps "the support operations keep the chat invariant"

lemma keeps_require_conversation [chat_keeps, keeps_rules]: "keeps I (require_conversation a cid)"
  by (auto simp: require_conversation_def intro!: keeps_rules)

lemma keeps_assert_staff [chat_keeps, keeps_rules]: "keeps I (assert_staff a)"
  by (simp add: assert_staff_def keeps_rules)

lemma chat_inv_new_conversation:
  assumes "chat_inv s" and "\<forall>q\<in>set (supportConversations s). sc_userId q \<noteq> sc_userId c \<and> sc_id q \<noteq> sc_id c"
    and "sc_adminUnreadCount c = 0" and "sc_userUnreadCount c = 0"
  shows "chat_inv (s\<lparr>supportConversations := supportConversations s @ [c]\<rparr>)"
proof -
  have "sc_id c \<notin> sc_id ` set (supportConversations s)" using assms(2) by force
  from unseen_no_conversation [OF _ this] assms show ?thesis
    by (auto simp: chat_inv_def chat_wf_def counters_ok_def)
qed

lemma chat_inv_create_and_update:
  assumes "chat_inv s" and "and_then (create_message_row m) (\<lambda>_. update_conversation (sm_conversationId m) f) s = (Inr x, s')"
    and "\<And>c. sc_id (f c) = sc_id c" and "\<And>c. sc_userId (f c) = sc_userId c"
    and "\<And>c. sc_adminUnreadCount (f c) = sc_adminUnreadCount c + unseen Sender_USER (sm_conversationId m) [m]"
    and "\<And>c. sc_userUnreadCount (f c) = sc_userUnreadCount c + unseen Sender_ADMIN (sm_conversationId m) [m]"
  shows "chat_inv s'"
proof -
  from assms(2) have fresh: "sm_id m \<notin> sm_id ` set (supportMessages s)"
    and c: "sm_conversationId m \<in> sc_id ` set (supportConversations s)"
    and s': "s' = s\<lparr>supportMessages := supportMessages s @ [m],
        supportConversations := update_many (\<lambda>c. sc_id c = sm_conversationId m) f (supportConversations s)\<rparr>"
    by (force simp: create_message_row_def update_conversation_def prog_simps split: if_splits)+
  show ?thesis unfolding s' by (rule chat_inv_message [OF assms(1) fresh c assms(3-6)])
qed

lemma keeps_ensure_conversation [chat_keeps]: "keeps chat_inv (ensure_conversation rq uid cid mid)"
proof (rule keepsI)
  fix s assume inv: "chat_inv s"
  let ?c = "\<lparr>sc_id = cid, sc_userId = uid, sc_assignedAdminId = None, sc_status = Conv_OPEN,
     sc_lastMessageId = None, sc_lastMessageAt = None, sc_userUnreadCount = 0, sc_adminUnreadCount = 0,
     sc_userLastSeenAt = None, sc_adminLastSeenAt = None, sc_createdAt = rq_now rq, sc_deletedAt = None\<rparr>"
  let ?m = "(blank_message rq mid cid Sender_SYSTEM Msg_SYSTEM)\<lparr>sm_text := Some welcome_text\<rparr>"
  let ?f = "\<lambda>c. c\<lparr>sc_lastMessageId := Some mid, sc_lastMessageAt := Some (rq_now rq)\<rparr>"
  let ?s = "s\<lparr>supportConversations := supportConversations s @ [?c]\<rparr>"
  let ?w = "and_then (create_message_row ?m) (\<lambda>_. update_conversation (sm_conversationId ?m) ?f)"
  show "chat_inv (snd (ensure_conversation rq uid cid mid s))"
  proof (cases "conversation_of s uid = None \<and> (\<forall>c\<in>set (supportConversations s). sc_userId c \<noteq> uid \<and> sc_id c \<noteq> cid)")
    case True
    then have e: "ensure_conversation rq uid cid mid s = (case ?w ?s of (Inl e, _) \<Rightarrow> (Inl e, s) | (Inr _, s') \<Rightarrow> (Inr (?f ?c), s'))"
      by (auto simp: ensure_conversation_def transaction_def Let_def prog_simps blank_message_def and_then_def
          split: prod.split sum.split)
    have i: "chat_inv ?s" by (rule chat_inv_new_conversation [OF inv]) (use True in simp_all)
    have "chat_inv s'" if "?w ?s = (Inr x, s')" for x s'
      by (rule chat_inv_create_and_update [OF i that]) (simp_all add: unseen_single blank_message_def)
    then show ?thesis unfolding e using inv by (auto split: prod.split sum.split)
  next
    case False
    with inv show ?thesis
      by (auto simp: ensure_conversation_def transaction_def Let_def split: option.split)
  qed
qed

lemma keeps_create_message [chat_keeps]: "keeps chat_inv (create_message cf rq cid a sender i mid)"
proof (rule keepsI)
  fix s assume inv: "chat_inv s"
  let ?m = "message_row rq mid cid a sender i"
  let ?w = "and_then (create_message_row ?m) (\<lambda>_. update_conversation (sm_conversationId ?m) (after_message rq a sender mid))"
  have k: "sm_conversationId ?m = cid" "sm_senderType ?m = sender" "sm_status ?m = Msg_DELIVERED"
    by (simp_all add: message_row_def blank_message_def)
  have "chat_inv s'" if "?w s = (Inr x, s')" for x s'
    by (rule chat_inv_create_and_update [OF inv that]) (simp_all add: unseen_single k after_message_def)
  with inv k(1) show "chat_inv (snd (create_message cf rq cid a sender i mid s))"
    by (auto simp: create_message_def Let_def and_then_transaction split: prod.split sum.split)
qed

lemma keeps_audit_message [chat_keeps]: "keeps chat_inv (audit_message rq http a action cid)"
  by (simp add: audit_message_def keeps_rules)

lemma keeps_send_user_message [chat_keeps]: "keeps chat_inv (send_user_message cf rq http a i newCid newMid mid)"
  unfolding send_user_message_def by (intro keeps_rules chat_keeps)

lemma keeps_send_admin_message [chat_keeps]: "keeps chat_inv (send_admin_message cf rq http cid a i mid)"
  unfolding send_admin_message_def by (intro keeps_rules chat_keeps)

lemma keeps_get_my_conversation [chat_keeps]: "keeps chat_inv (get_my_conversation rq a cid mid)"
  unfolding get_my_conversation_def by (intro keeps_rules chat_keeps)

lemma keeps_list_conversation_messages [chat_keeps]: "keeps I (list_conversation_messages cf cid a q)"
  unfolding list_conversation_messages_def by (intro keeps_rules chat_keeps)

lemma keeps_list_my_messages [chat_keeps]: "keeps chat_inv (list_my_messages cf rq a cid mid q)"
  unfolding list_my_messages_def by (intro keeps_rules chat_keeps)

lemma keeps_update_conversation_status [chat_keeps]: "keeps chat_inv (update_conversation_status cid a status)"
  unfolding update_conversation_status_def update_conversation_def Let_def
  by (intro keeps_rules chat_keeps chat_inv_conversation) simp_all

lemma keeps_delete_message [chat_keeps]: "keeps chat_inv (delete_message cf mid a)"
proof -
  have "chat_inv (s\<lparr>supportMessages := update_many (\<lambda>m. sm_id m = mid)
      (\<lambda>m. if is_staff a then m\<lparr>sm_deletedByAdmin := True\<rparr> else m\<lparr>sm_deletedByUser := True\<rparr>) (supportMessages s)\<rparr>)"
    if "chat_inv s" for s
    using that unfolding chat_inv_def chat_wf_def counters_ok_def unseen_def
    by (auto simp: map_update_many ball_update_many count_update_many_other simp del: in_update_many)
  then show ?thesis unfolding delete_message_def Let_def
    by (intro keeps_rules chat_keeps) simp_all
qed

lemma unseen_mark_seen:
  "unseen sender cid (update_many (\<lambda>m. sm_conversationId m = c \<and> sm_senderType m = sd \<and> sm_status m \<noteq> Msg_SEEN)
      (\<lambda>m. m\<lparr>sm_status := Msg_SEEN, sm_seenAt := x\<rparr>) t) = (if sender = sd \<and> cid = c then 0 else unseen sender cid t)"
proof (cases "sender = sd \<and> cid = c")
  case True
  then show ?thesis by (auto simp: unseen_def ball_update_many simp del: in_update_many)
next
  case False
  show ?thesis unfolding if_not_P [OF False] unseen_def by (rule count_update_many_other) (use False in auto)
qed

lemma keeps_mark_seen [chat_keeps]: "keeps chat_inv (mark_seen rq cid a)"
proof -
  have "chat_inv (snd (mark_seen rq cid a s))" if inv: "chat_inv s" for s
  proof (cases "\<exists>c. require_conversation a cid s = (Inr c, s)")
    case False
    then have "snd (mark_seen rq cid a s) = s"
      by (auto simp: mark_seen_def require_conversation_def prog_simps simp del: find_first_None
          split: option.splits if_splits)
    with inv show ?thesis by simp
  next
    case True
    then obtain c where c: "c \<in> set (supportConversations s)" "sc_id c = cid" and r: "require_conversation a cid s = (Inr c, s)"
      by (auto simp: require_conversation_def simp del: find_first_None split: option.splits if_splits dest!: find_first_Some)
    let ?sd = "if is_staff a then Sender_USER else Sender_ADMIN"
    let ?t = "update_many (\<lambda>m. sm_conversationId m = cid \<and> sm_senderType m = ?sd \<and> sm_status m \<noteq> Msg_SEEN)
        (\<lambda>m. m\<lparr>sm_status := Msg_SEEN, sm_seenAt := Some (rq_now rq)\<rparr>) (supportMessages s)"
    let ?f = "\<lambda>c. if is_staff a then c\<lparr>sc_adminUnreadCount := 0, sc_adminLastSeenAt := Some (rq_now rq)\<rparr>
          else c\<lparr>sc_userUnreadCount := 0, sc_userLastSeenAt := Some (rq_now rq)\<rparr>"
    let ?u = "update_many (\<lambda>c. sc_id c = cid) ?f (supportConversations s)"
    have e: "snd (mark_seen rq cid a s) = s\<lparr>supportMessages := ?t, supportConversations := ?u\<rparr>"
    proof -
      have ex: "\<exists>q\<in>set (supportConversations s). sc_id q = cid" using c by blast
      have "mark_seen rq cid a s = (Inr (cid, rq_now rq), s\<lparr>supportMessages := ?t, supportConversations := ?u\<rparr>)"
        unfolding mark_seen_def and_then_def [of "require_conversation a cid"] r
        by (simp add: Let_def and_then_transaction prog_simps update_conversation_def c ex)
      then show ?thesis by simp
    qed
    have i: "sc_id ` set ?u = sc_id ` set (supportConversations s)"
      by (rule image_update_many) simp
    show ?thesis unfolding e using inv unfolding chat_inv_def chat_wf_def counters_ok_def
      by (auto simp: map_update_many i ball_update_many unseen_mark_seen simp del: in_update_many)
  qed
  then show ?thesis by (rule keepsI)
qed

text \<open>One request of the support routes, or one message of a socket.\<close>

inductive chat_step :: "state \<Rightarrow> state \<Rightarrow> bool" where
  "chat_step s (snd (get_my_conversation rq a cid mid s))"
| "chat_step s (snd (list_my_messages cf rq a cid mid q s))"
| "chat_step s (snd (list_conversation_messages cf cid a q s))"
| "chat_step s (snd (send_user_message cf rq http a i newCid newMid mid s))"
| "chat_step s (snd (send_admin_message cf rq http cid a i mid s))"
| "chat_step s (snd (mark_seen rq cid a s))"
| "chat_step s (snd (update_conversation_status cid a status s))"
| "chat_step s (snd (delete_message cf mid a s))"

lemma chat_step_inv: "chat_step s s' \<Longrightarrow> chat_inv s \<Longrightarrow> chat_inv s'"
  by (induction rule: chat_step.induct) (blast intro: keeps_apply chat_keeps)+

lemma chat_steps_inv: "chat_step\<^sup>*\<^sup>* s s' \<Longrightarrow> chat_inv s \<Longrightarrow> chat_inv s'"
  by (induction rule: rtranclp_induct) (auto intro: chat_step_inv)



definition demo_chat_config :: config where
  "demo_chat_config = \<lparr>cf_argon2DummyHash = ''x'', cf_refreshTtlDays = 30, cf_accessTtlSeconds = 900, cf_maxTrustedDevices = 2,
     cf_capabilityTtlSeconds = 300, cf_maxConcurrentPlayback = 1, cf_mediaGatewayPublicUrl = ''https://m'',
     cf_r2Bucket = ''b'', cf_r2PublicBaseUrl = ''https://cdn//'', cf_maxUploadBytes = 1000\<rparr>"

definition demo_customer :: principal where
  "demo_customer = \<lparr>pr_id = ''u1'', pr_sessionId = ''s1'', pr_roles = [USER], pr_permissions = [], pr_status = User_ACTIVE\<rparr>"

definition demo_agent :: principal where
  "demo_agent = \<lparr>pr_id = ''u2'', pr_sessionId = ''s2'', pr_roles = [MODERATOR], pr_permissions = [], pr_status = User_ACTIVE\<rparr>"

definition chat_demo :: state where
  "chat_demo = snd (send_user_message demo_chat_config demo_request True demo_customer (text_input '' hello '') ''c1'' ''m0'' ''m1'' demo_state)"


end
