(* ===== verification/Users.thy ===== *)
theory Users
  imports Auth
begin

text \<open>
  \<open>src/users/users.service.ts\<close>: account administration, and the query of the audit log
  (\<open>src/common/audit/audit.service.ts\<close>). \<open>update_status\<close> and \<open>remove_account\<close> are the two
  ways an administrator takes an account away: what they guarantee is that no access token of it is
  accepted any more.

  \<open>username\<close> is not unique in the schema, so \<open>P2002\<close> can only come from the e-mail address.
\<close>

section \<open>Operations\<close>

definition create_account :: "platform \<Rightarrow> request \<Rightarrow> principal \<Rightarrow> string \<Rightarrow> string \<Rightarrow> string \<Rightarrow> string
    \<Rightarrow> role_code option \<Rightarrow> user handler" where
  "create_account pf rq actor uid username email0 password role =
     (let email = normalize_email email0;
          created = \<lparr>u_id = uid, u_username = trim username, u_email = email,
            u_passwordHash = pf_argonHash pf password, u_status = User_ACTIVE, u_profileImageKey = None,
            u_failedLoginCount = 0, u_lockedUntil = None, u_lastLoginAt = None, u_createdAt = rq_now rq,
            u_deletedAt = None, u_deviceToken = None\<rparr>
      in catch_error
        (and_then (transaction
           (and_then (create_user created) (\<lambda>_.
            and_then (gets (\<lambda>s. find_first (\<lambda>ro. ro_code ro = set_or role USER) (roleDefinitions s))) (\<lambda>ro.
            and_then (expect ro (Internal ''P2025'')) (\<lambda>ro.
            create_user_role \<lparr>ur_userId = uid, ur_roleId = ro_id ro\<rparr>))))) (\<lambda>_.
         and_then (audit_write (audit_input rq (Some (pr_id actor)) ''users.create'' ''user'' (Some uid) SUCCESS [])) (\<lambda>_.
         ret created)))
        (\<lambda>e. throw (if e = Internal ''P2002'' then Conflict ''Email or username is already in use'' else e)))"

record user_list =
  ul_page :: page_query
  ul_search :: "string option"
  ul_status :: "user_status option"
  ul_role :: "role_code option"

text \<open>The columns that \<open>list\<close> and \<open>findById\<close> select, with the role codes and names.\<close>

record user_view =
  uv_id :: string
  uv_username :: string
  uv_email :: string
  uv_status :: user_status
  uv_profileImageKey :: "string option"
  uv_createdAt :: instant
  uv_lastLoginAt :: "instant option"
  uv_roles :: "(role_code \<times> string) list"

definition user_view_of :: "state \<Rightarrow> user \<Rightarrow> user_view" where
  "user_view_of s u =
     \<lparr>uv_id = u_id u, uv_username = u_username u, uv_email = u_email u, uv_status = u_status u,
      uv_profileImageKey = u_profileImageKey u, uv_createdAt = u_createdAt u, uv_lastLoginAt = u_lastLoginAt u,
      uv_roles = map (\<lambda>ro. (ro_code ro, ro_name ro)) (roles_of_user s (u_id u))\<rparr>"

definition user_matches :: "state \<Rightarrow> user_list \<Rightarrow> user \<Rightarrow> bool" where
  "user_matches s q u \<longleftrightarrow> u_deletedAt u = None \<and> given_eq (ul_status q) (u_status u)
     \<and> (case truthy (ul_search q) of None \<Rightarrow> True
        | Some p \<Rightarrow> contains_ci (u_email u) (to_lower (trim p)) \<or> contains_ci (u_username u) (trim p))
     \<and> (case ul_role q of None \<Rightarrow> True | Some c \<Rightarrow> c \<in> ro_code ` set (roles_of_user s (u_id u)))"

definition list_users :: "user_list \<Rightarrow> user_view page handler" where
  "list_users q = gets (\<lambda>s. list_page (ul_page q)
     (map (user_view_of s) (order_desc u_createdAt (filter (user_matches s q) (users s)))))"

definition find_account :: "string \<Rightarrow> user_view handler" where
  "find_account uid =
     and_then (gets (\<lambda>s. find_first (\<lambda>u. u_id u = uid \<and> u_deletedAt u = None) (users s))) (\<lambda>u.
     and_then (expect u (NotFound ''User not found'')) (\<lambda>u.
     gets (\<lambda>s. user_view_of s u)))"

record profile_update =
  pu_username :: "string option"
  pu_email :: "string option"
  pu_profileImageKey :: "string option"

definition apply_profile :: "profile_update \<Rightarrow> user \<Rightarrow> user" where
  "apply_profile d u =
     u\<lparr>u_username := set_or (map_option trim (truthy (pu_username d))) (u_username u),
       u_email := set_or (map_option normalize_email (truthy (pu_email d))) (u_email u),
       u_profileImageKey := keep_or (pu_profileImageKey d) (u_profileImageKey u)\<rparr>"

definition may_edit_profile :: "principal \<Rightarrow> string \<Rightarrow> bool" where
  "may_edit_profile actor uid \<longleftrightarrow> pr_id actor = uid \<or> SUPER_ADMIN \<in> set (pr_roles actor)
     \<or> ''users.write'' \<in> set (pr_permissions actor)"

definition update_profile :: "request \<Rightarrow> principal \<Rightarrow> string \<Rightarrow> profile_update \<Rightarrow> user handler" where
  "update_profile rq actor uid d =
     and_then (require (may_edit_profile actor uid) (NotFound ''User not found'')) (\<lambda>_.
     and_then (gets (\<lambda>s. find_user s uid)) (\<lambda>u.
     and_then (expect u (Internal ''P2025'')) (\<lambda>u.
     and_then (gets users) (\<lambda>t.
     and_then (require (\<forall>q\<in>set t. u_id q \<noteq> uid \<longrightarrow> u_email q \<noteq> u_email (apply_profile d u))
       (Conflict ''Email or username is already in use'')) (\<lambda>_.
     and_then (update_user uid (apply_profile d)) (\<lambda>_.
     and_then (audit_write (audit_input rq (Some (pr_id actor)) ''users.profile_update'' ''user'' (Some uid) SUCCESS [])) (\<lambda>_.
     ret (apply_profile d u))))))))"

definition status_action :: "user_status \<Rightarrow> string" where
  "status_action st = (case st of User_ACTIVE \<Rightarrow> ''users.active'' | User_SUSPENDED \<Rightarrow> ''users.suspended''
     | User_DISABLED \<Rightarrow> ''users.disabled'')"

text \<open>\<open>safe\<close> returns its argument: the answer is the whole row that \<open>update\<close> gave back.\<close>

definition update_status :: "request \<Rightarrow> principal \<Rightarrow> string \<Rightarrow> user_status \<Rightarrow> user handler" where
  "update_status rq actor uid st =
     and_then (require (\<not> (pr_id actor = uid \<and> st \<noteq> User_ACTIVE)) (Conflict ''You cannot disable your own account'')) (\<lambda>_.
     and_then (gets (\<lambda>s. find_first (\<lambda>u. u_id u = uid \<and> u_deletedAt u = None) (users s))) (\<lambda>u.
     and_then (expect u (NotFound ''User not found'')) (\<lambda>u.
     and_then (transaction
       (and_then (update_user uid (\<lambda>u. u\<lparr>u_status := st\<rparr>)) (\<lambda>_.
        and_then (if st \<noteq> User_ACTIVE then revoke_sessions (rq_now rq) (\<lambda>r. rs_userId r = uid) else ret 0) (\<lambda>_.
        ret (u\<lparr>u_status := st\<rparr>))))) (\<lambda>updated.
     and_then (audit_write (audit_input rq (Some (pr_id actor)) (status_action st) ''user'' (Some uid) SUCCESS [])) (\<lambda>_.
     ret updated)))))"

definition remove_account :: "request \<Rightarrow> principal \<Rightarrow> string \<Rightarrow> unit handler" where
  "remove_account rq actor uid =
     and_then (require (pr_id actor \<noteq> uid) (Conflict ''You cannot delete your own account'')) (\<lambda>_.
     and_then (transaction
       (and_then (gets (\<lambda>s. count_where (\<lambda>u. u_id u = uid \<and> u_deletedAt u = None) (users s))) (\<lambda>n.
        and_then (modify (\<lambda>s. s\<lparr>users := update_many (\<lambda>u. u_id u = uid \<and> u_deletedAt u = None)
          (\<lambda>u. u\<lparr>u_deletedAt := Some (rq_now rq), u_status := User_DISABLED\<rparr>) (users s)\<rparr>)) (\<lambda>_.
        and_then (revoke_sessions (rq_now rq) (\<lambda>r. rs_userId r = uid)) (\<lambda>_. ret n))))) (\<lambda>n.
     and_then (require (n \<noteq> 0) (NotFound ''User not found'')) (\<lambda>_.
     audit_write (audit_input rq (Some (pr_id actor)) ''users.delete'' ''user'' (Some uid) SUCCESS []))))"

section \<open>The audit log\<close>

record audit_list =
  aq_page :: page_query
  aq_search :: "string option"
  aq_outcome :: "audit_outcome option"

definition audit_matches :: "audit_list \<Rightarrow> audit_event \<Rightarrow> bool" where
  "audit_matches q e \<longleftrightarrow> given_eq (aq_outcome q) (au_outcome e)
     \<and> (case truthy (aq_search q) of None \<Rightarrow> True
        | Some p \<Rightarrow> contains_ci (au_action e) (trim p) \<or> contains_ci (au_resource e) (trim p)
            \<or> contains_ci (au_requestId e) (trim p))"

definition list_audit :: "audit_list \<Rightarrow> (audit_event \<times> (string \<times> string) option) page handler" where
  "list_audit q = gets (\<lambda>s. list_page (aq_page q)
     (map (\<lambda>e. (e, map_option (\<lambda>u. (u_username u, u_email u)) (Option.bind (au_actorId e) (find_user s))))
        (order_desc au_createdAt (filter (audit_matches q) (auditEvents s)))))"

interpretation sd: guarded_update u_id "\<lambda>u. u_id u = uid \<and> u_deletedAt u = None"
    "\<lambda>u. u\<lparr>u_deletedAt := Some now, u_status := User_DISABLED\<rparr>" for uid now
  by unfold_locales simp_all

section \<open>Taking an account away\<close>

text \<open>The account is closed: no live session and no active account row.\<close>

definition account_closed :: "string \<Rightarrow> state \<Rightarrow> bool" where
  "account_closed uid s \<longleftrightarrow> \<not> active_account s uid
     \<and> (\<forall>r\<in>set (refreshSessions s). rs_userId r = uid \<longrightarrow> rs_revokedAt r \<noteq> None)"

lemma closed_no_token: "account_closed uid s \<Longrightarrow> \<not> live_session s now uid sid"
  by (auto simp: account_closed_def live_session_def)

lemma jwt_closed: "account_closed uid s \<Longrightarrow> fst (jwt_validate now uid sid s) \<noteq> Inr p"
proof
  assume c: "account_closed uid s" and "fst (jwt_validate now uid sid s) = Inr p"
  then obtain r where "access_session s now uid sid = Some r"
    using jwt_validate_Inr [of now uid sid s p] by (metis prod.collapse)
  then have "live_session s now uid sid" by (metis access_session_ex)
  with closed_no_token [OF c] show False by simp
qed

lemma update_status_Inr:
  "update_status rq actor uid st s = (Inr a, s') \<Longrightarrow>
     \<not> (pr_id actor = uid \<and> st \<noteq> User_ACTIVE) \<and>
     (\<exists>u\<in>set (users s). u_id u = uid \<and> u_deletedAt u = None \<and> a = u\<lparr>u_status := st\<rparr>) \<and>
     users s' = update_many (\<lambda>u. u_id u = uid) (\<lambda>u. u\<lparr>u_status := st\<rparr>) (users s) \<and>
     refreshSessions s' = (if st = User_ACTIVE then refreshSessions s
        else update_many (\<lambda>r. rs_userId r = uid \<and> rs_revokedAt r = None)
               (\<lambda>r. r\<lparr>rs_revokedAt := Some (rq_now rq)\<rparr>) (refreshSessions s))"
  unfolding update_status_def revoke_sessions_def update_user_def
  by (auto simp: and_then_transaction prog_simps simp del: find_first_None
      split: option.splits if_splits dest!: find_first_Some)

lemma remove_account_Inr:
  "remove_account rq actor uid s = (Inr (), s') \<Longrightarrow>
     pr_id actor \<noteq> uid \<and>
     (\<exists>u\<in>set (users s). u_id u = uid \<and> u_deletedAt u = None) \<and>
     users s' = update_many (\<lambda>u. u_id u = uid \<and> u_deletedAt u = None)
       (\<lambda>u. u\<lparr>u_deletedAt := Some (rq_now rq), u_status := User_DISABLED\<rparr>) (users s) \<and>
     refreshSessions s' = update_many (\<lambda>r. rs_userId r = uid \<and> rs_revokedAt r = None)
       (\<lambda>r. r\<lparr>rs_revokedAt := Some (rq_now rq)\<rparr>) (refreshSessions s)"
  unfolding remove_account_def revoke_sessions_def
  by (auto simp: and_then_transaction prog_simps split: if_splits)


lemma closed_no_row: "account_closed uid s \<Longrightarrow> u \<in> set (users s) \<Longrightarrow> u_id u = uid \<Longrightarrow>
    u_deletedAt u = None \<Longrightarrow> u_status u \<noteq> User_ACTIVE"
  by (auto simp: account_closed_def active_account_def)

lemma login_signs: "login cf pf rq e pw dev sid tok s = (Inr tp, s') \<Longrightarrow>
    \<exists>u\<in>set (users s). u_deletedAt u = None \<and> u_status u = User_ACTIVE \<and> tp_accessToken tp = pf_signAccess pf (u_id u) sid"
  unfolding login_def find_login_def
  by (auto simp: Let_def issue_token_pair_def and_then_Inr simp del: find_first_None
      split: option.splits if_splits dest!: find_first_Some)

lemma refresh_signs: "refresh cf pf rq tok nid ntok s = (Inr tp, s') \<Longrightarrow>
    \<exists>r\<in>set (refreshSessions s). rs_revokedAt r = None \<and> tp_accessToken tp = pf_signAccess pf (rs_userId r) nid"
  unfolding refresh_def refresh_lookup_def refresh_commit_def
  by (auto simp: Let_def and_then_Inr simp del: find_first_None
      split: option.splits if_splits dest!: find_first_Some)

lemma closed_signs_nobody:
  assumes c: "account_closed uid s"
  shows "(\<forall>t sid p. fst (jwt_validate t uid sid s) \<noteq> Inr p)
    \<and> (\<forall>cf pf rq e pw dev sid tok tp s'. login cf pf rq e pw dev sid tok s = (Inr tp, s') \<longrightarrow>
         (\<exists>i. i \<noteq> uid \<and> tp_accessToken tp = pf_signAccess pf i sid))
    \<and> (\<forall>cf pf rq tok nid ntok tp s'. refresh cf pf rq tok nid ntok s = (Inr tp, s') \<longrightarrow>
         (\<exists>i. i \<noteq> uid \<and> tp_accessToken tp = pf_signAccess pf i nid))"
  using jwt_closed [OF c] c login_signs refresh_signs
  unfolding account_closed_def active_account_def by (metis (no_types, lifting))

lemma status_closes:
  assumes "update_status rq actor uid st s = (Inr a, s')" and "st \<noteq> User_ACTIVE"
  shows "account_closed uid s'"
  using update_status_Inr [OF assms(1)] assms(2)
  by (auto simp: account_closed_def active_account_def bex_update_many ball_update_many simp del: in_update_many
      split: if_splits)

lemma remove_closes:
  assumes "remove_account rq actor uid s = (Inr (), s')"
  shows "account_closed uid s'"
  using remove_account_Inr [OF assms]
  by (auto simp: account_closed_def active_account_def bex_update_many ball_update_many simp del: in_update_many
      split: if_splits)

text \<open>
  C28. Suspending, disabling or deleting an account takes effect at once: no access token of it validates
  at any later instant, and whatever \<open>login\<close> or \<open>refresh\<close> still sign is for another account. It is
  never the caller's own account, and the rows and sessions of every other account are what they were.
\<close>

theorem account_closed_at_once:
  assumes "(\<exists>st a. st \<noteq> User_ACTIVE \<and> update_status rq actor uid st s = (Inr a, s'))
    \<or> remove_account rq actor uid s = (Inr (), s')"
  shows "pr_id actor \<noteq> uid
    \<and> (\<forall>t sid p. fst (jwt_validate t uid sid s') \<noteq> Inr p)
    \<and> (\<forall>cf pf rq e pw dev sid tok tp s2. login cf pf rq e pw dev sid tok s' = (Inr tp, s2) \<longrightarrow>
         (\<exists>i. i \<noteq> uid \<and> tp_accessToken tp = pf_signAccess pf i sid))
    \<and> (\<forall>cf pf rq tok nid ntok tp s2. refresh cf pf rq tok nid ntok s' = (Inr tp, s2) \<longrightarrow>
         (\<exists>i. i \<noteq> uid \<and> tp_accessToken tp = pf_signAccess pf i nid))
    \<and> filter (\<lambda>u. u_id u \<noteq> uid) (users s') = filter (\<lambda>u. u_id u \<noteq> uid) (users s)
    \<and> filter (\<lambda>r. rs_userId r \<noteq> uid) (refreshSessions s') = filter (\<lambda>r. rs_userId r \<noteq> uid) (refreshSessions s)"
proof -
  have "account_closed uid s'" using assms status_closes remove_closes by blast
  note nobody = closed_signs_nobody [OF this]
  have "pr_id actor \<noteq> uid
    \<and> filter (\<lambda>u. u_id u \<noteq> uid) (users s') = filter (\<lambda>u. u_id u \<noteq> uid) (users s)
    \<and> filter (\<lambda>r. rs_userId r \<noteq> uid) (refreshSessions s') = filter (\<lambda>r. rs_userId r \<noteq> uid) (refreshSessions s)"
    using assms
    by (auto dest!: update_status_Inr remove_account_Inr intro!: filter_update_other)
  with nobody show ?thesis by (elim conjE) (intro conjI, assumption+)
qed

definition demo_admin :: principal where
  "demo_admin = \<lparr>pr_id = ''u2'', pr_sessionId = ''s2'', pr_roles = [ADMIN], pr_permissions = [''users.status''],
     pr_status = User_ACTIVE\<rparr>"

theorem account_closed_at_once_witness:
  "\<exists>s'. update_status demo_request demo_admin ''u1'' User_SUSPENDED demo_state
       = (Inr (demo_user\<lparr>u_status := User_SUSPENDED\<rparr>), s')
     \<and> fst (jwt_validate 6000 ''u1'' ''s1'' s') \<noteq> Inr (principal_of s' demo_user ''s1'')
     \<and> (\<exists>p. fst (jwt_validate 6000 ''u1'' ''s1'' demo_state) = Inr p)"
proof -
  let ?m = "update_status demo_request demo_admin ''u1'' User_SUSPENDED"
  have f: "fst (?m demo_state) = Inr (demo_user\<lparr>u_status := User_SUSPENDED\<rparr>)" by code_simp
  then obtain s' where ok: "?m demo_state = (Inr (demo_user\<lparr>u_status := User_SUSPENDED\<rparr>), s')"
    by (metis prod.collapse)
  have "\<not> isl (fst (jwt_validate 6000 ''u1'' ''s1'' demo_state))" by code_simp
  from prog_result [of "jwt_validate 6000 ''u1'' ''s1''", OF this]
  have "\<exists>p. fst (jwt_validate 6000 ''u1'' ''s1'' demo_state) = Inr p" by auto
  moreover have "fst (jwt_validate 6000 ''u1'' ''s1'' s') \<noteq> Inr (principal_of s' demo_user ''s1'')"
  proof -
    have "(\<exists>st a. st \<noteq> User_ACTIVE \<and> update_status demo_request demo_admin ''u1'' st demo_state = (Inr a, s'))
        \<or> remove_account demo_request demo_admin ''u1'' demo_state = (Inr (), s')"
      using ok by (intro disjI1 exI [of _ User_SUSPENDED] exI [of _ "demo_user\<lparr>u_status := User_SUSPENDED\<rparr>"]) simp
    from account_closed_at_once [OF this] show ?thesis by simp
  qed
  ultimately show ?thesis using ok by blast
qed

text \<open>
  The answers of \<open>create\<close> and \<open>updateStatus\<close> carry the password hash of the account: the
  handler returns the whole row, and \<open>safe\<close> removes nothing from it.
\<close>

lemma account_answer_has_hash:
  "(create_account pf rq actor uid name email pw role s = (Inr a, s') \<longrightarrow>
      u_passwordHash a = pf_argonHash pf pw \<and> a \<in> set (users s'))
   \<and> (update_status rq actor uid st s = (Inr a, s') \<longrightarrow>
      u_passwordHash a \<in> u_passwordHash ` {u \<in> set (users s). u_id u = uid})"
  unfolding create_account_def create_user_def create_user_role_def
  by (auto simp: Let_def catch_error_def and_then_transaction prog_simps simp del: find_first_None
      split: prod.splits sum.splits option.splits if_splits dest!: update_status_Inr)

lemma account_answer_has_hash_example:
  "\<exists>s'. update_status demo_request demo_admin ''u1'' User_ACTIVE demo_state = (Inr demo_user, s')
     \<and> u_passwordHash demo_user \<in> u_passwordHash ` {u \<in> set (users demo_state). u_id u = ''u1''}"
proof -
  have "fst (update_status demo_request demo_admin ''u1'' User_ACTIVE demo_state) = Inr demo_user" by code_simp
  then obtain s' where "update_status demo_request demo_admin ''u1'' User_ACTIVE demo_state = (Inr demo_user, s')"
    by (metis prod.collapse)
  then show ?thesis using account_answer_has_hash by blast
qed

end
