(* ===== verification/ChatGateway.thy ===== *)
theory ChatGateway
  imports SupportChat Users
begin

text \<open>
  \<open>src/support-chat/support-chat.gateway.ts\<close> and the routes of \<open>support-chat.controller.ts\<close> that announce
  what they did: the sockets, the rooms they joined, who is online, and which socket is sent what. The
  database operations are those of \<open>SupportChat\<close>.

  A socket is authenticated while it is already open (\<open>await principalFromToken\<close>), so it can close in
  between; the two halves of \<open>handleConnection\<close> are \<open>socket_opened\<close> and \<open>socket_authenticated\<close>.
\<close>

section \<open>Sockets\<close>

record socket =
  so_id :: string
  so_open :: bool
  so_principal :: "principal option"
  so_rooms :: "string list"

text \<open>One event sent to one socket, about one conversation.\<close>

record delivery =
  dl_socket :: string
  dl_event :: string
  dl_conversation :: string

record gateway =
  gw_sockets :: "socket list"
  gw_online :: "string \<Rightarrow> nat option"
  gw_sent :: "delivery list"

type_synonym 'a chat_handler = "(gateway \<times> state, 'a) prog"

definition in_db :: "'a handler \<Rightarrow> 'a chat_handler" where
  "in_db m gs = (case m (snd gs) of (r, s) \<Rightarrow> (r, (fst gs, s)))"

definition on_gateway :: "(gateway \<Rightarrow> gateway) \<Rightarrow> unit chat_handler" where
  "on_gateway f = modify (\<lambda>gs. (f (fst gs), snd gs))"

definition track_online :: "string \<Rightarrow> int \<Rightarrow> (string \<Rightarrow> nat option) \<Rightarrow> (string \<Rightarrow> nat option)" where
  "track_online uid delta online =
     (let next = max 0 (int (case online uid of None \<Rightarrow> 0 | Some n \<Rightarrow> n) + delta) in
      if next = 0 then online(uid := None) else online(uid \<mapsto> nat next))"

definition extract_token :: "string option \<Rightarrow> string option \<Rightarrow> string option" where
  "extract_token authToken header =
     (case authToken of
        Some t \<Rightarrow> if trim t \<noteq> [] then Some (trim t)
          else (case header of Some h \<Rightarrow> if starts_with (to_lower h) ''bearer '' then Some (trim (drop 7 h)) else None | None \<Rightarrow> None)
      | None \<Rightarrow> (case header of Some h \<Rightarrow> if starts_with (to_lower h) ''bearer '' then Some (trim (drop 7 h)) else None | None \<Rightarrow> None))"

definition socket_principal :: "platform \<Rightarrow> request \<Rightarrow> string option \<Rightarrow> string option \<Rightarrow> principal option handler" where
  "socket_principal pf rq authToken header =
     (case truthy (extract_token authToken header) of None \<Rightarrow> ret None | Some t \<Rightarrow> principal_from_token pf rq t)"

definition set_socket :: "string \<Rightarrow> (socket \<Rightarrow> socket) \<Rightarrow> gateway \<Rightarrow> gateway" where
  "set_socket i f g = g\<lparr>gw_sockets := update_many (\<lambda>so. so_id so = i) f (gw_sockets g)\<rparr>"

definition find_socket :: "gateway \<Rightarrow> string \<Rightarrow> socket option" where
  "find_socket g i = find_first (\<lambda>so. so_id so = i) (gw_sockets g)"

definition user_room :: "string \<Rightarrow> string" where
  "user_room uid = ''user:'' @ uid"

definition conversation_room :: "string \<Rightarrow> string" where
  "conversation_room cid = ''support:'' @ cid"

definition admin_room :: string where
  "admin_room = ''support:admins''"

definition join_room :: "string \<Rightarrow> socket \<Rightarrow> socket" where
  "join_room r so = so\<lparr>so_rooms := set_add (so_rooms so) r\<rparr>"

definition socket_opened :: "string \<Rightarrow> gateway \<Rightarrow> gateway" where
  "socket_opened i g = g\<lparr>gw_sockets := gw_sockets g @
     [\<lparr>so_id = i, so_open = True, so_principal = None, so_rooms = []\<rparr>]\<rparr>"

text \<open>\<open>client.disconnect(true)\<close> closes the socket; \<open>handleDisconnect\<close> then runs for it.\<close>

definition socket_disconnected :: "string \<Rightarrow> gateway \<Rightarrow> gateway" where
  "socket_disconnected i g =
     (let g' = set_socket i (\<lambda>so. so\<lparr>so_open := False\<rparr>) g in
      case Option.bind (find_socket g i) so_principal of
        None \<Rightarrow> g'
      | Some p \<Rightarrow> g'\<lparr>gw_online := track_online (pr_id p) (-1) (gw_online g')\<rparr>)"

definition socket_authenticated :: "string \<Rightarrow> principal option \<Rightarrow> gateway \<Rightarrow> gateway" where
  "socket_authenticated i po g =
     (case po of
        None \<Rightarrow> socket_disconnected i g
      | Some p \<Rightarrow> (set_socket i (\<lambda>so. let so' = join_room (user_room (pr_id p)) (so\<lparr>so_principal := Some p\<rparr>)
           in if is_staff p then join_room admin_room so' else so') g)
         \<lparr>gw_online := track_online (pr_id p) 1 (gw_online g)\<rparr>)"

section \<open>Announcements\<close>

text \<open>\<open>server.to(room).emit\<close>: every open socket in the room; \<open>client.to(room)\<close> leaves the sender out.\<close>

definition emit_to :: "string \<Rightarrow> string option \<Rightarrow> string \<Rightarrow> string \<Rightarrow> gateway \<Rightarrow> gateway" where
  "emit_to room sender event cid g = g\<lparr>gw_sent := gw_sent g @
     map (\<lambda>so. \<lparr>dl_socket = so_id so, dl_event = event, dl_conversation = cid\<rparr>)
       (filter (\<lambda>so. so_open so \<and> room \<in> set (so_rooms so) \<and> Some (so_id so) \<noteq> sender) (gw_sockets g))\<rparr>"

definition announce :: "string \<Rightarrow> string \<Rightarrow> gateway \<Rightarrow> gateway" where
  "announce event cid g = emit_to admin_room None event cid (emit_to (conversation_room cid) None event cid g)"

definition emit_message :: "string \<Rightarrow> gateway \<Rightarrow> gateway" where
  "emit_message cid = announce ''message_received'' cid"

definition emit_conversation_updated :: "string \<Rightarrow> gateway \<Rightarrow> gateway" where
  "emit_conversation_updated cid = announce ''conversation_updated'' cid"

definition emit_seen :: "string \<Rightarrow> gateway \<Rightarrow> gateway" where
  "emit_seen cid = announce ''message_seen'' cid"

definition emit_deleted :: "string \<Rightarrow> gateway \<Rightarrow> gateway" where
  "emit_deleted cid = announce ''message_deleted'' cid"

section \<open>Messages of a socket\<close>

definition require_principal :: "string \<Rightarrow> principal chat_handler" where
  "require_principal i =
     and_then (gets (\<lambda>gs. Option.bind (find_socket (fst gs) i) so_principal)) (\<lambda>po.
     case po of
       Some p \<Rightarrow> ret p
     | None \<Rightarrow> and_then (on_gateway (socket_disconnected i)) (\<lambda>_. throw (Internal ''Unauthorized'')))"

text \<open>An empty conversation id reads the caller's own conversation but joins the room of the empty id (\<open>??\<close>).\<close>

definition gateway_join :: "config \<Rightarrow> request \<Rightarrow> string \<Rightarrow> string option \<Rightarrow> string \<Rightarrow> string \<Rightarrow> string chat_handler" where
  "gateway_join cf rq i cid newCid newMid =
     and_then (require_principal i) (\<lambda>p.
     and_then (case truthy cid of
         Some c \<Rightarrow> and_then (in_db (list_conversation_messages cf c p \<lparr>pq_page = 1, pq_limit = 1\<rparr>)) (\<lambda>_. ret c)
       | None \<Rightarrow> and_then (in_db (get_my_conversation rq p newCid newMid)) (\<lambda>v.
           ret (case cid of Some c \<Rightarrow> c | None \<Rightarrow> sc_id (cv_conversation v)))) (\<lambda>conversationId.
     and_then (on_gateway (set_socket i (join_room (conversation_room conversationId)))) (\<lambda>_. ret conversationId)))"

definition gateway_send_message :: "config \<Rightarrow> request \<Rightarrow> string \<Rightarrow> string option \<Rightarrow> string option \<Rightarrow> string \<Rightarrow> string
    \<Rightarrow> string \<Rightarrow> message_view option chat_handler" where
  "gateway_send_message cf rq i cid text0 newCid newMid mid =
     and_then (require_principal i) (\<lambda>p.
     case truthy (map_option trim text0) of
       None \<Rightarrow> ret None
     | Some text \<Rightarrow>
         and_then (in_db (case (if is_staff p then truthy cid else None) of
             Some c \<Rightarrow> send_admin_message cf rq False c p (text_input text) mid
           | None \<Rightarrow> send_user_message cf rq False p (text_input text) newCid newMid mid)) (\<lambda>m.
         let c = sm_conversationId (mv_message m) in
         and_then (on_gateway (emit_message c)) (\<lambda>_.
         and_then (on_gateway (emit_conversation_updated c)) (\<lambda>_. ret (Some m)))))"

definition gateway_typing :: "string \<Rightarrow> string \<Rightarrow> unit chat_handler" where
  "gateway_typing i cid =
     and_then (require_principal i) (\<lambda>p. on_gateway (emit_to (conversation_room cid) (Some i) ''typing'' cid))"

definition gateway_stop_typing :: "string \<Rightarrow> string \<Rightarrow> unit chat_handler" where
  "gateway_stop_typing i cid =
     and_then (require_principal i) (\<lambda>p. on_gateway (emit_to (conversation_room cid) (Some i) ''stop_typing'' cid))"

definition gateway_seen :: "request \<Rightarrow> string \<Rightarrow> string \<Rightarrow> (string \<times> instant) chat_handler" where
  "gateway_seen rq i cid =
     and_then (require_principal i) (\<lambda>p.
     and_then (in_db (mark_seen rq cid p)) (\<lambda>r.
     and_then (on_gateway (emit_seen cid)) (\<lambda>_. ret r)))"

section \<open>Routes that announce\<close>

definition route_send_mine :: "config \<Rightarrow> request \<Rightarrow> principal \<Rightarrow> message_input \<Rightarrow> string \<Rightarrow> string \<Rightarrow> string
    \<Rightarrow> message_view chat_handler" where
  "route_send_mine cf rq a dto newCid newMid mid =
     and_then (in_db (send_user_message cf rq True a dto newCid newMid mid)) (\<lambda>m.
     and_then (on_gateway (emit_message (sm_conversationId (mv_message m)))) (\<lambda>_.
     and_then (on_gateway (emit_conversation_updated (sm_conversationId (mv_message m)))) (\<lambda>_. ret m)))"

definition route_mark_seen :: "request \<Rightarrow> string \<Rightarrow> principal \<Rightarrow> (string \<times> instant) chat_handler" where
  "route_mark_seen rq cid a =
     and_then (in_db (mark_seen rq cid a)) (\<lambda>r.
     and_then (on_gateway (emit_seen cid)) (\<lambda>_. ret r))"

definition route_send_admin :: "config \<Rightarrow> request \<Rightarrow> string \<Rightarrow> principal \<Rightarrow> message_input \<Rightarrow> string \<Rightarrow> message_view chat_handler" where
  "route_send_admin cf rq cid a dto mid =
     and_then (in_db (send_admin_message cf rq True cid a dto mid)) (\<lambda>m.
     and_then (on_gateway (emit_message cid)) (\<lambda>_.
     and_then (on_gateway (emit_conversation_updated cid)) (\<lambda>_. ret m)))"

definition route_update_status :: "string \<Rightarrow> principal \<Rightarrow> conversation_status \<Rightarrow> conversation_view chat_handler" where
  "route_update_status cid a status =
     and_then (in_db (update_conversation_status cid a status)) (\<lambda>c.
     and_then (on_gateway (emit_conversation_updated cid)) (\<lambda>_. ret c))"

definition route_delete_message :: "config \<Rightarrow> string \<Rightarrow> principal \<Rightarrow> message_view chat_handler" where
  "route_delete_message cf mid a =
     and_then (in_db (delete_message cf mid a)) (\<lambda>m.
     and_then (on_gateway (emit_deleted (sm_conversationId (mv_message m)))) (\<lambda>_. ret m))"

section \<open>Who is online\<close>

datatype socket_event = Opened string | Authenticated string "principal option" | Disconnected string

fun socket_step :: "gateway \<Rightarrow> socket_event \<Rightarrow> gateway" where
  "socket_step g (Opened i) = socket_opened i g"
| "socket_step g (Authenticated i po) = socket_authenticated i po g"
| "socket_step g (Disconnected i) = socket_disconnected i g"

definition open_socket :: "gateway \<Rightarrow> string \<Rightarrow> bool" where
  "open_socket g i \<longleftrightarrow> (case find_socket g i of None \<Rightarrow> False | Some so \<Rightarrow> so_open so)"

definition pending_socket :: "gateway \<Rightarrow> string \<Rightarrow> bool" where
  "pending_socket g i \<longleftrightarrow> (case find_socket g i of None \<Rightarrow> False | Some so \<Rightarrow> so_open so \<and> so_principal so = None)"

text \<open>A socket opens once, is authenticated while it is still open, and closes once.\<close>

fun orderly :: "gateway \<Rightarrow> socket_event list \<Rightarrow> bool" where
  "orderly g [] = True"
| "orderly g (e # es) = ((case e of
       Opened i \<Rightarrow> find_socket g i = None
     | Authenticated i po \<Rightarrow> pending_socket g i
     | Disconnected i \<Rightarrow> open_socket g i) \<and> orderly (socket_step g e) es)"

definition present :: "string \<Rightarrow> socket \<Rightarrow> bool" where
  "present uid so \<longleftrightarrow> so_open so \<and> map_option pr_id (so_principal so) = Some uid"

definition online_ok :: "gateway \<Rightarrow> bool" where
  "online_ok g \<longleftrightarrow> distinct (map so_id (gw_sockets g))
     \<and> (\<forall>uid. gw_online g uid = (let n = count_where (present uid) (gw_sockets g) in if n = 0 then None else Some n))"

lemma count_update_key:
  "distinct (map k t) \<Longrightarrow> x \<in> set t \<Longrightarrow>
     count_where Q (update_many (\<lambda>r. k r = k x) f t) + (if Q x then 1 else 0)
       = count_where Q t + (if Q (f x) then 1 else 0)"
proof (induction t)
  case Nil
  then show ?case by simp
next
  case (Cons a t)
  show ?case
  proof (cases "a = x")
    case True
    with Cons.prems have "update_many (\<lambda>r. k r = k x) f t = t"
      by (intro update_many_none ballI) (metis distinct.simps(2) imageI list.set_map list.simps(9))
    with True show ?thesis by simp
  next
    case False
    with Cons.prems have "k a \<noteq> k x" "x \<in> set t" by (auto simp: image_iff)
    with Cons show ?thesis by simp
  qed
qed

lemma find_socket_Some: "find_socket g i = Some so \<Longrightarrow> so \<in> set (gw_sockets g) \<and> so_id so = i"
  unfolding find_socket_def by (drule find_first_Some) simp

lemma set_socket_sockets [simp]:
  "gw_sockets (set_socket i f g) = update_many (\<lambda>so. so_id so = i) f (gw_sockets g)"
  "gw_online (set_socket i f g) = gw_online g" "gw_sent (set_socket i f g) = gw_sent g"
  by (simp_all add: set_socket_def)

lemma online_step:
  assumes ok: "online_ok g" and so: "find_socket g i = Some so" and id: "\<And>x. so_id (f x) = so_id x"
    and on: "\<And>uid. online' uid = (let n = (case gw_online g uid of None \<Rightarrow> 0 | Some n \<Rightarrow> n) + (if present uid (f so) then 1 else 0)
        - (if present uid so then 1 else 0) in if n = 0 then None else Some n)"
  shows "online_ok ((set_socket i f g)\<lparr>gw_online := online'\<rparr>)"
proof -
  from find_socket_Some [OF so] have m: "so \<in> set (gw_sockets g)" "i = so_id so" by auto
  have d: "distinct (map so_id (gw_sockets g))" using ok by (simp add: online_ok_def)
  have c: "count_where (present uid) (update_many (\<lambda>x. so_id x = i) f (gw_sockets g))
      = count_where (present uid) (gw_sockets g) + (if present uid (f so) then 1 else 0) - (if present uid so then 1 else 0)" for uid
    using count_update_key [OF d m(1), of "present uid" f] unfolding m(2) by simp
  have n: "(case gw_online g uid of None \<Rightarrow> 0 | Some n \<Rightarrow> n) = count_where (present uid) (gw_sockets g)" for uid
    using ok unfolding online_ok_def by (simp only: Let_def) (simp split: if_splits)
  show ?thesis
    unfolding online_ok_def using d id by (simp add: map_update_many c on n Let_def del: count_where_0 count_where_pos)
qed

lemma track_online_up: "track_online uid 1 m v = (if v = uid then Some (Suc (case m uid of None \<Rightarrow> 0 | Some n \<Rightarrow> n)) else m v)"
  by (auto simp: track_online_def Let_def nat_add_distrib split: option.split)

lemma track_online_down: "track_online uid (-1) m v =
    (if v = uid then (let n = (case m uid of None \<Rightarrow> 0 | Some n \<Rightarrow> n) - 1 in if n = 0 then None else Some n) else m v)"
  by (auto simp: track_online_def Let_def split: option.split)

lemma online_disconnected:
  assumes ok: "online_ok g" and so: "open_socket g i"
  shows "online_ok (socket_disconnected i g)"
proof -
  from so obtain x where x: "find_socket g i = Some x" "so_open x"
    by (auto simp: open_socket_def split: option.splits)
  have nz: "gw_online g uid = Some n \<Longrightarrow> 0 < n" for uid n
    using ok by (auto simp: online_ok_def Let_def simp del: count_where_0 count_where_pos split: if_splits)
  show ?thesis
  proof (cases "so_principal x")
    case None
    have "online_ok ((set_socket i (\<lambda>so. so\<lparr>so_open := False\<rparr>) g)\<lparr>gw_online := gw_online g\<rparr>)"
      by (rule online_step [OF ok x(1)]) (use None in \<open>auto simp: present_def Let_def dest: nz split: option.split\<close>)
    with None x show ?thesis by (simp add: socket_disconnected_def Let_def set_socket_def)
  next
    case (Some p)
    have "online_ok ((set_socket i (\<lambda>so. so\<lparr>so_open := False\<rparr>) g)\<lparr>gw_online := track_online (pr_id p) (-1) (gw_online g)\<rparr>)"
      by (rule online_step [OF ok x(1)]) (use Some x(2) in \<open>auto simp: present_def track_online_down Let_def dest: nz split: option.split\<close>)
    with Some x show ?thesis by (simp add: socket_disconnected_def Let_def)
  qed
qed

lemma online_authenticated:
  assumes ok: "online_ok g" and so: "pending_socket g i"
  shows "online_ok (socket_authenticated i po g)"
proof (cases po)
  case None
  with so online_disconnected [OF ok] show ?thesis
    by (simp add: socket_authenticated_def pending_socket_def open_socket_def split: option.splits)
next
  case (Some p)
  from so obtain x where x: "find_socket g i = Some x" "so_open x" "so_principal x = None"
    by (auto simp: pending_socket_def split: option.splits)
  have nz: "gw_online g uid = Some n \<Longrightarrow> 0 < n" for uid n
    using ok by (auto simp: online_ok_def Let_def simp del: count_where_0 count_where_pos split: if_splits)
  show ?thesis unfolding socket_authenticated_def Some option.case
    by (rule online_step [OF ok x(1)])
      (use x in \<open>auto simp: present_def join_room_def track_online_up Let_def dest: nz split: option.split\<close>)
qed

lemma online_run: "online_ok g \<Longrightarrow> orderly g es \<Longrightarrow> online_ok (foldl socket_step g es)"
proof (induction es arbitrary: g)
  case Nil
  then show ?case by simp
next
  case (Cons e es)
  have "online_ok (socket_step g e)"
  proof (cases e)
    case (Opened i)
    with Cons.prems show ?thesis
      by (auto simp: online_ok_def socket_opened_def find_socket_def present_def Let_def)
  qed (use Cons.prems in \<open>auto simp: online_disconnected online_authenticated\<close>)
  with Cons show ?case by simp
qed

text \<open>
  Who is online is who is connected: as long as no socket closes between its opening and the end of
  its authentication, an account is listed as online exactly with the number of its open authenticated sockets,
  and accounts without one are not listed, whatever sockets open, authenticate, are refused and close.
\<close>

lemma online_exact:
  assumes "orderly \<lparr>gw_sockets = [], gw_online = Map.empty, gw_sent = []\<rparr> es"
    and "g = foldl socket_step \<lparr>gw_sockets = [], gw_online = Map.empty, gw_sent = []\<rparr> es"
  shows "gw_online g uid = (let n = count_where (\<lambda>so. so_open so \<and> map_option pr_id (so_principal so) = Some uid) (gw_sockets g)
    in if n = 0 then None else Some n)"
proof -
  have "online_ok g" unfolding assms(2)
    by (rule online_run [OF _ assms(1)]) (simp add: online_ok_def)
  then show ?thesis by (simp add: online_ok_def present_def [abs_def] del: count_where_0)
qed

lemma online_exact_example:
  "gw_online (foldl socket_step \<lparr>gw_sockets = [], gw_online = Map.empty, gw_sent = []\<rparr>
     [Opened ''a'', Opened ''b'', Authenticated ''b'' (Some demo_customer), Authenticated ''a'' (Some demo_customer),
      Disconnected ''b'']) ''u1'' = Some 1"
proof -
  let ?es = "[Opened ''a'', Opened ''b'', Authenticated ''b'' (Some demo_customer), Authenticated ''a'' (Some demo_customer),
      Disconnected ''b'']"
  let ?g = "foldl socket_step \<lparr>gw_sockets = [], gw_online = Map.empty, gw_sent = []\<rparr> ?es"
  have o: "orderly \<lparr>gw_sockets = [], gw_online = Map.empty, gw_sent = []\<rparr> ?es" by code_simp
  have "count_where (\<lambda>so. so_open so \<and> map_option pr_id (so_principal so) = Some ''u1'') (gw_sockets ?g) = 1" by code_simp
  with online_exact [OF o refl, of "''u1''"] show ?thesis by (simp only: Let_def) simp
qed

text \<open>
  A socket that closes while its token is being checked stays online for ever: its close is handled
  before the principal is set, so nothing takes back the count that the authentication adds.
\<close>

lemma online_leak:
  "(let g = foldl socket_step \<lparr>gw_sockets = [], gw_online = Map.empty, gw_sent = []\<rparr>
       [Opened ''a'', Disconnected ''a'', Authenticated ''a'' (Some demo_customer)]
    in gw_online g ''u1'' = Some 1 \<and> filter so_open (gw_sockets g) = [])"
  by code_simp

section \<open>Conversations keep their owner\<close>

definition conv_owner :: "state \<Rightarrow> string \<Rightarrow> string \<Rightarrow> bool" where
  "conv_owner s cid uid \<longleftrightarrow> (\<exists>c\<in>set (supportConversations s). sc_id c = cid \<and> sc_userId c = uid)"

text \<open>Conversation ids are UUIDs, so none is empty or equal to \<open>admins\<close>.\<close>

definition proper_id :: "string \<Rightarrow> bool" where
  "proper_id cid \<longleftrightarrow> cid \<noteq> [] \<and> cid \<noteq> ''admins''"

definition owners_inv :: "(string \<times> string) set \<Rightarrow> state \<Rightarrow> bool" where
  "owners_inv R s \<longleftrightarrow> (\<forall>c\<in>set (supportConversations s). proper_id (sc_id c)) \<and> (\<forall>(cid, uid)\<in>R. conv_owner s cid uid)"

named_theorems owner_keeps "operations keep the owners of conversations"

lemma owners_inv_other [simp]:
  "owners_inv R (s\<lparr>supportMessages := ms\<rparr>) = owners_inv R s"
  "owners_inv R (s\<lparr>auditEvents := es\<rparr>) = owners_inv R s"
  by (simp_all add: owners_inv_def conv_owner_def)

lemma owners_update:
  "owners_inv R s \<Longrightarrow> (\<And>c. sc_id (f c) = sc_id c) \<Longrightarrow> (\<And>c. sc_userId (f c) = sc_userId c) \<Longrightarrow>
     owners_inv R (s\<lparr>supportConversations := update_many P f (supportConversations s)\<rparr>)"
  by (auto simp: owners_inv_def conv_owner_def ball_update_many bex_update_keeps simp del: in_update_many)

lemma owners_add: "owners_inv R s \<Longrightarrow> proper_id (sc_id c) \<Longrightarrow>
    owners_inv R (s\<lparr>supportConversations := supportConversations s @ [c]\<rparr>)"
  by (auto simp: owners_inv_def conv_owner_def)

lemma owners_update_conversation [owner_keeps]:
  "(\<And>c. sc_id (f c) = sc_id c) \<Longrightarrow> (\<And>c. sc_userId (f c) = sc_userId c) \<Longrightarrow>
     keeps (owners_inv R) (update_conversation cid f)"
  unfolding update_conversation_def by (intro keeps_rules owners_update)

lemma owners_create_row [owner_keeps]: "keeps (owners_inv R) (create_message_row m)"
  unfolding create_message_row_def by (intro keeps_rules) simp

lemma owners_ensure [owner_keeps]: "proper_id cid \<Longrightarrow> keeps (owners_inv R) (ensure_conversation rq uid cid mid)"
  unfolding ensure_conversation_def Let_def
  by (intro keeps_rules owner_keeps) (simp_all add: owners_add)

lemma owners_create_message [owner_keeps]: "keeps (owners_inv R) (create_message cf rq cid a sender i mid)"
  unfolding create_message_def Let_def
  by (intro keeps_rules owner_keeps) (simp_all add: after_message_def)

lemma owners_audit_message [owner_keeps]: "keeps (owners_inv R) (audit_message rq http a action cid)"
  by (simp add: audit_message_def keeps_rules)

lemma owners_send_user [owner_keeps]:
  "proper_id newCid \<Longrightarrow> keeps (owners_inv R) (send_user_message cf rq http a i newCid newMid mid)"
  unfolding send_user_message_def by (intro keeps_rules owner_keeps)

lemma owners_send_admin [owner_keeps]: "keeps (owners_inv R) (send_admin_message cf rq http cid a i mid)"
  unfolding send_admin_message_def by (intro keeps_rules owner_keeps)

lemma owners_mark_seen [owner_keeps]: "keeps (owners_inv R) (mark_seen rq cid a)"
  unfolding mark_seen_def Let_def by (intro keeps_rules owner_keeps) simp_all

lemma owners_status [owner_keeps]: "keeps (owners_inv R) (update_conversation_status cid a status)"
  unfolding update_conversation_status_def Let_def by (intro keeps_rules owner_keeps) simp_all

lemma owners_delete [owner_keeps]: "keeps (owners_inv R) (delete_message cf mid a)"
  unfolding delete_message_def Let_def by (intro keeps_rules) simp_all

lemma owners_my [owner_keeps]: "proper_id cid \<Longrightarrow> keeps (owners_inv R) (get_my_conversation rq a cid mid)"
  unfolding get_my_conversation_def by (intro keeps_rules owner_keeps)

lemma owners_list [owner_keeps]: "keeps (owners_inv R) (list_conversation_messages cf cid a q)"
  unfolding list_conversation_messages_def by (intro keeps_rules)

text \<open>What a success says about the conversation.\<close>

lemma require_conversation_Inr:
  "require_conversation a cid s = (Inr c, s') \<Longrightarrow> s' = s \<and> c \<in> set (supportConversations s) \<and> sc_id c = cid
     \<and> (is_staff a \<or> sc_userId c = pr_id a)"
  by (auto simp: require_conversation_def simp del: find_first_None split: option.splits if_splits dest!: find_first_Some)

lemma list_messages_access:
  "list_conversation_messages cf cid a q s = (Inr x, s') \<Longrightarrow>
     s' = s \<and> (\<exists>uid. conv_owner s cid uid) \<and> (is_staff a \<or> conv_owner s cid (pr_id a))"
  by (auto simp: list_conversation_messages_def and_then_Inr conv_owner_def dest!: require_conversation_Inr)

lemma conv_owner_ex: "(\<exists>uid. conv_owner s cid uid) \<longleftrightarrow> cid \<in> sc_id ` set (supportConversations s)"
  by (auto simp: conv_owner_def)

lemma update_conversation_owner:
  "update_conversation cid f s = (Inr x, s') \<Longrightarrow> (\<And>c. sc_id (f c) = sc_id c) \<Longrightarrow> \<exists>uid. conv_owner s' cid uid"
  unfolding conv_owner_ex
  by (auto simp: update_conversation_def image_update_many simp del: in_update_many split: if_splits)

lemma update_conversation_frame: "update_conversation cid f s = (Inr x, s') \<Longrightarrow> supportMessages s' = supportMessages s"
  by (auto simp: update_conversation_def split: if_splits)

lemma create_message_access:
  assumes "create_message cf rq cid a sender i mid s = (Inr v, s')"
  shows "sm_conversationId (mv_message v) = cid \<and> (\<exists>uid. conv_owner s' cid uid)"
proof -
  from assms have v: "mv_message v = message_row rq mid cid a sender i"
    and u: "\<exists>s1 x. update_conversation cid (after_message rq a sender mid) s1 = (Inr x, s')"
    by (auto simp: create_message_def Let_def and_then_Inr present_message_def split: if_splits)
  from u obtain s1 x where "update_conversation cid (after_message rq a sender mid) s1 = (Inr x, s')" by blast
  from update_conversation_owner [OF this] have "\<exists>uid. conv_owner s' cid uid" by (simp add: after_message_def)
  with v show ?thesis by (simp add: message_row_def blank_message_def)
qed

lemma audit_message_owner: "audit_message rq http a action cid s = (Inr x, s') \<Longrightarrow> conv_owner s' = conv_owner s"
  by (auto simp: audit_message_def conv_owner_def [abs_def] split: if_splits)

lemma send_user_access:
  "send_user_message cf rq http a i newCid newMid mid s = (Inr v, s') \<Longrightarrow> \<exists>uid. conv_owner s' (sm_conversationId (mv_message v)) uid"
  by (auto simp: send_user_message_def and_then_Inr dest!: create_message_access audit_message_owner)

lemma send_admin_access:
  "send_admin_message cf rq http cid a i mid s = (Inr v, s') \<Longrightarrow>
     sm_conversationId (mv_message v) = cid \<and> (\<exists>uid. conv_owner s' cid uid)"
  by (auto simp: send_admin_message_def and_then_Inr assert_staff_def split: if_splits
      dest!: create_message_access audit_message_owner require_conversation_Inr)

lemma mark_seen_access: "mark_seen rq cid a s = (Inr v, s') \<Longrightarrow> \<exists>uid. conv_owner s' cid uid"
  by (auto simp: mark_seen_def Let_def and_then_Inr dest!: require_conversation_Inr elim!: update_conversation_owner)

lemma status_access: "update_conversation_status cid a status s = (Inr v, s') \<Longrightarrow> \<exists>uid. conv_owner s' cid uid"
  by (auto simp: update_conversation_status_def Let_def and_then_Inr assert_staff_def split: if_splits
      dest!: require_conversation_Inr elim!: update_conversation_owner)

lemma delete_access:
  assumes "delete_message cf mid a s = (Inr v, s')"
  shows "\<exists>uid. conv_owner s' (sm_conversationId (mv_message v)) uid"
proof -
  from assms obtain m :: support_message and c s1
    where c: "require_conversation a (sm_conversationId m) s = (Inr c, s1)"
    and v: "sm_conversationId (mv_message v) = sm_conversationId m" "supportConversations s' = supportConversations s1"
    by (auto simp: delete_message_def Let_def and_then_Inr present_message_def simp del: find_first_None
        split: option.splits if_splits)
  from require_conversation_Inr [OF c] v show ?thesis by (auto simp: conv_owner_def)
qed

section \<open>Who is told what\<close>

text \<open>One event of the socket server or one request of the support routes.\<close>

inductive chat_system_step :: "gateway \<times> state \<Rightarrow> gateway \<times> state \<Rightarrow> bool" where
  opened: "find_socket g i = None \<Longrightarrow> chat_system_step (g, s) (socket_opened i g, s)"
| authenticated: "find_socket g i = Some so \<Longrightarrow> so_principal so = None \<Longrightarrow>
    chat_system_step (g, s) (socket_authenticated i po g, s)"
| disconnected: "chat_system_step (g, s) (socket_disconnected i g, s)"
| joined: "proper_id newCid \<Longrightarrow> chat_system_step gs (snd (gateway_join cf rq i cid newCid newMid gs))"
| sent: "proper_id newCid \<Longrightarrow> chat_system_step gs (snd (gateway_send_message cf rq i cid text newCid newMid mid gs))"
| typing: "chat_system_step gs (snd (gateway_typing i cid gs))"
| stop_typing: "chat_system_step gs (snd (gateway_stop_typing i cid gs))"
| seen: "chat_system_step gs (snd (gateway_seen rq i cid gs))"
| my_conversation: "proper_id newCid \<Longrightarrow> chat_system_step gs (snd (in_db (get_my_conversation rq a newCid newMid) gs))"
| send_mine: "proper_id newCid \<Longrightarrow> chat_system_step gs (snd (route_send_mine cf rq a dto newCid newMid mid gs))"
| mark_seen: "chat_system_step gs (snd (route_mark_seen rq cid a gs))"
| send_admin: "chat_system_step gs (snd (route_send_admin cf rq cid a dto mid gs))"
| update_status: "chat_system_step gs (snd (route_update_status cid a status gs))"
| delete_message: "chat_system_step gs (snd (route_delete_message cf mid a gs))"

text \<open>A principal may hear about a conversation.\<close>

definition may_hear :: "state \<Rightarrow> string \<Rightarrow> principal option \<Rightarrow> bool" where
  "may_hear s cid po \<longleftrightarrow> (\<exists>p. po = Some p \<and> (is_staff p \<or> conv_owner s cid (pr_id p)))"

text \<open>
  The rooms of a socket: staff may be anywhere; anybody else only in their own room, in the rooms of their
  own conversations, and in the room of the empty id, which no conversation has.
\<close>

definition room_ok :: "state \<Rightarrow> principal option \<Rightarrow> string \<Rightarrow> bool" where
  "room_ok s po r \<longleftrightarrow> (\<exists>p. po = Some p \<and> (is_staff p \<or> r = user_room (pr_id p) \<or> r = conversation_room []
     \<or> (\<exists>cid. r = conversation_room cid \<and> conv_owner s cid (pr_id p))))"

definition typing_event :: "string \<Rightarrow> bool" where
  "typing_event e \<longleftrightarrow> e = ''typing'' \<or> e = ''stop_typing''"

definition hearing_inv :: "gateway \<times> state \<Rightarrow> bool" where
  "hearing_inv gs \<longleftrightarrow> (case gs of (g, s) \<Rightarrow>
     (\<forall>c\<in>set (supportConversations s). proper_id (sc_id c)) \<and> distinct (map so_id (gw_sockets g))
   \<and> (\<forall>so\<in>set (gw_sockets g). \<forall>r\<in>set (so_rooms so). room_ok s (so_principal so) r)
   \<and> (\<forall>d\<in>set (gw_sent g). typing_event (dl_event d) \<or>
        (\<exists>so\<in>set (gw_sockets g). so_id so = dl_socket d \<and> may_hear s (dl_conversation d) (so_principal so))))"

text \<open>Rooms tell conversations apart.\<close>

lemma room_names [simp]:
  "conversation_room a = conversation_room b \<longleftrightarrow> a = b"
  "user_room i \<noteq> conversation_room c" "conversation_room c \<noteq> user_room i" "user_room i \<noteq> admin_room" "admin_room \<noteq> user_room i"
  "admin_room = conversation_room c \<longleftrightarrow> c = ''admins''" "conversation_room c = admin_room \<longleftrightarrow> c = ''admins''"
  by (auto simp: conversation_room_def user_room_def admin_room_def)

lemma owner_proper: "hearing_inv (g, s) \<Longrightarrow> conv_owner s cid uid \<Longrightarrow> proper_id cid"
  by (auto simp: hearing_inv_def conv_owner_def)

lemma room_ok_hears:
  assumes "room_ok s po r" and "\<forall>c\<in>set (supportConversations s). proper_id (sc_id c)"
    and "r = admin_room \<or> (r = conversation_room cid \<and> proper_id cid)"
  shows "may_hear s cid po"
  using assms by (auto simp: room_ok_def may_hear_def conv_owner_def proper_id_def)

text \<open>An announcement about a conversation reaches only sockets that may hear it.\<close>

lemma hearing_emit:
  assumes inv: "hearing_inv (g, s)" and r: "r = admin_room \<or> (r = conversation_room cid \<and> proper_id cid)"
  shows "hearing_inv (emit_to r sender e cid g, s)"
  using inv room_ok_hears [OF _ _ r] unfolding hearing_inv_def emit_to_def by (auto 0 3)

lemma hearing_announce: "hearing_inv (g, s) \<Longrightarrow> conv_owner s cid uid \<Longrightarrow> hearing_inv (announce e cid g, s)"
  unfolding announce_def by (intro hearing_emit) (auto dest: owner_proper)

lemma hearing_typing: "hearing_inv (g, s) \<Longrightarrow> typing_event e \<Longrightarrow> hearing_inv (emit_to r sender e cid g, s)"
  unfolding hearing_inv_def emit_to_def by auto

text \<open>The database only adds conversations, so nobody loses what they may hear.\<close>

lemma hearing_db:
  assumes inv: "hearing_inv (g, s)" and k: "\<And>R. keeps (owners_inv R) m" and run: "m s = (r, s')"
  shows "hearing_inv (g, s')"
proof -
  let ?R = "{(cid, uid). conv_owner s cid uid}"
  have "owners_inv ?R s" using inv by (auto simp: owners_inv_def hearing_inv_def)
  with k [of ?R] run have o: "owners_inv ?R s'" by (metis keepsD)
  then have "may_hear s' cid po" if "may_hear s cid po" for cid po
    using that by (auto simp: may_hear_def owners_inv_def)
  moreover have "room_ok s' po r" if "room_ok s po r" for po r
    using that o by (auto simp: room_ok_def owners_inv_def)
  ultimately show ?thesis using inv o unfolding hearing_inv_def owners_inv_def by (auto 0 4)
qed

lemma hearing_in_db:
  assumes "hearing_inv gs" and "\<And>R. keeps (owners_inv R) m"
  shows "hearing_inv (snd (in_db m gs))"
  using hearing_db [OF _ assms(2), of "fst gs" "snd gs"] assms(1) by (auto simp: in_db_def split: prod.split)

text \<open>A database operation and the announcement of what it did.\<close>

lemma in_db_then:
  "and_then (in_db m) k (g, s) = (case m s of (Inl e, s') \<Rightarrow> (Inl e, (g, s')) | (Inr x, s') \<Rightarrow> k x (g, s'))"
  by (simp add: and_then_def in_db_def split: prod.split sum.split)

lemma hearing_db_announce:
  assumes inv: "hearing_inv gs" and k: "\<And>R. keeps (owners_inv R) m"
    and after: "\<And>x s'. m (snd gs) = (Inr x, s') \<Longrightarrow> hearing_inv (fst gs, s') \<Longrightarrow> hearing_inv (snd (k x (fst gs, s')))"
  shows "hearing_inv (snd (and_then (in_db m) k gs))"
proof (cases gs)
  case (Pair g s)
  show ?thesis
  proof (cases "m s")
    case (Pair r s')
    have "hearing_inv (g, s')" by (rule hearing_db [OF _ k Pair]) (use inv \<open>gs = (g, s)\<close> in simp)
    with Pair \<open>gs = (g, s)\<close> after show ?thesis by (simp add: in_db_then split: sum.split)
  qed
qed

lemma on_gateway_then [simp]: "and_then (on_gateway f) k (g, s) = k () (f g, s)"
  by (simp add: on_gateway_def and_then_def)

lemma on_gateway_apply [simp]: "on_gateway f (g, s) = (Inr (), (f g, s))"
  by (simp add: on_gateway_def)

lemma hearing_set_socket:
  assumes inv: "hearing_inv (g, s)" and id: "\<And>so. so_id (f so) = so_id so"
    and rooms: "\<And>so r. so \<in> set (gw_sockets g) \<Longrightarrow> so_id so = i \<Longrightarrow> r \<in> set (so_rooms (f so)) \<Longrightarrow> room_ok s (so_principal (f so)) r"
    and hears: "\<And>so cid. so \<in> set (gw_sockets g) \<Longrightarrow> so_id so = i \<Longrightarrow> may_hear s cid (so_principal so) \<Longrightarrow> may_hear s cid (so_principal (f so))"
  shows "hearing_inv (set_socket i f g, s)"
proof -
  have "\<exists>so\<in>set (update_many (\<lambda>so. so_id so = i) f (gw_sockets g)). so_id so = x \<and> may_hear s cid (so_principal so)"
    if "so \<in> set (gw_sockets g)" "so_id so = x" "may_hear s cid (so_principal so)" for so x cid
    using that id hears by (auto simp: bex_update_many simp del: in_update_many intro!: bexI [of _ so])
  moreover have "\<forall>so\<in>set (update_many (\<lambda>so. so_id so = i) f (gw_sockets g)). \<forall>r\<in>set (so_rooms so). room_ok s (so_principal so) r"
    using inv rooms by (auto simp: hearing_inv_def ball_update_many simp del: in_update_many)
  ultimately show ?thesis using inv id unfolding hearing_inv_def
    by (auto simp: map_update_many simp del: in_update_many)
qed

lemma hearing_online [simp]: "hearing_inv (g\<lparr>gw_online := m\<rparr>, s) = hearing_inv (g, s)"
  by (simp add: hearing_inv_def)

lemma hearing_disconnected: "hearing_inv (g, s) \<Longrightarrow> hearing_inv (socket_disconnected i g, s)"
proof -
  assume inv: "hearing_inv (g, s)"
  have "hearing_inv (set_socket i (\<lambda>so. so\<lparr>so_open := False\<rparr>) g, s)"
    by (rule hearing_set_socket [OF inv]) (use inv in \<open>auto simp: hearing_inv_def\<close>)
  then show ?thesis by (auto simp: socket_disconnected_def Let_def split: option.split)
qed

lemma hearing_opened: "hearing_inv (g, s) \<Longrightarrow> find_socket g i = None \<Longrightarrow> hearing_inv (socket_opened i g, s)"
  by (auto simp: hearing_inv_def socket_opened_def find_socket_def)

lemma hearing_authenticated:
  assumes inv: "hearing_inv (g, s)" and so: "\<And>so. so \<in> set (gw_sockets g) \<Longrightarrow> so_id so = i \<Longrightarrow> so_principal so = None"
  shows "hearing_inv (socket_authenticated i po g, s)"
proof (cases po)
  case None
  with hearing_disconnected [OF inv] show ?thesis by (simp add: socket_authenticated_def)
next
  case (Some p)
  have "so_rooms so = []" if "so \<in> set (gw_sockets g)" "so_id so = i" for so
  proof -
    have "\<forall>r\<in>set (so_rooms so). room_ok s None r"
      using inv that so [OF that] by (auto simp: hearing_inv_def)
    then show ?thesis by (cases "so_rooms so") (auto simp: room_ok_def)
  qed
  with inv so show ?thesis unfolding socket_authenticated_def Some option.case hearing_online
    by (intro hearing_set_socket) (auto simp: join_room_def set_add_def Let_def room_ok_def may_hear_def)
qed

lemma require_principal_run:
  "require_principal i (g, s) = (case Option.bind (find_socket g i) so_principal of
     Some p \<Rightarrow> (Inr p, (g, s)) | None \<Rightarrow> (Inl (Internal ''Unauthorized''), (socket_disconnected i g, s)))"
  by (simp add: require_principal_def split: option.split)

lemma hearing_with_principal:
  assumes inv: "hearing_inv (g, s)"
    and k: "\<And>so p. find_socket g i = Some so \<Longrightarrow> so_principal so = Some p \<Longrightarrow> hearing_inv (snd (k p (g, s)))"
  shows "hearing_inv (snd (and_then (require_principal i) k (g, s)))"
  using hearing_disconnected [OF inv, of i] k
  by (auto simp: and_then_def require_principal_run bind_eq_Some_conv split: option.split)

lemma hearing_sent_message:
  assumes "hearing_inv gs" and "\<And>R. keeps (owners_inv R) m"
    and "\<And>x s'. m (snd gs) = (Inr x, s') \<Longrightarrow> \<exists>uid. conv_owner s' (cid x) uid"
  shows "hearing_inv (snd (and_then (in_db m) (\<lambda>x. and_then (on_gateway (announce e (cid x))) (\<lambda>_. ret (f x))) gs))"
    and "hearing_inv (snd (and_then (in_db m) (\<lambda>x. and_then (on_gateway (announce e (cid x))) (\<lambda>_.
           and_then (on_gateway (announce e' (cid x))) (\<lambda>_. ret (f x)))) gs))"
  by (rule hearing_db_announce [OF assms(1,2)]; use assms(3) in \<open>auto intro!: hearing_announce\<close>)+

lemmas emit_defs = emit_message_def emit_conversation_updated_def emit_seen_def emit_deleted_def

lemma hearing_join:
  assumes inv: "hearing_inv (g, s)" and so: "find_socket g i = Some so" "so_principal so = Some q" and r: "room_ok s (Some q) r"
  shows "hearing_inv (set_socket i (join_room r) g, s)"
proof (rule hearing_set_socket [OF inv])
  fix x r' assume x: "x \<in> set (gw_sockets g)" "so_id x = i" and r': "r' \<in> set (so_rooms (join_room r x))"
  have "distinct (map so_id (gw_sockets g))" using inv by (simp add: hearing_inv_def)
  from unique_key [OF this x(1)] find_socket_Some [OF so(1)] x(2) have "x = so" by blast
  with inv x so(2) r r' show "room_ok s (so_principal (join_room r x)) r'"
    by (auto simp: join_room_def set_add_def hearing_inv_def split: if_splits)
qed (simp_all add: join_room_def)

lemma ensure_access: "ensure_conversation rq uid cid mid s = (Inr c, s') \<Longrightarrow> conv_owner s' (sc_id c) uid"
  by (auto simp: ensure_conversation_def Let_def conversation_of_def and_then_Inr update_conversation_def conv_owner_def
      create_message_row_def simp del: find_first_None split: option.splits if_splits dest!: find_first_Some)

lemma my_conversation_access:
  "get_my_conversation rq a cid mid s = (Inr v, s') \<Longrightarrow> conv_owner s' (sc_id (cv_conversation v)) (pr_id a)"
  by (auto simp: get_my_conversation_def and_then_Inr present_conversation_def dest!: ensure_access)

lemma hearing_joined:
  assumes inv: "hearing_inv (g, s)" and p: "proper_id newCid"
  shows "hearing_inv (snd (gateway_join cf rq i cid newCid newMid (g, s)))"
  unfolding gateway_join_def
proof (rule hearing_with_principal [OF inv])
  fix so q assume so: "find_socket g i = Some so" "so_principal so = Some q"
  show "hearing_inv (snd (and_then (case truthy cid of
         Some c \<Rightarrow> and_then (in_db (list_conversation_messages cf c q \<lparr>pq_page = 1, pq_limit = 1\<rparr>)) (\<lambda>_. ret c)
       | None \<Rightarrow> and_then (in_db (get_my_conversation rq q newCid newMid)) (\<lambda>v.
           ret (case cid of Some c \<Rightarrow> c | None \<Rightarrow> sc_id (cv_conversation v)))) (\<lambda>conversationId.
     and_then (on_gateway (set_socket i (join_room (conversation_room conversationId)))) (\<lambda>_. ret conversationId)) (g, s)))"
  proof (cases "truthy cid")
    case None
    then have c: "cid = None \<or> cid = Some []" by (auto simp: truthy_def split: option.splits list.splits)
    show ?thesis unfolding None option.case and_then_assoc and_then_ret
      by (rule hearing_db_announce [OF inv owners_my [OF p]])
        (use c so in \<open>auto intro!: hearing_join simp: room_ok_def dest!: my_conversation_access\<close>)
  next
    case (Some c)
    show ?thesis unfolding Some option.case and_then_assoc and_then_ret
      by (rule hearing_db_announce [OF inv owners_list])
        (use so in \<open>auto intro!: hearing_join simp: room_ok_def dest!: list_messages_access\<close>)
  qed
qed

lemma hearing_sent:
  assumes inv: "hearing_inv (g, s)" and p: "proper_id newCid"
  shows "hearing_inv (snd (gateway_send_message cf rq i cid text newCid newMid mid (g, s)))"
  unfolding gateway_send_message_def
proof (rule hearing_with_principal [OF inv])
  fix so q assume so: "find_socket g i = Some so" "so_principal so = Some q"
  show "hearing_inv (snd ((case truthy (map_option trim text) of
       None \<Rightarrow> ret None
     | Some text \<Rightarrow>
         and_then (in_db (case (if is_staff q then truthy cid else None) of
             Some c \<Rightarrow> send_admin_message cf rq False c q (text_input text) mid
           | None \<Rightarrow> send_user_message cf rq False q (text_input text) newCid newMid mid)) (\<lambda>m.
         let c = sm_conversationId (mv_message m) in
         and_then (on_gateway (emit_message c)) (\<lambda>_.
         and_then (on_gateway (emit_conversation_updated c)) (\<lambda>_. ret (Some m))))) (g, s)))"
  proof (cases "truthy (map_option trim text)")
    case None
    with inv show ?thesis by simp
  next
    case (Some t)
    show ?thesis unfolding Some option.case Let_def emit_defs
      by (rule hearing_sent_message(2) [OF inv])
        (use p in \<open>auto intro: owner_keeps dest: send_user_access send_admin_access split: option.splits if_splits\<close>)
  qed
qed

lemma chat_system_step_hears: "chat_system_step gs gs' \<Longrightarrow> hearing_inv gs \<Longrightarrow> hearing_inv gs'"
proof (induction rule: chat_system_step.induct)
  case (authenticated g i so s po)
  have "x = so" if "x \<in> set (gw_sockets g)" "so_id x = i" for x
    using unique_key [of so_id "gw_sockets g" x so] find_socket_Some [OF authenticated(1)] authenticated(3) that
    by (auto simp: hearing_inv_def)
  with authenticated show ?case by (blast intro: hearing_authenticated)
next
  case (joined newCid gs cf rq i cid newMid)
  then show ?case by (cases gs) (simp add: hearing_joined)
next
  case (sent newCid gs cf rq i cid _ newMid mid)
  then show ?case by (cases gs) (simp add: hearing_sent)
next
  case (typing gs i cid)
  then show ?case unfolding gateway_typing_def
    by (cases gs) (auto intro!: hearing_with_principal hearing_typing simp: typing_event_def)
next
  case (stop_typing gs i cid)
  then show ?case unfolding gateway_stop_typing_def
    by (cases gs) (auto intro!: hearing_with_principal hearing_typing simp: typing_event_def)
next
  case (seen gs rq i cid)
  then show ?case unfolding gateway_seen_def emit_defs
    by (cases gs) (auto intro!: hearing_with_principal hearing_sent_message(1) owner_keeps mark_seen_access)
next
  case (my_conversation newCid gs rq a newMid)
  then show ?case by (intro hearing_in_db owner_keeps)
next
  case (send_mine newCid gs cf rq a dto newMid mid)
  then show ?case unfolding route_send_mine_def emit_defs
    by (intro hearing_sent_message(2) owner_keeps) (auto dest: send_user_access)
next
  case (mark_seen gs rq cid a)
  then show ?case unfolding route_mark_seen_def emit_defs
    by (intro hearing_sent_message(1) owner_keeps) (auto dest: mark_seen_access)
next
  case (send_admin gs cf rq cid a dto mid)
  then show ?case unfolding route_send_admin_def emit_defs
    by (intro hearing_sent_message(2) owner_keeps) (auto dest: send_admin_access)
next
  case (update_status gs cid a status)
  then show ?case unfolding route_update_status_def emit_defs
    by (intro hearing_sent_message(1) owner_keeps) (auto dest: status_access)
next
  case (delete_message gs cf mid a)
  then show ?case unfolding route_delete_message_def emit_defs
    by (intro hearing_sent_message(1) owner_keeps) (auto dest: delete_access)
qed (simp_all add: hearing_opened hearing_disconnected)

lemma chat_system_hears: "chat_system_step\<^sup>*\<^sup>* gs gs' \<Longrightarrow> hearing_inv gs \<Longrightarrow> hearing_inv gs'"
  by (induction rule: rtranclp_induct) (auto intro: chat_system_step_hears)

definition no_gateway :: gateway where
  "no_gateway = \<lparr>gw_sockets = [], gw_online = Map.empty, gw_sent = []\<rparr>"


definition demo_sockets :: gateway where
  "demo_sockets = socket_authenticated ''b'' (Some demo_agent) (socket_opened ''b''
     (socket_authenticated ''a'' (Some demo_customer) (socket_opened ''a'' no_gateway)))"

definition demo_chat_run :: "gateway \<times> state" where
  "demo_chat_run = snd (gateway_send_message demo_chat_config demo_request ''a'' None (Some '' hello '') ''c1'' ''m0'' ''m1''
     (demo_sockets, demo_state))"


text \<open>
  A socket keeps the rights it connected with: after the account of an open socket was suspended, its
  token is refused and its sessions are revoked, but its messages are still accepted and stored.
\<close>

lemma socket_outlives_account:
  "(let gs = (socket_authenticated ''a'' (Some demo_customer) (socket_opened ''a'' no_gateway),
              snd (update_status demo_request demo_admin ''u1'' User_SUSPENDED demo_state));
        r = gateway_send_message demo_chat_config demo_request ''a'' None (Some ''still here'') ''c1'' ''m0'' ''m1'' gs
    in fst (principal_from_token demo_platform demo_request ''good'' demo_state) \<noteq> Inr None
     \<and> fst (principal_from_token demo_platform demo_request ''good'' (snd gs)) = Inr None
     \<and> map sm_text (supportMessages (snd (snd r))) = [Some welcome_text, Some ''still here''])"
  by code_simp

end
