(* ===== verification/Locator.thy ===== *)
theory Locator
  imports Prelude "HOL-Library.Word"
begin

text \<open>
  \<open>src/media-gateway/media-locator-cipher.service.ts\<close>: the address of a media file is stored encrypted, as
  \<open>v1.iv.tag.ciphertext\<close> with the last three parts in base64url.

  The cipher of \<open>node:crypto\<close> (AES-256-GCM) is a parameter, the record \<open>aead\<close>; base64 is defined here the way
  \<open>Buffer\<close> encodes and decodes it: no padding is written, both alphabets are read, and other characters are
  skipped. A string is encoded as one byte per character (addresses are ASCII).
\<close>

type_synonym bytes = "8 word list"

text \<open>Encryption of key, initialisation vector and plaintext to tag and ciphertext, and back.\<close>

record aead =
  ae_seal :: "bytes \<Rightarrow> bytes \<Rightarrow> bytes \<Rightarrow> bytes \<times> bytes"
  ae_open :: "bytes \<Rightarrow> bytes \<Rightarrow> bytes \<Rightarrow> bytes \<Rightarrow> bytes option"

section \<open>Base 64\<close>

definition sextet_char :: "nat \<Rightarrow> char" where
  "sextet_char n = char_of (if n < 26 then n + 65 else if n < 52 then n + 71 else if n < 62 then n - 4
     else if n = 62 then 45 else (95 :: nat))"

definition char_sextet :: "char \<Rightarrow> nat option" where
  "char_sextet c = (let n = (of_char c :: nat) in
     if 65 \<le> n \<and> n \<le> 90 then Some (n - 65) else if 97 \<le> n \<and> n \<le> 122 then Some (n - 71)
     else if 48 \<le> n \<and> n \<le> 57 then Some (n + 4) else if n = 45 \<or> n = 43 then Some 62
     else if n = 95 \<or> n = 47 then Some 63 else None)"

fun sextets :: "nat list \<Rightarrow> nat list" where
  "sextets [] = []"
| "sextets [a] = [a div 4, a mod 4 * 16]"
| "sextets [a, b] = [a div 4, a mod 4 * 16 + b div 16, b mod 16 * 4]"
| "sextets (a # b # c # r) = [a div 4, a mod 4 * 16 + b div 16, b mod 16 * 4 + c div 64, c mod 64] @ sextets r"

text \<open>A last group of two or three characters carries one or two bytes; a single character carries none.\<close>

fun octets :: "nat list \<Rightarrow> nat list" where
  "octets (w # x # y # z # r) = [w * 4 + x div 16, x mod 16 * 16 + y div 4, y mod 4 * 64 + z] @ octets r"
| "octets [w, x, y] = [w * 4 + x div 16, x mod 16 * 16 + y div 4]"
| "octets [w, x] = [w * 4 + x div 16]"
| "octets _ = []"

definition base64url :: "bytes \<Rightarrow> string" where
  "base64url bs = map sextet_char (sextets (map unat bs))"

definition base64_bytes :: "string \<Rightarrow> bytes" where
  "base64_bytes s = map of_nat (octets (List.map_filter char_sextet s))"

lemma sextets_small: "list_all (\<lambda>n. n < 256) bs \<Longrightarrow> list_all (\<lambda>n. n < 64) (sextets bs)"
  by (induction bs rule: sextets.induct) auto

lemma two_digits: "y < (n :: nat) \<Longrightarrow> (x * n + y) div n = x \<and> (x * n + y) mod n = y"
  by simp

lemma byte_parts: "(b :: nat) < 256 \<Longrightarrow> b div 16 < 16" "(b :: nat) < 256 \<Longrightarrow> b div 64 < 4"
  using less_mult_imp_div_less [of b 16 16] less_mult_imp_div_less [of b 4 64] by simp_all

lemma octets_sextets: "list_all (\<lambda>n. n < 256) bs \<Longrightarrow> octets (sextets bs) = bs"
proof (induction bs rule: sextets.induct)
  case (3 a b)
  then have "b div 16 < 16" by (simp add: byte_parts)
  then show ?case using two_digits [of "b div 16" 16 "a mod 4"] by simp
next
  case (4 a b c r)
  then have lt: "b div 16 < 16" "c div 64 < 4" by (simp_all add: byte_parts)
  with 4 show ?case
    using two_digits [OF lt(1), of "a mod 4"] two_digits [OF lt(2), of "b mod 16"] by simp
qed auto

lemma sextet_code:
  "of_char (sextet_char n) = (if n < 26 then n + 65 else if n < 52 then n + 71 else if n < 62 then n - 4
     else if n = 62 then 45 else (95 :: nat))"
  by (simp add: sextet_char_def)

lemma sextet_round: "n < 64 \<Longrightarrow> char_sextet (sextet_char n) = Some n"
  by (auto simp: char_sextet_def sextet_code Let_def)

lemma sextet_no_dot: "sextet_char n \<noteq> CHR ''.''"
proof
  assume "sextet_char n = CHR ''.''"
  then have "of_char (sextet_char n) = (46 :: nat)" by simp
  then show False by (simp add: sextet_code split: if_splits)
qed

lemma byte_less: "unat (b :: 8 word) < 256"
  using unsigned_less [of b] by simp

lemma sextets_of_bytes: "list_all (\<lambda>n. n < 64) (sextets (map unat (bs :: bytes)))"
proof -
  have "list_all (\<lambda>n. n < 256) (map unat bs)"
    by (simp add: list_all_iff byte_less)
  then show ?thesis by (rule sextets_small)
qed

lemma map_filter_back: "list_all (\<lambda>n. g (f n) = Some n) ns \<Longrightarrow> List.map_filter g (map f ns) = ns"
  by (induction ns) (simp_all add: List.map_filter_simps)

lemma base64_round [simp]: "base64_bytes (base64url bs) = bs"
proof -
  have "list_all (\<lambda>n. char_sextet (sextet_char n) = Some n) (sextets (map unat bs))"
    using sextets_of_bytes [of bs] by (auto simp: list_all_iff sextet_round)
  then have "List.map_filter char_sextet (base64url bs) = sextets (map unat bs)"
    by (simp add: base64url_def map_filter_back)
  moreover have "list_all (\<lambda>n. n < 256) (map unat bs)"
    by (simp add: list_all_iff byte_less)
  ultimately show ?thesis by (simp add: base64_bytes_def octets_sextets o_def)
qed

lemma base64url_no_dot: "CHR ''.'' \<notin> set (base64url bs)"
  using sextet_no_dot by (fastforce simp: base64url_def)

lemma base64url_Nil [simp]: "base64url bs = [] \<longleftrightarrow> bs = []"
  by (cases "map unat bs" rule: sextets.cases) (auto simp: base64url_def)

section \<open>The cipher service\<close>

definition text_bytes :: "string \<Rightarrow> bytes" where
  "text_bytes s = map (\<lambda>c. of_nat (of_char c)) s"

definition bytes_text :: "bytes \<Rightarrow> string" where
  "bytes_text bs = map (\<lambda>b. char_of (unat b)) bs"

text \<open>The key is the value of \<open>MEDIA_LOCATOR_ENCRYPTION_KEY_B64\<close>; \<open>getOrThrow\<close> throws when it is not set.\<close>

definition encrypt_locator :: "aead \<Rightarrow> string option \<Rightarrow> bytes \<Rightarrow> string \<Rightarrow> ('s, string) prog" where
  "encrypt_locator ae env iv value =
     and_then (expect env (Internal ''Configuration key does not exist'')) (\<lambda>encoded.
     let key = base64_bytes encoded in
     and_then (require (length key = 32) (BadRequest ''Media locator key is invalid'')) (\<lambda>_.
     case ae_seal ae key iv (text_bytes value) of (tag, ciphertext) \<Rightarrow>
     ret (''v1.'' @ base64url iv @ ''.'' @ base64url tag @ ''.'' @ base64url ciphertext)))"

text \<open>\<open>open_locator\<close> is the \<open>try\<close> block, \<open>None\<close> being any exception; further parts are ignored.\<close>

definition open_locator :: "aead \<Rightarrow> string option \<Rightarrow> string \<Rightarrow> string option" where
  "open_locator ae env value =
     (case split_on (CHR ''.'') value of
        version # ivEncoded # tagEncoded # cipherEncoded # _ \<Rightarrow>
          if version \<noteq> ''v1'' \<or> ivEncoded = [] \<or> tagEncoded = [] \<or> cipherEncoded = [] then None
          else Option.bind env (\<lambda>encoded.
            let iv = base64_bytes ivEncoded; tag = base64_bytes tagEncoded; key = base64_bytes encoded in
            if length key \<noteq> 32 \<or> length iv \<noteq> 12 \<or> length tag \<noteq> 16 then None
            else map_option bytes_text (ae_open ae key iv tag (base64_bytes cipherEncoded)))
      | _ \<Rightarrow> None)"

definition decrypt_locator :: "aead \<Rightarrow> string option \<Rightarrow> string \<Rightarrow> ('s, string) prog" where
  "decrypt_locator ae env value = expect (open_locator ae env value) (BadRequest ''Media locator is invalid'')"

lemma bytes_text_bytes [simp]: "bytes_text (text_bytes s) = s"
proof -
  have "char_of (unat (of_nat (of_char c) :: 8 word)) = c" for c :: char
  proof -
    have "of_char c < (256 :: nat)" by (rule nat_of_char_less_256)
    then have "unat (of_nat (of_char c) :: 8 word) = of_char c" by (simp add: unat_of_nat take_bit_eq_mod)
    then show ?thesis by simp
  qed
  then show ?thesis by (simp add: bytes_text_def text_bytes_def map_idI)
qed

text \<open>
  What the code relies on in AES-GCM: a ciphertext with its tag is opened to a plaintext exactly if sealing
  that plaintext gives them; tags have 16 bytes and a ciphertext has the length of its plaintext.
\<close>

definition aead_ok :: "aead \<Rightarrow> bool" where
  "aead_ok ae \<longleftrightarrow> (\<forall>k i t c p. ae_open ae k i t c = Some p \<longleftrightarrow> ae_seal ae k i p = (t, c))
     \<and> (\<forall>k i p. length (fst (ae_seal ae k i p)) = 16 \<and> length (snd (ae_seal ae k i p)) = length p)"

lemma aead_openI: "aead_ok ae \<Longrightarrow> ae_seal ae k i p = (t, c) \<Longrightarrow> ae_open ae k i t c = Some p"
  by (simp add: aead_ok_def)

lemma aead_lengths: "aead_ok ae \<Longrightarrow> ae_seal ae k i p = (t, c) \<Longrightarrow> length t = 16 \<and> length c = length p"
  unfolding aead_ok_def by (metis fst_conv snd_conv)

lemma sealed_opens:
  assumes "aead_ok ae" and "length (base64_bytes key) = 32" and "length iv = 12" and "value \<noteq> []"
    and tc: "ae_seal ae (base64_bytes key) iv (text_bytes value) = (t, c)"
  shows "open_locator ae (Some key) (''v1.'' @ base64url iv @ ''.'' @ base64url t @ ''.'' @ base64url c) = Some value"
proof -
  have len: "length t = 16" "length c = length value"
    using aead_lengths [OF assms(1) tc] by (simp_all add: text_bytes_def)
  have "split_on (CHR ''.'') (''v1.'' @ base64url iv @ ''.'' @ base64url t @ ''.'' @ base64url c)
      = [''v1'', base64url iv, base64url t, base64url c]"
    using base64url_no_dot by (simp add: split_on_first split_on_none)
  then show ?thesis
    using assms(1-4) len aead_openI [OF assms(1) tc] by (auto simp: open_locator_def Let_def)
qed

text \<open>
  C39. The locator cipher round-trips: with a 32-byte key and a 12-byte initialisation vector, encrypting any
  non-empty address succeeds, the result is in the \<open>v1\<close> format, and decrypting it with the same key gives the
  address back; neither touches the state.
\<close>

theorem locator_roundtrip:
  assumes "aead_ok ae" and "length (base64_bytes key) = 32" and "length iv = 12" and "value \<noteq> []"
  shows "\<exists>locator. encrypt_locator ae (Some key) iv value s = (Inr locator, s) \<and> starts_with locator ''v1.''
    \<and> decrypt_locator ae (Some key) locator s' = (Inr value, s')"
proof -
  obtain t c where tc: "ae_seal ae (base64_bytes key) iv (text_bytes value) = (t, c)" by force
  then show ?thesis
    using assms(2) sealed_opens [OF assms tc] by (simp add: encrypt_locator_def decrypt_locator_def Let_def expect_def require_def)
qed

text \<open>A cipher that only appends a tag, to run the code on.\<close>

definition plain_aead :: aead where
  "plain_aead = \<lparr>ae_seal = (\<lambda>k i p. (replicate 16 7, p)),
     ae_open = (\<lambda>k i t c. if t = replicate 16 7 then Some c else None)\<rparr>"

lemma plain_aead_ok: "aead_ok plain_aead"
  by (auto simp: aead_ok_def plain_aead_def)

definition sample_key :: string where
  "sample_key = replicate 43 (CHR ''A'')"

lemma sample_key_length: "length (base64_bytes sample_key) = 32"
  by code_simp

theorem locator_roundtrip_witness:
  "\<exists>locator. encrypt_locator plain_aead (Some sample_key) (replicate 12 1) ''https://a/b.mp4'' () = (Inr locator, ())
    \<and> starts_with locator ''v1.'' \<and> decrypt_locator plain_aead (Some sample_key) locator () = (Inr ''https://a/b.mp4'', ())"
  by (rule locator_roundtrip [OF plain_aead_ok sample_key_length]) simp_all

text \<open>Nothing else is accepted: a locator that opens holds what sealing its address gives.\<close>

lemma open_locator_sealed:
  assumes "aead_ok ae" and "open_locator ae env value = Some address"
  shows "\<exists>key iv tag c rest p. env = Some key \<and> split_on (CHR ''.'') value = ''v1'' # iv # tag # c # rest
    \<and> length (base64_bytes iv) = 12 \<and> address = bytes_text p
    \<and> ae_seal ae (base64_bytes key) (base64_bytes iv) p = (base64_bytes tag, base64_bytes c)"
  using assms unfolding open_locator_def aead_ok_def
  by (auto simp: Let_def bind_eq_Some_conv split: list.splits if_splits)

text \<open>An empty address can be encrypted but never read back: the last part of its locator is empty.\<close>

lemma empty_address_unreadable:
  assumes "aead_ok ae" and "encrypt_locator ae env iv [] s = (Inr locator, s')"
  shows "decrypt_locator ae env locator s' = (Inl (BadRequest ''Media locator is invalid''), s')"
proof -
  from assms(2) obtain key t c where k: "env = Some key" "ae_seal ae (base64_bytes key) iv (text_bytes []) = (t, c)"
    and l: "locator = ''v1.'' @ base64url iv @ ''.'' @ base64url t @ ''.'' @ base64url c"
    by (auto simp: encrypt_locator_def Let_def require_def split: option.splits prod.splits if_splits)
  from aead_lengths [OF assms(1) k(2)] have "c = []" by (simp add: text_bytes_def)
  with l have "split_on (CHR ''.'') locator = [''v1'', base64url iv, base64url t, []]"
    using base64url_no_dot by (simp add: split_on_first split_on_none)
  then show ?thesis by (simp add: decrypt_locator_def open_locator_def expect_def)
qed

end
