(* ===== verification/Uploads.thy ===== *)
theory Uploads
  imports Principals Locator
begin

text \<open>
  \<open>src/uploads/uploads.service.ts\<close>: chunked uploads. The manifest of an upload lives in Redis; the chunks
  go to an S3 multipart upload (R2) when one is configured, otherwise to files of a staging directory, which are
  joined when the upload completes.

  The object store, the upload endpoint, the URL parser and AES-GCM are parameters (\<open>storage\<close>): what they
  answer is not decided here. What the code asks of the store is recorded, call by call, in
  \<open>us_calls\<close>; the staging directory is \<open>us_files\<close>. A handler that awaits the store between reading and
  writing the manifest is split there (\<open>chunk_send\<close>, \<open>chunk_save\<close>).
\<close>

datatype storage_call =
    Create_multipart string string
  | Upload_part string string int bytes
  | Complete_multipart string string "(string \<times> int) list"
  | Abort_multipart string string
  | Put_object string bytes
  | Post_file string bytes

record storage =
  sg_fails :: "storage_call \<Rightarrow> bool"
  sg_create :: "string \<Rightarrow> string option"
  sg_etag :: "string \<Rightarrow> string \<Rightarrow> int \<Rightarrow> bytes \<Rightarrow> string option"
  sg_protocol :: "string \<Rightarrow> string option"
  sg_response :: "string \<Rightarrow> bytes \<Rightarrow> (string option \<times> string option) option"
  sg_aead :: aead

text \<open>
  The configuration: is there an R2 client, the endpoint of \<open>STORAGE_UPLOAD_URL\<close> (empty if unset) and the key
  of the locator cipher.
\<close>

record upload_config =
  uc_config :: config
  uc_r2Client :: bool
  uc_endpoint :: string
  uc_locatorKey :: "string option"

record upload_system =
  us_db :: state
  us_files :: "string \<Rightarrow> int \<Rightarrow> bytes option"
  us_calls :: "storage_call list"

type_synonym 'a uploader = "(upload_system, 'a) prog"

definition in_state :: "'a handler \<Rightarrow> 'a uploader" where
  "in_state m us = (case m (us_db us) of (r, s) \<Rightarrow> (r, us\<lparr>us_db := s\<rparr>))"

text \<open>A call of the client, which may throw; the call is recorded either way.\<close>

definition call :: "storage \<Rightarrow> storage_call \<Rightarrow> unit uploader" where
  "call sg c =
     and_then (modify (\<lambda>us. us\<lparr>us_calls := us_calls us @ [c]\<rparr>)) (\<lambda>_.
     require (\<not> sg_fails sg c) (Internal ''Storage request failed''))"

definition max_chunk_bytes :: nat where "max_chunk_bytes = 16 * 1024 * 1024"
definition min_part_bytes :: nat where "min_part_bytes = 5 * 1024 * 1024"

section \<open>Storage keys\<close>

text \<open>The year and the month of an instant in UTC (the proleptic Gregorian calendar, years starting in March).\<close>

definition utc_year_month :: "instant \<Rightarrow> int \<times> int" where
  "utc_year_month t =
     (let z = t div 86400000 + 719468; era = z div 146097; doe = z mod 146097;
          yoe = (doe - doe div 1460 + doe div 36524 - doe div 146096) div 365;
          doy = doe - (365 * yoe + yoe div 4 - yoe div 100);
          mp = (5 * doy + 2) div 153;
          m = (if mp < 10 then mp + 3 else mp - 9)
      in (yoe + era * 400 + (if m \<le> 2 then 1 else 0), m))"

definition pad2 :: "string \<Rightarrow> string" where
  "pad2 s = replicate (2 - length s) (CHR ''0'') @ s"

text \<open>\<open>path.extname\<close>: from the last dot of the last path segment, unless that dot starts the segment.\<close>

definition base_name :: "string \<Rightarrow> string" where
  "base_name p = rev (takeWhile (\<lambda>c. c \<noteq> CHR ''/'') (dropWhile (\<lambda>c. c = CHR ''/'') (rev p)))"

definition extname :: "string \<Rightarrow> string" where
  "extname p =
     (let b = base_name p; after = rev (takeWhile (\<lambda>c. c \<noteq> CHR ''.'') (rev b)) in
      if CHR ''.'' \<notin> set b \<or> length after + 1 = length b \<or> b = ''..'' then [] else CHR ''.'' # after)"

definition ext_char :: "char \<Rightarrow> bool" where
  "ext_char c = (let n = (of_char c :: nat) in (97 \<le> n \<and> n \<le> 122) \<or> (48 \<le> n \<and> n \<le> 57) \<or> n = 46)"

definition safe_ext :: "string \<Rightarrow> string" where
  "safe_ext name = (let raw = filter ext_char (to_lower (extname name)) in
     if raw \<noteq> [] \<and> length raw \<le> 10 then raw else [])"

definition storage_key :: "instant \<Rightarrow> string \<Rightarrow> string \<Rightarrow> string \<Rightarrow> string" where
  "storage_key now purpose originalName uuid =
     (case utc_year_month now of (y, m) \<Rightarrow>
        purpose @ ''/'' @ decimal (nat y) @ ''/'' @ pad2 (decimal (nat m)) @ ''/'' @ uuid @ safe_ext originalName)"

section \<open>Operations\<close>

record upload_dto =
  ud_purpose :: string
  ud_targetId :: "string option"
  ud_originalName :: string
  ud_mimeType :: string
  ud_sizeBytes :: int
  ud_totalChunks :: int

definition manifest_key :: "string \<Rightarrow> string" where
  "manifest_key i = ''upload:manifest:'' @ i"

definition public_base :: "config \<Rightarrow> string" where
  "public_base cf = rev (dropWhile (\<lambda>c. c = CHR ''/'') (rev (cf_r2PublicBaseUrl cf)))"

definition day_seconds :: int where "day_seconds = 24 * 60 * 60"

definition save_manifest :: "request \<Rightarrow> upload_manifest \<Rightarrow> unit uploader" where
  "save_manifest rq m = in_state (set_json (rq_now rq) (manifest_key (um_uploadId m)) (R_manifest m) day_seconds)"

definition load_manifest :: "request \<Rightarrow> principal \<Rightarrow> string \<Rightarrow> upload_manifest uploader" where
  "load_manifest rq a i =
     and_then (in_state (get_json (rq_now rq) (manifest_key i))) (\<lambda>v.
     expect (case v of Some (R_manifest m) \<Rightarrow> if um_actorId m = pr_id a then Some m else None | _ \<Rightarrow> None)
       (NotFound ''Upload session not found''))"

definition upload_audit :: "request \<Rightarrow> principal \<Rightarrow> string \<Rightarrow> string \<Rightarrow> (string \<times> json) list \<Rightarrow> unit uploader" where
  "upload_audit rq a action i meta =
     in_state (audit_write (audit_input rq (Some (pr_id a)) action ''upload'' (Some i) SUCCESS meta))"

definition init_upload :: "upload_config \<Rightarrow> storage \<Rightarrow> request \<Rightarrow> principal \<Rightarrow> string \<Rightarrow> string \<Rightarrow> upload_dto
    \<Rightarrow> string uploader" where
  "init_upload uc sg rq a uploadId keyId dto =
     and_then (require (ud_sizeBytes dto \<le> cf_maxUploadBytes (uc_config uc)) (BadRequest ''File is too large'')) (\<lambda>_.
     let manifest = \<lparr>um_purpose = ud_purpose dto, um_targetId = ud_targetId dto, um_originalName = ud_originalName dto,
           um_mimeType = ud_mimeType dto, um_sizeBytes = ud_sizeBytes dto, um_totalChunks = ud_totalChunks dto,
           um_uploadId = uploadId, um_actorId = pr_id a, um_createdAt = rq_now rq, um_chunks = [], um_r2 = None\<rparr> in
     and_then (if uc_r2Client uc then
         and_then (require (cf_r2Bucket (uc_config uc) \<noteq> [] \<and> public_base (uc_config uc) \<noteq> [])
           (ServiceUnavailable ''R2 storage is not fully configured'')) (\<lambda>_.
         let key = storage_key (rq_now rq) (ud_purpose dto) (ud_originalName dto) keyId in
         and_then (call sg (Create_multipart key (if ud_purpose dto = ''episode_video'' then ''private, max-age=0''
            else ''public, max-age=31536000, immutable''))) (\<lambda>_.
         and_then (expect (truthy (sg_create sg key)) (ServiceUnavailable ''R2 multipart upload could not start'')) (\<lambda>pid.
         ret (manifest\<lparr>um_r2 := Some \<lparr>r2_key = key, r2_providerUploadId = pid, r2_parts = [], r2_uploadedBytes = 0\<rparr>\<rparr>))))
       else ret manifest) (\<lambda>m.
     and_then (save_manifest rq m) (\<lambda>_.
     and_then (upload_audit rq a ''upload.init'' uploadId [(''purpose'', JStr (ud_purpose dto)),
       (''sizeBytes'', JNum (ud_sizeBytes dto)), (''totalChunks'', JNum (ud_totalChunks dto))]) (\<lambda>_. ret uploadId))))"

text \<open>The part of a chunk in the list: replaced if the chunk was sent before, added at the end otherwise.\<close>

definition put_part :: "int \<Rightarrow> string \<Rightarrow> int \<Rightarrow> r2_state \<Rightarrow> r2_state" where
  "put_part idx etag sz r =
     (case find_first (\<lambda>p. pt_chunkIndex p = idx) (r2_parts r) of
        Some old \<Rightarrow> r\<lparr>r2_parts := update_many (\<lambda>p. pt_chunkIndex p = idx) (\<lambda>p. p\<lparr>pt_eTag := etag, pt_size := sz\<rparr>) (r2_parts r),
                      r2_uploadedBytes := r2_uploadedBytes r - pt_size old + sz\<rparr>
      | None \<Rightarrow> r\<lparr>r2_parts := r2_parts r @ [\<lparr>pt_chunkIndex = idx, pt_partNumber = idx + 1, pt_eTag = etag, pt_size = sz\<rparr>],
                  r2_uploadedBytes := r2_uploadedBytes r + sz\<rparr>)"

definition put_chunk :: "int \<Rightarrow> upload_manifest \<Rightarrow> upload_manifest" where
  "put_chunk idx m = m\<lparr>um_chunks := sort (if idx \<in> set (um_chunks m) then um_chunks m else um_chunks m @ [idx])\<rparr>"

definition chunk_send :: "storage \<Rightarrow> request \<Rightarrow> principal \<Rightarrow> string \<Rightarrow> int \<Rightarrow> bytes option \<Rightarrow> upload_manifest uploader" where
  "chunk_send sg rq a i idx file =
     and_then (load_manifest rq a i) (\<lambda>m.
     and_then (require (0 \<le> idx \<and> idx < um_totalChunks m) (BadRequest ''Chunk index is invalid'')) (\<lambda>_.
     and_then (expect (case file of Some b \<Rightarrow> if length b \<le> max_chunk_bytes then Some b else None | None \<Rightarrow> None)
       (BadRequest ''Chunk is missing or too large'')) (\<lambda>b.
     case um_r2 m of
       Some r \<Rightarrow>
         and_then (require (idx = um_totalChunks m - 1 \<or> min_part_bytes \<le> length b)
           (BadRequest ''Chunk is too small for multipart storage'')) (\<lambda>_.
         and_then (call sg (Upload_part (r2_key r) (r2_providerUploadId r) (idx + 1) b)) (\<lambda>_.
         and_then (expect (truthy (sg_etag sg (r2_key r) (r2_providerUploadId r) (idx + 1) b))
           (ServiceUnavailable ''R2 upload part did not return an ETag'')) (\<lambda>etag.
         ret (put_chunk idx (m\<lparr>um_r2 := Some (put_part idx etag (int (length b)) r)\<rparr>)))))
     | None \<Rightarrow>
         and_then (modify (\<lambda>us. us\<lparr>us_files := (us_files us)(i := (us_files us i)(idx \<mapsto> b))\<rparr>)) (\<lambda>_.
         ret (put_chunk idx m)))))"

definition chunk_save :: "request \<Rightarrow> principal \<Rightarrow> string \<Rightarrow> int \<Rightarrow> upload_manifest \<Rightarrow> (nat \<times> int) uploader" where
  "chunk_save rq a i idx m =
     and_then (save_manifest rq m) (\<lambda>_.
     and_then (upload_audit rq a ''upload.chunk'' i [(''chunkIndex'', JNum idx)]) (\<lambda>_.
     ret (length (um_chunks m), um_totalChunks m)))"

definition upload_chunk :: "storage \<Rightarrow> request \<Rightarrow> principal \<Rightarrow> string \<Rightarrow> int \<Rightarrow> bytes option \<Rightarrow> (nat \<times> int) uploader" where
  "upload_chunk sg rq a i idx file = and_then (chunk_send sg rq a i idx file) (\<lambda>m. chunk_save rq a i idx m)"

text \<open>The answer of \<open>complete\<close>: an encrypted locator for a video, otherwise the storage key.\<close>

record upload_result =
  ux_purpose :: string
  ux_originalName :: string
  ux_fileSize :: int
  ux_encryptedLocator :: "string option"
  ux_storageKey :: "string option"

definition result_of :: "upload_config \<Rightarrow> storage \<Rightarrow> bytes \<Rightarrow> upload_manifest \<Rightarrow> int \<Rightarrow> string option \<Rightarrow> string
    \<Rightarrow> upload_result uploader" where
  "result_of uc sg iv m sz url key =
     (case (if um_purpose m = ''episode_video'' then truthy url else None) of
        Some u \<Rightarrow>
          and_then (encrypt_locator (sg_aead sg) (uc_locatorKey uc) iv u) (\<lambda>locator.
          ret \<lparr>ux_purpose = um_purpose m, ux_originalName = um_originalName m, ux_fileSize = sz,
               ux_encryptedLocator = Some locator, ux_storageKey = None\<rparr>)
      | None \<Rightarrow>
          ret \<lparr>ux_purpose = um_purpose m, ux_originalName = um_originalName m, ux_fileSize = sz,
               ux_encryptedLocator = None, ux_storageKey = Some key\<rparr>)"

definition forward_to_r2 :: "upload_config \<Rightarrow> storage \<Rightarrow> request \<Rightarrow> string \<Rightarrow> upload_manifest \<Rightarrow> bytes \<Rightarrow> (string \<times> string) option uploader" where
  "forward_to_r2 uc sg rq keyId m file =
     (if \<not> uc_r2Client uc then ret None
      else and_then (require (cf_r2Bucket (uc_config uc) \<noteq> [] \<and> public_base (uc_config uc) \<noteq> [])
             (ServiceUnavailable ''R2 storage is not fully configured'')) (\<lambda>_.
           let key = storage_key (rq_now rq) (um_purpose m) (um_originalName m) keyId in
           and_then (call sg (Put_object key file)) (\<lambda>_.
           ret (Some (key, public_base (uc_config uc) @ ''/'' @ key)))))"

definition forward :: "upload_config \<Rightarrow> storage \<Rightarrow> request \<Rightarrow> string \<Rightarrow> upload_manifest \<Rightarrow> bytes
    \<Rightarrow> (string option \<times> string option) uploader" where
  "forward uc sg rq keyId m file =
     and_then (forward_to_r2 uc sg rq keyId m file) (\<lambda>r2.
     case r2 of
       Some (key, url) \<Rightarrow> ret (Some key, Some url)
     | None \<Rightarrow>
         if uc_endpoint uc = [] then ret (None, None)
         else and_then (expect (sg_protocol sg (uc_endpoint uc)) (ServiceUnavailable ''Storage upload endpoint is invalid'')) (\<lambda>protocol.
              and_then (require (protocol = ''https:'') (ServiceUnavailable ''Storage upload endpoint must use HTTPS'')) (\<lambda>_.
              and_then (call sg (Post_file (uc_endpoint uc) file)) (\<lambda>_.
              and_then (expect (sg_response sg (uc_endpoint uc) file) (ServiceUnavailable ''Storage upload failed'')) (\<lambda>(key, url).
              and_then (require (truthy key \<noteq> None \<or> truthy url \<noteq> None) (ServiceUnavailable ''Storage upload response is invalid'')) (\<lambda>_.
              ret (key, url)))))))"

definition cleanup :: "string \<Rightarrow> unit uploader" where
  "cleanup i = modify (\<lambda>us. us\<lparr>us_files := (us_files us)(i := Map.empty)\<rparr>)"

definition by_part_number :: "r2_part list \<Rightarrow> (string \<times> int) list" where
  "by_part_number parts = map (\<lambda>p. (pt_eTag p, pt_partNumber p)) (sort_key pt_partNumber parts)"

definition complete_r2 :: "upload_config \<Rightarrow> storage \<Rightarrow> request \<Rightarrow> principal \<Rightarrow> string \<Rightarrow> bytes \<Rightarrow> upload_manifest
    \<Rightarrow> r2_state \<Rightarrow> upload_result uploader" where
  "complete_r2 uc sg rq a i iv m r =
     and_then (require (int (length (r2_parts r)) = um_totalChunks m) (BadRequest ''Not all storage parts have been received'')) (\<lambda>_.
     and_then (require (r2_uploadedBytes r = um_sizeBytes m) (BadRequest ''Uploaded file size does not match the manifest'')) (\<lambda>_.
     and_then (call sg (Complete_multipart (r2_key r) (r2_providerUploadId r) (by_part_number (r2_parts r)))) (\<lambda>_.
     let url = public_base (uc_config uc) @ ''/'' @ r2_key r in
     and_then (result_of uc sg iv m (r2_uploadedBytes r) (Some url) (r2_key r)) (\<lambda>result.
     and_then (in_state (delete_key (manifest_key i))) (\<lambda>_.
     and_then (upload_audit rq a ''upload.complete'' i [(''purpose'', JStr (um_purpose m)),
       (''sizeBytes'', JNum (r2_uploadedBytes r)), (''remote'', JBool True)]) (\<lambda>_. ret result))))))"

text \<open>\<open>readFile\<close> of a chunk that is not there throws.\<close>

definition read_chunks :: "string \<Rightarrow> nat \<Rightarrow> bytes uploader" where
  "read_chunks i n =
     and_then (for_each [0..<n] (\<lambda>k. and_then (gets (\<lambda>us. us_files us i (int k))) (\<lambda>b. expect b (Internal ''ENOENT'')))) (\<lambda>bs.
     ret (concat bs))"

definition complete_local :: "upload_config \<Rightarrow> storage \<Rightarrow> request \<Rightarrow> principal \<Rightarrow> string \<Rightarrow> string \<Rightarrow> bytes
    \<Rightarrow> upload_manifest \<Rightarrow> upload_result uploader" where
  "complete_local uc sg rq a i keyId iv m =
     and_then (read_chunks i (nat (um_totalChunks m))) (\<lambda>combined.
     and_then (require (int (length combined) = um_sizeBytes m) (BadRequest ''Uploaded file size does not match the manifest'')) (\<lambda>_.
     and_then (forward uc sg rq keyId m combined) (\<lambda>(key, url).
     and_then (result_of uc sg iv m (int (length combined)) url (case key of Some k \<Rightarrow> k | None \<Rightarrow> ''staged:'' @ i)) (\<lambda>result.
     and_then (cleanup i) (\<lambda>_.
     and_then (in_state (delete_key (manifest_key i))) (\<lambda>_.
     and_then (upload_audit rq a ''upload.complete'' i [(''purpose'', JStr (um_purpose m)),
       (''sizeBytes'', JNum (int (length combined))), (''remote'', JBool (truthy key \<noteq> None \<or> truthy url \<noteq> None))]) (\<lambda>_.
     ret result)))))))"

definition complete_upload :: "upload_config \<Rightarrow> storage \<Rightarrow> request \<Rightarrow> principal \<Rightarrow> string \<Rightarrow> string \<Rightarrow> bytes
    \<Rightarrow> upload_result uploader" where
  "complete_upload uc sg rq a i keyId iv =
     and_then (load_manifest rq a i) (\<lambda>m.
     and_then (require (int (length (um_chunks m)) = um_totalChunks m) (BadRequest ''Not all upload chunks have been received'')) (\<lambda>_.
     case um_r2 m of Some r \<Rightarrow> complete_r2 uc sg rq a i iv m r | None \<Rightarrow> complete_local uc sg rq a i keyId iv m))"

definition cancel_upload :: "storage \<Rightarrow> request \<Rightarrow> principal \<Rightarrow> string \<Rightarrow> unit uploader" where
  "cancel_upload sg rq a i =
     and_then (load_manifest rq a i) (\<lambda>m.
     and_then (case um_r2 m of Some r \<Rightarrow> catch_error (call sg (Abort_multipart (r2_key r) (r2_providerUploadId r))) (\<lambda>_. ret ())
       | None \<Rightarrow> cleanup i) (\<lambda>_.
     and_then (in_state (delete_key (manifest_key i))) (\<lambda>_.
     upload_audit rq a ''upload.cancel'' i [])))"

section \<open>Running the operations\<close>

lemma in_state_then [simp]:
  "and_then (in_state m) k us = (case m (us_db us) of (Inl e, s) \<Rightarrow> (Inl e, us\<lparr>us_db := s\<rparr>) | (Inr x, s) \<Rightarrow> k x (us\<lparr>us_db := s\<rparr>))"
  by (simp add: and_then_def in_state_def split: prod.split sum.split)

lemma call_run: "call sg c us = ((if sg_fails sg c then Inl (Internal ''Storage request failed'') else Inr ()),
     us\<lparr>us_calls := us_calls us @ [c]\<rparr>)"
  by (simp add: call_def require_def)

lemma call_then [simp]: "and_then (call sg c) k us = (if sg_fails sg c
     then (Inl (Internal ''Storage request failed''), us\<lparr>us_calls := us_calls us @ [c]\<rparr>)
     else k () (us\<lparr>us_calls := us_calls us @ [c]\<rparr>))"
  by (simp add: and_then_def call_run)

lemma in_state_apply: "in_state m us = (case m (us_db us) of (r, s) \<Rightarrow> (r, us\<lparr>us_db := s\<rparr>))"
  by (simp add: in_state_def)

definition stored_manifest :: "request \<Rightarrow> upload_system \<Rightarrow> string \<Rightarrow> upload_manifest option" where
  "stored_manifest rq us i = (case redis_read (redis (us_db us)) (rq_now rq) (manifest_key i) of
     Some (R_manifest m) \<Rightarrow> Some m | _ \<Rightarrow> None)"

lemma load_manifest_run:
  "load_manifest rq a i us =
     (if \<not> redis_ready (us_db us) then (Inl (ServiceUnavailable ''Redis is unavailable''), us)
      else case stored_manifest rq us i of
        Some m \<Rightarrow> if um_actorId m = pr_id a then (Inr m, us) else (Inl (NotFound ''Upload session not found''), us)
      | None \<Rightarrow> (Inl (NotFound ''Upload session not found''), us))"
  by (auto simp: load_manifest_def stored_manifest_def expect_def split: option.split redis_value.split)

lemma save_manifest_run:
  "save_manifest rq m us =
     (if redis_ready (us_db us) then (Inr (), us\<lparr>us_db := (us_db us)\<lparr>redis := redis_write (redis (us_db us)) (rq_now rq)
         (manifest_key (um_uploadId m)) (R_manifest m) day_seconds\<rparr>\<rparr>)
      else (Inl (ServiceUnavailable ''Redis is unavailable''), us))"
  by (simp add: save_manifest_def in_state_apply)

lemma upload_audit_run:
  "upload_audit rq a action i meta us = (Inr (), us\<lparr>us_db := (us_db us)\<lparr>auditEvents := auditEvents (us_db us) @
     [audit_input rq (Some (pr_id a)) action ''upload'' (Some i) SUCCESS meta]\<rparr>\<rparr>)"
  by (simp add: upload_audit_def in_state_apply)

section \<open>Storage keys are safe\<close>

definition is_digit :: "char \<Rightarrow> bool" where
  "is_digit c = (let n = (of_char c :: nat) in 48 \<le> n \<and> n \<le> 57)"

lemma digit_char: "n < 10 \<Longrightarrow> is_digit (digit n)"
  by (simp add: is_digit_def digit_def)

lemma decimal_digits: "list_all is_digit (decimal n)"
proof (induction n rule: decimal.induct)
  case (1 n)
  then show ?case
    by (subst decimal.simps) (simp add: digit_char)
qed

text \<open>
  The storage key of an upload is safe whatever the client calls its file: it is the purpose, year, month
  and a server-made id, followed by at most ten characters that are lower-case letters, digits or dots, so the
  file name adds no directory, and nothing follows the id when the extension is missing or too long.
\<close>

lemma storage_key_safe:
  "\<exists>y m ext. storage_key now purpose name uuid = purpose @ ''/'' @ y @ ''/'' @ m @ ''/'' @ uuid @ ext
     \<and> list_all is_digit (y @ m) \<and> list_all ext_char ext \<and> length ext \<le> 10 \<and> CHR ''/'' \<notin> set ext"
proof -
  obtain y m where ym: "utc_year_month now = (y, m)" by force
  have e: "list_all ext_char (safe_ext name) \<and> length (safe_ext name) \<le> 10"
    by (auto simp: safe_ext_def Let_def list_all_iff)
  have "\<not> ext_char (CHR ''/'')" by code_simp
  with e have "CHR ''/'' \<notin> set (safe_ext name)" by (auto simp: list_all_iff)
  moreover have "is_digit (CHR ''0'')" by code_simp
  then have "list_all is_digit (decimal (nat y) @ pad2 (decimal (nat m)))"
    using decimal_digits [of "nat y"] decimal_digits [of "nat m"] by (auto simp: pad2_def list_all_iff)
  ultimately show ?thesis using e unfolding storage_key_def ym prod.case by blast
qed

section \<open>Only the owner\<close>

text \<open>
  An upload belongs to the account that started it: for everybody else, and once the manifest has expired,
  sending a chunk, completing and cancelling answer the same error, call nothing and change nothing.
\<close>

lemma upload_owner_only:
  assumes "redis_ready (us_db us)" and "\<forall>m. stored_manifest rq us i = Some m \<longrightarrow> um_actorId m \<noteq> pr_id a"
  shows "upload_chunk sg rq a i idx file us = (Inl (NotFound ''Upload session not found''), us)
    \<and> complete_upload uc sg rq a i keyId iv us = (Inl (NotFound ''Upload session not found''), us)
    \<and> cancel_upload sg rq a i us = (Inl (NotFound ''Upload session not found''), us)"
proof -
  have "load_manifest rq a i us = (Inl (NotFound ''Upload session not found''), us)"
    using assms by (auto simp: load_manifest_run split: option.split)
  then show ?thesis
    by (simp add: upload_chunk_def chunk_send_def complete_upload_def cancel_upload_def and_then_def)
qed

section \<open>The staging directory\<close>

text \<open>The \<open>k\<close>-th chunk of a file cut into pieces of \<open>c\<close> bytes.\<close>

definition chunk_of :: "nat \<Rightarrow> bytes \<Rightarrow> nat \<Rightarrow> bytes" where
  "chunk_of c data k = take c (drop (k * c) data)"

lemma for_each_expect:
  "(\<And>k. k \<in> set ks \<Longrightarrow> f k us = Some (g k)) \<Longrightarrow>
     for_each ks (\<lambda>k. and_then (gets (f k)) (\<lambda>b. expect b e)) us = (Inr (map g ks), us)"
  by (induction ks) (auto simp: and_then_def expect_def)

lemma read_chunks_file:
  assumes c: "0 < c" and files: "\<And>k. k < ceil_div (length data) c \<Longrightarrow> us_files us i (int k) = Some (chunk_of c data k)"
  shows "read_chunks i (ceil_div (length data) c) us = (Inr data, us)"
proof -
  have "for_each [0..<ceil_div (length data) c] (\<lambda>k. and_then (gets (\<lambda>us. us_files us i (int k))) (\<lambda>b. expect b (Internal ''ENOENT''))) us
      = (Inr (map (chunk_of c data) [0..<ceil_div (length data) c]), us)"
    by (rule for_each_expect) (use files in simp)
  moreover have "concat (map (chunk_of c data) [0..<ceil_div (length data) c]) = data"
    using ceil_div_bounds [OF c, of "length data"] by (simp add: chunk_of_def [abs_def] concat_pages)
  ultimately show ?thesis by (simp add: read_chunks_def and_then_def)
qed

text \<open>
  An upload in progress: the manifest, written last at \<open>t\<close>, the pieces of the file that have been staged, and
  the calls made so far.
\<close>

definition staging :: "instant \<Rightarrow> string \<Rightarrow> upload_manifest \<Rightarrow> nat \<Rightarrow> bytes \<Rightarrow> nat set \<Rightarrow> storage_call list
    \<Rightarrow> upload_system \<Rightarrow> bool" where
  "staging t i m0 c data K cls us \<longleftrightarrow> redis_ready (us_db us) \<and> us_calls us = cls
     \<and> (\<exists>cs. redis (us_db us) (manifest_key i) = Some (R_manifest (m0\<lparr>um_chunks := cs\<rparr>), Some (t + day_seconds * 1000))
          \<and> distinct cs \<and> set cs = int ` K)
     \<and> (\<forall>k\<in>K. us_files us i (int k) = Some (chunk_of c data k))"

text \<open>Every request comes before the manifest written by the one before it expires.\<close>

fun timely :: "instant \<Rightarrow> instant list \<Rightarrow> bool" where
  "timely t [] = True"
| "timely t (u # us) = (u < t + day_seconds * 1000 \<and> timely u us)"

lemma staging_stored:
  assumes "redis (us_db us) (manifest_key i) = Some (R_manifest m, Some (t + day_seconds * 1000))"
    and "rq_now rq < t + day_seconds * 1000"
  shows "stored_manifest rq us i = Some m"
  using assms by (simp add: stored_manifest_def redis_read_def)

lemma staging_chunk:
  assumes st: "staging t i m0 c data K cls us" and t: "rq_now rq < t + day_seconds * 1000"
    and m0: "um_r2 m0 = None" "um_uploadId m0 = i" "um_actorId m0 = pr_id a"
    and k: "int k < um_totalChunks m0" and c: "c \<le> max_chunk_bytes"
  shows "\<exists>x us'. upload_chunk sg rq a i (int k) (Some (chunk_of c data k)) us = (Inr x, us')
     \<and> staging (rq_now rq) i m0 c data (insert k K) cls us'"
proof -
  from st obtain cs where cs: "redis (us_db us) (manifest_key i) = Some (R_manifest (m0\<lparr>um_chunks := cs\<rparr>), Some (t + day_seconds * 1000))"
      "distinct cs" "set cs = int ` K"
    and ready: "redis_ready (us_db us)" and calls: "us_calls us = cls"
    and files: "\<forall>k\<in>K. us_files us i (int k) = Some (chunk_of c data k)"
    by (auto simp: staging_def)
  have stored: "stored_manifest rq us i = Some (m0\<lparr>um_chunks := cs\<rparr>)" by (rule staging_stored [OF cs(1) t])
  have len: "length (chunk_of c data k) \<le> max_chunk_bytes" using c by (simp add: chunk_of_def)
  define cs' where "cs' = sort (if int k \<in> set cs then cs else cs @ [int k])"
  have cs': "distinct cs'" "set cs' = int ` insert k K" using cs by (auto simp: cs'_def)
  let ?m = "put_chunk (int k) (m0\<lparr>um_chunks := cs\<rparr>)"
  let ?us1 = "us\<lparr>us_files := (us_files us)(i := (us_files us i)(int k \<mapsto> chunk_of c data k))\<rparr>"
  have send: "chunk_send sg rq a i (int k) (Some (chunk_of c data k)) us = (Inr ?m, ?us1)"
    using stored ready m0 k len by (simp add: chunk_send_def load_manifest_run and_then_def [of "load_manifest rq a i"])
  have m: "?m = m0\<lparr>um_chunks := cs'\<rparr>" by (simp add: put_chunk_def cs'_def)
  have mid: "um_uploadId ?m = i" using m0 by (simp add: put_chunk_def)
  obtain x us' where save: "chunk_save rq a i (int k) ?m ?us1 = (Inr x, us')" and us': "us_files us' = us_files ?us1"
    "redis_ready (us_db us')" "us_calls us' = us_calls us"
    "redis (us_db us') = redis_write (redis (us_db us)) (rq_now rq) (manifest_key i) (R_manifest ?m) day_seconds"
    using ready mid by (auto simp: chunk_save_def and_then_def save_manifest_run upload_audit_run)
  have "redis (us_db us') (manifest_key i) = Some (R_manifest (m0\<lparr>um_chunks := cs'\<rparr>), Some (rq_now rq + day_seconds * 1000))"
    by (simp add: us'(4) redis_write_def m)
  moreover have "\<forall>q\<in>insert k K. us_files us' i (int q) = Some (chunk_of c data q)"
    using files us'(1) by auto
  ultimately have "staging (rq_now rq) i m0 c data (insert k K) cls us'"
    using cs' us' calls unfolding staging_def by blast
  with send save show ?thesis by (auto simp: upload_chunk_def and_then_def)
qed

lemma staging_chunks:
  assumes "staging t i m0 c data K cls us" and "timely t (map (\<lambda>p. rq_now (fst p)) ps)"
    and "\<forall>p\<in>set ps. int (snd p) < um_totalChunks m0"
    and m0: "um_r2 m0 = None" "um_uploadId m0 = i" "um_actorId m0 = pr_id a" and c: "c \<le> max_chunk_bytes"
  shows "\<exists>xs us'. for_each ps (\<lambda>(rq, k). upload_chunk sg rq a i (int k) (Some (chunk_of c data k))) us = (Inr xs, us')
     \<and> staging (last (t # map (\<lambda>p. rq_now (fst p)) ps)) i m0 c data (K \<union> snd ` set ps) cls us'"
  using assms(1-3)
proof (induction ps arbitrary: t us K)
  case Nil
  then show ?case by simp
next
  case (Cons p ps)
  obtain rq k where p: "p = (rq, k)" by force
  have "rq_now rq < t + day_seconds * 1000" "int k < um_totalChunks m0" using Cons.prems(2,3) p by auto
  from staging_chunk [OF Cons.prems(1) this(1) m0 this(2) c, of sg]
  obtain x us1 where 1: "upload_chunk sg rq a i (int k) (Some (chunk_of c data k)) us = (Inr x, us1)"
    and s1: "staging (rq_now rq) i m0 c data (insert k K) cls us1" by auto
  from Cons.IH [OF s1] Cons.prems(2,3) p obtain xs us' where
    2: "for_each ps (\<lambda>(rq, k). upload_chunk sg rq a i (int k) (Some (chunk_of c data k))) us1 = (Inr xs, us')"
    and s2: "staging (last (rq_now rq # map (\<lambda>p. rq_now (fst p)) ps)) i m0 c data (insert k K \<union> snd ` set ps) cls us'" by auto
  have "insert k K \<union> snd ` set ps = K \<union> snd ` set (p # ps)" using p by auto
  with 1 2 s2 p show ?case by (auto simp: and_then_def)
qed

definition new_manifest :: "request \<Rightarrow> principal \<Rightarrow> string \<Rightarrow> upload_dto \<Rightarrow> upload_manifest" where
  "new_manifest rq a i dto = \<lparr>um_purpose = ud_purpose dto, um_targetId = ud_targetId dto, um_originalName = ud_originalName dto,
     um_mimeType = ud_mimeType dto, um_sizeBytes = ud_sizeBytes dto, um_totalChunks = ud_totalChunks dto,
     um_uploadId = i, um_actorId = pr_id a, um_createdAt = rq_now rq, um_chunks = [], um_r2 = None\<rparr>"

lemma init_staging:
  assumes "\<not> uc_r2Client uc" and "redis_ready (us_db us)" and "ud_sizeBytes dto \<le> cf_maxUploadBytes (uc_config uc)"
  shows "\<exists>us1. init_upload uc sg rq a i keyId dto us = (Inr i, us1)
     \<and> staging (rq_now rq) i (new_manifest rq a i dto) c data {} (us_calls us) us1"
proof -
  let ?m = "new_manifest rq a i dto"
  obtain us1 where run: "init_upload uc sg rq a i keyId dto us = (Inr i, us1)" and ready: "redis_ready (us_db us1)"
    and calls: "us_calls us1 = us_calls us"
    and r: "redis (us_db us1) = redis_write (redis (us_db us)) (rq_now rq) (manifest_key i) (R_manifest ?m) day_seconds"
    using assms by (auto simp: init_upload_def new_manifest_def Let_def and_then_def [of "save_manifest _ _"]
        and_then_def [of "upload_audit _ _ _ _ _"] save_manifest_run upload_audit_run)
  have m: "?m\<lparr>um_chunks := []\<rparr> = ?m" by (simp add: new_manifest_def)
  have "staging (rq_now rq) i ?m c data {} (us_calls us) us1"
    unfolding staging_def using ready calls r by (intro conjI exI [of _ "[]"]) (simp_all add: redis_write_def m)
  with run show ?thesis by blast
qed

lemma result_of_state: "\<exists>r. result_of uc sg iv m sz url key us = (r, us)"
  by (auto simp: result_of_def encrypt_locator_def Let_def and_then_def expect_def require_def
      split: option.split prod.split if_splits)

text \<open>The end of \<open>complete\<close>: nothing of the upload is left.\<close>

lemma finish_upload:
  assumes "redis_ready (us_db us)"
  shows "\<exists>us'. and_then (cleanup i) (\<lambda>_. and_then (in_state (delete_key (manifest_key i))) (\<lambda>_.
       and_then (upload_audit rq a action i meta) (\<lambda>_. ret result))) us = (Inr result, us')
     \<and> us_files us' = (us_files us)(i := Map.empty) \<and> us_calls us' = us_calls us \<and> stored_manifest rq us' i = None"
  using assms by (simp add: cleanup_def and_then_def upload_audit_run in_state_def stored_manifest_def redis_remove_def redis_read_def)

lemma complete_staged:
  assumes st: "staging t i m c data {..<ceil_div (length data) c} cls us" and t: "rq_now rq < t + day_seconds * 1000"
    and m: "um_r2 m = None" "um_actorId m = pr_id a"
    "um_totalChunks m = int (ceil_div (length data) c)" "um_sizeBytes m = int (length data)" and c: "0 < c"
    and fw: "\<And>cs. forward uc sg rq keyId (m\<lparr>um_chunks := cs\<rparr>) data us = (Inr (key, url), us2)"
    and us2: "us_db us2 = us_db us" "us_calls us2 = cls @ posted"
    and res: "\<And>cs. result_of uc sg iv (m\<lparr>um_chunks := cs\<rparr>) (int (length data)) url
      (case key of Some k \<Rightarrow> k | None \<Rightarrow> ''staged:'' @ i) us2 = (Inr result, us2)"
  shows "\<exists>us'. complete_upload uc sg rq a i keyId iv us = (Inr result, us')
     \<and> us_files us' i = Map.empty \<and> us_calls us' = cls @ posted \<and> stored_manifest rq us' i = None"
proof -
  from st obtain cs where cs: "redis (us_db us) (manifest_key i) = Some (R_manifest (m\<lparr>um_chunks := cs\<rparr>), Some (t + day_seconds * 1000))"
    "distinct cs" "set cs = int ` {..<ceil_div (length data) c}" and ready: "redis_ready (us_db us)"
    and files: "\<forall>k\<in>{..<ceil_div (length data) c}. us_files us i (int k) = Some (chunk_of c data k)"
    by (auto simp: staging_def)
  from cs have n: "length cs = ceil_div (length data) c"
    by (metis card_image card_lessThan distinct_card inj_on_of_nat)
  have rd: "read_chunks i (ceil_div (length data) c) us = (Inr data, us)"
    by (rule read_chunks_file [OF c]) (use files in simp)
  have load: "load_manifest rq a i us = (Inr (m\<lparr>um_chunks := cs\<rparr>), us)"
    using staging_stored [OF cs(1) t] ready m(2) by (simp add: load_manifest_run)
  have ready2: "redis_ready (us_db us2)" using ready us2 by simp
  have fin: "\<exists>us'. complete_local uc sg rq a i keyId iv (m\<lparr>um_chunks := cs\<rparr>) us = (Inr result, us')
     \<and> us_files us' = (us_files us2)(i := Map.empty) \<and> us_calls us' = us_calls us2 \<and> stored_manifest rq us' i = None"
    unfolding complete_local_def
    using finish_upload [OF ready2] m
    by (simp add: and_then_def [of "read_chunks _ _"] rd and_then_def [of "forward _ _ _ _ _ _"] fw
        and_then_def [of "result_of _ _ _ _ _ _ _"] res)
  have "complete_upload uc sg rq a i keyId iv us = complete_local uc sg rq a i keyId iv (m\<lparr>um_chunks := cs\<rparr>) us"
    using m n by (simp add: complete_upload_def and_then_def [of "load_manifest rq a i"] load)
  with fin us2(2) show ?thesis by auto
qed

lemma timely_snoc: "timely t (us @ [u]) \<longleftrightarrow> timely t us \<and> u < last (t # us) + day_seconds * 1000"
  by (induction us arbitrary: t) auto

lemma forward_endpoint:
  assumes "\<not> uc_r2Client uc" and "uc_endpoint uc \<noteq> []" and "sg_protocol sg (uc_endpoint uc) = Some ''https:''"
    and "\<not> sg_fails sg (Post_file (uc_endpoint uc) file)" and "sg_response sg (uc_endpoint uc) file = Some (key, url)"
    and "truthy key \<noteq> None \<or> truthy url \<noteq> None"
  shows "forward uc sg rq keyId m file us = (Inr (key, url), us\<lparr>us_calls := us_calls us @ [Post_file (uc_endpoint uc) file]\<rparr>)"
  using assms by (simp add: forward_def forward_to_r2_def)

text \<open>
  C9. A file that is uploaded in chunks arrives whole: start an upload, send the pieces of the file in any
  order and as often as the client likes as long as each is sent at least once and no two requests are a day
  apart, and complete it. Every call succeeds, the storage endpoint is posted exactly the bytes of the file,
  once, its storage key is the answer, and neither the manifest nor a staged chunk is left.
\<close>

theorem upload_roundtrip:
  assumes "\<not> uc_r2Client uc" and "redis_ready (us_db us)" and "uc_endpoint uc \<noteq> []"
    and "sg_protocol sg (uc_endpoint uc) = Some ''https:''" and "\<not> sg_fails sg (Post_file (uc_endpoint uc) data)"
    and "sg_response sg (uc_endpoint uc) data = Some (Some key, url)" and "key \<noteq> []"
    and "0 < c" and "c \<le> max_chunk_bytes" and "int (length data) \<le> cf_maxUploadBytes (uc_config uc)"
    and "ud_sizeBytes dto = int (length data)" and "ud_totalChunks dto = int (ceil_div (length data) c)"
    and "ud_purpose dto \<noteq> ''episode_video''"
    and "snd ` set ps = {..<ceil_div (length data) c}"
    and "timely (rq_now rq) (map (\<lambda>p. rq_now (fst p)) ps @ [rq_now rq'])"
  shows "\<exists>us1 xs us2 us3. init_upload uc sg rq a i keyId dto us = (Inr i, us1)
    \<and> for_each ps (\<lambda>(rq, k). upload_chunk sg rq a i (int k) (Some (chunk_of c data k))) us1 = (Inr xs, us2)
    \<and> complete_upload uc sg rq' a i keyId' iv us2 = (Inr \<lparr>ux_purpose = ud_purpose dto, ux_originalName = ud_originalName dto,
        ux_fileSize = int (length data), ux_encryptedLocator = None, ux_storageKey = Some key\<rparr>, us3)
    \<and> us_calls us3 = us_calls us @ [Post_file (uc_endpoint uc) data]
    \<and> us_files us3 i = Map.empty \<and> stored_manifest rq' us3 i = None"
proof -
  let ?m = "new_manifest rq a i dto"
  let ?t = "last (rq_now rq # map (\<lambda>p. rq_now (fst p)) ps)"
  have m: "um_r2 ?m = None" "um_uploadId ?m = i" "um_actorId ?m = pr_id a" "um_totalChunks ?m = int (ceil_div (length data) c)"
    "um_sizeBytes ?m = int (length data)" using assms by (simp_all add: new_manifest_def)
  obtain us1 where 1: "init_upload uc sg rq a i keyId dto us = (Inr i, us1)"
    and s1: "staging (rq_now rq) i ?m c data {} (us_calls us) us1"
    using init_staging [of uc us dto sg rq a i keyId c data] assms by auto
  have "\<forall>p\<in>set ps. int (snd p) < um_totalChunks ?m" using assms(14) m by auto
  moreover have "timely (rq_now rq) (map (\<lambda>p. rq_now (fst p)) ps)" using assms(15) unfolding timely_snoc by blast
  ultimately obtain xs us2 where
    2: "for_each ps (\<lambda>(rq, k). upload_chunk sg rq a i (int k) (Some (chunk_of c data k))) us1 = (Inr xs, us2)"
    and s2: "staging ?t i ?m c data ({} \<union> snd ` set ps) (us_calls us) us2"
    using staging_chunks [OF s1 _ _ m(1-3) assms(9)] by blast
  from s2 assms(14) have s2': "staging ?t i ?m c data {..<ceil_div (length data) c} (us_calls us) us2" by simp
  have t: "rq_now rq' < ?t + day_seconds * 1000" using assms(15) unfolding timely_snoc by blast
  let ?us = "us2\<lparr>us_calls := us_calls us2 @ [Post_file (uc_endpoint uc) data]\<rparr>"
  have calls: "us_calls us2 = us_calls us" using s2 by (simp add: staging_def)
  have fw: "forward uc sg rq' keyId' (?m\<lparr>um_chunks := cs\<rparr>) data us2 = (Inr (Some key, url), ?us)" for cs
    using assms by (intro forward_endpoint) (auto simp: truthy_def split: list.split)
  have res: "result_of uc sg iv (?m\<lparr>um_chunks := cs\<rparr>) (int (length data)) url (case Some key of Some k \<Rightarrow> k | None \<Rightarrow> ''staged:'' @ i) ?us
    = (Inr \<lparr>ux_purpose = ud_purpose dto, ux_originalName = ud_originalName dto,
        ux_fileSize = int (length data), ux_encryptedLocator = None, ux_storageKey = Some key\<rparr>, ?us)" for cs
    using assms(13) by (simp add: result_of_def new_manifest_def)
  obtain us3 where "complete_upload uc sg rq' a i keyId' iv us2 = (Inr \<lparr>ux_purpose = ud_purpose dto,
        ux_originalName = ud_originalName dto, ux_fileSize = int (length data), ux_encryptedLocator = None,
        ux_storageKey = Some key\<rparr>, us3)"
      "us_files us3 i = Map.empty" "us_calls us3 = us_calls us @ [Post_file (uc_endpoint uc) data]" "stored_manifest rq' us3 i = None"
    using complete_staged [OF s2' t m(1,3,4,5) assms(8) fw _ _ res] calls by auto
  with 1 2 show ?thesis by blast
qed

text \<open>A file of three bytes in two chunks, the second sent first and the first sent twice.\<close>

definition sample_request :: request where
  "sample_request = \<lparr>rq_now = 0, rq_ip = [], rq_userAgent = [], rq_id = []\<rparr>"

definition sample_config :: config where
  "sample_config = \<lparr>cf_argon2DummyHash = [], cf_refreshTtlDays = 30, cf_accessTtlSeconds = 900, cf_maxTrustedDevices = 3,
     cf_capabilityTtlSeconds = 60, cf_maxConcurrentPlayback = 2, cf_mediaGatewayPublicUrl = [], cf_r2Bucket = ''b'',
     cf_r2PublicBaseUrl = ''https://cdn/'', cf_maxUploadBytes = 20000000000\<rparr>"

definition demo_upload_config :: "bool \<Rightarrow> upload_config" where
  "demo_upload_config r2 = \<lparr>uc_config = sample_config, uc_r2Client = r2, uc_endpoint = ''https://s/up'', uc_locatorKey = None\<rparr>"

definition demo_storage :: storage where
  "demo_storage = \<lparr>sg_fails = (\<lambda>_. False), sg_create = (\<lambda>_. Some ''p''), sg_etag = (\<lambda>_ _ _ _. Some ''e''),
     sg_protocol = (\<lambda>_. Some ''https:''), sg_response = (\<lambda>_ _. Some (Some ''k'', None)), sg_aead = plain_aead\<rparr>"

definition sample_dto :: "int \<Rightarrow> int \<Rightarrow> upload_dto" where
  "sample_dto bytes chunks = \<lparr>ud_purpose = ''banner'', ud_targetId = None, ud_originalName = ''x.PNG'', ud_mimeType = ''image/png'',
     ud_sizeBytes = bytes, ud_totalChunks = chunks\<rparr>"

definition sample_actor :: principal where
  "sample_actor = \<lparr>pr_id = ''admin'', pr_sessionId = [], pr_roles = [], pr_permissions = [], pr_status = User_ACTIVE\<rparr>"

definition demo_system :: upload_system where
  "demo_system = \<lparr>us_db = empty_state\<lparr>redis_ready := True\<rparr>, us_files = (\<lambda>_. Map.empty), us_calls = []\<rparr>"

lemmas demo_upload_defs = sample_request_def sample_config_def demo_upload_config_def demo_storage_def sample_dto_def
  sample_actor_def demo_system_def

lemma two_chunks: "{0, Suc 0} = {..<2}" "{Suc 0, 0} = {..<2}"
  by auto

theorem upload_roundtrip_witness:
  "\<exists>us1 xs us2 us3. init_upload (demo_upload_config False) demo_storage sample_request sample_actor ''u1'' [] (sample_dto 3 2) demo_system
      = (Inr ''u1'', us1)
    \<and> for_each [(sample_request, 1), (sample_request, 0), (sample_request, 0)]
        (\<lambda>(rq, k). upload_chunk demo_storage rq sample_actor ''u1'' (int k) (Some (chunk_of 2 [1, 2, 3] k))) us1 = (Inr xs, us2)
    \<and> complete_upload (demo_upload_config False) demo_storage sample_request sample_actor ''u1'' [] [] us2
      = (Inr \<lparr>ux_purpose = ud_purpose (sample_dto 3 2), ux_originalName = ud_originalName (sample_dto 3 2),
        ux_fileSize = int (length ([1, 2, 3] :: bytes)), ux_encryptedLocator = None, ux_storageKey = Some ''k''\<rparr>, us3)
    \<and> us_calls us3 = us_calls demo_system @ [Post_file (uc_endpoint (demo_upload_config False)) [1, 2, 3]]
    \<and> us_files us3 ''u1'' = Map.empty \<and> stored_manifest sample_request us3 ''u1'' = None"
  by (rule upload_roundtrip [where url = None])
    (simp_all add: demo_upload_defs ceil_div_def max_chunk_bytes_def day_seconds_def two_chunks)

lemma upload_owner_only_example:
  "upload_chunk demo_storage sample_request sample_actor ''u9'' 0 None demo_system = (Inl (NotFound ''Upload session not found''), demo_system)
    \<and> complete_upload (demo_upload_config False) demo_storage sample_request sample_actor ''u9'' [] [] demo_system
      = (Inl (NotFound ''Upload session not found''), demo_system)
    \<and> cancel_upload demo_storage sample_request sample_actor ''u9'' demo_system = (Inl (NotFound ''Upload session not found''), demo_system)"
  by (rule upload_owner_only) (simp_all add: demo_upload_defs stored_manifest_def redis_read_def empty_state_def)

text \<open>
  With neither R2 nor an endpoint configured, completing deletes the staged chunks and answers a key for them:
  the file is gone.
\<close>

lemma staged_file_deleted:
  assumes "staging t i m c data {..<ceil_div (length data) c} cls us" and "rq_now rq < t + day_seconds * 1000"
    and "um_r2 m = None" "um_actorId m = pr_id a" "um_totalChunks m = int (ceil_div (length data) c)"
    "um_sizeBytes m = int (length data)" and "0 < c" and "\<not> uc_r2Client uc" "uc_endpoint uc = []"
  shows "\<exists>us'. complete_upload uc sg rq a i keyId iv us = (Inr \<lparr>ux_purpose = um_purpose m, ux_originalName = um_originalName m,
      ux_fileSize = int (length data), ux_encryptedLocator = None, ux_storageKey = Some (''staged:'' @ i)\<rparr>, us')
    \<and> us_files us' i = Map.empty \<and> us_calls us' = cls"
proof -
  have fw: "forward uc sg rq keyId (m\<lparr>um_chunks := cs\<rparr>) data us = (Inr (None, None), us)" for cs
    using assms(8,9) by (simp add: forward_def forward_to_r2_def)
  have res: "result_of uc sg iv (m\<lparr>um_chunks := cs\<rparr>) (int (length data)) None (case None of Some k \<Rightarrow> k | None \<Rightarrow> ''staged:'' @ i) us
    = (Inr \<lparr>ux_purpose = um_purpose m, ux_originalName = um_originalName m, ux_fileSize = int (length data),
        ux_encryptedLocator = None, ux_storageKey = Some (''staged:'' @ i)\<rparr>, us)" for cs
    by (simp add: result_of_def truthy_def)
  have calls: "us_calls us = cls @ []" using assms(1) by (simp add: staging_def)
  show ?thesis using complete_staged [OF assms(1-7) fw refl calls res] by auto
qed

section \<open>Multipart uploads\<close>

text \<open>
  What the manifest of a multipart upload says is what was sent: one entry per chunk, with the part number of
  the chunk, the size of a part that was sent under it and the tag the store gave for it; and the byte count is
  the sum of the sizes.
\<close>

definition part_sent :: "storage \<Rightarrow> storage_call list \<Rightarrow> r2_state \<Rightarrow> r2_part \<Rightarrow> bool" where
  "part_sent sg cls r p \<longleftrightarrow> pt_partNumber p = pt_chunkIndex p + 1
     \<and> (\<exists>b. Upload_part (r2_key r) (r2_providerUploadId r) (pt_partNumber p) b \<in> set cls \<and> pt_size p = int (length b)
          \<and> sg_etag sg (r2_key r) (r2_providerUploadId r) (pt_partNumber p) b = Some (pt_eTag p))"

definition manifest_ok :: "storage \<Rightarrow> storage_call list \<Rightarrow> upload_manifest \<Rightarrow> bool" where
  "manifest_ok sg cls m \<longleftrightarrow> (\<forall>r. um_r2 m = Some r \<longrightarrow>
     distinct (map pt_chunkIndex (r2_parts r)) \<and> pt_chunkIndex ` set (r2_parts r) \<subseteq> {0..<um_totalChunks m}
     \<and> (\<forall>p\<in>set (r2_parts r). part_sent sg cls r p) \<and> r2_uploadedBytes r = sum_list (map pt_size (r2_parts r)))"

lemma part_sent_mono: "part_sent sg cls r p \<Longrightarrow> set cls \<subseteq> set cls' \<Longrightarrow> part_sent sg cls' r p"
  unfolding part_sent_def by blast

lemma manifest_ok_mono: "manifest_ok sg cls m \<Longrightarrow> set cls \<subseteq> set cls' \<Longrightarrow> manifest_ok sg cls' m"
  unfolding manifest_ok_def using part_sent_mono by blast

lemma sum_update_key:
  assumes "distinct (map key t)" and "old \<in> set t"
  shows "sum_list (map g (update_many (\<lambda>p. key p = key old) f t)) = sum_list (map g t) - g old + (g (f old) :: int)"
  using assms
proof (induction t)
  case (Cons p t)
  show ?case
  proof (cases "p = old")
    case True
    with Cons.prems have "\<forall>q\<in>set t. key q \<noteq> key old" by (auto simp: image_iff)
    with True show ?thesis by (simp add: update_many_none)
  next
    case False
    with Cons show ?thesis by (auto simp: image_iff)
  qed
qed simp

lemma put_part_ok:
  assumes ok: "manifest_ok sg cls m" and r: "um_r2 m = Some r" and idx: "0 \<le> idx" "idx < um_totalChunks m"
    and sent: "Upload_part (r2_key r) (r2_providerUploadId r) (idx + 1) b \<in> set cls"
    and tag: "sg_etag sg (r2_key r) (r2_providerUploadId r) (idx + 1) b = Some etag"
  shows "manifest_ok sg cls (put_chunk idx (m\<lparr>um_r2 := Some (put_part idx etag (int (length b)) r)\<rparr>))"
proof -
  let ?r = "put_part idx etag (int (length b)) r"
  have k: "distinct (map pt_chunkIndex (r2_parts r))" "pt_chunkIndex ` set (r2_parts r) \<subseteq> {0..<um_totalChunks m}"
    and p: "\<forall>p\<in>set (r2_parts r). part_sent sg cls r p" and n: "r2_uploadedBytes r = sum_list (map pt_size (r2_parts r))"
    using ok r by (auto simp: manifest_ok_def)
  have key: "r2_key ?r = r2_key r" "r2_providerUploadId ?r = r2_providerUploadId r" by (simp_all add: put_part_def split: option.split)
  have same: "part_sent sg cls ?r q = part_sent sg cls r q" for q by (simp add: part_sent_def key)
  have "distinct (map pt_chunkIndex (r2_parts ?r)) \<and> pt_chunkIndex ` set (r2_parts ?r) \<subseteq> {0..<um_totalChunks m}
     \<and> (\<forall>q\<in>set (r2_parts ?r). part_sent sg cls r q) \<and> r2_uploadedBytes ?r = sum_list (map pt_size (r2_parts ?r))"
  proof (cases "find_first (\<lambda>p. pt_chunkIndex p = idx) (r2_parts r)")
    case None
    have "part_sent sg cls r \<lparr>pt_chunkIndex = idx, pt_partNumber = idx + 1, pt_eTag = etag, pt_size = int (length b)\<rparr>"
      using sent tag by (auto simp: part_sent_def)
    moreover have "?r = r\<lparr>r2_parts := r2_parts r @ [\<lparr>pt_chunkIndex = idx, pt_partNumber = idx + 1, pt_eTag = etag,
        pt_size = int (length b)\<rparr>], r2_uploadedBytes := r2_uploadedBytes r + int (length b)\<rparr>"
      using None by (simp add: put_part_def del: find_first_None)
    moreover have "\<forall>q\<in>set (r2_parts r). pt_chunkIndex q \<noteq> idx" using None by simp
    ultimately show ?thesis using k p n idx by auto
  next
    case (Some old)
    then have old: "old \<in> set (r2_parts r)" "pt_chunkIndex old = idx" using find_first_Some by fast+
    let ?f = "\<lambda>p :: r2_part. p\<lparr>pt_eTag := etag, pt_size := int (length b)\<rparr>"
    have parts: "r2_parts ?r = update_many (\<lambda>p. pt_chunkIndex p = idx) ?f (r2_parts r)"
      "r2_uploadedBytes ?r = r2_uploadedBytes r - pt_size old + int (length b)" using Some by (simp_all add: put_part_def)
    have "map pt_chunkIndex (r2_parts ?r) = map pt_chunkIndex (r2_parts r)"
      unfolding parts by (rule map_update_many) simp
    moreover from this have "pt_chunkIndex ` set (r2_parts ?r) = pt_chunkIndex ` set (r2_parts r)" by (metis set_map)
    moreover have "part_sent sg cls r (?f q)" if "q \<in> set (r2_parts r)" "pt_chunkIndex q = idx" for q
      using p that sent tag by (auto simp: part_sent_def)
    then have "\<forall>q\<in>set (r2_parts ?r). part_sent sg cls r q" unfolding parts ball_update_many using p by simp
    moreover have "r2_uploadedBytes ?r = sum_list (map pt_size (r2_parts ?r))"
      unfolding parts using sum_update_key [OF k(1) old(1), of pt_size ?f] old(2) n by simp
    ultimately show ?thesis using k by simp
  qed
  then show ?thesis by (auto simp: manifest_ok_def put_chunk_def same)
qed

text \<open>
  The uploads as a state machine: requests run in any order, and any number of chunks may have been sent whose
  manifests are not saved yet (\<open>pending\<close>). The rest of the backend may do anything but touch a manifest.
\<close>

definition manifests :: "upload_system \<Rightarrow> upload_manifest set" where
  "manifests us = {m. \<exists>i e. redis (us_db us) (manifest_key i) = Some (R_manifest m, e)}"

inductive upload_reach :: "upload_config \<Rightarrow> storage \<Rightarrow> upload_system \<Rightarrow> upload_manifest list \<Rightarrow> bool"
  for uc sg where
  start: "manifests us = {} \<Longrightarrow> upload_reach uc sg us []"
| init: "upload_reach uc sg us pending \<Longrightarrow> upload_reach uc sg (snd (init_upload uc sg rq a i keyId dto us)) pending"
| sent: "upload_reach uc sg us pending \<Longrightarrow> chunk_send sg rq a i idx file us = (Inr m, us')
    \<Longrightarrow> upload_reach uc sg us' (m # pending)"
| refused: "upload_reach uc sg us pending \<Longrightarrow> chunk_send sg rq a i idx file us = (Inl e, us') \<Longrightarrow> upload_reach uc sg us' pending"
| saved: "upload_reach uc sg us pending \<Longrightarrow> m \<in> set pending
    \<Longrightarrow> upload_reach uc sg (snd (chunk_save rq a i idx m us)) (remove1 m pending)"
| complete: "upload_reach uc sg us pending \<Longrightarrow> upload_reach uc sg (snd (complete_upload uc sg rq a i keyId iv us)) pending"
| cancel: "upload_reach uc sg us pending \<Longrightarrow> upload_reach uc sg (snd (cancel_upload sg rq a i us)) pending"
| other: "upload_reach uc sg us pending \<Longrightarrow> manifests us' = manifests us \<Longrightarrow> us_calls us' = us_calls us
    \<Longrightarrow> upload_reach uc sg us' pending"

definition manifests_ok :: "storage \<Rightarrow> upload_manifest list \<Rightarrow> upload_system \<Rightarrow> bool" where
  "manifests_ok sg pending us \<longleftrightarrow> (\<forall>m\<in>manifests us \<union> set pending. manifest_ok sg (us_calls us) m)"

lemma manifests_okI:
  assumes "manifests_ok sg pending us" and "manifests us' \<subseteq> manifests us \<union> M" and "set (us_calls us) \<subseteq> set (us_calls us')"
    and "\<forall>m\<in>M \<union> set pending'. m \<in> set pending \<or> manifest_ok sg (us_calls us') m"
  shows "manifests_ok sg pending' us'"
  using assms manifest_ok_mono unfolding manifests_ok_def by blast

lemma manifests_redis: "redis (us_db us') = redis (us_db us) \<Longrightarrow> manifests us' = manifests us"
  by (simp add: manifests_def)

lemma manifests_write:
  "redis (us_db us') = redis_write (redis (us_db us)) now k (R_manifest m) ttl \<Longrightarrow> manifests us' \<subseteq> insert m (manifests us)"
  by (auto simp: manifests_def redis_write_def split: if_splits)

lemma manifests_remove: "redis (us_db us') = redis_remove (redis (us_db us)) k \<Longrightarrow> manifests us' \<subseteq> manifests us"
  by (auto simp: manifests_def redis_remove_def split: if_splits)

lemma stored_in_manifests: "stored_manifest rq us i = Some m \<Longrightarrow> m \<in> manifests us"
  unfolding stored_manifest_def manifests_def redis_read_def
  by (auto split: option.splits redis_value.splits if_splits) blast+

lemma loaded_in_manifests: "load_manifest rq a i us = (Inr m, us') \<Longrightarrow> m \<in> manifests us \<and> us' = us"
  by (auto simp: load_manifest_run dest: stored_in_manifests split: if_splits option.splits)

text \<open>A handler that forgets no call and writes no manifest outside \<open>M\<close>.\<close>

named_theorems tame_rules "rules that a handler writes no other manifest"

definition tame :: "upload_manifest set \<Rightarrow> 'a uploader \<Rightarrow> bool" where
  "tame M p \<longleftrightarrow> (\<forall>us. set (us_calls us) \<subseteq> set (us_calls (snd (p us))) \<and> manifests (snd (p us)) \<subseteq> manifests us \<union> M)"

lemma tameI: "(\<And>us. set (us_calls us) \<subseteq> set (us_calls (snd (p us))) \<and> manifests (snd (p us)) \<subseteq> manifests us \<union> M) \<Longrightarrow> tame M p"
  by (simp add: tame_def)

lemma tame_same: "(\<And>us. us_calls (snd (p us)) = us_calls us \<and> redis (us_db (snd (p us))) = redis (us_db us)) \<Longrightarrow> tame M p"
  by (auto simp: tame_def dest: manifests_redis)

lemma tame_bind:
  assumes "tame M p" and "\<And>us x us'. p us = (Inr x, us') \<Longrightarrow> tame M (k x)"
  shows "tame M (and_then p k)"
proof (rule tameI)
  fix us
  obtain r us1 where p: "p us = (r, us1)" by force
  then have 1: "set (us_calls us) \<subseteq> set (us_calls us1)" "manifests us1 \<subseteq> manifests us \<union> M"
    using assms(1) unfolding tame_def by (metis snd_conv)+
  show "set (us_calls us) \<subseteq> set (us_calls (snd (and_then p k us))) \<and> manifests (snd (and_then p k us)) \<subseteq> manifests us \<union> M"
  proof (cases r)
    case (Inl e)
    with p 1 show ?thesis by (simp add: and_then_def)
  next
    case (Inr x)
    with assms(2) p have "set (us_calls us1) \<subseteq> set (us_calls (snd (k x us1))) \<and> manifests (snd (k x us1)) \<subseteq> manifests us1 \<union> M"
      unfolding tame_def by blast
    with 1 p Inr show ?thesis by (auto simp: and_then_def)
  qed
qed

lemma tame_and_then [tame_rules]: "tame M p \<Longrightarrow> (\<And>x. tame M (k x)) \<Longrightarrow> tame M (and_then p k)"
  by (rule tame_bind)

lemma tame_basic [tame_rules]:
  "tame M (ret x)" "tame M (throw e)" "tame M (gets f)" "tame M (require b e)" "tame M (expect v e)"
  by (auto intro!: tame_same simp: require_def expect_def split: option.split)

lemma tame_call [tame_rules]: "tame M (call sg c)"
  by (rule tameI) (auto simp: call_run dest: manifests_redis [THEN equalityD1, THEN subsetD, rotated])

lemma tame_if [tame_rules]: "tame M p \<Longrightarrow> tame M q \<Longrightarrow> tame M (if b then p else q)"
  by simp

lemma tame_option [tame_rules]: "tame M p \<Longrightarrow> (\<And>x. tame M (q x)) \<Longrightarrow> tame M (case v of None \<Rightarrow> p | Some x \<Rightarrow> q x)"
  by (cases v) simp_all

lemma tame_pair [tame_rules]: "(\<And>x y. tame M (q x y)) \<Longrightarrow> tame M (case v of (x, y) \<Rightarrow> q x y)"
  by (cases v) simp

lemma tame_catch [tame_rules]:
  assumes "tame M p" shows "tame M (catch_error p (\<lambda>_. ret x))"
proof (rule tameI)
  fix us
  have "snd (catch_error p (\<lambda>_. ret x) us) = snd (p us)" by (simp add: catch_error_def split: prod.split sum.split)
  then show "set (us_calls us) \<subseteq> set (us_calls (snd (catch_error p (\<lambda>_. ret x) us)))
     \<and> manifests (snd (catch_error p (\<lambda>_. ret x) us)) \<subseteq> manifests us \<union> M" using assms unfolding tame_def by metis
qed

lemma tame_files [tame_rules]: "tame M (cleanup i)" "tame M (modify (\<lambda>us. us\<lparr>us_files := g us\<rparr>))"
  by (auto intro!: tame_same simp: cleanup_def)

lemma tame_read [tame_rules]: "tame M (in_state (get_json now k))"
  by (rule tame_same) (simp add: in_state_apply)

lemma tame_delete [tame_rules]: "tame M (in_state (delete_key k))"
  by (rule tameI) (auto simp: in_state_apply manifests_def redis_remove_def split: if_splits)

lemma tame_audit [tame_rules]: "tame M (upload_audit rq a action i meta)"
  by (rule tame_same) (simp add: upload_audit_run)

lemma tame_save [tame_rules]: "m \<in> M \<Longrightarrow> tame M (save_manifest rq m)"
  by (rule tameI) (auto simp: save_manifest_run manifests_def redis_write_def split: if_splits)

lemma tame_for_each [tame_rules]: "(\<And>x. tame M (f x)) \<Longrightarrow> tame M (for_each xs f)"
  by (induction xs) (auto intro!: tame_rules)

lemma tame_parts [tame_rules]:
  "tame M (load_manifest rq a i)" "tame M (encrypt_locator ae env iv v)" "tame M (read_chunks i n)"
  by (auto simp: load_manifest_def encrypt_locator_def Let_def read_chunks_def intro!: tame_rules)

lemma tame_more [tame_rules]:
  "tame M (result_of uc sg iv m sz url key)" "tame M (forward uc sg rq keyId m file)"
  by (auto simp: result_of_def forward_def forward_to_r2_def Let_def intro!: tame_rules)

lemma tame_send: "tame M (chunk_send sg rq a i idx file)"
  by (auto simp: chunk_send_def intro!: tame_rules)

lemma tame_chunk_save: "tame {m} (chunk_save rq a i idx m)"
  by (auto simp: chunk_save_def intro!: tame_rules)

lemma tame_complete: "tame M (complete_upload uc sg rq a i keyId iv)"
  by (auto simp: complete_upload_def complete_local_def complete_r2_def Let_def intro!: tame_rules)

lemma tame_cancel: "tame M (cancel_upload sg rq a i)"
  by (auto simp: cancel_upload_def intro!: tame_rules)

definition fresh :: "upload_manifest set" where
  "fresh = {m. \<forall>r. um_r2 m = Some r \<longrightarrow> r2_parts r = [] \<and> r2_uploadedBytes r = 0}"

lemma fresh_ok: "m \<in> fresh \<Longrightarrow> manifest_ok sg cls m"
  by (auto simp: fresh_def manifest_ok_def)

lemma tame_init: "tame fresh (init_upload uc sg rq a i keyId dto)"
  unfolding init_upload_def Let_def
  by (intro tame_bind tame_rules)
    (auto simp: fresh_def and_then_Inr intro!: tame_rules split: if_splits option.splits)

lemma manifests_ok_tame:
  "manifests_ok sg pending us \<Longrightarrow> tame M p \<Longrightarrow> (\<forall>m\<in>M. m \<in> set pending \<or> (\<forall>cls. manifest_ok sg cls m)) \<Longrightarrow> set pending' \<subseteq> set pending
     \<Longrightarrow> manifests_ok sg pending' (snd (p us))"
  unfolding tame_def by (rule manifests_okI [where M = M]) blast+

lemma chunk_send_sent:
  assumes "chunk_send sg rq a i idx bd us = (Inr m, us')" and "manifests_ok sg pending us"
  shows "manifest_ok sg (us_calls us') m"
proof -
  obtain m0 b where load: "load_manifest rq a i us = (Inr m0, us)" and idx: "0 \<le> idx" "idx < um_totalChunks m0"
    and rest: "(case um_r2 m0 of Some r \<Rightarrow> \<exists>etag. us_calls us' = us_calls us @ [Upload_part (r2_key r) (r2_providerUploadId r) (idx + 1) b]
        \<and> sg_etag sg (r2_key r) (r2_providerUploadId r) (idx + 1) b = Some etag
        \<and> m = put_chunk idx (m0\<lparr>um_r2 := Some (put_part idx etag (int (length b)) r)\<rparr>)
      | None \<Rightarrow> m = put_chunk idx m0)"
  proof -
    obtain m0 us0 where load: "load_manifest rq a i us = (Inr m0, us0)"
      using assms(1) by (auto simp: chunk_send_def and_then_Inr)
    then have [simp]: "us0 = us" using loaded_in_manifests by blast
    show ?thesis
      by (rule that [of m0 "the bd"]; cases "um_r2 m0"; cases bd)
        (use assms(1) load in \<open>auto simp: chunk_send_def and_then_def [of "load_manifest rq a i"] truthy_def
          split: if_splits option.splits list.splits\<close>)
  qed
  have ok: "manifest_ok sg (us_calls us) m0"
    using assms(2) loaded_in_manifests [OF load] by (auto simp: manifests_ok_def)
  show ?thesis
  proof (cases "um_r2 m0")
    case None
    with rest show ?thesis by (simp add: manifest_ok_def put_chunk_def)
  next
    case (Some r)
    with rest obtain etag where calls: "us_calls us' = us_calls us @ [Upload_part (r2_key r) (r2_providerUploadId r) (idx + 1) b]"
      and tag: "sg_etag sg (r2_key r) (r2_providerUploadId r) (idx + 1) b = Some etag"
      and m: "m = put_chunk idx (m0\<lparr>um_r2 := Some (put_part idx etag (int (length b)) r)\<rparr>)" by auto
    from ok calls have "manifest_ok sg (us_calls us') m0" by (auto intro: manifest_ok_mono)
    then show ?thesis unfolding m by (rule put_part_ok [OF _ Some idx _ tag]) (simp add: calls)
  qed
qed

lemma upload_reach_ok: "upload_reach uc sg us pending \<Longrightarrow> manifests_ok sg pending us"
proof (induction rule: upload_reach.induct)
  case (sent us pending rq a i idx bd m us')
  have "set (us_calls us) \<subseteq> set (us_calls us') \<and> manifests us' \<subseteq> manifests us \<union> {}"
    using tame_send [of "{}" sg rq a i idx bd] sent.hyps unfolding tame_def by (metis snd_conv)
  then show ?case
    using chunk_send_sent [OF sent.hyps(2) sent.IH] by (intro manifests_okI [OF sent.IH, where M = "{}"]) auto
next
  case (refused us pending rq a i idx bd e us')
  then show ?case using manifests_ok_tame [OF refused.IH tame_send [of "{}" sg rq a i idx bd]] by simp
next
  case (saved us pending m rq a i idx)
  have "set (remove1 m pending) \<subseteq> set pending" by (rule set_remove1_subset)
  then show ?case by (intro manifests_ok_tame [OF saved.IH tame_chunk_save]) (use saved.hyps in auto)
next
  case (init us pending rq a i keyId dto)
  then show ?case by (intro manifests_ok_tame [OF init.IH tame_init]) (auto intro: fresh_ok)
next
  case (complete us pending rq a i keyId iv)
  then show ?case by (intro manifests_ok_tame [OF complete.IH tame_complete [of "{}"]]) auto
next
  case (cancel us pending rq a i)
  then show ?case by (intro manifests_ok_tame [OF cancel.IH tame_cancel [of "{}"]]) auto
qed (auto simp: manifests_ok_def)

text \<open>Part numbers that are distinct, in range and as many as there are chunks are all of them, in order.\<close>

lemma all_parts_sorted:
  assumes "distinct (map pt_chunkIndex ps)" and "pt_chunkIndex ` set ps \<subseteq> {0..<n}" and "int (length ps) = n"
    and "\<forall>p\<in>set ps. pt_partNumber p = pt_chunkIndex p + 1"
  shows "map pt_partNumber (sort_key pt_partNumber ps) = [1..n]"
proof -
  have pn: "map pt_partNumber ps = map (\<lambda>p. pt_chunkIndex p + 1) ps" using assms(4) by simp
  have d: "distinct (map pt_partNumber ps)"
    unfolding pn using assms(1) by (simp add: distinct_map inj_on_def)
  have "pt_partNumber ` set ps \<subseteq> {1..n}" using assms(2,4) by fastforce
  moreover have "card (pt_partNumber ` set ps) = card {1..n}"
    using d assms(3) by (metis card_atLeastAtMost_int diff_add_cancel distinct_card length_map list.set_map nat_int)
  ultimately have "pt_partNumber ` set ps = {1..n}" by (simp add: card_subset_eq)
  moreover have "distinct (map pt_partNumber (sort_key pt_partNumber ps))"
    using d by (metis distinct_sort distinct_map set_sort)
  ultimately show ?thesis
    by (intro sorted_distinct_set_unique) simp_all
qed

lemma sum_list_sort: "sum_list (map f (sort_key k xs)) = (sum_list (map f xs) :: int)"
proof (induction xs)
  case (Cons x xs)
  have "sum_list (map f (insort_key k x ys)) = f x + sum_list (map f ys)" for ys by (induction ys) simp_all
  with Cons show ?case by simp
qed simp

lemma complete_r2_calls:
  assumes "stored_manifest rq us i = Some m" and "um_r2 m = Some r"
    and "complete_upload uc sg rq a i keyId iv us = (Inr result, us')"
  shows "int (length (r2_parts r)) = um_totalChunks m \<and> r2_uploadedBytes r = um_sizeBytes m
    \<and> us_calls us' = us_calls us @ [Complete_multipart (r2_key r) (r2_providerUploadId r) (by_part_number (r2_parts r))]"
proof -
  obtain x where load: "load_manifest rq a i us = (Inr x, us)" "x = m"
    using assms by (auto simp: complete_upload_def and_then_Inr load_manifest_run split: if_splits)
  have state: "us2 = us1" if "result_of uc sg iv m sz url key us1 = (Inr y, us2)" for sz url key us1 us2 y
    using result_of_state [of uc sg iv m sz url key us1] that by auto
  show ?thesis
    using assms load
    by (auto simp: complete_upload_def complete_r2_def Let_def and_then_def [of "load_manifest rq a i"]
        and_then_Inr upload_audit_run in_state_apply dest!: state split: if_splits)
qed

text \<open>
  C10. A multipart upload that completes is the file: in every state that concurrent requests can reach, if
  completing an upload succeeds then the store is told to join parts whose numbers are exactly 1 to the number
  of chunks in this order, every part was sent before under its number and carries the tag the store answered
  for it, and the parts have together exactly the announced size.
\<close>

theorem multipart_complete:
  assumes "upload_reach uc sg us pending" and "stored_manifest rq us i = Some m" and "um_r2 m = Some r"
    and "complete_upload uc sg rq a i keyId iv us = (Inr result, us')"
  shows "\<exists>bodies parts. us_calls us' = us_calls us @ [Complete_multipart (r2_key r) (r2_providerUploadId r) parts]
    \<and> map snd parts = [1..um_totalChunks m]
    \<and> list_all2 (\<lambda>b (tag, n). Upload_part (r2_key r) (r2_providerUploadId r) n b \<in> set (us_calls us)
         \<and> sg_etag sg (r2_key r) (r2_providerUploadId r) n b = Some tag) bodies parts
    \<and> int (length (concat bodies)) = um_sizeBytes m"
proof -
  let ?sent = "\<lambda>p b. Upload_part (r2_key r) (r2_providerUploadId r) (pt_partNumber p) b \<in> set (us_calls us)
    \<and> pt_size p = int (length b) \<and> sg_etag sg (r2_key r) (r2_providerUploadId r) (pt_partNumber p) b = Some (pt_eTag p)"
  let ?ps = "sort_key pt_partNumber (r2_parts r)"
  have "manifest_ok sg (us_calls us) m"
    using upload_reach_ok [OF assms(1)] stored_in_manifests [OF assms(2)] by (simp add: manifests_ok_def)
  then have ok: "distinct (map pt_chunkIndex (r2_parts r))" "pt_chunkIndex ` set (r2_parts r) \<subseteq> {0..<um_totalChunks m}"
    "\<forall>p\<in>set (r2_parts r). pt_partNumber p = pt_chunkIndex p + 1 \<and> (\<exists>b. ?sent p b)"
    "r2_uploadedBytes r = sum_list (map pt_size (r2_parts r))"
    using assms(3) unfolding manifest_ok_def part_sent_def by blast+
  note fin = complete_r2_calls [OF assms(2-4)]
  from ok(3) obtain body where body: "\<forall>p\<in>set (r2_parts r). ?sent p (body p)" by metis
  have "map snd (by_part_number (r2_parts r)) = [1..um_totalChunks m]"
    using all_parts_sorted [OF ok(1,2)] fin ok(3) by (simp add: by_part_number_def o_def)
  moreover have "list_all2 (\<lambda>b (tag, n). Upload_part (r2_key r) (r2_providerUploadId r) n b \<in> set (us_calls us)
         \<and> sg_etag sg (r2_key r) (r2_providerUploadId r) n b = Some tag) (map body ?ps) (by_part_number (r2_parts r))"
    using body by (simp add: by_part_number_def list_all2_map1 list_all2_map2 list_all2_same)
  moreover have "int (length (concat (map body ?ps))) = um_sizeBytes m"
  proof -
    have "int (length (concat (map body ps))) = sum_list (map (\<lambda>p. int (length (body p))) ps)" for ps
      by (induction ps) simp_all
    moreover have "map (\<lambda>p. int (length (body p))) ?ps = map pt_size ?ps" using body by simp
    moreover have "sum_list (map pt_size ?ps) = sum_list (map pt_size (r2_parts r))"
      by (rule sum_list_sort)
    ultimately show ?thesis using ok(4) fin by metis
  qed
  ultimately show ?thesis using fin by blast
qed

text \<open>One byte in one chunk, up to the call that completes it.\<close>

definition demo_started :: upload_system where
  "demo_started = snd (init_upload (demo_upload_config True) demo_storage sample_request sample_actor ''u1'' ''id'' (sample_dto 1 1) demo_system)"

definition demo_sent :: upload_system where
  "demo_sent = snd (chunk_send demo_storage sample_request sample_actor ''u1'' 0 (Some [7]) demo_started)"

definition demo_manifest :: upload_manifest where
  "demo_manifest = (new_manifest sample_request sample_actor ''u1'' (sample_dto 1 1))\<lparr>um_chunks := [0], um_r2 := Some
     \<lparr>r2_key = storage_key 0 ''banner'' ''x.PNG'' ''id'', r2_providerUploadId = ''p'',
      r2_parts = [\<lparr>pt_chunkIndex = 0, pt_partNumber = 1, pt_eTag = ''e'', pt_size = 1\<rparr>], r2_uploadedBytes = 1\<rparr>\<rparr>"

definition demo_saved :: upload_system where
  "demo_saved = snd (chunk_save sample_request sample_actor ''u1'' 0 demo_manifest demo_sent)"

lemma demo_started_run:
  "redis_ready (us_db demo_started)" "us_calls demo_started = [Create_multipart (storage_key 0 ''banner'' ''x.PNG'' ''id'') ''public, max-age=31536000, immutable'']"
  "stored_manifest sample_request demo_started ''u1'' = Some (demo_manifest\<lparr>um_chunks := [], um_r2 := Some
     \<lparr>r2_key = storage_key 0 ''banner'' ''x.PNG'' ''id'', r2_providerUploadId = ''p'', r2_parts = [], r2_uploadedBytes = 0\<rparr>\<rparr>)"
  by (simp_all add: demo_started_def init_upload_def demo_upload_defs empty_state_def public_base_def Let_def truthy_def
      and_then_assoc and_then_def [of "save_manifest _ _"] and_then_def [of "upload_audit _ _ _ _ _"]
      save_manifest_run upload_audit_run stored_manifest_def redis_read_def redis_write_def day_seconds_def
      demo_manifest_def new_manifest_def)

lemma demo_sent_run: "chunk_send demo_storage sample_request sample_actor ''u1'' 0 (Some [7]) demo_started = (Inr demo_manifest, demo_sent)"
  by (simp add: demo_sent_def chunk_send_def and_then_def [of "load_manifest _ _ _"] load_manifest_run demo_started_run
      demo_storage_def demo_manifest_def sample_actor_def new_manifest_def sample_dto_def max_chunk_bytes_def truthy_def put_chunk_def put_part_def)

lemma demo_sent_facts: "redis_ready (us_db demo_sent)" "us_calls demo_sent = us_calls demo_started @
     [Upload_part (storage_key 0 ''banner'' ''x.PNG'' ''id'') ''p'' 1 [7]]"
  by (simp_all add: demo_sent_def chunk_send_def and_then_def [of "load_manifest _ _ _"] load_manifest_run demo_started_run
      demo_storage_def demo_manifest_def sample_actor_def new_manifest_def sample_dto_def max_chunk_bytes_def truthy_def)

lemma demo_saved_run: "redis_ready (us_db demo_saved)" "stored_manifest sample_request demo_saved ''u1'' = Some demo_manifest"
  by (simp_all add: demo_saved_def chunk_save_def and_then_def save_manifest_run upload_audit_run demo_sent_facts
      stored_manifest_def redis_read_def redis_write_def day_seconds_def sample_request_def demo_manifest_def new_manifest_def)

lemma demo_saved_reach: "upload_reach (demo_upload_config True) demo_storage demo_saved []"
proof -
  have "upload_reach (demo_upload_config True) demo_storage demo_system []"
    by (rule upload_reach.start) (simp add: manifests_def demo_system_def empty_state_def)
  then have "upload_reach (demo_upload_config True) demo_storage demo_started []"
    unfolding demo_started_def by (rule upload_reach.init)
  then have "upload_reach (demo_upload_config True) demo_storage demo_sent [demo_manifest]"
    by (rule upload_reach.sent [OF _ demo_sent_run])
  then show ?thesis unfolding demo_saved_def using upload_reach.saved [of _ _ demo_sent "[demo_manifest]" demo_manifest] by simp
qed

lemma demo_complete_run:
  "\<exists>result us'. complete_upload (demo_upload_config True) demo_storage sample_request sample_actor ''u1'' [] [] demo_saved = (Inr result, us')"
  by (simp add: complete_upload_def complete_r2_def Let_def and_then_def [of "load_manifest _ _ _"] load_manifest_run demo_saved_run
      demo_manifest_def new_manifest_def sample_dto_def sample_actor_def demo_storage_def result_of_def
      and_then_def [of "upload_audit _ _ _ _ _"] upload_audit_run)

theorem multipart_complete_witness:
  "\<exists>(us' :: upload_system) bodies parts. us_calls us' = us_calls demo_saved @ [Complete_multipart (storage_key 0 ''banner'' ''x.PNG'' ''id'') ''p'' parts]
    \<and> map snd parts = [1..1]
    \<and> list_all2 (\<lambda>b (tag, n). Upload_part (storage_key 0 ''banner'' ''x.PNG'' ''id'') ''p'' n b \<in> set (us_calls demo_saved)
         \<and> sg_etag demo_storage (storage_key 0 ''banner'' ''x.PNG'' ''id'') ''p'' n b = Some tag) bodies parts
    \<and> int (length (concat bodies)) = 1"
proof -
  obtain result us' where c: "complete_upload (demo_upload_config True) demo_storage sample_request sample_actor ''u1'' [] [] demo_saved
     = (Inr result, us')" using demo_complete_run by blast
  obtain r where r: "um_r2 demo_manifest = Some r" "r2_key r = storage_key 0 ''banner'' ''x.PNG'' ''id''" "r2_providerUploadId r = ''p''"
    by (simp add: demo_manifest_def)
  have "um_totalChunks demo_manifest = 1" "um_sizeBytes demo_manifest = 1"
    by (simp_all add: demo_manifest_def new_manifest_def sample_dto_def)
  note run = multipart_complete [OF demo_saved_reach demo_saved_run(2) r(1) c, unfolded r(2,3) this]
  then show ?thesis by blast
qed

text \<open>
  Two chunks sent at the same time: both are stored, but the manifest is read before and written after the
  transfer, so the one saved last forgets the other and the upload cannot be completed.
\<close>

lemma concurrent_chunk_lost:
  assumes "redis_ready (us_db us)" and "stored_manifest rq us i = Some m" and "um_r2 m = None"
    and "um_actorId m = pr_id a" "um_totalChunks m = 2" "um_chunks m = []" "um_uploadId m = i"
    and "length b0 \<le> max_chunk_bytes" "length b1 \<le> max_chunk_bytes"
  shows "\<exists>m0 us1 m1 us2 us3 us4 x y. chunk_send sg rq a i 0 (Some b0) us = (Inr m0, us1)
    \<and> chunk_send sg rq a i 1 (Some b1) us1 = (Inr m1, us2)
    \<and> chunk_save rq a i 0 m0 us2 = (Inr x, us3) \<and> chunk_save rq a i 1 m1 us3 = (Inr y, us4)
    \<and> us_files us4 i 0 = Some b0 \<and> us_files us4 i 1 = Some b1
    \<and> fst (complete_upload uc sg rq a i keyId iv us4) = Inl (BadRequest ''Not all upload chunks have been received'')"
proof -
  let ?us1 = "us\<lparr>us_files := (us_files us)(i := (us_files us i)(0 \<mapsto> b0))\<rparr>"
  let ?us2 = "us\<lparr>us_files := (us_files us)(i := (us_files us i)(0 \<mapsto> b0, 1 \<mapsto> b1))\<rparr>"
  have 1: "chunk_send sg rq a i 0 (Some b0) us = (Inr (m\<lparr>um_chunks := [0]\<rparr>), ?us1)"
    using assms by (simp add: chunk_send_def and_then_def [of "load_manifest _ _ _"] load_manifest_run put_chunk_def)
  have 2: "chunk_send sg rq a i 1 (Some b1) ?us1 = (Inr (m\<lparr>um_chunks := [1]\<rparr>), ?us2)"
    using assms by (simp add: chunk_send_def and_then_def [of "load_manifest _ _ _"] load_manifest_run put_chunk_def stored_manifest_def)
  obtain x us3 where 3: "chunk_save rq a i 0 (m\<lparr>um_chunks := [0]\<rparr>) ?us2 = (Inr x, us3)"
    and us3: "redis_ready (us_db us3)" "us_files us3 = us_files ?us2"
    using assms by (auto simp: chunk_save_def and_then_def save_manifest_run upload_audit_run)
  obtain y us4 where 4: "chunk_save rq a i 1 (m\<lparr>um_chunks := [1]\<rparr>) us3 = (Inr y, us4)"
    and us4: "redis_ready (us_db us4)" "us_files us4 = us_files ?us2"
      "stored_manifest rq us4 i = Some (m\<lparr>um_chunks := [1]\<rparr>)"
    using assms us3 by (auto simp: chunk_save_def and_then_def save_manifest_run upload_audit_run stored_manifest_def
        redis_read_def redis_write_def day_seconds_def)
  have "fst (complete_upload uc sg rq a i keyId iv us4) = Inl (BadRequest ''Not all upload chunks have been received'')"
    using us4 assms by (simp add: complete_upload_def and_then_def [of "load_manifest _ _ _"] load_manifest_run)
  moreover have "us_files us4 i 0 = Some b0" "us_files us4 i 1 = Some b1" by (simp_all add: us4(2))
  ultimately show ?thesis using 1 2 3 4 by blast
qed

end
