(* ===== verification/MediaGateway.thy ===== *)
theory MediaGateway
  imports PlaybackTokens Locator
begin

text \<open>
  \<open>src/media-gateway\<close>: the only way from a player to a media file. A request presents its playback capability;
  the gateway decrypts the address of the file, fetches it from an allowed provider, and answers a manifest in
  which every address is replaced by one of its own, or the bytes of the file. An address handed out is a
  resource of Redis, bound to the playback session.

  The URL parser, the provider (\<open>fetch\<close>), HMAC, the random ids and AES-GCM are parameters (\<open>media_env\<close>). What is
  asked of the provider is recorded in \<open>ms_fetched\<close>; \<open>ms_ids\<close> counts the ids drawn.
\<close>

section \<open>The storage provider\<close>

record url =
  u_href :: string
  u_protocol :: string
  u_hostname :: string
  u_pathname :: string
  u_search :: string

record fetch_request =
  fr_url :: url
  fr_timestamp :: string
  fr_signature :: string
  fr_range :: "string option"

record provider_response =
  rs_status :: int
  rs_ok :: bool
  rs_contentType :: "string option"
  rs_contentLength :: "string option"
  rs_contentRange :: "string option"
  rs_acceptRanges :: "string option"
  rs_text :: string
  rs_hasBody :: bool

text \<open>
  \<open>me_parse v base\<close> is \<open>new URL(v, base)\<close>, \<open>None\<close> if it throws; \<open>me_fetch\<close> is \<open>None\<close> if the request fails or is
  aborted by the timeout.
\<close>

record media_env =
  me_config :: config
  me_platform :: platform
  me_allowedHosts :: string
  me_originSecret :: string
  me_locatorKey :: "string option"
  me_parse :: "string \<Rightarrow> string option \<Rightarrow> url option"
  me_hmac :: "string \<Rightarrow> string \<Rightarrow> string"
  me_fetch :: "fetch_request \<Rightarrow> provider_response option"
  me_uuid :: "nat \<Rightarrow> string"
  me_aead :: aead

record media_system =
  ms_db :: state
  ms_fetched :: "fetch_request list"
  ms_ids :: nat

type_synonym 'a media_handler = "(media_system, 'a) prog"

definition in_media :: "'a handler \<Rightarrow> 'a media_handler" where
  "in_media m ms = (case m (ms_db ms) of (r, s) \<Rightarrow> (r, ms\<lparr>ms_db := s\<rparr>))"

definition allowed_hosts :: "media_env \<Rightarrow> string list" where
  "allowed_hosts en = filter (\<lambda>h. h \<noteq> []) (map (\<lambda>h. to_lower (trim h)) (split_on (CHR '','') (me_allowedHosts en)))"

definition allowed_url :: "media_env \<Rightarrow> url \<Rightarrow> bool" where
  "allowed_url en u \<longleftrightarrow> u_protocol u = ''https:'' \<and> to_lower (u_hostname u) \<in> set (allowed_hosts en)"

definition validate_url :: "media_env \<Rightarrow> string \<Rightarrow> url media_handler" where
  "validate_url en value =
     and_then (expect (me_parse en value None) (ServiceUnavailable ''Media provider URL is invalid'')) (\<lambda>parsed.
     and_then (require (allowed_url en parsed) (ServiceUnavailable ''Media provider is not allowed'')) (\<lambda>_.
     ret parsed))"

definition provider_fetch :: "media_env \<Rightarrow> request \<Rightarrow> string \<Rightarrow> string option \<Rightarrow> provider_response media_handler" where
  "provider_fetch en rq value rng =
     and_then (validate_url en value) (\<lambda>parsed.
     let timestamp = decimal (nat (rq_now rq div 1000));
         request = \<lparr>fr_url = parsed, fr_timestamp = timestamp,
           fr_signature = me_hmac en (me_originSecret en) (timestamp @ [char_of (10 :: nat)] @ u_pathname parsed @ u_search parsed),
           fr_range = truthy rng\<rparr> in
     and_then (modify (\<lambda>ms. ms\<lparr>ms_fetched := ms_fetched ms @ [request]\<rparr>)) (\<lambda>_.
     and_then (expect (me_fetch en request) (ServiceUnavailable ''Media provider is unavailable'')) (\<lambda>response.
     and_then (require (rs_ok response \<or> rs_status response = 206) (ServiceUnavailable ''Media provider request failed'')) (\<lambda>_.
     ret response))))"

section \<open>Scanning for references\<close>

text \<open>
  \<open>matchAll\<close> of the three expressions of the source: an opening text (any of the alternatives, in any case), a
  non-empty run of characters other than the first of the closing text, and the closing text. A match consumes
  its text; the rest of the input is kept character by character.
\<close>

datatype piece = Text char | Ref string string string

definition match_at :: "string list \<Rightarrow> string \<Rightarrow> string \<Rightarrow> (string \<times> string \<times> string) option" where
  "match_at opens close s =
     (case find_first (\<lambda>p. starts_with (to_lower s) p) opens of
        None \<Rightarrow> None
      | Some p \<Rightarrow>
          let rest = drop (length p) s; inner = takeWhile (\<lambda>c. c \<noteq> hd close) rest;
              tail = drop (length inner) rest in
          if inner \<noteq> [] \<and> starts_with (to_lower tail) close
          then Some (take (length p) s, inner, take (length close) tail) else None)"

function scan :: "(string \<Rightarrow> (string \<times> string \<times> string) option) \<Rightarrow> string \<Rightarrow> piece list" where
  "scan m [] = []"
| "scan m (c # s) = (case m (c # s) of
     None \<Rightarrow> Text c # scan m s
   | Some (opening, inner, closing) \<Rightarrow>
       Ref opening inner closing # scan m (drop (length opening + length inner + length closing - 1) s))"
  by pat_completeness auto
termination
  by (relation "measure (\<lambda>(m, s). length s)") auto

definition uri_attribute :: "string \<Rightarrow> (string \<times> string \<times> string) option" where
  "uri_attribute = match_at [''uri='' @ [char_of (34 :: nat)]] [char_of (34 :: nat)]"

definition base_url_element :: "string \<Rightarrow> (string \<times> string \<times> string) option" where
  "base_url_element = match_at [''<baseurl>''] ''</baseurl>''"

definition media_attribute :: "string \<Rightarrow> (string \<times> string \<times> string) option" where
  "media_attribute = match_at [''media='' @ [char_of (34 :: nat)], ''initialization='' @ [char_of (34 :: nat)]] [char_of (34 :: nat)]"

definition replace_async :: "(string \<Rightarrow> (string \<times> string \<times> string) option) \<Rightarrow> string \<Rightarrow> (string \<Rightarrow> string media_handler)
    \<Rightarrow> string media_handler" where
  "replace_async m value replacer =
     and_then (for_each (scan m value) (\<lambda>p. case p of
        Text c \<Rightarrow> ret [c]
      | Ref opening inner closing \<Rightarrow> and_then (replacer inner) (\<lambda>r. ret (opening @ r @ closing)))) (\<lambda>parts.
     ret (concat parts))"

section \<open>Rewriting manifests\<close>

text \<open>\<open>new URL(uri, baseUrl).toString()\<close>, an error of the runtime if it throws.\<close>

definition absolute_url :: "media_env \<Rightarrow> string \<Rightarrow> string \<Rightarrow> string media_handler" where
  "absolute_url en uri base =
     and_then (expect (me_parse en uri (Some base)) (Internal ''Invalid URL'')) (\<lambda>u. ret (u_href u))"

definition gateway_path :: "string \<Rightarrow> string \<Rightarrow> string" where
  "gateway_path sid i = ''/media-gateway/sessions/'' @ sid @ ''/resources/'' @ i"

definition fresh_id :: "media_env \<Rightarrow> string media_handler" where
  "fresh_id en = and_then (gets ms_ids) (\<lambda>n. and_then (modify (\<lambda>ms. ms\<lparr>ms_ids := Suc n\<rparr>)) (\<lambda>_. ret (me_uuid en n)))"

definition resource_url :: "media_env \<Rightarrow> request \<Rightarrow> string \<Rightarrow> string \<Rightarrow> string \<Rightarrow> resource_kind \<Rightarrow> int \<Rightarrow> string media_handler" where
  "resource_url en rq upstreamUrl sid mid kind ttl =
     and_then (validate_url en upstreamUrl) (\<lambda>_.
     and_then (fresh_id en) (\<lambda>i.
     and_then (in_media (set_json (rq_now rq) (resource_key i) (R_resource \<lparr>mr_sessionId = sid, mr_mediaAssetId = mid,
       mr_upstreamUrl = upstreamUrl, mr_kind = kind, mr_expiresAt = rq_now rq + ttl * 1000\<rparr>) ttl)) (\<lambda>_.
     ret (gateway_path sid i))))"

definition segment_url :: "media_env \<Rightarrow> request \<Rightarrow> string \<Rightarrow> string \<Rightarrow> string \<Rightarrow> int \<Rightarrow> string \<Rightarrow> string media_handler" where
  "segment_url en rq base sid mid ttl uri =
     and_then (absolute_url en uri base) (\<lambda>u. resource_url en rq u sid mid Kind_segment ttl)"

definition replace_uri_attributes :: "media_env \<Rightarrow> request \<Rightarrow> string \<Rightarrow> string \<Rightarrow> string \<Rightarrow> string \<Rightarrow> int \<Rightarrow> string media_handler" where
  "replace_uri_attributes en rq line base sid mid ttl = replace_async uri_attribute line (segment_url en rq base sid mid ttl)"

text \<open>\<open>source.split(/\r?\n/)\<close> and \<open>join('\n')\<close>.\<close>

definition newline :: char where "newline = char_of (10 :: nat)"
definition carriage_return :: char where "carriage_return = char_of (13 :: nat)"

definition chop_return :: "string \<Rightarrow> string" where
  "chop_return s = (if s \<noteq> [] \<and> last s = carriage_return then butlast s else s)"

definition split_lines :: "string \<Rightarrow> string list" where
  "split_lines s = (let ls = split_on newline s in map chop_return (butlast ls) @ [last ls])"

fun join_lines :: "string list \<Rightarrow> string" where
  "join_lines [] = []"
| "join_lines [l] = l"
| "join_lines (l # ls) = l @ newline # join_lines ls"

definition rewrite_hls :: "media_env \<Rightarrow> request \<Rightarrow> string \<Rightarrow> string \<Rightarrow> string \<Rightarrow> string \<Rightarrow> int \<Rightarrow> string media_handler" where
  "rewrite_hls en rq source base sid mid ttl =
     and_then (for_each (split_lines source) (\<lambda>line.
       if trim line = [] then ret line
       else if starts_with (trim line) ''#'' then replace_uri_attributes en rq line base sid mid ttl
       else segment_url en rq base sid mid ttl (trim line))) (\<lambda>rewritten.
     ret (join_lines rewritten))"

definition rewrite_dash :: "media_env \<Rightarrow> request \<Rightarrow> string \<Rightarrow> string \<Rightarrow> string \<Rightarrow> string \<Rightarrow> int \<Rightarrow> string media_handler" where
  "rewrite_dash en rq source base sid mid ttl =
     and_then (replace_async base_url_element source (\<lambda>uri. segment_url en rq base sid mid ttl (trim uri))) (\<lambda>result.
     replace_async media_attribute result (segment_url en rq base sid mid ttl))"

section \<open>The service\<close>

record gateway_response =
  gr_status :: int
  gr_contentType :: string
  gr_contentLength :: "string option"
  gr_contentRange :: "string option"
  gr_acceptRanges :: "string option"
  gr_body :: string
  gr_streaming :: bool

definition expiry_seconds :: "instant \<Rightarrow> instant \<Rightarrow> int" where
  "expiry_seconds now expiresAt = max 1 (- ((now - expiresAt) div 1000))"

definition stream_response :: "provider_response \<Rightarrow> gateway_response media_handler" where
  "stream_response r =
     and_then (require (rs_hasBody r) (NotFound ''Media provider returned an empty body'')) (\<lambda>_.
     ret \<lparr>gr_status = rs_status r, gr_contentType = (case rs_contentType r of Some t \<Rightarrow> t | None \<Rightarrow> ''application/octet-stream''),
          gr_contentLength = rs_contentLength r, gr_contentRange = rs_contentRange r, gr_acceptRanges = rs_acceptRanges r,
          gr_body = rs_text r, gr_streaming = True\<rparr>)"

definition rewritten_manifest :: "media_env \<Rightarrow> request \<Rightarrow> media_type \<Rightarrow> string \<Rightarrow> string \<Rightarrow> string \<Rightarrow> string \<Rightarrow> instant
    \<Rightarrow> gateway_response media_handler" where
  "rewritten_manifest en rq mediaType source base sid mid expiresAt =
     and_then ((if mediaType = DASH then rewrite_dash else rewrite_hls) en rq source base sid mid
       (expiry_seconds (rq_now rq) expiresAt)) (\<lambda>body.
     ret \<lparr>gr_status = 200, gr_contentType = (if mediaType = DASH then ''application/dash+xml'' else ''application/vnd.apple.mpegurl''),
          gr_contentLength = None, gr_contentRange = None, gr_acceptRanges = None, gr_body = body, gr_streaming = False\<rparr>)"

text \<open>The media asset that \<open>validateGatewayCapability\<close> selects with the session.\<close>

definition session_asset :: "playback_session \<Rightarrow> media_asset media_handler" where
  "session_asset x =
     and_then (gets (\<lambda>ms. find_first (\<lambda>m. ma_id m = ps_mediaAssetId x) (mediaAssets (ms_db ms)))) (\<lambda>m.
     expect m (Internal ''P2025''))"

definition gateway_manifest :: "media_env \<Rightarrow> request \<Rightarrow> string \<Rightarrow> string \<Rightarrow> device_dto \<Rightarrow> string option
    \<Rightarrow> gateway_response media_handler" where
  "gateway_manifest en rq sid token device rng =
     and_then (in_media (validate_gateway_capability (me_config en) (me_platform en) rq sid token device)) (\<lambda>session.
     and_then (session_asset session) (\<lambda>asset.
     and_then (decrypt_locator (me_aead en) (me_locatorKey en) (ma_encryptedLocator asset)) (\<lambda>upstreamUrl.
     and_then (provider_fetch en rq upstreamUrl rng) (\<lambda>response.
     if ma_mediaType asset = MP4 \<or> ma_mediaType asset = Media_OTHER then stream_response response
     else rewritten_manifest en rq (ma_mediaType asset) (rs_text response) upstreamUrl sid (ma_id asset) (ps_expiresAt session)))))"

definition gateway_resource :: "media_env \<Rightarrow> request \<Rightarrow> string \<Rightarrow> string \<Rightarrow> string \<Rightarrow> device_dto \<Rightarrow> string option
    \<Rightarrow> gateway_response media_handler" where
  "gateway_resource en rq sid resourceId token device rng =
     and_then (in_media (validate_gateway_capability (me_config en) (me_platform en) rq sid token device)) (\<lambda>session.
     and_then (session_asset session) (\<lambda>asset.
     and_then (in_media (get_json (rq_now rq) (resource_key resourceId))) (\<lambda>v.
     and_then (expect (case v of
         Some (R_resource r) \<Rightarrow> if mr_sessionId r = sid \<and> mr_mediaAssetId r = ma_id asset \<and> rq_now rq < mr_expiresAt r
           then Some r else None
       | _ \<Rightarrow> None) (Unauthorized ''Media resource is expired'')) (\<lambda>r.
     and_then (provider_fetch en rq (mr_upstreamUrl r) rng) (\<lambda>response.
     if mr_kind r = Kind_manifest
     then rewritten_manifest en rq (ma_mediaType asset) (rs_text response) (mr_upstreamUrl r) sid (ma_id asset) (ps_expiresAt session)
     else stream_response response)))))"

section \<open>The controller\<close>

text \<open>\<open>/^Bearer\s+(.+)$/i\<close>: blanks, then at least one character; if all are blanks the last one is the match.\<close>

definition bearer :: "string \<Rightarrow> string option" where
  "bearer h =
     (if \<not> starts_with (to_lower h) ''bearer'' then None
      else let s = drop 6 h; blanks = takeWhile is_space s; rest = dropWhile is_space s in
           if blanks = [] then None
           else if rest \<noteq> [] then Some rest
           else if 2 \<le> length blanks then Some [last blanks] else None)"

definition capability :: "string option \<Rightarrow> string option \<Rightarrow> string option \<Rightarrow> string media_handler" where
  "capability authorization playbackToken queryToken =
     expect (truthy (case bearer (case authorization of Some h \<Rightarrow> h | None \<Rightarrow> []) of
         Some t \<Rightarrow> Some t
       | None \<Rightarrow> (case playbackToken of Some t \<Rightarrow> Some t | None \<Rightarrow> queryToken)))
       (Unauthorized ''Playback capability header is required'')"

definition manifest_route :: "media_env \<Rightarrow> request \<Rightarrow> string \<Rightarrow> string option \<Rightarrow> string option \<Rightarrow> string option \<Rightarrow> device_dto
    \<Rightarrow> string option \<Rightarrow> gateway_response media_handler" where
  "manifest_route en rq sid authorization playbackToken queryToken device rng =
     and_then (capability authorization playbackToken queryToken) (\<lambda>token. gateway_manifest en rq sid token device rng)"

definition resource_route :: "media_env \<Rightarrow> request \<Rightarrow> string \<Rightarrow> string \<Rightarrow> string option \<Rightarrow> string option \<Rightarrow> string option
    \<Rightarrow> device_dto \<Rightarrow> string option \<Rightarrow> gateway_response media_handler" where
  "resource_route en rq sid rid authorization playbackToken queryToken device rng =
     and_then (capability authorization playbackToken queryToken) (\<lambda>token. gateway_resource en rq sid rid token device rng)"

section \<open>What a rewriting serves\<close>

text \<open>The references of a scanned text, and the text with other references in their place.\<close>

fun refs :: "piece list \<Rightarrow> string list" where
  "refs [] = []"
| "refs (Text c # ps) = refs ps"
| "refs (Ref opening u closing # ps) = u # refs ps"

fun fill :: "piece list \<Rightarrow> string list \<Rightarrow> string" where
  "fill (Text c # ps) us = c # fill ps us"
| "fill (Ref opening u closing # ps) (v # us) = opening @ v @ closing @ fill ps us"
| "fill _ _ = []"

lemma refs_append [simp]: "refs (ps @ qs) = refs ps @ refs qs"
  by (induction ps rule: refs.induct) simp_all

lemma fill_append: "length us = length (refs ps) \<Longrightarrow> fill (ps @ qs) (us @ vs) = fill ps us @ fill qs vs"
  by (induction ps us rule: fill.induct) simp_all

lemma refs_text [simp]: "refs (map Text l) = []"
  by (induction l) simp_all

lemma fill_text [simp]: "fill (map Text l) us = l"
  by (induction l) simp_all

lemma fill_text_then [simp]: "fill (map Text l @ qs) us = l @ fill qs us"
  by (induction l) simp_all

text \<open>Nothing of the text is lost in the scan.\<close>

lemma match_at_split:
  assumes "match_at opens close s = Some (a, u, b)" and "close \<noteq> []"
  shows "\<exists>t. s = a @ u @ b @ t \<and> u \<noteq> [] \<and> hd close \<notin> set u \<and> to_lower b = close"
proof -
  obtain p where f: "find_first (\<lambda>p. starts_with (to_lower s) p) opens = Some p"
    using assms(1) by (auto simp: match_at_def split: option.splits)
  have p: "a = take (length p) s" and u: "u = takeWhile (\<lambda>c. c \<noteq> hd close) (drop (length p) s)" "u \<noteq> []"
    and tl: "starts_with (to_lower (drop (length u) (drop (length p) s))) close"
    and b: "b = take (length close) (drop (length u) (drop (length p) s))"
    using assms(1) unfolding match_at_def f option.case Let_def by (auto split: if_splits)
  let ?r = "drop (length p) s"
  have "?r = u @ drop (length u) ?r" unfolding u(1) by (metis append_take_drop_id takeWhile_eq_take)
  moreover have "drop (length u) ?r = b @ drop (length close) (drop (length u) ?r)" unfolding b by (rule append_take_drop_id [symmetric])
  ultimately have "s = a @ u @ b @ drop (length close) (drop (length u) ?r)" unfolding p by (metis append_take_drop_id)
  moreover have "hd close \<notin> set u" unfolding u(1) by (auto dest: set_takeWhileD)
  moreover have "to_lower b = close"
    using tl unfolding b to_lower_def starts_with_iff by (auto simp: take_map [symmetric])
  ultimately show ?thesis using u(2) by blast
qed

definition splits :: "(string \<Rightarrow> (string \<times> string \<times> string) option) \<Rightarrow> bool" where
  "splits m \<longleftrightarrow> (\<forall>s a u b. m s = Some (a, u, b) \<longrightarrow> (\<exists>t. s = a @ u @ b @ t \<and> u \<noteq> []))"

lemma splits_match_at: "close \<noteq> [] \<Longrightarrow> splits (match_at opens close)"
  unfolding splits_def using match_at_split by blast

lemma scan_whole: "splits m \<Longrightarrow> fill (scan m s) (refs (scan m s)) = s"
proof (induction m s rule: scan.induct)
  case (2 m c s)
  show ?case
  proof (cases "m (c # s)")
    case None
    with 2 show ?thesis by simp
  next
    case (Some x)
    obtain a u b where x: "x = (a, u, b)" by (cases x) auto
    with Some "2.prems" obtain t where t: "c # s = a @ u @ b @ t" "u \<noteq> []" unfolding splits_def by blast
    then have "drop (length a + length u + length b - 1) s = t"
      by (metis append_assoc append_eq_conv_conj diff_Suc_1 drop_Suc_Cons gr0_implies_Suc length_append length_greater_0_conv
          trans_less_add1 trans_less_add2)
    then have "scan m (c # s) = Ref a u b # scan m t" using Some x by simp
    moreover have "fill (scan m t) (refs (scan m t)) = t"
      using "2.IH"(2) [OF Some, of a "(u, b)" u b] x "2.prems" \<open>drop _ s = t\<close> by simp
    ultimately show ?thesis using t(1) by simp
  qed
qed simp

text \<open>
  \<open>serves P p\<close>: whenever \<open>p\<close> succeeds it draws one id per reference of \<open>P\<close>, answers \<open>P\<close> with the gateway paths of
  these ids in place of its references, and leaves behind each id a segment resource of this session with the
  absolute address of the reference (after \<open>g\<close>), whose provider is allowed. Earlier ids keep what they had.
\<close>

record serving =
  sv_env :: media_env
  sv_now :: instant
  sv_base :: string
  sv_session :: string
  sv_asset :: string
  sv_ttl :: int

definition served :: "serving \<Rightarrow> string \<Rightarrow> media_system \<Rightarrow> nat \<Rightarrow> bool" where
  "served sv uri ms k \<longleftrightarrow> (\<exists>u v. me_parse (sv_env sv) uri (Some (sv_base sv)) = Some u
     \<and> me_parse (sv_env sv) (u_href u) None = Some v \<and> allowed_url (sv_env sv) v
     \<and> redis (ms_db ms) (resource_key (me_uuid (sv_env sv) k)) = Some (R_resource \<lparr>mr_sessionId = sv_session sv,
         mr_mediaAssetId = sv_asset sv, mr_upstreamUrl = u_href u, mr_kind = Kind_segment,
         mr_expiresAt = sv_now sv + sv_ttl sv * 1000\<rparr>, Some (sv_now sv + sv_ttl sv * 1000)))"

definition path_of :: "serving \<Rightarrow> nat \<Rightarrow> string" where
  "path_of sv k = gateway_path (sv_session sv) (me_uuid (sv_env sv) k)"

definition serves :: "serving \<Rightarrow> (string \<Rightarrow> string) \<Rightarrow> piece list \<Rightarrow> string media_handler \<Rightarrow> bool" where
  "serves sv g P p \<longleftrightarrow> (\<forall>ms out ms'. p ms = (Inr out, ms') \<longrightarrow>
     ms_ids ms' = ms_ids ms + length (refs P)
     \<and> out = fill P (map (path_of sv) [ms_ids ms..<ms_ids ms'])
     \<and> (\<forall>k<length (refs P). served sv (g (refs P ! k)) ms' (ms_ids ms + k))
     \<and> (\<forall>j<ms_ids ms. redis (ms_db ms') (resource_key (me_uuid (sv_env sv) j)) = redis (ms_db ms) (resource_key (me_uuid (sv_env sv) j))))"

lemma served_later:
  "served sv u ms k \<Longrightarrow> redis (ms_db ms') (resource_key (me_uuid (sv_env sv) k)) = redis (ms_db ms) (resource_key (me_uuid (sv_env sv) k))
     \<Longrightarrow> served sv u ms' k"
  by (simp add: served_def)

lemma serves_ret: "serves sv g (map Text l) (ret l)"
  by (simp add: serves_def)

lemma serves_and_then:
  assumes p: "serves sv g P p" and q: "\<And>a. serves sv g Q (q a)"
  shows "serves sv g (P @ map Text sep @ Q) (and_then p (\<lambda>a. and_then (q a) (\<lambda>b. ret (a @ sep @ b))))"
  unfolding serves_def
proof (intro allI impI)
  fix ms out ms'
  assume "and_then p (\<lambda>a. and_then (q a) (\<lambda>b. ret (a @ sep @ b))) ms = (Inr out, ms')"
  then obtain a ms1 b where 1: "p ms = (Inr a, ms1)" and 2: "q a ms1 = (Inr b, ms')" and out: "out = a @ sep @ b"
    by (auto simp: and_then_Inr)
  from p 1 have a: "ms_ids ms1 = ms_ids ms + length (refs P)" "a = fill P (map (path_of sv) [ms_ids ms..<ms_ids ms1])"
    "\<forall>k<length (refs P). served sv (g (refs P ! k)) ms1 (ms_ids ms + k)"
    "\<forall>j<ms_ids ms. redis (ms_db ms1) (resource_key (me_uuid (sv_env sv) j)) = redis (ms_db ms) (resource_key (me_uuid (sv_env sv) j))"
    unfolding serves_def by blast+
  from q [of a] 2 have b: "ms_ids ms' = ms_ids ms1 + length (refs Q)" "b = fill Q (map (path_of sv) [ms_ids ms1..<ms_ids ms'])"
    "\<forall>k<length (refs Q). served sv (g (refs Q ! k)) ms' (ms_ids ms1 + k)"
    "\<forall>j<ms_ids ms1. redis (ms_db ms') (resource_key (me_uuid (sv_env sv) j)) = redis (ms_db ms1) (resource_key (me_uuid (sv_env sv) j))"
    unfolding serves_def by blast+
  have ids: "ms_ids ms' = ms_ids ms + length (refs (P @ map Text sep @ Q))" using a(1) b(1) by simp
  let ?us = "map (path_of sv) [ms_ids ms..<ms_ids ms1]" and ?vs = "map (path_of sv) [ms_ids ms1..<ms_ids ms']"
  have "[ms_ids ms..<ms_ids ms'] = [ms_ids ms..<ms_ids ms1] @ [ms_ids ms1..<ms_ids ms']"
    using a(1) b(1) upt_add_eq_append [of "ms_ids ms" "ms_ids ms1" "length (refs Q)"] by simp
  then have split: "map (path_of sv) [ms_ids ms..<ms_ids ms'] = ?us @ ?vs" by (simp only: map_append)
  have len: "length ?us = length (refs P)" using a(1) by simp
  have "out = fill (P @ map Text sep @ Q) (?us @ ?vs)"
    by (simp only: fill_append [OF len] fill_text_then out a(2) [symmetric] b(2) [symmetric])
  then have "out = fill (P @ map Text sep @ Q) (map (path_of sv) [ms_ids ms..<ms_ids ms'])" by (simp only: split)
  moreover have "served sv (g (refs (P @ map Text sep @ Q) ! k)) ms' (ms_ids ms + k)"
    if k: "k < length (refs (P @ map Text sep @ Q))" for k
  proof (cases "k < length (refs P)")
    case True
    with a(3) have "served sv (g (refs P ! k)) ms1 (ms_ids ms + k)" by blast
    from served_later [OF this] b(4) a(1) True show ?thesis by (simp add: nth_append)
  next
    case False
    with k have "k - length (refs P) < length (refs Q)" by auto
    with b(3) have "served sv (g (refs Q ! (k - length (refs P)))) ms' (ms_ids ms1 + (k - length (refs P)))" by blast
    with False a(1) show ?thesis by (simp add: nth_append)
  qed
  moreover have "redis (ms_db ms') (resource_key (me_uuid (sv_env sv) j)) = redis (ms_db ms) (resource_key (me_uuid (sv_env sv) j))"
    if "j < ms_ids ms" for j using that a(1,4) b(4) by simp
  ultimately show "ms_ids ms' = ms_ids ms + length (refs (P @ map Text sep @ Q))
     \<and> out = fill (P @ map Text sep @ Q) (map (path_of sv) [ms_ids ms..<ms_ids ms'])
     \<and> (\<forall>k<length (refs (P @ map Text sep @ Q)). served sv (g (refs (P @ map Text sep @ Q) ! k)) ms' (ms_ids ms + k))
     \<and> (\<forall>j<ms_ids ms. redis (ms_db ms') (resource_key (me_uuid (sv_env sv) j)) = redis (ms_db ms) (resource_key (me_uuid (sv_env sv) j)))"
    using ids by blast
qed

text \<open>The pieces of an HLS manifest, line by line.\<close>

definition hls_line :: "string \<Rightarrow> piece list" where
  "hls_line line = (if trim line = [] then map Text line
     else if starts_with (trim line) ''#'' then scan uri_attribute line else [Ref [] (trim line) []])"

fun hls_pieces :: "string list \<Rightarrow> piece list" where
  "hls_pieces [] = []"
| "hls_pieces [l] = hls_line l"
| "hls_pieces (l # ls) = hls_line l @ Text newline # hls_pieces ls"

lemma for_each_none: "and_then (for_each [] f) k = k []"
  by (rule ext) (simp add: and_then_def)

lemma serves_for_each:
  assumes "\<And>x. x \<in> set xs \<Longrightarrow> serves sv g (P x) (f x)"
  shows "serves sv g (concat (map P xs)) (and_then (for_each xs f) (\<lambda>ys. ret (concat ys)))"
  using assms
proof (induction xs)
  case Nil
  show ?case using serves_ret [of sv g "[]"] by (simp only: for_each_none list.map concat.simps hls_pieces.simps join_lines.simps)
next
  case (Cons x xs)
  have "serves sv g (P x @ map Text [] @ concat (map P xs))
      (and_then (f x) (\<lambda>a. and_then (and_then (for_each xs f) (\<lambda>ys. ret (concat ys))) (\<lambda>b. ret (a @ [] @ b))))"
    by (rule serves_and_then) (use Cons in \<open>simp_all del: ret_apply\<close>)
  then show ?case by (simp add: and_then_assoc del: ret_apply)
qed

lemma serves_segment:
  assumes "inj (me_uuid (sv_env sv))"
    and "sv_env sv = en" "sv_now sv = rq_now rq" "sv_base sv = base" "sv_session sv = sid" "sv_asset sv = mid" "sv_ttl sv = ttl"
  shows "serves sv g [Ref opening u closing] (and_then (segment_url en rq base sid mid ttl (g u)) (\<lambda>r. ret (opening @ r @ closing)))"
  unfolding serves_def
proof (intro allI impI)
  fix ms out ms'
  assume run: "and_then (segment_url en rq base sid mid ttl (g u)) (\<lambda>r. ret (opening @ r @ closing)) ms = (Inr out, ms')"
  have key: "resource_key (me_uuid (sv_env sv) j) = resource_key (me_uuid (sv_env sv) k) \<longleftrightarrow> j = k" for j k
    using assms(1) by (auto simp: resource_key_def inj_def)
  show "ms_ids ms' = ms_ids ms + length (refs [Ref opening u closing])
     \<and> out = fill [Ref opening u closing] (map (path_of sv) [ms_ids ms..<ms_ids ms'])
     \<and> (\<forall>k<length (refs [Ref opening u closing]). served sv (g (refs [Ref opening u closing] ! k)) ms' (ms_ids ms + k))
     \<and> (\<forall>j<ms_ids ms. redis (ms_db ms') (resource_key (me_uuid (sv_env sv) j)) = redis (ms_db ms) (resource_key (me_uuid (sv_env sv) j)))"
    using run assms(2-)
    by (auto simp: segment_url_def absolute_url_def resource_url_def validate_url_def fresh_id_def and_then_Inr in_media_def
        path_of_def served_def redis_write_def key split: if_splits option.splits)
qed

lemma serves_replace:
  assumes "inj (me_uuid (sv_env sv))"
    and "sv_env sv = en" "sv_now sv = rq_now rq" "sv_base sv = base" "sv_session sv = sid" "sv_asset sv = mid" "sv_ttl sv = ttl"
  shows "serves sv g (scan m value) (replace_async m value (\<lambda>u. segment_url en rq base sid mid ttl (g u)))"
proof -
  have "serves sv g (concat (map (\<lambda>p. [p]) (scan m value))) (replace_async m value (\<lambda>u. segment_url en rq base sid mid ttl (g u)))"
    unfolding replace_async_def
  proof (rule serves_for_each)
    fix p
    show "serves sv g [p] (case p of Text c \<Rightarrow> ret [c]
      | Ref opening inner closing \<Rightarrow> and_then (segment_url en rq base sid mid ttl (g inner)) (\<lambda>r. ret (opening @ r @ closing)))"
      using serves_segment [OF assms] serves_ret [of sv g "[_]"] by (cases p) simp_all
  qed
  then show ?thesis by (simp add: concat_map_singleton)
qed

lemma for_each_length: "for_each xs f s = (Inr ys, s') \<Longrightarrow> length ys = length xs"
  by (induction xs arbitrary: s ys) (auto simp: and_then_Inr)

lemma serves_lines:
  assumes "\<And>l. serves sv g (hls_line l) (f l)"
  shows "serves sv g (hls_pieces ls) (and_then (for_each ls f) (\<lambda>ys. ret (join_lines ys)))"
proof (induction ls rule: hls_pieces.induct)
  case 1
  show ?case using serves_ret [of sv g "[]"] by (simp only: for_each_none list.map concat.simps hls_pieces.simps join_lines.simps)
next
  case (2 l)
  have "and_then (for_each [l] f) (\<lambda>ys. ret (join_lines ys)) = f l"
    by (rule ext) (simp add: and_then_assoc and_then_def split: prod.split sum.split)
  with assms show ?case by (simp only: hls_pieces.simps)
next
  case (3 l m ls)
  have eq: "and_then (for_each (l # m # ls) f) (\<lambda>ys. ret (join_lines ys))
      = and_then (f l) (\<lambda>a. and_then (and_then (for_each (m # ls) f) (\<lambda>ys. ret (join_lines ys))) (\<lambda>b. ret (a @ [newline] @ b)))"
  proof (rule ext)
    fix s
    have "join_lines (y # ys) = y @ [newline] @ join_lines ys" if "for_each (m # ls) f s1 = (Inr ys, s2)" for y ys s1 s2
      using for_each_length [OF that] by (cases ys) simp_all
    then show "and_then (for_each (l # m # ls) f) (\<lambda>ys. ret (join_lines ys)) s
      = and_then (f l) (\<lambda>a. and_then (and_then (for_each (m # ls) f) (\<lambda>ys. ret (join_lines ys))) (\<lambda>b. ret (a @ [newline] @ b))) s"
      unfolding for_each.simps(2) [of l "m # ls"] and_then_assoc and_then_ret
      by (auto simp: and_then_def simp del: for_each.simps split: prod.splits sum.splits)
  qed
  have "serves sv g (hls_line l @ map Text [newline] @ hls_pieces (m # ls))
      (and_then (f l) (\<lambda>a. and_then (and_then (for_each (m # ls) f) (\<lambda>ys. ret (join_lines ys))) (\<lambda>b. ret (a @ [newline] @ b))))"
    by (rule serves_and_then [OF assms 3])
  then show ?case unfolding eq by simp
qed

lemma fill_line: "fill (hls_line l) (refs (hls_line l)) = (if trim l \<noteq> [] \<and> \<not> starts_with (trim l) ''#'' then trim l else l)"
  by (auto simp: hls_line_def uri_attribute_def intro!: scan_whole splits_match_at)

lemma fill_lines: "fill (hls_pieces ls) (refs (hls_pieces ls))
    = join_lines (map (\<lambda>l. if trim l \<noteq> [] \<and> \<not> starts_with (trim l) ''#'' then trim l else l) ls)"
proof (induction ls rule: hls_pieces.induct)
  case (3 l m ls)
  then show ?case by (simp only: hls_pieces.simps refs_append refs.simps fill_append fill.simps list.map join_lines.simps fill_line)
qed (simp_all add: fill_line)

text \<open>
  C12. The HLS manifest that a player gets leads only to the gateway and loses nothing: with the references of a
  manifest being its address lines and its \<open>URI="..."\<close> attributes, the answer is the manifest with the k-th
  reference replaced by the gateway path of the k-th new resource (blanks around address lines apart), and that
  resource holds the absolute address of exactly this reference, for this session and asset only, from an
  allowed provider.
\<close>

theorem hls_rewritten:
  assumes "inj (me_uuid en)" and "0 < ttl" and "rewrite_hls en rq source base sid mid ttl ms = (Inr out, ms')"
  shows "\<exists>P ids. fill P (refs P) = join_lines (map (\<lambda>l. if trim l \<noteq> [] \<and> \<not> starts_with (trim l) ''#'' then trim l else l) (split_lines source))
    \<and> P = hls_pieces (split_lines source) \<and> distinct ids \<and> out = fill P (map (gateway_path sid) ids)
    \<and> list_all2 (\<lambda>i uri. \<exists>u v. me_parse en uri (Some base) = Some u \<and> me_parse en (u_href u) None = Some v \<and> allowed_url en v
         \<and> redis_read (redis (ms_db ms')) (rq_now rq) (resource_key i) = Some (R_resource \<lparr>mr_sessionId = sid, mr_mediaAssetId = mid,
              mr_upstreamUrl = u_href u, mr_kind = Kind_segment, mr_expiresAt = rq_now rq + ttl * 1000\<rparr>)) ids (refs P)"
proof -
  define sv where "sv = \<lparr>sv_env = en, sv_now = rq_now rq, sv_base = base, sv_session = sid, sv_asset = mid, sv_ttl = ttl\<rparr>"
  have sv: "sv_env sv = en" "sv_now sv = rq_now rq" "sv_base sv = base" "sv_session sv = sid" "sv_asset sv = mid" "sv_ttl sv = ttl"
    by (simp_all add: sv_def)
  have inj: "inj (me_uuid (sv_env sv))" using assms(1) by (simp add: sv)
  let ?P = "hls_pieces (split_lines source)"
  let ?ids = "map (me_uuid en) [ms_ids ms..<ms_ids ms']"
  have seg: "serves sv (\<lambda>u. u) [Ref [] u []] (segment_url en rq base sid mid ttl u)" for u
  proof -
    have "and_then (segment_url en rq base sid mid ttl u) (\<lambda>r. ret ([] @ r @ [])) = segment_url en rq base sid mid ttl u"
      by (rule ext) (simp add: and_then_def split: prod.split sum.split)
    then show ?thesis using serves_segment [OF inj sv, of "\<lambda>u. u" "[]" u "[]"] by (simp only:)
  qed
  have "serves sv (\<lambda>u. u) ?P (rewrite_hls en rq source base sid mid ttl)"
    unfolding rewrite_hls_def
  proof (rule serves_lines)
    fix l
    show "serves sv (\<lambda>u. u) (hls_line l) (if trim l = [] then ret l
       else if starts_with (trim l) ''#'' then replace_uri_attributes en rq l base sid mid ttl
       else segment_url en rq base sid mid ttl (trim l))"
      using serves_ret [of sv "\<lambda>u. u" l] serves_replace [OF inj sv, of "\<lambda>u. u" uri_attribute l] seg [of "trim l"]
      by (simp add: hls_line_def replace_uri_attributes_def del: ret_apply)
  qed
  with assms(3) have n: "ms_ids ms' = ms_ids ms + length (refs ?P)" and out: "out = fill ?P (map (path_of sv) [ms_ids ms..<ms_ids ms'])"
    and st: "\<forall>k<length (refs ?P). served sv (refs ?P ! k) ms' (ms_ids ms + k)"
    unfolding serves_def by blast+
  have "out = fill ?P (map (gateway_path sid) ?ids)" unfolding out by (simp add: path_of_def [abs_def] sv o_def)
  moreover have "distinct ?ids" using assms(1) by (auto simp: distinct_map inj_on_def inj_def)
  moreover have "list_all2 (\<lambda>i uri. \<exists>u v. me_parse en uri (Some base) = Some u \<and> me_parse en (u_href u) None = Some v \<and> allowed_url en v
         \<and> redis_read (redis (ms_db ms')) (rq_now rq) (resource_key i) = Some (R_resource \<lparr>mr_sessionId = sid, mr_mediaAssetId = mid,
              mr_upstreamUrl = u_href u, mr_kind = Kind_segment, mr_expiresAt = rq_now rq + ttl * 1000\<rparr>)) ?ids (refs ?P)"
    using st n assms(2) by (auto simp: list_all2_conv_all_nth served_def sv redis_read_def)
  ultimately show ?thesis using fill_lines by blast
qed

section \<open>What the gateway asks of providers\<close>

text \<open>
  Validating a capability touches no key of Redis but those of capabilities: a property \<open>J\<close> of the store that
  survives writing and deleting them survives the validation.
\<close>

definition capability_proof :: "(redis_store \<Rightarrow> bool) \<Rightarrow> bool" where
  "capability_proof J \<longleftrightarrow> (\<forall>m now j c ttl. J m \<longrightarrow> J (redis_write m now (cache_key j) (R_capability c) ttl))
     \<and> (\<forall>m j. J m \<longrightarrow> J (redis_remove m (cache_key j)))"

named_theorems capability_keeps "building blocks of the capability check"

lemma keeps_same_redis: "(\<And>s. redis (snd (p s)) = redis s) \<Longrightarrow> keeps (\<lambda>s. J (redis s)) p"
  by (simp add: keeps_def)

lemma keeps_quiet [capability_keeps]:
  "keeps (\<lambda>s. J (redis s)) (update_play P f)" "keeps (\<lambda>s. J (redis s)) (update_play_history Q g)"
  "keeps (\<lambda>s. J (redis s)) (denied r now a e why)" "keeps (\<lambda>s. J (redis s)) (security_event rq a x why)"
  "keeps (\<lambda>s. J (redis s)) (audit_write ev)" "keeps (\<lambda>s. J (redis s)) (get_json now k)"
  "keeps (\<lambda>s. J (redis s)) (subscription_active now uid ep)" "keeps (\<lambda>s. J (redis s)) (grant_allowed now uid ep)"
  by (rule keeps_same_redis, simp add: update_play_def update_play_history_def denied_def security_event_def sub.decides acc.decides)+

lemma keeps_token [capability_keeps]:
  "keeps (\<lambda>s. J (redis s)) (token_verify pf now tok)" "keeps (\<lambda>s. J (redis s)) (token_cached now jti)"
  unfolding token_verify_def token_cached_def by (intro keeps_rules capability_keeps)+

lemma keeps_authorization [capability_keeps]: "keeps (\<lambda>s. J (redis s)) (authorize cf pf rq p e dev ex)"
  unfolding authorize_def Let_def by (intro keeps_rules capability_keeps)

lemma keeps_capability [capability_keeps]:
  assumes "capability_proof J"
  shows "keeps (\<lambda>s. J (redis s)) (token_cache now pl st ttl)" "keeps (\<lambda>s. J (redis s)) (token_revoke jti)"
  using assms by (auto simp: keeps_def token_cache_def token_revoke_def capability_proof_def)

lemma keeps_validation:
  assumes "capability_proof J"
  shows "keeps (\<lambda>s. J (redis s)) (validate_gateway_capability cf pf rq sid token device)"
  unfolding validate_gateway_capability_def validate_capability_def touch_capability_def revoke_by_session_def Let_def
  by (intro keeps_rules capability_keeps assms)

lemma keeps_in_media: "keeps I m \<Longrightarrow> keeps (\<lambda>ms. I (ms_db ms) \<and> K (ms_fetched ms)) (in_media m)"
  by (auto simp: keeps_def in_media_def split: prod.split)

text \<open>Every resource is a segment of an allowed provider, and so is every request, which is signed.\<close>

definition resources_ok :: "media_env \<Rightarrow> redis_store \<Rightarrow> bool" where
  "resources_ok en m \<longleftrightarrow> (\<forall>k r e. m k = Some (R_resource r, e) \<longrightarrow>
     mr_kind r = Kind_segment \<and> (\<exists>u. me_parse en (mr_upstreamUrl r) None = Some u \<and> allowed_url en u))"

definition fetch_ok :: "media_env \<Rightarrow> fetch_request \<Rightarrow> bool" where
  "fetch_ok en f \<longleftrightarrow> u_protocol (fr_url f) = ''https:'' \<and> to_lower (u_hostname (fr_url f)) \<in> set (allowed_hosts en)
     \<and> fr_signature f = me_hmac en (me_originSecret en) (fr_timestamp f @ [newline] @ u_pathname (fr_url f) @ u_search (fr_url f))"

definition media_inv :: "media_env \<Rightarrow> media_system \<Rightarrow> bool" where
  "media_inv en ms \<longleftrightarrow> resources_ok en (redis (ms_db ms)) \<and> (\<forall>f\<in>set (ms_fetched ms). fetch_ok en f)"

lemma resources_proof: "capability_proof (resources_ok en)"
  by (auto simp: capability_proof_def resources_ok_def redis_write_def redis_remove_def)

named_theorems media_keeps "media_inv is kept by the building blocks"

lemma keeps_media_db [media_keeps]:
  "keeps (media_inv en) (in_media (validate_gateway_capability cf pf rq sid token device))"
  "keeps (media_inv en) (in_media (get_json now k))"
  unfolding media_inv_def by (rule keeps_in_media, rule keeps_validation [OF resources_proof] keeps_get_json)+

definition provider_request :: "media_env \<Rightarrow> request \<Rightarrow> url \<Rightarrow> string option \<Rightarrow> fetch_request" where
  "provider_request en rq u rng = (let timestamp = decimal (nat (rq_now rq div 1000)) in
     \<lparr>fr_url = u, fr_timestamp = timestamp,
      fr_signature = me_hmac en (me_originSecret en) (timestamp @ [newline] @ u_pathname u @ u_search u), fr_range = truthy rng\<rparr>)"

lemma provider_fetch_run:
  "provider_fetch en rq value rng ms =
     (case me_parse en value None of
        None \<Rightarrow> (Inl (ServiceUnavailable ''Media provider URL is invalid''), ms)
      | Some u \<Rightarrow>
          if \<not> allowed_url en u then (Inl (ServiceUnavailable ''Media provider is not allowed''), ms)
          else (case me_fetch en (provider_request en rq u rng) of
               None \<Rightarrow> Inl (ServiceUnavailable ''Media provider is unavailable'')
             | Some r \<Rightarrow> if rs_ok r \<or> rs_status r = 206 then Inr r else Inl (ServiceUnavailable ''Media provider request failed''),
             ms\<lparr>ms_fetched := ms_fetched ms @ [provider_request en rq u rng]\<rparr>))"
  by (simp add: provider_fetch_def validate_url_def and_then_assoc Let_def provider_request_def newline_def split: option.split)

lemma keeps_fetch [media_keeps]: "keeps (media_inv en) (provider_fetch en rq value rng)"
  by (auto simp: keeps_def provider_fetch_run media_inv_def fetch_ok_def allowed_url_def provider_request_def Let_def split: option.split)

lemma keeps_resource_url [media_keeps]: "keeps (media_inv en) (resource_url en rq u sid mid Kind_segment ttl)"
proof (rule keepsI)
  fix ms assume "media_inv en ms"
  then show "media_inv en (snd (resource_url en rq u sid mid Kind_segment ttl ms))"
    by (auto simp: resource_url_def validate_url_def fresh_id_def media_inv_def resources_ok_def redis_write_def in_media_def and_then_def
        require_def expect_def split: option.split)
qed

lemma keeps_segment [media_keeps]: "keeps (media_inv en) (segment_url en rq base sid mid ttl uri)"
  unfolding segment_url_def absolute_url_def by (intro keeps_rules media_keeps)

lemma keeps_replace [media_keeps]:
  assumes "\<And>u. keeps (media_inv en) (f u)"
  shows "keeps (media_inv en) (replace_async m value f)"
proof -
  have "keeps (media_inv en) (case p of Text c \<Rightarrow> ret [c] | Ref a u b \<Rightarrow> and_then (f u) (\<lambda>r. ret (a @ r @ b)))" for p
    by (cases p) (auto intro!: keeps_rules assms)
  then show ?thesis unfolding replace_async_def by (intro keeps_rules)
qed

lemma keeps_rewritten [media_keeps]:
  "keeps (media_inv en) (rewritten_manifest en rq t source base sid mid e)" "keeps (media_inv en) (stream_response r)"
  "keeps (media_inv en) (session_asset x)" "keeps (media_inv en) (decrypt_locator ae key value)" "keeps (media_inv en) (capability a p q)"
  by (auto simp: rewritten_manifest_def rewrite_hls_def rewrite_dash_def replace_uri_attributes_def stream_response_def
      session_asset_def decrypt_locator_def capability_def intro!: keeps_rules media_keeps)

lemma keeps_routes:
  "keeps (media_inv en) (manifest_route en rq sid a p q dev rng)"
  "keeps (media_inv en) (resource_route en rq sid rid a p q dev rng)"
proof -
  have fetched: "keeps (media_inv en) (gateway_manifest en rq sid tok dev rng)" for tok
    unfolding gateway_manifest_def by (intro keeps_rules media_keeps)
  then show "keeps (media_inv en) (manifest_route en rq sid a p q dev rng)"
    unfolding manifest_route_def by (intro keeps_rules media_keeps)
  have "keeps (media_inv en) (gateway_resource en rq sid rid tok dev rng)" for tok
    unfolding gateway_resource_def by (intro keeps_rules media_keeps)
  then show "keeps (media_inv en) (resource_route en rq sid rid a p q dev rng)"
    unfolding resource_route_def by (intro keeps_rules media_keeps)
qed

text \<open>
  The gateway in the running backend: its two routes, in any order, and anything else that writes no resource
  (entries may expire or be deleted).
\<close>

definition resources_of :: "media_system \<Rightarrow> media_resource set" where
  "resources_of ms = {r. \<exists>k e. redis (ms_db ms) k = Some (R_resource r, e)}"

inductive media_reach :: "media_env \<Rightarrow> media_system \<Rightarrow> bool" for en where
  start: "resources_of ms = {} \<Longrightarrow> ms_fetched ms = [] \<Longrightarrow> media_reach en ms"
| manifest: "media_reach en ms \<Longrightarrow> media_reach en (snd (manifest_route en rq sid a p q dev rng ms))"
| resource: "media_reach en ms \<Longrightarrow> media_reach en (snd (resource_route en rq sid rid a p q dev rng ms))"
| other: "media_reach en ms \<Longrightarrow> resources_of ms' \<subseteq> resources_of ms \<Longrightarrow> ms_fetched ms' = ms_fetched ms \<Longrightarrow> media_reach en ms'"

lemma media_inv_resources:
  "media_inv en ms \<longleftrightarrow> (\<forall>r\<in>resources_of ms. mr_kind r = Kind_segment
     \<and> (\<exists>u. me_parse en (mr_upstreamUrl r) None = Some u \<and> allowed_url en u)) \<and> (\<forall>f\<in>set (ms_fetched ms). fetch_ok en f)"
  unfolding media_inv_def resources_ok_def resources_of_def by blast

lemma media_reach_inv: "media_reach en ms \<Longrightarrow> media_inv en ms"
proof (induction rule: media_reach.induct)
  case (other ms ms')
  then show ?case unfolding media_inv_resources by auto
next
  case (start ms)
  then show ?case by (simp add: media_inv_resources)
qed (rule keeps_apply [OF keeps_routes(1)] keeps_apply [OF keeps_routes(2)], assumption)+

text \<open>
  C11. The gateway cannot be turned against other servers: in every reachable state, whatever a locator, a
  manifest or a client said, every request that left the gateway went by HTTPS to a host of the allow list and
  carries the signature of its timestamp and path, and every resource it holds is the address of a segment from
  such a host, so that following any of them is safe again.
\<close>

theorem provider_requests_vetted:
  assumes "media_reach en ms"
  shows "(\<forall>f\<in>set (ms_fetched ms). u_protocol (fr_url f) = ''https:'' \<and> to_lower (u_hostname (fr_url f)) \<in> set (allowed_hosts en)
       \<and> fr_signature f = me_hmac en (me_originSecret en) (fr_timestamp f @ [newline] @ u_pathname (fr_url f) @ u_search (fr_url f)))
    \<and> (\<forall>r\<in>resources_of ms. mr_kind r = Kind_segment
       \<and> (\<exists>u. me_parse en (mr_upstreamUrl r) None = Some u \<and> u_protocol u = ''https:'' \<and> to_lower (u_hostname u) \<in> set (allowed_hosts en)))"
  using media_reach_inv [OF assms] unfolding media_inv_resources fetch_ok_def allowed_url_def by blast

lemma kept_resource: "capability_proof (\<lambda>m. m (resource_key i) = v)"
  by (auto simp: capability_proof_def redis_write_def redis_remove_def resource_key_def cache_key_def)

lemma validation_Inr:
  assumes "in_media (validate_gateway_capability cf pf rq sid tok dev) ms = (Inr x, ms1)"
  shows "x \<in> set (playbackSessions (ms_db ms)) \<and> ps_id x = sid \<and> play_live (rq_now rq) (ps_userId x) x
    \<and> ps_capabilityHash x = hash_token pf tok \<and> ms_fetched ms1 = ms_fetched ms \<and> ms_ids ms1 = ms_ids ms
    \<and> mediaAssets (ms_db ms1) = mediaAssets (ms_db ms)
    \<and> redis (ms_db ms1) (resource_key i) = redis (ms_db ms) (resource_key i)"
proof -
  obtain s' where run: "validate_gateway_capability cf pf rq sid tok dev (ms_db ms) = (Inr x, s')" and ms1: "ms1 = ms\<lparr>ms_db := s'\<rparr>"
    using assms by (auto simp: in_media_def split: prod.splits)
  then obtain u :: user where v: "validate_capability cf pf rq \<lparr>pr_id = u_id u, pr_sessionId = ''gateway'', pr_roles = [], pr_permissions = [],
       pr_status = u_status u\<rparr> sid tok dev (ms_db ms) = (Inr x, s')"
    unfolding validate_gateway_capability_def and_then_Inr token_verify_Inr by auto
  have "redis s' (resource_key i) = redis (ms_db ms) (resource_key i)"
    using keepsD [OF keeps_validation [OF kept_resource] _ run] by blast
  with validate_capability_Inr [OF v] ms1 show ?thesis
    by (auto simp: play_live_def dest!: capability_session_Some)
qed

text \<open>Rewriting a manifest fetches nothing.\<close>

lemma keeps_fetched_segment: "keeps (\<lambda>ms. ms_fetched ms = F) (segment_url en rq base sid mid ttl uri)"
proof (rule keepsI)
  fix ms :: media_system assume "ms_fetched ms = F"
  then show "ms_fetched (snd (segment_url en rq base sid mid ttl uri ms)) = F"
    by (auto simp: segment_url_def absolute_url_def resource_url_def validate_url_def fresh_id_def in_media_def and_then_def
        require_def expect_def split: option.split)
qed

lemma keeps_fetched_replace:
  "keeps (\<lambda>ms. ms_fetched ms = F) (replace_async m value (\<lambda>u. segment_url en rq base sid mid ttl (g u)))"
proof -
  have "keeps (\<lambda>ms. ms_fetched ms = F) (case p of Text c \<Rightarrow> ret [c]
    | Ref a u b \<Rightarrow> and_then (segment_url en rq base sid mid ttl (g u)) (\<lambda>r. ret (a @ r @ b)))" for p
    by (cases p) (auto intro!: keeps_rules keeps_fetched_segment)
  then show ?thesis unfolding replace_async_def by (intro keeps_rules)
qed

lemma keeps_fetched_rewritten: "keeps (\<lambda>ms. ms_fetched ms = F) (rewritten_manifest en rq t source base sid mid e)"
  by (auto simp: rewritten_manifest_def rewrite_hls_def rewrite_dash_def replace_uri_attributes_def
      intro!: keeps_rules keeps_fetched_segment keeps_fetched_replace [where g = "\<lambda>u. u"] keeps_fetched_replace [where g = trim])

lemma keeps_fetched_stream: "keeps (\<lambda>ms. ms_fetched ms = F) (stream_response r)"
  unfolding stream_response_def by (intro keeps_rules)

lemma resource_Inr:
  assumes "gateway_resource en rq sid rid tok dev rng ms = (Inr response, ms')"
  shows "\<exists>x r u (asset :: media_asset) y ms1. x \<in> set (playbackSessions (ms_db ms)) \<and> ps_id x = sid \<and> play_live (rq_now rq) (ps_userId x) x
    \<and> ps_capabilityHash x = hash_token (me_platform en) tok
    \<and> redis_read (redis (ms_db ms)) (rq_now rq) (resource_key rid) = Some (R_resource r)
    \<and> mr_sessionId r = sid \<and> mr_mediaAssetId r = ps_mediaAssetId x \<and> rq_now rq < mr_expiresAt r
    \<and> me_parse en (mr_upstreamUrl r) None = Some u \<and> allowed_url en u
    \<and> ms_fetched ms1 = ms_fetched ms @ [provider_request en rq u rng]
    \<and> (if mr_kind r = Kind_manifest
        then rewritten_manifest en rq (ma_mediaType asset) (rs_text y) (mr_upstreamUrl r) sid (ma_id asset) (ps_expiresAt x)
        else stream_response y) ms1 = (Inr response, ms')"
proof -
  obtain x ms1 where v: "in_media (validate_gateway_capability (me_config en) (me_platform en) rq sid tok dev) ms = (Inr x, ms1)"
    using assms by (auto simp: gateway_resource_def and_then_Inr)
  note val = validation_Inr [OF v, of rid]
  obtain asset where a: "find_first (\<lambda>m. ma_id m = ps_mediaAssetId x) (mediaAssets (ms_db ms1)) = Some asset"
    using assms v by (auto simp: gateway_resource_def session_asset_def and_then_def [of "in_media (validate_gateway_capability _ _ _ _ _ _)"]
        and_then_assoc split: option.splits)
  then have aid: "ma_id asset = ps_mediaAssetId x" using find_first_Some by fast
  obtain r where r: "redis_read (redis (ms_db ms1)) (rq_now rq) (resource_key rid) = Some (R_resource r)"
    "mr_sessionId r = sid" "mr_mediaAssetId r = ma_id asset" "rq_now rq < mr_expiresAt r"
    and run: "and_then (provider_fetch en rq (mr_upstreamUrl r) rng) (\<lambda>response.
     if mr_kind r = Kind_manifest
     then rewritten_manifest en rq (ma_mediaType asset) (rs_text response) (mr_upstreamUrl r) sid (ma_id asset) (ps_expiresAt x)
     else stream_response response) ms1 = (Inr response, ms')"
    using assms v a by (auto simp: gateway_resource_def session_asset_def and_then_def [of "in_media _"] in_media_def
        and_then_assoc split: option.splits redis_value.splits if_splits prod.splits)
  from run obtain u y where u: "me_parse en (mr_upstreamUrl r) None = Some u" "allowed_url en u"
    and rest: "(if mr_kind r = Kind_manifest
     then rewritten_manifest en rq (ma_mediaType asset) (rs_text y) (mr_upstreamUrl r) sid (ma_id asset) (ps_expiresAt x)
     else stream_response y) (ms1\<lparr>ms_fetched := ms_fetched ms1 @ [provider_request en rq u rng]\<rparr>) = (Inr response, ms')"
    by (auto simp: and_then_Inr provider_fetch_run split: option.splits if_splits)
  have "redis_read (redis (ms_db ms)) (rq_now rq) (resource_key rid) = Some (R_resource r)"
    using r(1) val by (simp add: redis_read_def)
  moreover have "ms_fetched (ms1\<lparr>ms_fetched := ms_fetched ms1 @ [provider_request en rq u rng]\<rparr>)
      = ms_fetched ms @ [provider_request en rq u rng]" using val by simp
  moreover have "mr_mediaAssetId r = ps_mediaAssetId x" using r(3) aid by simp
  ultimately show ?thesis using val r(2,4) u rest by blast
qed

text \<open>
  C13. A resource is reachable only inside the playback session it was made for: an answer means that the token
  is that of a live session of this id, that the resource is in Redis, unexpired, for this session and for its
  media asset, and that exactly its address was fetched, once, from an allowed provider.
\<close>

theorem resource_bound:
  assumes "gateway_resource en rq sid rid tok dev rng ms = (Inr response, ms')"
  shows "\<exists>x r u. x \<in> set (playbackSessions (ms_db ms)) \<and> ps_id x = sid \<and> play_live (rq_now rq) (ps_userId x) x
    \<and> ps_capabilityHash x = hash_token (me_platform en) tok
    \<and> redis_read (redis (ms_db ms)) (rq_now rq) (resource_key rid) = Some (R_resource r)
    \<and> mr_sessionId r = sid \<and> mr_mediaAssetId r = ps_mediaAssetId x \<and> rq_now rq < mr_expiresAt r
    \<and> me_parse en (mr_upstreamUrl r) None = Some u \<and> allowed_url en u
    \<and> (\<exists>f. ms_fetched ms' = ms_fetched ms @ [f] \<and> fr_url f = u)"
proof -
  from resource_Inr [OF assms] obtain x r u and asset :: media_asset and y ms1 where x: "x \<in> set (playbackSessions (ms_db ms))" "ps_id x = sid"
      "play_live (rq_now rq) (ps_userId x) x" "ps_capabilityHash x = hash_token (me_platform en) tok"
    and r: "redis_read (redis (ms_db ms)) (rq_now rq) (resource_key rid) = Some (R_resource r)"
      "mr_sessionId r = sid" "mr_mediaAssetId r = ps_mediaAssetId x" "rq_now rq < mr_expiresAt r"
    and u: "me_parse en (mr_upstreamUrl r) None = Some u" "allowed_url en u"
    and f: "ms_fetched ms1 = ms_fetched ms @ [provider_request en rq u rng]"
    and rest: "(if mr_kind r = Kind_manifest
        then rewritten_manifest en rq (ma_mediaType asset) (rs_text y) (mr_upstreamUrl r) sid (ma_id asset) (ps_expiresAt x)
        else stream_response y) ms1 = (Inr response, ms')" by blast
  have "ms_fetched ms' = ms_fetched ms1"
    using rest keepsD [OF keeps_fetched_rewritten [of "ms_fetched ms1"] refl] keepsD [OF keeps_fetched_stream [of "ms_fetched ms1"] refl]
    by (auto split: if_splits)
  moreover have "fr_url (provider_request en rq u rng) = u" by (simp add: provider_request_def Let_def)
  ultimately show ?thesis using x r u f by metis
qed

section \<open>A run\<close>

text \<open>A parser for one host, a provider that answers a playlist of one segment, and the session of \<open>watching_demo\<close>.\<close>

definition host_url :: "string \<Rightarrow> url" where
  "host_url p = \<lparr>u_href = ''https://h/'' @ p, u_protocol = ''https:'', u_hostname = ''h'', u_pathname = ''/'' @ p, u_search = []\<rparr>"

definition demo_env :: media_env where
  "demo_env = \<lparr>me_config = demo_config, me_platform = demo_platform, me_allowedHosts = ''H, cdn'', me_originSecret = ''s'',
     me_locatorKey = Some sample_key,
     me_parse = (\<lambda>v base. case base of Some _ \<Rightarrow> Some (host_url v)
       | None \<Rightarrow> if starts_with v ''https://h/'' then Some (host_url (drop 10 v)) else None),
     me_hmac = (\<lambda>key text. key @ text),
     me_fetch = (\<lambda>f. Some \<lparr>rs_status = 200, rs_ok = True, rs_contentType = None, rs_contentLength = None, rs_contentRange = None,
       rs_acceptRanges = None, rs_text = ''#EXTM3U'' @ newline # ''seg.ts'', rs_hasBody = True\<rparr>),
     me_uuid = (\<lambda>n. replicate n (CHR ''i'')), me_aead = plain_aead\<rparr>"

definition demo_locator :: string where
  "demo_locator = ''v1.'' @ base64url (replicate 12 1) @ ''.'' @ base64url (replicate 16 7) @ ''.'' @ base64url (text_bytes ''https://h/v'')"

definition gateway_demo :: media_system where
  "gateway_demo = \<lparr>ms_db = watching_demo\<lparr>mediaAssets := map (\<lambda>m. m\<lparr>ma_encryptedLocator := demo_locator, ma_mediaType := HLS\<rparr>)
     (mediaAssets watching_demo)\<rparr>, ms_fetched = [], ms_ids = 0\<rparr>"

lemma demo_uuid_inj: "inj (me_uuid demo_env)"
  by (auto simp: inj_def demo_env_def dest: arg_cong [where f = length])

lemma demo_rewrite:
  "\<exists>out ms'. rewrite_hls demo_env demo_request (''#EXTM3U'' @ newline # ''seg.ts'') ''https://h/v'' ''ps1'' ''m1'' 60 gateway_demo = (Inr out, ms')"
proof -
  let ?m = "rewrite_hls demo_env demo_request (''#EXTM3U'' @ newline # ''seg.ts'') ''https://h/v'' ''ps1'' ''m1'' 60"
  have "\<not> isl (fst (?m gateway_demo))" by code_simp
  from prog_result [of ?m, OF this] show ?thesis by blast
qed

lemma demo_manifest_run:
  "\<exists>out ms'. manifest_route demo_env demo_request ''ps1'' (Some ''Bearer j1'') None None demo_dto None gateway_demo = (Inr out, ms')"
proof -
  let ?m = "manifest_route demo_env demo_request ''ps1'' (Some ''Bearer j1'') None None demo_dto None"
  have "\<not> isl (fst (?m gateway_demo))" by code_simp
  from prog_result [of ?m, OF this] show ?thesis by blast
qed

theorem hls_rewritten_witness:
  "\<exists>out ms' ids. rewrite_hls demo_env demo_request (''#EXTM3U'' @ newline # ''seg.ts'') ''https://h/v'' ''ps1'' ''m1'' 60 gateway_demo = (Inr out, ms')
    \<and> length ids = 1 \<and> out = ''#EXTM3U'' @ newline # gateway_path ''ps1'' (hd ids)"
proof -
  obtain out ms' where run: "rewrite_hls demo_env demo_request (''#EXTM3U'' @ newline # ''seg.ts'') ''https://h/v'' ''ps1'' ''m1'' 60 gateway_demo
    = (Inr out, ms')" using demo_rewrite by blast
  let ?P = "hls_pieces (split_lines (''#EXTM3U'' @ newline # ''seg.ts''))"
  have P: "?P = map Text (''#EXTM3U'' @ [newline]) @ [Ref [] ''seg.ts'' []]" by code_simp
  from hls_rewritten [OF demo_uuid_inj _ run] obtain ids where out: "out = fill ?P (map (gateway_path ''ps1'') ids)"
    and l: "length ids = length (refs ?P)" using list_all2_lengthD by fastforce
  then obtain i where i: "ids = [i]" unfolding P by (auto simp: length_Suc_conv)
  have "out = ''#EXTM3U'' @ newline # gateway_path ''ps1'' (hd ids)" unfolding out P i by simp
  with run i show ?thesis by (intro exI [of _ out] exI [of _ ms'] exI [of _ ids]) simp
qed

lemma keeps_started:
  assumes "capability_proof J"
  shows "keeps (\<lambda>s. J (redis s)) (start_playback cf pf rq p e dev i j)"
proof -
  have "keeps (\<lambda>s. J (redis s)) (create_play rq pf i j c issued)" for c issued
    by (rule keeps_same_redis) (simp add: create_play_def split: prod.split)
  then show ?thesis
    unfolding start_playback_def start_authorized_def rotate_session_def issue_capability_def cache_capability_def Let_def
    by (intro keeps_rules capability_keeps assms)
qed

lemma gateway_demo_start: "media_reach demo_env gateway_demo"
proof (rule media_reach.start)
  have "capability_proof (\<lambda>m. \<forall>k r e. m k \<noteq> Some (R_resource r, e))"
    by (auto simp: capability_proof_def redis_write_def redis_remove_def)
  moreover have "\<forall>k r e. redis play_demo k \<noteq> Some (R_resource r, e)"
    by (simp add: play_demo_def access_demo_def demo_state_def empty_state_def)
  ultimately have "\<forall>k r e. redis watching_demo k \<noteq> Some (R_resource r, e)"
    unfolding watching_demo_def by (rule keeps_apply [OF keeps_started])
  then show "resources_of gateway_demo = {}" by (simp add: resources_of_def gateway_demo_def)
qed (simp add: gateway_demo_def)

definition gateway_run :: media_system where
  "gateway_run = snd (manifest_route demo_env demo_request ''ps1'' (Some ''Bearer j1'') None None demo_dto None gateway_demo)"

theorem provider_requests_vetted_witness:
  "\<exists>f\<in>set (ms_fetched gateway_run). u_protocol (fr_url f) = ''https:'' \<and> to_lower (u_hostname (fr_url f)) = ''h''"
proof -
  have "media_reach demo_env gateway_run"
    unfolding gateway_run_def by (rule media_reach.manifest [OF gateway_demo_start])
  note vetted = provider_requests_vetted [OF this]
  have "map (\<lambda>f. u_hostname (fr_url f)) (ms_fetched gateway_run) = [''h'']" by code_simp
  then obtain f where "f \<in> set (ms_fetched gateway_run)" "u_hostname (fr_url f) = ''h''" by (auto simp: map_eq_Cons_conv)
  moreover have "to_lower ''h'' = ''h''" by code_simp
  ultimately show ?thesis using vetted by metis
qed

theorem resource_bound_witness:
  "\<exists>r. redis_read (redis (ms_db gateway_run)) 5000 (resource_key []) = Some (R_resource r) \<and> mr_sessionId r = ''ps1''"
proof -
  let ?m = "gateway_resource demo_env demo_request ''ps1'' [] ''j1'' demo_dto None"
  have "\<not> isl (fst (?m gateway_run))" by code_simp
  from prog_result [of ?m, OF this] obtain y ms' where "?m gateway_run = (Inr y, ms')" by blast
  from resource_bound [OF this] show ?thesis by (auto simp: demo_request_def)
qed

text \<open>
  The playlist of a variant is an address line of the master playlist, so it becomes a segment and is answered
  as the provider sent it, with its own addresses: in a reachable state the branch of \<open>resource\<close> that rewrites
  is never taken.
\<close>

lemma variant_not_rewritten:
  assumes "media_reach en ms" and "gateway_resource en rq sid rid tok dev rng ms = (Inr response, ms')"
  shows "gr_streaming response"
proof -
  from resource_Inr [OF assms(2)] obtain x :: playback_session and r u y and asset :: media_asset and ms1 where
    "redis_read (redis (ms_db ms)) (rq_now rq) (resource_key rid) = Some (R_resource r)"
    and rest: "(if mr_kind r = Kind_manifest
        then rewritten_manifest en rq (ma_mediaType asset) (rs_text y) (mr_upstreamUrl r) sid (ma_id asset) (ps_expiresAt x)
        else stream_response y) ms1 = (Inr response, ms')" by blast
  then have "r \<in> resources_of ms"
    unfolding resources_of_def redis_read_def by (auto split: option.splits if_splits) blast+
  with media_reach_inv [OF assms(1)] have "mr_kind r = Kind_segment" unfolding media_inv_resources by blast
  with rest show ?thesis by (auto simp: stream_response_def split: if_splits)
qed

end
