(* ===== verification/SqlDump.thy ===== *)
theory SqlDump
  imports Prelude
begin

text \<open>
  \<open>scripts/legacy-migration/import-sql.ts\<close>, lines 41 to 110: the parser of the MySQL dump that the legacy data
  comes in. The source walks over the text with an index; here the same walk is a recursion on the rest of the
  text. A quoted string is skipped by \<open>in_quotes\<close>, which the source repeats in its three scanners.

  A number keeps its literal (\<open>Number(literal)\<close> is its value).
\<close>

abbreviation quote :: char where "quote \<equiv> CHR 0x27"
abbreviation backslash :: char where "backslash \<equiv> CHR 0x5C"
abbreviation backtick :: char where "backtick \<equiv> CHR 0x60"

section \<open>Scanning\<close>

text \<open>The number of characters from behind an opening quote to behind its closing quote.\<close>

fun in_quotes :: "string \<Rightarrow> nat" where
  "in_quotes [] = 0"
| "in_quotes (c # s) =
     (if c = backslash then (case s of [] \<Rightarrow> 1 | _ # t \<Rightarrow> 2 + in_quotes t)
      else if c = quote then (case s of [] \<Rightarrow> 1 | d # t \<Rightarrow> if d = quote then 2 + in_quotes t else 1)
      else 1 + in_quotes s)"

lemma in_quotes_le: "in_quotes s \<le> length s"
  by (induction s rule: in_quotes.induct) (auto split: list.split)

function statement_end :: "string \<Rightarrow> nat" where
  "statement_end [] = 0"
| "statement_end (c # s) =
     (if c = quote then 1 + in_quotes s + statement_end (drop (in_quotes s) s)
      else if c = CHR '';'' then 0 else 1 + statement_end s)"
  by pat_completeness auto
termination by (relation "measure length") auto

function split_fields :: "string \<Rightarrow> string \<Rightarrow> string list" where
  "split_fields field [] = [trim field]"
| "split_fields field (c # s) =
     (if c = quote then split_fields (field @ c # take (in_quotes s) s) (drop (in_quotes s) s)
      else if c = CHR '','' then trim field # split_fields [] s
      else split_fields (field @ [c]) s)"
  by pat_completeness auto
termination by (relation "measure (\<lambda>(f, s). length s)") auto

text \<open>
  \<open>tuples\<close> with the depth of the parentheses and, once a tuple has been opened, its text so far. The depth may
  become negative.
\<close>

function tuples :: "int \<Rightarrow> string option \<Rightarrow> string \<Rightarrow> string list list" where
  "tuples depth start [] = []"
| "tuples depth start (c # s) =
     (if c = quote then tuples depth (map_option (\<lambda>t. t @ c # take (in_quotes s) s) start) (drop (in_quotes s) s)
      else if c = CHR ''('' then
        tuples (depth + 1) (if depth = 0 then Some [] else map_option (\<lambda>t. t @ [c]) start) s
      else if c = CHR '')'' then
        (case start of
           Some t \<Rightarrow> if depth - 1 = 0 then split_fields [] t # tuples (depth - 1) None s
             else tuples (depth - 1) (Some (t @ [c])) s
         | None \<Rightarrow> tuples (depth - 1) None s)
      else tuples depth (map_option (\<lambda>t. t @ [c]) start) s)"
  by pat_completeness auto
termination by (relation "measure (\<lambda>(d, t, s). length s)") auto

section \<open>Values\<close>

datatype sql_value = V_null | V_text string | V_number string

definition unescape_char :: "char \<Rightarrow> char" where
  "unescape_char c =
     (if c = CHR ''0'' then CHR 0x00 else if c = CHR ''n'' then CHR 0x0A else if c = CHR ''r'' then CHR 0x0D
      else if c = CHR ''t'' then CHR 0x09 else if c = CHR ''b'' then CHR 0x08 else if c = CHR ''Z'' then CHR 0x1A else c)"

text \<open>The text between the quotes; the last character of the value, the closing quote, counts as the next one.\<close>

fun unescape :: "string \<Rightarrow> string" where
  "unescape [] = []"
| "unescape (c # s) =
     (if c = backslash \<and> s \<noteq> [] then unescape_char (hd s) # unescape (tl s)
      else if c = quote \<and> s \<noteq> [] \<and> hd s = quote then quote # unescape (tl s)
      else c # unescape s)"

definition is_digit_char :: "char \<Rightarrow> bool" where
  "is_digit_char c = (let n = (of_char c :: nat) in 48 \<le> n \<and> n \<le> 57)"

definition unsigned_part :: "string \<Rightarrow> string" where
  "unsigned_part s = (if s \<noteq> [] \<and> hd s = CHR ''-'' then tl s else s)"

text \<open>\<open>/^-?\d+$/\<close> and \<open>/^-?\d+\.\d+$/\<close>.\<close>

definition integer_literal :: "string \<Rightarrow> bool" where
  "integer_literal s \<longleftrightarrow> unsigned_part s \<noteq> [] \<and> list_all is_digit_char (unsigned_part s)"

definition decimal_literal :: "string \<Rightarrow> bool" where
  "decimal_literal s \<longleftrightarrow> (let whole = takeWhile is_digit_char (unsigned_part s); rest = dropWhile is_digit_char (unsigned_part s) in
     whole \<noteq> [] \<and> rest \<noteq> [] \<and> hd rest = CHR ''.'' \<and> tl rest \<noteq> [] \<and> list_all is_digit_char (tl rest))"

text \<open>The empty string for a lone quote, which starts and ends the value at once.\<close>

definition parse_value :: "string \<Rightarrow> sql_value" where
  "parse_value v =
     (if to_lower v = ''null'' then V_null
      else if v \<noteq> [] \<and> hd v = quote \<and> last v = quote then V_text (unescape (butlast (tl v)))
      else if integer_literal v \<or> decimal_literal v then V_number v
      else V_text v)"

section \<open>The dump\<close>

type_synonym sql_row = "string \<Rightarrow> sql_value option"
type_synonym sql_tables = "(string \<times> sql_row list) list"

text \<open>
  A match of \<open>/INSERT INTO\s+`([^`]+)`\s*\(([^)]*)\)\s*VALUES\s*/gi\<close> at this position: the table, the text of the
  columns, and what follows. Every part of the expression stops at a character that the next part needs, so
  the match is unique.
\<close>

definition insert_header :: "string \<Rightarrow> (string \<times> string \<times> string) option" where
  "insert_header s =
     (let s1 = drop 11 s; s2 = dropWhile is_space s1;
          table = takeWhile (\<lambda>c. c \<noteq> backtick) (tl s2); s3 = dropWhile (\<lambda>c. c \<noteq> backtick) (tl s2);
          s4 = dropWhile is_space (tl s3);
          cols = takeWhile (\<lambda>c. c \<noteq> CHR '')'') (tl s4); s5 = dropWhile (\<lambda>c. c \<noteq> CHR '')'') (tl s4);
          s6 = dropWhile is_space (tl s5)
      in if starts_with (to_lower s) ''insert into'' \<and> s2 \<noteq> s1 \<and> s2 \<noteq> [] \<and> hd s2 = backtick
            \<and> table \<noteq> [] \<and> s3 \<noteq> [] \<and> s4 \<noteq> [] \<and> hd s4 = CHR ''('' \<and> s5 \<noteq> [] \<and> starts_with (to_lower s6) ''values''
         then Some (table, cols, dropWhile is_space (drop 6 s6)) else None)"

definition column_names :: "string \<Rightarrow> string list" where
  "column_names cols = map (\<lambda>c. filter (\<lambda>x. x \<noteq> backtick) (trim c)) (split_on (CHR '','') cols)"

text \<open>A tuple that is too short is filled with \<open>NULL\<close>.\<close>

definition row_of :: "string list \<Rightarrow> string list \<Rightarrow> sql_row" where
  "row_of columns tuple = fold (\<lambda>(i, c) r. r(c \<mapsto> parse_value (if i < length tuple then tuple ! i else ''NULL'')))
     (zip [0..<length columns] columns) Map.empty"

fun add_rows :: "sql_tables \<Rightarrow> string \<Rightarrow> sql_row list \<Rightarrow> sql_tables" where
  "add_rows [] t rows = [(t, rows)]"
| "add_rows ((u, old) # ts) t rows = (if u = t then (u, old @ rows) # ts else (u, old) # add_rows ts t rows)"

lemma header_shorter: "insert_header s = Some (t, cols, rest) \<Longrightarrow> length rest < length s"
proof -
  assume h: "insert_header s = Some (t, cols, rest)"
  have le: "length (dropWhile P x) \<le> length x" for P and x :: string by (rule length_dropWhile_le)
  from h obtain s2 s3 s4 s5 s6 where "s2 = dropWhile is_space (drop 11 s)" "s2 \<noteq> []"
    "s3 = dropWhile (\<lambda>c. c \<noteq> backtick) (tl s2)" "s4 = dropWhile is_space (tl s3)"
    "s5 = dropWhile (\<lambda>c. c \<noteq> CHR '')'') (tl s4)" "s6 = dropWhile is_space (tl s5)" "rest = dropWhile is_space (drop 6 s6)"
    by (auto simp: insert_header_def Let_def split: if_splits)
  then have "length rest \<le> length s6" "length s6 \<le> length s5" "length s5 \<le> length s4" "length s4 \<le> length s3"
    "length s3 \<le> length s2 - 1" "length s2 \<le> length s" "0 < length s2"
    using le by (metis diff_le_self le_trans length_drop length_tl length_greater_0_conv)+
  then show ?thesis by linarith
qed

function parse_from :: "sql_tables \<Rightarrow> string \<Rightarrow> sql_tables" where
  "parse_from tables [] = tables"
| "parse_from tables (c # s) = (case insert_header (c # s) of
     None \<Rightarrow> parse_from tables s
   | Some (table, cols, rest) \<Rightarrow>
       let n = statement_end rest in
       parse_from (add_rows tables table (map (row_of (column_names cols)) (tuples 0 None (take n rest)))) (drop (Suc n) rest))"
  by pat_completeness auto
termination
  by (relation "measure (\<lambda>(t, s). length s)") (auto dest: header_shorter)

definition parse_dump :: "string \<Rightarrow> sql_tables" where
  "parse_dump source = parse_from [] source"

section \<open>The writer\<close>

text \<open>What \<open>mysqldump\<close> writes for a table: one \<open>INSERT\<close> with its rows, text quoted and escaped.\<close>

definition escape_char :: "char \<Rightarrow> string" where
  "escape_char c =
     (if c = quote \<or> c = backslash \<or> c = CHR 0x22 then [backslash, c] else if c = CHR 0x00 then [backslash, CHR ''0'']
      else if c = CHR 0x0A then [backslash, CHR ''n''] else if c = CHR 0x0D then [backslash, CHR ''r'']
      else if c = CHR 0x1A then [backslash, CHR ''Z''] else [c])"

definition escape :: "string \<Rightarrow> string" where
  "escape v = concat (map escape_char v)"

fun render :: "sql_value \<Rightarrow> string" where
  "render V_null = ''NULL''"
| "render (V_text v) = quote # escape v @ [quote]"
| "render (V_number n) = n"

fun commas :: "string list \<Rightarrow> string" where
  "commas [] = []"
| "commas [x] = x"
| "commas (x # xs) = x @ CHR '','' # commas xs"

definition render_row :: "sql_value list \<Rightarrow> string" where
  "render_row vs = CHR ''('' # commas (map render vs) @ [CHR '')'']"

definition dump_table :: "string \<times> string list \<times> sql_value list list \<Rightarrow> string" where
  "dump_table = (\<lambda>(table, columns, rows). ''INSERT INTO '' @ backtick # table @ backtick # '' ('' @
     commas (map (\<lambda>c. backtick # c @ [backtick]) columns) @ '') VALUES '' @ commas (map render_row rows) @ CHR '';'' # [CHR 0x0A])"

definition value_ok :: "sql_value \<Rightarrow> bool" where
  "value_ok v \<longleftrightarrow> (case v of V_number n \<Rightarrow> integer_literal n \<or> decimal_literal n | _ \<Rightarrow> True)"

section \<open>Reading back what was written\<close>

lemma escape_simps [simp]: "escape [] = []" "escape (c # v) = escape_char c @ escape v"
  by (simp_all add: escape_def)

lemma unescape_escape [simp]: "unescape (escape v) = v"
proof (induction v)
  case (Cons c v)
  then show ?case by (auto simp: escape_char_def unescape_char_def)
qed simp

lemma in_quotes_escape:
  "rest = [] \<or> hd rest \<noteq> quote \<Longrightarrow> in_quotes (escape v @ quote # rest) = Suc (length (escape v))"
proof (induction v)
  case Nil
  then show ?case by (cases rest) auto
next
  case (Cons c v)
  then show ?case by (auto simp: escape_char_def)
qed

text \<open>Numbers and \<open>NULL\<close> hold none of the characters that the scanners react to.\<close>

definition ordinary :: "char \<Rightarrow> bool" where
  "ordinary c \<longleftrightarrow> c \<notin> {quote, CHR '','', CHR '';'', CHR ''('', CHR '')''} \<and> \<not> is_space c"

lemma ordinary_digit: "is_digit_char c \<Longrightarrow> ordinary c"
  by (auto simp: is_digit_char_def ordinary_def is_space_def Let_def)

lemma unsigned_chars: "list_all ordinary (unsigned_part n) \<Longrightarrow> list_all ordinary n"
  by (cases n) (auto simp: unsigned_part_def ordinary_def is_space_def split: if_splits)

lemma number_chars: "integer_literal n \<or> decimal_literal n \<Longrightarrow> list_all ordinary n \<and> n \<noteq> []"
proof (rule conjI, rule unsigned_chars)
  assume n: "integer_literal n \<or> decimal_literal n"
  have dot: "ordinary (CHR ''.'')" by (simp add: ordinary_def is_space_def)
  show "list_all ordinary (unsigned_part n)"
  proof (cases "integer_literal n")
    case True
    then show ?thesis by (auto simp: integer_literal_def list_all_iff ordinary_digit)
  next
    case False
    let ?w = "takeWhile is_digit_char (unsigned_part n)" and ?r = "dropWhile is_digit_char (unsigned_part n)"
    from n False have "list_all ordinary ?w" "?r \<noteq> []" "hd ?r = CHR ''.''" "list_all ordinary (tl ?r)"
      by (auto simp: decimal_literal_def Let_def list_all_iff ordinary_digit dest: set_takeWhileD)
    then have "list_all ordinary (?w @ ?r)" using dot by (cases ?r) auto
    then show ?thesis by (simp only: takeWhile_dropWhile_id)
  qed
next
  assume "integer_literal n \<or> decimal_literal n"
  then show "n \<noteq> []" by (auto simp: integer_literal_def decimal_literal_def unsigned_part_def)
qed

lemma render_cases:
  assumes "value_ok v"
  obtains (quoted) t where "render v = quote # escape t @ [quote]" | (plain) "list_all ordinary (render v)" "render v \<noteq> []"
  using assms number_chars
  by (cases v) (auto simp: value_ok_def ordinary_def is_space_def intro: that)

lemma statement_render:
  assumes v: "value_ok v" and s: "s = [] \<or> hd s \<noteq> quote"
  shows "statement_end (render v @ s) = length (render v) + statement_end s"
  using v
proof (cases rule: render_cases)
  case (quoted t)
  then show ?thesis using in_quotes_escape [OF s, of t] by simp
next
  case plain
  have "list_all ordinary p \<Longrightarrow> statement_end (p @ s) = length p + statement_end s" for p
    by (induction p) (auto simp: ordinary_def)
  with plain show ?thesis by blast
qed

lemma fields_render:
  assumes v: "value_ok v" and s: "s = [] \<or> hd s \<noteq> quote"
  shows "split_fields f (render v @ s) = split_fields (f @ render v) s"
  using v
proof (cases rule: render_cases)
  case (quoted t)
  then show ?thesis using in_quotes_escape [OF s, of t] by simp
next
  case plain
  have "list_all ordinary p \<Longrightarrow> split_fields f (p @ s) = split_fields (f @ p) s" for p
    by (induction p arbitrary: f) (auto simp: ordinary_def)
  with plain show ?thesis by blast
qed

lemma tuples_render:
  assumes v: "value_ok v" and s: "s = [] \<or> hd s \<noteq> quote"
  shows "tuples 1 (Some f) (render v @ s) = tuples 1 (Some (f @ render v)) s"
  using v
proof (cases rule: render_cases)
  case (quoted t)
  then show ?thesis using in_quotes_escape [OF s, of t] by simp
next
  case plain
  have "list_all ordinary p \<Longrightarrow> tuples 1 (Some f) (p @ s) = tuples 1 (Some (f @ p)) s" for p
    by (induction p arbitrary: f) (auto simp: ordinary_def)
  with plain show ?thesis by blast
qed

lemma trim_closed: "s \<noteq> [] \<Longrightarrow> \<not> is_space (hd s) \<Longrightarrow> \<not> is_space (last s) \<Longrightarrow> trim s = s"
proof -
  assume s: "s \<noteq> []" "\<not> is_space (hd s)" "\<not> is_space (last s)"
  have keep: "x \<noteq> [] \<Longrightarrow> \<not> is_space (hd x) \<Longrightarrow> trim_left x = x" for x by (cases x) (auto simp: trim_left_def)
  from s show ?thesis by (simp add: trim_def keep hd_rev)
qed

lemma trim_render: "value_ok v \<Longrightarrow> trim (render v) = render v"
proof -
  assume "value_ok v"
  then show ?thesis
  proof (cases rule: render_cases)
    case (quoted t)
    then show ?thesis by (intro trim_closed) (simp_all add: is_space_def)
  next
    case plain
    then have "ordinary (hd (render v))" "ordinary (last (render v))" by (auto simp: list_all_iff)
    with plain show ?thesis by (intro trim_closed) (simp_all add: ordinary_def)
  qed
qed

lemma parse_render:
  assumes "value_ok v" shows "parse_value (render v) = v"
proof (cases v)
  case V_null
  have "to_lower ''NULL'' = ''null''" by code_simp
  with V_null show ?thesis by (simp add: parse_value_def)
next
  case (V_text t)
  have "lower_char quote \<noteq> CHR ''n''" by code_simp
  with V_text show ?thesis by (simp add: parse_value_def to_lower_def butlast_append)
next
  case (V_number n)
  then have lit: "integer_literal n \<or> decimal_literal n" using assms by (simp add: value_ok_def)
  note chars = number_chars [OF lit]
  have "hd n = CHR ''-'' \<or> is_digit_char (hd n)"
    using lit by (cases n) (auto simp: integer_literal_def decimal_literal_def unsigned_part_def Let_def split: if_splits)
  then have "lower_char (hd n) \<noteq> CHR ''n''" by (auto simp: lower_char_def is_digit_char_def Let_def)
  then have "to_lower n \<noteq> ''null''" using chars by (cases n) (auto simp: to_lower_def)
  moreover have "hd n \<noteq> quote" using chars by (cases n) (auto simp: ordinary_def)
  ultimately show ?thesis using V_number lit by (simp add: parse_value_def)
qed

text \<open>Lists of values and of rows.\<close>

lemma fields_values:
  "\<forall>v\<in>set vs. value_ok v \<Longrightarrow> vs \<noteq> [] \<Longrightarrow> split_fields [] (commas (map render vs)) = map render vs"
proof (induction vs rule: induct_list012)
  case (2 v)
  then show ?case using fields_render [of v "[]" "[]"] by (simp add: trim_render)
next
  case (3 v w vs)
  then show ?case using fields_render [of v "CHR '','' # commas (map render (w # vs))" "[]"] by (simp add: trim_render)
qed simp

lemma tuples_values:
  assumes "\<forall>v\<in>set vs. value_ok v" and "s \<noteq> []" "hd s = CHR '')''"
  shows "tuples 1 (Some f) (commas (map render vs) @ s) = tuples 1 (Some (f @ commas (map render vs))) s"
  using assms(1)
proof (induction vs arbitrary: f rule: induct_list012)
  case (2 v)
  then show ?case using assms(2,3) tuples_render [of v s f] by simp
next
  case (3 v w vs)
  have "tuples 1 (Some f) (render v @ CHR '','' # commas (map render (w # vs)) @ s)
      = tuples 1 (Some (f @ render v)) (CHR '','' # commas (map render (w # vs)) @ s)"
    by (rule tuples_render) (use 3 in simp_all)
  also have "\<dots> = tuples 1 (Some (f @ render v @ [CHR '','']) ) (commas (map render (w # vs)) @ s)" by simp
  also have "\<dots> = tuples 1 (Some ((f @ render v @ [CHR '','']) @ commas (map render (w # vs)))) s"
    using 3 by (intro "3.IH"(2)) simp
  finally show ?case by simp
qed simp

lemma tuples_row:
  assumes "\<forall>v\<in>set vs. value_ok v" and "vs \<noteq> []"
  shows "tuples 0 None (render_row vs @ s) = map render vs # tuples 0 None s"
  using tuples_values [OF assms(1), of "CHR '')'' # s" "[]"] fields_values [OF assms] by (simp add: render_row_def)

lemma tuples_rows:
  "\<forall>r\<in>set rows. r \<noteq> [] \<and> (\<forall>v\<in>set r. value_ok v) \<Longrightarrow> tuples 0 None (commas (map render_row rows)) = map (map render) rows"
proof (induction rows rule: induct_list012)
  case (2 r)
  then show ?case using tuples_row [of r "[]"] by simp
next
  case (3 r q rows)
  then show ?case using tuples_row [of r "CHR '','' # commas (map render_row (q # rows))"] by simp
qed simp

lemma statement_values:
  assumes "\<forall>v\<in>set vs. value_ok v" and "s \<noteq> []" "hd s = CHR '')''"
  shows "statement_end (commas (map render vs) @ s) = length (commas (map render vs)) + statement_end s"
  using assms(1)
proof (induction vs rule: induct_list012)
  case (2 v)
  then show ?case using assms(2,3) statement_render [of v s] by simp
next
  case (3 v w vs)
  then show ?case using statement_render [of v "CHR '','' # commas (map render (w # vs)) @ s"] by simp
qed simp

lemma statement_row:
  "\<forall>v\<in>set vs. value_ok v \<Longrightarrow> statement_end (render_row vs @ s) = length (render_row vs) + statement_end s"
  using statement_values [of vs "CHR '')'' # s"] by (simp add: render_row_def)

lemma statement_rows:
  "\<forall>r\<in>set rows. \<forall>v\<in>set r. value_ok v \<Longrightarrow> statement_end (commas (map render_row rows) @ CHR '';'' # s) = length (commas (map render_row rows))"
proof (induction rows rule: induct_list012)
  case (2 r)
  then show ?case using statement_row [of r "CHR '';'' # s"] by simp
next
  case (3 r q rows)
  then show ?case using statement_row [of r "CHR '','' # commas (map render_row (q # rows)) @ CHR '';'' # s"] by simp
qed simp

text \<open>Names of tables and columns as \<open>mysqldump\<close> allows them here.\<close>

definition table_ok :: "string \<Rightarrow> bool" where
  "table_ok t \<longleftrightarrow> t \<noteq> [] \<and> backtick \<notin> set t"

definition column_ok :: "string \<Rightarrow> bool" where
  "column_ok c \<longleftrightarrow> set c \<inter> {backtick, CHR '','', CHR '')''} = {}"

lemma column_names_commas:
  assumes "\<forall>c\<in>set cs. column_ok c" and "cs \<noteq> []"
  shows "column_names (commas (map (\<lambda>c. backtick # c @ [backtick]) cs)) = cs"
proof -
  have t: "trim (backtick # c @ [backtick]) = backtick # c @ [backtick]" for c
    by (rule trim_closed) (simp_all add: is_space_def)
  have f: "filter (\<lambda>x. x \<noteq> backtick) (trim (backtick # c @ [backtick])) = c" if "column_ok c" for c
    using that unfolding t by (auto simp: column_ok_def filter_id_conv)
  have "split_on (CHR '','') (commas (map (\<lambda>c. backtick # c @ [backtick]) cs)) = map (\<lambda>c. backtick # c @ [backtick]) cs"
    using assms
  proof (induction cs rule: induct_list012)
    case (2 c)
    then show ?case by (simp add: column_ok_def split_on_none)
  next
    case (3 c d cs)
    then have "CHR '','' \<notin> set (backtick # c @ [backtick])" by (auto simp: column_ok_def)
    from split_on_first [OF this] 3 show ?case by simp
  qed simp
  then show ?thesis using assms(1) f by (auto simp: column_names_def intro!: map_idI)
qed

lemma commas_no_close: "\<forall>c\<in>set cs. column_ok c \<Longrightarrow> CHR '')'' \<notin> set (commas (map (\<lambda>c. backtick # c @ [backtick]) cs))"
  by (induction cs rule: induct_list012) (auto simp: column_ok_def)

lemma upto_char: "c \<notin> set p \<Longrightarrow> takeWhile (\<lambda>x. x \<noteq> c) (p @ c # s) = p \<and> dropWhile (\<lambda>x. x \<noteq> c) (p @ c # s) = c # s"
  by (induction p) auto

lemma to_lower_append: "to_lower (a @ b) = to_lower a @ to_lower b"
  by (simp add: to_lower_def)

lemma insert_headerI:
  assumes "starts_with (to_lower s) ''insert into''" and "drop 11 s = CHR '' '' # backtick # t @ backtick # n2"
    and "t \<noteq> []" "backtick \<notin> set t" and "n2 = CHR '' '' # CHR ''('' # cols @ CHR '')'' # n4" and "CHR '')'' \<notin> set cols"
    and "n4 = CHR '' '' # s6" "\<not> is_space (hd s6)" "s6 \<noteq> []" "starts_with (to_lower s6) ''values''" "dropWhile is_space (drop 6 s6) = rest"
  shows "insert_header s = Some (t, cols, rest)"
proof -
  have sp: "is_space (CHR '' '')" "\<not> is_space backtick" "\<not> is_space (CHR ''('')" by (simp_all add: is_space_def)
  have s6: "dropWhile is_space s6 = s6" using assms(8,9) by (cases s6) simp_all
  show ?thesis
    unfolding insert_header_def Let_def assms(2,5,7)
    using assms(1,3,10,11) sp s6 upto_char [OF assms(4)] upto_char [OF assms(6)] by simp
qed

lemma header_read:
  assumes t: "table_ok t" and cols: "CHR '')'' \<notin> set cols" and rest: "rest \<noteq> []" "\<not> is_space (hd rest)"
  shows "insert_header (''INSERT INTO '' @ backtick # t @ backtick # '' ('' @ cols @ '') VALUES '' @ rest) = Some (t, cols, rest)"
proof (rule insert_headerI)
  have low: "to_lower ''INSERT INTO'' = ''insert into''" "to_lower ''VALUES'' = ''values''" by code_simp+
  have s: "''INSERT INTO '' @ x = ''INSERT INTO'' @ CHR '' '' # x" for x by simp
  show "starts_with (to_lower (''INSERT INTO '' @ backtick # t @ backtick # '' ('' @ cols @ '') VALUES '' @ rest)) ''insert into''"
    unfolding s to_lower_append low by (rule starts_with_append)
  have v: "''VALUES '' @ rest = ''VALUES'' @ CHR '' '' # rest" by simp
  show "starts_with (to_lower (''VALUES '' @ rest)) ''values''"
    unfolding v to_lower_append low by (rule starts_with_append)
  show "dropWhile is_space (drop 6 (''VALUES '' @ rest)) = rest" using rest by (cases rest) (simp_all add: is_space_def)
qed (use t cols in \<open>simp_all add: table_ok_def is_space_def\<close>)

text \<open>The columns of a row.\<close>

lemma fold_update: "fold (\<lambda>(i, c) r. r(c \<mapsto> g i)) xs m = m ++ map_of (rev (map (\<lambda>(i, c). (c, g i)) xs))"
  by (induction xs arbitrary: m) (auto simp: fun_eq_iff map_add_def split: option.split)

lemma row_read:
  assumes "length vs = length cs" and "distinct cs" and "\<forall>v\<in>set vs. value_ok v"
  shows "row_of cs (map render vs) = map_of (zip cs vs)"
proof -
  let ?g = "\<lambda>i. parse_value (if i < length (map render vs) then map render vs ! i else ''NULL'')"
  have g: "?g i = vs ! i" if "i < length cs" for i using that assms by (simp add: parse_render)
  have z: "map (\<lambda>(i, c). (c, ?g i)) (zip [0..<length cs] cs) = zip cs vs"
    by (rule nth_equalityI) (use assms(1) g in auto)
  have "row_of cs (map render vs) = map_of (rev (zip cs vs))"
    unfolding row_of_def fold_update z by simp
  also have "\<dots> = map_of (zip cs vs)"
  proof (rule map_of_eqI)
    show "\<forall>k\<in>set (map fst (rev (zip cs vs))). map_of (rev (zip cs vs)) k = map_of (zip cs vs) k"
    proof
      fix k assume "k \<in> set (map fst (rev (zip cs vs)))"
      then obtain v where v: "(k, v) \<in> set (zip cs vs)" by auto
      have "distinct (map fst (zip cs vs))" "distinct (map fst (rev (zip cs vs)))"
        using assms(1,2) by (simp_all add: rev_map [symmetric])
      with v show "map_of (rev (zip cs vs)) k = map_of (zip cs vs) k" by (metis map_of_is_SomeI set_rev)
    qed
  qed simp
  finally show ?thesis .
qed

lemma add_rows_new: "t \<notin> fst ` set ts \<Longrightarrow> add_rows ts t rows = ts @ [(t, rows)]"
  by (induction ts t rows rule: add_rows.induct) auto

text \<open>A table of the dump: its rows have a value per column.\<close>

definition dump_ok :: "string \<times> string list \<times> sql_value list list \<Rightarrow> bool" where
  "dump_ok = (\<lambda>(t, cs, rows). table_ok t \<and> cs \<noteq> [] \<and> distinct cs \<and> (\<forall>c\<in>set cs. column_ok c)
     \<and> (\<forall>r\<in>set rows. length r = length cs \<and> (\<forall>v\<in>set r. value_ok v)))"

definition table_rows :: "string \<times> string list \<times> sql_value list list \<Rightarrow> string \<times> sql_row list" where
  "table_rows = (\<lambda>(t, cs, rows). (t, map (\<lambda>r. map_of (zip cs r)) rows))"

lemma parse_newline: "parse_from tables (CHR 0x0A # s) = parse_from tables s"
proof -
  have "\<not> starts_with (to_lower (CHR 0x0A # s)) ''insert into''" by (simp add: to_lower_def lower_char_def)
  then show ?thesis by (simp add: insert_header_def Let_def)
qed

lemma parse_table:
  assumes "dump_ok (t, cs, rows)" and "t \<notin> fst ` set tables"
  shows "parse_from tables (dump_table (t, cs, rows) @ s) = parse_from (tables @ [table_rows (t, cs, rows)]) s"
proof -
  have ok: "table_ok t" "cs \<noteq> []" "distinct cs" "\<forall>c\<in>set cs. column_ok c"
    "\<forall>r\<in>set rows. length r = length cs \<and> (\<forall>v\<in>set r. value_ok v)" using assms(1) by (auto simp: dump_ok_def)
  let ?cols = "commas (map (\<lambda>c. backtick # c @ [backtick]) cs)" and ?body = "commas (map render_row rows)"
  let ?rest = "?body @ CHR '';'' # CHR 0x0A # s"
  have start: "?rest \<noteq> []" "\<not> is_space (hd ?rest)"
    by (induction rows rule: induct_list012) (simp_all add: render_row_def is_space_def)
  have eq: "dump_table (t, cs, rows) @ s = ''INSERT INTO '' @ backtick # t @ backtick # '' ('' @ ?cols @ '') VALUES '' @ ?rest"
    by (simp add: dump_table_def)
  have head: "insert_header (dump_table (t, cs, rows) @ s) = Some (t, ?cols, ?rest)"
    unfolding eq by (rule header_read [OF ok(1) commas_no_close [OF ok(4)] start])
  have rows: "\<forall>r\<in>set rows. r \<noteq> [] \<and> (\<forall>v\<in>set r. value_ok v)" using ok by auto
  have n: "statement_end ?rest = length ?body" by (rule statement_rows) (use rows in simp)
  have "map (row_of (column_names ?cols)) (tuples 0 None (take (length ?body) ?rest)) = map (\<lambda>r. map_of (zip cs r)) rows"
    using tuples_rows [OF rows] column_names_commas [OF ok(4,2)] ok(3,5) by (simp add: row_read)
  then have "parse_from tables (dump_table (t, cs, rows) @ s)
      = parse_from (add_rows tables t (map (\<lambda>r. map_of (zip cs r)) rows)) (drop (Suc (length ?body)) ?rest)"
    using head n by (cases "dump_table (t, cs, rows) @ s") (simp_all add: insert_header_def Let_def)
  then show ?thesis using assms(2) by (simp add: add_rows_new parse_newline table_rows_def del: parse_from.simps)
qed

lemma dump_read:
  assumes "\<forall>t\<in>set ts. dump_ok t" and "distinct (map fst ts)"
  shows "parse_dump (concat (map dump_table ts)) = map table_rows ts"
proof -
  have "parse_from tables (concat (map dump_table us)) = tables @ map table_rows us"
    if "\<forall>t\<in>set us. dump_ok t" "distinct (map fst us)" "fst ` set tables \<inter> fst ` set us = {}" for us tables
    using that
  proof (induction us arbitrary: tables)
    case (Cons u us)
    obtain t cs rows where u: "u = (t, cs, rows)" by (cases u)
    have "t \<notin> fst ` set tables" using Cons.prems u by auto
    from parse_table [OF _ this, of cs rows] Cons.prems u
    have "parse_from tables (concat (map dump_table (u # us))) = parse_from (tables @ [table_rows u]) (concat (map dump_table us))" by simp
    also have "\<dots> = (tables @ [table_rows u]) @ map table_rows us"
      using Cons.prems u by (intro Cons.IH) (auto simp: table_rows_def)
    finally show ?case by simp
  qed simp
  from this [OF assms, of "[]"] show ?thesis by (simp add: parse_dump_def)
qed



end
