(* ===== verification/SqlLoops.thy ===== *)
theory SqlLoops
  imports SqlDump
begin

text \<open>
  The three scanners of \<open>scripts/legacy-migration/import-sql.ts\<close> as the source writes them: loops over an
  index with a flag for being inside quotes. \<open>SqlDump\<close> states what they compute by recursion on the text that
  is left; here the loops are shown to end, with that result.

  A loop is a \<open>partial_function\<close>, whose value is \<open>None\<close> where it does not end. An index may pass the end of
  the text by one, after a backslash at the end; a slice ends at the end of the text.
\<close>

section \<open>The loops\<close>

text \<open>
  The part that the loops share: where the next round starts inside quotes, and whether it is still inside.
\<close>

definition quoted_step :: "string \<Rightarrow> nat \<Rightarrow> nat \<times> bool" where
  "quoted_step value index =
     (if value ! index = backslash then (index + 2, True)
      else if value ! index = quote then
        (if index + 1 < length value \<and> value ! (index + 1) = quote then (index + 2, True) else (index + 1, False))
      else (index + 1, True))"

partial_function (option) statement_end_loop :: "string \<Rightarrow> nat \<Rightarrow> bool \<Rightarrow> nat option" where
  "statement_end_loop source index quoted =
     (if index < length source then
        if quoted then statement_end_loop source (fst (quoted_step source index)) (snd (quoted_step source index))
        else if source ! index = quote then statement_end_loop source (index + 1) True
        else if source ! index = CHR '';'' then Some index
        else statement_end_loop source (index + 1) False
      else Some (length source))"

definition slice :: "string \<Rightarrow> nat \<Rightarrow> nat \<Rightarrow> string" where
  "slice value start end = take (end - start) (drop start value)"

partial_function (option) split_fields_loop ::
    "string \<Rightarrow> nat \<Rightarrow> nat \<Rightarrow> bool \<Rightarrow> string list \<Rightarrow> string list option" where
  "split_fields_loop value index start quoted found =
     (if index < length value then
        if quoted then split_fields_loop value (fst (quoted_step value index)) start (snd (quoted_step value index)) found
        else if value ! index = quote then split_fields_loop value (index + 1) start True found
        else if value ! index = CHR '','' then
          split_fields_loop value (index + 1) (index + 1) False (found @ [trim (slice value start index)])
        else split_fields_loop value (index + 1) start False found
      else Some (found @ [trim (drop start value)]))"

text \<open>\<open>tupleStart\<close> is \<open>-1\<close> when no tuple is open.\<close>

partial_function (option) tuples_loop ::
    "string \<Rightarrow> nat \<Rightarrow> int \<Rightarrow> int \<Rightarrow> bool \<Rightarrow> string list list \<Rightarrow> string list list option" where
  "tuples_loop value index tupleStart depth quoted result =
     (if index < length value then
        if quoted then
          tuples_loop value (fst (quoted_step value index)) tupleStart depth (snd (quoted_step value index)) result
        else if value ! index = quote then tuples_loop value (index + 1) tupleStart depth True result
        else if value ! index = CHR ''('' then
          tuples_loop value (index + 1) (if depth = 0 then int index + 1 else tupleStart) (depth + 1) False result
        else if value ! index = CHR '')'' then
          if depth - 1 = 0 \<and> 0 \<le> tupleStart then
            Option.bind (split_fields_loop (slice value (nat tupleStart) index) 0 0 False [])
              (\<lambda>found. tuples_loop value (index + 1) (-1) (depth - 1) False (result @ [found]))
          else tuples_loop value (index + 1) tupleStart (depth - 1) False result
        else tuples_loop value (index + 1) tupleStart depth False result
      else Some result)"

section \<open>They end, with the recursive result\<close>

lemma drop_at: "i < length s \<Longrightarrow> drop i s = s ! i # drop (Suc i) s"
  by (rule Cons_nth_drop_Suc [symmetric])

text \<open>A loop that treats quotes by \<open>quoted_step\<close> leaves them where \<open>in_quotes\<close> says.\<close>

lemma skip_quotes:
  assumes step: "\<And>i. i < length s \<Longrightarrow> loop i True = loop (fst (quoted_step s i)) (snd (quoted_step s i))"
    and stop: "\<And>i q. length s \<le> i \<Longrightarrow> loop i q = r"
  shows "i \<le> length s \<Longrightarrow> loop i True = loop (i + in_quotes (drop i s)) False"
proof (induction "length s - i" arbitrary: i rule: less_induct)
  case less
  show ?case
  proof (cases "i < length s")
    case False
    then show ?thesis using stop [of i True] stop [of i False] less.prems by simp
  next
    case True
    note st = step [OF True]
    consider (bs) "s ! i = backslash" | (dq) "s ! i = quote" "Suc i < length s" "s ! Suc i = quote"
      | (q) "s ! i = quote" "\<not> (Suc i < length s \<and> s ! Suc i = quote)" | (other) "s ! i \<noteq> backslash" "s ! i \<noteq> quote"
      by auto
    then show ?thesis
    proof cases
      case bs
      show ?thesis
      proof (cases "Suc i < length s")
        case True
        then have "drop i s = backslash # s ! Suc i # drop (i + 2) s"
          using \<open>i < length s\<close> bs by (simp add: drop_at)
        moreover have "loop (i + 2) True = loop (i + 2 + in_quotes (drop (i + 2) s)) False"
          using True by (intro less.hyps) auto
        ultimately show ?thesis using st bs by (simp add: quoted_step_def algebra_simps)
      next
        case False
        then have "drop i s = [backslash]" using \<open>i < length s\<close> bs by (simp add: drop_at)
        moreover have "loop (i + 2) True = r" "loop (Suc i) False = r" using False by (auto intro: stop)
        ultimately show ?thesis using st bs by (simp add: quoted_step_def)
      qed
    next
      case dq
      then have "drop i s = quote # quote # drop (i + 2) s" by (simp add: drop_at)
      moreover have "loop (i + 2) True = loop (i + 2 + in_quotes (drop (i + 2) s)) False"
        using dq by (intro less.hyps) auto
      ultimately show ?thesis using st dq by (simp add: quoted_step_def algebra_simps)
    next
      case q
      have "in_quotes (drop i s) = 1"
        using q True by (cases "Suc i < length s") (simp_all add: drop_at)
      then show ?thesis using st q by (auto simp: quoted_step_def)
    next
      case other
      have "loop (Suc i) True = loop (Suc i + in_quotes (drop (Suc i) s)) False"
        using True by (intro less.hyps) auto
      then show ?thesis using st other True by (simp add: quoted_step_def drop_at)
    qed
  qed
qed

text \<open>The position behind the quotes that open at \<open>i\<close>.\<close>

lemma after_quotes:
  assumes "i < length s"
  shows "Suc i + in_quotes (drop (Suc i) s) \<le> length s"
    and "drop (Suc i + in_quotes (drop (Suc i) s)) s = drop (in_quotes (drop (Suc i) s)) (drop (Suc i) s)"
  using in_quotes_le [of "drop (Suc i) s"] assms by (simp_all add: add.commute)

lemma statement_end_past: "length s \<le> i \<Longrightarrow> statement_end_loop s i q = Some (length s)"
  by (subst statement_end_loop.simps) simp

lemma statement_end_quotes:
  assumes "i < length s"
  shows "statement_end_loop s (Suc i) True = statement_end_loop s (Suc i + in_quotes (drop (Suc i) s)) False"
proof (rule skip_quotes [OF _ statement_end_past])
  fix j assume "j < length s"
  then show "statement_end_loop s j True = statement_end_loop s (fst (quoted_step s j)) (snd (quoted_step s j))"
    by (subst statement_end_loop.simps) simp
qed (use assms in auto)

lemma statement_end_step:
  "i < length s \<Longrightarrow> statement_end_loop s i False =
     (if s ! i = quote then statement_end_loop s (Suc i) True
      else if s ! i = CHR '';'' then Some i else statement_end_loop s (Suc i) False)"
  by (subst statement_end_loop.simps) simp

lemma statement_end_ends:
  "i \<le> length s \<Longrightarrow> statement_end_loop s i False = Some (i + statement_end (drop i s))"
proof (induction "length s - i" arbitrary: i rule: less_induct)
  case less
  let ?n = "in_quotes (drop (Suc i) s)"
  show ?case
  proof (cases "i < length s")
    case True
    have "statement_end_loop s (Suc i + ?n) False = Some (Suc i + ?n + statement_end (drop (Suc i + ?n) s))"
      using after_quotes [OF True] True by (intro less.hyps) auto
    moreover have "statement_end_loop s (Suc i) False = Some (Suc i + statement_end (drop (Suc i) s))"
      using True by (intro less.hyps) auto
    ultimately show ?thesis
      using statement_end_quotes [OF True] after_quotes(2) [OF True]
      by (simp add: statement_end_step [OF True] drop_at [OF True])
  next
    case False
    then show ?thesis using less.prems by (simp add: statement_end_past)
  qed
qed

lemma split_fields_past:
  "length s \<le> i \<Longrightarrow> split_fields_loop s i k q found = Some (found @ [trim (drop k s)])"
  by (subst split_fields_loop.simps) simp

lemma split_fields_quotes:
  assumes "i < length s"
  shows "split_fields_loop s (Suc i) k True found = split_fields_loop s (Suc i + in_quotes (drop (Suc i) s)) k False found"
proof (rule skip_quotes [where loop = "\<lambda>i q. split_fields_loop s i k q found", OF _ split_fields_past])
  fix j assume "j < length s"
  then show "split_fields_loop s j k True found = split_fields_loop s (fst (quoted_step s j)) k (snd (quoted_step s j)) found"
    by (subst split_fields_loop.simps) simp
qed (use assms in auto)

lemma split_fields_step:
  "i < length s \<Longrightarrow> split_fields_loop s i k False found =
     (if s ! i = quote then split_fields_loop s (Suc i) k True found
      else if s ! i = CHR '','' then split_fields_loop s (Suc i) (Suc i) False (found @ [trim (slice s k i)])
      else split_fields_loop s (Suc i) k False found)"
  by (subst split_fields_loop.simps) simp

text \<open>A slice that is extended by the characters that follow it.\<close>

lemma slice_extend: "k \<le> i \<Longrightarrow> slice s k (i + n) = slice s k i @ take n (drop i s)"
proof -
  assume "k \<le> i"
  then obtain m where "i = m + k" by (metis le_add_diff_inverse2)
  then show ?thesis by (simp add: slice_def take_add add.commute [of n] diff_add_assoc2)
qed

lemma slice_Suc: "k \<le> i \<Longrightarrow> i < length s \<Longrightarrow> slice s k (Suc i) = slice s k i @ [s ! i]"
  using slice_extend [of k i s 1] by (simp add: drop_at)

lemma slice_quotes:
  "k \<le> i \<Longrightarrow> i < length s \<Longrightarrow>
     slice s k (Suc i + n) = slice s k i @ s ! i # take n (drop (Suc i) s)"
  using slice_extend [of k i s "Suc n"] by (simp add: drop_at)

lemma slice_self [simp]: "slice s k k = []"
  by (simp add: slice_def)

lemma slice_all: "k \<le> length s \<Longrightarrow> slice s k (length s) = drop k s"
  by (simp add: slice_def)

lemma split_fields_ends:
  "i \<le> length s \<Longrightarrow> k \<le> i \<Longrightarrow>
     split_fields_loop s i k False found = Some (found @ split_fields (slice s k i) (drop i s))"
proof (induction "length s - i" arbitrary: i k found rule: less_induct)
  case less
  let ?n = "in_quotes (drop (Suc i) s)"
  show ?case
  proof (cases "i < length s")
    case True
    have "split_fields_loop s (Suc i + ?n) k False found
        = Some (found @ split_fields (slice s k (Suc i + ?n)) (drop (Suc i + ?n) s))"
      using after_quotes [OF True] True less.prems by (intro less.hyps) auto
    moreover have "split_fields_loop s (Suc i) k False found
        = Some (found @ split_fields (slice s k (Suc i)) (drop (Suc i) s))"
      using True less.prems by (intro less.hyps) auto
    moreover have "split_fields_loop s (Suc i) (Suc i) False (found @ [trim (slice s k i)])
        = Some ((found @ [trim (slice s k i)]) @ split_fields (slice s (Suc i) (Suc i)) (drop (Suc i) s))"
      using True by (intro less.hyps) auto
    ultimately show ?thesis
      using split_fields_quotes [OF True] after_quotes(2) [OF True] less.prems
      by (simp add: split_fields_step [OF True] drop_at [OF True] slice_quotes [OF _ True] slice_Suc [OF _ True]
          del: add_Suc)
  next
    case False
    then show ?thesis using less.prems by (simp add: split_fields_past slice_all)
  qed
qed

lemma tuples_past: "length s \<le> i \<Longrightarrow> tuples_loop s i t d q result = Some result"
  by (subst tuples_loop.simps) simp

lemma tuples_quotes:
  assumes "i < length s"
  shows "tuples_loop s (Suc i) t d True result = tuples_loop s (Suc i + in_quotes (drop (Suc i) s)) t d False result"
proof (rule skip_quotes [where loop = "\<lambda>i q. tuples_loop s i t d q result", OF _ tuples_past])
  fix j assume "j < length s"
  then show "tuples_loop s j t d True result = tuples_loop s (fst (quoted_step s j)) t d (snd (quoted_step s j)) result"
    by (subst tuples_loop.simps) simp
qed (use assms in auto)

lemma tuples_step:
  "i < length s \<Longrightarrow> tuples_loop s i t d False result =
     (if s ! i = quote then tuples_loop s (Suc i) t d True result
      else if s ! i = CHR ''('' then tuples_loop s (Suc i) (if d = 0 then int i + 1 else t) (d + 1) False result
      else if s ! i = CHR '')'' then
        if d - 1 = 0 \<and> 0 \<le> t then
          tuples_loop s (Suc i) (-1) (d - 1) False (result @ [split_fields [] (slice s (nat t) i)])
        else tuples_loop s (Suc i) t (d - 1) False result
      else tuples_loop s (Suc i) t d False result)"
  by (subst tuples_loop.simps) (simp add: split_fields_ends)

text \<open>The start of the open tuple and its text so far.\<close>

definition tuple_text :: "string \<Rightarrow> nat \<Rightarrow> int \<Rightarrow> string option" where
  "tuple_text s i t = (if t < 0 then None else Some (slice s (nat t) i))"

lemma tuples_ends:
  "i \<le> length s \<Longrightarrow> t \<le> int i \<Longrightarrow>
     tuples_loop s i t d False result = Some (result @ tuples d (tuple_text s i t) (drop i s))"
proof (induction "length s - i" arbitrary: i t d result rule: less_induct)
  case less
  let ?n = "in_quotes (drop (Suc i) s)"
  show ?case
  proof (cases "i < length s")
    case True
    have le: "nat t \<le> i" using less.prems by simp
    have "tuples_loop s (Suc i + ?n) t d False result
        = Some (result @ tuples d (tuple_text s (Suc i + ?n) t) (drop (Suc i + ?n) s))"
      using after_quotes [OF True] True less.prems by (intro less.hyps) auto
    moreover have "tuple_text s (Suc i + ?n) t = map_option (\<lambda>x. x @ s ! i # take ?n (drop (Suc i) s)) (tuple_text s i t)"
      by (simp add: tuple_text_def slice_quotes [OF le True] del: add_Suc)
    moreover have next1: "tuple_text s (Suc i) t = map_option (\<lambda>x. x @ [s ! i]) (tuple_text s i t)"
      by (simp add: tuple_text_def slice_Suc [OF le True])
    moreover have IH: "tuples_loop s (Suc i) u e False r = Some (r @ tuples e (tuple_text s (Suc i) u) (drop (Suc i) s))"
      if "u \<le> int i + 1" for u e r
      using True that by (intro less.hyps) auto
    moreover have "tuple_text s (Suc i) (int i + 1) = Some []" "tuple_text s (Suc i) (-1) = None"
      by (simp_all add: tuple_text_def nat_add_distrib)
    moreover have "tuple_text s i t = None \<longleftrightarrow> t < 0" "0 \<le> t \<Longrightarrow> tuple_text s i t = Some (slice s (nat t) i)"
      by (simp_all add: tuple_text_def)
    ultimately show ?thesis
      using tuples_quotes [OF True] after_quotes(2) [OF True] less.prems
      by (auto simp: tuples_step [OF True] drop_at [OF True] simp del: add_Suc split: option.split)
  next
    case False
    then show ?thesis using less.prems by (simp add: tuples_past)
  qed
qed

text \<open>
  C18. The three scanners of the import end on every text, also on one with an unclosed quote or a backslash at
  its end, and their results are those of the recursive definitions that the round trip is stated for.
\<close>

theorem scanners_end:
  "statement_end_loop dump 0 False = Some (statement_end dump)
    \<and> split_fields_loop body 0 0 False [] = Some (split_fields [] body)
    \<and> tuples_loop body 0 (-1) 0 False [] = Some (tuples 0 None body)"
  using statement_end_ends [of 0 dump] split_fields_ends [of 0 body 0 "[]"] tuples_ends [of 0 body "-1" 0 "[]"]
  by (simp_all add: tuple_text_def)

end
