(* ===== verification/Calendar.thy ===== *)
theory Calendar
  imports Prelude
begin

text \<open>
  What \<open>legacy/legacy.service.ts\<close> uses of the JavaScript \<open>Date\<close>: \<open>setUTCMonth(getUTCMonth() + n)\<close>, with the
  year, month and day of an instant as ECMAScript computes them, and the truncation of a \<open>@db.Date\<close> column. A day
  that the new month does not have runs over into the month after it, as in the source.
\<close>

section \<open>Year, month, day\<close>

definition day_from_year :: "int \<Rightarrow> int" where
  "day_from_year y = 365 * (y - 1970) + (y - 1969) div 4 - (y - 1901) div 100 + (y - 1601) div 400"

definition leap_year :: "int \<Rightarrow> bool" where
  "leap_year y \<longleftrightarrow> y mod 4 = 0 \<and> (y mod 100 \<noteq> 0 \<or> y mod 400 = 0)"

text \<open>The day of the year on which a month (from 0) starts.\<close>

definition month_start :: "bool \<Rightarrow> nat \<Rightarrow> int" where
  "month_start leap m = [0, 31, 59, 90, 120, 151, 181, 212, 243, 273, 304, 334] ! m + (if leap \<and> 2 \<le> m then 1 else 0)"

text \<open>The day on which a month starts; months are counted through the years, \<open>12 * year + month\<close>.\<close>

definition first_day :: "int \<Rightarrow> int" where
  "first_day k = day_from_year (k div 12) + month_start (leap_year (k div 12)) (nat (k mod 12))"

lemma div_step:
  fixes a n :: int
  assumes "0 < n"
  shows "(a + 1) div n = a div n + (if n dvd a + 1 then 1 else 0)"
proof -
  let ?q = "a div n" and ?r = "a mod n"
  have a: "a = n * ?q + ?r" and r: "0 \<le> ?r" "?r < n" using assms by simp_all
  show ?thesis
  proof (cases "?r + 1 = n")
    case True
    then have "a + 1 = n * ?q + n" using a by linarith
    then have "a + 1 = n * (?q + 1)" by (simp add: algebra_simps)
    then show ?thesis using assms by (metis dvd_triv_left nonzero_mult_div_cancel_left order_less_irrefl)
  next
    case False
    have e: "a + 1 = n * ?q + (?r + 1)" using a by linarith
    have "0 \<le> ?r + 1" "?r + 1 < n" using False r by linarith+
    from int_div_pos_eq [OF e this] int_mod_pos_eq [OF e this]
    have "(a + 1) div n = ?q" "(a + 1) mod n = ?r + 1" .
    moreover have "\<not> n dvd a + 1" using calculation(2) r(1) by (simp add: dvd_eq_mod_eq_0)
    ultimately show ?thesis by simp
  qed
qed

lemma year_length: "day_from_year (y + 1) = day_from_year y + (if leap_year y then 366 else 365)"
proof -
  have d4: "(y + 1 - 1969) div 4 = (y - 1969) div 4 + (if 4 dvd y then 1 else 0)"
    using div_step [of 4 "y - 1969"] dvd_diff_left_iff [of 4 1968 y] by simp
  have d100: "(y + 1 - 1901) div 100 = (y - 1901) div 100 + (if 100 dvd y then 1 else 0)"
    using div_step [of 100 "y - 1901"] dvd_diff_left_iff [of 100 1900 y] by simp
  have d400: "(y + 1 - 1601) div 400 = (y - 1601) div 400 + (if 400 dvd y then 1 else 0)"
    using div_step [of 400 "y - 1601"] dvd_diff_left_iff [of 400 1600 y] by simp
  have leap: "leap_year y \<longleftrightarrow> 4 dvd y \<and> (\<not> 100 dvd y \<or> 400 dvd y)"
    by (simp add: leap_year_def mod_eq_0_iff_dvd)
  have "day_from_year (y + 1) = day_from_year y + 365 + (if 4 dvd y then 1 else 0) - (if 100 dvd y then 1 else 0)
      + (if 400 dvd y then 1 else 0)"
    unfolding day_from_year_def d4 d100 d400 by (simp only: right_diff_distrib distrib_left)
  moreover have "400 dvd y \<Longrightarrow> 100 dvd y" "100 dvd y \<Longrightarrow> 4 dvd y" by (erule dvd_trans [rotated], simp)+
  ultimately show ?thesis unfolding leap by (cases "400 dvd y"; cases "100 dvd y"; cases "4 dvd y") simp_all
qed

lemma next_year:
  assumes "k mod 12 = (11 :: int)"
  shows "(k + 1) div 12 = k div 12 + 1" "(k + 1) mod 12 = 0"
proof -
  have e: "k + 1 = 12 * (k div 12 + 1) + 0" using assms div_mult_mod_eq [of k 12] by simp
  show "(k + 1) div 12 = k div 12 + 1" "(k + 1) mod 12 = 0"
    by (rule int_div_pos_eq [OF e] int_mod_pos_eq [OF e], simp, simp)+
qed

lemma same_year:
  assumes "k mod 12 \<noteq> (11 :: int)"
  shows "(k + 1) div 12 = k div 12" "(k + 1) mod 12 = k mod 12 + 1"
proof -
  have e: "k + 1 = 12 * (k div 12) + (k mod 12 + 1)" by simp
  have "0 \<le> k mod 12" "k mod 12 < 12" by simp_all
  then have b: "0 \<le> k mod 12 + 1" "k mod 12 + 1 < 12" using assms by linarith+
  show "(k + 1) div 12 = k div 12" "(k + 1) mod 12 = k mod 12 + 1"
    by (rule int_div_pos_eq [OF e b] int_mod_pos_eq [OF e b])+
qed

lemma small_month: "0 \<le> m \<Longrightarrow> m < 12 \<Longrightarrow> m \<noteq> 11 \<Longrightarrow> m = 0 \<or> m = 1 \<or> m = 2 \<or> m = 3 \<or> m = 4 \<or> m = 5
  \<or> m = 6 \<or> m = 7 \<or> m = 8 \<or> m = 9 \<or> m = (10 :: int)"
  by presburger

text \<open>A month has between 28 and 31 days.\<close>

lemma month_length: "28 \<le> first_day (k + 1) - first_day k \<and> first_day (k + 1) - first_day k \<le> 31"
proof -
  have b: "0 \<le> k mod 12" "k mod 12 < 12" by simp_all
  show ?thesis
  proof (cases "k mod 12 = 11")
    case True
    then have "(k + 1) div 12 = k div 12 + 1" "(k + 1) mod 12 = 0" by (rule next_year)+
    with True show ?thesis by (simp add: first_day_def year_length month_start_def)
  next
    case False
    then have "(k + 1) div 12 = k div 12" "(k + 1) mod 12 = k mod 12 + 1" by (rule same_year)+
    moreover have "k mod 12 = 0 \<or> k mod 12 = 1 \<or> k mod 12 = 2 \<or> k mod 12 = 3 \<or> k mod 12 = 4 \<or> k mod 12 = 5
        \<or> k mod 12 = 6 \<or> k mod 12 = 7 \<or> k mod 12 = 8 \<or> k mod 12 = 9 \<or> k mod 12 = 10"
      using small_month [OF b False] .
    ultimately show ?thesis
      by (elim disjE) (simp_all add: first_day_def month_start_def)
  qed
qed

lemma months_length: "28 * int n \<le> first_day (k + int n) - first_day k \<and> first_day (k + int n) - first_day k \<le> 31 * int n"
proof (induction n)
  case (Suc n)
  then show ?case using month_length [of "k + int n"] by (simp add: algebra_simps)
qed simp

section \<open>Dates\<close>

text \<open>The year of a day: from an upper bound, down to the first year that starts no later.\<close>

function year_down :: "int \<Rightarrow> int \<Rightarrow> int" where
  "year_down d y = (if day_from_year y \<le> d then y else year_down d (y - 1))"
  by pat_completeness auto
termination
proof (relation "measure (\<lambda>(d, y). nat (day_from_year y - d))")
  fix d y :: int
  assume "\<not> day_from_year y \<le> d"
  moreover have "day_from_year (y - 1) < day_from_year y" using year_length [of "y - 1"] by (simp split: if_splits)
  ultimately show "((d, y - 1), d, y) \<in> measure (\<lambda>(d, y). nat (day_from_year y - d))" by simp
qed simp

declare year_down.simps [simp del]

definition year_of_day :: "int \<Rightarrow> int" where
  "year_of_day d = year_down d (1970 + (if 0 \<le> d then d div 365 else 0))"

definition month_of_day :: "int \<Rightarrow> int" where
  "month_of_day d = (let y = year_of_day d; n = d - day_from_year y in
     int (length (filter (\<lambda>m. month_start (leap_year y) m \<le> n) [1..<12])))"

text \<open>The month of a day, counted through the years.\<close>

definition month_index :: "int \<Rightarrow> int" where
  "month_index d = 12 * year_of_day d + month_of_day d"

text \<open>\<open>date.setUTCMonth(date.getUTCMonth() + n)\<close>: year, day of the month and time of day stay.\<close>

definition add_months :: "int \<Rightarrow> instant \<Rightarrow> instant" where
  "add_months n t = (let d = t div ms_per_day; k = month_index d in
     (first_day (k + n) + (d - first_day k)) * ms_per_day + t mod ms_per_day)"

text \<open>What a \<open>DATE\<close> column keeps of an instant.\<close>

definition date_only :: "instant \<Rightarrow> instant" where
  "date_only t = t - t mod ms_per_day"

lemma add_months_bounds:
  assumes "0 \<le> n"
  shows "t + 28 * n * ms_per_day \<le> add_months n t" "add_months n t \<le> t + 31 * n * ms_per_day"
proof -
  let ?d = "t div ms_per_day"
  let ?g = "first_day (month_index ?d + n) - first_day (month_index ?d)"
  have t: "t = ?d * ms_per_day + t mod ms_per_day" by simp
  have e: "add_months n t = t + ?g * ms_per_day"
    unfolding add_months_def Let_def by (subst (7) t) (simp add: algebra_simps)
  have g: "28 * n \<le> ?g" "?g \<le> 31 * n" using months_length [of "nat n" "month_index ?d"] assms by simp_all
  show "t + 28 * n * ms_per_day \<le> add_months n t" "add_months n t \<le> t + 31 * n * ms_per_day"
    unfolding e using g by simp_all
qed

lemma date_only_le: "date_only t \<le> t" "t < date_only t + ms_per_day"
  by (simp_all add: date_only_def)

lemma date_only_mono: "t \<le> u \<Longrightarrow> date_only t \<le> date_only u"
proof -
  have "date_only v = v div ms_per_day * ms_per_day" for v by (simp add: date_only_def minus_mod_eq_div_mult)
  moreover assume "t \<le> u"
  then have "t div ms_per_day \<le> u div ms_per_day" by (rule zdiv_mono1) simp
  ultimately show ?thesis by simp
qed

lemma calendar_examples:
  "add_months 1 (31 * ms_per_day - 1) = 62 * ms_per_day - 1" \<comment> \<open>31 January 1970: the 31st of February is the 3rd of March\<close>
  "month_index 18321 = 12 * 2020 + 1" \<comment> \<open>29 February 2020\<close>
  "month_index (-1) = 12 * 1969 + 11"
  by code_simp+

end
