(* ===== verification/LegacySchema.thy ===== *)
theory LegacySchema
  imports MediaGateway Users Content Rbac Calendar
begin

text \<open>
  The tables of the legacy application service (\<open>legacy/legacy.service.ts\<close>), its state, the push service
  (\<open>legacy/firebase-push.service.ts\<close>), and the row operations that its handlers use.

  The state holds the state of the media gateway, and in it the database of the other services, so that a handler
  of theirs runs inside the legacy service. A group that was deleted is read as \<open>NULL\<close> where a row names it
  (\<open>onDelete: SetNull\<close>). JSON values of the remote configuration are kept as their text.
\<close>

section \<open>Tables\<close>

record notification =
  nf_id :: string
  nf_createdById :: string
  nf_title :: string
  nf_message :: string
  nf_imageKey :: "string option"
  nf_createdAt :: instant
  nf_deletedAt :: "instant option"

record notification_recipient =
  nr_notificationId :: string
  nr_userId :: string
  nr_readAt :: "instant option"

record favorite_drama =
  fv_id :: string
  fv_userId :: string
  fv_dramaId :: string
  fv_createdAt :: instant

record user_message =
  mg_id :: string
  mg_userId :: string
  mg_senderId :: "string option"
  mg_groupId :: "string option"
  mg_message :: string
  mg_status :: string
  mg_createdAt :: instant
  mg_readAt :: "instant option"

record deletion_request =
  dq_id :: string
  dq_userId :: string
  dq_reason :: "string option"
  dq_status :: string
  dq_adminNote :: "string option"
  dq_reviewedById :: "string option"
  dq_reviewedAt :: "instant option"
  dq_createdAt :: instant

record banner =
  bn_id :: string
  bn_imageKey :: "string option"
  bn_videoKey :: "string option"
  bn_isActive :: bool
  bn_createdAt :: instant
  bn_deletedAt :: "instant option"

record trending_drama =
  tg_id :: string
  tg_dramaId :: string
  tg_position :: int
  tg_createdAt :: instant

record app_release =
  re_id :: string
  re_versionName :: "string option"
  re_versionCode :: "int option"
  re_storageKey :: string
  re_originalName :: "string option"
  re_fileSize :: "nat option"
  re_isActive :: bool
  re_uploadedById :: "string option"
  re_createdAt :: instant

record remote_config =
  kf_id :: string
  kf_configKey :: string
  kf_value :: string
  kf_isActive :: bool
  kf_updatedById :: "string option"

record subscription_setting =
  st_monthlyAmountPkr :: int
  st_currency :: string
  st_defaultGroupId :: "string option"
  st_jazzcashNumber :: "string option"
  st_jazzcashTitle :: "string option"
  st_easypaisaNumber :: "string option"
  st_easypaisaTitle :: "string option"
  st_bankName :: "string option"
  st_bankAccountTitle :: "string option"
  st_bankAccountNumber :: "string option"
  st_bankIban :: "string option"
  st_paymentInstructions :: "string option"
  st_updatedById :: "string option"

record details_snapshot =
  sn_monthlyAmountPkr :: int
  sn_currency :: string
  sn_defaultGroupId :: "string option"
  sn_jazzcashNumber :: "string option"
  sn_easypaisaNumber :: "string option"
  sn_bankName :: "string option"
  sn_paymentInstructions :: "string option"

record subscription_request =
  sq_id :: string
  sq_userId :: string
  sq_groupId :: "string option"
  sq_planId :: "string option"
  sq_amountPkr :: int
  sq_currency :: string
  sq_paymentMethod :: "string option"
  sq_screenshotKey :: "string option"
  sq_note :: "string option"
  sq_detailsSnapshot :: "details_snapshot option"
  sq_status :: string
  sq_adminNote :: "string option"
  sq_invoiceNo :: "string option"
  sq_monthsAdded :: int
  sq_subscriptionStartDate :: "instant option"
  sq_subscriptionEndDate :: "instant option"
  sq_approvedById :: "string option"
  sq_approvedAt :: "instant option"
  sq_rejectedAt :: "instant option"
  sq_createdAt :: instant

record security_block =
  bk_userId :: string
  bk_isBlocked :: bool
  bk_message :: "string option"
  bk_blockedById :: "string option"
  bk_blockedAt :: "instant option"

text \<open>
  \<open>SecurityIncidentDto\<close>; the device and location columns, which are passed through unchanged, are a list of names
  and values.
\<close>

record incident_dto =
  ind_incidentType :: string
  ind_incidentLabel :: "string option"
  ind_appArea :: "string option"
  ind_device :: "(string \<times> string) list"
  ind_severity :: "string option"

record security_incident =
  inc_id :: string
  inc_userId :: "string option"
  inc_incidentType :: string
  inc_incidentLabel :: "string option"
  inc_appArea :: "string option"
  inc_device :: "(string \<times> string) list"
  inc_severity :: string
  inc_ipAddress :: "string option"
  inc_createdAt :: instant

record content_comment =
  cm_id :: string
  cm_userId :: string
  cm_episodeId :: "string option"
  cm_groupId :: "string option"
  cm_body :: string
  cm_status :: string
  cm_createdAt :: instant

record video_view =
  vw_id :: string
  vw_episodeId :: string
  vw_userId :: string
  vw_viewedAt :: instant
  vw_ipAddress :: "string option"
  vw_userAgent :: "string option"

section \<open>State\<close>

text \<open>A multicast that was handed to the messaging client of Firebase.\<close>

record push_message =
  pm_tokens :: "string list"
  pm_title :: string
  pm_body :: string
  pm_data :: "(string \<times> string) list"

record legacy_state =
  lg_media :: media_system
  lg_notifications :: "notification list"
  lg_recipients :: "notification_recipient list"
  lg_favorites :: "favorite_drama list"
  lg_messages :: "user_message list"
  lg_deletionRequests :: "deletion_request list"
  lg_banners :: "banner list"
  lg_trending :: "trending_drama list"
  lg_releases :: "app_release list"
  lg_remoteConfig :: "remote_config list"
  lg_settings :: "subscription_setting option"
  lg_requests :: "subscription_request list"
  lg_blocks :: "security_block list"
  lg_incidents :: "security_incident list"
  lg_comments :: "content_comment list"
  lg_views :: "video_view list"
  lg_pushed :: "push_message list"

text \<open>
  The parameters: those of the media gateway, the text of \<open>FIREBASE_SERVICE_ACCOUNT_B64\<close>, whether it can be read
  and accepted by the Firebase library, and the number of messages that the library reports as sent (\<open>None\<close> if the
  call fails).
\<close>

record legacy_env =
  le_media :: media_env
  le_firebaseAccount :: string
  le_accountAccepted :: "string \<Rightarrow> bool"
  le_multicast :: "push_message \<Rightarrow> nat option"

type_synonym 'a legacy_handler = "(legacy_state, 'a) prog"

abbreviation core :: "legacy_state \<Rightarrow> state" where "core l \<equiv> ms_db (lg_media l)"

definition on_media :: "'a media_handler \<Rightarrow> 'a legacy_handler" where
  "on_media m l = (case m (lg_media l) of (r, ms) \<Rightarrow> (r, l\<lparr>lg_media := ms\<rparr>))"

text \<open>A query or a write of the tables that the other services share.\<close>

definition in_core :: "'a handler \<Rightarrow> 'a legacy_handler" where
  "in_core m = on_media (in_media m)"

abbreviation set_core :: "legacy_state \<Rightarrow> state \<Rightarrow> legacy_state" where
  "set_core l s \<equiv> l\<lparr>lg_media := lg_media l\<lparr>ms_db := s\<rparr>\<rparr>"

lemma in_core_apply: "in_core m l = (fst (m (core l)), set_core l (snd (m (core l))))"
  by (simp add: in_core_def on_media_def in_media_def split: prod.split)

lemma and_then_in_core:
  "and_then (in_core m) k l = (case m (core l) of (Inl e, s) \<Rightarrow> (Inl e, set_core l s) | (Inr x, s) \<Rightarrow> k x (set_core l s))"
  by (simp add: and_then_def in_core_apply split: prod.split sum.split)

definition audit :: "request \<Rightarrow> principal \<Rightarrow> string \<Rightarrow> string \<Rightarrow> string option \<Rightarrow> (string \<times> json) list \<Rightarrow> unit legacy_handler" where
  "audit rq actor action resource resourceId metadata =
     in_core (audit_write (audit_input rq (Some (pr_id actor)) action resource resourceId SUCCESS metadata))"

section \<open>Rows\<close>

text \<open>
  \<open>create\<close>, \<open>update\<close>, \<open>updateMany\<close>, \<open>deleteMany\<close> of one table: \<open>upd\<close> is the update function of its field, \<open>k\<close> a
  unique key.
\<close>

definition insert_row :: "(legacy_state \<Rightarrow> 'r list) \<Rightarrow> (('r list \<Rightarrow> 'r list) \<Rightarrow> legacy_state \<Rightarrow> legacy_state)
    \<Rightarrow> ('r \<Rightarrow> 'k) \<Rightarrow> 'r \<Rightarrow> unit legacy_handler" where
  "insert_row sel upd k r =
     and_then (gets sel) (\<lambda>t.
     and_then (require (\<forall>q\<in>set t. k q \<noteq> k r) (Internal ''P2002'')) (\<lambda>_.
     modify (upd (\<lambda>t. t @ [r]))))"

definition update_row :: "(legacy_state \<Rightarrow> 'r list) \<Rightarrow> (('r list \<Rightarrow> 'r list) \<Rightarrow> legacy_state \<Rightarrow> legacy_state)
    \<Rightarrow> ('r \<Rightarrow> bool) \<Rightarrow> ('r \<Rightarrow> 'r) \<Rightarrow> 'r legacy_handler" where
  "update_row sel upd P f =
     and_then (gets (\<lambda>l. find_first P (sel l))) (\<lambda>r.
     and_then (expect r (Internal ''P2025'')) (\<lambda>r.
     and_then (modify (upd (update_many P f))) (\<lambda>_. ret (f r))))"

definition update_rows :: "(legacy_state \<Rightarrow> 'r list) \<Rightarrow> (('r list \<Rightarrow> 'r list) \<Rightarrow> legacy_state \<Rightarrow> legacy_state)
    \<Rightarrow> ('r \<Rightarrow> bool) \<Rightarrow> ('r \<Rightarrow> 'r) \<Rightarrow> nat legacy_handler" where
  "update_rows sel upd P f =
     and_then (gets (\<lambda>l. count_where P (sel l))) (\<lambda>n. and_then (modify (upd (update_many P f))) (\<lambda>_. ret n))"

definition delete_rows :: "(legacy_state \<Rightarrow> 'r list) \<Rightarrow> (('r list \<Rightarrow> 'r list) \<Rightarrow> legacy_state \<Rightarrow> legacy_state)
    \<Rightarrow> ('r \<Rightarrow> bool) \<Rightarrow> nat legacy_handler" where
  "delete_rows sel upd P =
     and_then (gets (\<lambda>l. count_where P (sel l))) (\<lambda>n. and_then (modify (upd (delete_many P))) (\<lambda>_. ret n))"

text \<open>\<open>upsert\<close> on a unique key that the condition names.\<close>

definition upsert_row :: "(legacy_state \<Rightarrow> 'r list) \<Rightarrow> (('r list \<Rightarrow> 'r list) \<Rightarrow> legacy_state \<Rightarrow> legacy_state)
    \<Rightarrow> ('r \<Rightarrow> bool) \<Rightarrow> ('r \<Rightarrow> 'r) \<Rightarrow> 'r \<Rightarrow> 'r legacy_handler" where
  "upsert_row sel upd P f new =
     and_then (gets (\<lambda>l. find_first P (sel l))) (\<lambda>old.
     case old of Some r \<Rightarrow> and_then (modify (upd (update_many P f))) (\<lambda>_. ret (f r))
     | None \<Rightarrow> and_then (modify (upd (\<lambda>t. t @ [new]))) (\<lambda>_. ret new))"

section \<open>Shared queries\<close>

text \<open>\<open>LegacyListDto\<close>; \<open>sort\<close> is accepted but never read.\<close>

record legacy_query =
  lq_page :: page_query
  lq_search :: "string option"
  lq_descending :: bool

definition matches_search :: "legacy_query \<Rightarrow> string list \<Rightarrow> bool" where
  "matches_search q columns \<longleftrightarrow> (case truthy (lq_search q) of None \<Rightarrow> True | Some p \<Rightarrow> \<exists>c\<in>set columns. contains_ci c p)"

definition by_createdAt :: "legacy_query \<Rightarrow> ('r \<Rightarrow> instant) \<Rightarrow> 'r list \<Rightarrow> 'r list" where
  "by_createdAt q k rows = (if lq_descending q then order_desc k rows else order_asc k rows)"

definition ensure_account :: "string \<Rightarrow> unit legacy_handler" where
  "ensure_account uid = in_core (ensure_user uid)"

definition ensure_drama :: "string \<Rightarrow> unit legacy_handler" where
  "ensure_drama did = and_then (gets (\<lambda>l. \<exists>d\<in>set (dramas (core l)). dr_id d = did \<and> dr_deletedAt d = None))
     (\<lambda>b. require b (NotFound ''Drama not found''))"

definition existing_group :: "state \<Rightarrow> string option \<Rightarrow> string option" where
  "existing_group s g = (case g of None \<Rightarrow> None | Some i \<Rightarrow> if find_group s i \<noteq> None then Some i else None)"

section \<open>The push service\<close>

definition send_push :: "legacy_env \<Rightarrow> string list \<Rightarrow> string \<Rightarrow> string \<Rightarrow> (string \<times> string) list \<Rightarrow> (bool \<times> nat) legacy_handler" where
  "send_push en tokens title body data =
     (let uniqueTokens = take 500 (js_set (filter (\<lambda>t. t \<noteq> []) (map trim tokens)));
          message = \<lparr>pm_tokens = uniqueTokens, pm_title = title, pm_body = body, pm_data = data\<rparr> in
      if uniqueTokens = [] then ret (le_firebaseAccount en \<noteq> [], 0)
      else if le_firebaseAccount en = [] then ret (False, 0)
      else
        and_then (require (le_accountAccepted en (le_firebaseAccount en)) (Internal ''Firebase account'')) (\<lambda>_.
        and_then (modify (lg_pushed_update (\<lambda>ms. ms @ [message]))) (\<lambda>_.
        and_then (expect (le_multicast en message) (Internal ''Firebase'')) (\<lambda>n.
        ret (True, n)))))"

definition token_of :: "user \<Rightarrow> string" where
  "token_of u = (case u_deviceToken u of None \<Rightarrow> [] | Some t \<Rightarrow> t)"

definition tokens_for_users :: "state \<Rightarrow> string list \<Rightarrow> string list" where
  "tokens_for_users s ids = map token_of (filter (\<lambda>u. u_id u \<in> set ids \<and> u_deviceToken u \<noteq> None) (users s))"

definition tokens_of_all :: "state \<Rightarrow> string list" where
  "tokens_of_all s = map token_of
     (filter (\<lambda>u. u_status u = User_ACTIVE \<and> u_deletedAt u = None \<and> u_deviceToken u \<noteq> None) (users s))"

definition push_to_user :: "legacy_env \<Rightarrow> string \<Rightarrow> string \<Rightarrow> string \<Rightarrow> (string \<times> string) list \<Rightarrow> (bool \<times> nat) legacy_handler" where
  "push_to_user en uid title body data =
     and_then (gets (\<lambda>l. tokens_for_users (core l) [uid])) (\<lambda>tokens. send_push en tokens title body data)"

end
