(* ===== verification/Legacy.thy ===== *)
theory Legacy
  imports LegacySchema
begin

text \<open>
  The handlers of \<open>legacy/legacy.service.ts\<close>, in the order of the source. Where a handler reads a row and writes
  it later without a condition on what it read, the two parts are separate definitions, so that other requests can
  be placed between them (\<open>review_subscription_request\<close>).
\<close>

section \<open>Notifications\<close>

definition live_notification :: "string \<Rightarrow> notification \<Rightarrow> bool" where
  "live_notification nid n \<longleftrightarrow> nf_id n = nid \<and> nf_deletedAt n = None"

definition latest_notification :: "notification option legacy_handler" where
  "latest_notification = gets (\<lambda>l. find_latest nf_createdAt (filter (\<lambda>n. nf_deletedAt n = None) (lg_notifications l)))"

definition matching_notifications :: "legacy_query \<Rightarrow> legacy_state \<Rightarrow> notification list" where
  "matching_notifications q l = by_createdAt q nf_createdAt
     (filter (\<lambda>n. nf_deletedAt n = None \<and> matches_search q [nf_title n, nf_message n]) (lg_notifications l))"

definition list_notifications :: "legacy_query \<Rightarrow> notification page legacy_handler" where
  "list_notifications q = gets (\<lambda>l. list_page (lq_page q) (matching_notifications q l))"

definition create_notification :: "request \<Rightarrow> principal \<Rightarrow> string \<Rightarrow> string \<Rightarrow> string \<Rightarrow> string option
    \<Rightarrow> notification legacy_handler" where
  "create_notification rq actor newId title message imageKey =
     (let item = \<lparr>nf_id = newId, nf_createdById = pr_id actor, nf_title = trim title, nf_message = trim message,
        nf_imageKey = imageKey, nf_createdAt = rq_now rq, nf_deletedAt = None\<rparr> in
      and_then (insert_row lg_notifications lg_notifications_update nf_id item) (\<lambda>_.
      and_then (audit rq actor ''legacy.notification_create'' ''notification'' (Some newId) []) (\<lambda>_.
      ret item)))"

definition update_notification :: "request \<Rightarrow> principal \<Rightarrow> string \<Rightarrow> string \<Rightarrow> string \<Rightarrow> string option
    \<Rightarrow> notification legacy_handler" where
  "update_notification rq actor nid title message imageKey =
     and_then (update_row lg_notifications lg_notifications_update (\<lambda>n. nf_id n = nid)
       (\<lambda>n. n\<lparr>nf_title := trim title, nf_message := trim message, nf_imageKey := keep_or imageKey (nf_imageKey n)\<rparr>)) (\<lambda>item.
     and_then (audit rq actor ''legacy.notification_update'' ''notification'' (Some nid) []) (\<lambda>_. ret item))"

definition delete_notification :: "request \<Rightarrow> principal \<Rightarrow> string \<Rightarrow> unit legacy_handler" where
  "delete_notification rq actor nid =
     and_then (update_rows lg_notifications lg_notifications_update (live_notification nid)
       (\<lambda>n. n\<lparr>nf_deletedAt := Some (rq_now rq)\<rparr>)) (\<lambda>count.
     and_then (require (count \<noteq> 0) (NotFound ''Notification not found'')) (\<lambda>_.
     audit rq actor ''legacy.notification_delete'' ''notification'' (Some nid) []))"

definition send_notification :: "legacy_env \<Rightarrow> request \<Rightarrow> principal \<Rightarrow> string
    \<Rightarrow> (notification \<times> (bool \<times> nat)) legacy_handler" where
  "send_notification en rq actor nid =
     and_then (gets (\<lambda>l. find_first (live_notification nid) (lg_notifications l))) (\<lambda>n.
     and_then (expect n (NotFound ''Notification not found'')) (\<lambda>n.
     and_then (gets (\<lambda>l. tokens_of_all (core l))) (\<lambda>tokens.
     and_then (send_push en tokens (nf_title n) (nf_message n) [(''notification_id'', nf_id n)]) (\<lambda>delivery.
     and_then (audit rq actor ''legacy.notification_send'' ''notification'' (Some nid)
       [(''configured'', JBool (fst delivery)), (''sent'', JNum (int (snd delivery)))]) (\<lambda>_.
     ret (n, delivery))))))"

definition mark_notification_read :: "request \<Rightarrow> principal \<Rightarrow> string \<Rightarrow> unit legacy_handler" where
  "mark_notification_read rq actor nid =
     and_then (gets (\<lambda>l. find_first (live_notification nid) (lg_notifications l))) (\<lambda>n.
     and_then (expect n (NotFound ''Notification not found'')) (\<lambda>_.
     and_then (upsert_row lg_recipients lg_recipients_update
       (\<lambda>r. nr_notificationId r = nid \<and> nr_userId r = pr_id actor) (\<lambda>r. r\<lparr>nr_readAt := Some (rq_now rq)\<rparr>)
       \<lparr>nr_notificationId = nid, nr_userId = pr_id actor, nr_readAt = Some (rq_now rq)\<rparr>) (\<lambda>_. ret ())))"

definition list_mobile_notifications :: "principal \<Rightarrow> legacy_query \<Rightarrow> (notification \<times> instant option) page legacy_handler" where
  "list_mobile_notifications actor q = gets (\<lambda>l. list_page (lq_page q)
     (map (\<lambda>n. (n, Option.bind (find_first (\<lambda>r. nr_notificationId r = nf_id n \<and> nr_userId r = pr_id actor) (lg_recipients l)) nr_readAt))
       (matching_notifications q l)))"

section \<open>Favorites\<close>

definition published_drama :: "state \<Rightarrow> string \<Rightarrow> drama option" where
  "published_drama s did = find_first (\<lambda>d. dr_id d = did \<and> dr_deletedAt d = None \<and> dr_isPublished d) (dramas s)"

definition is_favorite :: "principal \<Rightarrow> string \<Rightarrow> favorite_drama \<Rightarrow> bool" where
  "is_favorite actor did f \<longleftrightarrow> fv_userId f = pr_id actor \<and> fv_dramaId f = did"

definition list_favorites :: "principal \<Rightarrow> (drama \<times> string \<times> instant) list legacy_handler" where
  "list_favorites actor = gets (\<lambda>l.
     concat (map (\<lambda>f. case published_drama (core l) (fv_dramaId f) of None \<Rightarrow> [] | Some d \<Rightarrow> [(d, fv_id f, fv_createdAt f)])
       (order_desc fv_createdAt (filter (\<lambda>f. fv_userId f = pr_id actor) (lg_favorites l)))))"

definition add_favorite :: "request \<Rightarrow> principal \<Rightarrow> string \<Rightarrow> string \<Rightarrow> favorite_drama legacy_handler" where
  "add_favorite rq actor newId did =
     and_then (gets (\<lambda>l. published_drama (core l) did)) (\<lambda>d.
     and_then (expect d (NotFound ''Drama not found'')) (\<lambda>_.
     and_then (upsert_row lg_favorites lg_favorites_update (is_favorite actor did) id
       \<lparr>fv_id = newId, fv_userId = pr_id actor, fv_dramaId = did, fv_createdAt = rq_now rq\<rparr>) (\<lambda>item.
     and_then (audit rq actor ''mobile.favorite_add'' ''drama'' (Some did) []) (\<lambda>_. ret item))))"

definition remove_favorite :: "request \<Rightarrow> principal \<Rightarrow> string \<Rightarrow> unit legacy_handler" where
  "remove_favorite rq actor did =
     and_then (delete_rows lg_favorites lg_favorites_update (is_favorite actor did)) (\<lambda>count.
     audit rq actor ''mobile.favorite_remove'' ''drama'' (Some did) [(''removed'', JNum (int count))])"

section \<open>Messages\<close>

definition list_messages :: "principal \<Rightarrow> legacy_query \<Rightarrow> string option \<Rightarrow> (user_message \<times> user option \<times> user option) page legacy_handler" where
  "list_messages actor q status =
     (let canReadInbox = ''messages.read'' \<in> set (pr_permissions actor) in
      gets (\<lambda>l. list_page (lq_page q)
        (map (\<lambda>m. (m, Option.bind (mg_senderId m) (find_user (core l)), find_user (core l) (mg_userId m)))
          (order_desc mg_createdAt (filter (\<lambda>m. (canReadInbox \<or> mg_userId m = pr_id actor) \<and> given_eq status (mg_status m))
            (lg_messages l))))))"

definition mark_messages_read :: "request \<Rightarrow> principal \<Rightarrow> string option \<Rightarrow> nat legacy_handler" where
  "mark_messages_read rq actor messageId =
     update_rows lg_messages lg_messages_update
       (\<lambda>m. case truthy messageId of Some i \<Rightarrow> mg_id m = i \<and> mg_userId m = pr_id actor
          | None \<Rightarrow> mg_userId m = pr_id actor \<and> mg_status m = ''unread'')
       (\<lambda>m. m\<lparr>mg_status := ''read'', mg_readAt := Some (rq_now rq)\<rparr>)"

definition new_message :: "request \<Rightarrow> principal \<Rightarrow> string option \<Rightarrow> string \<Rightarrow> string \<Rightarrow> string \<Rightarrow> user_message" where
  "new_message rq actor gid message newId uid =
     \<lparr>mg_id = newId, mg_userId = uid, mg_senderId = Some (pr_id actor), mg_groupId = gid, mg_message = trim message,
      mg_status = ''unread'', mg_createdAt = rq_now rq, mg_readAt = None\<rparr>"

definition send_message :: "legacy_env \<Rightarrow> request \<Rightarrow> principal \<Rightarrow> string \<Rightarrow> string \<Rightarrow> string \<Rightarrow> user_message legacy_handler" where
  "send_message en rq actor newId uid message =
     (let item = new_message rq actor None message newId uid in
      and_then (ensure_account uid) (\<lambda>_.
      and_then (insert_row lg_messages lg_messages_update mg_id item) (\<lambda>_.
      and_then (audit rq actor ''legacy.message_send'' ''user_message'' (Some newId) [(''userId'', JStr uid)]) (\<lambda>_.
      and_then (push_to_user en uid ''New Message'' message [(''message_id'', newId)]) (\<lambda>_. ret item)))))"

definition group_recipients :: "instant \<Rightarrow> state \<Rightarrow> string \<Rightarrow> string list" where
  "group_recipients now s gid = js_set (map gm_userId
     (filter (\<lambda>m. gm_groupId m = gid \<and> gm_revokedAt m = None \<and> now < gm_endsAt m) (groupMembers s)))"

definition send_group_message :: "legacy_env \<Rightarrow> request \<Rightarrow> principal \<Rightarrow> (nat \<Rightarrow> string) \<Rightarrow> string \<Rightarrow> string
    \<Rightarrow> (nat \<times> (bool \<times> nat)) legacy_handler" where
  "send_group_message en rq actor newIds gid message =
     and_then (gets (\<lambda>l. find_group (core l) gid)) (\<lambda>g.
     and_then (expect g (NotFound ''Group not found'')) (\<lambda>_.
     and_then (gets (\<lambda>l. group_recipients (rq_now rq) (core l) gid)) (\<lambda>recipients.
     let rows = map (\<lambda>(i, uid). new_message rq actor (Some gid) message (newIds i) uid) (zip [0..<length recipients] recipients) in
     and_then (transaction (for_each rows (insert_row lg_messages lg_messages_update mg_id))) (\<lambda>_.
     and_then (audit rq actor ''legacy.group_message_send'' ''access_group'' (Some gid)
       [(''recipients'', JNum (int (length rows)))]) (\<lambda>_.
     and_then (gets (\<lambda>l. tokens_for_users (core l) recipients)) (\<lambda>tokens.
     and_then (send_push en tokens ''New Message'' message [(''group_id'', gid)]) (\<lambda>delivery.
     ret (length rows, delivery))))))))"

definition send_admin_notification :: "legacy_env \<Rightarrow> request \<Rightarrow> principal \<Rightarrow> string \<Rightarrow> (bool \<times> nat) legacy_handler" where
  "send_admin_notification en rq actor message =
     and_then (gets (\<lambda>l. tokens_of_all (core l))) (\<lambda>tokens.
     and_then (send_push en tokens ''Urdu Bolo'' message [(''type'', ''admin_message'')]) (\<lambda>delivery.
     and_then (audit rq actor ''legacy.admin_notification_send'' ''user'' None
       [(''configured'', JBool (fst delivery)), (''sent'', JNum (int (snd delivery)))]) (\<lambda>_. ret delivery)))"

definition send_mobile_support_message :: "request \<Rightarrow> principal \<Rightarrow> string \<Rightarrow> string \<Rightarrow> user_message legacy_handler" where
  "send_mobile_support_message rq actor newId message =
     (let item = new_message rq actor None message newId (pr_id actor) in
      and_then (insert_row lg_messages lg_messages_update mg_id item) (\<lambda>_.
      and_then (audit rq actor ''mobile.support_message_create'' ''user_message'' (Some newId) []) (\<lambda>_. ret item)))"

section \<open>Account deletion\<close>

datatype review = Approved | Rejected

definition review_text :: "review \<Rightarrow> string" where
  "review_text v = (case v of Approved \<Rightarrow> ''approved'' | Rejected \<Rightarrow> ''rejected'')"

definition pending_deletion :: "string \<Rightarrow> deletion_request \<Rightarrow> bool" where
  "pending_deletion uid q \<longleftrightarrow> dq_userId q = uid \<and> dq_status q = ''pending''"

definition request_account_deletion :: "request \<Rightarrow> principal \<Rightarrow> string \<Rightarrow> string option \<Rightarrow> deletion_request legacy_handler" where
  "request_account_deletion rq actor newId reason =
     and_then (gets (\<lambda>l. find_first (pending_deletion (pr_id actor)) (lg_deletionRequests l))) (\<lambda>existing.
     case existing of Some q \<Rightarrow> ret q
     | None \<Rightarrow>
         let item = \<lparr>dq_id = newId, dq_userId = pr_id actor, dq_reason = truthy (map_option trim reason), dq_status = ''pending'',
           dq_adminNote = None, dq_reviewedById = None, dq_reviewedAt = None, dq_createdAt = rq_now rq\<rparr> in
         and_then (insert_row lg_deletionRequests lg_deletionRequests_update dq_id item) (\<lambda>_.
         and_then (audit rq actor ''mobile.account_deletion_request'' ''account_deletion_request'' (Some newId) []) (\<lambda>_.
         ret item)))"

definition list_own_deletion_requests :: "principal \<Rightarrow> deletion_request list legacy_handler" where
  "list_own_deletion_requests actor = gets (\<lambda>l.
     order_desc dq_createdAt (filter (\<lambda>q. dq_userId q = pr_id actor) (lg_deletionRequests l)))"

definition list_deletion_requests :: "legacy_query \<Rightarrow> (deletion_request \<times> user option) page legacy_handler" where
  "list_deletion_requests q = gets (\<lambda>l. list_page (lq_page q)
     (map (\<lambda>d. (d, find_user (core l) (dq_userId d)))
       (order_desc dq_createdAt (filter (\<lambda>d. truthy (lq_search q) = None
         \<or> (\<exists>u\<in>set (users (core l)). u_id u = dq_userId d \<and> matches_search q [u_username u, u_email u])) (lg_deletionRequests l)))))"

definition review_deletion_request :: "request \<Rightarrow> principal \<Rightarrow> string \<Rightarrow> review \<Rightarrow> string option \<Rightarrow> deletion_request legacy_handler" where
  "review_deletion_request rq actor qid verdict adminNote =
     and_then (gets (\<lambda>l. find_first (\<lambda>q. dq_id q = qid) (lg_deletionRequests l))) (\<lambda>current.
     and_then (expect current (NotFound ''Account deletion request not found'')) (\<lambda>current.
     and_then (require (dq_status current = ''pending'') (Conflict ''Account deletion request was already reviewed'')) (\<lambda>_.
     and_then (update_row lg_deletionRequests lg_deletionRequests_update (\<lambda>q. dq_id q = qid)
       (\<lambda>q. q\<lparr>dq_status := review_text verdict, dq_adminNote := keep_or adminNote (dq_adminNote q),
         dq_reviewedById := Some (pr_id actor), dq_reviewedAt := Some (rq_now rq)\<rparr>)) (\<lambda>item.
     and_then (if verdict = Approved then in_core (update_user (dq_userId current)
         (\<lambda>u. u\<lparr>u_status := User_SUSPENDED, u_deletedAt := Some (rq_now rq)\<rparr>)) else ret ()) (\<lambda>_.
     and_then (audit rq actor (''legacy.account_deletion_'' @ review_text verdict) ''account_deletion_request'' (Some qid)
       [(''userId'', JStr (dq_userId current))]) (\<lambda>_. ret item))))))"

section \<open>Banners\<close>

definition list_banners :: "bool \<Rightarrow> banner list legacy_handler" where
  "list_banners includeInactive = gets (\<lambda>l.
     order_desc bn_createdAt (filter (\<lambda>b. bn_deletedAt b = None \<and> (includeInactive \<or> bn_isActive b)) (lg_banners l)))"

definition create_banner :: "request \<Rightarrow> principal \<Rightarrow> string \<Rightarrow> string option \<Rightarrow> string option \<Rightarrow> bool option \<Rightarrow> banner legacy_handler" where
  "create_banner rq actor newId imageKey videoKey isActive =
     (let item = \<lparr>bn_id = newId, bn_imageKey = imageKey, bn_videoKey = videoKey, bn_isActive = set_or isActive True,
        bn_createdAt = rq_now rq, bn_deletedAt = None\<rparr> in
      and_then (require (\<not> (truthy imageKey = None \<and> truthy videoKey = None)) (BadRequest ''A banner image or video is required'')) (\<lambda>_.
      and_then (insert_row lg_banners lg_banners_update bn_id item) (\<lambda>_.
      and_then (audit rq actor ''legacy.banner_create'' ''banner'' (Some newId) []) (\<lambda>_. ret item))))"

definition update_banner :: "request \<Rightarrow> principal \<Rightarrow> string \<Rightarrow> string option \<Rightarrow> string option \<Rightarrow> bool option \<Rightarrow> banner legacy_handler" where
  "update_banner rq actor bid imageKey videoKey isActive =
     and_then (update_row lg_banners lg_banners_update (\<lambda>b. bn_id b = bid)
       (\<lambda>b. b\<lparr>bn_imageKey := keep_or imageKey (bn_imageKey b), bn_videoKey := keep_or videoKey (bn_videoKey b),
         bn_isActive := set_or isActive (bn_isActive b)\<rparr>)) (\<lambda>item.
     and_then (audit rq actor ''legacy.banner_update'' ''banner'' (Some bid) []) (\<lambda>_. ret item))"

definition delete_banner :: "request \<Rightarrow> principal \<Rightarrow> string \<Rightarrow> unit legacy_handler" where
  "delete_banner rq actor bid =
     and_then (update_rows lg_banners lg_banners_update (\<lambda>b. bn_id b = bid \<and> bn_deletedAt b = None)
       (\<lambda>b. b\<lparr>bn_deletedAt := Some (rq_now rq), bn_isActive := False\<rparr>)) (\<lambda>count.
     and_then (require (count \<noteq> 0) (NotFound ''Banner not found'')) (\<lambda>_.
     audit rq actor ''legacy.banner_delete'' ''banner'' (Some bid) []))"

section \<open>Trending dramas\<close>

definition list_trending :: "(trending_drama \<times> drama option) list legacy_handler" where
  "list_trending = gets (\<lambda>l. map (\<lambda>t. (t, find_drama (core l) (tg_dramaId t))) (order_asc tg_position (lg_trending l)))"

text \<open>The answer to a \<open>P2002\<close>, both unique keys of the table.\<close>

definition trending_conflict :: "http_error \<Rightarrow> http_error" where
  "trending_conflict e = (if e = Internal ''P2002'' then Conflict ''Drama or position is already trending'' else e)"

definition assign_trending :: "request \<Rightarrow> principal \<Rightarrow> string \<Rightarrow> string \<Rightarrow> int \<Rightarrow> trending_drama legacy_handler" where
  "assign_trending rq actor newId did position =
     (let item = \<lparr>tg_id = newId, tg_dramaId = did, tg_position = position, tg_createdAt = rq_now rq\<rparr> in
      and_then (ensure_drama did) (\<lambda>_.
      catch_error
        (and_then (gets lg_trending) (\<lambda>t.
         and_then (require (\<forall>q\<in>set t. tg_dramaId q \<noteq> did \<and> tg_position q \<noteq> position) (Internal ''P2002'')) (\<lambda>_.
         and_then (insert_row lg_trending lg_trending_update tg_id item) (\<lambda>_.
         and_then (audit rq actor ''legacy.trending_assign'' ''trending_drama'' (Some newId) []) (\<lambda>_. ret item)))))
        (\<lambda>e. throw (trending_conflict e))))"

definition update_trending :: "request \<Rightarrow> principal \<Rightarrow> string \<Rightarrow> string \<Rightarrow> int \<Rightarrow> trending_drama legacy_handler" where
  "update_trending rq actor tid did position =
     catch_error
       (and_then (gets lg_trending) (\<lambda>t.
        and_then (require (\<exists>q\<in>set t. tg_id q = tid) (Internal ''P2025'')) (\<lambda>_.
        and_then (gets (\<lambda>l. find_drama (core l) did)) (\<lambda>d.
        and_then (require (d \<noteq> None) (Internal ''P2003'')) (\<lambda>_.
        and_then (require (\<forall>q\<in>set t. tg_id q \<noteq> tid \<longrightarrow> tg_dramaId q \<noteq> did \<and> tg_position q \<noteq> position) (Internal ''P2002'')) (\<lambda>_.
        and_then (update_row lg_trending lg_trending_update (\<lambda>q. tg_id q = tid)
          (\<lambda>q. q\<lparr>tg_dramaId := did, tg_position := position\<rparr>)) (\<lambda>item.
        and_then (audit rq actor ''legacy.trending_update'' ''trending_drama'' (Some tid) []) (\<lambda>_. ret item))))))))
       (\<lambda>e. throw (trending_conflict e))"

definition delete_trending :: "request \<Rightarrow> principal \<Rightarrow> string \<Rightarrow> unit legacy_handler" where
  "delete_trending rq actor tid =
     and_then (delete_rows lg_trending lg_trending_update (\<lambda>q. tg_id q = tid)) (\<lambda>count.
     and_then (require (count \<noteq> 0) (NotFound ''Trending drama not found'')) (\<lambda>_.
     audit rq actor ''legacy.trending_delete'' ''trending_drama'' (Some tid) []))"

section \<open>App releases\<close>

record release_view =
  rv_id :: string
  rv_versionName :: "string option"
  rv_versionCode :: "int option"
  rv_originalName :: "string option"
  rv_fileSize :: "string option"
  rv_isActive :: bool
  rv_createdAt :: instant
  rv_downloadPath :: string

definition public_release :: "app_release \<Rightarrow> release_view" where
  "public_release r =
     \<lparr>rv_id = re_id r, rv_versionName = re_versionName r, rv_versionCode = re_versionCode r, rv_originalName = re_originalName r,
      rv_fileSize = map_option decimal (re_fileSize r), rv_isActive = re_isActive r, rv_createdAt = re_createdAt r,
      rv_downloadPath = ''/api/v1/app/releases/'' @ re_id r @ ''/download''\<rparr>"

text \<open>\<open>orderBy: [{ versionCode: 'desc' }, { createdAt: 'desc' }]\<close>: PostgreSQL puts \<open>NULL\<close> first in a descending order.\<close>

definition newer_release :: "app_release \<Rightarrow> app_release \<Rightarrow> bool" where
  "newer_release a b \<longleftrightarrow> (case (re_versionCode a, re_versionCode b) of
       (None, None) \<Rightarrow> re_createdAt b < re_createdAt a
     | (None, Some _) \<Rightarrow> True
     | (Some _, None) \<Rightarrow> False
     | (Some x, Some y) \<Rightarrow> y < x \<or> (x = y \<and> re_createdAt b < re_createdAt a))"

definition newest_release :: "app_release list \<Rightarrow> app_release option" where
  "newest_release rs = fold (\<lambda>r best. case best of None \<Rightarrow> Some r | Some b \<Rightarrow> if newer_release r b then Some r else Some b) rs None"

definition latest_release :: "release_view option legacy_handler" where
  "latest_release = gets (\<lambda>l. map_option public_release (newest_release (filter re_isActive (lg_releases l))))"

definition list_releases :: "legacy_query \<Rightarrow> (app_release \<times> string option) page legacy_handler" where
  "list_releases q = gets (\<lambda>l. list_page (lq_page q)
     (map (\<lambda>r. (r, map_option decimal (re_fileSize r))) (order_desc re_createdAt (lg_releases l))))"

text \<open>\<open>CreateReleaseDto\<close> and \<open>UpdateReleaseDto\<close>; a storage key is required to create.\<close>

record release_dto =
  rd_versionName :: "string option"
  rd_versionCode :: "int option"
  rd_storageKey :: "string option"
  rd_originalName :: "string option"
  rd_fileSize :: "nat option"
  rd_isActive :: "bool option"

definition create_release :: "legacy_env \<Rightarrow> request \<Rightarrow> principal \<Rightarrow> string \<Rightarrow> string \<Rightarrow> release_dto \<Rightarrow> release_view legacy_handler" where
  "create_release en rq actor newId storageKey dto =
     (let item = \<lparr>re_id = newId, re_versionName = rd_versionName dto, re_versionCode = rd_versionCode dto,
        re_storageKey = storageKey, re_originalName = rd_originalName dto, re_fileSize = rd_fileSize dto,
        re_isActive = set_or (rd_isActive dto) True, re_uploadedById = Some (pr_id actor), re_createdAt = rq_now rq\<rparr> in
      and_then (on_media (validate_url (le_media en) storageKey)) (\<lambda>_.
      and_then (insert_row lg_releases lg_releases_update re_id item) (\<lambda>_.
      and_then (audit rq actor ''legacy.release_create'' ''app_release'' (Some newId) []) (\<lambda>_. ret (public_release item)))))"

definition update_release :: "legacy_env \<Rightarrow> request \<Rightarrow> principal \<Rightarrow> string \<Rightarrow> release_dto \<Rightarrow> release_view legacy_handler" where
  "update_release en rq actor rid dto =
     and_then (case truthy (rd_storageKey dto) of None \<Rightarrow> ret ()
       | Some k \<Rightarrow> and_then (on_media (validate_url (le_media en) k)) (\<lambda>_. ret ())) (\<lambda>_.
     and_then (update_row lg_releases lg_releases_update (\<lambda>r. re_id r = rid)
       (\<lambda>r. r\<lparr>re_versionName := keep_or (rd_versionName dto) (re_versionName r),
         re_versionCode := keep_or (rd_versionCode dto) (re_versionCode r),
         re_storageKey := set_or (rd_storageKey dto) (re_storageKey r),
         re_originalName := keep_or (rd_originalName dto) (re_originalName r),
         re_fileSize := keep_or (rd_fileSize dto) (re_fileSize r),
         re_isActive := set_or (rd_isActive dto) (re_isActive r)\<rparr>)) (\<lambda>item.
     and_then (audit rq actor ''legacy.release_update'' ''app_release'' (Some rid) []) (\<lambda>_. ret (public_release item))))"

definition delete_release :: "request \<Rightarrow> principal \<Rightarrow> string \<Rightarrow> unit legacy_handler" where
  "delete_release rq actor rid =
     and_then (update_rows lg_releases lg_releases_update (\<lambda>r. re_id r = rid \<and> re_isActive r) (\<lambda>r. r\<lparr>re_isActive := False\<rparr>)) (\<lambda>count.
     and_then (require (count \<noteq> 0) (NotFound ''Release not found'')) (\<lambda>_.
     audit rq actor ''legacy.release_deactivate'' ''app_release'' (Some rid) []))"

definition download_release :: "legacy_env \<Rightarrow> request \<Rightarrow> string \<Rightarrow> string option
    \<Rightarrow> (provider_response \<times> string option \<times> nat option) legacy_handler" where
  "download_release en rq rid rng =
     and_then (gets (\<lambda>l. find_first (\<lambda>r. re_id r = rid \<and> re_isActive r) (lg_releases l))) (\<lambda>release.
     and_then (expect release (NotFound ''Release not found'')) (\<lambda>release.
     and_then (on_media (provider_fetch (le_media en) rq (re_storageKey release) rng)) (\<lambda>response.
     ret (response, re_originalName release, re_fileSize release))))"

section \<open>Remote configuration\<close>

definition get_remote_config :: "(string \<times> string) list legacy_handler" where
  "get_remote_config = gets (\<lambda>l. map (\<lambda>c. (kf_configKey c, kf_value c)) (sort_key kf_configKey (filter kf_isActive (lg_remoteConfig l))))"

definition list_remote_config :: "remote_config list legacy_handler" where
  "list_remote_config = gets (\<lambda>l. sort_key kf_configKey (lg_remoteConfig l))"

definition upsert_remote_config :: "request \<Rightarrow> principal \<Rightarrow> string \<Rightarrow> string \<Rightarrow> string \<Rightarrow> bool option \<Rightarrow> remote_config legacy_handler" where
  "upsert_remote_config rq actor newId configKey v isActive =
     and_then (upsert_row lg_remoteConfig lg_remoteConfig_update (\<lambda>c. kf_configKey c = configKey)
       (\<lambda>c. c\<lparr>kf_value := v, kf_isActive := set_or isActive True, kf_updatedById := Some (pr_id actor)\<rparr>)
       \<lparr>kf_id = newId, kf_configKey = configKey, kf_value = v, kf_isActive = set_or isActive True,
        kf_updatedById = Some (pr_id actor)\<rparr>) (\<lambda>item.
     and_then (audit rq actor ''legacy.remote_config_upsert'' ''remote_config'' (Some (kf_id item)) [(''configKey'', JStr configKey)]) (\<lambda>_.
     ret item))"

section \<open>Subscription settings and requests\<close>

text \<open>The row that \<open>create({ data: { id: DEFAULT_SETTINGS_ID } })\<close> makes, by the defaults of the schema.\<close>

definition default_settings :: subscription_setting where
  "default_settings =
     \<lparr>st_monthlyAmountPkr = 1000, st_currency = ''PKR'', st_defaultGroupId = None, st_jazzcashNumber = None,
      st_jazzcashTitle = None, st_easypaisaNumber = None, st_easypaisaTitle = None, st_bankName = None,
      st_bankAccountTitle = None, st_bankAccountNumber = None, st_bankIban = None, st_paymentInstructions = None,
      st_updatedById = None\<rparr>"

definition get_subscription_settings :: "subscription_setting legacy_handler" where
  "get_subscription_settings =
     and_then (gets lg_settings) (\<lambda>existing.
     case existing of
       Some x \<Rightarrow> gets (\<lambda>l. x\<lparr>st_defaultGroupId := existing_group (core l) (st_defaultGroupId x)\<rparr>)
     | None \<Rightarrow> and_then (modify (\<lambda>l. l\<lparr>lg_settings := Some default_settings\<rparr>)) (\<lambda>_. ret default_settings))"

record settings_dto =
  sd_monthlyAmountPkr :: "int option"
  sd_currency :: "string option"
  sd_defaultGroupId :: "string option"
  sd_jazzcashNumber :: "string option"
  sd_jazzcashTitle :: "string option"
  sd_easypaisaNumber :: "string option"
  sd_easypaisaTitle :: "string option"
  sd_bankName :: "string option"
  sd_bankAccountTitle :: "string option"
  sd_bankAccountNumber :: "string option"
  sd_bankIban :: "string option"
  sd_paymentInstructions :: "string option"

definition apply_settings :: "settings_dto \<Rightarrow> principal \<Rightarrow> subscription_setting \<Rightarrow> subscription_setting" where
  "apply_settings d actor x =
     \<lparr>st_monthlyAmountPkr = set_or (sd_monthlyAmountPkr d) (st_monthlyAmountPkr x),
      st_currency = set_or (sd_currency d) (st_currency x),
      st_defaultGroupId = keep_or (sd_defaultGroupId d) (st_defaultGroupId x),
      st_jazzcashNumber = keep_or (sd_jazzcashNumber d) (st_jazzcashNumber x),
      st_jazzcashTitle = keep_or (sd_jazzcashTitle d) (st_jazzcashTitle x),
      st_easypaisaNumber = keep_or (sd_easypaisaNumber d) (st_easypaisaNumber x),
      st_easypaisaTitle = keep_or (sd_easypaisaTitle d) (st_easypaisaTitle x),
      st_bankName = keep_or (sd_bankName d) (st_bankName x),
      st_bankAccountTitle = keep_or (sd_bankAccountTitle d) (st_bankAccountTitle x),
      st_bankAccountNumber = keep_or (sd_bankAccountNumber d) (st_bankAccountNumber x),
      st_bankIban = keep_or (sd_bankIban d) (st_bankIban x),
      st_paymentInstructions = keep_or (sd_paymentInstructions d) (st_paymentInstructions x),
      st_updatedById = Some (pr_id actor)\<rparr>"

definition settings_id :: string where
  "settings_id = ''00000000-0000-0000-0000-000000000001''"

definition update_subscription_settings :: "request \<Rightarrow> principal \<Rightarrow> settings_dto \<Rightarrow> subscription_setting legacy_handler" where
  "update_subscription_settings rq actor dto =
     and_then (gets (\<lambda>l. existing_group (core l) (sd_defaultGroupId dto))) (\<lambda>g.
     and_then (require (g = sd_defaultGroupId dto) (Internal ''P2003'')) (\<lambda>_.
     and_then (gets lg_settings) (\<lambda>old.
     let item = apply_settings dto actor (set_or old default_settings) in
     and_then (modify (\<lambda>l. l\<lparr>lg_settings := Some item\<rparr>)) (\<lambda>_.
     and_then (audit rq actor ''legacy.subscription_settings_update'' ''subscription_setting'' (Some settings_id) []) (\<lambda>_. ret item)))))"

record request_dto =
  qd_groupId :: "string option"
  qd_planId :: "string option"
  qd_amountPkr :: "int option"
  qd_paymentMethod :: "string option"
  qd_screenshotKey :: "string option"
  qd_note :: "string option"
  qd_monthsAdded :: "int option"

definition snapshot_of :: "subscription_setting \<Rightarrow> details_snapshot" where
  "snapshot_of x =
     \<lparr>sn_monthlyAmountPkr = st_monthlyAmountPkr x, sn_currency = st_currency x, sn_defaultGroupId = st_defaultGroupId x,
      sn_jazzcashNumber = st_jazzcashNumber x, sn_easypaisaNumber = st_easypaisaNumber x, sn_bankName = st_bankName x,
      sn_paymentInstructions = st_paymentInstructions x\<rparr>"

definition find_plan :: "state \<Rightarrow> string \<Rightarrow> subscription_plan option" where
  "find_plan s pid = find_first (\<lambda>pl. pl_id pl = pid) (subscriptionPlans s)"

text \<open>The two dates are \<open>@db.Date\<close> columns.\<close>

definition create_subscription_request :: "request \<Rightarrow> principal \<Rightarrow> string \<Rightarrow> request_dto \<Rightarrow> subscription_request legacy_handler" where
  "create_subscription_request rq actor newId dto =
     and_then get_subscription_settings (\<lambda>settings.
     let months = set_or (qd_monthsAdded dto) 1; start = rq_now rq; finish = add_months months start;
         group = keep_or (qd_groupId dto) (st_defaultGroupId settings);
         item = \<lparr>sq_id = newId, sq_userId = pr_id actor, sq_groupId = group, sq_planId = qd_planId dto,
           sq_amountPkr = set_or (qd_amountPkr dto) (st_monthlyAmountPkr settings * months), sq_currency = ''PKR'',
           sq_paymentMethod = qd_paymentMethod dto, sq_screenshotKey = qd_screenshotKey dto, sq_note = qd_note dto,
           sq_detailsSnapshot = Some (snapshot_of settings), sq_status = ''pending'', sq_adminNote = None,
           sq_invoiceNo = None, sq_monthsAdded = months, sq_subscriptionStartDate = Some (date_only start),
           sq_subscriptionEndDate = Some (date_only finish), sq_approvedById = None, sq_approvedAt = None,
           sq_rejectedAt = None, sq_createdAt = rq_now rq\<rparr> in
     and_then (gets (\<lambda>l. existing_group (core l) group = group
       \<and> (case qd_planId dto of None \<Rightarrow> True | Some p \<Rightarrow> find_plan (core l) p \<noteq> None))) (\<lambda>known.
     and_then (require known (Internal ''P2003'')) (\<lambda>_.
     and_then (insert_row lg_requests lg_requests_update sq_id item) (\<lambda>_.
     and_then (audit rq actor ''legacy.subscription_request_create'' ''subscription_request'' (Some newId) []) (\<lambda>_. ret item)))))"

definition list_subscription_requests :: "legacy_query \<Rightarrow> principal \<Rightarrow> subscription_request page legacy_handler" where
  "list_subscription_requests q actor = gets (\<lambda>l. list_page (lq_page q)
     (order_desc sq_createdAt (filter (\<lambda>r. ''subscriptions.read'' \<in> set (pr_permissions actor) \<or> sq_userId r = pr_id actor) (lg_requests l))))"

record review_dto =
  vd_status :: review
  vd_adminNote :: "string option"
  vd_subscriptionStartDate :: "instant option"
  vd_subscriptionEndDate :: "instant option"

definition upper_char :: "char \<Rightarrow> char" where
  "upper_char c = (let n = (of_char c :: nat) in if 97 \<le> n \<and> n \<le> 122 then char_of (n - 32) else c)"

definition invoice_number :: "instant \<Rightarrow> string \<Rightarrow> string" where
  "invoice_number now rid = ''UB-INV-'' @ decimal (nat now) @ ''-'' @ map upper_char (take 8 rid)"

definition invoice_of :: "request \<Rightarrow> string \<Rightarrow> subscription_request \<Rightarrow> string" where
  "invoice_of rq rid r = set_or (sq_invoiceNo r) (invoice_number (rq_now rq) rid)"

definition request_window :: "request \<Rightarrow> review_dto \<Rightarrow> subscription_request \<Rightarrow> instant \<times> instant" where
  "request_window rq dto r =
     (let start = set_or (vd_subscriptionStartDate dto) (set_or (sq_subscriptionStartDate r) (rq_now rq))
      in (start, set_or (vd_subscriptionEndDate dto)
            (set_or (sq_subscriptionEndDate r) (start + sq_monthsAdded r * 30 * ms_per_day))))"

definition is_request :: "string \<Rightarrow> subscription_request \<Rightarrow> bool" where
  "is_request rid r \<longleftrightarrow> sq_id r = rid"

definition reject_request :: "request \<Rightarrow> principal \<Rightarrow> string \<Rightarrow> review_dto \<Rightarrow> (subscription_request \<times> subscription option) legacy_handler" where
  "reject_request rq actor rid dto =
     and_then (update_row lg_requests lg_requests_update (is_request rid)
       (\<lambda>r. r\<lparr>sq_status := ''rejected'', sq_adminNote := keep_or (vd_adminNote dto) (sq_adminNote r), sq_rejectedAt := Some (rq_now rq)\<rparr>)) (\<lambda>item.
     and_then (audit rq actor ''legacy.subscription_request_reject'' ''subscription_request'' (Some rid) []) (\<lambda>_. ret (item, None)))"

text \<open>The membership that an approval writes, by the unique key of group and account.\<close>

definition upsert_membership :: "string \<Rightarrow> string \<Rightarrow> string \<Rightarrow> instant \<Rightarrow> instant \<Rightarrow> unit handler" where
  "upsert_membership newId gid uid start finish =
     and_then (gets (\<lambda>s. find_group s gid)) (\<lambda>g.
     and_then (require (g \<noteq> None) (Internal ''P2003'')) (\<lambda>_.
     modify (\<lambda>s. s\<lparr>groupMembers := (if \<exists>m\<in>set (groupMembers s). is_member gid uid m
       then update_many (is_member gid uid) (\<lambda>m. m\<lparr>gm_startsAt := start, gm_endsAt := finish, gm_revokedAt := None, gm_subscription := True\<rparr>)
         (groupMembers s)
       else groupMembers s @ [\<lparr>gm_id = newId, gm_groupId = gid, gm_userId = uid, gm_startsAt = start, gm_endsAt = finish,
         gm_revokedAt = None, gm_comment = None, gm_subscription = True\<rparr>])\<rparr>)))"

text \<open>The plan of an approved request: the one it names, or the oldest active one.\<close>

definition plan_of_request :: "state \<Rightarrow> subscription_request \<Rightarrow> subscription_plan option" where
  "plan_of_request s r = (case sq_planId r of Some p \<Rightarrow> find_plan s p
     | None \<Rightarrow> (case order_asc pl_createdAt (filter pl_isActive (subscriptionPlans s)) of [] \<Rightarrow> None | pl # _ \<Rightarrow> Some pl))"

text \<open>The subscription of an approval and its payment.\<close>

definition approved_subscription :: "request \<Rightarrow> principal \<Rightarrow> string \<Rightarrow> string \<Rightarrow> subscription_request \<Rightarrow> instant \<times> instant
    \<Rightarrow> subscription_request \<Rightarrow> subscription option handler" where
  "approved_subscription rq actor subId payId r window item =
     and_then (gets (\<lambda>s. plan_of_request s r)) (\<lambda>plan.
     case plan of None \<Rightarrow> ret None
     | Some pl \<Rightarrow>
         let sub = \<lparr>su_id = subId, su_userId = sq_userId r, su_planId = pl_id pl, su_status = Sub_ACTIVE,
               su_startsAt = fst window, su_endsAt = snd window, su_cancelledAt = None,
               su_note = Some (''Approved request '' @ sq_id item), su_createdAt = rq_now rq\<rparr>;
             payment = \<lparr>pa_id = payId, pa_userId = sq_userId r, pa_planId = Some (pl_id pl), pa_actorId = Some (pr_id actor),
               pa_amountPkr = sq_amountPkr r, pa_method = Method_OTHER, pa_status = Pay_CONFIRMED, pa_reference = sq_invoiceNo item,
               pa_proofKey = None, pa_note = None, pa_paidAt = rq_now rq\<rparr> in
         and_then (gets subscriptions) (\<lambda>t.
         and_then (require (\<forall>q\<in>set t. su_id q \<noteq> subId) (Internal ''P2002'')) (\<lambda>_.
         and_then (modify (\<lambda>s. s\<lparr>subscriptions := subscriptions s @ [sub], paymentRecords := paymentRecords s @ [payment]\<rparr>)) (\<lambda>_.
         ret (Some sub)))))"

definition approve_row :: "request \<Rightarrow> principal \<Rightarrow> string \<Rightarrow> review_dto \<Rightarrow> subscription_request \<Rightarrow> subscription_request \<Rightarrow> subscription_request" where
  "approve_row rq actor rid dto r q =
     q\<lparr>sq_status := ''approved'', sq_adminNote := keep_or (vd_adminNote dto) (sq_adminNote q),
       sq_approvedById := Some (pr_id actor), sq_approvedAt := Some (rq_now rq),
       sq_subscriptionStartDate := Some (date_only (fst (request_window rq dto r))),
       sq_subscriptionEndDate := Some (date_only (snd (request_window rq dto r))),
       sq_invoiceNo := Some (invoice_of rq rid r)\<rparr>"

text \<open>
  The transaction of an approval, with the request as it was read before. \<open>ids\<close> are the ids of the new member,
  subscription and payment.
\<close>

definition approve_request :: "request \<Rightarrow> principal \<Rightarrow> string \<times> string \<times> string \<Rightarrow> string \<Rightarrow> review_dto \<Rightarrow> subscription_request
    \<Rightarrow> (subscription_request \<times> subscription option) legacy_handler" where
  "approve_request rq actor ids rid dto r =
     (let window = request_window rq dto r; (memberId, subId, payId) = ids in
      transaction
        (and_then (gets lg_requests) (\<lambda>others.
         and_then (require (\<forall>q\<in>set others. \<not> is_request rid q \<longrightarrow> sq_invoiceNo q \<noteq> Some (invoice_of rq rid r)) (Internal ''P2002'')) (\<lambda>_.
         and_then (update_row lg_requests lg_requests_update (is_request rid) (approve_row rq actor rid dto r)) (\<lambda>item.
         and_then (case sq_groupId r of None \<Rightarrow> ret ()
           | Some g \<Rightarrow> in_core (upsert_membership memberId g (sq_userId r) (fst window) (snd window))) (\<lambda>_.
         and_then (in_core (approved_subscription rq actor subId payId r window item)) (\<lambda>sub.
         ret (item, sub))))))))"

text \<open>What the handler reads and checks, and what it does with the row it read.\<close>

definition read_request :: "string \<Rightarrow> subscription_request legacy_handler" where
  "read_request rid =
     and_then (gets (\<lambda>l. map_option (\<lambda>r. r\<lparr>sq_groupId := existing_group (core l) (sq_groupId r)\<rparr>)
       (find_first (is_request rid) (lg_requests l)))) (\<lambda>r.
     and_then (expect r (NotFound ''Subscription request not found'')) (\<lambda>r.
     and_then (require (sq_status r = ''pending'') (Conflict ''Subscription request was already reviewed'')) (\<lambda>_. ret r)))"

definition decide_request :: "request \<Rightarrow> principal \<Rightarrow> string \<times> string \<times> string \<Rightarrow> string \<Rightarrow> review_dto \<Rightarrow> subscription_request
    \<Rightarrow> (subscription_request \<times> subscription option) legacy_handler" where
  "decide_request rq actor ids rid dto r =
     (if vd_status dto = Rejected then reject_request rq actor rid dto
      else and_then (require (fst (request_window rq dto r) < snd (request_window rq dto r)) (BadRequest ''Subscription dates are invalid'')) (\<lambda>_.
        and_then (approve_request rq actor ids rid dto r) (\<lambda>result.
        and_then (audit rq actor ''legacy.subscription_request_approve'' ''subscription_request'' (Some rid) []) (\<lambda>_. ret result))))"

definition review_subscription_request :: "request \<Rightarrow> principal \<Rightarrow> string \<times> string \<times> string \<Rightarrow> string \<Rightarrow> review_dto
    \<Rightarrow> (subscription_request \<times> subscription option) legacy_handler" where
  "review_subscription_request rq actor ids rid dto = and_then (read_request rid) (decide_request rq actor ids rid dto)"

section \<open>Security blocks and incidents\<close>

definition get_security_block :: "principal \<Rightarrow> (bool \<times> string option) legacy_handler" where
  "get_security_block actor = gets (\<lambda>l. case find_first (\<lambda>b. bk_userId b = pr_id actor) (lg_blocks l) of
     None \<Rightarrow> (False, None) | Some b \<Rightarrow> (bk_isBlocked b, bk_message b))"

definition set_security_block :: "request \<Rightarrow> principal \<Rightarrow> string \<Rightarrow> bool \<Rightarrow> string option \<Rightarrow> security_block legacy_handler" where
  "set_security_block rq actor uid isBlocked message =
     (let blockedAt = (if isBlocked then Some (rq_now rq) else None) in
      and_then (ensure_account uid) (\<lambda>_.
      and_then (upsert_row lg_blocks lg_blocks_update (\<lambda>b. bk_userId b = uid)
        (\<lambda>b. b\<lparr>bk_isBlocked := isBlocked, bk_message := keep_or message (bk_message b),
          bk_blockedById := Some (pr_id actor), bk_blockedAt := blockedAt\<rparr>)
        \<lparr>bk_userId = uid, bk_isBlocked = isBlocked, bk_message = message, bk_blockedById = Some (pr_id actor),
         bk_blockedAt = blockedAt\<rparr>) (\<lambda>item.
      and_then (audit rq actor (if isBlocked then ''legacy.security_block'' else ''legacy.security_unblock'') ''security_block'' (Some uid) []) (\<lambda>_.
      ret item))))"

definition report_incident :: "request \<Rightarrow> principal \<Rightarrow> string \<Rightarrow> incident_dto \<Rightarrow> string legacy_handler" where
  "report_incident rq actor newId dto =
     and_then (insert_row lg_incidents lg_incidents_update inc_id
       \<lparr>inc_id = newId, inc_userId = Some (pr_id actor), inc_incidentType = ind_incidentType dto,
        inc_incidentLabel = ind_incidentLabel dto, inc_appArea = ind_appArea dto, inc_device = ind_device dto,
        inc_severity = set_or (ind_severity dto) ''info'', inc_ipAddress = Some (rq_ip rq), inc_createdAt = rq_now rq\<rparr>) (\<lambda>_.
     and_then (audit rq actor ''legacy.security_incident_report'' ''security_incident'' (Some newId) []) (\<lambda>_. ret newId))"

definition list_incidents :: "legacy_query \<Rightarrow> security_incident page legacy_handler" where
  "list_incidents q = gets (\<lambda>l. list_page (lq_page q) (order_desc inc_createdAt (lg_incidents l)))"

definition delete_incident :: "request \<Rightarrow> principal \<Rightarrow> string \<Rightarrow> unit legacy_handler" where
  "delete_incident rq actor iid =
     and_then (delete_rows lg_incidents lg_incidents_update (\<lambda>i. inc_id i = iid)) (\<lambda>count.
     and_then (require (count \<noteq> 0) (NotFound ''Security incident not found'')) (\<lambda>_.
     audit rq actor ''legacy.security_incident_delete'' ''security_incident'' (Some iid) []))"

section \<open>Comments\<close>

definition list_comments :: "string \<Rightarrow> legacy_query \<Rightarrow> (content_comment \<times> user option) page legacy_handler" where
  "list_comments eid q = gets (\<lambda>l. list_page (lq_page q)
     (map (\<lambda>c. (c, find_user (core l) (cm_userId c)))
       (order_desc cm_createdAt (filter (\<lambda>c. cm_episodeId c = Some eid \<and> cm_status c = ''visible'') (lg_comments l)))))"

text \<open>The group of a comment has no foreign key.\<close>

definition create_comment :: "request \<Rightarrow> principal \<Rightarrow> string \<Rightarrow> string option \<Rightarrow> string option \<Rightarrow> string \<Rightarrow> content_comment legacy_handler" where
  "create_comment rq actor newId eid gid body =
     (let item = \<lparr>cm_id = newId, cm_userId = pr_id actor, cm_episodeId = eid, cm_groupId = gid, cm_body = trim body,
        cm_status = ''visible'', cm_createdAt = rq_now rq\<rparr> in
      and_then (require (\<not> (truthy eid = None \<and> truthy gid = None)) (BadRequest ''episodeId or groupId is required'')) (\<lambda>_.
      and_then (gets (\<lambda>l. case eid of None \<Rightarrow> True | Some e \<Rightarrow> \<exists>x\<in>set (episodes (core l)). ep_id x = e)) (\<lambda>known.
      and_then (require known (Internal ''P2003'')) (\<lambda>_.
      and_then (insert_row lg_comments lg_comments_update cm_id item) (\<lambda>_.
      and_then (audit rq actor ''legacy.comment_create'' ''content_comment'' (Some newId) []) (\<lambda>_. ret item))))))"

text \<open>The check that \<open>updateComment\<close> and \<open>deleteComment\<close> share.\<close>

definition own_comment :: "principal \<Rightarrow> string \<Rightarrow> content_comment legacy_handler" where
  "own_comment actor cid =
     and_then (gets (\<lambda>l. find_first (\<lambda>c. cm_id c = cid) (lg_comments l))) (\<lambda>c.
     and_then (expect c (NotFound ''Comment not found'')) (\<lambda>c.
     and_then (require (\<not> (cm_userId c \<noteq> pr_id actor \<and> ''content.write'' \<notin> set (pr_permissions actor)))
       (BadRequest ''Comment access denied'')) (\<lambda>_. ret c)))"

definition update_comment :: "request \<Rightarrow> principal \<Rightarrow> string \<Rightarrow> string option \<Rightarrow> string option \<Rightarrow> content_comment legacy_handler" where
  "update_comment rq actor cid body status =
     and_then (own_comment actor cid) (\<lambda>_.
     and_then (update_row lg_comments lg_comments_update (\<lambda>c. cm_id c = cid)
       (\<lambda>c. c\<lparr>cm_body := set_or (map_option trim body) (cm_body c), cm_status := set_or status (cm_status c)\<rparr>)) (\<lambda>item.
     and_then (audit rq actor ''legacy.comment_update'' ''content_comment'' (Some cid) []) (\<lambda>_. ret item)))"

definition delete_comment :: "request \<Rightarrow> principal \<Rightarrow> string \<Rightarrow> unit legacy_handler" where
  "delete_comment rq actor cid =
     and_then (own_comment actor cid) (\<lambda>_.
     and_then (update_row lg_comments lg_comments_update (\<lambda>c. cm_id c = cid) (\<lambda>c. c\<lparr>cm_status := ''hidden''\<rparr>)) (\<lambda>_.
     audit rq actor ''legacy.comment_delete'' ''content_comment'' (Some cid) []))"

section \<open>Views, dashboard, search\<close>

definition record_view :: "request \<Rightarrow> principal \<Rightarrow> string \<Rightarrow> string \<Rightarrow> video_view legacy_handler" where
  "record_view rq actor newId eid =
     (let item = \<lparr>vw_id = newId, vw_episodeId = eid, vw_userId = pr_id actor, vw_viewedAt = rq_now rq,
        vw_ipAddress = Some (rq_ip rq), vw_userAgent = Some (take 512 (rq_userAgent rq))\<rparr> in
      and_then (gets (\<lambda>l. \<exists>e\<in>set (episodes (core l)). ep_id e = eid \<and> ep_deletedAt e = None)) (\<lambda>known.
      and_then (require known (NotFound ''Episode not found'')) (\<lambda>_.
      and_then (insert_row lg_views lg_views_update vw_id item) (\<lambda>_. ret item))))"

definition analytics :: "legacy_query \<Rightarrow> (video_view page \<times> nat) legacy_handler" where
  "analytics q = gets (\<lambda>l.
     let rows = filter (\<lambda>v. truthy (lq_search q) = None \<or> (\<exists>e\<in>set (episodes (core l)). ep_id e = vw_episodeId v
           \<and> (case ep_title e of None \<Rightarrow> False | Some t \<Rightarrow> matches_search q [t]))) (lg_views l)
     in (list_page (lq_page q) (order_desc vw_viewedAt rows), card (set (map vw_userId rows))))"

record dashboard_view =
  db_users :: nat
  db_activeUsers :: nat
  db_dramas :: nat
  db_seasons :: nat
  db_episodes :: nat
  db_activeSubscriptions :: nat
  db_views :: nat
  db_pendingSubscriptionRequests :: nat
  db_unreadMessages :: nat

definition dashboard :: "request \<Rightarrow> dashboard_view legacy_handler" where
  "dashboard rq = gets (\<lambda>l.
     \<lparr>db_users = count_where (\<lambda>u. u_deletedAt u = None) (users (core l)),
      db_activeUsers = count_where (\<lambda>u. u_status u = User_ACTIVE \<and> u_deletedAt u = None) (users (core l)),
      db_dramas = count_where (\<lambda>d. dr_deletedAt d = None) (dramas (core l)),
      db_seasons = count_where (\<lambda>x. se_deletedAt x = None) (seasons (core l)),
      db_episodes = count_where (\<lambda>e. ep_deletedAt e = None) (episodes (core l)),
      db_activeSubscriptions = count_where (\<lambda>q. su_status q = Sub_ACTIVE \<and> rq_now rq < su_endsAt q) (subscriptions (core l)),
      db_views = length (lg_views l),
      db_pendingSubscriptionRequests = count_where (\<lambda>r. sq_status r = ''pending'') (lg_requests l),
      db_unreadMessages = count_where (\<lambda>m. mg_status m = ''unread'') (lg_messages l)\<rparr>)"

record search_result =
  sr_dramas :: "drama list"
  sr_seasons :: "season list"
  sr_episodes :: "episode list"
  sr_users :: "user list"

definition column_contains :: "string \<Rightarrow> string option \<Rightarrow> bool" where
  "column_contains p c \<longleftrightarrow> (case c of None \<Rightarrow> False | Some t \<Rightarrow> contains_ci t p)"

text \<open>Without an order the database may return any rows; here they are the first.\<close>

definition search :: "principal \<Rightarrow> nat \<Rightarrow> string \<Rightarrow> search_result legacy_handler" where
  "search actor limit q = gets (\<lambda>l. let term = trim q in
     \<lparr>sr_dramas = take limit (filter (\<lambda>d. contains_ci (dr_name d) term \<and> dr_deletedAt d = None) (dramas (core l))),
      sr_seasons = take limit (filter (\<lambda>x. column_contains term (se_title x) \<and> se_deletedAt x = None) (seasons (core l))),
      sr_episodes = take limit (filter (\<lambda>e. (column_contains term (ep_title e) \<or> column_contains term (ep_description e))
        \<and> ep_deletedAt e = None) (episodes (core l))),
      sr_users = (if ''users.read'' \<in> set (pr_permissions actor)
        then take limit (filter (\<lambda>u. (contains_ci (u_username u) term \<or> contains_ci (u_email u) term) \<and> u_deletedAt u = None) (users (core l)))
        else [])\<rparr>)"

section \<open>Administrators\<close>

definition admin_roles :: "role_code list" where
  "admin_roles = [SUPER_ADMIN, ADMIN, SUB_ADMIN, MODERATOR]"

definition list_admins :: "legacy_query \<Rightarrow> (user \<times> (role_code \<times> string) list) page legacy_handler" where
  "list_admins q = gets (\<lambda>l. list_page (lq_page q)
     (map (\<lambda>u. (u, map (\<lambda>ro. (ro_code ro, ro_name ro)) (roles_of_user (core l) (u_id u))))
       (order_desc u_createdAt (filter (\<lambda>u. u_deletedAt u = None
         \<and> (\<exists>ro\<in>set (roles_of_user (core l) (u_id u)). ro_code ro \<in> set admin_roles)) (users (core l))))))"

definition create_admin :: "platform \<Rightarrow> request \<Rightarrow> principal \<Rightarrow> string \<Rightarrow> string \<Rightarrow> string \<Rightarrow> string \<Rightarrow> role_code \<Rightarrow> user legacy_handler" where
  "create_admin pf rq actor uid username email0 password role =
     (let created = \<lparr>u_id = uid, u_username = trim username, u_email = normalize_email email0,
        u_passwordHash = pf_argonHash pf password, u_status = User_ACTIVE, u_profileImageKey = None,
        u_failedLoginCount = 0, u_lockedUntil = None, u_lastLoginAt = None, u_createdAt = rq_now rq,
        u_deletedAt = None, u_deviceToken = None\<rparr> in
      and_then (require (role \<in> set admin_roles \<and> role \<noteq> SUPER_ADMIN)
        (BadRequest ''Only non-owner administrative roles can be created here'')) (\<lambda>_.
      catch_error
        (and_then (in_core (transaction
           (and_then (create_user created) (\<lambda>_.
            and_then (gets (\<lambda>s. role_by_code s role)) (\<lambda>ro.
            and_then (expect ro (Internal ''P2025'')) (\<lambda>ro.
            create_user_role \<lparr>ur_userId = uid, ur_roleId = ro_id ro\<rparr>)))))) (\<lambda>_.
         and_then (audit rq actor ''legacy.admin_create'' ''user'' (Some uid) [(''role'', JStr (role_text role))]) (\<lambda>_.
         ret created)))
        (\<lambda>e. throw (if e = Internal ''P2002'' then Conflict ''Email or username is already in use'' else e))))"

definition assign_admin_role :: "request \<Rightarrow> principal \<Rightarrow> string \<Rightarrow> role_code \<Rightarrow> unit legacy_handler" where
  "assign_admin_role rq actor uid role =
     and_then (require (role \<in> set admin_roles) (BadRequest ''Invalid administrative role'')) (\<lambda>_.
     and_then (ensure_account uid) (\<lambda>_.
     and_then (gets (\<lambda>l. role_by_code (core l) role)) (\<lambda>ro.
     and_then (expect ro (NotFound ''Role not found'')) (\<lambda>ro.
     and_then (in_core (modify (\<lambda>s. let row = \<lparr>ur_userId = uid, ur_roleId = ro_id ro\<rparr> in
       s\<lparr>userRoles := (if row \<in> set (userRoles s) then userRoles s else userRoles s @ [row])\<rparr>))) (\<lambda>_.
     audit rq actor ''legacy.admin_role_assign'' ''user'' (Some uid) [(''role'', JStr (role_text role))])))))"

definition remove_admin_role :: "request \<Rightarrow> principal \<Rightarrow> string \<Rightarrow> role_code \<Rightarrow> unit legacy_handler" where
  "remove_admin_role rq actor uid role =
     and_then (require (role \<noteq> SUPER_ADMIN) (BadRequest ''Super admin role cannot be removed through this endpoint'')) (\<lambda>_.
     and_then (gets (\<lambda>l. role_by_code (core l) role)) (\<lambda>ro.
     and_then (expect ro (NotFound ''Role not found'')) (\<lambda>ro.
     let mine = (\<lambda>ur. ur_userId ur = uid \<and> ur_roleId ur = ro_id ro) in
     and_then (gets (\<lambda>l. count_where mine (userRoles (core l)))) (\<lambda>count.
     and_then (in_core (modify (\<lambda>s. s\<lparr>userRoles := delete_many mine (userRoles s)\<rparr>))) (\<lambda>_.
     and_then (require (count \<noteq> 0) (NotFound ''Administrative role assignment not found'')) (\<lambda>_.
     audit rq actor ''legacy.admin_role_remove'' ''user'' (Some uid) [(''role'', JStr (role_text role))]))))))"

end
