(* ===== verification/LegacyProps.thy ===== *)
theory LegacyProps
  imports Legacy
begin

text \<open>
  What the legacy service guarantees: the integrity of its tables under every request, in whatever order; the
  window and the effect of a subscription request; that a request is reviewed once; and that an approved deletion
  request closes the account at once.
\<close>

section \<open>Keyed tables\<close>

named_theorems legacy_keeps "handlers that keep the integrity of the tables"

text \<open>Handlers that begin with a row operation.\<close>

lemma run_rows:
  "and_then (insert_row sel upd k r) c l =
     (if \<forall>q\<in>set (sel l). k q \<noteq> k r then c () (upd (\<lambda>t. t @ [r]) l) else (Inl (Internal ''P2002''), l))"
  "and_then (update_row sel upd P f) c' l =
     (case find_first P (sel l) of None \<Rightarrow> (Inl (Internal ''P2025''), l) | Some q \<Rightarrow> c' (f q) (upd (update_many P f) l))"
  "and_then (audit rq a x y z meta) c l =
     c () (set_core l ((core l)\<lparr>auditEvents := auditEvents (core l) @ [audit_input rq (Some (pr_id a)) x y z SUCCESS meta]\<rparr>))"
  by (simp_all add: insert_row_def update_row_def audit_def and_then_in_core and_then_assoc del: find_first_None split: option.split)

lemma keeps_insert_row:
  "(\<And>l. I l \<Longrightarrow> \<forall>q\<in>set (sel l). k q \<noteq> k r \<Longrightarrow> I (upd (\<lambda>t. t @ [r]) l)) \<Longrightarrow> keeps I (insert_row sel upd k r)"
  by (auto simp: keeps_def insert_row_def)

lemma keeps_update_row: "(\<And>l. I l \<Longrightarrow> I (upd (update_many P f) l)) \<Longrightarrow> keeps I (update_row sel upd P f)"
  by (auto simp: keeps_def update_row_def split: option.split)

lemma keeps_update_rows: "(\<And>l. I l \<Longrightarrow> I (upd (update_many P f) l)) \<Longrightarrow> keeps I (update_rows sel upd P f)"
  by (auto simp: keeps_def update_rows_def)

lemma keeps_delete_rows: "(\<And>l. I l \<Longrightarrow> I (upd (delete_many P) l)) \<Longrightarrow> keeps I (delete_rows sel upd P)"
  by (auto simp: keeps_def delete_rows_def)

lemma keeps_upsert_row:
  "(\<And>l. I l \<Longrightarrow> I (upd (update_many P f) l)) \<Longrightarrow> (\<And>l. I l \<Longrightarrow> \<forall>q\<in>set (sel l). \<not> P q \<Longrightarrow> I (upd (\<lambda>t. t @ [new]) l))
    \<Longrightarrow> keeps I (upsert_row sel upd P f new)"
  by (auto simp: keeps_def upsert_row_def split: option.split)

lemma keeps_on_media: "(\<And>l ms. I l \<Longrightarrow> I (l\<lparr>lg_media := ms\<rparr>)) \<Longrightarrow> keeps I (on_media m)"
  by (auto simp: keeps_def on_media_def split: prod.split)

lemma keeps_in_core: "(\<And>l ms. I l \<Longrightarrow> I (l\<lparr>lg_media := ms\<rparr>)) \<Longrightarrow> keeps I (in_core m)"
  unfolding in_core_def by (rule keeps_on_media)

lemma keeps_audit: "(\<And>l ms. I l \<Longrightarrow> I (l\<lparr>lg_media := ms\<rparr>)) \<Longrightarrow> keeps I (audit rq a x y z meta)"
  unfolding audit_def by (rule keeps_in_core)

lemma keeps_send_push: "(\<And>l f. I l \<Longrightarrow> I (lg_pushed_update f l)) \<Longrightarrow> keeps I (send_push en tokens title body data)"
  by (auto simp: keeps_def send_push_def Let_def split: option.split)

text \<open>
  A table with a unique key, as a client of \<open>upsert\<close> sees it: what is read under the key afterwards is the row that
  the call returned, and the rows under other keys are as before.
\<close>

locale keyed_table =
  fixes sel :: "legacy_state \<Rightarrow> 'r list"
    and upd :: "('r list \<Rightarrow> 'r list) \<Rightarrow> legacy_state \<Rightarrow> legacy_state"
    and key :: "'r \<Rightarrow> 'k"
  assumes sel_upd: "sel (upd f l) = f (sel l)"
begin

lemma upsert_read_back:
  assumes "\<And>r. P r \<longleftrightarrow> key r = x" and "key new = x" and "\<And>r. key (f r) = key r"
    and "upsert_row sel upd P f new l = (Inr r, l')"
  shows "find_first P (sel l') = Some r" and "key y \<noteq> x \<Longrightarrow> y \<in> set (sel l') \<longleftrightarrow> y \<in> set (sel l)"
proof -
  have fst_upd: "find_first P (update_many P f t) = map_option f (find_first P t)" for t
    by (induction t) (use assms in auto)
  have fst_new: "find_first P (t @ [new]) = Some new" if "\<forall>r\<in>set t. \<not> P r" for t
    using that assms(1,2) by (induction t) auto
  show "find_first P (sel l') = Some r"
  proof (cases "find_first P (sel l)")
    case None
    then have "r = new" "l' = upd (\<lambda>t. t @ [new]) l"
      using assms(4) by (simp_all add: upsert_row_def eq_commute del: find_first_None)
    then show ?thesis using fst_new [of "sel l"] None by (simp add: sel_upd)
  next
    case (Some q)
    then have "r = f q" "l' = upd (update_many P f) l" using assms(4) by (simp_all add: upsert_row_def)
    then show ?thesis using fst_upd [of "sel l"] Some by (simp add: sel_upd)
  qed
  show "y \<in> set (sel l') \<longleftrightarrow> y \<in> set (sel l)" if "key y \<noteq> x"
    using assms that by (auto simp: upsert_row_def sel_upd split: option.splits if_splits)
qed

text \<open>An invariant that asks of the table only that its keys are distinct is kept by \<open>upsert\<close>.\<close>

lemma upsert_keeps:
  assumes "\<And>r. P r \<longleftrightarrow> key r = x" and "key new = x" and "\<And>r. key (f r) = key r"
    and table: "\<And>l g. I l \<Longrightarrow> distinct (map key (g (sel l))) \<Longrightarrow> I (upd g l)"
    and keys: "\<And>l. I l \<Longrightarrow> distinct (map key (sel l))"
  shows "keeps I (upsert_row sel upd P f new)"
proof (rule keeps_upsert_row)
  fix l assume "I l"
  then show "I (upd (update_many P f) l)" using keys [of l] assms(3) by (intro table) (simp_all add: map_update_many)
  assume "\<forall>q\<in>set (sel l). \<not> P q"
  then have "x \<notin> key ` set (sel l)" using assms(1) by auto
  with \<open>I l\<close> show "I (upd (\<lambda>t. t @ [new]) l)" using keys [of l] assms(2) by (intro table) simp_all
qed

end

interpretation favorites: keyed_table lg_favorites lg_favorites_update "\<lambda>f. (fv_userId f, fv_dramaId f)"
  by unfold_locales simp

interpretation recipients: keyed_table lg_recipients lg_recipients_update "\<lambda>r. (nr_notificationId r, nr_userId r)"
  by unfold_locales simp

interpretation blocks: keyed_table lg_blocks lg_blocks_update bk_userId
  by unfold_locales simp

interpretation configs: keyed_table lg_remoteConfig lg_remoteConfig_update kf_configKey
  by unfold_locales simp

section \<open>The integrity of the tables\<close>

text \<open>The values that the status columns may have; in the schema they are plain strings.\<close>

definition review_statuses :: "string set" where
  "review_statuses = {''pending'', ''approved'', ''rejected''}"

definition deletions_ok :: "deletion_request list \<Rightarrow> bool" where
  "deletions_ok t \<longleftrightarrow> distinct (map dq_id t) \<and> (\<forall>q\<in>set t. dq_status q \<in> review_statuses \<and> (dq_status q = ''pending'' \<longleftrightarrow> dq_reviewedAt q = None))
     \<and> distinct (map dq_userId (filter (\<lambda>q. dq_status q = ''pending'') t))"

definition requests_ok :: "subscription_request list \<Rightarrow> bool" where
  "requests_ok t \<longleftrightarrow> distinct (map sq_id t) \<and> (\<forall>q\<in>set t. sq_status q \<in> review_statuses
     \<and> (sq_status q = ''approved'' \<longrightarrow> sq_approvedById q \<noteq> None \<and> sq_invoiceNo q \<noteq> None))"

definition trending_ok :: "trending_drama list \<Rightarrow> bool" where
  "trending_ok t \<longleftrightarrow> distinct (map tg_id t) \<and> distinct (map tg_dramaId t) \<and> distinct (map tg_position t)"

definition legacy_inv :: "legacy_state \<Rightarrow> bool" where
  "legacy_inv l \<longleftrightarrow> deletions_ok (lg_deletionRequests l) \<and> requests_ok (lg_requests l) \<and> trending_ok (lg_trending l)
     \<and> distinct (map (\<lambda>f. (fv_userId f, fv_dramaId f)) (lg_favorites l))
     \<and> distinct (map (\<lambda>r. (nr_notificationId r, nr_userId r)) (lg_recipients l))
     \<and> distinct (map bk_userId (lg_blocks l)) \<and> distinct (map kf_configKey (lg_remoteConfig l))
     \<and> (\<forall>m\<in>set (lg_messages l). mg_status m \<in> {''unread'', ''read''})
     \<and> (\<forall>c\<in>set (lg_comments l). cm_status c \<in> {''visible'', ''hidden''})"

lemma legacy_inv_other [simp]:
  "legacy_inv (l\<lparr>lg_media := ms\<rparr>) = legacy_inv l" "legacy_inv (lg_notifications_update f l) = legacy_inv l"
  "legacy_inv (lg_banners_update g l) = legacy_inv l" "legacy_inv (lg_releases_update h l) = legacy_inv l"
  "legacy_inv (l\<lparr>lg_settings := st\<rparr>) = legacy_inv l" "legacy_inv (lg_incidents_update i l) = legacy_inv l"
  "legacy_inv (lg_views_update j l) = legacy_inv l" "legacy_inv (lg_pushed_update p l) = legacy_inv l"
  by (simp_all add: legacy_inv_def)

text \<open>Every table on its own.\<close>

lemma legacy_inv_tables:
  assumes "legacy_inv l"
  shows "deletions_ok (f1 (lg_deletionRequests l)) \<Longrightarrow> legacy_inv (lg_deletionRequests_update f1 l)"
    and "requests_ok (f2 (lg_requests l)) \<Longrightarrow> legacy_inv (lg_requests_update f2 l)"
    and "trending_ok (f3 (lg_trending l)) \<Longrightarrow> legacy_inv (lg_trending_update f3 l)"
    and "distinct (map (\<lambda>f. (fv_userId f, fv_dramaId f)) (f4 (lg_favorites l))) \<Longrightarrow> legacy_inv (lg_favorites_update f4 l)"
    and "distinct (map (\<lambda>r. (nr_notificationId r, nr_userId r)) (f5 (lg_recipients l))) \<Longrightarrow> legacy_inv (lg_recipients_update f5 l)"
    and "distinct (map bk_userId (f6 (lg_blocks l))) \<Longrightarrow> legacy_inv (lg_blocks_update f6 l)"
    and "distinct (map kf_configKey (f7 (lg_remoteConfig l))) \<Longrightarrow> legacy_inv (lg_remoteConfig_update f7 l)"
    and "(\<And>m. m \<in> set (f8 (lg_messages l)) \<Longrightarrow> mg_status m \<in> {''unread'', ''read''}) \<Longrightarrow> legacy_inv (lg_messages_update f8 l)"
    and "(\<And>c. c \<in> set (f9 (lg_comments l)) \<Longrightarrow> cm_status c \<in> {''visible'', ''hidden''}) \<Longrightarrow> legacy_inv (lg_comments_update f9 l)"
  using assms by (simp_all add: legacy_inv_def)

lemmas legacy_inv_rows = keeps_update_row keeps_update_rows keeps_delete_rows keeps_insert_row keeps_upsert_row

lemma keeps_plain [legacy_keeps]:
  "keeps legacy_inv (in_core m)" "keeps legacy_inv (on_media m')" "keeps legacy_inv (audit rq a x y z meta)"
  "keeps legacy_inv (send_push en tokens title body data)" "keeps legacy_inv (ensure_account uid)" "keeps legacy_inv (ensure_drama did)"
  "keeps legacy_inv (push_to_user en uid title body data)"
  by (auto simp: ensure_account_def ensure_drama_def push_to_user_def
    intro!: keeps_in_core keeps_on_media keeps_audit keeps_send_push keeps_rules)

lemma deletions_ok_review:
  assumes "deletions_ok t"
  shows "deletions_ok (update_many (\<lambda>q. dq_id q = qid)
    (\<lambda>q. q\<lparr>dq_status := review_text v, dq_adminNote := n q, dq_reviewedById := b, dq_reviewedAt := Some a\<rparr>) t)"
proof -
  let ?f = "\<lambda>q. q\<lparr>dq_status := review_text v, dq_adminNote := n q, dq_reviewedById := b, dq_reviewedAt := Some a\<rparr>"
  have st: "review_text v \<in> review_statuses" "review_text v \<noteq> ''pending''"
    by (cases v; simp add: review_text_def review_statuses_def)+
  have "filter (\<lambda>q. dq_status q = ''pending'') (update_many (\<lambda>q. dq_id q = qid) ?f t)
      = filter (\<lambda>q. dq_id q \<noteq> qid) (filter (\<lambda>q. dq_status q = ''pending'') t)"
    using st(2) by (induction t) auto
  then show ?thesis using assms st unfolding deletions_ok_def
    by (simp add: map_update_many distinct_map_filter del: filter_filter) auto
qed

lemma deletions_ok_new:
  "deletions_ok t \<Longrightarrow> \<forall>q\<in>set t. dq_id q \<noteq> newId \<Longrightarrow> \<forall>q\<in>set t. \<not> pending_deletion uid q \<Longrightarrow>
    deletions_ok (t @ [\<lparr>dq_id = newId, dq_userId = uid, dq_reason = x, dq_status = ''pending'', dq_adminNote = None,
      dq_reviewedById = None, dq_reviewedAt = None, dq_createdAt = now\<rparr>])"
  by (auto simp: deletions_ok_def review_statuses_def pending_deletion_def)

lemma requests_ok_new: "requests_ok t \<Longrightarrow> \<forall>q\<in>set t. sq_id q \<noteq> sq_id r \<Longrightarrow> sq_status r = ''pending'' \<Longrightarrow> requests_ok (t @ [r])"
  by (auto simp: requests_ok_def review_statuses_def)

lemma requests_ok_update:
  "requests_ok t \<Longrightarrow> (\<And>q. sq_id (f q) = sq_id q) \<Longrightarrow> (\<And>q. sq_status (f q) \<in> review_statuses)
    \<Longrightarrow> (\<And>q. sq_status (f q) = ''approved'' \<Longrightarrow> sq_approvedById (f q) \<noteq> None \<and> sq_invoiceNo (f q) \<noteq> None)
    \<Longrightarrow> requests_ok (update_many P f t)"
  by (auto simp: requests_ok_def map_update_many)

lemma keeps_notifications [legacy_keeps]:
  "keeps legacy_inv (create_notification rq p i x y z)" "keeps legacy_inv (update_notification rq p i x y z)"
  "keeps legacy_inv (delete_notification rq p i)" "keeps legacy_inv (send_notification en rq p i)"
  unfolding create_notification_def update_notification_def delete_notification_def send_notification_def Let_def
  by (auto intro!: keeps_rules legacy_keeps legacy_inv_rows)

lemma legacy_inv_keys:
  assumes "legacy_inv l"
  shows "distinct (map (\<lambda>f. (fv_userId f, fv_dramaId f)) (lg_favorites l))"
    and "distinct (map (\<lambda>r. (nr_notificationId r, nr_userId r)) (lg_recipients l))"
    and "distinct (map bk_userId (lg_blocks l))" and "distinct (map kf_configKey (lg_remoteConfig l))"
  using assms by (simp_all add: legacy_inv_def)

lemma keeps_read [legacy_keeps]: "keeps legacy_inv (mark_notification_read rq p i)"
  unfolding mark_notification_read_def
  by (intro keeps_rules legacy_keeps recipients.upsert_keeps [where x = "(i, pr_id p)"] legacy_inv_tables legacy_inv_keys) auto

lemma keeps_favorites [legacy_keeps]: "keeps legacy_inv (add_favorite rq p i d)" "keeps legacy_inv (remove_favorite rq p d)"
  unfolding add_favorite_def remove_favorite_def
  by (intro keeps_rules legacy_keeps keeps_delete_rows favorites.upsert_keeps [where x = "(pr_id p, d)"] legacy_inv_tables legacy_inv_keys
    distinct_map_delete; auto simp: is_favorite_def)+

lemma legacy_inv_messages: "legacy_inv l \<Longrightarrow> m \<in> set (lg_messages l) \<Longrightarrow> mg_status m = ''unread'' \<or> mg_status m = ''read''"
  by (auto simp: legacy_inv_def)

lemma legacy_inv_comments: "legacy_inv l \<Longrightarrow> m \<in> set (lg_comments l) \<Longrightarrow> cm_status m = ''visible'' \<or> cm_status m = ''hidden''"
  by (auto simp: legacy_inv_def)

lemma keeps_new_message: "keeps legacy_inv (insert_row lg_messages lg_messages_update mg_id (new_message rq p g m i u))"
  by (rule keeps_insert_row) (auto intro!: legacy_inv_tables simp: new_message_def dest: legacy_inv_messages)

lemma keeps_for_each_set: "(\<And>x. x \<in> set xs \<Longrightarrow> keeps I (f x)) \<Longrightarrow> keeps I (for_each xs f)"
  by (induction xs) (auto intro!: keeps_rules)

lemma keeps_message_rows:
  "keeps legacy_inv (for_each (map (\<lambda>(j, u). new_message rq p g m (ids j) u) us) (insert_row lg_messages lg_messages_update mg_id))"
  by (rule keeps_for_each_set) (auto intro!: keeps_new_message)

lemma keeps_messages [legacy_keeps]:
  "keeps legacy_inv (mark_messages_read rq p j)" "keeps legacy_inv (send_message en rq p i u m)"
  "keeps legacy_inv (send_group_message en rq p ids g m)" "keeps legacy_inv (send_admin_notification en rq p m)"
  "keeps legacy_inv (send_mobile_support_message rq p i m)"
  unfolding mark_messages_read_def send_message_def send_group_message_def send_admin_notification_def
    send_mobile_support_message_def Let_def
  by (auto intro!: keeps_message_rows keeps_new_message keeps_rules legacy_keeps keeps_update_rows legacy_inv_tables(8)
    dest: legacy_inv_messages split: if_splits)

lemma keeps_deletions [legacy_keeps]:
  "keeps legacy_inv (request_account_deletion rq p i x)" "keeps legacy_inv (review_deletion_request rq p i v n)"
proof -
  show "keeps legacy_inv (request_account_deletion rq p i x)"
  proof (rule keepsI)
    fix l assume inv: "legacy_inv l"
    then have "deletions_ok (lg_deletionRequests l)" by (simp add: legacy_inv_def)
    from deletions_ok_new [OF this] inv show "legacy_inv (snd (request_account_deletion rq p i x l))"
      by (auto simp: request_account_deletion_def insert_row_def audit_def and_then_in_core and_then_assoc Let_def
        split: option.splits intro!: legacy_inv_tables)
  qed
  show "keeps legacy_inv (review_deletion_request rq p i v n)"
    unfolding review_deletion_request_def
    by (auto intro!: keeps_rules legacy_keeps keeps_update_row legacy_inv_tables deletions_ok_review simp: legacy_inv_def)
qed

lemma keeps_banners [legacy_keeps]:
  "keeps legacy_inv (create_banner rq p i a b c)" "keeps legacy_inv (update_banner rq p i a b c)" "keeps legacy_inv (delete_banner rq p i)"
  unfolding create_banner_def update_banner_def delete_banner_def Let_def
  by (auto intro!: keeps_rules legacy_keeps legacy_inv_rows)

lemma trending_ok_new:
  "trending_ok t \<Longrightarrow> \<forall>q\<in>set t. tg_id q \<noteq> tg_id r \<and> tg_dramaId q \<noteq> tg_dramaId r \<and> tg_position q \<noteq> tg_position r \<Longrightarrow> trending_ok (t @ [r])"
  by (auto simp: trending_ok_def)

lemma distinct_map_change:
  "distinct (map k t) \<Longrightarrow> distinct (map g t) \<Longrightarrow> \<forall>q\<in>set t. k q \<noteq> x \<longrightarrow> g q \<noteq> y \<Longrightarrow> (\<And>q. g (f q) = y)
    \<Longrightarrow> distinct (map g (update_many (\<lambda>q. k q = x) f t))"
proof (induction t)
  case (Cons a t)
  show ?case
  proof (cases "k a = x")
    case True
    then have "\<forall>q\<in>set t. k q \<noteq> x" using Cons.prems(1) by (metis distinct.simps(2) image_eqI image_set list.simps(9))
    then have "update_many (\<lambda>q. k q = x) f t = t" "\<forall>q\<in>set t. g q \<noteq> y" using Cons.prems(3) by (simp_all add: update_many_none)
    then show ?thesis using Cons.prems True by auto
  next
    case False
    have "g a \<noteq> g (if k q = x then f q else q)" if "q \<in> set t" for q
      using Cons.prems that False by (cases "k q = x") (auto dest: imageI [of _ _ g])
    then have "g a \<notin> g ` set (update_many (\<lambda>q. k q = x) f t)" by (auto simp del: if_image_distrib) blast
    then show ?thesis using Cons False by simp
  qed
qed simp

lemma trending_ok_change:
  assumes "trending_ok t" and "\<forall>q\<in>set t. tg_id q \<noteq> i \<longrightarrow> tg_dramaId q \<noteq> d \<and> tg_position q \<noteq> n"
  shows "trending_ok (update_many (\<lambda>q. tg_id q = i) (\<lambda>q. q\<lparr>tg_dramaId := d, tg_position := n\<rparr>) t)"
proof -
  have t: "distinct (map tg_id t)" "distinct (map tg_dramaId t)" "distinct (map tg_position t)"
    using assms(1) by (simp_all add: trending_ok_def)
  show ?thesis unfolding trending_ok_def
    using t distinct_map_change [OF t(1) t(2), of i d] distinct_map_change [OF t(1) t(3), of i n] assms(2)
    by (simp add: map_update_many)
qed

lemma keeps_checked:
  "(\<And>s. I s \<Longrightarrow> Q (sel s) \<Longrightarrow> I (snd (m s))) \<Longrightarrow> keeps I (and_then (gets sel) (\<lambda>t. and_then (require (Q t) e) (\<lambda>_. m)))"
  by (simp add: keeps_def)

lemma keeps_trending [legacy_keeps]:
  "keeps legacy_inv (assign_trending rq p i d n)" "keeps legacy_inv (update_trending rq p i d n)" "keeps legacy_inv (delete_trending rq p i)"
proof -
  have ok: "trending_ok (lg_trending l)" if "legacy_inv l" for l using that by (simp add: legacy_inv_def)
  show "keeps legacy_inv (assign_trending rq p i d n)"
    unfolding assign_trending_def Let_def
    by (intro keeps_and_then keeps_catch_error keeps_throw legacy_keeps keeps_checked)
      (auto simp: run_rows intro!: legacy_inv_tables trending_ok_new ok)
  show "keeps legacy_inv (update_trending rq p i d n)"
    unfolding update_trending_def
    by (intro keeps_catch_error keeps_throw keepsI)
      (auto simp: run_rows split: option.split intro!: legacy_inv_tables trending_ok_change ok)
  show "keeps legacy_inv (delete_trending rq p i)"
    unfolding delete_trending_def
    by (intro keeps_rules legacy_keeps keeps_delete_rows legacy_inv_tables)
      (auto simp: trending_ok_def dest!: ok)
qed

lemma keeps_releases [legacy_keeps]:
  "keeps legacy_inv (create_release en rq p i k d)" "keeps legacy_inv (update_release en rq p i d)"
  "keeps legacy_inv (delete_release rq p i)" "keeps legacy_inv (download_release en rq i rng)"
  unfolding create_release_def update_release_def delete_release_def download_release_def Let_def
  by (auto intro!: keeps_rules legacy_keeps legacy_inv_rows)

lemma keeps_config [legacy_keeps]: "keeps legacy_inv (upsert_remote_config rq p i c v b)"
  unfolding upsert_remote_config_def
  by (intro keeps_rules legacy_keeps configs.upsert_keeps [where x = c] legacy_inv_tables legacy_inv_keys) auto

lemma keeps_settings [legacy_keeps]:
  "keeps legacy_inv get_subscription_settings" "keeps legacy_inv (update_subscription_settings rq p d)"
  unfolding get_subscription_settings_def update_subscription_settings_def Let_def
  by (auto intro!: keeps_rules legacy_keeps)

lemma requests_of: "legacy_inv l \<Longrightarrow> requests_ok (lg_requests l)"
  by (simp add: legacy_inv_def)

lemma keeps_requests [legacy_keeps]:
  "keeps legacy_inv (create_subscription_request rq p i d)" "keeps legacy_inv (review_subscription_request rq p ids i v)"
proof -
  show "keeps legacy_inv (create_subscription_request rq p i d)"
    unfolding create_subscription_request_def Let_def
    by (auto intro!: keeps_rules legacy_keeps keeps_insert_row legacy_inv_tables requests_ok_new dest: requests_of)
  have "keeps legacy_inv (reject_request rq p i v)"
    unfolding reject_request_def
    by (auto intro!: keeps_rules legacy_keeps keeps_update_row legacy_inv_tables requests_ok_update
      dest: requests_of simp: review_statuses_def)
  moreover have "keeps legacy_inv (approve_request rq p ids i v r)" for r
    unfolding approve_request_def Let_def case_prod_beta
    by (auto intro!: keeps_rules legacy_keeps keeps_update_row legacy_inv_tables requests_ok_update
      dest: requests_of simp: review_statuses_def approve_row_def)
  ultimately show "keeps legacy_inv (review_subscription_request rq p ids i v)"
    unfolding review_subscription_request_def read_request_def decide_request_def
    by (auto intro!: keeps_rules legacy_keeps)
qed

lemma keeps_security [legacy_keeps]:
  "keeps legacy_inv (set_security_block rq p u b m)" "keeps legacy_inv (report_incident rq p i d)" "keeps legacy_inv (delete_incident rq p i)"
proof -
  show "keeps legacy_inv (set_security_block rq p u b m)"
    unfolding set_security_block_def Let_def
    by (intro keeps_rules legacy_keeps blocks.upsert_keeps [where x = u] legacy_inv_tables legacy_inv_keys) auto
  show "keeps legacy_inv (report_incident rq p i d)" "keeps legacy_inv (delete_incident rq p i)"
    unfolding report_incident_def delete_incident_def
    by (auto intro!: keeps_rules legacy_keeps legacy_inv_rows)
qed

text \<open>\<open>UpdateCommentDto\<close> admits two values of the status.\<close>

definition comment_status :: "string option \<Rightarrow> bool" where
  "comment_status st \<longleftrightarrow> st \<in> {None, Some ''visible'', Some ''hidden''}"

lemma keeps_comments [legacy_keeps]:
  "keeps legacy_inv (create_comment rq p i e g b)" "comment_status st \<Longrightarrow> keeps legacy_inv (update_comment rq p i b' st)"
  "keeps legacy_inv (delete_comment rq p i)"
  unfolding create_comment_def update_comment_def delete_comment_def own_comment_def Let_def
  by ((auto intro!: keeps_rules legacy_keeps keeps_insert_row keeps_update_row legacy_inv_tables(9)
    dest: legacy_inv_comments simp: comment_status_def split: if_splits)?; blast dest: legacy_inv_comments)+

lemma keeps_views [legacy_keeps]: "keeps legacy_inv (record_view rq p i e)"
  unfolding record_view_def Let_def by (auto intro!: keeps_rules keeps_insert_row)

lemma keeps_admins [legacy_keeps]:
  "keeps legacy_inv (create_admin pf rq p u n e w r)" "keeps legacy_inv (assign_admin_role rq p u r)"
  "keeps legacy_inv (remove_admin_role rq p u r)"
  unfolding create_admin_def assign_admin_role_def remove_admin_role_def Let_def
  by (auto intro!: keeps_rules legacy_keeps)

text \<open>
  The states that requests lead to, in any order: the handlers above, and the handlers of the other services
  (\<open>in_core\<close>, \<open>on_media\<close>, their answer dropped), which do not see the legacy tables.
\<close>

inductive legacy_step :: "legacy_env \<Rightarrow> legacy_state \<Rightarrow> legacy_state \<Rightarrow> bool" for en where
  "legacy_step en l (snd (create_notification rq p i x y z l))"
| "legacy_step en l (snd (update_notification rq p i x y z l))"
| "legacy_step en l (snd (delete_notification rq p i l))"
| "legacy_step en l (snd (send_notification en rq p i l))"
| "legacy_step en l (snd (mark_notification_read rq p i l))"
| "legacy_step en l (snd (add_favorite rq p i x l))"
| "legacy_step en l (snd (remove_favorite rq p x l))"
| "legacy_step en l (snd (mark_messages_read rq p z l))"
| "legacy_step en l (snd (send_message en rq p i x y l))"
| "legacy_step en l (snd (send_group_message en rq p newIds x y l))"
| "legacy_step en l (snd (send_admin_notification en rq p x l))"
| "legacy_step en l (snd (send_mobile_support_message rq p i x l))"
| "legacy_step en l (snd (request_account_deletion rq p i z l))"
| "legacy_step en l (snd (review_deletion_request rq p i v z l))"
| "legacy_step en l (snd (create_banner rq p i z w b l))"
| "legacy_step en l (snd (update_banner rq p i z w b l))"
| "legacy_step en l (snd (delete_banner rq p i l))"
| "legacy_step en l (snd (assign_trending rq p i x n l))"
| "legacy_step en l (snd (update_trending rq p i x n l))"
| "legacy_step en l (snd (delete_trending rq p i l))"
| "legacy_step en l (snd (create_release en rq p i x rd l))"
| "legacy_step en l (snd (update_release en rq p i rd l))"
| "legacy_step en l (snd (delete_release rq p i l))"
| "legacy_step en l (snd (download_release en rq i z l))"
| "legacy_step en l (snd (upsert_remote_config rq p i x y b l))"
| "legacy_step en l (snd (get_subscription_settings l))"
| "legacy_step en l (snd (update_subscription_settings rq p sd l))"
| "legacy_step en l (snd (create_subscription_request rq p i qd l))"
| "legacy_step en l (snd (review_subscription_request rq p ids i rv l))"
| "legacy_step en l (snd (set_security_block rq p x c z l))"
| "legacy_step en l (snd (report_incident rq p i d l))"
| "legacy_step en l (snd (delete_incident rq p i l))"
| "legacy_step en l (snd (create_comment rq p i z w x l))"
| "comment_status w \<Longrightarrow> legacy_step en l (snd (update_comment rq p i z w l))"
| "legacy_step en l (snd (delete_comment rq p i l))"
| "legacy_step en l (snd (record_view rq p i x l))"
| "legacy_step en l (snd (create_admin pf rq p i x y pw r l))"
| "legacy_step en l (snd (assign_admin_role rq p x r l))"
| "legacy_step en l (snd (remove_admin_role rq p x r l))"
| "legacy_step en l (snd (in_core (m :: unit handler) l))"
| "legacy_step en l (snd (on_media (mm :: unit media_handler) l))"

lemma legacy_step_inv: "legacy_step en l l' \<Longrightarrow> legacy_inv l \<Longrightarrow> legacy_inv l'"
  by (induction rule: legacy_step.induct) (rule keeps_apply; (rule legacy_keeps)?; assumption)+

lemma legacy_steps_inv: "(legacy_step en)\<^sup>*\<^sup>* l l' \<Longrightarrow> legacy_inv l \<Longrightarrow> legacy_inv l'"
  by (induction rule: rtranclp_induct) (auto intro: legacy_step_inv)

text \<open>
  C17. The tables of the legacy service stay well-formed whatever requests arrive, to this service or to another, in
  any order: the status columns, plain strings in the schema, keep to their few values; a decided deletion request
  has the time of its review and an approved subscription request its reviewer and its invoice; an account has at
  most one deletion request open; a drama is trending at most once and no position is taken twice; and favorites,
  read marks, blocks and configuration entries have one row per key.
\<close>

theorem legacy_tables_wellformed:
  assumes "(legacy_step en)\<^sup>*\<^sup>* l l'" and "legacy_inv l"
  shows "legacy_inv l'"
  using assms by (rule legacy_steps_inv)

text \<open>An application without legacy rows.\<close>

definition no_legacy_rows :: "state \<Rightarrow> legacy_state" where
  "no_legacy_rows s = \<lparr>lg_media = \<lparr>ms_db = s, ms_fetched = [], ms_ids = 0\<rparr>, lg_notifications = [], lg_recipients = [],
     lg_favorites = [], lg_messages = [], lg_deletionRequests = [], lg_banners = [], lg_trending = [], lg_releases = [],
     lg_remoteConfig = [], lg_settings = None, lg_requests = [], lg_blocks = [], lg_incidents = [], lg_comments = [],
     lg_views = [], lg_pushed = []\<rparr>"

definition legacy_demo_env :: legacy_env where
  "legacy_demo_env = \<lparr>le_media = demo_env, le_firebaseAccount = [], le_accountAccepted = (\<lambda>_. True), le_multicast = (\<lambda>_. None)\<rparr>"

lemma no_legacy_rows_inv: "legacy_inv (no_legacy_rows s)"
  by (simp add: legacy_inv_def no_legacy_rows_def deletions_ok_def requests_ok_def trending_ok_def)

theorem legacy_tables_wellformed_witness:
  "\<exists>l'. request_account_deletion demo_request demo_actor ''dq'' None (no_legacy_rows demo_state) = (Inr (hd (lg_deletionRequests l')), l')
     \<and> legacy_inv l'"
proof -
  let ?m = "request_account_deletion demo_request demo_actor ''dq'' None"
  let ?l = "snd (?m (no_legacy_rows demo_state))"
  have "(legacy_step legacy_demo_env)\<^sup>*\<^sup>* (no_legacy_rows demo_state) ?l"
    by (rule r_into_rtranclp) (rule legacy_step.intros)
  from legacy_tables_wellformed [OF this no_legacy_rows_inv] have "legacy_inv ?l" .
  moreover have "fst (?m (no_legacy_rows demo_state)) = Inr (hd (lg_deletionRequests ?l))" by code_simp
  ultimately show ?thesis by (metis prod.collapse)
qed

section \<open>What the code does not check\<close>

text \<open>
  A caller who may assign roles can make anyone an owner: \<open>assignAdminRole\<close> accepts \<open>SUPER_ADMIN\<close>, which \<open>createAdmin\<close>
  refuses, and \<open>removeAdminRole\<close> then refuses to take it back.
\<close>

lemma super_admin_granted:
  "user_not_deleted (core l) uid \<Longrightarrow> role_by_code (core l) SUPER_ADMIN = Some ro \<Longrightarrow>
     (\<exists>l'. assign_admin_role rq p uid SUPER_ADMIN l = (Inr (), l') \<and> \<lparr>ur_userId = uid, ur_roleId = ro_id ro\<rparr> \<in> set (userRoles (core l'))
       \<and> remove_admin_role rq p uid SUPER_ADMIN l' = (Inl (BadRequest ''Super admin role cannot be removed through this endpoint''), l'))"
  by (simp add: assign_admin_role_def remove_admin_role_def admin_roles_def ensure_account_def ensure_user_def and_then_in_core
    in_core_apply audit_def Let_def require_def)

text \<open>The author of a comment can show it again after a moderator has hidden it.\<close>

lemma hidden_comment_restored:
  assumes "find_first (\<lambda>c. cm_id c = cid) (lg_comments l) = Some c" and "cm_userId c = pr_id p"
  shows "\<exists>c' l'. update_comment rq p cid None (Some ''visible'') l = (Inr c', l') \<and> cm_status c' = ''visible''"
  using assms by (simp add: update_comment_def own_comment_def and_then_assoc run_rows)

text \<open>\<open>search\<close> looks at the deletion mark only: any account finds dramas and episodes that are not published or not public.\<close>

lemma search_finds_unpublished:
  assumes "dramas (core l) = [d]" and "contains_ci (dr_name d) (trim q)" and "dr_deletedAt d = None" and "0 < limit"
  shows "\<exists>x. search p limit q l = (Inr x, l) \<and> d \<in> set (sr_dramas x)"
  using assms by (cases limit) (simp_all add: search_def Let_def)

text \<open>A release without a version code is the latest one for good, whatever is released after it.\<close>

lemma release_without_code_wins:
  "re_versionCode r = None \<Longrightarrow> \<forall>x\<in>set rs. re_versionCode x \<noteq> None \<Longrightarrow> newest_release (r # rs) = Some r"
proof -
  assume "re_versionCode r = None"
  then have "fold (\<lambda>r best. case best of None \<Rightarrow> Some r | Some b \<Rightarrow> if newer_release r b then Some r else Some b) rs (Some r) = Some r"
    if "\<forall>x\<in>set rs. re_versionCode x \<noteq> None" for rs
    using that by (induction rs) (auto simp: newer_release_def)
  then show "\<forall>x\<in>set rs. re_versionCode x \<noteq> None \<Longrightarrow> newest_release (r # rs) = Some r" by (simp add: newest_release_def)
qed

text \<open>A push to everyone reaches at most 500 devices; the rest are dropped without a trace in the answer.\<close>

lemma push_limited:
  "send_push en tokens title body data l = (r, l') \<Longrightarrow> m \<in> set (lg_pushed l') \<Longrightarrow> m \<notin> set (lg_pushed l) \<Longrightarrow> length (pm_tokens m) \<le> 500"
  by (auto simp: send_push_def Let_def split: if_splits option.splits)

end
