(* ===== verification/LegacyReview.thy ===== *)
theory LegacyReview
  imports LegacyProps
begin

text \<open>
  Subscription requests and account deletion requests from their creation to their review: the window of a
  request, what an approval gives, that a review is final, and that an approved deletion closes the account at
  once.
\<close>

section \<open>The window of a request\<close>

lemma add_months_whole_days: "add_months n t mod ms_per_day = t mod ms_per_day"
  unfolding add_months_def Let_def by (simp only: mod_mult_self3 mod_mod_trivial)

lemma date_only_add_months: "date_only (add_months n t) - date_only t = add_months n t - t"
  by (simp add: date_only_def add_months_whole_days)

lemma settings_Inr: "\<exists>x l1. get_subscription_settings l = (Inr x, l1) \<and> lg_requests l1 = lg_requests l \<and> core l1 = core l"
  by (auto simp: get_subscription_settings_def split: option.split)

lemma create_request_Inr:
  assumes "create_subscription_request rq p i d l = (Inr r, l')"
  shows "sq_id r = i \<and> sq_userId r = pr_id p \<and> sq_status r = ''pending'' \<and> sq_monthsAdded r = set_or (qd_monthsAdded d) 1
    \<and> sq_subscriptionStartDate r = Some (date_only (rq_now rq))
    \<and> sq_subscriptionEndDate r = Some (date_only (add_months (set_or (qd_monthsAdded d) 1) (rq_now rq)))
    \<and> lg_requests l' = lg_requests l @ [r]"
proof -
  obtain x l1 where x: "get_subscription_settings l = (Inr x, l1)" "lg_requests l1 = lg_requests l"
    using settings_Inr by blast
  show ?thesis using assms x
    unfolding create_subscription_request_def and_then_def [of get_subscription_settings]
    by (auto simp: Let_def run_rows split: if_splits option.splits)
qed

text \<open>
  The window that a subscription request proposes is proper: it starts on the day of the request and lasts
  between 28 and 31 days for each month asked for, whatever the calendar does at the end of a month. A review that
  names no dates of its own therefore never fails because of them.
\<close>

lemma request_window_proper:
  assumes "create_subscription_request rq p i d l = (Inr r, l')" and "1 \<le> set_or (qd_monthsAdded d) 1"
  shows "\<exists>a b. sq_subscriptionStartDate r = Some a \<and> sq_subscriptionEndDate r = Some b
    \<and> a \<le> rq_now rq \<and> rq_now rq < a + ms_per_day
    \<and> 28 * sq_monthsAdded r * ms_per_day \<le> b - a \<and> b - a \<le> 31 * sq_monthsAdded r * ms_per_day
    \<and> (\<forall>rq2 dto. vd_subscriptionStartDate dto = None \<longrightarrow> vd_subscriptionEndDate dto = None \<longrightarrow>
         fst (request_window rq2 dto r) < snd (request_window rq2 dto r))"
proof -
  let ?m = "set_or (qd_monthsAdded d) 1"
  let ?a = "date_only (rq_now rq)" and ?b = "date_only (add_months ?m (rq_now rq))"
  have r: "sq_monthsAdded r = ?m" "sq_subscriptionStartDate r = Some ?a" "sq_subscriptionEndDate r = Some ?b"
    using create_request_Inr [OF assms(1)] by blast+
  have m: "0 \<le> ?m" using assms(2) by simp
  have len: "28 * ?m * ms_per_day \<le> ?b - ?a" "?b - ?a \<le> 31 * ?m * ms_per_day"
    unfolding date_only_add_months using add_months_bounds [OF m, of "rq_now rq"] by linarith+
  moreover have "?a < ?b" using len(1) assms(2) by linarith
  ultimately show ?thesis using date_only_le [of "rq_now rq"] by (simp add: r request_window_def Let_def)
qed

section \<open>Approval\<close>

lemma read_request_Inr:
  "read_request rid l = (Inr r, l') \<Longrightarrow> l' = l \<and> sq_status r = ''pending''
    \<and> (\<exists>q\<in>set (lg_requests l). sq_id q = rid \<and> r = q\<lparr>sq_groupId := existing_group (core l) (sq_groupId q)\<rparr>)"
  unfolding read_request_def
  by (auto simp: is_request_def simp del: find_first_None split: option.splits if_splits dest!: find_first_Some)

lemma upsert_membership_Inr:
  assumes "upsert_membership i g uid a b s = (Inr (), s')"
  shows "(\<exists>m\<in>set (groupMembers s'). is_member g uid m \<and> gm_revokedAt m = None \<and> gm_startsAt m = a \<and> gm_endsAt m = b)
    \<and> subscriptions s' = subscriptions s \<and> subscriptionPlans s' = subscriptionPlans s \<and> episodeGrants s' = episodeGrants s
    \<and> paymentRecords s' = paymentRecords s"
  using assms unfolding upsert_membership_def
  by (auto simp: is_member_def bex_update_many simp del: in_update_many split: if_splits option.splits)

lemma approved_subscription_Inr:
  assumes "approved_subscription rq p j k r w item s = (Inr sub, s')"
  shows "episodeGrants s' = episodeGrants s \<and> groupMembers s' = groupMembers s
    \<and> (case plan_of_request s r of None \<Rightarrow> sub = None \<and> subscriptions s' = subscriptions s
      | Some pl \<Rightarrow> \<exists>q. sub = Some q \<and> subscriptions s' = subscriptions s @ [q] \<and> su_userId q = sq_userId r
          \<and> su_planId q = pl_id pl \<and> su_status q = Sub_ACTIVE \<and> su_startsAt q = fst w \<and> su_endsAt q = snd w
          \<and> (\<forall>x\<in>set (subscriptions s). su_id x \<noteq> su_id q))"
  using assms unfolding approved_subscription_def
  by (auto simp: Let_def split: option.splits if_splits)

lemma plan_of_request_cong: "subscriptionPlans s = subscriptionPlans s' \<Longrightarrow> plan_of_request s r = plan_of_request s' r"
  by (simp add: plan_of_request_def find_plan_def split: option.split)

lemma approve_Inr:
  assumes "approve_request rq p ids rid dto r l = (Inr (item, sub), l')"
  shows "(case plan_of_request (core l) r of None \<Rightarrow> sub = None \<and> subscriptions (core l') = subscriptions (core l)
      | Some pl \<Rightarrow> \<exists>q. sub = Some q \<and> subscriptions (core l') = subscriptions (core l) @ [q] \<and> su_userId q = sq_userId r
          \<and> su_planId q = pl_id pl \<and> su_status q = Sub_ACTIVE \<and> su_startsAt q = fst (request_window rq dto r)
          \<and> su_endsAt q = snd (request_window rq dto r) \<and> (\<forall>x\<in>set (subscriptions (core l)). su_id x \<noteq> su_id q))
    \<and> (\<forall>g. sq_groupId r = Some g \<longrightarrow> (\<exists>m\<in>set (groupMembers (core l')). is_member g (sq_userId r) m
          \<and> gm_revokedAt m = None \<and> gm_startsAt m = fst (request_window rq dto r) \<and> gm_endsAt m = snd (request_window rq dto r)))
    \<and> episodeGrants (core l') = episodeGrants (core l)
    \<and> (\<exists>q\<in>set (lg_requests l). sq_id q = rid \<and> item = approve_row rq p rid dto r q)
    \<and> lg_requests l' = update_many (is_request rid) (approve_row rq p rid dto r) (lg_requests l)"
proof -
  obtain i j k where ids: "ids = (i, j, k)" by (cases ids)
  let ?w = "request_window rq dto r" and ?l = "lg_requests_update (update_many (is_request rid) (approve_row rq p rid dto r)) l"
  obtain q where q: "find_first (is_request rid) (lg_requests l) = Some q" "item = approve_row rq p rid dto r q" and run:
    "and_then (case sq_groupId r of None \<Rightarrow> ret () | Some g \<Rightarrow> in_core (upsert_membership i g (sq_userId r) (fst ?w) (snd ?w)))
       (\<lambda>_. in_core (approved_subscription rq p j k r ?w item)) ?l = (Inr sub, l')"
    using assms unfolding approve_request_def ids Let_def case_prod_conv
    by (auto simp: run_rows and_then_Inr simp del: find_first_None split: if_splits option.splits)
  obtain s1 where w1: "approved_subscription rq p j k r ?w item s1 = (Inr sub, core l')" "lg_requests l' = lg_requests ?l"
    and s1: "subscriptions s1 = subscriptions (core l)" "subscriptionPlans s1 = subscriptionPlans (core l)"
      "episodeGrants s1 = episodeGrants (core l)"
      "\<And>g. sq_groupId r = Some g \<Longrightarrow> \<exists>m\<in>set (groupMembers s1). is_member g (sq_userId r) m
          \<and> gm_revokedAt m = None \<and> gm_startsAt m = fst ?w \<and> gm_endsAt m = snd ?w"
  proof (cases "sq_groupId r")
    case None
    then have "approved_subscription rq p j k r ?w item (core l) = (Inr sub, core l')" "lg_requests l' = lg_requests ?l"
      using run by (auto simp: in_core_apply prod_eq_iff)
    then show ?thesis by (rule that) (use None in auto)
  next
    case (Some g)
    then obtain s1 where up: "upsert_membership i g (sq_userId r) (fst ?w) (snd ?w) (core l) = (Inr (), s1)"
      and "approved_subscription rq p j k r ?w item s1 = (Inr sub, core l')" "lg_requests l' = lg_requests ?l"
      using run by (auto simp: and_then_in_core in_core_apply prod_eq_iff split: prod.splits sum.splits)
    then show ?thesis using upsert_membership_Inr [OF up] Some by (intro that [of s1]) auto
  qed
  have "q \<in> set (lg_requests l)" "sq_id q = rid" using find_first_Some [OF q(1)] by (auto simp: is_request_def)
  with approved_subscription_Inr [OF w1(1)] w1(2) s1 q(2) plan_of_request_cong [OF s1(2)] show ?thesis
    by (auto split: option.splits)
qed

lemma review_Inr:
  assumes "review_subscription_request rq p ids rid dto l = (Inr (item, sub), l')" and "vd_status dto = Approved"
  shows "\<exists>r q l1. find_first (is_request rid) (lg_requests l) = Some q \<and> r = q\<lparr>sq_groupId := existing_group (core l) (sq_groupId q)\<rparr>
    \<and> sq_status q = ''pending'' \<and> fst (request_window rq dto r) < snd (request_window rq dto r)
    \<and> approve_request rq p ids rid dto r l = (Inr (item, sub), l1) \<and> lg_requests l' = lg_requests l1
    \<and> (\<exists>es. core l' = (core l1)\<lparr>auditEvents := es\<rparr>)"
  using assms unfolding review_subscription_request_def read_request_def decide_request_def
  by (auto simp: and_then_Inr audit_def in_core_apply simp del: find_first_None split: option.splits if_splits)

lemma find_first_update: "(\<And>r. P (f r) = P r) \<Longrightarrow> find_first P (update_many P f t) = map_option f (find_first P t)"
  by (induction t) auto

text \<open>A request that is not pending is refused, and nothing is written.\<close>

lemma reviewed_refused:
  assumes "find_first (is_request rid) (lg_requests l) = Some q" and "sq_status q \<noteq> ''pending''"
  shows "review_subscription_request rq p ids rid dto l
    = (Inl (Conflict ''Subscription request was already reviewed''), l)"
  using assms by (simp add: review_subscription_request_def read_request_def and_then_assoc)

text \<open>
  C15. An approved request gives what it was made for, from the first to the last instant of its window, and to its
  account only: if there is a plan, the subscription check of playback accepts the account, and every open grant of
  the group that the request names reaches it. The same request cannot be reviewed again.
\<close>

theorem approval_entitles:
  assumes "review_subscription_request rq p ids rid dto l = (Inr (item, sub), l')" and "vd_status dto = Approved"
  shows "\<exists>r\<in>set (lg_requests l). sq_id r = rid \<and> sq_status r = ''pending''
    \<and> fst (request_window rq dto r) < snd (request_window rq dto r)
    \<and> (\<forall>t. within (fst (request_window rq dto r)) (snd (request_window rq dto r)) t \<longrightarrow>
        (plan_of_request (core l) r \<noteq> None \<longrightarrow> entitled (core l') (sq_userId r) t)
        \<and> (\<forall>g e. existing_group (core l) (sq_groupId r) = Some g \<longrightarrow> e \<in> set (episodeGrants (core l)) \<longrightarrow>
             eg_groupId e = Some g \<longrightarrow> open_grant t e \<longrightarrow> may_access (core l') t (eg_episodeId e) (sq_userId r)))
    \<and> (\<forall>u t. u \<noteq> sq_userId r \<longrightarrow> entitled (core l') u t = entitled (core l) u t)
    \<and> (\<forall>rq2 p2 ids2 dto2. review_subscription_request rq2 p2 ids2 rid dto2 l'
        = (Inl (Conflict ''Subscription request was already reviewed''), l'))"
proof -
  obtain r q l1 es where q: "find_first (is_request rid) (lg_requests l) = Some q" and r: "r = q\<lparr>sq_groupId := existing_group (core l) (sq_groupId q)\<rparr>"
    and pend: "sq_status q = ''pending''" and win: "fst (request_window rq dto r) < snd (request_window rq dto r)"
    and ok: "approve_request rq p ids rid dto r l = (Inr (item, sub), l1)" and rows: "lg_requests l' = lg_requests l1"
    and core: "core l' = (core l1)\<lparr>auditEvents := es\<rparr>"
    using review_Inr [OF assms] by blast
  let ?w = "request_window rq dto r"
  have same: "request_window rq dto r = request_window rq dto q" "plan_of_request (core l) r = plan_of_request (core l) q"
    "sq_userId r = sq_userId q" "sq_groupId r = existing_group (core l) (sq_groupId q)"
    by (simp_all add: r request_window_def plan_of_request_def)
  note a = approve_Inr [OF ok]
  have subs: "case plan_of_request (core l) q of None \<Rightarrow> subscriptions (core l') = subscriptions (core l)
      | Some pl \<Rightarrow> \<exists>x. subscriptions (core l') = subscriptions (core l) @ [x] \<and> su_userId x = sq_userId q
          \<and> su_status x = Sub_ACTIVE \<and> su_startsAt x = fst ?w \<and> su_endsAt x = snd ?w"
    using a core same by (auto split: option.splits)
  have "entitled (core l') (sq_userId q) t" if "within (fst ?w) (snd ?w) t" "plan_of_request (core l) q \<noteq> None" for t
    using subs that by (auto simp: entitled_def active_sub_def)
  moreover have "may_access (core l') t (eg_episodeId e) (sq_userId q)"
    if "within (fst ?w) (snd ?w) t" "existing_group (core l) (sq_groupId q) = Some g" "e \<in> set (episodeGrants (core l))"
      "eg_groupId e = Some g" "open_grant t e" for t g e
  proof -
    note h = that
    obtain m where "m \<in> set (groupMembers (core l'))" "is_member g (sq_userId q) m" "gm_revokedAt m = None"
      "gm_startsAt m = fst ?w" "gm_endsAt m = snd ?w" using a core same h(2) by auto
    then have "open_member (core l') t g (sq_userId q)" using h(1) by (auto simp: open_member_def)
    then have "grants_access (core l') t (sq_userId q) e" using h(4,5) by (simp add: grants_access_def via_group_def)
    moreover have "e \<in> set (episodeGrants (core l'))" using a core h(3) by simp
    ultimately show ?thesis unfolding may_access_def by blast
  qed
  moreover have "entitled (core l') u t = entitled (core l) u t" if "u \<noteq> sq_userId q" for u t
    using subs that by (auto simp: entitled_def active_sub_def split: option.splits)
  moreover have "find_first (is_request rid) (lg_requests l') = Some (approve_row rq p rid dto r q)"
    using a rows q by (simp add: find_first_update is_request_def approve_row_def)
  note reviewed_refused [OF this]
  moreover have "q \<in> set (lg_requests l)" "sq_id q = rid" using find_first_Some [OF q] by (auto simp: is_request_def)
  ultimately show ?thesis using pend win same by (intro bexI [of _ q] conjI) (auto simp: approve_row_def)
qed

section \<open>A review is final\<close>

named_theorems quiet "handlers that do not touch the subscription requests"

definition settled :: "string \<Rightarrow> legacy_state \<Rightarrow> bool" where
  "settled rid l \<longleftrightarrow> (\<exists>q. find_first (is_request rid) (lg_requests l) = Some q \<and> sq_status q \<noteq> ''pending'')"

lemma settled_other [simp]:
  "settled rid (l\<lparr>lg_media := a\<rparr>) = settled rid l" "settled rid (lg_notifications_update b l) = settled rid l"
  "settled rid (lg_recipients_update c l) = settled rid l" "settled rid (lg_favorites_update d l) = settled rid l"
  "settled rid (lg_messages_update e l) = settled rid l" "settled rid (lg_deletionRequests_update f l) = settled rid l"
  "settled rid (lg_banners_update g l) = settled rid l" "settled rid (lg_trending_update h l) = settled rid l"
  "settled rid (lg_releases_update i l) = settled rid l" "settled rid (lg_remoteConfig_update j l) = settled rid l"
  "settled rid (l\<lparr>lg_settings := k\<rparr>) = settled rid l" "settled rid (lg_blocks_update m l) = settled rid l"
  "settled rid (lg_incidents_update n l) = settled rid l" "settled rid (lg_comments_update p l) = settled rid l"
  "settled rid (lg_views_update q l) = settled rid l" "settled rid (lg_pushed_update r l) = settled rid l"
  by (simp_all add: settled_def)

lemma quiet_basic [quiet]:
  "keeps (settled rid) (in_core m)" "keeps (settled rid) (on_media m')" "keeps (settled rid) (audit rq a x y z meta)"
  "keeps (settled rid) (send_push en tokens title body data)" "keeps (settled rid) (ensure_account uid)"
  "keeps (settled rid) (ensure_drama did)" "keeps (settled rid) (push_to_user en uid title body data)"
  by (auto simp: ensure_account_def ensure_drama_def push_to_user_def
    intro!: keeps_in_core keeps_on_media keeps_audit keeps_send_push keeps_rules)

lemma quiet_notifications [quiet]:
  "keeps (settled rid) (create_notification rq p i x y z)" "keeps (settled rid) (update_notification rq p i x y z)"
  "keeps (settled rid) (delete_notification rq p i)" "keeps (settled rid) (send_notification en rq p i)"
  "keeps (settled rid) (mark_notification_read rq p i)" "keeps (settled rid) (add_favorite rq p i x)"
  "keeps (settled rid) (remove_favorite rq p x)"
  unfolding create_notification_def update_notification_def delete_notification_def send_notification_def Let_def
    mark_notification_read_def add_favorite_def remove_favorite_def
  by (auto intro!: keeps_rules quiet legacy_inv_rows)

lemma quiet_messages [quiet]:
  "keeps (settled rid) (mark_messages_read rq p j)" "keeps (settled rid) (send_message en rq p i u m)"
  "keeps (settled rid) (send_group_message en rq p ids g m)" "keeps (settled rid) (send_admin_notification en rq p m)"
  "keeps (settled rid) (send_mobile_support_message rq p i m)" "keeps (settled rid) (request_account_deletion rq p i x)"
  "keeps (settled rid) (review_deletion_request rq p i v n)"
  unfolding mark_messages_read_def send_message_def send_group_message_def send_admin_notification_def
    send_mobile_support_message_def request_account_deletion_def review_deletion_request_def Let_def
  by (auto intro!: keeps_rules quiet legacy_inv_rows)

lemma quiet_content [quiet]:
  "keeps (settled rid) (create_banner rq p i a b c)" "keeps (settled rid) (update_banner rq p i a b c)"
  "keeps (settled rid) (delete_banner rq p i)" "keeps (settled rid) (assign_trending rq p i d n)"
  "keeps (settled rid) (update_trending rq p i d n)" "keeps (settled rid) (delete_trending rq p i)"
  "keeps (settled rid) (create_release en rq p i k rd)" "keeps (settled rid) (update_release en rq p i rd)"
  "keeps (settled rid) (delete_release rq p i)" "keeps (settled rid) (download_release en rq i rng)"
  unfolding create_banner_def update_banner_def delete_banner_def assign_trending_def update_trending_def
    delete_trending_def create_release_def update_release_def delete_release_def download_release_def Let_def
  by (auto intro!: keeps_rules quiet legacy_inv_rows)

lemma quiet_rest [quiet]:
  "keeps (settled rid) (upsert_remote_config rq p i c v b)" "keeps (settled rid) get_subscription_settings"
  "keeps (settled rid) (update_subscription_settings rq p d)" "keeps (settled rid) (set_security_block rq p u bl m)"
  "keeps (settled rid) (report_incident rq p i ind)" "keeps (settled rid) (delete_incident rq p i)"
  "keeps (settled rid) (create_comment rq p i e g bd)" "keeps (settled rid) (update_comment rq p i b' st)"
  "keeps (settled rid) (delete_comment rq p i)" "keeps (settled rid) (record_view rq p i x)"
  "keeps (settled rid) (create_admin pf rq p u n e' w r)" "keeps (settled rid) (assign_admin_role rq p u r)"
  "keeps (settled rid) (remove_admin_role rq p u r)"
  unfolding upsert_remote_config_def get_subscription_settings_def update_subscription_settings_def set_security_block_def
    report_incident_def delete_incident_def create_comment_def update_comment_def delete_comment_def own_comment_def
    record_view_def create_admin_def assign_admin_role_def remove_admin_role_def Let_def
  by (auto intro!: keeps_rules quiet legacy_inv_rows)

lemma find_first_appended: "find_first P t = Some q \<Longrightarrow> find_first P (t @ t') = Some q"
  by (induction t) (auto split: if_splits)

lemma find_first_updated:
  "(\<And>r. P (f r) = P r) \<Longrightarrow> find_first P (update_many Q f t) = map_option (\<lambda>r. if Q r then f r else r) (find_first P t)"
  by (induction t) auto

lemma keeps_settled_update:
  assumes "\<And>q. sq_id (f q) = sq_id q" and "\<And>q. sq_status (f q) \<noteq> ''pending''"
  shows "keeps (settled rid) (update_row lg_requests lg_requests_update (is_request i) f)"
proof (rule keeps_update_row)
  fix l assume "settled rid l"
  then obtain q where q: "find_first (is_request rid) (lg_requests l) = Some q" "sq_status q \<noteq> ''pending''"
    by (auto simp: settled_def)
  have "find_first (is_request rid) (update_many (is_request i) f (lg_requests l)) = Some (if is_request i q then f q else q)"
    using q(1) by (subst find_first_updated) (simp_all add: is_request_def assms(1))
  then show "settled rid (lg_requests_update (update_many (is_request i) f) l)"
    using q(2) assms(2) by (simp add: settled_def)
qed

lemma quiet_requests [quiet]:
  "keeps (settled rid) (create_subscription_request rq p i d)" "keeps (settled rid) (review_subscription_request rq p ids i v)"
proof -
  show "keeps (settled rid) (create_subscription_request rq p i d)"
    unfolding create_subscription_request_def Let_def
    by (auto intro!: keeps_rules quiet keeps_insert_row find_first_appended simp: settled_def)
  have "keeps (settled rid) (reject_request rq p i v)" "keeps (settled rid) (approve_request rq p ids i v r)" for r
    unfolding reject_request_def approve_request_def Let_def case_prod_beta
    by (auto intro!: keeps_rules quiet keeps_settled_update simp: approve_row_def)
  then show "keeps (settled rid) (review_subscription_request rq p ids i v)"
    unfolding review_subscription_request_def read_request_def decide_request_def
    by (auto intro!: keeps_rules quiet)
qed

lemma settled_step: "legacy_step en l l' \<Longrightarrow> settled rid l \<Longrightarrow> settled rid l'"
  by (induction rule: legacy_step.induct) (rule keeps_apply; (rule quiet)?; assumption)+

lemma settled_steps: "(legacy_step en)\<^sup>*\<^sup>* l l' \<Longrightarrow> settled rid l \<Longrightarrow> settled rid l'"
  by (induction rule: rtranclp_induct) (auto intro: settled_step)

text \<open>Whatever a review decides, it settles the request.\<close>

lemma review_settles:
  assumes "review_subscription_request rq p ids rid dto l = (Inr x, l')"
  shows "settled rid l'"
proof (cases "vd_status dto")
  case Approved
  obtain item sub where "x = (item, sub)" by (cases x)
  with review_Inr [OF _ Approved, of rq p ids rid l item sub l'] assms obtain r q l1 where
    q: "find_first (is_request rid) (lg_requests l) = Some q" and ok: "approve_request rq p ids rid dto r l = (Inr (item, sub), l1)"
    and rows: "lg_requests l' = lg_requests l1" by blast
  then have "find_first (is_request rid) (lg_requests l') = Some (approve_row rq p rid dto r q)"
    using approve_Inr [OF ok] by (simp add: find_first_update is_request_def approve_row_def)
  then show ?thesis by (simp add: settled_def approve_row_def)
next
  case Rejected
  with assms show ?thesis
    unfolding review_subscription_request_def read_request_def decide_request_def reject_request_def
    by (auto simp: and_then_assoc run_rows settled_def find_first_update is_request_def simp del: find_first_None
      split: option.splits if_splits)
qed

text \<open>
  A review is final: once a request has been approved or rejected, every later review of it is refused and
  writes nothing, whatever requests of the application, to this service or another, come in between.
\<close>

lemma review_final:
  assumes "review_subscription_request rq p ids rid dto l = (Inr x, l1)" and "(legacy_step en)\<^sup>*\<^sup>* l1 l2"
  shows "review_subscription_request rq' p' ids' rid dto' l2
    = (Inl (Conflict ''Subscription request was already reviewed''), l2)"
proof -
  obtain q where "find_first (is_request rid) (lg_requests l2) = Some q" "sq_status q \<noteq> ''pending''"
    using settled_steps [OF assms(2) review_settles [OF assms(1)]] by (auto simp: settled_def)
  then show ?thesis by (rule reviewed_refused)
qed

section \<open>Account deletion\<close>

lemma review_deletion_Inr:
  assumes "review_deletion_request rq p qid v note l = (Inr item, l')"
  shows "(\<exists>q\<in>set (lg_deletionRequests l). dq_id q = qid \<and> dq_userId item = dq_userId q \<and> dq_status q = ''pending'')
    \<and> (\<exists>es. core l' = (if v = Approved then (core l)\<lparr>users := update_many (\<lambda>u. u_id u = dq_userId item)
        (\<lambda>u. u\<lparr>u_status := User_SUSPENDED, u_deletedAt := Some (rq_now rq)\<rparr>) (users (core l)), auditEvents := es\<rparr>
       else (core l)\<lparr>auditEvents := es\<rparr>))"
  using assms unfolding review_deletion_request_def update_user_def
  by (auto simp: run_rows and_then_in_core simp del: find_first_None split: option.splits if_splits dest!: find_first_Some)

lemma deleted_signs_nobody:
  assumes gone: "\<forall>u\<in>set (users s). u_id u = uid \<longrightarrow> u_deletedAt u \<noteq> None"
  shows "(\<forall>t sid a. fst (jwt_validate t uid sid s) \<noteq> Inr a)
    \<and> (\<forall>cf pf rq e pw dev sid tok tp s2. login cf pf rq e pw dev sid tok s = (Inr tp, s2) \<longrightarrow>
         (\<exists>i. i \<noteq> uid \<and> tp_accessToken tp = pf_signAccess pf i sid))
    \<and> (\<forall>cf pf rq tok nid ntok tp s2. refresh cf pf rq tok nid ntok s = (Inr tp, s2) \<longrightarrow>
         (\<exists>i. i \<noteq> uid \<and> tp_accessToken tp = pf_signAccess pf i nid))"
proof (intro conjI allI impI)
  fix t sid and a :: principal
  have "access_session s t uid sid = None"
    using access_session_Some [of s t uid sid] gone by (cases "access_session s t uid sid") (auto simp: user_not_deleted_def)
  then show "fst (jwt_validate t uid sid s) \<noteq> Inr a" by (simp add: jwt_validate_def)
next
  fix cf pf rq e pw dev sid tok tp s2
  assume "login cf pf rq e pw dev sid tok s = (Inr tp, s2)"
  from login_signs [OF this] gone show "\<exists>i. i \<noteq> uid \<and> tp_accessToken tp = pf_signAccess pf i sid" by blast
next
  fix cf pf rq tok nid ntok tp s2
  assume "refresh cf pf rq tok nid ntok s = (Inr tp, s2)"
  then obtain r s1 where look: "refresh_lookup pf rq tok s = (Inr r, s1)" and go: "refresh_commit cf pf rq r nid ntok s1 = (Inr tp, s2)"
    by (auto simp: refresh_def and_then_Inr)
  have "user_not_deleted s (rs_userId r)"
    using look unfolding refresh_lookup_def
    by (auto simp: Let_def simp del: find_first_None split: option.splits if_splits dest!: find_first_Some)
  moreover have "tp_accessToken tp = pf_signAccess pf (rs_userId r) nid"
    using go unfolding refresh_commit_def by (auto simp: and_then_Inr)
  ultimately show "\<exists>i. i \<noteq> uid \<and> tp_accessToken tp = pf_signAccess pf i nid" using gone by (auto simp: user_not_deleted_def)
qed

text \<open>
  C16. An approved deletion request closes the account at once: no access token of it is accepted at any later
  instant, neither a login nor a refresh signs one for it, and no other account changes. A rejected request
  changes no account.
\<close>

theorem deletion_review_effect:
  assumes "review_deletion_request rq p qid v note l = (Inr item, l')"
  shows "(v = Approved \<longrightarrow>
      (\<forall>t sid a. fst (jwt_validate t (dq_userId item) sid (core l')) \<noteq> Inr a)
      \<and> (\<forall>cf pf rq e pw dev sid tok tp s2. login cf pf rq e pw dev sid tok (core l') = (Inr tp, s2) \<longrightarrow>
           (\<exists>i. i \<noteq> dq_userId item \<and> tp_accessToken tp = pf_signAccess pf i sid))
      \<and> (\<forall>cf pf rq tok nid ntok tp s2. refresh cf pf rq tok nid ntok (core l') = (Inr tp, s2) \<longrightarrow>
           (\<exists>i. i \<noteq> dq_userId item \<and> tp_accessToken tp = pf_signAccess pf i nid))
      \<and> filter (\<lambda>u. u_id u \<noteq> dq_userId item) (users (core l')) = filter (\<lambda>u. u_id u \<noteq> dq_userId item) (users (core l)))
    \<and> (v = Rejected \<longrightarrow> users (core l') = users (core l))"
proof -
  have "\<forall>u\<in>set (update_many (\<lambda>u. u_id u = i) (\<lambda>u. u\<lparr>u_status := User_SUSPENDED, u_deletedAt := Some (rq_now rq)\<rparr>) t).
      u_id u = i \<longrightarrow> u_deletedAt u \<noteq> None" for i and t :: "user list"
    unfolding ball_update_many by simp
  then have "v = Approved \<Longrightarrow> \<forall>u\<in>set (users (core l')). u_id u = dq_userId item \<longrightarrow> u_deletedAt u \<noteq> None"
    using review_deletion_Inr [OF assms] by (auto simp del: in_update_many)
  note nobody = deleted_signs_nobody [OF this]
  have others: "v = Approved \<Longrightarrow> filter (\<lambda>u. u_id u \<noteq> dq_userId item) (users (core l')) = filter (\<lambda>u. u_id u \<noteq> dq_userId item) (users (core l))"
    using review_deletion_Inr [OF assms] by (auto intro!: filter_update_other)
  show ?thesis
  proof (cases v)
    case Approved
    from nobody [OF Approved] others [OF Approved] Approved show ?thesis
      by (elim conjE) (intro conjI impI; (assumption | simp))
  next
    case Rejected
    then show ?thesis using review_deletion_Inr [OF assms] by auto
  qed
qed

section \<open>Examples\<close>

definition request_day :: request where
  "request_day = demo_request\<lparr>rq_now := 5\<rparr>"

definition plain_request :: request_dto where
  "plain_request = \<lparr>qd_groupId = Some ''gr'', qd_planId = None, qd_amountPkr = None, qd_paymentMethod = None, qd_screenshotKey = None,
     qd_note = None, qd_monthsAdded = Some 2\<rparr>"

definition plain_review :: "review \<Rightarrow> review_dto" where
  "plain_review v = \<lparr>vd_status = v, vd_adminNote = None, vd_subscriptionStartDate = None, vd_subscriptionEndDate = None\<rparr>"

definition legacy_demo :: legacy_state where
  "legacy_demo = no_legacy_rows (group_demo\<lparr>subscriptionPlans := [demo_plan], groupMembers := []\<rparr>)"

text \<open>The request of the 1st of January 1970 for two months, and the state with it.\<close>

definition demo_sub_request :: subscription_request where
  "demo_sub_request = \<lparr>sq_id = ''q1'', sq_userId = pr_id demo_actor, sq_groupId = Some ''gr'', sq_planId = None, sq_amountPkr = 2000, sq_currency = ''PKR'',
     sq_paymentMethod = None, sq_screenshotKey = None, sq_note = None, sq_detailsSnapshot = Some (snapshot_of default_settings),
     sq_status = ''pending'', sq_adminNote = None, sq_invoiceNo = None, sq_monthsAdded = 2,
     sq_subscriptionStartDate = Some 0, sq_subscriptionEndDate = Some (59 * ms_per_day),
     sq_approvedById = None, sq_approvedAt = None, sq_rejectedAt = None, sq_createdAt = 5\<rparr>"

definition requested :: legacy_state where
  "requested = legacy_demo\<lparr>lg_settings := Some default_settings, lg_requests := [demo_sub_request]\<rparr>"

lemma request_window_proper_example:
  "\<exists>l'. create_subscription_request request_day demo_actor ''q1'' plain_request legacy_demo = (Inr demo_sub_request, l')
     \<and> fst (request_window request_day (plain_review Approved) demo_sub_request) < snd (request_window request_day (plain_review Approved) demo_sub_request)"
proof -
  let ?m = "create_subscription_request request_day demo_actor ''q1'' plain_request"
  have "fst (?m legacy_demo) = Inr demo_sub_request" by code_simp
  then obtain l' where ok: "?m legacy_demo = (Inr demo_sub_request, l')" by (metis prod.collapse)
  have "1 \<le> set_or (qd_monthsAdded plain_request) 1" by (simp add: plain_request_def)
  from request_window_proper [OF ok this] ok show ?thesis by (auto simp: plain_review_def)
qed

definition demo_ids :: "string \<times> string \<times> string" where
  "demo_ids = (''m9'', ''s9'', ''p9'')"

lemma demo_review: "\<exists>item sub l'. review_subscription_request request_day demo_admin demo_ids ''q1'' (plain_review v) requested = (Inr (item, sub), l')"
proof -
  let ?m = "\<lambda>v. review_subscription_request request_day demo_admin demo_ids ''q1'' (plain_review v)"
  have "\<not> isl (fst (?m Approved requested))" "\<not> isl (fst (?m Rejected requested))" by code_simp+
  then show ?thesis using prog_result [of "?m Approved" requested] prog_result [of "?m Rejected" requested] by (cases v) auto
qed

theorem approval_entitles_witness:
  "\<exists>item sub l'. review_subscription_request request_day demo_admin demo_ids ''q1'' (plain_review Approved) requested = (Inr (item, sub), l')
     \<and> entitled (core l') (pr_id demo_actor) (40 * ms_per_day)"
proof -
  obtain item sub l' where ok: "review_subscription_request request_day demo_admin demo_ids ''q1'' (plain_review Approved) requested = (Inr (item, sub), l')"
    using demo_review by blast
  have "plan_of_request (core requested) demo_sub_request \<noteq> None" by code_simp
  moreover have "within (fst (request_window request_day (plain_review Approved) demo_sub_request))
      (snd (request_window request_day (plain_review Approved) demo_sub_request)) (40 * ms_per_day)" by code_simp
  moreover have "lg_requests requested = [demo_sub_request]" by (simp add: requested_def)
  ultimately have "entitled (core l') (sq_userId demo_sub_request) (40 * ms_per_day)"
    using approval_entitles [OF ok] by (simp add: plain_review_def)
  then show ?thesis using ok by (auto simp: demo_sub_request_def)
qed

lemma review_final_example:
  "\<exists>x l1. review_subscription_request request_day demo_admin demo_ids ''q1'' (plain_review Rejected) requested = (Inr x, l1)
     \<and> review_subscription_request request_day demo_admin demo_ids ''q1'' (plain_review Approved) l1
         = (Inl (Conflict ''Subscription request was already reviewed''), l1)"
proof -
  obtain item sub l1 where ok: "review_subscription_request request_day demo_admin demo_ids ''q1'' (plain_review Rejected) requested = (Inr (item, sub), l1)"
    using demo_review by blast
  from review_final [OF ok, of legacy_demo_env l1] ok show ?thesis by blast
qed

definition deletion_demo :: legacy_state where
  "deletion_demo = (no_legacy_rows demo_state)\<lparr>lg_deletionRequests := [\<lparr>dq_id = ''d1'', dq_userId = ''u1'', dq_reason = None,
     dq_status = ''pending'', dq_adminNote = None, dq_reviewedById = None, dq_reviewedAt = None, dq_createdAt = 0\<rparr>]\<rparr>"

theorem deletion_review_effect_witness:
  "\<exists>item l'. review_deletion_request demo_request demo_admin ''d1'' Approved None deletion_demo = (Inr item, l')
     \<and> fst (jwt_validate 6000 (dq_userId item) ''s1'' (core l')) \<noteq> Inr (principal_of (core l') demo_user ''s1'')
     \<and> (\<exists>p. fst (jwt_validate 6000 (dq_userId item) ''s1'' (core deletion_demo)) = Inr p)"
proof -
  let ?m = "review_deletion_request demo_request demo_admin ''d1'' Approved None"
  have "\<not> isl (fst (?m deletion_demo))" by code_simp
  then obtain item l' where ok: "?m deletion_demo = (Inr item, l')" using prog_result [of ?m deletion_demo] by auto
  have "dq_userId item = ''u1''" using review_deletion_Inr [OF ok] by (simp add: deletion_demo_def)
  moreover have "\<not> isl (fst (jwt_validate 6000 ''u1'' ''s1'' (core deletion_demo)))" by code_simp
  then have "\<exists>p. fst (jwt_validate 6000 ''u1'' ''s1'' (core deletion_demo)) = Inr p" by (metis isl_def sum.exhaust)
  ultimately show ?thesis using ok deletion_review_effect [OF ok] by (intro exI [of _ item] exI [of _ l']) simp
qed

text \<open>
  Two reviews that read the request at the same time both approve it: the row is written without a condition on
  its status, so the account gets two subscriptions and two confirmed payments for one request.
\<close>

lemma concurrent_double_approval:
  "\<exists>r l1 x l2 y. read_request ''q1'' requested = (Inr r, requested)
     \<and> decide_request request_day demo_admin demo_ids ''q1'' (plain_review Approved) r requested = (Inr x, l1)
     \<and> decide_request (request_day\<lparr>rq_now := 7\<rparr>) demo_admin (''m8'', ''s8'', ''p8'') ''q1'' (plain_review Approved) r l1 = (Inr y, l2)
     \<and> length (subscriptions (core l2)) = 2"
proof -
  let ?r = "demo_sub_request"
  let ?d1 = "decide_request request_day demo_admin demo_ids ''q1'' (plain_review Approved) ?r"
  let ?d2 = "decide_request (request_day\<lparr>rq_now := 7\<rparr>) demo_admin (''m8'', ''s8'', ''p8'') ''q1'' (plain_review Approved) ?r"
  let ?l1 = "snd (?d1 requested)"
  have read: "fst (read_request ''q1'' requested) = Inr ?r" by code_simp
  have st: "snd (read_request ''q1'' requested) = requested"
    by (simp add: read_request_def requested_def is_request_def demo_sub_request_def split: option.split)
  have "\<not> isl (fst (?d1 requested))" "\<not> isl (fst (?d2 ?l1))" "length (subscriptions (core (snd (?d2 ?l1)))) = 2" by code_simp+
  then have "?d1 requested = (Inr (projr (fst (?d1 requested))), ?l1)" "?d2 ?l1 = (Inr (projr (fst (?d2 ?l1))), snd (?d2 ?l1))"
    by (simp_all add: prod_eq_iff)
  then show ?thesis using read st \<open>length (subscriptions (core (snd (?d2 ?l1)))) = 2\<close> by (metis prod.collapse)
qed

end
