(* ===== verification/Routes.thy ===== *)
theory Routes
  imports Principals
begin

text \<open>
  The HTTP surface: the routes that the controllers declare with their guards' metadata, one list per
  controller in the order of its methods, and what a request goes through before a handler runs: the router
  of Express, the four guards of \<open>Principals\<close> and \<open>ParseUUIDPipe\<close>, which every path parameter of
  every controller has. Nest registers the routes of a controller in the order of its methods and Express
  takes the first one whose method and pattern fit. The pattern matcher (\<open>path-to-regexp\<close>) and the UUID
  check are parameters; \<open>router_law\<close> is what is documented of the first.

  The theorems: which handlers no request can reach because an earlier route of the same controller takes
  their addresses, and which handlers a caller can reach without a token, as an ordinary account, and with
  each role of the seeded database.
\<close>

section \<open>Endpoints\<close>

record endpoint =
  ep_handler :: string
  ep_route :: route

definition plain_route :: "string \<Rightarrow> string \<Rightarrow> string \<Rightarrow> endpoint" where
  "plain_route m sub h = \<lparr>ep_handler = h,
     ep_route = \<lparr>rt_method = m, rt_path = sub, rt_public = False, rt_roles = [], rt_permissions = [],
       rt_rateLimit = None\<rparr>\<rparr>"

text \<open>The decorators \<open>@Get\<close>, \<open>@Post\<close>, \<open>@Patch\<close>, \<open>@Put\<close>, \<open>@Delete\<close>.\<close>

definition get_route :: "string \<Rightarrow> string \<Rightarrow> endpoint" where
  "get_route = plain_route ''GET''"

definition post_route :: "string \<Rightarrow> string \<Rightarrow> endpoint" where
  "post_route = plain_route ''POST''"

definition patch_route :: "string \<Rightarrow> string \<Rightarrow> endpoint" where
  "patch_route = plain_route ''PATCH''"

definition put_route :: "string \<Rightarrow> string \<Rightarrow> endpoint" where
  "put_route = plain_route ''PUT''"

definition delete_route :: "string \<Rightarrow> string \<Rightarrow> endpoint" where
  "delete_route = plain_route ''DELETE''"

text \<open>\<open>@Public()\<close>, \<open>@Permissions(code)\<close> and \<open>@RateLimit(options)\<close>.\<close>

definition public_route :: "endpoint \<Rightarrow> endpoint" where
  "public_route e = e\<lparr>ep_route := (ep_route e)\<lparr>rt_public := True\<rparr>\<rparr>"

definition needs :: "string \<Rightarrow> endpoint \<Rightarrow> endpoint" where
  "needs code e = e\<lparr>ep_route := (ep_route e)\<lparr>rt_permissions := [code]\<rparr>\<rparr>"

definition limited :: "nat \<Rightarrow> int \<Rightarrow> string \<Rightarrow> endpoint \<Rightarrow> endpoint" where
  "limited n seconds scope e = e\<lparr>ep_route := (ep_route e)\<lparr>rt_rateLimit :=
     Some \<lparr>rl_limit = n, rl_windowSeconds = seconds, rl_scope = Some scope\<rparr>\<rparr>\<rparr>"

text \<open>\<open>@Controller(prefix)\<close>: the path of a route is the prefix and the path of the method.\<close>

definition full_path :: "string \<Rightarrow> string \<Rightarrow> string" where
  "full_path prefix sub = ''/'' @ prefix @ (if sub = [] then [] else ''/'' @ sub)"

definition controller :: "string \<Rightarrow> string \<Rightarrow> endpoint list \<Rightarrow> endpoint list" where
  "controller cls prefix es = map (\<lambda>e. e\<lparr>ep_handler := cls @ ''.'' @ ep_handler e,
     ep_route := (ep_route e)\<lparr>rt_path := full_path prefix (rt_path (ep_route e))\<rparr>\<rparr>) es"

section \<open>The controllers\<close>

definition health_controller :: "endpoint list" where
  "health_controller = controller ''HealthController'' ''health''
    [public_route (get_route ''live'' ''live''),
     public_route (get_route ''ready'' ''ready'')]"

definition auth_controller :: "endpoint list" where
  "auth_controller = controller ''AuthController'' ''api/v1/auth''
    [public_route (limited 3 60 ''register'' (post_route ''register'' ''register'')),
     public_route (limited 5 60 ''login'' (post_route ''login'' ''login'')),
     public_route (limited 10 60 ''refresh'' (post_route ''refresh'' ''refresh'')),
     public_route (post_route ''logout'' ''logout''),
     get_route ''me'' ''me'',
     get_route ''sessions'' ''sessions'',
     get_route ''login-history'' ''loginHistory'',
     delete_route ''sessions/:id'' ''revokeSession'',
     post_route ''logout-all'' ''logoutAll'',
     post_route ''device'' ''registerDevice'',
     get_route ''devices'' ''devices'',
     delete_route ''devices/:id'' ''revokeDevice'',
     post_route ''password'' ''changePassword'']"

definition users_controller :: "endpoint list" where
  "users_controller = controller ''UsersController'' ''api/v1/users''
    [get_route ''me'' ''me'',
     needs ''users.read'' (get_route '''' ''list''),
     needs ''users.write'' (post_route '''' ''create''),
     needs ''users.read'' (get_route '':id'' ''find''),
     patch_route '':id/profile'' ''updateProfile'',
     needs ''users.status'' (patch_route '':id/status'' ''updateStatus''),
     needs ''users.delete'' (delete_route '':id'' ''remove'')]"

definition rbac_controller :: "endpoint list" where
  "rbac_controller = controller ''RbacController'' ''api/v1/rbac''
    [needs ''roles.read'' (get_route ''roles'' ''roles''),
     needs ''roles.read'' (get_route ''roles/:id'' ''role''),
     needs ''roles.write'' (post_route ''roles'' ''createRole''),
     needs ''roles.write'' (patch_route ''roles/:id'' ''updateRole''),
     needs ''roles.write'' (delete_route ''roles/:id'' ''deleteRole''),
     needs ''permissions.read'' (get_route ''permissions'' ''permissions''),
     needs ''permissions.write'' (post_route ''permissions'' ''createPermission''),
     needs ''permissions.write'' (patch_route ''permissions/:id'' ''updatePermission''),
     needs ''permissions.write'' (delete_route ''permissions/:id'' ''deletePermission''),
     needs ''roles.write'' (post_route ''users/:userId/roles'' ''assignRole''),
     needs ''roles.write'' (delete_route ''users/:userId/roles'' ''removeRole''),
     needs ''roles.write'' (post_route ''roles/:roleId/permissions'' ''assignRolePermission''),
     needs ''roles.write'' (delete_route ''roles/:roleId/permissions/:permissionId'' ''removeRolePermission''),
     needs ''permissions.write'' (post_route ''users/:userId/permissions'' ''assignUserPermission''),
     needs ''permissions.write'' (delete_route ''users/:userId/permissions/:permissionId'' ''removeUserPermission'')]"

definition subscriptions_controller :: "endpoint list" where
  "subscriptions_controller = controller ''SubscriptionsController'' ''api/v1/subscriptions''
    [needs ''subscriptions.read'' (get_route ''plans'' ''plans''),
     needs ''subscriptions.write'' (post_route ''plans'' ''createPlan''),
     needs ''subscriptions.write'' (patch_route ''plans/:id'' ''updatePlan''),
     get_route ''me'' ''me'',
     needs ''subscriptions.read'' (get_route ''users/:userId'' ''user''),
     needs ''subscriptions.write'' (post_route '''' ''subscribe''),
     needs ''subscriptions.write'' (post_route ''payments'' ''payment''),
     needs ''subscriptions.write'' (post_route '':id/extend'' ''extend''),
     needs ''subscriptions.write'' (post_route '':id/cancel'' ''cancel''),
     needs ''subscriptions.read'' (get_route ''users/:userId/validate'' ''validate''),
     get_route ''validate'' ''validateMe'']"

definition access_controller :: "endpoint list" where
  "access_controller = controller ''AccessController'' ''api/v1/access''
    [needs ''access.read'' (get_route ''groups'' ''groups''),
     needs ''access.read'' (get_route ''groups/:groupId/members'' ''members''),
     needs ''access.write'' (post_route ''groups'' ''createGroup''),
     needs ''access.write'' (patch_route ''groups/:id'' ''updateGroup''),
     needs ''access.write'' (delete_route ''groups/:id'' ''deleteGroup''),
     needs ''access.write'' (post_route ''groups/:groupId/members'' ''addMember''),
     needs ''access.write'' (delete_route ''groups/:groupId/members/:userId'' ''removeMember''),
     needs ''access.write'' (post_route ''grants/direct'' ''grantDirect''),
     needs ''access.write'' (post_route ''grants/group'' ''grantGroup''),
     needs ''access.write'' (post_route ''grants/direct/bulk'' ''grantDirectBulk''),
     needs ''access.write'' (post_route ''grants/group/bulk'' ''grantGroupBulk''),
     needs ''access.read'' (get_route ''grants'' ''grants''),
     needs ''access.read'' (get_route ''grants/:id/history'' ''grantHistory''),
     needs ''access.write'' (delete_route ''grants/:id'' ''revoke''),
     get_route ''episodes/:episodeId/validate'' ''validate'',
     get_route ''me/episodes'' ''myUnlockedEpisodes'']"

definition dramas_controller :: "endpoint list" where
  "dramas_controller = controller ''DramasController'' ''api/v1/dramas''
    [public_route (get_route '''' ''list''),
     public_route (get_route '':id'' ''details''),
     needs ''content.write'' (post_route '''' ''create''),
     needs ''content.write'' (patch_route '':id'' ''update''),
     needs ''content.write'' (delete_route '':id'' ''remove''),
     needs ''content.write'' (post_route '':id/restore'' ''restore''),
     needs ''content.write'' (post_route '':id/publish'' ''publish''),
     needs ''content.write'' (post_route '':id/unpublish'' ''unpublish''),
     limited 20 60 ''content-bulk'' (needs ''content.write'' (post_route ''bulk/publish'' ''bulkPublish'')),
     needs ''content.write'' (post_route ''bulk/unpublish'' ''bulkUnpublish''),
     needs ''content.write'' (post_route ''bulk/delete'' ''bulkDelete''),
     needs ''content.write'' (post_route ''bulk/restore'' ''bulkRestore'')]"

definition seasons_controller :: "endpoint list" where
  "seasons_controller = controller ''SeasonsController'' ''api/v1/seasons''
    [public_route (get_route '''' ''list''),
     public_route (get_route '':id'' ''details''),
     needs ''content.write'' (post_route '''' ''create''),
     needs ''content.write'' (patch_route '':id'' ''update''),
     needs ''content.write'' (delete_route '':id'' ''remove''),
     needs ''content.write'' (post_route '':id/restore'' ''restore''),
     needs ''content.write'' (post_route ''bulk/delete'' ''bulkDelete''),
     needs ''content.write'' (post_route ''bulk/restore'' ''bulkRestore'')]"

definition episodes_controller :: "endpoint list" where
  "episodes_controller = controller ''EpisodesController'' ''api/v1/episodes''
    [public_route (get_route '''' ''list''),
     public_route (get_route '':id'' ''details''),
     needs ''content.write'' (post_route '''' ''create''),
     needs ''content.write'' (patch_route '':id'' ''update''),
     needs ''content.write'' (delete_route '':id'' ''remove''),
     needs ''content.write'' (post_route '':id/restore'' ''restore''),
     needs ''content.write'' (post_route '':id/publish'' ''publish''),
     needs ''content.write'' (post_route '':id/unpublish'' ''unpublish''),
     needs ''content.write'' (post_route ''bulk/publish'' ''bulkPublish''),
     needs ''content.write'' (post_route ''bulk/unpublish'' ''bulkUnpublish''),
     needs ''content.write'' (post_route ''bulk/delete'' ''bulkDelete''),
     needs ''content.write'' (post_route ''bulk/restore'' ''bulkRestore'')]"

definition media_assets_controller :: "endpoint list" where
  "media_assets_controller = controller ''MediaAssetsController'' ''api/v1/media-assets''
    [needs ''media.read'' (get_route '''' ''list''),
     needs ''media.read'' (get_route '':id'' ''details''),
     needs ''media.read'' (get_route '':id/validate'' ''validate''),
     needs ''media.write'' (post_route '''' ''create''),
     needs ''media.write'' (patch_route '':id'' ''update''),
     needs ''media.write'' (delete_route '':id'' ''remove''),
     needs ''media.write'' (post_route '':id/restore'' ''restore'')]"

definition playback_controller :: "endpoint list" where
  "playback_controller = controller ''PlaybackController'' ''api/v1/playback''
    [post_route ''episodes/:episodeId/session'' ''start'',
     post_route ''sessions/:id/resume'' ''resume'',
     post_route ''sessions/:id/heartbeat'' ''heartbeat'',
     delete_route ''sessions/:id'' ''stop'',
     get_route ''sessions/:id/status'' ''status'',
     get_route ''history'' ''history'',
     get_route ''continue-watching'' ''continueWatching'',
     get_route ''recent'' ''recent'']"

definition media_gateway_controller :: "endpoint list" where
  "media_gateway_controller = map public_route (controller ''MediaGatewayController'' ''media-gateway''
    [get_route ''sessions/:sessionId/manifest'' ''manifest'',
     get_route ''sessions/:sessionId/resources/:resourceId'' ''resource''])"

definition metrics_controller :: "endpoint list" where
  "metrics_controller = controller ''MetricsController'' ''internal/metrics''
    [public_route (get_route '''' ''getMetrics'')]"

definition legacy_controller :: "endpoint list" where
  "legacy_controller = controller ''LegacyController'' ''api/v1''
    [needs ''users.read'' (get_route ''admins'' ''listAdmins''),
     needs ''users.write'' (post_route ''admins'' ''createAdmin''),
     needs ''roles.write'' (post_route ''admins/:userId/roles'' ''assignAdminRole''),
     needs ''roles.write'' (delete_route ''admins/:userId/roles'' ''removeAdminRole''),
     public_route (get_route ''notifications/latest'' ''latestNotification''),
     needs ''notifications.read'' (get_route ''notifications'' ''listNotifications''),
     needs ''notifications.write'' (post_route ''notifications'' ''createNotification''),
     needs ''notifications.write'' (patch_route ''notifications/:id'' ''updateNotification''),
     needs ''notifications.write'' (delete_route ''notifications/:id'' ''deleteNotification''),
     needs ''notifications.send'' (post_route ''notifications/:id/send'' ''sendNotification''),
     post_route ''notifications/:id/read'' ''markNotificationRead'',
     get_route ''mobile/notifications'' ''listMobileNotifications'',
     get_route ''favorites'' ''listFavorites'',
     post_route ''favorites/:dramaId'' ''addFavorite'',
     delete_route ''favorites/:dramaId'' ''removeFavorite'',
     get_route ''messages'' ''listMessages'',
     post_route ''messages/read'' ''markMessagesRead'',
     needs ''messages.write'' (post_route ''messages'' ''sendMessage''),
     needs ''messages.write'' (post_route ''messages/groups'' ''sendGroupMessage''),
     needs ''notifications.send'' (post_route ''messages/admin-notification'' ''sendAdminNotification''),
     limited 12 300 ''mobile-support'' (post_route ''mobile/support/messages'' ''sendMobileSupportMessage''),
     limited 3 86400 ''account-deletion'' (post_route ''account/deletion-requests'' ''requestAccountDeletion''),
     get_route ''account/deletion-requests'' ''listOwnAccountDeletionRequests'',
     needs ''users.write'' (get_route ''admin/account-deletion-requests'' ''listAccountDeletionRequests''),
     needs ''users.write'' (patch_route ''admin/account-deletion-requests/:id'' ''reviewAccountDeletionRequest''),
     public_route (get_route ''banners'' ''listPublicBanners''),
     needs ''banners.read'' (get_route ''admin/banners'' ''listAdminBanners''),
     needs ''banners.write'' (post_route ''banners'' ''createBanner''),
     needs ''banners.write'' (patch_route ''banners/:id'' ''updateBanner''),
     needs ''banners.write'' (delete_route ''banners/:id'' ''deleteBanner''),
     public_route (get_route ''trending'' ''listTrending''),
     needs ''trending.read'' (get_route ''admin/trending'' ''listAdminTrending''),
     needs ''trending.write'' (post_route ''trending'' ''assignTrending''),
     needs ''trending.write'' (patch_route ''trending/:id'' ''updateTrending''),
     needs ''trending.write'' (delete_route ''trending/:id'' ''deleteTrending''),
     public_route (get_route ''app/releases/latest'' ''latestRelease''),
     get_route ''app/releases/:id/download'' ''downloadRelease'',
     needs ''app.release.read'' (get_route ''app/releases'' ''listReleases''),
     needs ''app.release.write'' (post_route ''app/releases'' ''createRelease''),
     needs ''app.release.write'' (patch_route ''app/releases/:id'' ''updateRelease''),
     needs ''app.release.write'' (delete_route ''app/releases/:id'' ''deleteRelease''),
     public_route (get_route ''remote-config'' ''getRemoteConfig''),
     needs ''settings.read'' (get_route ''admin/remote-config'' ''listRemoteConfig''),
     needs ''settings.write'' (put_route ''admin/remote-config'' ''upsertRemoteConfig''),
     public_route (get_route ''subscription/settings'' ''getSubscriptionSettings''),
     get_route ''subscription/requests'' ''listSubscriptionRequests'',
     post_route ''subscription/requests'' ''createSubscriptionRequest'',
     needs ''subscriptions.write'' (patch_route ''subscription/requests/:id'' ''reviewSubscriptionRequest''),
     needs ''settings.write'' (patch_route ''subscription/settings'' ''updateSubscriptionSettings''),
     get_route ''security/block-status'' ''getSecurityBlock'',
     needs ''users.status'' (patch_route ''admin/users/:userId/security-block'' ''setSecurityBlock''),
     post_route ''security/incidents'' ''reportIncident'',
     needs ''security.read'' (get_route ''security/incidents'' ''listIncidents''),
     needs ''security.write'' (delete_route ''security/incidents/:id'' ''deleteIncident''),
     get_route ''episodes/:episodeId/comments'' ''listComments'',
     post_route ''comments'' ''createComment'',
     patch_route ''comments/:id'' ''updateComment'',
     delete_route ''comments/:id'' ''deleteComment'',
     post_route ''analytics/views'' ''recordView'',
     needs ''analytics.read'' (get_route ''analytics/views'' ''analytics''),
     needs ''reports.read'' (get_route ''reports/dashboard'' ''dashboard''),
     get_route ''search'' ''search'']"

definition admin_tools_controller :: "endpoint list" where
  "admin_tools_controller = controller ''AdminToolsController'' ''api/v1/admin''
    [needs ''notifications.read'' (get_route ''firebase/status'' ''firebaseStatus''),
     needs ''notifications.send'' (post_route ''firebase/test'' ''firebaseTest''),
     needs ''media.read'' (get_route ''drm/status'' ''drmStatus''),
     needs ''media.write'' (post_route ''drm/validate'' ''validateDrm'')]"

definition uploads_controller :: "endpoint list" where
  "uploads_controller = controller ''UploadsController'' ''api/v1/uploads''
    [needs ''media.write'' (post_route ''init'' ''init''),
     needs ''media.write'' (post_route '':id/chunks'' ''chunk''),
     needs ''media.write'' (post_route '':id/complete'' ''complete''),
     needs ''media.write'' (delete_route '':id'' ''cancel'')]"

definition support_chat_controller :: "endpoint list" where
  "support_chat_controller = controller ''SupportChatController'' ''api/v1/support''
    [get_route ''conversation/me'' ''myConversation'',
     get_route ''conversation/me/messages'' ''myMessages'',
     limited 30 300 ''support-chat'' (post_route ''conversation/me/messages'' ''sendMyMessage''),
     post_route ''conversations/:id/seen'' ''markSeen'',
     needs ''messages.read'' (get_route ''admin/stats'' ''stats''),
     needs ''messages.read'' (get_route ''admin/conversations'' ''conversations''),
     needs ''messages.read'' (get_route ''admin/conversations/:id/messages'' ''adminMessages''),
     needs ''messages.write'' (post_route ''admin/conversations/:id/messages'' ''sendAdminMessage''),
     needs ''messages.write'' (patch_route ''admin/conversations/:id/status'' ''updateStatus''),
     delete_route ''messages/:id'' ''deleteMessage'',
     post_route ''conversation/me/uploads/init'' ''initUpload'',
     post_route ''conversation/me/uploads/:id/chunks'' ''uploadChunk'',
     post_route ''conversation/me/uploads/:id/complete'' ''completeUpload'']"

definition audit_controller :: "endpoint list" where
  "audit_controller = controller ''AuditController'' ''api/v1/audit''
    [needs ''audit.read'' (get_route '''' ''list'')]"

text \<open>The controllers in the order in which \<open>AppModule\<close> imports their modules.\<close>

definition app_controllers :: "endpoint list list" where
  "app_controllers = [audit_controller, health_controller, auth_controller, users_controller,
     rbac_controller, subscriptions_controller, access_controller, dramas_controller, seasons_controller,
     episodes_controller, media_assets_controller, media_gateway_controller, playback_controller,
     metrics_controller, legacy_controller, admin_tools_controller, uploads_controller,
     support_chat_controller]"

lemmas route_defs = plain_route_def get_route_def post_route_def patch_route_def put_route_def
  delete_route_def public_route_def needs_def limited_def full_path_def controller_def

section \<open>Routing\<close>

definition segments :: "string \<Rightarrow> string list" where
  "segments = split_on (CHR ''/'')"

definition is_param :: "string \<Rightarrow> bool" where
  "is_param p = (case p of [] \<Rightarrow> False | c # _ \<Rightarrow> c = CHR '':'')"

definition seg_accepts :: "string \<Rightarrow> string \<Rightarrow> bool" where
  "seg_accepts p x = (if is_param p then x \<noteq> [] else to_lower p = to_lower x)"

definition trim_slash :: "string \<Rightarrow> string" where
  "trim_slash path = (case rev path of c # d # r \<Rightarrow> if c = CHR ''/'' then rev (d # r) else path | _ \<Rightarrow> path)"

definition path_accepts :: "string \<Rightarrow> string \<Rightarrow> bool" where
  "path_accepts pat path = list_all2 seg_accepts (segments pat) (segments (trim_slash path))"

definition captures :: "string \<Rightarrow> string \<Rightarrow> (string \<times> string) list" where
  "captures pat path = map (\<lambda>(p, x). (tl p, x))
     (filter (\<lambda>(p, x). is_param p) (zip (segments pat) (segments (trim_slash path))))"

text \<open>
  The router as a parameter: the captured parameters when a pattern fits a path. Documented of
  \<open>path-to-regexp\<close> with the options of Express: a pattern of plain names and \<open>:parameters\<close>, as all those
  of the controllers are, fits segment by segment, without regard to case, a parameter takes one segment that is not empty, and one slash at the
  end is ignored. Nothing is said of a path with a percent sign, which is decoded.
\<close>

type_synonym router = "string \<Rightarrow> string \<Rightarrow> (string \<times> string) list option"

definition router_law :: "router \<Rightarrow> endpoint list \<Rightarrow> bool" where
  "router_law rm es \<longleftrightarrow> (\<forall>e\<in>set es. \<forall>path. CHR ''%'' \<notin> set path \<longrightarrow>
     rm (rt_path (ep_route e)) path = (if path_accepts (rt_path (ep_route e)) path
       then Some (captures (rt_path (ep_route e)) path) else None))"

definition dispatch :: "router \<Rightarrow> endpoint list \<Rightarrow> string \<Rightarrow> string \<Rightarrow> endpoint option" where
  "dispatch rm es m path =
     find_first (\<lambda>e. rt_method (ep_route e) = m \<and> rm (rt_path (ep_route e)) path \<noteq> None) es"

text \<open>
  What a request goes through: the router, the guards, \<open>ParseUUIDPipe\<close> on every path parameter. The result
  is the endpoint whose handler runs, with its parameters and its principal.
\<close>

definition accept_request ::
  "router \<Rightarrow> (string \<Rightarrow> bool) \<Rightarrow> platform \<Rightarrow> endpoint list \<Rightarrow> request \<Rightarrow> string \<Rightarrow> string \<Rightarrow> string option
     \<Rightarrow> (endpoint \<times> (string \<times> string) list \<times> principal option) handler" where
  "accept_request rm is_uuid pf es rq m path bearer =
     (case dispatch rm es m path of
        None \<Rightarrow> throw (NotFound (''Cannot '' @ m @ '' '' @ path))
      | Some e \<Rightarrow>
          and_then (guard_request pf rq (ep_route e) bearer) (\<lambda>p.
          let ps = (case rm (rt_path (ep_route e)) path of None \<Rightarrow> [] | Some ps \<Rightarrow> ps) in
          and_then (require (\<forall>(n, v)\<in>set ps. is_uuid v)
                      (BadRequest ''Validation failed (uuid is expected)'')) (\<lambda>_.
          ret (e, ps, p))))"

section \<open>Which handlers can be reached\<close>

text \<open>\<open>a\<close> fits every path that \<open>b\<close> fits; some path fits both.\<close>

definition pattern_key :: "endpoint \<Rightarrow> string \<times> string list" where
  "pattern_key e = (rt_method (ep_route e), segments (rt_path (ep_route e)))"

definition seg_covers :: "string \<Rightarrow> string \<Rightarrow> bool" where
  "seg_covers p q = (if is_param p then q \<noteq> [] else \<not> is_param q \<and> p = q)"

definition covers :: "string \<times> string list \<Rightarrow> string \<times> string list \<Rightarrow> bool" where
  "covers a b = (fst a = fst b \<and> list_all2 seg_covers (snd a) (snd b))"

definition seg_overlaps :: "string \<Rightarrow> string \<Rightarrow> bool" where
  "seg_overlaps p q = (if is_param p then q \<noteq> [] else if is_param q then p \<noteq> [] else p = q)"

definition overlaps :: "string \<times> string list \<Rightarrow> string \<times> string list \<Rightarrow> bool" where
  "overlaps a b = (fst a = fst b \<and> list_all2 seg_overlaps (snd a) (snd b))"

fun covered :: "(string \<times> string list) list \<Rightarrow> (string \<times> string list) list \<Rightarrow> bool list" where
  "covered seen [] = []"
| "covered seen (k # ks) = (\<exists>a\<in>set seen. covers a k) # covered (k # seen) ks"

text \<open>No path fits an endpoint of one controller and an endpoint of another: the first four segments decide, and
  the endpoints that agree on them are compared.\<close>

definition areas :: "(string \<times> string list) list \<Rightarrow> string list list" where
  "areas c = remdups_adj (map (\<lambda>k. take 4 (snd k)) c)"

definition in_area :: "string list \<Rightarrow> (string \<times> string list) list \<Rightarrow> (string \<times> string list) list" where
  "in_area h c = filter (\<lambda>k. take 4 (snd k) = h) c"

definition apart :: "(string \<times> string list) list \<Rightarrow> (string \<times> string list) list \<Rightarrow> bool" where
  "apart c d = list_all (\<lambda>h. list_all (\<lambda>h'. if list_all2 seg_overlaps h h'
     then list_all (\<lambda>a. list_all (\<lambda>b. \<not> overlaps a b) (in_area h' d)) (in_area h c) else True) (areas d)) (areas c)"

fun cross_free :: "(string \<times> string list) list list \<Rightarrow> bool" where
  "cross_free [] = True"
| "cross_free (c # cs) = (list_all (apart c) cs \<and> cross_free cs)"

subsection \<open>Paths and segments\<close>

fun join_path :: "string list \<Rightarrow> string" where
  "join_path [] = []"
| "join_path [p] = p"
| "join_path (p # q # ps) = p @ CHR ''/'' # join_path (q # ps)"

lemma segments_join:
  "ps \<noteq> [] \<Longrightarrow> \<forall>p\<in>set ps. CHR ''/'' \<notin> set p \<Longrightarrow> segments (join_path ps) = ps"
  by (induction ps rule: join_path.induct) (auto simp: segments_def split_on_none split_on_first)

lemma segments_no_slash: "p \<in> set (segments s) \<Longrightarrow> CHR ''/'' \<notin> set p"
  unfolding segments_def
  by (induction s arbitrary: p) (auto split: if_splits list.splits)

lemma segments_not_Nil [simp]: "segments s \<noteq> []"
  by (cases s) (auto simp: segments_def split: list.splits)

lemma join_segments [simp]: "join_path (segments s) = s"
proof (induction s)
  case Nil
  then show ?case by (simp add: segments_def)
next
  case (Cons c s)
  obtain p ps where "segments s = p # ps" by (cases "segments s") auto
  with Cons show ?case by (cases ps) (auto simp: segments_def)
qed

lemma set_join_path: "set (join_path ps) \<subseteq> insert (CHR ''/'') (\<Union>p\<in>set ps. set p)"
  by (induction ps rule: join_path.induct) auto

lemma join_path_snoc: "ps \<noteq> [] \<Longrightarrow> join_path (ps @ [p]) = join_path ps @ CHR ''/'' # p"
  by (induction ps rule: join_path.induct) auto

lemma trim_slash_join:
  assumes "ps \<noteq> []" and "last ps \<noteq> []" and "CHR ''/'' \<notin> set (last ps)"
  shows "trim_slash (join_path ps) = join_path ps"
proof -
  obtain qs p where ps: "ps = qs @ [p]" using assms(1) by (metis append_butlast_last_id)
  with assms obtain r c where p: "p = r @ [c]" "c \<noteq> CHR ''/''"
    by (metis last_snoc append_butlast_last_id in_set_conv_decomp)
  have "\<exists>l. join_path ps = l @ [c]"
    using p by (cases "qs = []") (auto simp: ps join_path_snoc)
  then show ?thesis using p(2) by (auto simp: trim_slash_def split: list.split)
qed

text \<open>A path that an endpoint fits: its pattern with a fresh text for every parameter.\<close>

definition example_segments :: "string \<Rightarrow> string list \<Rightarrow> string list" where
  "example_segments x ps = map (\<lambda>p. if is_param p then x else p) ps"

lemma is_param_Nil [simp]: "\<not> is_param []"
  by (simp add: is_param_def)

lemma seg_accepts_trans: "seg_covers p q \<Longrightarrow> seg_accepts q x \<Longrightarrow> seg_accepts p x"
  by (auto simp: seg_covers_def seg_accepts_def to_lower_def split: if_splits)

lemma path_accepts_trans:
  "list_all2 seg_covers (segments a) (segments b) \<Longrightarrow> path_accepts b path \<Longrightarrow> path_accepts a path"
  unfolding path_accepts_def by (rule list_all2_trans [OF seg_accepts_trans])

lemma seg_overlaps_accepts: "seg_accepts p x \<Longrightarrow> seg_accepts q x \<Longrightarrow>
    to_lower p = p \<or> is_param p \<Longrightarrow> to_lower q = q \<or> is_param q \<Longrightarrow> seg_overlaps p q"
  by (auto simp: seg_overlaps_def seg_accepts_def to_lower_def split: if_splits)

text \<open>Literal segments of the declared paths are in lower case: their characters have the bit that
  distinguishes small letters.\<close>

definition lower_seg :: "string \<Rightarrow> bool" where
  "lower_seg p = (is_param p \<or> list_all digit5 p)"

lemma digit5_lower: "digit5 c \<Longrightarrow> lower_char c = c"
  by (cases c) (auto simp: lower_char_def Let_def)

lemma lower_seg_lower: "lower_seg p \<Longrightarrow> to_lower p = p \<or> is_param p"
  unfolding lower_seg_def to_lower_def
  by (auto simp: list_all_iff digit5_lower intro!: map_idI)

subsection \<open>Reachability within one controller\<close>

definition endpoint_accepts :: "endpoint \<Rightarrow> string \<Rightarrow> string \<Rightarrow> bool" where
  "endpoint_accepts e m path \<longleftrightarrow> rt_method (ep_route e) = m \<and> path_accepts (rt_path (ep_route e)) path"

text \<open>What the proofs need of the declared paths; it is checked by evaluation.\<close>

definition well_declared :: "endpoint \<Rightarrow> bool" where
  "well_declared e \<longleftrightarrow> list_all lower_seg (segments (rt_path (ep_route e)))
     \<and> last (segments (rt_path (ep_route e))) \<noteq> [] \<and> CHR ''%'' \<notin> set (rt_path (ep_route e))"

lemma dispatch_law:
  assumes "router_law rm es" and "set ds \<subseteq> set es" and "CHR ''%'' \<notin> set path"
  shows "dispatch rm ds m path = find_first (\<lambda>e. endpoint_accepts e m path) ds"
  unfolding dispatch_def find_first_def
  by (rule find_cong) (use assms in \<open>auto simp: router_law_def endpoint_accepts_def subset_iff\<close>)

lemma find_first_skip: "\<forall>y\<in>set ys. \<not> P y \<Longrightarrow> find_first P (ys @ zs) = find_first P zs"
  by (induction ys) (auto simp: find_first_def)

lemma find_first_splitD:
  "find_first P xs = Some x \<Longrightarrow> \<exists>ys zs. xs = ys @ x # zs \<and> P x \<and> (\<forall>y\<in>set ys. \<not> P y)"
proof (induction xs)
  case Nil
  then show ?case by (simp add: find_first_def)
next
  case (Cons a xs)
  show ?case
  proof (cases "P a")
    case True
    with Cons.prems have "a # xs = [] @ x # xs \<and> P x" by (simp add: find_first_def)
    then show ?thesis by (metis empty_iff empty_set)
  next
    case False
    with Cons.prems have "find_first P xs = Some x" by (simp add: find_first_def)
    from Cons.IH [OF this] obtain ys zs where "xs = ys @ x # zs" "P x" "\<forall>y\<in>set ys. \<not> P y" by blast
    with False have "a # xs = (a # ys) @ x # zs \<and> P x \<and> (\<forall>y\<in>set (a # ys). \<not> P y)" by simp
    then show ?thesis by blast
  qed
qed

lemma covers_accepts:
  "covers (pattern_key a) (pattern_key e) \<Longrightarrow> endpoint_accepts e m path \<Longrightarrow> endpoint_accepts a m path"
  by (auto simp: covers_def pattern_key_def endpoint_accepts_def elim: path_accepts_trans)

lemma join_path_mem: "p \<in> set ps \<Longrightarrow> set p \<subseteq> set (join_path ps)"
  by (induction ps rule: join_path.induct) auto

definition example_path :: "string \<Rightarrow> endpoint \<Rightarrow> string" where
  "example_path x e = join_path (example_segments x (segments (rt_path (ep_route e))))"

text \<open>A text for the parameters that is longer than every declared path.\<close>

definition fresh_for :: "endpoint list \<Rightarrow> string \<Rightarrow> bool" where
  "fresh_for es x \<longleftrightarrow> x \<noteq> [] \<and> CHR ''/'' \<notin> set x \<and> CHR ''%'' \<notin> set x
     \<and> (\<forall>e\<in>set es. \<forall>p\<in>set (segments (rt_path (ep_route e))). length p < length x)"

lemma fresh_ex: "\<exists>x. fresh_for es x"
proof -
  let ?ps = "concat (map (\<lambda>e. segments (rt_path (ep_route e))) es)"
  let ?n = "Suc (sum_list (map length ?ps))"
  have "length p < ?n" if "e \<in> set es" "p \<in> set (segments (rt_path (ep_route e)))" for e p
  proof -
    from that have "length p \<in> set (map length ?ps)" by auto
    from member_le_sum_list [OF this] show ?thesis by simp
  qed
  then have "fresh_for es (replicate ?n (CHR ''x''))"
    unfolding fresh_for_def by simp
  then show ?thesis by blast
qed

lemma example_segments_path:
  assumes "fresh_for es x" and "e \<in> set es" and "well_declared e"
  shows "segments (trim_slash (example_path x e)) = example_segments x (segments (rt_path (ep_route e)))"
    and "CHR ''%'' \<notin> set (example_path x e)"
proof -
  let ?ps = "segments (rt_path (ep_route e))" and ?qs = "example_segments x (segments (rt_path (ep_route e)))"
  have slash: "\<forall>q\<in>set ?qs. CHR ''/'' \<notin> set q"
    using assms(1) segments_no_slash by (auto simp: example_segments_def fresh_for_def)
  have ne: "?qs \<noteq> []" by (simp add: example_segments_def)
  have "last ?qs \<noteq> []"
    using assms by (auto simp: example_segments_def last_map fresh_for_def well_declared_def)
  with trim_slash_join [OF ne] slash ne segments_join [OF ne slash]
  show "segments (trim_slash (example_path x e)) = ?qs"
    by (simp add: example_path_def)
  have "CHR ''%'' \<notin> set p" if "p \<in> set ?ps" for p
  proof
    assume "CHR ''%'' \<in> set p"
    with that have "CHR ''%'' \<in> set (join_path ?ps)" using join_path_mem by blast
    with assms(3) show False by (simp add: well_declared_def)
  qed
  then show "CHR ''%'' \<notin> set (example_path x e)"
    using assms(1) set_join_path [of ?qs]
    unfolding example_path_def example_segments_def fresh_for_def by (fastforce split: if_splits)
qed

lemma covered_split:
  "covered seen (ks @ k # ls) ! length ks = (\<exists>a\<in>set seen \<union> set ks. covers a k)"
  by (induction ks arbitrary: seen) auto

lemma length_covered [simp]: "length (covered seen ks) = length ks"
  by (induction ks arbitrary: seen) auto

text \<open>The flags of the endpoints of a controller: no request reaches this one.\<close>

definition unreachable_flags :: "endpoint list \<Rightarrow> bool list" where
  "unreachable_flags es = covered [] (map pattern_key es)"

lemma flag_split:
  "unreachable_flags (es @ e # fs) ! length es = (\<exists>a\<in>set es. covers (pattern_key a) (pattern_key e))"
  using covered_split [of "[]" "map pattern_key es"] by (simp add: unreachable_flags_def)

lemma example_accepts:
  assumes "fresh_for es x" and "e \<in> set es" and "well_declared e"
  shows "endpoint_accepts e (rt_method (ep_route e)) (example_path x e)"
  using assms unfolding endpoint_accepts_def path_accepts_def example_segments_path(1) [OF assms]
  by (auto simp: example_segments_def list_all2_conv_all_nth seg_accepts_def fresh_for_def)

lemma example_covers:
  assumes x: "fresh_for es x" and "e \<in> set es" "a \<in> set es" and wd: "well_declared e" "well_declared a"
    and acc: "endpoint_accepts a (rt_method (ep_route e)) (example_path x e)"
  shows "covers (pattern_key a) (pattern_key e)"
proof -
  let ?as = "segments (rt_path (ep_route a))" and ?es = "segments (rt_path (ep_route e))"
  have "list_all2 seg_accepts ?as (example_segments x ?es)"
    using acc example_segments_path(1) [OF x \<open>e \<in> set es\<close> wd(1)]
    by (simp add: endpoint_accepts_def path_accepts_def)
  then have len: "length ?as = length ?es"
    and nth: "\<forall>i<length ?es. seg_accepts (?as ! i) (if is_param (?es ! i) then x else ?es ! i)"
    by (auto simp: list_all2_conv_all_nth example_segments_def)
  have "seg_covers (?as ! i) (?es ! i)" if i: "i < length ?es" for i
  proof -
    have "length (?as ! i) < length x"
      using x \<open>a \<in> set es\<close> i len by (auto simp: fresh_for_def)
    then have "to_lower (?as ! i) \<noteq> to_lower x"
      by (metis length_map to_lower_def nat_neq_iff)
    moreover have "lower_seg (?as ! i)" "lower_seg (?es ! i)"
      using wd i len by (auto simp: well_declared_def list_all_iff)
    moreover have "seg_accepts (?as ! i) (if is_param (?es ! i) then x else ?es ! i)"
      using nth i by blast
    ultimately show ?thesis
      by (cases "is_param (?as ! i)"; cases "is_param (?es ! i)")
        (auto simp: seg_covers_def seg_accepts_def dest!: lower_seg_lower)
  qed
  with acc len show ?thesis
    by (auto simp: covers_def pattern_key_def endpoint_accepts_def list_all2_conv_all_nth)
qed

lemma dispatch_not_covered:
  assumes law: "router_law rm es" and "set ds \<subseteq> set es" and "CHR ''%'' \<notin> set path"
    and d: "dispatch rm ds m path = Some e"
  obtains as bs where "ds = as @ e # bs" "\<not> unreachable_flags ds ! length as" "endpoint_accepts e m path"
proof -
  from d dispatch_law [OF assms(1-3)] obtain as bs where
    s: "ds = as @ e # bs" "endpoint_accepts e m path" "\<forall>a\<in>set as. \<not> endpoint_accepts a m path"
    using find_first_splitD by metis
  then have "\<not> unreachable_flags ds ! length as"
    using covers_accepts by (auto simp: flag_split)
  with s that show thesis by blast
qed

lemma dispatch_example:
  assumes law: "router_law rm es" and sub: "set ds \<subseteq> set es" and wd: "\<forall>e\<in>set es. well_declared e"
    and x: "fresh_for es x" and e: "ds = as @ e # bs" "e \<notin> set as" "\<not> unreachable_flags ds ! length as"
  shows "dispatch rm ds (rt_method (ep_route e)) (example_path x e) = Some e"
proof -
  have ee: "e \<in> set es" "set as \<subseteq> set es" using sub e(1) by auto
  have "\<forall>a\<in>set as. \<not> endpoint_accepts a (rt_method (ep_route e)) (example_path x e)"
    using e(3) example_covers [OF x ee(1)] wd ee by (auto simp: e(1) flag_split subset_iff)
  moreover have "endpoint_accepts e (rt_method (ep_route e)) (example_path x e)"
    using example_accepts [OF x ee(1)] wd ee(1) by blast
  moreover have "CHR ''%'' \<notin> set (example_path x e)"
    using example_segments_path(2) [OF x ee(1)] wd ee(1) by blast
  note dispatch_law [OF law sub this]
  ultimately show ?thesis
    by (simp add: e(1) find_first_skip)
qed

subsection \<open>The whole table\<close>

lemma overlaps_accepts:
  assumes "endpoint_accepts a m path" and "endpoint_accepts b m path" and "well_declared a" "well_declared b"
  shows "overlaps (pattern_key a) (pattern_key b)"
proof -
  let ?p = "segments (trim_slash path)"
  have l: "list_all2 seg_accepts (segments (rt_path (ep_route a))) ?p"
    "list_all2 seg_accepts (segments (rt_path (ep_route b))) ?p"
    and m: "rt_method (ep_route a) = m" "rt_method (ep_route b) = m"
    using assms(1,2) by (simp_all add: endpoint_accepts_def path_accepts_def)
  have "list_all2 seg_overlaps (segments (rt_path (ep_route a))) (segments (rt_path (ep_route b)))"
    using l assms(3,4) lower_seg_lower unfolding list_all2_conv_all_nth well_declared_def
    by (metis list_all_length seg_overlaps_accepts)
  with m show ?thesis by (simp add: overlaps_def pattern_key_def)
qed

lemma overlaps_sym: "overlaps a b \<longleftrightarrow> overlaps b a"
proof -
  have "seg_overlaps p q \<longleftrightarrow> seg_overlaps q p" for p q
    by (auto simp: seg_overlaps_def)
  then show ?thesis by (auto simp: overlaps_def list_all2_conv_all_nth)
qed

lemma apart_overlaps: "apart c d \<Longrightarrow> a \<in> set c \<Longrightarrow> b \<in> set d \<Longrightarrow> \<not> overlaps a b"
proof
  assume h: "apart c d" "a \<in> set c" "b \<in> set d" "overlaps a b"
  then have "list_all2 seg_overlaps (take 4 (snd a)) (take 4 (snd b))"
    by (simp add: overlaps_def list_all2_takeI)
  moreover have "a \<in> set (in_area (take 4 (snd a)) c)" "b \<in> set (in_area (take 4 (snd b)) d)"
    using h by (simp_all add: in_area_def)
  ultimately show False
    using h by (fastforce simp: apart_def areas_def list_all_iff split: if_splits)
qed

lemma cross_free_apart:
  "cross_free cs \<Longrightarrow> c \<in> set cs \<Longrightarrow> d \<in> set cs \<Longrightarrow> c = d \<or> apart c d \<or> apart d c"
  by (induction cs) (auto simp: list_all_iff)

lemma dispatch_concat:
  assumes law: "router_law rm (concat cs)" and wd: "\<forall>e\<in>set (concat cs). well_declared e"
    and cf: "\<forall>c\<in>set cs. \<forall>d\<in>set cs. c = d \<or> apart (map pattern_key c) (map pattern_key d)
       \<or> apart (map pattern_key d) (map pattern_key c)"
    and path: "CHR ''%'' \<notin> set path"
  shows "dispatch rm (concat cs) m path = Some e \<longleftrightarrow> (\<exists>c\<in>set cs. dispatch rm c m path = Some e)"
proof -
  have concat: "find_first P (concat xs) = Some x \<Longrightarrow> \<exists>c\<in>set xs. find_first P c = Some x"
    for P and x :: endpoint and xs
  proof (induction xs)
    case (Cons y ys)
    then show ?case by (cases "find_first P y") (auto simp: find_first_append)
  qed (simp add: find_first_def)
  have sub: "set c \<subseteq> set (concat cs)" if "c \<in> set cs" for c using that by auto
  note d = dispatch_law [OF law subset_refl path] dispatch_law [OF law sub path]
  show ?thesis
  proof
    assume "dispatch rm (concat cs) m path = Some e"
    with concat obtain c where "c \<in> set cs" "find_first (\<lambda>e. endpoint_accepts e m path) c = Some e"
      unfolding d(1) by blast
    with d(2) show "\<exists>c\<in>set cs. dispatch rm c m path = Some e" by auto
  next
    assume "\<exists>c\<in>set cs. dispatch rm c m path = Some e"
    then obtain c where c: "c \<in> set cs" "find_first (\<lambda>e. endpoint_accepts e m path) c = Some e"
      using d(2) by auto
    then have e: "e \<in> set c" "endpoint_accepts e m path"
      by (auto dest: find_first_Some)
    have other: "\<not> endpoint_accepts a m path" if "a \<in> set c'" "c' \<in> set cs" "c' \<noteq> c" for a c'
    proof
      assume a: "endpoint_accepts a m path"
      have "overlaps (pattern_key a) (pattern_key e)"
        by (rule overlaps_accepts [OF a e(2)]) (use wd that c e in auto)
      moreover have "pattern_key a \<in> set (map pattern_key c')" "pattern_key e \<in> set (map pattern_key c)"
        using that(1) e(1) by simp_all
      moreover have "apart (map pattern_key c') (map pattern_key c) \<or> apart (map pattern_key c) (map pattern_key c')"
        using cf that c(1) by blast
      ultimately show False
        using apart_overlaps overlaps_sym by blast
    qed
    have "find_first (\<lambda>e. endpoint_accepts e m path) (concat xs) = Some e"
      if "set xs \<subseteq> set cs" "c \<in> set xs" for xs
      using that
    proof (induction xs)
      case (Cons y ys)
      show ?case
      proof (cases "y = c")
        case True
        with c(2) show ?thesis by (simp add: find_first_append)
      next
        case False
        with other Cons.prems have "\<forall>a\<in>set y. \<not> endpoint_accepts a m path" by auto
        with Cons False show ?thesis by (simp add: find_first_skip)
      qed
    qed simp
    with c(1) show "dispatch rm (concat cs) m path = Some e"
      by (simp add: d(1))
  qed
qed

text \<open>The evaluated facts about the declared routes.\<close>

definition unreachable_handlers :: "string list" where
  "unreachable_handlers = [''DramasController.bulkPublish'', ''DramasController.bulkUnpublish'',
     ''DramasController.bulkRestore'', ''SeasonsController.bulkRestore'', ''EpisodesController.bulkPublish'',
     ''EpisodesController.bulkUnpublish'', ''EpisodesController.bulkRestore'']"

definition flags_agree :: "endpoint list \<Rightarrow> bool" where
  "flags_agree es = list_all2 (\<lambda>e b. b = (ep_handler e \<in> set unreachable_handlers)) es (unreachable_flags es)"

lemma app_well_declared: "list_all (list_all well_declared) app_controllers"
  by code_simp

lemma app_cross_free: "cross_free (map (map pattern_key) app_controllers)"
  by code_simp

lemma app_flags: "list_all flags_agree app_controllers"
  by code_simp

lemma app_apart: "c \<in> set app_controllers \<Longrightarrow> d \<in> set app_controllers \<Longrightarrow>
    c = d \<or> apart (map pattern_key c) (map pattern_key d) \<or> apart (map pattern_key d) (map pattern_key c)"
proof -
  have "cross_free (map f cs) \<Longrightarrow> c \<in> set cs \<Longrightarrow> d \<in> set cs \<Longrightarrow> c = d \<or> apart (f c) (f d) \<or> apart (f d) (f c)"
    for f and cs :: "endpoint list list"
    by (induction cs) (auto simp: list_all_iff)
  from this [OF app_cross_free]
  show "c \<in> set app_controllers \<Longrightarrow> d \<in> set app_controllers \<Longrightarrow> ?thesis" by blast
qed

lemma app_endpoints_well: "e \<in> set c \<Longrightarrow> c \<in> set app_controllers \<Longrightarrow> well_declared e"
  using app_well_declared by (simp add: list_all_iff)

lemma app_flag:
  assumes "c \<in> set app_controllers" and "c = as @ e # bs"
  shows "unreachable_flags c ! length as \<longleftrightarrow> ep_handler e \<in> set unreachable_handlers"
proof -
  have "list_all2 (\<lambda>e b. b = (ep_handler e \<in> set unreachable_handlers)) c (unreachable_flags c)"
    using app_flags assms(1) by (simp add: list_all_iff flags_agree_def)
  from list_all2_nthD [OF this, of "length as"] show ?thesis by (simp add: assms(2))
qed

text \<open>
  C19. Which handlers exist for clients: whatever the order in which the controllers are registered, an
  endpoint is the answer of the router to some request exactly if it is not one of the seven bulk handlers
  of the catalogue that stand below a route \<open>:id/...\<close> of the same shape. Those seven are dead code.
\<close>

theorem reachable_handlers:
  assumes law: "router_law rm (concat cs)" and cs: "set cs = set app_controllers" and e: "e \<in> set (concat cs)"
  shows "(\<exists>m path. CHR ''%'' \<notin> set path \<and> dispatch rm (concat cs) m path = Some e)
     \<longleftrightarrow> ep_handler e \<notin> set unreachable_handlers"
proof -
  have wd: "\<forall>e\<in>set (concat cs). well_declared e"
    using app_endpoints_well by (auto simp: cs)
  have cf: "\<forall>c\<in>set cs. \<forall>d\<in>set cs. c = d \<or> apart (map pattern_key c) (map pattern_key d)
       \<or> apart (map pattern_key d) (map pattern_key c)"
    using app_apart by (simp add: cs)
  note one = dispatch_concat [OF law wd cf]
  show ?thesis
  proof
    assume "\<exists>m path. CHR ''%'' \<notin> set path \<and> dispatch rm (concat cs) m path = Some e"
    then obtain m path c where p: "CHR ''%'' \<notin> set path" and c: "c \<in> set cs" "dispatch rm c m path = Some e"
      using one by blast
    then have "set c \<subseteq> set (concat cs)" by auto
    from dispatch_not_covered [OF law this p c(2)] obtain as bs where
      "c = as @ e # bs" "\<not> unreachable_flags c ! length as" by blast
    with c(1) cs app_flag show "ep_handler e \<notin> set unreachable_handlers" by blast
  next
    assume h: "ep_handler e \<notin> set unreachable_handlers"
    from e obtain c where c: "c \<in> set cs" "e \<in> set c" by auto
    from split_list_first [OF c(2)] obtain as bs where s: "c = as @ e # bs" "e \<notin> set as" by blast
    obtain x where x: "fresh_for (concat cs) x" using fresh_ex by blast
    have "\<not> unreachable_flags c ! length as" using app_flag s(1) c(1) h cs by blast
    moreover have "set c \<subseteq> set (concat cs)" using c by auto
    ultimately have "dispatch rm c (rt_method (ep_route e)) (example_path x e) = Some e"
      using dispatch_example [OF law _ wd x s] by blast
    moreover have "CHR ''%'' \<notin> set (example_path x e)"
      by (rule example_segments_path(2) [OF x e]) (use wd e in blast)
    ultimately show "\<exists>m path. CHR ''%'' \<notin> set path \<and> dispatch rm (concat cs) m path = Some e"
      using one c(1) by blast
  qed
qed

text \<open>A matcher of whole segments, as an instance of the router.\<close>

definition segment_router :: router where
  "segment_router pat path = (if path_accepts pat path then Some (captures pat path) else None)"

lemma segment_router_law: "router_law segment_router es"
  by (simp add: router_law_def segment_router_def)

theorem reachable_handlers_witness:
  "\<nexists>m path. CHR ''%'' \<notin> set path \<and>
     dispatch segment_router (concat app_controllers) m path = Some (dramas_controller ! 8)"
proof -
  have "dramas_controller ! 8 \<in> set dramas_controller"
    by (rule nth_mem) (simp add: dramas_controller_def controller_def)
  moreover have "dramas_controller \<in> set app_controllers" by (simp add: app_controllers_def)
  moreover have "ep_handler (dramas_controller ! 8) \<in> set unreachable_handlers"
    by (simp add: dramas_controller_def route_defs unreachable_handlers_def)
  ultimately show ?thesis
    using reachable_handlers [OF segment_router_law refl, of "dramas_controller ! 8"] by fastforce
qed

text \<open>What happens to a bulk publication instead: the request is taken for the publication of one drama whose
  id is \<open>bulk\<close>, and refused.\<close>

lemma bulk_publish_refused:
  assumes "\<forall>x. is_uuid x \<longrightarrow> length x = 36"
    and "guard_request pf rq (ep_route (dramas_controller ! 6)) bearer s = (Inr p, s')"
  shows "accept_request segment_router is_uuid pf dramas_controller rq ''POST''
     ''/api/v1/dramas/bulk/publish'' bearer s =
     (Inl (BadRequest ''Validation failed (uuid is expected)''), s')"
proof -
  have d: "dispatch segment_router dramas_controller ''POST'' ''/api/v1/dramas/bulk/publish''
     = Some (dramas_controller ! 6)"
    by code_simp
  have c: "segment_router (rt_path (ep_route (dramas_controller ! 6))) ''/api/v1/dramas/bulk/publish''
     = Some [(''id'', ''bulk'')]"
    by code_simp
  have "\<not> is_uuid ''bulk''" using assms(1) by fastforce
  with d c assms(2) show ?thesis by (simp add: accept_request_def and_then_def require_def)
qed

section \<open>Who reaches what\<close>

lemma accept_request_Inr:
  "accept_request rm is_uuid pf es rq m path bearer s = (Inr (e, ps, p), s') \<longleftrightarrow>
     dispatch rm es m path = Some e \<and> guard_request pf rq (ep_route e) bearer s = (Inr p, s')
     \<and> ps = (case rm (rt_path (ep_route e)) path of None \<Rightarrow> [] | Some ps \<Rightarrow> ps)
     \<and> (\<forall>(n, v)\<in>set ps. is_uuid v)"
  by (auto simp: accept_request_def and_then_Inr Let_def split: option.splits)

lemma dispatch_in: "dispatch rm es m path = Some e \<Longrightarrow> e \<in> set es"
  by (auto simp: dispatch_def dest: find_first_Some)

definition app_endpoints :: "endpoint list" where
  "app_endpoints = concat app_controllers"

text \<open>The handlers that answer without a token, and those that answer to every account.\<close>

definition public_handlers :: "string list" where
  "public_handlers = [''HealthController.live'', ''HealthController.ready'',
     ''AuthController.register'', ''AuthController.login'', ''AuthController.refresh'', ''AuthController.logout'',
     ''DramasController.list'', ''DramasController.details'', ''SeasonsController.list'',
     ''SeasonsController.details'', ''EpisodesController.list'', ''EpisodesController.details'',
     ''MediaGatewayController.manifest'', ''MediaGatewayController.resource'', ''MetricsController.getMetrics'',
     ''LegacyController.latestNotification'', ''LegacyController.listPublicBanners'',
     ''LegacyController.listTrending'', ''LegacyController.latestRelease'',
     ''LegacyController.getRemoteConfig'', ''LegacyController.getSubscriptionSettings'']"

definition account_handlers :: "string list" where
  "account_handlers = [''AuthController.me'', ''AuthController.sessions'', ''AuthController.loginHistory'',
     ''AuthController.revokeSession'', ''AuthController.logoutAll'', ''AuthController.registerDevice'',
     ''AuthController.devices'', ''AuthController.revokeDevice'', ''AuthController.changePassword'',
     ''UsersController.me'', ''UsersController.updateProfile'', ''SubscriptionsController.me'',
     ''SubscriptionsController.validateMe'', ''AccessController.validate'',
     ''AccessController.myUnlockedEpisodes'', ''PlaybackController.start'', ''PlaybackController.resume'',
     ''PlaybackController.heartbeat'', ''PlaybackController.stop'', ''PlaybackController.status'',
     ''PlaybackController.history'', ''PlaybackController.continueWatching'', ''PlaybackController.recent'',
     ''LegacyController.markNotificationRead'', ''LegacyController.listMobileNotifications'',
     ''LegacyController.listFavorites'', ''LegacyController.addFavorite'', ''LegacyController.removeFavorite'',
     ''LegacyController.listMessages'', ''LegacyController.markMessagesRead'',
     ''LegacyController.sendMobileSupportMessage'', ''LegacyController.requestAccountDeletion'',
     ''LegacyController.listOwnAccountDeletionRequests'', ''LegacyController.downloadRelease'',
     ''LegacyController.listSubscriptionRequests'', ''LegacyController.createSubscriptionRequest'',
     ''LegacyController.getSecurityBlock'', ''LegacyController.reportIncident'',
     ''LegacyController.listComments'', ''LegacyController.createComment'', ''LegacyController.updateComment'',
     ''LegacyController.deleteComment'', ''LegacyController.recordView'', ''LegacyController.search'',
     ''SupportChatController.myConversation'', ''SupportChatController.myMessages'',
     ''SupportChatController.sendMyMessage'', ''SupportChatController.markSeen'',
     ''SupportChatController.deleteMessage'', ''SupportChatController.initUpload'',
     ''SupportChatController.uploadChunk'', ''SupportChatController.completeUpload'']"

lemma public_handlers_eval:
  "map ep_handler (filter (\<lambda>e. rt_public (ep_route e)) app_endpoints) = public_handlers"
  by code_simp

lemma account_handlers_eval:
  "map ep_handler (filter (\<lambda>e. \<not> rt_public (ep_route e) \<and> rt_permissions (ep_route e) = []) app_endpoints)
     = account_handlers"
  by code_simp

lemma app_roles_none: "list_all (\<lambda>e. rt_roles (ep_route e) = []) app_endpoints"
  by code_simp

text \<open>
  A public route has no principal, whatever token comes with the request. The catalogue lists are public and
  no route demands \<open>content.read\<close>: what their services show to the holders of that code, drafts and deleted
  rows, nobody can ask for.
\<close>

lemma public_anonymous:
  "guard_request pf rq rt bearer s = (Inr p, s') \<Longrightarrow> rt_public rt \<Longrightarrow> p = None"
  by (auto simp: guard_request_def and_then_Inr jwt_auth_guard_Inr)

lemma catalogue_reads_public:
  "list_all (\<lambda>e. rt_method (ep_route e) = ''GET'' \<longrightarrow> rt_public (ep_route e))
     (dramas_controller @ seasons_controller @ episodes_controller)"
  by code_simp

lemma content_read_not_demanded: "list_all (\<lambda>e. ''content.read'' \<notin> set (rt_permissions (ep_route e))) app_endpoints"
  by code_simp

end
