(* ===== verification/Seed.thy ===== *)
theory Seed
  imports Routes
begin

text \<open>
  The seeding script \<open>prisma/seed.ts\<close>: the permission codes, the rights of the five roles, the first super
  admin. The theorems say what the script leaves in a fresh database, that running it again changes no role,
  and what each role can then reach through the routes of \<open>Routes\<close>.
\<close>

section \<open>The script\<close>

definition seed_permissions :: "(string \<times> string) list" where
  "seed_permissions = [
     (''users.read'', ''Read users''), (''users.write'', ''Create and update users''),
     (''users.status'', ''Suspend and activate users''), (''users.delete'', ''Delete users''),
     (''roles.read'', ''Read roles''), (''roles.write'', ''Manage roles and role assignments''),
     (''permissions.read'', ''Read permissions''),
     (''permissions.write'', ''Manage permissions and assignments''),
     (''subscriptions.read'', ''Read subscriptions''),
     (''subscriptions.write'', ''Manage plans and subscriptions''),
     (''access.read'', ''Read access grants''), (''access.write'', ''Manage access groups and grants''),
     (''content.read'', ''Read all content administration records''),
     (''content.write'', ''Manage dramas, seasons, and episodes''),
     (''media.read'', ''Read media metadata''), (''media.write'', ''Manage media metadata''),
     (''notifications.read'', ''Read notifications''),
     (''notifications.write'', ''Create and update notifications''),
     (''notifications.send'', ''Send notifications''), (''messages.write'', ''Send messages''),
     (''banners.read'', ''Read banners''), (''banners.write'', ''Manage banners''),
     (''trending.read'', ''Read trending dramas''), (''trending.write'', ''Manage trending dramas''),
     (''app.release.read'', ''Read app releases''), (''app.release.write'', ''Manage app releases''),
     (''settings.read'', ''Read platform settings''), (''settings.write'', ''Manage platform settings''),
     (''security.read'', ''Read security incidents''), (''security.write'', ''Manage security incidents''),
     (''analytics.read'', ''Read analytics''), (''reports.read'', ''Read reports''),
     (''audit.read'', ''Read audit events''), (''sessions.read'', ''Read sessions''),
     (''sessions.revoke'', ''Revoke sessions''), (''user.self'', ''Use personal account features'')]"

definition seed_codes :: "string list" where
  "seed_codes = map fst seed_permissions"

fun role_permissions :: "role_code \<Rightarrow> string list" where
  "role_permissions SUPER_ADMIN = seed_codes"
| "role_permissions ADMIN =
     filter (\<lambda>c. \<not> starts_with c ''roles.'' \<and> \<not> starts_with c ''permissions.'') seed_codes"
| "role_permissions SUB_ADMIN = [''users.read'', ''users.write'', ''users.status'', ''subscriptions.read'',
     ''subscriptions.write'', ''access.read'', ''access.write'', ''content.read'', ''content.write'',
     ''media.read'', ''media.write'', ''notifications.read'', ''notifications.write'', ''notifications.send'',
     ''messages.write'', ''banners.read'', ''banners.write'', ''trending.read'', ''trending.write'',
     ''app.release.read'', ''app.release.write'', ''settings.read'', ''settings.write'', ''analytics.read'',
     ''reports.read'', ''sessions.read'', ''sessions.revoke'']"
| "role_permissions MODERATOR = [''users.read'', ''access.read'', ''subscriptions.read'', ''content.read'',
     ''media.read'', ''notifications.read'', ''banners.read'', ''trending.read'', ''analytics.read'']"
| "role_permissions USER = [''user.self'']"

fun role_name :: "role_code \<Rightarrow> string" where
  "role_name SUPER_ADMIN = ''Super Admin''"
| "role_name ADMIN = ''Admin''"
| "role_name SUB_ADMIN = ''Sub Admin''"
| "role_name MODERATOR = ''Moderator''"
| "role_name USER = ''User''"

text \<open>\<open>Object.values(RoleCode)\<close>.\<close>

definition role_codes :: "role_code list" where
  "role_codes = [SUPER_ADMIN, ADMIN, SUB_ADMIN, MODERATOR, USER]"

text \<open>The upserts: the row of the key is updated, or one with the new id is created; the answer is its id.\<close>

definition upsert_permission :: "string \<Rightarrow> string \<times> string \<Rightarrow> string handler" where
  "upsert_permission newId cd =
     and_then (gets (\<lambda>s. find_first (\<lambda>pe. pe_code pe = fst cd) (permissions s))) (\<lambda>r. case r of
       Some pe \<Rightarrow> and_then (modify (\<lambda>s. s\<lparr>permissions := update_many (\<lambda>pe. pe_code pe = fst cd)
           (\<lambda>pe. pe\<lparr>pe_description := Some (snd cd)\<rparr>) (permissions s)\<rparr>)) (\<lambda>_. ret (pe_id pe))
     | None \<Rightarrow> and_then (modify (\<lambda>s. s\<lparr>permissions := permissions s @
           [\<lparr>pe_id = newId, pe_code = fst cd, pe_description = Some (snd cd)\<rparr>]\<rparr>)) (\<lambda>_. ret newId))"

definition upsert_role :: "string \<Rightarrow> role_code \<Rightarrow> string handler" where
  "upsert_role newId code =
     and_then (gets (\<lambda>s. find_first (\<lambda>ro. ro_code ro = code) (roleDefinitions s))) (\<lambda>r. case r of
       Some ro \<Rightarrow> and_then (modify (\<lambda>s. s\<lparr>roleDefinitions := update_many (\<lambda>ro. ro_code ro = code)
           (\<lambda>ro. ro\<lparr>ro_name := role_name code, ro_systemManaged := True\<rparr>) (roleDefinitions s)\<rparr>))
         (\<lambda>_. ret (ro_id ro))
     | None \<Rightarrow> and_then (modify (\<lambda>s. s\<lparr>roleDefinitions := roleDefinitions s @
           [\<lparr>ro_id = newId, ro_code = code, ro_name = role_name code, ro_description = None,
             ro_systemManaged = True\<rparr>]\<rparr>)) (\<lambda>_. ret newId))"

definition upsert_role_permission :: "string \<Rightarrow> string \<Rightarrow> unit handler" where
  "upsert_role_permission rid pid = modify (\<lambda>s.
     if \<lparr>rp_roleId = rid, rp_permissionId = pid\<rparr> \<in> set (rolePermissions s) then s
     else s\<lparr>rolePermissions := rolePermissions s @ [\<lparr>rp_roleId = rid, rp_permissionId = pid\<rparr>]\<rparr>)"

definition upsert_user_role :: "string \<Rightarrow> string \<Rightarrow> unit handler" where
  "upsert_user_role uid rid = modify (\<lambda>s.
     if \<lparr>ur_userId = uid, ur_roleId = rid\<rparr> \<in> set (userRoles s) then s
     else s\<lparr>userRoles := userRoles s @ [\<lparr>ur_userId = uid, ur_roleId = rid\<rparr>]\<rparr>)"

definition upsert_super_admin :: "instant \<Rightarrow> string \<Rightarrow> string \<Rightarrow> string \<Rightarrow> string handler" where
  "upsert_super_admin now newId email hash =
     and_then (gets (\<lambda>s. find_first (\<lambda>u. u_email u = email) (users s))) (\<lambda>r. case r of
       Some u \<Rightarrow> and_then (modify (\<lambda>s. s\<lparr>users := update_many (\<lambda>u. u_email u = email)
           (\<lambda>u. u\<lparr>u_passwordHash := hash, u_status := User_ACTIVE, u_deletedAt := None\<rparr>) (users s)\<rparr>))
         (\<lambda>_. ret (u_id u))
     | None \<Rightarrow> and_then (modify (\<lambda>s. s\<lparr>users := users s @
           [\<lparr>u_id = newId, u_username = ''Super Admin'', u_email = email, u_passwordHash = hash,
             u_status = User_ACTIVE, u_profileImageKey = None, u_failedLoginCount = 0, u_lockedUntil = None,
             u_lastLoginAt = None, u_createdAt = now, u_deletedAt = None, u_deviceToken = None\<rparr>]\<rparr>))
         (\<lambda>_. ret newId))"

text \<open>The rights of one role: \<open>permissionRows\<close> maps a code to the id of its row.\<close>

definition seed_role :: "(role_code \<Rightarrow> string) \<Rightarrow> (string \<Rightarrow> string option) \<Rightarrow> role_code
    \<Rightarrow> (role_code \<times> string) handler" where
  "seed_role newRole permissionRows code =
     and_then (upsert_role (newRole code) code) (\<lambda>rid.
     and_then (for_each (role_permissions code) (\<lambda>pc. case permissionRows pc of
         None \<Rightarrow> ret () | Some pid \<Rightarrow> upsert_role_permission rid pid)) (\<lambda>_.
     ret (code, rid)))"

definition seed_roles :: "(role_code \<Rightarrow> string) \<Rightarrow> (string \<Rightarrow> string) \<Rightarrow> (role_code \<times> string) list handler" where
  "seed_roles newRole newPermission =
     and_then (for_each seed_permissions (\<lambda>cd. upsert_permission (newPermission (fst cd)) cd)) (\<lambda>ids.
     for_each role_codes (seed_role newRole (map_of (zip seed_codes ids))))"

text \<open>\<open>main\<close>: the two variables of the environment as they are set, the ids of the rows it may create.\<close>

definition seed_main :: "platform \<Rightarrow> instant \<Rightarrow> (role_code \<Rightarrow> string) \<Rightarrow> (string \<Rightarrow> string) \<Rightarrow> string
    \<Rightarrow> string option \<Rightarrow> string option \<Rightarrow> unit handler" where
  "seed_main pf now newRole newPermission newUser emailVar passwordVar =
     (case (truthy (map_option (\<lambda>e. to_lower (trim e)) emailVar), truthy passwordVar) of
        (Some email, Some password) \<Rightarrow>
          and_then (require (12 \<le> length password)
            (Internal ''SEED_SUPER_ADMIN_PASSWORD must be at least 12 characters'')) (\<lambda>_.
          and_then (seed_roles newRole newPermission) (\<lambda>roles.
          and_then (upsert_super_admin now newUser email (pf_argonHash pf password)) (\<lambda>uid.
          and_then (expect (map_of roles SUPER_ADMIN) (Internal ''role'')) (\<lambda>rid.
          upsert_user_role uid rid))))
      | _ \<Rightarrow> throw (Internal
          ''SEED_SUPER_ADMIN_EMAIL and SEED_SUPER_ADMIN_PASSWORD are required for seeding''))"

section \<open>What the script leaves in a fresh database\<close>

definition permission_row :: "(string \<Rightarrow> string) \<Rightarrow> string \<times> string \<Rightarrow> permission" where
  "permission_row newPermission cd =
     \<lparr>pe_id = newPermission (fst cd), pe_code = fst cd, pe_description = Some (snd cd)\<rparr>"

definition role_row :: "(role_code \<Rightarrow> string) \<Rightarrow> role_code \<Rightarrow> role_definition" where
  "role_row newRole code = \<lparr>ro_id = newRole code, ro_code = code, ro_name = role_name code,
     ro_description = None, ro_systemManaged = True\<rparr>"

definition right_row :: "string \<Rightarrow> string \<Rightarrow> role_permission" where
  "right_row rid pid = \<lparr>rp_roleId = rid, rp_permissionId = pid\<rparr>"

lemma permissions_run:
  "distinct (map fst cds) \<Longrightarrow> \<forall>cd\<in>set cds. \<forall>pe\<in>set (permissions s). pe_code pe \<noteq> fst cd \<Longrightarrow>
   for_each cds (\<lambda>cd. upsert_permission (newPermission (fst cd)) cd) s =
     (Inr (map (newPermission \<circ> fst) cds),
      s\<lparr>permissions := permissions s @ map (permission_row newPermission) cds\<rparr>)"
proof (induction cds arbitrary: s)
  case (Cons cd cds)
  let ?s = "s\<lparr>permissions := permissions s @ [permission_row newPermission cd]\<rparr>"
  have f: "find_first (\<lambda>pe. pe_code pe = fst cd) (permissions s) = None" using Cons.prems by simp
  have "for_each cds (\<lambda>cd. upsert_permission (newPermission (fst cd)) cd) ?s =
     (Inr (map (newPermission \<circ> fst) cds),
      ?s\<lparr>permissions := permissions ?s @ map (permission_row newPermission) cds\<rparr>)"
    by (rule Cons.IH) (use Cons.prems in \<open>auto simp: permission_row_def image_iff\<close>)
  moreover from f have "upsert_permission (newPermission (fst cd)) cd s = (Inr (newPermission (fst cd)), ?s)"
    by (simp add: upsert_permission_def permission_row_def del: find_first_None)
  ultimately show ?case by (simp add: and_then_def)
qed simp

lemma rights_run:
  "distinct pcs \<Longrightarrow> inj_on newPermission (set pcs) \<Longrightarrow> \<forall>pc\<in>set pcs. rows pc = Some (newPermission pc) \<Longrightarrow>
   \<forall>rp\<in>set (rolePermissions s). rp_roleId rp = rid \<longrightarrow> rp_permissionId rp \<notin> newPermission ` set pcs \<Longrightarrow>
   for_each pcs (\<lambda>pc. case rows pc of None \<Rightarrow> ret () | Some pid \<Rightarrow> upsert_role_permission rid pid) s =
     (Inr (map (\<lambda>_. ()) pcs),
      s\<lparr>rolePermissions := rolePermissions s @ map (\<lambda>pc. right_row rid (newPermission pc)) pcs\<rparr>)"
proof (induction pcs arbitrary: s)
  case (Cons pc pcs)
  let ?s = "s\<lparr>rolePermissions := rolePermissions s @ [right_row rid (newPermission pc)]\<rparr>"
  have new: "\<lparr>rp_roleId = rid, rp_permissionId = newPermission pc\<rparr> \<notin> set (rolePermissions s)"
    using Cons.prems(4) by fastforce
  have "for_each pcs (\<lambda>pc. case rows pc of None \<Rightarrow> ret () | Some pid \<Rightarrow> upsert_role_permission rid pid) ?s =
     (Inr (map (\<lambda>_. ()) pcs),
      ?s\<lparr>rolePermissions := rolePermissions ?s @ map (\<lambda>pc. right_row rid (newPermission pc)) pcs\<rparr>)"
    by (rule Cons.IH) (use Cons.prems in \<open>auto simp: right_row_def image_iff inj_on_def\<close>)
  moreover from new have "upsert_role_permission rid (newPermission pc) s = (Inr (), ?s)"
    by (simp add: upsert_role_permission_def right_row_def)
  moreover have "rows pc = Some (newPermission pc)" using Cons.prems(3) by simp
  ultimately show ?case by (simp add: and_then_def)
qed simp

lemma seed_role_run:
  assumes "\<forall>ro\<in>set (roleDefinitions s). ro_code ro \<noteq> code"
    and "distinct (role_permissions code)" and "inj_on newPermission (set (role_permissions code))"
    and "\<forall>pc\<in>set (role_permissions code). rows pc = Some (newPermission pc)"
    and "\<forall>rp\<in>set (rolePermissions s). rp_roleId rp \<noteq> newRole code"
  shows "seed_role newRole rows code s =
    (Inr (code, newRole code),
     s\<lparr>roleDefinitions := roleDefinitions s @ [role_row newRole code],
       rolePermissions := rolePermissions s
         @ map (\<lambda>pc. right_row (newRole code) (newPermission pc)) (role_permissions code)\<rparr>)"
proof -
  let ?s = "s\<lparr>roleDefinitions := roleDefinitions s @ [role_row newRole code]\<rparr>"
  have "upsert_role (newRole code) code s = (Inr (newRole code), ?s)"
  proof -
    have "find_first (\<lambda>ro. ro_code ro = code) (roleDefinitions s) = None" using assms(1) by simp
    then show ?thesis by (simp add: upsert_role_def role_row_def del: find_first_None)
  qed
  moreover have "for_each (role_permissions code)
      (\<lambda>pc. case rows pc of None \<Rightarrow> ret () | Some pid \<Rightarrow> upsert_role_permission (newRole code) pid) ?s =
    (Inr (map (\<lambda>_. ()) (role_permissions code)),
     ?s\<lparr>rolePermissions := rolePermissions ?s
       @ map (\<lambda>pc. right_row (newRole code) (newPermission pc)) (role_permissions code)\<rparr>)"
    by (rule rights_run) (use assms in auto)
  ultimately show ?thesis by (simp add: seed_role_def and_then_def)
qed

lemma seed_roles_loop:
  "distinct codes \<Longrightarrow> inj newRole \<Longrightarrow> \<forall>code\<in>set codes. \<forall>ro\<in>set (roleDefinitions s). ro_code ro \<noteq> code \<Longrightarrow>
   \<forall>code\<in>set codes. \<forall>rp\<in>set (rolePermissions s). rp_roleId rp \<noteq> newRole code \<Longrightarrow>
   \<forall>code. distinct (role_permissions code) \<and> inj_on newPermission (set (role_permissions code))
     \<and> (\<forall>pc\<in>set (role_permissions code). rows pc = Some (newPermission pc)) \<Longrightarrow>
   for_each codes (seed_role newRole rows) s =
     (Inr (map (\<lambda>code. (code, newRole code)) codes),
      s\<lparr>roleDefinitions := roleDefinitions s @ map (role_row newRole) codes,
        rolePermissions := rolePermissions s @ concat (map (\<lambda>code.
          map (\<lambda>pc. right_row (newRole code) (newPermission pc)) (role_permissions code)) codes)\<rparr>)"
proof (induction codes arbitrary: s)
  case (Cons code codes)
  let ?s = "s\<lparr>roleDefinitions := roleDefinitions s @ [role_row newRole code],
       rolePermissions := rolePermissions s
         @ map (\<lambda>pc. right_row (newRole code) (newPermission pc)) (role_permissions code)\<rparr>"
  have "seed_role newRole rows code s = (Inr (code, newRole code), ?s)"
    by (rule seed_role_run) (use Cons.prems in auto)
  moreover have "for_each codes (seed_role newRole rows) ?s =
     (Inr (map (\<lambda>code. (code, newRole code)) codes),
      ?s\<lparr>roleDefinitions := roleDefinitions ?s @ map (role_row newRole) codes,
        rolePermissions := rolePermissions ?s @ concat (map (\<lambda>code.
          map (\<lambda>pc. right_row (newRole code) (newPermission pc)) (role_permissions code)) codes)\<rparr>)"
    by (rule Cons.IH) (use Cons.prems in \<open>auto simp: role_row_def right_row_def inj_eq\<close>)
  ultimately show ?case by (simp add: and_then_def)
qed simp

lemma seed_codes_facts:
  "distinct seed_codes" "distinct (role_permissions r)" "set (role_permissions r) \<subseteq> set seed_codes"
proof -
  show d: "distinct seed_codes" by code_simp
  have sub: "list_all (\<lambda>c. c \<in> set seed_codes) (role_permissions SUB_ADMIN @ role_permissions MODERATOR
      @ role_permissions USER)"
    and dd: "distinct (role_permissions SUB_ADMIN)" "distinct (role_permissions MODERATOR)"
    by code_simp+
  show "distinct (role_permissions r)"
    using d dd by (cases r) (simp_all only: role_permissions.simps distinct_filter, simp_all)
  show "set (role_permissions r) \<subseteq> set seed_codes"
    using sub by (cases r) (auto simp only: role_permissions.simps list_all_iff set_append set_filter)
qed

lemma seed_rows:
  "pc \<in> set seed_codes \<Longrightarrow>
     map_of (zip seed_codes (map (newPermission \<circ> fst) seed_permissions)) pc = Some (newPermission pc)"
proof -
  have "map (newPermission \<circ> fst) seed_permissions = map newPermission seed_codes"
    by (simp add: seed_codes_def)
  then show "pc \<in> set seed_codes \<Longrightarrow> ?thesis" by (simp add: map_of_zip_map)
qed

text \<open>The closed form of the tables after the first run.\<close>

lemma seed_roles_fresh:
  assumes "permissions s = []" "roleDefinitions s = []" "rolePermissions s = []"
    and inj: "inj newRole" "inj newPermission"
  shows "seed_roles newRole newPermission s =
    (Inr (map (\<lambda>code. (code, newRole code)) role_codes),
     s\<lparr>permissions := map (permission_row newPermission) seed_permissions,
       roleDefinitions := map (role_row newRole) role_codes,
       rolePermissions := concat (map (\<lambda>code.
          map (\<lambda>pc. right_row (newRole code) (newPermission pc)) (role_permissions code)) role_codes)\<rparr>)"
proof -
  let ?s = "s\<lparr>permissions := map (permission_row newPermission) seed_permissions\<rparr>"
  let ?rows = "map_of (zip seed_codes (map (newPermission \<circ> fst) seed_permissions))"
  have rows: "?rows pc = Some (newPermission pc)" if "pc \<in> set seed_codes" for pc
    by (rule seed_rows [OF that])
  have "for_each seed_permissions (\<lambda>cd. upsert_permission (newPermission (fst cd)) cd) s =
     (Inr (map (newPermission \<circ> fst) seed_permissions), ?s)"
    using permissions_run [of seed_permissions s newPermission] seed_codes_facts(1) assms(1)
    by (simp add: seed_codes_def)
  moreover have "for_each role_codes (seed_role newRole ?rows) ?s =
     (Inr (map (\<lambda>code. (code, newRole code)) role_codes),
      ?s\<lparr>roleDefinitions := roleDefinitions ?s @ map (role_row newRole) role_codes,
        rolePermissions := rolePermissions ?s @ concat (map (\<lambda>code.
          map (\<lambda>pc. right_row (newRole code) (newPermission pc)) (role_permissions code)) role_codes)\<rparr>)"
  proof (rule seed_roles_loop)
    show "\<forall>code. distinct (role_permissions code) \<and> inj_on newPermission (set (role_permissions code))
     \<and> (\<forall>pc\<in>set (role_permissions code). ?rows pc = Some (newPermission pc))"
      using seed_codes_facts(2,3) rows inj(2) by (meson inj_on_subset subsetD subset_UNIV)
  qed (use assms in \<open>simp_all add: role_codes_def\<close>)
  ultimately show ?thesis using assms(2,3) by (simp add: seed_roles_def and_then_def)
qed

lemma upsert_super_admin_run:
  "\<exists>u s'. upsert_super_admin now newId email hash s = (Inr (u_id u), s') \<and> u \<in> set (users s')
     \<and> u_email u = email \<and> u_status u = User_ACTIVE \<and> u_deletedAt u = None \<and> u_passwordHash u = hash
     \<and> s' = s\<lparr>users := users s'\<rparr>"
proof (cases "find_first (\<lambda>u. u_email u = email) (users s)")
  case None
  let ?u = "\<lparr>u_id = newId, u_username = ''Super Admin'', u_email = email, u_passwordHash = hash,
     u_status = User_ACTIVE, u_profileImageKey = None, u_failedLoginCount = 0, u_lockedUntil = None,
     u_lastLoginAt = None, u_createdAt = now, u_deletedAt = None, u_deviceToken = None\<rparr>"
  from None have "upsert_super_admin now newId email hash s = (Inr (u_id ?u), s\<lparr>users := users s @ [?u]\<rparr>)"
    by (simp add: upsert_super_admin_def del: find_first_None)
  then show ?thesis by fastforce
next
  case (Some u)
  let ?f = "\<lambda>u. u\<lparr>u_passwordHash := hash, u_status := User_ACTIVE, u_deletedAt := None\<rparr>"
  from find_first_Some [OF Some] have "?f u \<in> set (update_many (\<lambda>u. u_email u = email) ?f (users s))"
    by (force simp: update_many_def)
  with Some find_first_Some [OF Some] show ?thesis
    by (intro exI [of _ "?f u"]) (simp add: upsert_super_admin_def)
qed

text \<open>The rights of the roles are those of the script.\<close>

definition seeded :: "state \<Rightarrow> bool" where
  "seeded s \<longleftrightarrow> (\<forall>ro\<in>set (roleDefinitions s).
     set (codes_of_role s (ro_id ro)) = set (role_permissions (ro_code ro)))"

lemma seeded_fresh:
  assumes "inj newRole" "inj newPermission"
    and "permissions s = map (permission_row newPermission) seed_permissions"
    and "roleDefinitions s = map (role_row newRole) role_codes"
    and "rolePermissions s = concat (map (\<lambda>code.
          map (\<lambda>pc. right_row (newRole code) (newPermission pc)) (role_permissions code)) role_codes)"
  shows "seeded s"
proof -
  have pe: "pe_id pe = newPermission (pe_code pe) \<and> pe_code pe \<in> set seed_codes"
    if "pe \<in> set (permissions s)" for pe
    using that by (force simp: assms(3) permission_row_def seed_codes_def)
  have ex: "\<exists>pe\<in>set (permissions s). pe_code pe = c" if "c \<in> set seed_codes" for c
    using that by (force simp: assms(3) permission_row_def seed_codes_def)
  have rights: "(\<exists>rp\<in>set (rolePermissions s). rp_roleId rp = newRole code \<and> pid = rp_permissionId rp)
      \<longleftrightarrow> pid \<in> newPermission ` set (role_permissions code)" if "code \<in> set role_codes" for code pid
    using that assms(1) by (auto simp: assms(5) right_row_def inj_eq)
  have "set (codes_of_role s (newRole code)) = set (role_permissions code)" if "code \<in> set role_codes" for code
    unfolding set_codes_of_role rights [OF that]
    using pe ex seed_codes_facts(3) [of code] assms(2) by (fastforce simp: inj_eq image_iff)
  then show ?thesis by (simp add: seeded_def assms(4) role_row_def)
qed

text \<open>
  What the seeding script leaves: on a database without roles, with both variables set and a password
  of at least twelve characters, it succeeds; then the five roles exist with the rights of the table, and the
  account of the address is an active super admin with the new password, whether it was there before or not.
\<close>

lemma seed_correct:
  assumes fresh: "permissions s = []" "roleDefinitions s = []" "rolePermissions s = []"
    and inj: "inj newRole" "inj newPermission"
    and env: "truthy (map_option (\<lambda>e. to_lower (trim e)) emailVar) = Some email"
      "truthy passwordVar = Some password" "12 \<le> length password"
  shows "\<exists>s' u. seed_main pf now newRole newPermission newUser emailVar passwordVar s = (Inr (), s')
     \<and> seeded s' \<and> map ro_code (roleDefinitions s') = role_codes
     \<and> u \<in> set (users s') \<and> u_email u = email \<and> u_status u = User_ACTIVE \<and> u_deletedAt u = None
     \<and> u_passwordHash u = pf_argonHash pf password
     \<and> SUPER_ADMIN \<in> ro_code ` set (roles_of_user s' (u_id u))"
proof -
  obtain s1 where s1: "seed_roles newRole newPermission s =
      (Inr (map (\<lambda>code. (code, newRole code)) role_codes), s1)" "seeded s1"
      "roleDefinitions s1 = map (role_row newRole) role_codes" "users s1 = users s"
    using seed_roles_fresh [OF fresh inj] seeded_fresh [OF inj] by simp
  have rid: "map_of (map (\<lambda>code. (code, newRole code)) role_codes) SUPER_ADMIN = Some (newRole SUPER_ADMIN)"
    by (simp add: role_codes_def)
  obtain u s2 where u: "upsert_super_admin now newUser email (pf_argonHash pf password) s1 = (Inr (u_id u), s2)"
      "u \<in> set (users s2)" "u_email u = email" "u_status u = User_ACTIVE" "u_deletedAt u = None"
      "u_passwordHash u = pf_argonHash pf password"
    and same: "s2 = s1\<lparr>users := users s2\<rparr>"
    using upsert_super_admin_run [of now newUser email "pf_argonHash pf password" s1] by blast
  obtain s3 where s3: "upsert_user_role (u_id u) (newRole SUPER_ADMIN) s2 = (Inr (), s3)"
      "s3 = s2\<lparr>userRoles := userRoles s3\<rparr>"
      "\<lparr>ur_userId = u_id u, ur_roleId = newRole SUPER_ADMIN\<rparr> \<in> set (userRoles s3)"
    by (auto simp: upsert_user_role_def)
  have tables: "roleDefinitions s3 = roleDefinitions s1" "permissions s3 = permissions s1"
    "rolePermissions s3 = rolePermissions s1" "users s3 = users s2"
    using arg_cong [OF same, of roleDefinitions] arg_cong [OF s3(2), of roleDefinitions]
      arg_cong [OF same, of permissions] arg_cong [OF s3(2), of permissions]
      arg_cong [OF same, of rolePermissions] arg_cong [OF s3(2), of rolePermissions]
      arg_cong [OF s3(2), of users] by simp_all
  have "seeded s3" using s1(2) by (simp add: seeded_def codes_of_role_def tables)
  moreover have "SUPER_ADMIN \<in> ro_code ` set (roles_of_user s3 (u_id u))"
  proof (rule image_eqI)
    have "role_row newRole SUPER_ADMIN \<in> set (roleDefinitions s3)"
      unfolding tables s1(3) by (simp add: role_codes_def)
    with s3(3) show "role_row newRole SUPER_ADMIN \<in> set (roles_of_user s3 (u_id u))"
      unfolding set_roles_of_user by (force simp: role_row_def)
  qed (simp add: role_row_def)
  moreover have "seed_main pf now newRole newPermission newUser emailVar passwordVar s = (Inr (), s3)"
    using env s1(1) rid u(1) s3(1) by (simp add: seed_main_def and_then_def require_def expect_def)
  moreover have "map ro_code (roleDefinitions s3) = role_codes"
    by (simp add: tables s1(3) role_row_def comp_def)
  ultimately show ?thesis
    using u(2-6) unfolding tables(4) [symmetric] by blast
qed

lemma seed_correct_example:
  "\<exists>s' u. seed_main demo_platform 0 role_name id ''u0'' (Some '' Root@X.de '') (Some ''longpassword'') empty_state
       = (Inr (), s')
     \<and> seeded s' \<and> map ro_code (roleDefinitions s') = role_codes
     \<and> u \<in> set (users s') \<and> u_email u = ''root@x.de'' \<and> u_status u = User_ACTIVE \<and> u_deletedAt u = None
     \<and> u_passwordHash u = ''$longpassword''
     \<and> SUPER_ADMIN \<in> ro_code ` set (roles_of_user s' (u_id u))"
proof -
  have "inj role_name"
  proof (rule injI)
    show "role_name a = role_name b \<Longrightarrow> a = b" for a b by (cases a; cases b) simp_all
  qed
  moreover have "truthy (map_option (\<lambda>e. to_lower (trim e)) (Some '' Root@X.de '')) = Some ''root@x.de''"
    "truthy (Some ''longpassword'') = Some ''longpassword''" by code_simp+
  ultimately show ?thesis
    using seed_correct [of empty_state role_name id "Some '' Root@X.de ''" "''root@x.de''"
        "Some ''longpassword''" "''longpassword''" demo_platform 0 "''u0''"]
    by (simp add: empty_state_def demo_platform_def)
qed

lemma seed_refused:
  assumes "truthy (map_option (\<lambda>e. to_lower (trim e)) emailVar) = None \<or> truthy passwordVar = None
     \<or> (\<exists>pw. passwordVar = Some pw \<and> length pw < 12)"
  shows "\<exists>e. seed_main pf now newRole newPermission newUser emailVar passwordVar s = (Inl e, s)"
  using assms by (auto simp: seed_main_def truthy_def split: option.splits list.splits)

text \<open>A second run, with whatever new ids, leaves roles, codes and rights as they are.\<close>

lemma for_each_unchanged:
  "\<forall>x\<in>set xs. f x s = (Inr (g x), s) \<Longrightarrow> for_each xs f s = (Inr (map g xs), s)"
  by (induction xs) (auto simp: and_then_def)

lemma update_many_same: "\<forall>r\<in>set t. P r \<longrightarrow> f r = r \<Longrightarrow> update_many P f t = t"
  by (auto simp: update_many_def intro!: map_idI)

lemma seed_roles_again:
  assumes inj: "inj newRole" "inj newPermission"
    and p: "permissions s = map (permission_row newPermission) seed_permissions"
    and r: "roleDefinitions s = map (role_row newRole) role_codes"
    and l: "rolePermissions s = concat (map (\<lambda>code.
          map (\<lambda>pc. right_row (newRole code) (newPermission pc)) (role_permissions code)) role_codes)"
  shows "seed_roles newRole' newPermission' s = (Inr (map (\<lambda>code. (code, newRole code)) role_codes), s)"
proof -
  have rec: "s\<lparr>permissions := permissions s\<rparr> = s" "s\<lparr>roleDefinitions := roleDefinitions s\<rparr> = s" by simp_all
  have "upsert_permission (newPermission' (fst cd)) cd s = (Inr (newPermission (fst cd)), s)"
    if cd: "cd \<in> set seed_permissions" for cd
  proof -
    have "permission_row newPermission cd \<in> set (permissions s)" using cd by (simp add: p)
    then obtain pe where pe: "find_first (\<lambda>pe. pe_code pe = fst cd) (permissions s) = Some pe"
      using find_first_ex [of "\<lambda>pe. pe_code pe = fst cd" "permissions s"]
      by (metis permission.select_convs(2) permission_row_def)
    have uniq: "pe' = permission_row newPermission cd"
      if pe': "pe' \<in> set (permissions s)" "pe_code pe' = fst cd" for pe'
    proof -
      from pe' obtain cd' where cd': "cd' \<in> set seed_permissions" "pe' = permission_row newPermission cd'"
        unfolding p by auto
      with pe'(2) have "fst cd' = fst cd" by (simp add: permission_row_def)
      with cd cd'(1) seed_codes_facts(1) have "cd' = cd"
        unfolding seed_codes_def distinct_map by (metis inj_onD)
      with cd'(2) show ?thesis by simp
    qed
    have "update_many (\<lambda>pe. pe_code pe = fst cd) (\<lambda>pe. pe\<lparr>pe_description := Some (snd cd)\<rparr>) (permissions s)
       = permissions s"
      by (rule update_many_same) (auto dest!: uniq simp: permission_row_def)
    moreover have "pe_id pe = newPermission (fst cd)"
      using uniq [of pe] find_first_Some [OF pe] by (simp add: permission_row_def)
    ultimately show ?thesis using pe rec(1) by (simp add: upsert_permission_def)
  qed
  then have codes: "for_each seed_permissions (\<lambda>cd. upsert_permission (newPermission' (fst cd)) cd) s =
     (Inr (map (newPermission \<circ> fst) seed_permissions), s)"
    by (simp add: for_each_unchanged [where g = "newPermission \<circ> fst"])
  let ?rows = "map_of (zip seed_codes (map (newPermission \<circ> fst) seed_permissions))"
  have rows: "?rows pc = Some (newPermission pc)" if "pc \<in> set seed_codes" for pc
    using that seed_rows [of pc newPermission] by simp
  have "seed_role newRole' ?rows code s = (Inr (code, newRole code), s)" if code: "code \<in> set role_codes" for code
  proof -
    have "role_row newRole code \<in> set (roleDefinitions s)" using code by (simp add: r)
    then obtain ro where ro: "find_first (\<lambda>ro. ro_code ro = code) (roleDefinitions s) = Some ro"
      using find_first_ex [of "\<lambda>ro. ro_code ro = code" "roleDefinitions s"]
      by (metis role_definition.select_convs(2) role_row_def)
    have uniq: "ro' = role_row newRole code" if "ro' \<in> set (roleDefinitions s)" "ro_code ro' = code" for ro'
      using that by (auto simp: r role_row_def)
    have "update_many (\<lambda>ro. ro_code ro = code)
        (\<lambda>ro. ro\<lparr>ro_name := role_name code, ro_systemManaged := True\<rparr>) (roleDefinitions s) = roleDefinitions s"
    proof (rule update_many_same, intro ballI impI)
      fix ro' assume "ro' \<in> set (roleDefinitions s)" and "ro_code ro' = code"
      then have "ro' = role_row newRole code" by (rule uniq)
      then show "ro'\<lparr>ro_name := role_name code, ro_systemManaged := True\<rparr> = ro'"
        by (simp add: role_row_def)
    qed
    moreover have "ro_id ro = newRole code"
      using uniq [of ro] find_first_Some [OF ro] by (simp add: role_row_def)
    ultimately have "upsert_role (newRole' code) code s = (Inr (newRole code), s)"
      using ro rec(2) by (simp add: upsert_role_def)
    moreover have "for_each (role_permissions code) (\<lambda>pc. case ?rows pc of None \<Rightarrow> ret ()
        | Some pid \<Rightarrow> upsert_role_permission (newRole code) pid) s = (Inr (map (\<lambda>_. ()) (role_permissions code)), s)"
    proof (rule for_each_unchanged, rule ballI)
      fix pc assume pc: "pc \<in> set (role_permissions code)"
      have "right_row (newRole code) (newPermission pc) \<in> set (rolePermissions s)"
        using pc code by (auto simp: l)
      then show "(case ?rows pc of None \<Rightarrow> ret ()
        | Some pid \<Rightarrow> upsert_role_permission (newRole code) pid) s = (Inr (), s)"
        using rows [of pc] pc seed_codes_facts(3) [of code]
        by (auto simp: upsert_role_permission_def right_row_def)
    qed
    ultimately show ?thesis by (simp add: seed_role_def and_then_def)
  qed
  with codes show ?thesis
    by (simp add: seed_roles_def and_then_def for_each_unchanged [where g = "\<lambda>code. (code, newRole code)"])
qed

section \<open>What the roles reach\<close>

lemma principal_rights:
  assumes "jwt_validate now sub sid s = (Inr q, s)"
  shows "pr_roles q = map ro_code (roles_of_user s sub)"
    and "set (pr_permissions q) =
      (\<Union>ro\<in>set (roles_of_user s sub). set (codes_of_role s (ro_id ro))) \<union> set (direct_codes s sub)"
proof -
  from assms obtain r u where "access_session s now sub sid = Some r" "find_user s (rs_userId r) = Some u"
    and q: "q = principal_of s u sid"
    by (auto simp: jwt_validate_Inr)
  then have "u_id u = sub" using access_session_Some find_user_Some by metis
  with q show "pr_roles q = map ro_code (roles_of_user s sub)"
    "set (pr_permissions q) =
      (\<Union>ro\<in>set (roles_of_user s sub). set (codes_of_role s (ro_id ro))) \<union> set (direct_codes s sub)"
    by (simp_all add: set_principal_permissions) (simp add: principal_of_def Let_def)
qed

text \<open>The rights of an account without permissions of its own, in a seeded database, are those of its roles.\<close>

lemma seeded_permissions:
  assumes "seeded s" and "direct_codes s sub = []" and "jwt_validate now sub sid s = (Inr q, s)"
  shows "set (pr_permissions q) = (\<Union>r\<in>set (pr_roles q). set (role_permissions r))"
  using assms(1,2) principal_rights [OF assms(3)] set_roles_of_user [of s sub]
  by (auto simp: seeded_def)

lemma public_handler: "e \<in> set app_endpoints \<Longrightarrow> rt_public (ep_route e) \<Longrightarrow> ep_handler e \<in> set public_handlers"
  unfolding public_handlers_eval [symmetric] by auto

lemma account_handler:
  "e \<in> set app_endpoints \<Longrightarrow> \<not> rt_public (ep_route e) \<Longrightarrow> rt_permissions (ep_route e) = []
     \<Longrightarrow> ep_handler e \<in> set account_handlers"
  unfolding account_handlers_eval [symmetric] by auto

lemma self_not_demanded: "list_all (\<lambda>e. ''user.self'' \<notin> set (rt_permissions (ep_route e))) app_endpoints"
  by code_simp



definition user_state :: state where
  "user_state = demo_state\<lparr>roleDefinitions := [role_row (\<lambda>_. ''r1'') USER],
     permissions := [\<lparr>pe_id = ''p1'', pe_code = ''user.self'', pe_description = None\<rparr>]\<rparr>"


text \<open>
  The staff of the support desk: the service counts admins, sub-admins and moderators as staff, but the code
  \<open>messages.read\<close> that the routes demand is not among the seeded ones, so that of the five roles only the super
  admin gets past the guard.
\<close>

lemma support_desk_closed:
  assumes "seeded s" and "direct_codes s sub = []" and "jwt_validate now sub sid s = (Inr q, s)"
    and "SUPER_ADMIN \<notin> set (pr_roles q)" and "''messages.read'' \<in> set (rt_permissions rt)"
  shows "permission_guard rt (Some q) s = (Inl (Forbidden ''Insufficient permissions''), s)"
proof -
  have "''messages.read'' \<notin> set seed_codes" by code_simp
  then have "''messages.read'' \<notin> set (pr_permissions q)"
    using seeded_permissions [OF assms(1-3)] seed_codes_facts(3) by auto
  with assms(4,5) show ?thesis by (auto simp: permission_guard_def require_def)
qed

lemma support_desk_routes:
  "map ep_handler (filter (\<lambda>e. ''messages.read'' \<in> set (rt_permissions (ep_route e))) app_endpoints)
     = [''SupportChatController.stats'', ''SupportChatController.conversations'',
        ''SupportChatController.adminMessages'']"
  by code_simp

end
