(* ===== verification/Http.thy ===== *)
theory Http
  imports Routes
begin

text \<open>
  What surrounds the handlers: the request id (\<open>common/http/request-id.middleware.ts\<close>), the audit interceptor
  (\<open>common/audit/audit-logging.interceptor.ts\<close>), the exception filter
  (\<open>common/filters/global-exception.filter.ts\<close>), the access check and the route labels of the metrics
  (\<open>common/metrics\<close>), the readiness probe (\<open>health/health.controller.ts\<close>), the log level
  (\<open>common/logging/structured-logger.service.ts\<close>) and the checks of the environment in \<open>main.ts\<close>.
  \<open>serve\<close> puts the first three around the router and the guards of \<open>Routes\<close>.
\<close>

section \<open>Request ids\<close>

definition id_char :: "char \<Rightarrow> bool" where
  "id_char c = (let n = (of_char c :: nat) in
     (97 \<le> n \<and> n \<le> 122) \<or> (65 \<le> n \<and> n \<le> 90) \<or> (48 \<le> n \<and> n \<le> 57)
     \<or> c = CHR ''.'' \<or> c = CHR ''_'' \<or> c = CHR '':'' \<or> c = CHR ''-'')"

text \<open>The pattern \<open>^[a-zA-Z0-9._:-]{1,100}$\<close>.\<close>

definition valid_request_id :: "string \<Rightarrow> bool" where
  "valid_request_id x = (1 \<le> length x \<and> length x \<le> 100 \<and> list_all id_char x)"

text \<open>The header as it arrived, and the random id that replaces a missing or strange one.\<close>

definition request_id :: "string option \<Rightarrow> string \<Rightarrow> string" where
  "request_id incoming uuid = (case incoming of
     None \<Rightarrow> uuid
   | Some x \<Rightarrow> if x \<noteq> [] \<and> valid_request_id x then x else uuid)"

lemma request_id_valid:
  "valid_request_id uuid \<Longrightarrow> valid_request_id (request_id incoming uuid)"
  by (auto simp: request_id_def split: option.split)

section \<open>The exception filter\<close>

text \<open>\<open>getStatus()\<close> of the Nest exceptions; what is not an \<open>HttpException\<close> counts as 500.\<close>

fun http_status :: "http_error \<Rightarrow> nat" where
  "http_status (BadRequest _) = 400"
| "http_status (Unauthorized _) = 401"
| "http_status (Forbidden _) = 403"
| "http_status (NotFound _) = 404"
| "http_status (Conflict _) = 409"
| "http_status (TooManyRequests _) = 429"
| "http_status (ServiceUnavailable _) = 503"
| "http_status (Internal _) = 500"

fun error_message :: "http_error \<Rightarrow> string" where
  "error_message (BadRequest m) = m"
| "error_message (Unauthorized m) = m"
| "error_message (Forbidden m) = m"
| "error_message (NotFound m) = m"
| "error_message (Conflict m) = m"
| "error_message (TooManyRequests m) = m"
| "error_message (ServiceUnavailable m) = m"
| "error_message (Internal m) = m"

record error_body =
  er_statusCode :: nat
  er_error :: string
  er_message :: "string option"
  er_requestId :: string

definition exception_filter :: "string \<Rightarrow> http_error \<Rightarrow> error_body" where
  "exception_filter requestId e =
     (let status = http_status e;
          message = (if status < 500 then truthy (Some (error_message e)) else None)
      in \<lparr>er_statusCode = status,
          er_error = (if 500 \<le> status then ''Internal server error'' else ''Request rejected''),
          er_message = message, er_requestId = requestId\<rparr>)"

text \<open>Errors of the database or of a provider look the same to the client, whatever they say.\<close>

lemma exception_filter_opaque:
  "exception_filter rid (Internal m) = exception_filter rid (Internal m')"
  "exception_filter rid (ServiceUnavailable m) = exception_filter rid (ServiceUnavailable m')"
  by (simp_all add: exception_filter_def)

section \<open>The audit interceptor\<close>

definition http_event :: "request \<Rightarrow> principal option \<Rightarrow> string \<Rightarrow> string \<Rightarrow> string \<Rightarrow> audit_outcome \<Rightarrow> nat
    \<Rightarrow> audit_event" where
  "http_event rq p routePath m path outcome status =
     with_client rq (audit_input rq (map_option pr_id p) ''http.request'' (take 120 routePath) None outcome
       [(''method'', JStr m), (''path'', JStr path), (''statusCode'', JNum (int status))])"

text \<open>
  \<open>next.handle()\<close> followed by the record of its outcome. The insert is not awaited and its failure is only
  logged: \<open>stored\<close> says whether it succeeds.
\<close>

definition audited :: "bool \<Rightarrow> (audit_outcome \<Rightarrow> nat \<Rightarrow> audit_event) \<Rightarrow> nat \<Rightarrow> 'a handler \<Rightarrow> 'a handler" where
  "audited stored event status m s =
     (case m s of
        (Inr x, s') \<Rightarrow> (Inr x, if stored then snd (audit_write (event SUCCESS status) s') else s')
      | (Inl e, s') \<Rightarrow> (Inl e, if stored then snd (audit_write
          (event (if http_status e < 500 then DENIED else FAILURE) (http_status e)) s') else s'))"

section \<open>A request from end to end\<close>

text \<open>
  Middleware, router, guards, interceptor, pipes, handler, filter, in the order of Nest. \<open>run\<close> gives the
  handler of an endpoint, \<open>status\<close> the status of its successful answer.
\<close>

definition serve ::
  "router \<Rightarrow> (string \<Rightarrow> bool) \<Rightarrow> platform \<Rightarrow> bool \<Rightarrow> endpoint list
     \<Rightarrow> (endpoint \<Rightarrow> (string \<times> string) list \<Rightarrow> principal option \<Rightarrow> request \<Rightarrow> 'a handler) \<Rightarrow> (endpoint \<Rightarrow> nat)
     \<Rightarrow> request \<Rightarrow> string option \<Rightarrow> string \<Rightarrow> string \<Rightarrow> string \<Rightarrow> string option \<Rightarrow> state
     \<Rightarrow> (error_body + 'a) \<times> state" where
  "serve rm is_uuid pf stored es run status rq0 idHeader uuid m path bearer s =
     (let rq = rq0\<lparr>rq_id := request_id idHeader uuid\<rparr>;
          answer = (case dispatch rm es m path of
              None \<Rightarrow> throw (NotFound (''Cannot '' @ m @ '' '' @ path))
            | Some e \<Rightarrow>
                and_then (guard_request pf rq (ep_route e) bearer) (\<lambda>p.
                let ps = (case rm (rt_path (ep_route e)) path of None \<Rightarrow> [] | Some ps \<Rightarrow> ps) in
                audited stored (http_event rq p (rt_path (ep_route e)) m path) (status e)
                  (and_then (require (\<forall>(n, v)\<in>set ps. is_uuid v)
                     (BadRequest ''Validation failed (uuid is expected)'')) (\<lambda>_.
                   run e ps p rq)))) s
      in case answer of
           (Inl err, s') \<Rightarrow> (Inl (exception_filter (rq_id rq) err), s')
         | (Inr x, s') \<Rightarrow> (Inr x, s'))"

section \<open>Metrics, readiness, logs\<close>

text \<open>\<open>MetricsController\<close>: the tokens are compared byte by byte in constant time.\<close>

definition metrics_access :: "string \<Rightarrow> string option \<Rightarrow> bool" where
  "metrics_access configured header =
     (let supplied = (case header of None \<Rightarrow> [] | Some x \<Rightarrow> x)
      in \<not> (length configured = 0 \<or> length configured \<noteq> length supplied \<or> configured \<noteq> supplied))"

lemma metrics_access_iff: "metrics_access configured header \<longleftrightarrow> configured \<noteq> [] \<and> header = Some configured"
  by (cases header) (auto simp: metrics_access_def)

text \<open>\<open>MetricsService.normalizeRoute\<close>: the two replacements work on whole segments.\<close>

definition hex_char :: "char \<Rightarrow> bool" where
  "hex_char c = (c \<in> set ''0123456789abcdef'')"

definition uuid_like :: "string \<Rightarrow> bool" where
  "uuid_like x = (let y = to_lower x in
     9 \<le> length y \<and> list_all hex_char (take 8 y) \<and> y ! 8 = CHR ''-''
     \<and> 36 \<le> length y \<and> length y \<le> 45 \<and> list_all (\<lambda>c. hex_char c \<or> c = CHR ''-'') (drop 9 y))"

definition all_digits :: "string \<Rightarrow> bool" where
  "all_digits x = (x \<noteq> [] \<and> list_all (\<lambda>c. c \<in> set ''0123456789'') x)"

definition normal_segment :: "string \<Rightarrow> string" where
  "normal_segment x = (if uuid_like x \<or> all_digits x then '':id'' else x)"

definition normalize_route :: "string \<Rightarrow> string" where
  "normalize_route route = (if \<not> starts_with route ''/'' then ''/unmatched''
     else join_path ([] # map normal_segment (tl (segments route))))"

text \<open>\<open>HealthController.ready\<close>: both probes run, one failure is enough.\<close>

definition ready_probe :: "bool \<Rightarrow> bool \<Rightarrow> http_error + bool \<times> bool" where
  "ready_probe postgresReady redisReady =
     (if postgresReady \<and> redisReady then Inr (True, True) else Inl (ServiceUnavailable ''Service is not ready''))"

datatype log_level = Log_info | Log_warn | Log_error

definition level_number :: "string \<Rightarrow> nat" where
  "level_number name = (case map_of [(''fatal'', 0), (''error'', 1), (''warn'', 2), (''info'', 3),
     (''debug'', 4), (''trace'', 5 :: nat)] name of None \<Rightarrow> 3 | Some n \<Rightarrow> n)"

definition writes_log :: "string \<Rightarrow> log_level \<Rightarrow> bool" where
  "writes_log minimum level =
     ((case level of Log_error \<Rightarrow> 1 | Log_warn \<Rightarrow> 2 | Log_info \<Rightarrow> 3) \<le> level_number minimum)"

section \<open>The checks of the environment\<close>

definition required_boot_env_keys :: "string list" where
  "required_boot_env_keys = [''DATABASE_URL'', ''REDIS_URL'', ''PUBLIC_API_ORIGIN'', ''ADMIN_WEB_ORIGIN'',
     ''JWT_ISSUER'', ''JWT_AUDIENCE'', ''JWT_PRIVATE_KEY_B64'', ''JWT_PUBLIC_KEY_B64'', ''METRICS_TOKEN'',
     ''ARGON2_DUMMY_HASH'', ''MEDIA_GATEWAY_PUBLIC_URL'', ''MEDIA_LOCATOR_ENCRYPTION_KEY_B64'',
     ''MEDIA_PROVIDER_ALLOWED_HOSTS'', ''MEDIA_PROVIDER_ORIGIN_SECRET'']"

type_synonym environment = "string \<Rightarrow> string option"

definition missing_env :: "environment \<Rightarrow> string list" where
  "missing_env env = filter (\<lambda>key. truthy (map_option trim (env key)) = None) required_boot_env_keys"

text \<open>\<open>process.exit(1)\<close> is \<open>Inl\<close> with the event and the offending keys.\<close>

definition preflight_environment :: "environment \<Rightarrow> (string \<times> string list) + unit" where
  "preflight_environment env =
     (let missing = missing_env env in if missing \<noteq> [] then Inl (''missing_boot_env'', missing) else Inr ())"

definition preflight_secrets :: "(string \<Rightarrow> string) \<Rightarrow> environment \<Rightarrow> (string \<times> string list) + unit" where
  "preflight_secrets base64 env =
     (let get = (\<lambda>key. base64 (case env key of None \<Rightarrow> [] | Some v \<Rightarrow> v));
          invalid =
            (if \<not> str_includes (get ''JWT_PRIVATE_KEY_B64'') ''BEGIN PRIVATE KEY'' then [''JWT_PRIVATE_KEY_B64''] else [])
            @ (if \<not> str_includes (get ''JWT_PUBLIC_KEY_B64'') ''BEGIN PUBLIC KEY'' then [''JWT_PUBLIC_KEY_B64''] else [])
            @ (if length (get ''MEDIA_LOCATOR_ENCRYPTION_KEY_B64'') \<noteq> 32
               then [''MEDIA_LOCATOR_ENCRYPTION_KEY_B64''] else [])
      in if invalid \<noteq> [] then Inl (''invalid_boot_env'', invalid) else Inr ())"

definition preflight :: "(string \<Rightarrow> string) \<Rightarrow> environment \<Rightarrow> (string \<times> string list) + unit" where
  "preflight base64 env = (case preflight_environment env of
     Inl e \<Rightarrow> Inl e | Inr _ \<Rightarrow> preflight_secrets base64 env)"

section \<open>Theorems\<close>

lemma guard_request_frame: "guard_request pf rq rt bearer s = (r, s') \<Longrightarrow> s' = s\<lparr>redis := redis s'\<rparr>"
proof -
  have inc: "increment_with_expiry now k w s1 = (r1, s2) \<Longrightarrow> s2 = s1\<lparr>redis := redis s2\<rparr>" for now k w s1 r1 s2
    by (auto simp: increment_with_expiry_def Let_def split: if_splits option.splits prod.splits redis_value.splits)
  have rate: "rate_limit_guard rq rt p s1 = (r1, s2) \<Longrightarrow> s2 = s1\<lparr>redis := redis s2\<rparr>" for p s1 r1 s2
    by (auto simp: rate_limit_guard_def and_then_def catch_error_def dest: inc
        split: prod.splits sum.splits if_splits)
  have auth: "jwt_auth_guard pf rq rt bearer s1 = (r1, s2) \<Longrightarrow> s2 = s1" for s1 r1 s2
    by (auto simp: jwt_auth_guard_def and_then_def expect_def dest: jwt_validate_state
        split: option.splits prod.splits sum.splits if_splits)
  have roles: "roles_guard rt p s1 = (r1, s2) \<Longrightarrow> s2 = s1" for p s1 r1 s2
    by (auto simp: roles_guard_def require_def split: option.splits if_splits)
  have perms: "permission_guard rt p s1 = (r1, s2) \<Longrightarrow> s2 = s1" for p s1 r1 s2
    by (auto simp: permission_guard_def require_def split: option.splits if_splits)
  show "guard_request pf rq rt bearer s = (r, s') \<Longrightarrow> ?thesis"
    unfolding guard_request_def and_then_def
    by (auto dest!: auth roles perms dest: rate split: prod.splits sum.splits)
qed

text \<open>What the router and the guards refuse leaves no trace in the audit log: the interceptor is inside them.\<close>

lemma refused_untraced:
  assumes "dispatch rm es m path = Some e"
    and "guard_request pf (rq0\<lparr>rq_id := request_id idHeader uuid\<rparr>) (ep_route e) bearer s = (Inl err, s1)"
  shows "\<exists>b s'. serve rm is_uuid pf stored es run status rq0 idHeader uuid m path bearer s = (Inl b, s')
     \<and> er_statusCode b = http_status err \<and> auditEvents s' = auditEvents s"
proof -
  have "auditEvents s1 = auditEvents s"
    using arg_cong [OF guard_request_frame [OF assms(2)], of auditEvents] by simp
  then show ?thesis
    using assms by (simp add: serve_def Let_def and_then_def exception_filter_def)
qed

lemma audited_Inr: "audited True event status m s = (Inr x, s') \<longleftrightarrow>
    (\<exists>s1. m s = (Inr x, s1) \<and> s' = s1\<lparr>auditEvents := auditEvents s1 @ [event SUCCESS status]\<rparr>)"
  by (auto simp: audited_def split: prod.splits sum.splits)

lemma audited_Inl: "audited True event status m s = (Inl e, s') \<longleftrightarrow>
    (\<exists>s1. m s = (Inl e, s1) \<and> s' = s1\<lparr>auditEvents := auditEvents s1
       @ [event (if http_status e < 500 then DENIED else FAILURE) (http_status e)]\<rparr>)"
  by (auto simp: audited_def split: prod.splits sum.splits)

lemma http_event_simps [simp]:
  "au_requestId (http_event rq p rp m path oc st) = rq_id rq"
  "au_actorId (http_event rq p rp m path oc st) = map_option pr_id p"
  "au_outcome (http_event rq p rp m path oc st) = oc"
  "au_action (http_event rq p rp m path oc st) = ''http.request''"
  by (simp_all add: http_event_def with_client_def audit_input_def)

lemma filter_status [simp]: "er_statusCode (exception_filter rid e) = http_status e"
  by (simp add: exception_filter_def Let_def)

text \<open>
  C27. No change without a trace: if serving a request changes anything but the counters in Redis, and the
  insert of the audit event succeeds, then the last event of the audit log is that request, with its request
  id, with the account of the caller's token unless the route is public, and with the outcome of its answer:
  success, refusal (4xx) or failure (5xx).
\<close>

theorem change_leaves_trace:
  assumes ans: "serve rm is_uuid pf True es run status rq0 idHeader uuid m path bearer s = (r, s')"
    and change: "s' \<noteq> s\<lparr>redis := redis s'\<rparr>"
  shows "\<exists>e ev. dispatch rm es m path = Some e \<and> auditEvents s' \<noteq> [] \<and> last (auditEvents s') = ev
     \<and> au_action ev = ''http.request'' \<and> au_requestId ev = request_id idHeader uuid
     \<and> (\<not> rt_public (ep_route e) \<longrightarrow> (\<exists>t sub sid. bearer = Some t
          \<and> pf_verifyAccess pf t (rq_now rq0) = Some (sub, sid) \<and> au_actorId ev = Some sub))
     \<and> (case r of Inr _ \<Rightarrow> au_outcome ev = SUCCESS
        | Inl b \<Rightarrow> au_outcome ev = (if er_statusCode b < 500 then DENIED else FAILURE))"
proof -
  let ?rq = "rq0\<lparr>rq_id := request_id idHeader uuid\<rparr>"
  have same: "s \<noteq> s'" using change by auto
  then obtain e where e: "dispatch rm es m path = Some e"
    using ans by (cases "dispatch rm es m path") (auto simp: serve_def Let_def)
  obtain g s1 where g: "guard_request pf ?rq (ep_route e) bearer s = (g, s1)" by fastforce
  note frame = guard_request_frame [OF g]
  obtain p where p: "g = Inr p"
    using ans change frame e g by (cases g) (auto simp: serve_def Let_def and_then_def)
  let ?ps = "case rm (rt_path (ep_route e)) path of None \<Rightarrow> [] | Some ps \<Rightarrow> ps"
  let ?body = "and_then (require (\<forall>(n, v)\<in>set ?ps. is_uuid v)
      (BadRequest ''Validation failed (uuid is expected)'')) (\<lambda>_. run e ?ps p ?rq)"
  let ?ev = "http_event ?rq p (rt_path (ep_route e)) m path"
  obtain b where b: "audited True ?ev (status e) ?body s1 = (b, s')"
    "r = (case b of Inl err \<Rightarrow> Inl (exception_filter (rq_id ?rq) err) | Inr x \<Rightarrow> Inr x)"
    using ans e g p by (auto simp: serve_def Let_def and_then_def split: prod.splits sum.splits)
  have actor: "\<exists>t sub sid. bearer = Some t \<and> pf_verifyAccess pf t (rq_now rq0) = Some (sub, sid)
      \<and> map_option pr_id p = Some sub" if np: "\<not> rt_public (ep_route e)"
  proof -
    from guard_request_Inr [OF g [unfolded p] np] obtain t sub sid q where
      t: "bearer = Some t" "pf_verifyAccess pf t (rq_now ?rq) = Some (sub, sid)" "p = Some q"
        "jwt_validate (rq_now ?rq) sub sid s = (Inr q, s)" by blast
    then have "pr_id q = sub"
      by (auto simp: jwt_validate_Inr dest!: access_session_Some find_user_Some)
    with t show ?thesis by simp
  qed
  show ?thesis
  proof (cases b)
    case (Inr x)
    with b have "last (auditEvents s') = ?ev SUCCESS (status e)" "auditEvents s' \<noteq> []" "r = Inr x"
      by (auto simp: audited_Inr)
    with e actor show ?thesis by auto
  next
    case (Inl err)
    with b have "last (auditEvents s') = ?ev (if http_status err < 500 then DENIED else FAILURE) (http_status err)"
      "auditEvents s' \<noteq> []" "r = Inl (exception_filter (rq_id ?rq) err)"
      by (auto simp: audited_Inl)
    with e actor show ?thesis by auto
  qed
qed

theorem change_leaves_trace_witness:
  "\<exists>r s' ev. serve segment_router (\<lambda>x. length x = 36) demo_platform True users_controller
       (\<lambda>e ps p rq. modify (\<lambda>s. s\<lparr>users := []\<rparr>)) (\<lambda>_. 200) demo_request (Some ''id-7'') ''uuid''
       ''GET'' ''/api/v1/users'' (Some ''good'') demo_state = (r, s')
     \<and> last (auditEvents s') = ev \<and> au_requestId ev = ''id-7'' \<and> au_actorId ev = Some ''u1''"
proof -
  let ?serve = "serve segment_router (\<lambda>x. length x = 36) demo_platform True users_controller
       (\<lambda>e ps p rq. modify (\<lambda>s. s\<lparr>users := []\<rparr>)) (\<lambda>_. 200) demo_request (Some ''id-7'') ''uuid''
       ''GET'' ''/api/v1/users'' (Some ''good'') demo_state"
  obtain r s' where a: "?serve = (r, s')" by fastforce
  have "users (snd ?serve) = []" by code_simp
  with a have u: "users s' = []" by simp
  have "users demo_state \<noteq> []" by (simp add: demo_state_def)
  with u have change: "s' \<noteq> demo_state\<lparr>redis := redis s'\<rparr>"
    by (metis state.ext_inject state.surjective state.update_convs(29))
  have d: "map_option (rt_public \<circ> ep_route)
      (dispatch segment_router users_controller ''GET'' ''/api/v1/users'') = Some False"
    by code_simp
  have "request_id (Some ''id-7'') ''uuid'' = ''id-7''" by code_simp
  with change_leaves_trace [OF a change] d a show ?thesis
    by (auto simp: demo_platform_def split: if_splits)
qed

text \<open>The environment with which the service starts: every key is set, and the locator key has the 32 bytes that
  the cipher of \<open>Locator\<close> needs.\<close>

lemma preflight_ok:
  "preflight base64 env = Inr () \<longleftrightarrow>
     (\<forall>key\<in>set required_boot_env_keys. \<exists>v. env key = Some v \<and> trim v \<noteq> [])
     \<and> (let get = (\<lambda>key. base64 (case env key of None \<Rightarrow> [] | Some v \<Rightarrow> v)) in
         str_includes (get ''JWT_PRIVATE_KEY_B64'') ''BEGIN PRIVATE KEY''
         \<and> str_includes (get ''JWT_PUBLIC_KEY_B64'') ''BEGIN PUBLIC KEY''
         \<and> length (get ''MEDIA_LOCATOR_ENCRYPTION_KEY_B64'') = 32)"
proof -
  have blank: "truthy (map_option trim x) = None \<longleftrightarrow> \<not> (\<exists>v. x = Some v \<and> trim v \<noteq> [])" for x
    by (cases x) (auto simp: truthy_def split: list.split)
  have "missing_env env = [] \<longleftrightarrow> (\<forall>key\<in>set required_boot_env_keys. \<exists>v. env key = Some v \<and> trim v \<noteq> [])"
    by (simp add: missing_env_def filter_empty_conv blank)
  then show ?thesis
    by (auto simp: preflight_def preflight_environment_def preflight_secrets_def Let_def)
qed

text \<open>Route labels of the metrics are stable: normalising again changes nothing.\<close>

lemma normal_segment_idem [simp]: "normal_segment (normal_segment x) = normal_segment x"
proof -
  have "\<not> uuid_like '':id''" "\<not> all_digits '':id''" by code_simp+
  then show ?thesis by (simp add: normal_segment_def)
qed

lemma normal_segment_slash: "CHR ''/'' \<notin> set x \<Longrightarrow> CHR ''/'' \<notin> set (normal_segment x)"
  by (simp add: normal_segment_def)

lemma segments_starts: "starts_with route ''/'' \<Longrightarrow> \<exists>ps. ps \<noteq> [] \<and> segments route = [] # ps"
  by (auto simp: starts_with_iff segments_def) (metis segments_def segments_not_Nil)

lemma normalize_route_idem: "normalize_route (normalize_route route) = normalize_route route"
proof (cases "starts_with route ''/''")
  case True
  then obtain ps where ps: "ps \<noteq> []" "segments route = [] # ps" using segments_starts by blast
  let ?qs = "[] # map normal_segment ps"
  have n: "normalize_route route = join_path ?qs" using True ps by (simp add: normalize_route_def)
  have "CHR ''/'' \<notin> set p" if "p \<in> set ps" for p
    using segments_no_slash [of p route] that ps(2) by simp
  then have "segments (join_path ?qs) = ?qs"
    by (intro segments_join) (auto simp: normal_segment_slash)
  moreover have "starts_with (join_path ?qs) ''/''"
    using ps(1) by (cases ps) auto
  ultimately show ?thesis
    unfolding n by (subst normalize_route_def) (simp add: comp_def)
next
  case False
  have "normalize_route ''/unmatched'' = ''/unmatched''" by code_simp
  with False show ?thesis by (simp add: normalize_route_def)
qed

end
