(* ===== verification/AdminTools.thy ===== *)
theory AdminTools
  imports LegacySchema
begin

text \<open>
  The admin tools (\<open>admin-tools/admin-tools.service.ts\<close>): the state of the Firebase and Widevine
  configuration, a test notification to one account, the check of a license address. The JSON text of the
  Firebase account and the URL parser are parameters.
\<close>

record firebase_status =
  fs_configured :: bool
  fs_projectId :: "string option"
  fs_delivery :: string

text \<open>\<open>project\<close> reads \<open>project_id\<close> from the encoded account, \<open>None\<close> when it cannot be parsed.\<close>

definition firebase_status_of :: "(string \<Rightarrow> string option) \<Rightarrow> string \<Rightarrow> firebase_status" where
  "firebase_status_of project encoded =
     (let projectId = (if encoded = [] then None else project encoded)
      in \<lparr>fs_configured = (encoded \<noteq> [] \<and> truthy projectId \<noteq> None), fs_projectId = projectId,
          fs_delivery = (if encoded = [] then ''disabled'' else ''enabled'')\<rparr>)"

definition send_firebase_test :: "legacy_env \<Rightarrow> request \<Rightarrow> string \<Rightarrow> string \<Rightarrow> string \<Rightarrow> principal
    \<Rightarrow> (bool \<times> nat) legacy_handler" where
  "send_firebase_test en rq userId title message actor =
     and_then (gets (\<lambda>l. find_first (\<lambda>u. u_id u = userId \<and> u_deletedAt u = None) (users (core l)))) (\<lambda>user.
     and_then (expect user (NotFound ''User not found'')) (\<lambda>u.
     and_then (expect (truthy (u_deviceToken u))
         (BadRequest ''The selected user has no registered notification device'')) (\<lambda>token.
     and_then (send_push en [token] title message [(''source'', ''admin_test'')]) (\<lambda>result.
     and_then (in_core (audit_write (audit_input rq (Some (pr_id actor)) ''admin.firebase_test'' ''user''
         (Some (u_id u)) (if snd result \<noteq> 0 then SUCCESS else FAILURE)
         [(''configured'', JBool (fst result)), (''sent'', JNum (int (snd result)))]))) (\<lambda>_.
     ret result)))))"

record drm_status =
  dm_provider :: string
  dm_configured :: bool
  dm_licenseHost :: "string option"
  dm_protocol :: "string option"

text \<open>The variables as the validated configuration gives them: an unset one is the empty string.\<close>

definition drm_status_of :: "(string \<Rightarrow> url option) \<Rightarrow> string \<Rightarrow> string \<Rightarrow> drm_status" where
  "drm_status_of parse provider licenseUrl =
     (let host = (if licenseUrl = [] then None else map_option u_hostname (parse licenseUrl))
      in \<lparr>dm_provider = provider, dm_configured = (licenseUrl \<noteq> [] \<and> truthy host \<noteq> None),
          dm_licenseHost = host, dm_protocol = (if licenseUrl = [] then None else Some ''https'')\<rparr>)"

datatype drm_result = Drm_invalid string | Drm_valid string string

definition validate_drm :: "(string \<Rightarrow> url option) \<Rightarrow> string \<Rightarrow> string option \<Rightarrow> drm_result" where
  "validate_drm parse configured licenseUrl =
     (let v = (case licenseUrl of None \<Rightarrow> configured | Some x \<Rightarrow> x) in
      if v = [] then Drm_invalid ''No license endpoint is configured.''
      else case parse v of
        None \<Rightarrow> Drm_invalid ''License endpoint is not a valid URL.''
      | Some u \<Rightarrow> if u_protocol u \<noteq> ''https:'' then Drm_invalid ''License endpoint must use HTTPS.''
          else Drm_valid (u_hostname u) (u_pathname u))"

section \<open>Theorems\<close>

lemma validate_drm_valid:
  "validate_drm parse configured licenseUrl = Drm_valid host path \<longleftrightarrow>
     (let v = (case licenseUrl of None \<Rightarrow> configured | Some x \<Rightarrow> x) in
      v \<noteq> [] \<and> (\<exists>u. parse v = Some u \<and> u_protocol u = ''https:'' \<and> host = u_hostname u \<and> path = u_pathname u))"
  by (auto simp: validate_drm_def Let_def split: option.split if_splits)

text \<open>A configured license address that the check accepts is reported as configured, with its host.\<close>

lemma drm_configured_valid:
  assumes "validate_drm parse licenseUrl None = Drm_valid host path" and "host \<noteq> []"
  shows "dm_configured (drm_status_of parse provider licenseUrl)"
    and "dm_licenseHost (drm_status_of parse provider licenseUrl) = Some host"
  using assms by (auto simp: validate_drm_valid drm_status_of_def Let_def truthy_def split: list.split)

text \<open>
  A test notification goes to no device but that of the selected account, which is not deleted, and is
  recorded with its outcome; the tables of the other services are not touched.
\<close>

lemma send_push_messages:
  "send_push en tokens title body data l = (r, l') \<Longrightarrow>
     core l' = core l \<and> (lg_pushed l' = lg_pushed l \<or>
       (\<exists>ms. lg_pushed l' = lg_pushed l @ [ms] \<and> set (pm_tokens ms) \<subseteq> trim ` set tokens))"
  unfolding send_push_def Let_def
  by (auto simp: and_then_def require_def expect_def dest!: set_take_subset [THEN subsetD]
      split: if_splits option.splits)

lemma firebase_test_effect:
  assumes "send_firebase_test en rq userId title message actor l = (Inr result, l')"
  shows "\<exists>u token. u \<in> set (users (core l)) \<and> u_id u = userId \<and> u_deletedAt u = None
     \<and> u_deviceToken u = Some token
     \<and> (lg_pushed l' = lg_pushed l \<or> (\<exists>ms. lg_pushed l' = lg_pushed l @ [ms] \<and> set (pm_tokens ms) \<subseteq> {trim token}))
     \<and> (\<exists>ev. core l' = (core l)\<lparr>auditEvents := auditEvents (core l) @ [ev]\<rparr> \<and> au_actorId ev = Some (pr_id actor)
          \<and> au_resourceId ev = Some userId \<and> (au_outcome ev = SUCCESS \<longleftrightarrow> 0 < snd result))"
proof -
  from assms obtain u token l1 where u: "find_first (\<lambda>u. u_id u = userId \<and> u_deletedAt u = None) (users (core l)) = Some u"
    and t: "truthy (u_deviceToken u) = Some token"
    and p: "send_push en [token] title message [(''source'', ''admin_test'')] l = (Inr result, l1)"
    and l': "l' = snd (in_core (audit_write (audit_input rq (Some (pr_id actor)) ''admin.firebase_test'' ''user''
         (Some (u_id u)) (if snd result \<noteq> 0 then SUCCESS else FAILURE)
         [(''configured'', JBool (fst result)), (''sent'', JNum (int (snd result)))])) l1)"
    by (auto simp: send_firebase_test_def and_then_Inr split: option.splits)
  have tok: "u_deviceToken u = Some token"
    using t by (auto simp: truthy_def split: option.splits list.splits)
  have push: "core l1 = core l" "lg_pushed l1 = lg_pushed l \<or>
      (\<exists>ms. lg_pushed l1 = lg_pushed l @ [ms] \<and> set (pm_tokens ms) \<subseteq> {trim token})"
    using send_push_messages [OF p] by auto
  let ?ev = "audit_input rq (Some (pr_id actor)) ''admin.firebase_test'' ''user''
         (Some (u_id u)) (if snd result \<noteq> 0 then SUCCESS else FAILURE)
         [(''configured'', JBool (fst result)), (''sent'', JNum (int (snd result)))]"
  have "core l' = (core l)\<lparr>auditEvents := auditEvents (core l) @ [?ev]\<rparr>" "lg_pushed l' = lg_pushed l1"
    by (simp_all add: l' in_core_apply push(1))
  moreover have "au_actorId ?ev = Some (pr_id actor) \<and> au_resourceId ?ev = Some (u_id u)
      \<and> (au_outcome ?ev = SUCCESS \<longleftrightarrow> 0 < snd result)"
    by (simp add: audit_input_def)
  ultimately show ?thesis
    using push(2) find_first_Some [OF u] tok by metis
qed

end
