(* ===== verification/Migration.thy ===== *)
theory Migration
  imports LegacyProps SqlDump
begin

text \<open>
  The migration of a live MySQL database, \<open>scripts/legacy-migration/migrate.ts\<close>, with \<open>rollback.ts\<close> and
  \<open>verify.ts\<close>: one definition per table with the loop body of the source, and the three programs.

  The source database, the environment, the run id, the clock and the generated ids are the record
  \<open>migration_env\<close>. A script error is an \<open>Internal\<close> error with its message. The widths of the \<open>VARCHAR\<close> columns and
  the range of a 32-bit column are checked when a row is written: no DTO stands before these writes.
\<close>

section \<open>Cells of the source database\<close>

text \<open>
  What the MySQL client returns for a column: \<open>NULL\<close>, a string, a number without a fraction, or another value (a
  number with a fraction, a \<open>Date\<close>, a \<open>Buffer\<close>) with its \<open>String()\<close> and, if that is an integer, its \<open>Number()\<close>.
\<close>

datatype cell = Cell_null | Cell_text string | Cell_int int | Cell_other string "int option"

type_synonym source_row = "string \<Rightarrow> cell option"

definition int_text :: "int \<Rightarrow> string" where
  "int_text i = (if i < 0 then CHR ''-'' # decimal (nat (- i)) else decimal (nat i))"

fun cell_text :: "cell \<Rightarrow> string" where
  "cell_text Cell_null = ''null''"
| "cell_text (Cell_text s) = s"
| "cell_text (Cell_int i) = int_text i"
| "cell_text (Cell_other s n) = s"

fun first_cell :: "source_row \<Rightarrow> string list \<Rightarrow> cell option" where
  "first_cell row [] = None"
| "first_cell row (n # ns) = (case row n of Some c \<Rightarrow> if c = Cell_null then first_cell row ns else Some c
     | None \<Rightarrow> first_cell row ns)"

definition row_text :: "source_row \<Rightarrow> string list \<Rightarrow> string option" where
  "row_text row names = map_option (\<lambda>c. trim (cell_text c)) (first_cell row names)"

definition source_key :: "source_row \<Rightarrow> string \<Rightarrow> string" where
  "source_key row fallback =
     (case row_text row [''id'', ''uuid'', ''user_id'', ''episode_id'', ''slug'', ''code''] of None \<Rightarrow> fallback | Some t \<Rightarrow> t)"

text \<open>
  \<open>Number(s)\<close> of a text, \<open>None\<close> if it is not an integer. A numeral is read exactly: one that a \<open>double\<close> would round
  to an integer although it has a fraction (more than 15 digits) is not such an integer here.
\<close>

definition digit_value :: "char \<Rightarrow> int" where
  "digit_value c = (let n = (of_char c :: int) in
     if 48 \<le> n \<and> n \<le> 57 then n - 48 else if 97 \<le> n \<and> n \<le> 102 then n - 87 else if 65 \<le> n \<and> n \<le> 70 then n - 55 else 99)"

definition numeral_value :: "int \<Rightarrow> string \<Rightarrow> int option" where
  "numeral_value b s = (if s \<noteq> [] \<and> list_all (\<lambda>c. digit_value c < b) s
     then Some (foldl (\<lambda>v c. v * b + digit_value c) 0 s) else None)"

definition signed :: "(string \<Rightarrow> int option) \<Rightarrow> string \<Rightarrow> int option" where
  "signed parse s = (if s \<noteq> [] \<and> hd s = CHR ''-'' then map_option uminus (parse (tl s))
     else if s \<noteq> [] \<and> hd s = CHR ''+'' then parse (tl s) else parse s)"

definition exponent_value :: "string \<Rightarrow> int option" where
  "exponent_value s = (if s = [] then Some 0 else signed (numeral_value 10) (tl s))"

text \<open>From here on a numeral is read as \<open>Infinity\<close>; small numbers are settled without the large power.\<close>

definition finite_number :: "int \<Rightarrow> bool" where
  "finite_number v \<longleftrightarrow> (if v < 1000000000000000 then True else v < 2 ^ 1024 - 2 ^ 970)"

definition decimal_value :: "string \<Rightarrow> int option" where
  "decimal_value s =
     (let mantissa = takeWhile (\<lambda>c. c \<noteq> CHR ''e'' \<and> c \<noteq> CHR ''E'') s;
          fraction = tl (dropWhile (\<lambda>c. c \<noteq> CHR ''.'') mantissa) in
      case numeral_value 10 (takeWhile (\<lambda>c. c \<noteq> CHR ''.'') mantissa @ fraction) of None \<Rightarrow> None
      | Some n \<Rightarrow> (case exponent_value (drop (length mantissa) s) of None \<Rightarrow> None
        | Some e \<Rightarrow> (let k = e - int (length fraction) in
            if 0 \<le> k then (if finite_number (n * 10 ^ nat k) then Some (n * 10 ^ nat k) else None)
            else if n mod 10 ^ nat (- k) = 0 \<and> finite_number (n div 10 ^ nat (- k)) then Some (n div 10 ^ nat (- k))
            else None)))"

definition radix :: "char \<Rightarrow> int option" where
  "radix = map_of [(CHR ''x'', 16), (CHR ''X'', 16), (CHR ''o'', 8), (CHR ''O'', 8), (CHR ''b'', 2), (CHR ''B'', 2)]"

definition js_integer :: "string \<Rightarrow> int option" where
  "js_integer s =
     (let t = trim s in
      if t = [] then Some 0
      else if hd t = CHR ''0'' \<and> tl t \<noteq> [] \<and> radix (t ! 1) \<noteq> None
      then numeral_value (the (radix (t ! 1))) (drop 2 t)
      else signed decimal_value t)"

fun cell_integer :: "cell \<Rightarrow> int option" where
  "cell_integer Cell_null = Some 0"
| "cell_integer (Cell_text s) = js_integer s"
| "cell_integer (Cell_int i) = Some i"
| "cell_integer (Cell_other s n) = n"

text \<open>\<open>Number(value(row, \<dots>) ?? fallback)\<close>, if it is an integer.\<close>

definition row_integer :: "source_row \<Rightarrow> string list \<Rightarrow> int \<Rightarrow> int option" where
  "row_integer row names fallback = (case first_cell row names of None \<Rightarrow> Some fallback | Some c \<Rightarrow> cell_integer c)"

section \<open>State and environment\<close>

text \<open>\<open>LegacyMigrationRecord\<close>.\<close>

record migration_record =
  lm_id :: string
  lm_runId :: string
  lm_sourceTable :: string
  lm_sourceKey :: string
  lm_targetEntity :: string
  lm_targetId :: string

text \<open>The database, the report of the run, and how many ids the database has generated.\<close>

record migration =
  mi_system :: legacy_state
  mi_records :: "migration_record list"
  mi_counts :: "string \<Rightarrow> nat option"
  mi_duplicates :: "string list"
  mi_errors :: "string list"
  mi_uuids :: nat

type_synonym 'a script = "(migration, 'a) prog"

text \<open>
  \<open>mv_source\<close> is the connection: \<open>SELECT * FROM table\<close>, \<open>None\<close> if the query fails.
\<close>

record migration_env =
  mv_runId :: string
  mv_apply :: bool
  mv_env :: "string \<Rightarrow> string option"
  mv_now :: instant
  mv_uuid :: "nat \<Rightarrow> string"
  mv_source :: "string \<Rightarrow> source_row list option"

abbreviation mi_core :: "migration \<Rightarrow> state" where "mi_core s \<equiv> core (mi_system s)"

text \<open>Updating the tables that the scripts write.\<close>

definition upd_users :: "(user list \<Rightarrow> user list) \<Rightarrow> legacy_state \<Rightarrow> legacy_state" where
  "upd_users f l = set_core l (users_update f (core l))"

definition upd_plans :: "(subscription_plan list \<Rightarrow> subscription_plan list) \<Rightarrow> legacy_state \<Rightarrow> legacy_state" where
  "upd_plans f l = set_core l (subscriptionPlans_update f (core l))"

definition upd_dramas :: "(drama list \<Rightarrow> drama list) \<Rightarrow> legacy_state \<Rightarrow> legacy_state" where
  "upd_dramas f l = set_core l (dramas_update f (core l))"

definition upd_seasons :: "(season list \<Rightarrow> season list) \<Rightarrow> legacy_state \<Rightarrow> legacy_state" where
  "upd_seasons f l = set_core l (seasons_update f (core l))"

section \<open>Rows and report\<close>

definition new_id :: "migration_env \<Rightarrow> string script" where
  "new_id en = and_then (gets mi_uuids) (\<lambda>n. and_then (modify (mi_uuids_update Suc)) (\<lambda>_. ret (mv_uuid en n)))"

text \<open>
  \<open>create\<close>: the row fits its columns, and neither its primary key nor its unique key \<open>k\<close> is taken.
\<close>

definition create_row :: "(migration \<Rightarrow> 'r list) \<Rightarrow> (('r list \<Rightarrow> 'r list) \<Rightarrow> migration \<Rightarrow> migration)
    \<Rightarrow> ('r \<Rightarrow> string) \<Rightarrow> ('r \<Rightarrow> 'k) \<Rightarrow> ('r \<Rightarrow> bool) \<Rightarrow> 'r \<Rightarrow> unit script" where
  "create_row sel upd i k fits r =
     and_then (require (fits r) (Internal ''P2000'')) (\<lambda>_.
     and_then (gets sel) (\<lambda>t.
     and_then (require (\<forall>q\<in>set t. i q \<noteq> i r \<and> k q \<noteq> k r) (Internal ''P2002'')) (\<lambda>_.
     modify (upd (\<lambda>t. t @ [r])))))"

definition int32 :: "int \<Rightarrow> bool" where
  "int32 n \<longleftrightarrow> - 2147483648 \<le> n \<and> n \<le> 2147483647"

definition user_fits :: "user \<Rightarrow> bool" where
  "user_fits u \<longleftrightarrow> length (u_username u) \<le> 80 \<and> length (u_email u) \<le> 320 \<and> length (u_passwordHash u) \<le> 255"

definition plan_fits :: "subscription_plan \<Rightarrow> bool" where
  "plan_fits p \<longleftrightarrow> length (pl_code p) \<le> 50 \<and> length (pl_name p) \<le> 120 \<and> int32 (pl_pricePkr p) \<and> int32 (pl_durationDays p)"

definition drama_fits :: "drama \<Rightarrow> bool" where
  "drama_fits d \<longleftrightarrow> length (dr_name d) \<le> 200 \<and> length (dr_slug d) \<le> 220"

definition season_fits :: "season \<Rightarrow> bool" where
  "season_fits q \<longleftrightarrow> int32 (se_seasonNumber q) \<and> (case se_title q of None \<Rightarrow> True | Some t \<Rightarrow> length t \<le> 200)"

definition record_fits :: "migration_record \<Rightarrow> bool" where
  "record_fits r \<longleftrightarrow> length (lm_runId r) \<le> 80 \<and> length (lm_sourceTable r) \<le> 120 \<and> length (lm_sourceKey r) \<le> 160
     \<and> length (lm_targetEntity r) \<le> 80"

definition create_record :: "migration_record \<Rightarrow> unit script" where
  "create_record = create_row mi_records mi_records_update lm_id
     (\<lambda>r. (lm_runId r, lm_targetEntity r, lm_sourceKey r)) record_fits"

definition increment :: "string \<Rightarrow> unit script" where
  "increment entity = modify (mi_counts_update (\<lambda>c. c(entity \<mapsto> (case c entity of None \<Rightarrow> 0 | Some n \<Rightarrow> n) + 1)))"

definition push_error :: "string \<Rightarrow> unit script" where
  "push_error e = modify (mi_errors_update (\<lambda>t. t @ [e]))"

definition push_duplicate :: "string \<Rightarrow> unit script" where
  "push_duplicate e = modify (mi_duplicates_update (\<lambda>t. t @ [e]))"

definition record_row :: "migration_env \<Rightarrow> string \<Rightarrow> string \<Rightarrow> string \<Rightarrow> string \<Rightarrow> unit script" where
  "record_row en sourceTable key entity targetId =
     and_then (if mv_apply en
       then and_then (new_id en) (\<lambda>i. create_record \<lparr>lm_id = i, lm_runId = mv_runId en, lm_sourceTable = sourceTable,
         lm_sourceKey = key, lm_targetEntity = entity, lm_targetId = targetId\<rparr>)
       else ret ()) (\<lambda>_. increment entity)"

definition required :: "migration_env \<Rightarrow> string \<Rightarrow> string script" where
  "required en name = expect (truthy (map_option trim (mv_env en name))) (Internal (name @ '' is required''))"

definition identifier_char :: "char \<Rightarrow> bool" where
  "identifier_char c \<longleftrightarrow> (let n = (of_char c :: nat) in
     65 \<le> n \<and> n \<le> 90 \<or> 97 \<le> n \<and> n \<le> 122 \<or> 48 \<le> n \<and> n \<le> 57 \<or> n = 95)"

definition table_name :: "migration_env \<Rightarrow> string \<Rightarrow> string option script" where
  "table_name en name = (case truthy (map_option trim (mv_env en name)) of None \<Rightarrow> ret None
     | Some t \<Rightarrow> and_then (require (list_all identifier_char t) (Internal (name @ '' contains an invalid identifier'')))
         (\<lambda>_. ret (Some t)))"

text \<open>\<open>SELECT * FROM \<dots> LIMIT ?\<close>: the limit must be a number that MySQL takes.\<close>

definition max_rows :: "migration_env \<Rightarrow> int option" where
  "max_rows en = (case mv_env en ''MIGRATION_MAX_ROWS'' of None \<Rightarrow> Some 100000 | Some v \<Rightarrow> js_integer v)"

definition source_rows :: "migration_env \<Rightarrow> string \<Rightarrow> source_row list script" where
  "source_rows en table =
     and_then (expect (max_rows en) (Internal ''LIMIT'')) (\<lambda>n.
     and_then (require (0 \<le> n) (Internal ''LIMIT'')) (\<lambda>_.
     and_then (expect (mv_source en table) (Internal ''SELECT'')) (\<lambda>rows. ret (take (nat n) rows))))"

section \<open>The four tables\<close>

text \<open>The loop over the rows, with its index and what it carries from row to row.\<close>

fun row_loop :: "(nat \<Rightarrow> source_row \<Rightarrow> 'acc \<Rightarrow> 'acc script) \<Rightarrow> nat \<Rightarrow> source_row list \<Rightarrow> 'acc \<Rightarrow> 'acc script" where
  "row_loop f i [] acc = ret acc"
| "row_loop f i (row # rows) acc = and_then (f i row acc) (\<lambda>acc. row_loop f (Suc i) rows acc)"

definition hash_importable :: "string option \<Rightarrow> bool" where
  "hash_importable h \<longleftrightarrow> (case h of None \<Rightarrow> False | Some t \<Rightarrow> starts_with t ''$argon2'')"

definition migrated_user :: "migration_env \<Rightarrow> string \<Rightarrow> nat \<Rightarrow> source_row \<Rightarrow> string \<Rightarrow> string \<Rightarrow> user" where
  "migrated_user en dummyHash index row email newId =
     (let legacyHash = row_text row [''password_hash'', ''password'', ''pass''] in
      \<lparr>u_id = newId,
       u_username = take 80 (case row_text row [''username'', ''user_name'', ''name''] of Some n \<Rightarrow> n
         | None \<Rightarrow> ''legacy_'' @ source_key row (decimal index)),
       u_email = email, u_passwordHash = (if hash_importable legacyHash then the legacyHash else dummyHash),
       u_status = (if hash_importable legacyHash then User_ACTIVE else User_DISABLED),
       u_profileImageKey = None, u_failedLoginCount = 0, u_lockedUntil = None, u_lastLoginAt = None,
       u_createdAt = mv_now en, u_deletedAt = None, u_deviceToken = None\<rparr>)"

definition create_user_row :: "user \<Rightarrow> unit script" where
  "create_user_row = create_row (\<lambda>s. users (mi_core s)) (\<lambda>f. mi_system_update (upd_users f)) u_id u_email user_fits"

definition row_email :: "source_row \<Rightarrow> string" where
  "row_email row = (case row_text row [''email'', ''email_address''] of None \<Rightarrow> [] | Some t \<Rightarrow> to_lower t)"

definition migrate_user :: "migration_env \<Rightarrow> string \<Rightarrow> string \<Rightarrow> nat \<Rightarrow> source_row \<Rightarrow> string list \<Rightarrow> string list script" where
  "migrate_user en table dummyHash index row seen =
     (let email = row_email row in
      if CHR ''@'' \<notin> set email
      then and_then (push_error (table @ '':'' @ decimal index @ '' invalid email'')) (\<lambda>_. ret seen)
      else if email \<in> set seen then and_then (push_duplicate (table @ '':'' @ email)) (\<lambda>_. ret seen)
      else
        and_then (gets (\<lambda>s. find_first (\<lambda>u. u_email u = email) (users (mi_core s)))) (\<lambda>existing.
        and_then (if existing \<noteq> None then push_duplicate (table @ '':'' @ email)
          else if mv_apply en
          then and_then (new_id en) (\<lambda>i.
               and_then (create_user_row (migrated_user en dummyHash index row email i)) (\<lambda>_.
               record_row en table (source_key row (decimal index)) ''User'' i))
          else increment ''User'') (\<lambda>_. ret (email # seen))))"

definition migrate_users :: "migration_env \<Rightarrow> unit script" where
  "migrate_users en =
     and_then (table_name en ''LEGACY_USERS_TABLE'') (\<lambda>t. case t of None \<Rightarrow> ret () | Some table \<Rightarrow>
       and_then (required en ''ARGON2_DUMMY_HASH'') (\<lambda>dummyHash.
       and_then (source_rows en table) (\<lambda>rows.
       and_then (row_loop (migrate_user en table dummyHash) 0 rows []) (\<lambda>_. ret ()))))"

definition create_plan_row :: "subscription_plan \<Rightarrow> unit script" where
  "create_plan_row = create_row (\<lambda>s. subscriptionPlans (mi_core s)) (\<lambda>f. mi_system_update (upd_plans f)) pl_id pl_code plan_fits"

definition row_plan_code :: "nat \<Rightarrow> source_row \<Rightarrow> string" where
  "row_plan_code index row = take 50 (to_lower
     (case row_text row [''code'', ''slug''] of None \<Rightarrow> ''legacy_plan_'' @ decimal index | Some t \<Rightarrow> t))"

definition migrated_plan :: "migration_env \<Rightarrow> source_row \<Rightarrow> string \<Rightarrow> int \<Rightarrow> int \<Rightarrow> string \<Rightarrow> subscription_plan" where
  "migrated_plan en row code price days newId =
     \<lparr>pl_id = newId, pl_code = code,
      pl_name = take 120 (case row_text row [''name'', ''title''] of None \<Rightarrow> code | Some t \<Rightarrow> t),
      pl_pricePkr = price, pl_durationDays = days, pl_isActive = True, pl_createdAt = mv_now en\<rparr>"

definition migrate_plan :: "migration_env \<Rightarrow> string \<Rightarrow> nat \<Rightarrow> source_row \<Rightarrow> unit \<Rightarrow> unit script" where
  "migrate_plan en table index row _ =
     (let code = row_plan_code index row in
      case (row_integer row [''price_pkr'', ''price'', ''amount''] 0, row_integer row [''duration_days'', ''days'', ''duration''] 30) of
        (Some price, Some days) \<Rightarrow>
          if price < 0 \<or> days < 1 then push_error (table @ '':'' @ decimal index @ '' invalid plan values'')
          else
            and_then (gets (\<lambda>s. find_first (\<lambda>p. pl_code p = code) (subscriptionPlans (mi_core s)))) (\<lambda>existing.
            if existing \<noteq> None then push_duplicate (table @ '':'' @ code)
            else if mv_apply en
            then and_then (new_id en) (\<lambda>i.
                 and_then (create_plan_row (migrated_plan en row code price days i)) (\<lambda>_.
                 record_row en table (source_key row code) ''SubscriptionPlan'' i))
            else increment ''SubscriptionPlan'')
      | _ \<Rightarrow> push_error (table @ '':'' @ decimal index @ '' invalid plan values''))"

definition migrate_plans :: "migration_env \<Rightarrow> unit script" where
  "migrate_plans en =
     and_then (table_name en ''LEGACY_PLANS_TABLE'') (\<lambda>t. case t of None \<Rightarrow> ret () | Some table \<Rightarrow>
       and_then (source_rows en table) (\<lambda>rows. row_loop (migrate_plan en table) 0 rows ()))"

definition create_drama_row :: "drama \<Rightarrow> unit script" where
  "create_drama_row = create_row (\<lambda>s. dramas (mi_core s)) (\<lambda>f. mi_system_update (upd_dramas f)) dr_id dr_slug drama_fits"

definition row_slug :: "nat \<Rightarrow> source_row \<Rightarrow> string" where
  "row_slug index row = take 220 (to_lower
     (case row_text row [''slug'', ''code''] of None \<Rightarrow> ''legacy-drama-'' @ decimal index | Some t \<Rightarrow> t))"

definition migrated_drama :: "migration_env \<Rightarrow> source_row \<Rightarrow> string \<Rightarrow> string \<Rightarrow> drama" where
  "migrated_drama en row slug newId =
     \<lparr>dr_id = newId, dr_name = take 200 (case row_text row [''name'', ''title''] of None \<Rightarrow> slug | Some t \<Rightarrow> t),
      dr_slug = slug, dr_dramaNumber = None, dr_totalSeasons = 0,
      dr_description = row_text row [''description'', ''details''], dr_thumbnailKey = None, dr_isPublished = False,
      dr_createdAt = mv_now en, dr_deletedAt = None\<rparr>"

definition migrate_drama :: "migration_env \<Rightarrow> string \<Rightarrow> nat \<Rightarrow> source_row \<Rightarrow> unit \<Rightarrow> unit script" where
  "migrate_drama en table index row _ =
     (let slug = row_slug index row in
      and_then (gets (\<lambda>s. find_first (\<lambda>d. dr_slug d = slug) (dramas (mi_core s)))) (\<lambda>existing.
      if existing \<noteq> None then push_duplicate (table @ '':'' @ slug)
      else if mv_apply en
      then and_then (new_id en) (\<lambda>i.
           and_then (create_drama_row (migrated_drama en row slug i)) (\<lambda>_.
           record_row en table (source_key row slug) ''Drama'' i))
      else increment ''Drama''))"

definition migrate_dramas :: "migration_env \<Rightarrow> unit script" where
  "migrate_dramas en =
     and_then (table_name en ''LEGACY_DRAMAS_TABLE'') (\<lambda>t. case t of None \<Rightarrow> ret () | Some table \<Rightarrow>
       and_then (source_rows en table) (\<lambda>rows. row_loop (migrate_drama en table) 0 rows ()))"

definition create_season_row :: "season \<Rightarrow> unit script" where
  "create_season_row = create_row (\<lambda>s. seasons (mi_core s)) (\<lambda>f. mi_system_update (upd_seasons f)) se_id (\<lambda>q. (se_dramaId q, se_seasonNumber q)) season_fits"

definition migrated_season :: "migration_env \<Rightarrow> source_row \<Rightarrow> string \<Rightarrow> int \<Rightarrow> string \<Rightarrow> season" where
  "migrated_season en row dramaId n newId =
     \<lparr>se_id = newId, se_dramaId = dramaId, se_seasonNumber = n, se_title = row_text row [''title'', ''name''],
      se_totalEpisodes = 0, se_thumbnailKey = None, se_createdAt = mv_now en, se_deletedAt = None\<rparr>"

definition migrate_season :: "migration_env \<Rightarrow> string \<Rightarrow> nat \<Rightarrow> source_row \<Rightarrow> unit \<Rightarrow> unit script" where
  "migrate_season en table index row _ =
     (case (truthy (row_text row [''drama_slug'', ''drama_code'', ''slug_parent'']),
            row_integer row [''season_number'', ''season'', ''number''] 1) of
        (Some dramaSlug, Some n) \<Rightarrow>
          if n < 1 then push_error (table @ '':'' @ decimal index @ '' invalid season'')
          else
            and_then (gets (\<lambda>s. find_first (\<lambda>d. dr_slug d = to_lower dramaSlug) (dramas (mi_core s)))) (\<lambda>d.
            case d of None \<Rightarrow> push_error (table @ '':'' @ decimal index @ '' drama not found'')
            | Some d \<Rightarrow>
              and_then (require (int32 n) (Internal ''P2000'')) (\<lambda>_.
              and_then (gets (\<lambda>s. find_first (\<lambda>q. se_dramaId q = dr_id d \<and> se_seasonNumber q = n) (seasons (mi_core s)))) (\<lambda>existing.
              if existing \<noteq> None then push_duplicate (table @ '':'' @ dramaSlug @ '':'' @ int_text n)
              else if mv_apply en
              then and_then (new_id en) (\<lambda>i.
                   and_then (create_season_row (migrated_season en row (dr_id d) n i)) (\<lambda>_.
                   record_row en table (source_key row (dramaSlug @ '':'' @ int_text n)) ''Season'' i))
              else increment ''Season'')))
      | _ \<Rightarrow> push_error (table @ '':'' @ decimal index @ '' invalid season''))"

definition migrate_seasons :: "migration_env \<Rightarrow> unit script" where
  "migrate_seasons en =
     and_then (table_name en ''LEGACY_SEASONS_TABLE'') (\<lambda>t. case t of None \<Rightarrow> ret () | Some table \<Rightarrow>
       and_then (source_rows en table) (\<lambda>rows. row_loop (migrate_season en table) 0 rows ()))"

section \<open>The run\<close>

definition run_tables :: "migration_env \<Rightarrow> unit script" where
  "run_tables en =
     and_then (required en ''LEGACY_DATABASE_URL'') (\<lambda>_.
     and_then (migrate_users en) (\<lambda>_.
     and_then (migrate_plans en) (\<lambda>_.
     and_then (migrate_dramas en) (\<lambda>_.
     migrate_seasons en))))"

text \<open>A run starts with an empty report; its result is the exit code.\<close>

definition new_report :: "migration \<Rightarrow> migration" where
  "new_report s = s\<lparr>mi_counts := Map.empty, mi_duplicates := [], mi_errors := []\<rparr>"

fun script_message :: "http_error \<Rightarrow> string" where
  "script_message (Internal m) = m"
| "script_message (BadRequest m) = m"
| "script_message (Unauthorized m) = m"
| "script_message (Forbidden m) = m"
| "script_message (NotFound m) = m"
| "script_message (Conflict m) = m"
| "script_message (TooManyRequests m) = m"
| "script_message (ServiceUnavailable m) = m"

definition run_migration :: "migration_env \<Rightarrow> migration \<Rightarrow> nat \<times> migration" where
  "run_migration en s = (case run_tables en (new_report s) of
     (Inr _, s') \<Rightarrow> (if mi_errors s' = [] then 0 else 2, s')
   | (Inl e, s') \<Rightarrow> (1, s'\<lparr>mi_errors := mi_errors s' @ [script_message e]\<rparr>))"

end
