(* ===== verification/Rollback.thy ===== *)
theory Rollback
  imports Migration
begin

text \<open>
  \<open>scripts/legacy-migration/rollback.ts\<close> and \<open>verify.ts\<close>. A \<open>delete\<close> of one of the four entities follows the foreign keys
  of \<open>prisma/schema.prisma\<close>: \<open>Restrict\<close> refuses it, \<open>Cascade\<close> deletes the rows that name it, \<open>SetNull\<close> clears the
  column.
\<close>

section \<open>Deleting with foreign keys\<close>

definition set_null :: "string \<Rightarrow> string option \<Rightarrow> string option" where
  "set_null i x = (if x = Some i then None else x)"

definition season_in_use :: "legacy_state \<Rightarrow> string \<Rightarrow> bool" where
  "season_in_use l i \<longleftrightarrow> (\<exists>e\<in>set (episodes (core l)). ep_seasonId e = i)"

definition drama_in_use :: "legacy_state \<Rightarrow> string \<Rightarrow> bool" where
  "drama_in_use l i \<longleftrightarrow> (\<exists>q\<in>set (seasons (core l)). se_dramaId q = i)"

definition plan_in_use :: "legacy_state \<Rightarrow> string \<Rightarrow> bool" where
  "plan_in_use l i \<longleftrightarrow> (\<exists>x\<in>set (subscriptions (core l)). su_planId x = i) \<or> (\<exists>x\<in>set (paymentRecords (core l)). pa_planId x = Some i)"

text \<open>
  The devices of the account are deleted with it, and no playback session, not even a closed one, may name a deleted
  device.
\<close>

definition user_in_use :: "legacy_state \<Rightarrow> string \<Rightarrow> bool" where
  "user_in_use l i \<longleftrightarrow> (\<exists>x\<in>set (subscriptions (core l)). su_userId x = i) \<or> (\<exists>x\<in>set (paymentRecords (core l)). pa_userId x = i)
     \<or> (\<exists>x\<in>set (lg_notifications l). nf_createdById x = i)
     \<or> (\<exists>t\<in>set (trustedDevices (core l)). td_userId t = i \<and> (\<exists>x\<in>set (playbackSessions (core l)). ps_trustedDeviceId x = td_id t))"

definition drop_season :: "string \<Rightarrow> legacy_state \<Rightarrow> legacy_state" where
  "drop_season i l = set_core l ((core l)\<lparr>seasons := delete_many (\<lambda>q. se_id q = i) (seasons (core l))\<rparr>)"

definition drop_drama :: "string \<Rightarrow> legacy_state \<Rightarrow> legacy_state" where
  "drop_drama i l =
     (set_core l ((core l)\<lparr>dramas := delete_many (\<lambda>d. dr_id d = i) (dramas (core l))\<rparr>))
       \<lparr>lg_favorites := delete_many (\<lambda>f. fv_dramaId f = i) (lg_favorites l),
        lg_trending := delete_many (\<lambda>t. tg_dramaId t = i) (lg_trending l)\<rparr>"

definition drop_plan :: "string \<Rightarrow> legacy_state \<Rightarrow> legacy_state" where
  "drop_plan i l =
     (set_core l ((core l)\<lparr>subscriptionPlans := delete_many (\<lambda>p. pl_id p = i) (subscriptionPlans (core l))\<rparr>))
       \<lparr>lg_requests := update_many (\<lambda>q. sq_planId q = Some i) (\<lambda>q. q\<lparr>sq_planId := None\<rparr>) (lg_requests l)\<rparr>"

text \<open>The sessions, devices, roles and histories of an account.\<close>

definition drop_account :: "string \<Rightarrow> state \<Rightarrow> state" where
  "drop_account i s =
     (let gone = map rs_id (filter (\<lambda>r. rs_userId r = i) (refreshSessions s));
          replaced = (\<lambda>r. case rs_replacedById r of None \<Rightarrow> False | Some x \<Rightarrow> x \<in> set gone) in
      s\<lparr>users := delete_many (\<lambda>u. u_id u = i) (users s),
        refreshSessions := update_many replaced (\<lambda>r. r\<lparr>rs_replacedById := None\<rparr>)
          (delete_many (\<lambda>r. rs_userId r = i) (refreshSessions s)),
        trustedDevices := delete_many (\<lambda>t. td_userId t = i) (trustedDevices s),
        loginHistories := update_many (\<lambda>h. lh_userId h = Some i) (\<lambda>h. h\<lparr>lh_userId := None\<rparr>) (loginHistories s),
        userRoles := delete_many (\<lambda>x. ur_userId x = i) (userRoles s),
        userPermissions := delete_many (\<lambda>x. up_userId x = i) (userPermissions s),
        auditEvents := update_many (\<lambda>e. au_actorId e = Some i) (\<lambda>e. e\<lparr>au_actorId := None\<rparr>) (auditEvents s)\<rparr>)"

definition drop_viewing :: "string \<Rightarrow> state \<Rightarrow> state" where
  "drop_viewing i s =
     (let gone = map ps_id (filter (\<lambda>p. ps_userId p = i) (playbackSessions s)) in
      s\<lparr>groupMembers := delete_many (\<lambda>m. gm_userId m = i) (groupMembers s),
        episodeGrants := delete_many (\<lambda>g. eg_userId g = Some i) (episodeGrants s),
        playbackSessions := delete_many (\<lambda>p. ps_userId p = i) (playbackSessions s),
        playbackHeartbeats := delete_many (\<lambda>h. hb_playbackSessionId h \<in> set gone) (playbackHeartbeats s),
        playbackHistories := delete_many (\<lambda>h. ph_userId h = i \<or> ph_playbackSessionId h \<in> set gone) (playbackHistories s)\<rparr>)"

definition drop_support :: "string \<Rightarrow> state \<Rightarrow> state" where
  "drop_support i s =
     (let gone = map sc_id (filter (\<lambda>c. sc_userId c = i) (supportConversations s));
          lost = map sm_id (filter (\<lambda>m. sm_conversationId m \<in> set gone) (supportMessages s)) in
      s\<lparr>supportConversations := update_many (\<lambda>c. sc_assignedAdminId c = Some i) (\<lambda>c. c\<lparr>sc_assignedAdminId := None\<rparr>)
          (delete_many (\<lambda>c. sc_userId c = i) (supportConversations s)),
        supportMessages := update_many (\<lambda>m. sm_senderId m = Some i \<or> (case sm_replyToMessageId m of None \<Rightarrow> False | Some x \<Rightarrow> x \<in> set lost))
          (\<lambda>m. m\<lparr>sm_senderId := set_null i (sm_senderId m),
             sm_replyToMessageId := (case sm_replyToMessageId m of None \<Rightarrow> None | Some x \<Rightarrow> if x \<in> set lost then None else Some x)\<rparr>)
          (delete_many (\<lambda>m. sm_conversationId m \<in> set gone) (supportMessages s))\<rparr>)"

definition drop_user :: "string \<Rightarrow> legacy_state \<Rightarrow> legacy_state" where
  "drop_user i l =
     (set_core l (drop_support i (drop_viewing i (drop_account i (core l)))))
       \<lparr>lg_recipients := delete_many (\<lambda>r. nr_userId r = i) (lg_recipients l),
        lg_favorites := delete_many (\<lambda>f. fv_userId f = i) (lg_favorites l),
        lg_messages := update_many (\<lambda>m. mg_senderId m = Some i) (\<lambda>m. m\<lparr>mg_senderId := None\<rparr>)
          (delete_many (\<lambda>m. mg_userId m = i) (lg_messages l)),
        lg_deletionRequests := update_many (\<lambda>q. dq_reviewedById q = Some i) (\<lambda>q. q\<lparr>dq_reviewedById := None\<rparr>)
          (delete_many (\<lambda>q. dq_userId q = i) (lg_deletionRequests l)),
        lg_releases := update_many (\<lambda>r. re_uploadedById r = Some i) (\<lambda>r. r\<lparr>re_uploadedById := None\<rparr>) (lg_releases l),
        lg_requests := update_many (\<lambda>q. sq_approvedById q = Some i) (\<lambda>q. q\<lparr>sq_approvedById := None\<rparr>)
          (delete_many (\<lambda>q. sq_userId q = i) (lg_requests l)),
        lg_blocks := delete_many (\<lambda>b. bk_userId b = i) (lg_blocks l),
        lg_incidents := update_many (\<lambda>x. inc_userId x = Some i) (\<lambda>x. x\<lparr>inc_userId := None\<rparr>) (lg_incidents l),
        lg_comments := delete_many (\<lambda>c. cm_userId c = i) (lg_comments l),
        lg_views := delete_many (\<lambda>v. vw_userId v = i) (lg_views l)\<rparr>"

text \<open>The four entities that the program knows, by the name in the record.\<close>

definition entity_exists :: "string \<Rightarrow> legacy_state \<Rightarrow> string \<Rightarrow> bool" where
  "entity_exists entity l i \<longleftrightarrow>
     (if entity = ''Season'' then \<exists>q\<in>set (seasons (core l)). se_id q = i
      else if entity = ''Drama'' then \<exists>d\<in>set (dramas (core l)). dr_id d = i
      else if entity = ''SubscriptionPlan'' then \<exists>p\<in>set (subscriptionPlans (core l)). pl_id p = i
      else if entity = ''User'' then \<exists>u\<in>set (users (core l)). u_id u = i
      else False)"

definition entity_in_use :: "string \<Rightarrow> legacy_state \<Rightarrow> string \<Rightarrow> bool" where
  "entity_in_use entity l i \<longleftrightarrow>
     (if entity = ''Season'' then season_in_use l i else if entity = ''Drama'' then drama_in_use l i
      else if entity = ''SubscriptionPlan'' then plan_in_use l i else if entity = ''User'' then user_in_use l i
      else False)"

definition drop_entity :: "string \<Rightarrow> string \<Rightarrow> legacy_state \<Rightarrow> legacy_state" where
  "drop_entity entity i =
     (if entity = ''Season'' then drop_season i else if entity = ''Drama'' then drop_drama i
      else if entity = ''SubscriptionPlan'' then drop_plan i else if entity = ''User'' then drop_user i
      else id)"

definition delete_entity :: "string \<Rightarrow> string \<Rightarrow> unit script" where
  "delete_entity entity i =
     and_then (gets (\<lambda>s. entity_exists entity (mi_system s) i)) (\<lambda>found.
     and_then (require found (Internal ''P2025'')) (\<lambda>_.
     and_then (gets (\<lambda>s. entity_in_use entity (mi_system s) i)) (\<lambda>used.
     and_then (require (\<not> used) (Internal ''P2003'')) (\<lambda>_.
     modify (mi_system_update (drop_entity entity i))))))"

section \<open>\<open>rollback.ts\<close>\<close>

definition delete_record :: "string \<Rightarrow> unit script" where
  "delete_record i =
     and_then (gets (\<lambda>s. \<exists>r\<in>set (mi_records s). lm_id r = i)) (\<lambda>found.
     and_then (require found (Internal ''P2025'')) (\<lambda>_.
     modify (mi_records_update (delete_many (\<lambda>r. lm_id r = i)))))"

text \<open>One record; the result is what it adds to \<open>failures\<close>.\<close>

definition rollback_record :: "string \<Rightarrow> migration_record \<Rightarrow> string list script" where
  "rollback_record entity r =
     catch_error
       (and_then (delete_entity entity (lm_targetId r)) (\<lambda>_.
        and_then (delete_record (lm_id r)) (\<lambda>_. ret [])))
       (\<lambda>e. ret [entity @ '':'' @ lm_targetId r @ '':'' @ script_message e])"

definition rollback_order :: "string list" where
  "rollback_order = [''Season'', ''Drama'', ''SubscriptionPlan'', ''User'']"

definition rollback_entity :: "migration_record list \<Rightarrow> string \<Rightarrow> string list script" where
  "rollback_entity records entity =
     and_then (for_each (filter (\<lambda>r. lm_targetEntity r = entity) records) (rollback_record entity)) (\<lambda>fs. ret (concat fs))"

text \<open>The number of removed rows that the program prints, and the failures.\<close>

definition rollback :: "string option \<Rightarrow> string option \<Rightarrow> (int \<times> string list) script" where
  "rollback runId confirm =
     and_then (expect (truthy runId) (Internal ''MIGRATION_RUN_ID is required'')) (\<lambda>rid.
     and_then (require (confirm = Some ''YES'') (Internal ''Set CONFIRM_ROLLBACK=YES to run a migration rollback'')) (\<lambda>_.
     and_then (gets (\<lambda>s. filter (\<lambda>r. lm_runId r = rid) (mi_records s))) (\<lambda>records.
     and_then (for_each rollback_order (rollback_entity records)) (\<lambda>fs.
     ret (int (length records) - int (length (concat fs)), concat fs)))))"

definition rollback_exit :: "(http_error + int \<times> string list) \<Rightarrow> nat" where
  "rollback_exit r = (case r of Inl _ \<Rightarrow> 1 | Inr (_, failures) \<Rightarrow> if failures = [] then 0 else 2)"

section \<open>\<open>verify.ts\<close>\<close>

record verification =
  ve_recordCount :: nat
  ve_byEntity :: "string \<Rightarrow> nat option"
  ve_users :: nat
  ve_dramas :: nat
  ve_seasons :: nat

definition count_entity :: "migration_record list \<Rightarrow> string \<Rightarrow> nat option" where
  "count_entity records = fold (\<lambda>r c. c(lm_targetEntity r \<mapsto> (case c (lm_targetEntity r) of None \<Rightarrow> 0 | Some n \<Rightarrow> n) + 1)) records Map.empty"

definition targets :: "migration_record list \<Rightarrow> string \<Rightarrow> string list" where
  "targets records entity = map lm_targetId (filter (\<lambda>r. lm_targetEntity r = entity) records)"

definition verify_run :: "string option \<Rightarrow> verification script" where
  "verify_run runId =
     and_then (expect (truthy runId) (Internal ''MIGRATION_RUN_ID is required'')) (\<lambda>rid.
     and_then (gets (\<lambda>s. filter (\<lambda>r. lm_runId r = rid) (mi_records s))) (\<lambda>records.
     gets (\<lambda>s. \<lparr>ve_recordCount = length records, ve_byEntity = count_entity records,
       ve_users = count_where (\<lambda>u. u_id u \<in> set (targets records ''User'')) (users (mi_core s)),
       ve_dramas = count_where (\<lambda>d. dr_id d \<in> set (targets records ''Drama'')) (dramas (mi_core s)),
       ve_seasons = count_where (\<lambda>q. se_id q \<in> set (targets records ''Season'')) (seasons (mi_core s))\<rparr>)))"

section \<open>A run on a small source\<close>

definition demo_source :: "string \<Rightarrow> source_row list option" where
  "demo_source t =
     (if t = ''u'' then Some [[''email'' \<mapsto> Cell_text ''A@b'', ''name'' \<mapsto> Cell_text ''x'', ''id'' \<mapsto> Cell_int 7, ''pass'' \<mapsto> Cell_text ''$argon2id''],
        [''email'' \<mapsto> Cell_text ''c@d'', ''id'' \<mapsto> Cell_int 8, ''pass'' \<mapsto> Cell_text ''md5''], [''email'' \<mapsto> Cell_null]]
      else if t = ''p'' then Some [[''code'' \<mapsto> Cell_text ''m'', ''price'' \<mapsto> Cell_text '' 500 '']]
      else if t = ''d'' then Some [[''slug'' \<mapsto> Cell_text ''s'']]
      else if t = ''q'' then Some [[''drama_slug'' \<mapsto> Cell_text ''S'', ''season'' \<mapsto> Cell_int 2, ''id'' \<mapsto> Cell_int 1]]
      else None)"

definition demo_migration_env :: "bool \<Rightarrow> migration_env" where
  "demo_migration_env ap = \<lparr>mv_runId = ''r'', mv_apply = ap,
     mv_env = map_of [(''LEGACY_USERS_TABLE'', ''u''), (''LEGACY_PLANS_TABLE'', ''p''), (''LEGACY_DRAMAS_TABLE'', ''d''),
       (''LEGACY_SEASONS_TABLE'', ''q''), (''ARGON2_DUMMY_HASH'', ''h''), (''LEGACY_DATABASE_URL'', ''m''), (''MIGRATION_MAX_ROWS'', ''9'')],
     mv_now = 0, mv_uuid = (\<lambda>n. replicate (Suc n) CHR ''i''), mv_source = demo_source\<rparr>"

definition demo_migration :: migration where
  "demo_migration = \<lparr>mi_system = no_legacy_rows empty_state, mi_records = [], mi_counts = Map.empty, mi_duplicates = [],
     mi_errors = [], mi_uuids = 0\<rparr>"

lemma demo_completes: "fst (run_migration (demo_migration_env True) demo_migration) = 2"
  by code_simp

text \<open>Numbers as \<open>Number()\<close> reads them.\<close>

lemma number_examples:
  "js_integer '' 500 '' = Some 500" "js_integer [] = Some 0" "js_integer ''0x1F'' = Some 31" "js_integer ''-12.50e1'' = Some (- 125)"
  "js_integer ''1.5'' = None" "js_integer ''12 Rs'' = None"
  by code_simp+

end
