(* ===== verification/MigrationProps.thy ===== *)
theory MigrationProps
  imports Rollback
begin

text \<open>
  The theorems of the migration scripts. \<open>table_lens\<close> is one table of the database; \<open>migrated_table\<close> what a successful
  run appends to it and to the records; \<open>rollback_table\<close> what \<open>rollback.ts\<close> removes from it.
\<close>

section \<open>Outcomes of the row operations\<close>

lemma new_id_Inr: "new_id en s = (Inr i, s') \<longleftrightarrow> i = mv_uuid en (mi_uuids s) \<and> s' = mi_uuids_update Suc s"
  by (auto simp: new_id_def)

lemma create_row_Inr:
  "create_row sel upd i k fits r s = (Inr x, s') \<longleftrightarrow>
     fits r \<and> (\<forall>q\<in>set (sel s). i q \<noteq> i r \<and> k q \<noteq> k r) \<and> s' = upd (\<lambda>t. t @ [r]) s"
  by (auto simp: create_row_def)

lemma increment_Inr: "increment entity s = (Inr x, s') \<longleftrightarrow>
    s' = mi_counts_update (\<lambda>c. c(entity \<mapsto> (case c entity of None \<Rightarrow> 0 | Some n \<Rightarrow> n) + 1)) s"
  by (auto simp: increment_def)

lemma push_Inr [simp]:
  "push_error e s = (Inr x, s') \<longleftrightarrow> s' = mi_errors_update (\<lambda>t. t @ [e]) s"
  "push_duplicate e s = (Inr x, s') \<longleftrightarrow> s' = mi_duplicates_update (\<lambda>t. t @ [e]) s"
  by (auto simp: push_error_def push_duplicate_def)

lemma record_row_Inr:
  "record_row en table key entity i s = (Inr x, s') \<longleftrightarrow>
     (let q = \<lparr>lm_id = mv_uuid en (mi_uuids s), lm_runId = mv_runId en, lm_sourceTable = table, lm_sourceKey = key,
         lm_targetEntity = entity, lm_targetId = i\<rparr> in
      if mv_apply en
      then record_fits q \<and> (\<forall>r\<in>set (mi_records s). lm_id r \<noteq> lm_id q
           \<and> (lm_runId r, lm_targetEntity r, lm_sourceKey r) \<noteq> (mv_runId en, entity, key))
         \<and> increment entity (mi_records_update (\<lambda>t. t @ [q]) (mi_uuids_update Suc s)) = (Inr x, s')
      else increment entity s = (Inr x, s'))"
  unfolding record_row_def create_record_def Let_def
  by (auto simp: and_then_Inr new_id_Inr create_row_Inr)

section \<open>Counting records\<close>

definition count_more :: "migration_record list \<Rightarrow> (string \<Rightarrow> nat option) \<Rightarrow> string \<Rightarrow> nat option" where
  "count_more = fold (\<lambda>r c. c(lm_targetEntity r \<mapsto> (case c (lm_targetEntity r) of None \<Rightarrow> 0 | Some n \<Rightarrow> n) + 1))"

lemma count_more_at:
  "count_more rs c e = (let n = length (filter (\<lambda>r. lm_targetEntity r = e) rs) in
     if n = 0 then c e else Some ((case c e of None \<Rightarrow> 0 | Some k \<Rightarrow> k) + n))"
  by (induction rs arbitrary: c) (auto simp: count_more_def Let_def)

lemma count_more_append: "count_more (rs @ qs) c = count_more qs (count_more rs c)"
  by (simp add: count_more_def)

lemma count_entity_more: "count_entity rs = count_more rs Map.empty"
  by (simp add: count_entity_def count_more_def)

section \<open>One table\<close>

locale table_lens =
  fixes sel :: "legacy_state \<Rightarrow> 'r list"
    and upd :: "('r list \<Rightarrow> 'r list) \<Rightarrow> legacy_state \<Rightarrow> legacy_state"
  assumes sel_upd: "sel (upd f l) = f (sel l)"
    and upd_upd: "upd f (upd g l) = upd (\<lambda>t. f (g t)) l"
    and upd_same: "f (sel l) = sel l \<Longrightarrow> upd f l = l"

locale migrated_table = table_lens sel upd
  for sel :: "legacy_state \<Rightarrow> 'r list" and upd +
  fixes rid :: "'r \<Rightarrow> string"
    and entity :: string
begin

text \<open>
  \<open>grown en Q s s' rows recs\<close>: the run appended \<open>rows\<close>, each with a fresh id and a record, and counted them.
\<close>

definition grown :: "migration_env \<Rightarrow> migration \<Rightarrow> migration \<Rightarrow> 'r list \<Rightarrow> migration_record list \<Rightarrow> bool" where
  "grown en s s' rows recs \<longleftrightarrow> mi_system s' = upd (\<lambda>t. t @ rows) (mi_system s) \<and> mi_records s' = mi_records s @ recs
     \<and> mi_uuids s \<le> mi_uuids s' \<and> rid ` set rows \<subseteq> mv_uuid en ` {mi_uuids s..}
     \<and> map lm_targetId recs = map rid rows
     \<and> (\<forall>r\<in>set recs. lm_runId r = mv_runId en \<and> lm_targetEntity r = entity)
     \<and> distinct (map rid rows) \<and> rid ` set rows \<inter> rid ` set (sel (mi_system s)) = {}
     \<and> distinct (map lm_id recs) \<and> lm_id ` set recs \<inter> lm_id ` set (mi_records s) = {}
     \<and> mi_counts s' = (if rows = [] then mi_counts s
         else (mi_counts s)(entity \<mapsto> (case mi_counts s entity of None \<Rightarrow> 0 | Some n \<Rightarrow> n) + length rows))"

lemma grown_none:
  "mi_system s' = mi_system s \<Longrightarrow> mi_records s' = mi_records s \<Longrightarrow> mi_uuids s' = mi_uuids s \<Longrightarrow> mi_counts s' = mi_counts s
    \<Longrightarrow> grown en s s' [] []"
  by (simp add: grown_def upd_same)

lemma grown_same:
  "\<exists>rows recs. grown en s s rows recs" "\<exists>rows recs. grown en s (mi_duplicates_update f s) rows recs"
  "\<exists>rows recs. grown en s (mi_errors_update g s) rows recs"
  by (intro exI, rule grown_none; simp)+

lemma grown_trans:
  assumes a: "grown en s s' rows recs" and b: "grown en s' s'' rows' recs'"
  shows "grown en s s'' (rows @ rows') (recs @ recs')"
proof -
  note A = a [unfolded grown_def] and B = b [unfolded grown_def]
  from A B have "{mi_uuids s'..} \<subseteq> {mi_uuids s..}" by simp
  with B have ids: "rid ` set rows' \<subseteq> mv_uuid en ` {mi_uuids s..}" by (meson image_mono order_trans)
  from A have "sel (mi_system s') = sel (mi_system s) @ rows" by (simp add: sel_upd)
  with A B have new: "distinct (map rid (rows @ rows'))" "rid ` set (rows @ rows') \<inter> rid ` set (sel (mi_system s)) = {}"
    by (simp_all add: image_Un Int_Un_distrib Int_Un_distrib2 Int_commute)
  from A B have recs: "distinct (map lm_id (recs @ recs'))" "lm_id ` set (recs @ recs') \<inter> lm_id ` set (mi_records s) = {}"
    by (simp_all add: image_Un Int_Un_distrib Int_Un_distrib2 Int_commute)
  from A B have "mi_counts s'' = (if rows @ rows' = [] then mi_counts s
      else (mi_counts s)(entity \<mapsto> (case mi_counts s entity of None \<Rightarrow> 0 | Some n \<Rightarrow> n) + length (rows @ rows')))"
    by (cases "rows = []"; cases "rows' = []") (simp_all add: add.assoc)
  with A B ids new recs show ?thesis
    unfolding grown_def by (simp add: upd_upd image_Un ball_Un)
qed

lemma grownD:
  assumes "grown en s s' rows recs"
  shows "mi_system s' = upd (\<lambda>t. t @ rows) (mi_system s)" and "mi_records s' = mi_records s @ recs"
    and "{mi_uuids s'..} \<subseteq> {mi_uuids s..}" and "rid ` set rows \<subseteq> mv_uuid en ` {mi_uuids s..}"
    and "\<forall>r\<in>set recs. lm_runId r = mv_runId en \<and> lm_targetEntity r = entity" and "length recs = length rows"
  using assms by (simp_all add: grown_def) (metis length_map)

lemma grown_counts: "grown en s s' rows recs \<Longrightarrow> mi_counts s' = count_more recs (mi_counts s)"
proof -
  assume g: "grown en s s' rows recs"
  from g have "length recs = length rows" "\<forall>r\<in>set recs. lm_targetEntity r = entity" by (auto simp: grown_def dest: map_eq_imp_length_eq)
  moreover have "filter (\<lambda>r. lm_targetEntity r = e) recs = (if e = entity then recs else [])" for e
    using g by (auto simp: grown_def filter_id_conv filter_empty_conv)
  ultimately show ?thesis using g by (intro ext) (auto simp: grown_def count_more_at)
qed

lemma grown_targets: "grown en s s' rows recs \<Longrightarrow> count_where (\<lambda>r. rid r \<in> lm_targetId ` set recs) (sel (mi_system s')) = length recs"
proof -
  assume g: "grown en s s' rows recs"
  then have "lm_targetId ` set recs = rid ` set rows" "length recs = length rows"
    unfolding grown_def by (metis set_map) (metis g grown_def length_map)
  with g show ?thesis
    by (auto simp: grown_def sel_upd count_where_def filter_empty_conv filter_id_conv)
qed

lemma create_grown:
  assumes i: "new_id en s = (Inr i, s1)"
    and r: "create_row (\<lambda>s. sel (mi_system s)) (\<lambda>f. mi_system_update (upd f)) rid k fits r s1 = (Inr x, s2)"
    and q: "record_row en table key entity i s2 = (Inr y, s')"
    and mk: "rid r = i" and ap: "mv_apply en"
  shows "\<exists>rows recs. grown en s s' rows recs"
proof -
  let ?q = "\<lparr>lm_id = mv_uuid en (Suc (mi_uuids s)), lm_runId = mv_runId en, lm_sourceTable = table, lm_sourceKey = key,
    lm_targetEntity = entity, lm_targetId = mv_uuid en (mi_uuids s)\<rparr>"
  from i have s1: "s1 = mi_uuids_update Suc s" "i = mv_uuid en (mi_uuids s)" by (simp_all add: new_id_Inr)
  from r have s2: "s2 = mi_system_update (upd (\<lambda>t. t @ [r])) s1" and new: "\<forall>q\<in>set (sel (mi_system s)). rid q \<noteq> rid r"
    by (simp_all add: create_row_Inr s1)
  from q ap have "s' = mi_counts_update (\<lambda>c. c(entity \<mapsto> (case c entity of None \<Rightarrow> 0 | Some n \<Rightarrow> n) + 1))
      (mi_records_update (\<lambda>t. t @ [?q]) (mi_uuids_update Suc s2))" and "\<forall>r\<in>set (mi_records s). lm_id r \<noteq> lm_id ?q"
    by (simp_all add: record_row_Inr increment_Inr Let_def s1 s2)
  with new have "grown en s s' [r] [?q]"
    using mk by (auto simp: grown_def s1 s2)
  then show ?thesis by blast
qed

lemma loop_grown:
  assumes step: "\<And>i row acc s acc' s'. f i row acc s = (Inr acc', s') \<Longrightarrow> \<exists>rows recs. grown en s s' rows recs"
  shows "row_loop f i xs acc s = (Inr acc', s') \<Longrightarrow> \<exists>rows recs. grown en s s' rows recs"
proof (induction xs arbitrary: i acc s)
  case Nil
  then show ?case by (auto intro: grown_none)
next
  case (Cons x xs)
  then obtain a t where x: "f i x acc s = (Inr a, t)" and xs: "row_loop f (Suc i) xs a t = (Inr acc', s')"
    by (auto simp: and_then_Inr)
  from step [OF x] Cons.IH [OF xs] show ?case by (blast intro: grown_trans)
qed

end

lemma tables:
  "users (core (upd_users f l)) = f (users (core l))" "subscriptionPlans (core (upd_plans g l)) = g (subscriptionPlans (core l))"
  "dramas (core (upd_dramas h l)) = h (dramas (core l))" "seasons (core (upd_seasons k l)) = k (seasons (core l))"
  by (simp_all add: upd_users_def upd_plans_def upd_dramas_def upd_seasons_def)

interpretation mu: migrated_table "\<lambda>l. users (core l)" upd_users u_id "''User''"
  by unfold_locales (simp_all add: upd_users_def)

interpretation mp: migrated_table "\<lambda>l. subscriptionPlans (core l)" upd_plans pl_id "''SubscriptionPlan''"
  by unfold_locales (simp_all add: upd_plans_def)

interpretation md: migrated_table "\<lambda>l. dramas (core l)" upd_dramas dr_id "''Drama''"
  by unfold_locales (simp_all add: upd_dramas_def)

interpretation mq: migrated_table "\<lambda>l. seasons (core l)" upd_seasons se_id "''Season''"
  by unfold_locales (simp_all add: upd_seasons_def)

section \<open>A successful run\<close>

lemma migrated_ids [simp]:
  "u_id (migrated_user en h n row e i) = i" "pl_id (migrated_plan en row c p d i) = i"
  "dr_id (migrated_drama en row sl i) = i" "se_id (migrated_season en row did k i) = i"
  by (simp_all add: migrated_user_def migrated_plan_def migrated_drama_def migrated_season_def Let_def)

lemma migrate_user_grown:
  "mv_apply en \<Longrightarrow> migrate_user en table h n row seen s = (Inr a, s') \<Longrightarrow> \<exists>rows recs. mu.grown en s s' rows recs"
  unfolding migrate_user_def Let_def create_user_row_def
  by (auto simp: and_then_Inr split: if_splits intro: mu.grown_same elim!: mu.create_grown)

lemma migrate_plan_grown:
  "mv_apply en \<Longrightarrow> migrate_plan en table n row u s = (Inr a, s') \<Longrightarrow> \<exists>rows recs. mp.grown en s s' rows recs"
  unfolding migrate_plan_def Let_def create_plan_row_def
  by (auto simp: and_then_Inr split: if_splits option.splits intro: mp.grown_same elim!: mp.create_grown)

lemma migrate_drama_grown:
  "mv_apply en \<Longrightarrow> migrate_drama en table n row u s = (Inr a, s') \<Longrightarrow> \<exists>rows recs. md.grown en s s' rows recs"
  unfolding migrate_drama_def Let_def create_drama_row_def
  by (auto simp: and_then_Inr split: if_splits option.splits intro: md.grown_same elim!: md.create_grown)

lemma migrate_season_grown:
  "mv_apply en \<Longrightarrow> migrate_season en table n row u s = (Inr a, s') \<Longrightarrow> \<exists>rows recs. mq.grown en s s' rows recs"
  unfolding migrate_season_def Let_def create_season_row_def
  by (auto simp: and_then_Inr split: if_splits option.splits intro: mq.grown_same elim!: mq.create_grown)

lemma queries_same:
  "table_name en v s = (Inr t, s') \<Longrightarrow> s' = s" "required en v s = (Inr x, s') \<Longrightarrow> s' = s" "source_rows en v s = (Inr rows, s') \<Longrightarrow> s' = s"
  by (auto simp: table_name_def required_def source_rows_def split: option.splits if_splits)

lemma phases_grown:
  assumes "mv_apply en"
  shows "migrate_users en s = (Inr (), s') \<Longrightarrow> \<exists>rows recs. mu.grown en s s' rows recs"
    and "migrate_plans en s = (Inr (), s') \<Longrightarrow> \<exists>rows recs. mp.grown en s s' rows recs"
    and "migrate_dramas en s = (Inr (), s') \<Longrightarrow> \<exists>rows recs. md.grown en s s' rows recs"
    and "migrate_seasons en s = (Inr (), s') \<Longrightarrow> \<exists>rows recs. mq.grown en s s' rows recs"
  unfolding migrate_users_def migrate_plans_def migrate_dramas_def migrate_seasons_def
  by (auto simp: and_then_Inr split: option.splits dest!: queries_same
    intro: mu.grown_same mp.grown_same md.grown_same mq.grown_same
      mu.loop_grown [OF migrate_user_grown [OF assms]] mp.loop_grown [OF migrate_plan_grown [OF assms]]
      md.loop_grown [OF migrate_drama_grown [OF assms]] mq.loop_grown [OF migrate_season_grown [OF assms]])

lemma run_grown:
  assumes "mv_apply en" and "run_tables en s = (Inr (), s')"
  obtains s1 s2 s3 us ur ps pr ds dr qs qr where "mu.grown en s s1 us ur" "mp.grown en s1 s2 ps pr"
    "md.grown en s2 s3 ds dr" "mq.grown en s3 s' qs qr"
  using assms(2) unfolding run_tables_def and_then_Inr
  by (auto dest!: phases_grown [OF assms(1)] dest: queries_same)

section \<open>Rolling a table back\<close>

lemma image_but: "A \<subseteq> f ` S \<Longrightarrow> x \<notin> A \<Longrightarrow> A \<subseteq> f ` {r \<in> S. f r \<noteq> x}"
  by blast

locale rollback_table = migrated_table sel upd rid entity
  for sel :: "legacy_state \<Rightarrow> 'r list" and upd and rid :: "'r \<Rightarrow> string" and entity +
  fixes unused :: "legacy_state \<Rightarrow> string \<Rightarrow> bool"
  assumes exists_law: "entity_exists entity l i \<longleftrightarrow> (\<exists>r\<in>set (sel l). rid r = i)"
    and use_law: "unused l i \<Longrightarrow> \<not> entity_in_use entity l i"
    and drop_law: "unused l i \<Longrightarrow> drop_entity entity i l = upd (delete_many (\<lambda>r. rid r = i)) l"
    and unused_upd: "unused (upd f l) i = unused l i"
begin

lemma rollback_one:
  assumes "unused (mi_system s) (lm_targetId r)" and "\<exists>x\<in>set (sel (mi_system s)). rid x = lm_targetId r"
    and "lm_id r \<in> lm_id ` set (mi_records s)"
  shows "rollback_record entity r s = (Inr [], s\<lparr>mi_system := upd (delete_many (\<lambda>x. rid x = lm_targetId r)) (mi_system s),
    mi_records := delete_many (\<lambda>q. lm_id q = lm_id r) (mi_records s)\<rparr>)"
proof -
  from assms(3) have "\<exists>q\<in>set (mi_records s). lm_id q = lm_id r" by auto
  with assms(1,2) show ?thesis
    by (simp add: rollback_record_def catch_error_def and_then_assoc delete_entity_def delete_record_def exists_law use_law drop_law)
qed

lemma delete_many_twice: "delete_many P (delete_many Q t) = delete_many (\<lambda>r. Q r \<or> P r) t"
  by (induction t) (auto simp: delete_many_def)

lemma rollback_all:
  assumes "distinct (map lm_targetId rs)" and "distinct (map lm_id rs)"
    and "\<forall>r\<in>set rs. unused (mi_system s) (lm_targetId r)"
    and "lm_targetId ` set rs \<subseteq> rid ` set (sel (mi_system s))" and "lm_id ` set rs \<subseteq> lm_id ` set (mi_records s)"
  shows "for_each rs (rollback_record entity) s = (Inr (map (\<lambda>_. []) rs),
    s\<lparr>mi_system := upd (delete_many (\<lambda>x. rid x \<in> lm_targetId ` set rs)) (mi_system s),
      mi_records := delete_many (\<lambda>q. lm_id q \<in> lm_id ` set rs) (mi_records s)\<rparr>)"
  using assms
proof (induction rs arbitrary: s)
  case Nil
  then show ?case by (simp add: delete_many_def upd_same)
next
  case (Cons r rs)
  let ?t = "s\<lparr>mi_system := upd (delete_many (\<lambda>x. rid x = lm_targetId r)) (mi_system s),
    mi_records := delete_many (\<lambda>q. lm_id q = lm_id r) (mi_records s)\<rparr>"
  have "rollback_record entity r s = (Inr [], ?t)"
    using Cons.prems by (intro rollback_one) auto
  moreover have "lm_targetId ` set rs \<subseteq> rid ` set (sel (mi_system ?t))" "lm_id ` set rs \<subseteq> lm_id ` set (mi_records ?t)"
    using Cons.prems by (simp_all add: sel_upd image_but)
  then have "for_each rs (rollback_record entity) ?t = (Inr (map (\<lambda>_. []) rs),
      ?t\<lparr>mi_system := upd (delete_many (\<lambda>x. rid x \<in> lm_targetId ` set rs)) (mi_system ?t),
        mi_records := delete_many (\<lambda>q. lm_id q \<in> lm_id ` set rs) (mi_records ?t)\<rparr>)"
    using Cons.prems by (intro Cons.IH) (simp_all add: unused_upd)
  ultimately show ?case
    by (simp add: and_then_def upd_upd delete_many_twice)
qed

text \<open>The rows of a run and their records are removed, and nothing else.\<close>

lemma rollback_grown:
  assumes g: "grown en s s' rows recs" and sys: "mi_system t = mi_system s'" and rs: "set recs \<subseteq> set (mi_records t)"
    and un: "\<forall>r\<in>set rows. unused (mi_system s) (rid r)"
  shows "for_each recs (rollback_record entity) t = (Inr (map (\<lambda>_. []) recs),
    t\<lparr>mi_system := mi_system s, mi_records := delete_many (\<lambda>q. lm_id q \<in> lm_id ` set recs) (mi_records t)\<rparr>)"
proof -
  note G = g [unfolded grown_def]
  from G have ids: "lm_targetId ` set recs = rid ` set rows" by (metis set_map)
  have "delete_many (\<lambda>x. rid x \<in> rid ` set rows) (sel (mi_system s) @ rows) = sel (mi_system s)"
    using G by (auto simp: delete_many_def filter_empty_conv filter_id_conv)
  then have restored: "upd (delete_many (\<lambda>x. rid x \<in> lm_targetId ` set recs)) (mi_system s') = mi_system s"
    using G by (simp add: ids upd_upd upd_same)
  have "for_each recs (rollback_record entity) t = (Inr (map (\<lambda>_. []) recs),
    t\<lparr>mi_system := upd (delete_many (\<lambda>x. rid x \<in> lm_targetId ` set recs)) (mi_system t),
      mi_records := delete_many (\<lambda>q. lm_id q \<in> lm_id ` set recs) (mi_records t)\<rparr>)"
  proof (rule rollback_all)
    show "distinct (map lm_targetId recs)" "distinct (map lm_id recs)" using G by simp_all
    from un have "\<forall>i\<in>lm_targetId ` set recs. unused (mi_system s) i" by (simp add: ids)
    then show "\<forall>r\<in>set recs. unused (mi_system t) (lm_targetId r)" using G by (simp add: sys unused_upd)
    show "lm_targetId ` set recs \<subseteq> rid ` set (sel (mi_system t))" using G ids sys by (auto simp: sel_upd)
    show "lm_id ` set recs \<subseteq> lm_id ` set (mi_records t)" using rs by blast
  qed
  then show ?thesis by (simp add: restored sys)
qed

lemma rollback_phase:
  assumes g: "grown en s s' rows recs" and t: "mi_system t = mi_system s'" "mi_records t = mi_records s'"
    and un: "\<forall>r\<in>set rows. unused (mi_system s) (rid r)"
    and f: "filter (\<lambda>r. lm_targetEntity r = entity) records = recs"
  shows "rollback_entity records entity t = (Inr [], t\<lparr>mi_system := mi_system s, mi_records := mi_records s\<rparr>)"
proof -
  have "set recs \<subseteq> set (mi_records t)" using g by (auto simp: grown_def t)
  moreover have "delete_many (\<lambda>q. lm_id q \<in> lm_id ` set recs) (mi_records t) = mi_records s"
    using g by (auto simp: grown_def t delete_many_def filter_id_conv filter_empty_conv)
  ultimately show ?thesis
    using rollback_grown [OF g t(1) _ un] by (simp add: rollback_entity_def f and_then_def)
qed

end

section \<open>The four tables\<close>

definition season_unused :: "legacy_state \<Rightarrow> string \<Rightarrow> bool" where
  "season_unused l i \<longleftrightarrow> \<not> season_in_use l i"

definition drama_unused :: "legacy_state \<Rightarrow> string \<Rightarrow> bool" where
  "drama_unused l i \<longleftrightarrow> \<not> drama_in_use l i \<and> (\<forall>f\<in>set (lg_favorites l). fv_dramaId f \<noteq> i) \<and> (\<forall>t\<in>set (lg_trending l). tg_dramaId t \<noteq> i)"

definition plan_unused :: "legacy_state \<Rightarrow> string \<Rightarrow> bool" where
  "plan_unused l i \<longleftrightarrow> \<not> plan_in_use l i \<and> (\<forall>q\<in>set (lg_requests l). sq_planId q \<noteq> Some i)"

definition account_unused :: "state \<Rightarrow> string \<Rightarrow> bool" where
  "account_unused s i \<longleftrightarrow> i \<notin> rs_userId ` set (refreshSessions s) \<and> i \<notin> td_userId ` set (trustedDevices s)
     \<and> Some i \<notin> lh_userId ` set (loginHistories s) \<and> i \<notin> ur_userId ` set (userRoles s)
     \<and> i \<notin> up_userId ` set (userPermissions s) \<and> Some i \<notin> au_actorId ` set (auditEvents s)
     \<and> i \<notin> gm_userId ` set (groupMembers s) \<and> Some i \<notin> eg_userId ` set (episodeGrants s)
     \<and> i \<notin> ps_userId ` set (playbackSessions s) \<and> i \<notin> ph_userId ` set (playbackHistories s)
     \<and> i \<notin> sc_userId ` set (supportConversations s) \<and> Some i \<notin> sc_assignedAdminId ` set (supportConversations s)
     \<and> Some i \<notin> sm_senderId ` set (supportMessages s)"

definition user_unused :: "legacy_state \<Rightarrow> string \<Rightarrow> bool" where
  "user_unused l i \<longleftrightarrow> \<not> user_in_use l i \<and> account_unused (core l) i \<and> i \<notin> nr_userId ` set (lg_recipients l)
     \<and> i \<notin> fv_userId ` set (lg_favorites l) \<and> i \<notin> mg_userId ` set (lg_messages l) \<and> Some i \<notin> mg_senderId ` set (lg_messages l)
     \<and> i \<notin> dq_userId ` set (lg_deletionRequests l) \<and> Some i \<notin> dq_reviewedById ` set (lg_deletionRequests l)
     \<and> Some i \<notin> re_uploadedById ` set (lg_releases l) \<and> i \<notin> sq_userId ` set (lg_requests l)
     \<and> Some i \<notin> sq_approvedById ` set (lg_requests l) \<and> i \<notin> bk_userId ` set (lg_blocks l)
     \<and> Some i \<notin> inc_userId ` set (lg_incidents l) \<and> i \<notin> cm_userId ` set (lg_comments l) \<and> i \<notin> vw_userId ` set (lg_views l)"

lemmas upd_defs = upd_users_def upd_plans_def upd_dramas_def upd_seasons_def

lemma unused_other [simp]:
  "season_unused (upd_users f l) i = season_unused l i" "season_unused (upd_plans g l) i = season_unused l i"
  "season_unused (upd_dramas h l) i = season_unused l i" "season_unused (upd_seasons k l) i = season_unused l i"
  "drama_unused (upd_users f l) i = drama_unused l i" "drama_unused (upd_plans g l) i = drama_unused l i"
  "drama_unused (upd_dramas h l) i = drama_unused l i"
  "plan_unused (upd_users f l) i = plan_unused l i" "plan_unused (upd_plans g l) i = plan_unused l i"
  "user_unused (upd_users f l) i = user_unused l i"
  by (simp_all add: upd_defs season_unused_def drama_unused_def plan_unused_def user_unused_def season_in_use_def
    drama_in_use_def plan_in_use_def user_in_use_def account_unused_def)

lemma untouched:
  "x \<notin> f ` set t \<Longrightarrow> delete_many (\<lambda>r. f r = x) t = t" "x \<notin> f ` set t \<Longrightarrow> update_many (\<lambda>r. f r = x) g t = t"
  "x \<notin> f ` set t \<Longrightarrow> filter (\<lambda>r. f r = x) t = []" "delete_many (\<lambda>r. False) t = t" "update_many (\<lambda>r. False) g t = t"
  "(case y of None \<Rightarrow> False | Some z \<Rightarrow> z \<in> set []) = False"
  by (auto simp: delete_many_def filter_id_conv filter_empty_conv intro!: update_many_none split: option.split)

lemma drop_account_unused:
  assumes "account_unused s i"
  shows "drop_account i s = s\<lparr>users := delete_many (\<lambda>u. u_id u = i) (users s)\<rparr>" "drop_viewing i s = s" "drop_support i s = s"
  using assms unfolding account_unused_def
  by (simp_all add: drop_account_def drop_viewing_def drop_support_def untouched)

lemma account_unused_users: "account_unused (users_update f s) i = account_unused s i"
  by (simp add: account_unused_def)

lemma drop_user_unused: "user_unused l i \<Longrightarrow> drop_user i l = upd_users (delete_many (\<lambda>u. u_id u = i)) l"
  unfolding user_unused_def drop_user_def upd_users_def
  by (simp add: drop_account_unused account_unused_users untouched)

lemma drop_other_unused:
  "plan_unused l i \<Longrightarrow> drop_plan i l = upd_plans (delete_many (\<lambda>p. pl_id p = i)) l"
  "drama_unused l i \<Longrightarrow> drop_drama i l = upd_dramas (delete_many (\<lambda>d. dr_id d = i)) l"
  "drop_season i l = upd_seasons (delete_many (\<lambda>q. se_id q = i)) l"
  by (simp_all add: plan_unused_def drop_plan_def drama_unused_def drop_drama_def drop_season_def upd_defs update_many_none
    delete_many_def filter_id_conv)

lemma unused_not_in_use:
  "season_unused l i \<Longrightarrow> \<not> season_in_use l i" "drama_unused l i \<Longrightarrow> \<not> drama_in_use l i"
  "plan_unused l i \<Longrightarrow> \<not> plan_in_use l i" "user_unused l i \<Longrightarrow> \<not> user_in_use l i"
  by (simp_all add: season_unused_def drama_unused_def plan_unused_def user_unused_def)

lemmas rollback_laws = entity_exists_def entity_in_use_def drop_entity_def unused_not_in_use drop_user_unused drop_other_unused

interpretation ru: rollback_table "\<lambda>l. users (core l)" upd_users u_id "''User''" user_unused
  by unfold_locales (simp_all add: rollback_laws)

interpretation rp: rollback_table "\<lambda>l. subscriptionPlans (core l)" upd_plans pl_id "''SubscriptionPlan''" plan_unused
  by unfold_locales (simp_all add: rollback_laws)

interpretation rd: rollback_table "\<lambda>l. dramas (core l)" upd_dramas dr_id "''Drama''" drama_unused
  by unfold_locales (simp_all add: rollback_laws)

interpretation rq: rollback_table "\<lambda>l. seasons (core l)" upd_seasons se_id "''Season''" season_unused
  by unfold_locales (simp_all add: rollback_laws)

section \<open>Rolling a run back\<close>

lemma and_then_result: "m s = (Inr x, s') \<Longrightarrow> and_then m k s = k x s'"
  by (simp add: and_then_def)

text \<open>No row names an id that the database has yet to generate.\<close>

definition ids_unused :: "migration_env \<Rightarrow> migration \<Rightarrow> bool" where
  "ids_unused en s \<longleftrightarrow> (\<forall>i\<in>mv_uuid en ` {mi_uuids s..}. season_unused (mi_system s) i \<and> drama_unused (mi_system s) i
     \<and> plan_unused (mi_system s) i \<and> user_unused (mi_system s) i)"

lemma ids_unusedD:
  assumes "ids_unused en s" and "i \<in> mv_uuid en ` {mi_uuids s..}"
  shows "season_unused (mi_system s) i" "drama_unused (mi_system s) i" "plan_unused (mi_system s) i" "user_unused (mi_system s) i"
  using assms unfolding ids_unused_def by blast+

text \<open>
  What a completed run leaves, seen from its end: the four tables as the steps grew them, and the records.
\<close>

lemma run_records:
  assumes "mu.grown en s s1 us ur" "mp.grown en s1 s2 ps pr" "md.grown en s2 s3 ds dr" "mq.grown en s3 s' qs qr"
    and "\<forall>r\<in>set (mi_records s). lm_runId r \<noteq> mv_runId en"
  shows "filter (\<lambda>r. lm_runId r = mv_runId en) (mi_records s') = ur @ pr @ dr @ qr"
    and "filter (\<lambda>r. lm_targetEntity r = ''User'') (ur @ pr @ dr @ qr) = ur"
    and "filter (\<lambda>r. lm_targetEntity r = ''SubscriptionPlan'') (ur @ pr @ dr @ qr) = pr"
    and "filter (\<lambda>r. lm_targetEntity r = ''Drama'') (ur @ pr @ dr @ qr) = dr"
    and "filter (\<lambda>r. lm_targetEntity r = ''Season'') (ur @ pr @ dr @ qr) = qr"
proof -
  note R = assms(5) mu.grownD(5) [OF assms(1)] mp.grownD(5) [OF assms(2)] md.grownD(5) [OF assms(3)] mq.grownD(5) [OF assms(4)]
  have "mi_records s' = mi_records s @ ur @ pr @ dr @ qr"
    by (simp add: mu.grownD(2) [OF assms(1)] mp.grownD(2) [OF assms(2)] md.grownD(2) [OF assms(3)] mq.grownD(2) [OF assms(4)])
  with R show "filter (\<lambda>r. lm_runId r = mv_runId en) (mi_records s') = ur @ pr @ dr @ qr"
    by (auto simp: filter_id_conv filter_empty_conv)
  from R show "filter (\<lambda>r. lm_targetEntity r = ''User'') (ur @ pr @ dr @ qr) = ur"
    "filter (\<lambda>r. lm_targetEntity r = ''SubscriptionPlan'') (ur @ pr @ dr @ qr) = pr"
    "filter (\<lambda>r. lm_targetEntity r = ''Drama'') (ur @ pr @ dr @ qr) = dr"
    "filter (\<lambda>r. lm_targetEntity r = ''Season'') (ur @ pr @ dr @ qr) = qr"
    by (auto simp: filter_id_conv filter_empty_conv)
qed

lemma rollback_run:
  assumes g: "mu.grown en s s1 us ur" "mp.grown en s1 s2 ps pr" "md.grown en s2 s3 ds dr" "mq.grown en s3 s' qs qr"
    and old: "\<forall>r\<in>set (mi_records s). lm_runId r \<noteq> mv_runId en"
    and un: "ids_unused en s" and rid: "mv_runId en \<noteq> []"
  shows "rollback (Some (mv_runId en)) (Some ''YES'') s' =
    (Inr (int (length (ur @ pr @ dr @ qr)), []), s'\<lparr>mi_system := mi_system s, mi_records := mi_records s\<rparr>)"
proof -
  let ?rs = "ur @ pr @ dr @ qr"
  note S = mu.grownD(1) [OF g(1)] mp.grownD(1) [OF g(2)] md.grownD(1) [OF g(3)]
  note F = run_records [OF g old]
  have later: "{mi_uuids s1..} \<subseteq> {mi_uuids s..}" "{mi_uuids s2..} \<subseteq> {mi_uuids s..}" "{mi_uuids s3..} \<subseteq> {mi_uuids s..}"
    using mu.grownD(3) [OF g(1)] mp.grownD(3) [OF g(2)] md.grownD(3) [OF g(3)] by simp_all
  let ?new = "mv_uuid en ` {mi_uuids s..}"
  have ids: "u_id ` set us \<subseteq> ?new" by (rule mu.grownD(4) [OF g(1)])
  have idp: "pl_id ` set ps \<subseteq> ?new" by (rule order_trans [OF mp.grownD(4) [OF g(2)] image_mono [OF later(1)]])
  have idd: "dr_id ` set ds \<subseteq> ?new" by (rule order_trans [OF md.grownD(4) [OF g(3)] image_mono [OF later(2)]])
  have idq: "se_id ` set qs \<subseteq> ?new" by (rule order_trans [OF mq.grownD(4) [OF g(4)] image_mono [OF later(3)]])
  have us: "\<forall>r\<in>set us. user_unused (mi_system s) (u_id r)" and ps: "\<forall>r\<in>set ps. plan_unused (mi_system s1) (pl_id r)"
    and ds: "\<forall>r\<in>set ds. drama_unused (mi_system s2) (dr_id r)" and qs: "\<forall>r\<in>set qs. season_unused (mi_system s3) (se_id r)"
    using ids idp idd idq unfolding image_subset_iff by (simp_all add: S ids_unusedD [OF un])
  have q: "rollback_entity ?rs ''Season'' s' = (Inr [], s'\<lparr>mi_system := mi_system s3, mi_records := mi_records s3\<rparr>)" (is "_ = (_, ?t1)")
    by (rule rq.rollback_phase [OF g(4) _ _ qs F(5)]) simp_all
  have d: "rollback_entity ?rs ''Drama'' ?t1 = (Inr [], ?t1\<lparr>mi_system := mi_system s2, mi_records := mi_records s2\<rparr>)" (is "_ = (_, ?t2)")
    by (rule rd.rollback_phase [OF g(3) _ _ ds F(4)]) simp_all
  have p: "rollback_entity ?rs ''SubscriptionPlan'' ?t2 = (Inr [], ?t2\<lparr>mi_system := mi_system s1, mi_records := mi_records s1\<rparr>)" (is "_ = (_, ?t3)")
    by (rule rp.rollback_phase [OF g(2) _ _ ps F(3)]) simp_all
  have u: "rollback_entity ?rs ''User'' ?t3 = (Inr [], ?t3\<lparr>mi_system := mi_system s, mi_records := mi_records s\<rparr>)"
    by (rule ru.rollback_phase [OF g(1) _ _ us F(2)]) simp_all
  have "for_each rollback_order (rollback_entity ?rs) s' =
      (Inr [[], [], [], []], s'\<lparr>mi_system := mi_system s, mi_records := mi_records s\<rparr>)"
    using q d p u by (simp add: rollback_order_def and_then_def)
  then have loop: "and_then (for_each rollback_order (rollback_entity ?rs)) k s' =
      k [[], [], [], []] (s'\<lparr>mi_system := mi_system s, mi_records := mi_records s\<rparr>)" for k :: "string list list \<Rightarrow> (int \<times> string list) script"
    by (rule and_then_result)
  have "truthy (Some (mv_runId en)) = Some (mv_runId en)" using rid by (simp add: truthy_def split: list.split)
  then show ?thesis by (simp add: rollback_def F(1) loop)
qed

lemma new_report_simps [simp]:
  "mi_system (new_report s) = mi_system s" "mi_records (new_report s) = mi_records s" "mi_uuids (new_report s) = mi_uuids s"
  "mi_counts (new_report s) = Map.empty"
  by (simp_all add: new_report_def)

lemma ids_unused_report: "ids_unused en (new_report s) = ids_unused en s"
  by (simp add: ids_unused_def)

lemma run_completed: "run_migration en s = (c, s') \<Longrightarrow> c \<noteq> 1 \<Longrightarrow> run_tables en (new_report s) = (Inr (), s')"
  by (auto simp: run_migration_def split: prod.splits sum.splits)

text \<open>
  C20. \<open>rollback.ts\<close> undoes a completed run of \<open>migrate.ts --apply\<close>: if no row named the ids that the database
  generated and the run id is a new one, then every imported row is deleted with its record, nothing else is, no
  failure is reported, and the database is what it was before the run.
\<close>

theorem rollback_restores:
  assumes "mv_apply en" and "run_migration en s = (c, s')" and "c \<noteq> 1"
    and "\<forall>r\<in>set (mi_records s). lm_runId r \<noteq> mv_runId en" and "mv_runId en \<noteq> []" and "ids_unused en s"
  shows "\<exists>s''. rollback (Some (mv_runId en)) (Some ''YES'') s' =
      (Inr (int (length (mi_records s')) - int (length (mi_records s)), []), s'')
    \<and> mi_system s'' = mi_system s \<and> mi_records s'' = mi_records s"
proof -
  obtain s1 s2 s3 us ur ps pr ds dr qs qr where
    g: "mu.grown en (new_report s) s1 us ur" "mp.grown en s1 s2 ps pr" "md.grown en s2 s3 ds dr" "mq.grown en s3 s' qs qr"
    using run_grown [OF assms(1) run_completed [OF assms(2,3)]] by metis
  have "mi_records s' = mi_records s @ ur @ pr @ dr @ qr"
    by (simp add: mu.grownD(2) [OF g(1)] mp.grownD(2) [OF g(2)] md.grownD(2) [OF g(3)] mq.grownD(2) [OF g(4)])
  with rollback_run [OF g] assms(4-6) show ?thesis by (simp add: ids_unused_report)
qed

theorem rollback_restores_witness:
  "\<exists>s''. rollback (Some ''r'') (Some ''YES'') (snd (run_migration (demo_migration_env True) demo_migration)) =
      (Inr (int (length (mi_records (snd (run_migration (demo_migration_env True) demo_migration)))), []), s'')
    \<and> mi_system s'' = no_legacy_rows empty_state"
proof -
  have env: "mv_apply (demo_migration_env True)" "mv_runId (demo_migration_env True) = ''r''" by (simp_all add: demo_migration_env_def)
  have unused: "ids_unused (demo_migration_env True) demo_migration"
    by (simp add: ids_unused_def demo_migration_def no_legacy_rows_def empty_state_def season_unused_def drama_unused_def plan_unused_def
      user_unused_def account_unused_def season_in_use_def drama_in_use_def plan_in_use_def user_in_use_def)
  show ?thesis
    using rollback_restores [OF env(1) prod.collapse [symmetric], of demo_migration] unused
    by (simp add: demo_completes env) (auto simp: demo_migration_def)
qed

end
