(* ===== verification/MigrationRuns.thy ===== *)
theory MigrationRuns
  imports MigrationProps
begin

text \<open>
  What any run of the migration leaves, a crashed one included, and what it means for the accounts; that \<open>verify.ts\<close>
  agrees with the report; that a second run imports nothing.
\<close>

section \<open>E-mail addresses\<close>

lemma lower_char_space [simp]: "is_space (lower_char c) = is_space c"
proof -
  have "(of_char c :: nat) < 256" by (metis of_char_of nat_of_char_less_256)
  then show ?thesis by (auto simp: lower_char_def is_space_def Let_def)
qed

lemma lower_char_twice [simp]: "lower_char (lower_char c) = lower_char c"
proof -
  have "(of_char c :: nat) < 256" by (metis of_char_of nat_of_char_less_256)
  then show ?thesis by (auto simp: lower_char_def Let_def)
qed

lemma trim_lower: "trim (to_lower s) = to_lower (trim s)"
  by (simp add: trim_def trim_left_def to_lower_def dropWhile_map rev_map comp_def)

lemma trim_twice: "trim (trim s) = trim s"
proof (cases "trim s = []")
  case True
  then show ?thesis by (simp only: True) (simp add: trim_def trim_left_def)
next
  case False
  let ?l = "dropWhile is_space s" and ?t = "rev (dropWhile is_space (rev (dropWhile is_space s)))"
  have t: "trim s = ?t" by (simp add: trim_def trim_left_def)
  then have ne: "dropWhile is_space (rev ?l) \<noteq> []" using False by (metis rev.simps(1))
  then have "\<not> is_space (last ?t)" by (simp add: last_rev hd_dropWhile)
  moreover have "?l \<noteq> []" using ne by (metis dropWhile.simps(1) rev.simps(1))
  then have "\<not> is_space (hd ?l)" by (rule hd_dropWhile)
  moreover have "?l = ?t @ rev (takeWhile is_space (rev ?l))"
    by (metis rev_append rev_rev_ident takeWhile_dropWhile_id)
  then have "hd ?t = hd ?l" using ne by (metis hd_append2 rev_is_Nil_conv)
  ultimately show ?thesis using False t trim_closed by metis
qed

section \<open>Any run only appends\<close>

lemma upd_commute:
  "upd_users f (upd_plans g l) = upd_plans g (upd_users f l)" "upd_users f (upd_dramas h l) = upd_dramas h (upd_users f l)"
  "upd_users f (upd_seasons k l) = upd_seasons k (upd_users f l)" "upd_plans g (upd_dramas h l) = upd_dramas h (upd_plans g l)"
  "upd_plans g (upd_seasons k l) = upd_seasons k (upd_plans g l)" "upd_dramas h (upd_seasons k l) = upd_seasons k (upd_dramas h l)"
  by (simp_all add: upd_defs)

text \<open>
  An account that the run creates is disabled, with the dummy hash, unless its hash is one of argon2; its e-mail
  address is in the form in which \<open>login\<close> looks it up.
\<close>

definition user_imported :: "migration_env \<Rightarrow> user \<Rightarrow> bool" where
  "user_imported en u \<longleftrightarrow> normalize_email (u_email u) = u_email u \<and> u_deletedAt u = None \<and>
     (if u_status u = User_ACTIVE then starts_with (u_passwordHash u) ''$argon2''
      else u_status u = User_DISABLED \<and> truthy (map_option trim (mv_env en ''ARGON2_DUMMY_HASH'')) = Some (u_passwordHash u))"

definition rows_imported :: "migration_env \<Rightarrow> user list \<Rightarrow> subscription_plan list \<Rightarrow> drama list \<Rightarrow> season list \<Rightarrow> bool" where
  "rows_imported en us ps ds qs \<longleftrightarrow> (\<forall>u\<in>set us. user_imported en u) \<and> (\<forall>p\<in>set ps. 0 \<le> pl_pricePkr p \<and> 1 \<le> pl_durationDays p)
     \<and> (\<forall>d\<in>set ds. \<not> dr_isPublished d) \<and> (\<forall>q\<in>set qs. 1 \<le> se_seasonNumber q)
     \<and> (\<not> mv_apply en \<longrightarrow> us = [] \<and> ps = [] \<and> ds = [] \<and> qs = [])"

definition appended :: "user list \<Rightarrow> subscription_plan list \<Rightarrow> drama list \<Rightarrow> season list \<Rightarrow> legacy_state \<Rightarrow> legacy_state" where
  "appended us ps ds qs l = upd_seasons (\<lambda>t. t @ qs) (upd_dramas (\<lambda>t. t @ ds) (upd_plans (\<lambda>t. t @ ps) (upd_users (\<lambda>t. t @ us) l)))"

definition extends :: "migration_env \<Rightarrow> migration \<Rightarrow> migration \<Rightarrow> bool" where
  "extends en s0 s \<longleftrightarrow> (\<exists>us ps ds qs recs. mi_system s = appended us ps ds qs (mi_system s0) \<and> mi_records s = mi_records s0 @ recs
     \<and> rows_imported en us ps ds qs \<and> (\<not> mv_apply en \<longrightarrow> recs = []))"

named_theorems run_keeps "steps of the migration that only append"

lemma extends_report [run_keeps]:
  "keeps (extends en s0) (push_error e)" "keeps (extends en s0) (push_duplicate e)" "keeps (extends en s0) (increment n)"
  "keeps (extends en s0) (new_id en')"
  by (auto simp: keeps_def extends_def push_error_def push_duplicate_def increment_def new_id_def)

lemma keeps_create_row:
  "(\<And>s. I s \<Longrightarrow> I (upd (\<lambda>t. t @ [r]) s)) \<Longrightarrow> keeps I (create_row sel upd i k fits r)"
  unfolding create_row_def by (auto intro!: keeps_rules)

lemma keeps_record [run_keeps]: "keeps (extends en s0) (record_row en table key entity i)"
proof -
  have "keeps (extends en s0) (create_record r)" if "mv_apply en" for r
    unfolding create_record_def using that by (intro keeps_create_row) (auto simp: extends_def; blast)
  then show ?thesis unfolding record_row_def by (auto intro!: keeps_rules run_keeps)
qed

lemma extends_append:
  assumes "mv_apply en" and "rows_imported en u p d q"
    and f: "\<And>us ps ds qs l. f (appended us ps ds qs l) = appended (us @ u) (ps @ p) (ds @ d) (qs @ q) l"
    and "extends en s0 s"
  shows "extends en s0 (mi_system_update f s)"
proof -
  obtain us ps ds qs recs where s: "mi_system s = appended us ps ds qs (mi_system s0)" "mi_records s = mi_records s0 @ recs"
    and r: "rows_imported en us ps ds qs" using assms(4) unfolding extends_def by blast
  have "rows_imported en (us @ u) (ps @ p) (ds @ d) (qs @ q)"
    using r assms(1,2) by (simp add: rows_imported_def ball_Un)
  with s assms(1) show ?thesis unfolding extends_def by (simp add: f) blast
qed

lemma keeps_append:
  assumes "mv_apply en" and "rows_imported en u p d q"
    and "\<And>us ps ds qs l. g (\<lambda>t. t @ [r]) (appended us ps ds qs l) = appended (us @ u) (ps @ p) (ds @ d) (qs @ q) l"
  shows "keeps (extends en s0) (create_row sel (\<lambda>f. mi_system_update (g f)) i k fits r)"
  by (rule keeps_create_row) (rule extends_append [OF assms])

lemma keeps_create [run_keeps]:
  assumes ap: "mv_apply en"
  shows "user_imported en u \<Longrightarrow> keeps (extends en s0) (create_user_row u)"
    and "0 \<le> pl_pricePkr p \<Longrightarrow> 1 \<le> pl_durationDays p \<Longrightarrow> keeps (extends en s0) (create_plan_row p)"
    and "\<not> dr_isPublished d \<Longrightarrow> keeps (extends en s0) (create_drama_row d)"
    and "1 \<le> se_seasonNumber q \<Longrightarrow> keeps (extends en s0) (create_season_row q)"
proof -
  note defs = create_user_row_def create_plan_row_def create_drama_row_def create_season_row_def appended_def upd_commute
    mu.upd_upd mp.upd_upd md.upd_upd mq.upd_upd rows_imported_def ap
  show "user_imported en u \<Longrightarrow> keeps (extends en s0) (create_user_row u)"
    unfolding defs(1-4) by (rule keeps_append [OF ap, where u = "[u]" and p = "[]" and d = "[]" and q = "[]"]) (simp_all add: defs)
  show "0 \<le> pl_pricePkr p \<Longrightarrow> 1 \<le> pl_durationDays p \<Longrightarrow> keeps (extends en s0) (create_plan_row p)"
    unfolding defs(1-4) by (rule keeps_append [OF ap, where u = "[]" and p = "[p]" and d = "[]" and q = "[]"]) (simp_all add: defs)
  show "\<not> dr_isPublished d \<Longrightarrow> keeps (extends en s0) (create_drama_row d)"
    unfolding defs(1-4) by (rule keeps_append [OF ap, where u = "[]" and p = "[]" and d = "[d]" and q = "[]"]) (simp_all add: defs)
  show "1 \<le> se_seasonNumber q \<Longrightarrow> keeps (extends en s0) (create_season_row q)"
    unfolding defs(1-4) by (rule keeps_append [OF ap, where u = "[]" and p = "[]" and d = "[]" and q = "[q]"]) (simp_all add: defs)
qed

lemma keeps_row_loop: "(\<And>i row acc. keeps I (f i row acc)) \<Longrightarrow> keeps I (row_loop f i rows acc)"
  by (induction rows arbitrary: i acc) (auto intro!: keeps_rules)

lemma row_email_normal: "normalize_email (row_email row) = row_email row"
proof -
  have "to_lower (to_lower x) = to_lower x" for x by (simp add: to_lower_def)
  then have "normalize_email (to_lower (trim x)) = to_lower (trim x)" for x by (simp add: normalize_email_def trim_lower trim_twice)
  moreover have "normalize_email [] = []" by (simp add: normalize_email_def trim_def trim_left_def to_lower_def)
  ultimately show ?thesis
    by (cases "first_cell row [''email'', ''email_address'']") (simp_all add: row_email_def row_text_def del: first_cell.simps)
qed

lemma migrated_user_imported:
  assumes "truthy (map_option trim (mv_env en ''ARGON2_DUMMY_HASH'')) = Some h"
  shows "user_imported en (migrated_user en h n row (row_email row) i)"
  using assms by (auto simp: user_imported_def migrated_user_def Let_def row_email_normal hash_importable_def split: option.split)

lemma keeps_tables [run_keeps]:
  "keeps I (table_name en v)" "keeps I (required en v)" "keeps I (source_rows en v)"
  unfolding table_name_def required_def source_rows_def by (auto intro!: keeps_rules split: option.split)

lemma keeps_migrate_user:
  assumes "truthy (map_option trim (mv_env en ''ARGON2_DUMMY_HASH'')) = Some h"
  shows "keeps (extends en s0) (migrate_user en table h n row seen)"
  unfolding migrate_user_def Let_def by (auto intro!: keeps_rules run_keeps migrated_user_imported assms)

lemma keeps_migrate_plan [run_keeps]: "keeps (extends en s0) (migrate_plan en table n row u)"
  unfolding migrate_plan_def Let_def
  by (cases "mv_apply en") (auto intro!: keeps_rules run_keeps simp: migrated_plan_def split: option.split)

lemma keeps_migrate_drama [run_keeps]: "keeps (extends en s0) (migrate_drama en table n row u)"
  unfolding migrate_drama_def Let_def
  by (cases "mv_apply en") (auto intro!: keeps_rules run_keeps simp: migrated_drama_def)

lemma keeps_either: "(b \<Longrightarrow> keeps I m) \<Longrightarrow> (\<not> b \<Longrightarrow> keeps I n) \<Longrightarrow> keeps I (if b then m else n)"
  by simp

lemma keeps_migrate_season [run_keeps]: "keeps (extends en s0) (migrate_season en table n row u)"
  unfolding migrate_season_def
  by (cases "truthy (row_text row [''drama_slug'', ''drama_code'', ''slug_parent''])";
      cases "row_integer row [''season_number'', ''season'', ''number''] 1")
    (auto intro!: run_keeps keeps_and_then keeps_gets keeps_require keeps_case_option keeps_either simp: migrated_season_def)

lemma keeps_migrate_users [run_keeps]: "keeps (extends en s0) (migrate_users en)"
proof -
  have req: "keeps (extends en s0) (and_then (required en ''ARGON2_DUMMY_HASH'') k)"
    if "\<And>h. truthy (map_option trim (mv_env en ''ARGON2_DUMMY_HASH'')) = Some h \<Longrightarrow> keeps (extends en s0) (k h)" for k :: "string \<Rightarrow> unit script"
    using that unfolding required_def keeps_def by (simp split: option.split)
  have rows: "keeps (extends en s0) (case t of None \<Rightarrow> ret () | Some table \<Rightarrow> and_then (required en ''ARGON2_DUMMY_HASH'') (\<lambda>h.
      and_then (source_rows en table) (\<lambda>rows. and_then (row_loop (migrate_user en table h) 0 rows []) (\<lambda>_. ret ()))))" for t
    by (cases t) (auto intro!: req keeps_ret keeps_and_then [OF keeps_tables(3)] keeps_and_then [OF keeps_row_loop] keeps_migrate_user)
  show ?thesis
    unfolding migrate_users_def by (rule keeps_and_then [OF keeps_tables(1) rows])
qed

lemma keeps_run: "keeps (extends en s0) (run_tables en)"
  unfolding run_tables_def migrate_plans_def migrate_dramas_def migrate_seasons_def
  by (auto intro!: keeps_rules run_keeps keeps_row_loop split: option.split)

lemma run_extends:
  assumes "run_migration en s = (c, s')"
  shows "extends en s s'"
proof -
  have "extends en s (new_report s)"
    unfolding extends_def rows_imported_def appended_def
    by (intro exI [of _ "[]"]) (simp add: mu.upd_same mp.upd_same md.upd_same mq.upd_same)
  then have "extends en s (snd (run_tables en (new_report s)))" by (rule keeps_apply [OF keeps_run])
  moreover have "extends en s (t\<lparr>mi_errors := e\<rparr>) = extends en s t" for t e by (simp add: extends_def)
  ultimately show ?thesis using assms by (auto simp: run_migration_def split: prod.splits sum.splits)
qed

text \<open>
  C21. Whatever happens, the migration only appends: the database and the records that a run leaves, one that crashed on
  a row included, are those it found with new rows behind them, and without \<open>--apply\<close> not even that. A new account
  carries the source's hash and is active only if that is an argon2 hash, and is otherwise disabled with the dummy hash;
  its e-mail address is normalised; new plans and seasons are in range and new dramas unpublished.
\<close>

theorem migration_appends:
  assumes "run_migration en s = (c, s')"
  shows "\<exists>us ps ds qs recs. mi_system s' = appended us ps ds qs (mi_system s) \<and> mi_records s' = mi_records s @ recs
    \<and> rows_imported en us ps ds qs \<and> (\<not> mv_apply en \<longrightarrow> recs = [])"
  using run_extends [OF assms] unfolding extends_def .

theorem migration_appends_witness:
  "\<exists>c s'. run_migration (demo_migration_env False) demo_migration = (c, s') \<and> mi_system s' = no_legacy_rows empty_state \<and> mi_records s' = []"
proof -
  obtain c s' where r: "run_migration (demo_migration_env False) demo_migration = (c, s')" by fastforce
  from migration_appends [OF r] have "mi_system s' = mi_system demo_migration" "mi_records s' = mi_records demo_migration"
    by (auto simp: demo_migration_env_def rows_imported_def appended_def mu.upd_same mp.upd_same md.upd_same mq.upd_same)
  with r show ?thesis by (auto simp: demo_migration_def)
qed

lemma appended_users: "users (core (appended us ps ds qs l)) = users (core l) @ us"
  by (simp add: appended_def upd_defs)

lemma login_needs_account:
  assumes "login cf pf rq e pw dev sid tok s = (Inr tp, t)"
  shows "\<exists>u. find_login s (normalize_email e) = Some u \<and> login_valid pf (rq_now rq) pw u"
  using assms login_refused [where s = s and e = e and pf = pf and rq = rq and pw = pw and cf = cf and dev = dev and sid = sid and tok = tok]
  by (cases "find_login s (normalize_email e)") auto

text \<open>
  The migration opens no account to a password it cannot check: whoever logs in after a run, complete or not, either
  has an account from before the run or one whose imported hash is an argon2 hash that verifies the password.
\<close>

lemma imported_logins:
  assumes "run_migration en s = (c, s')"
    and "login cf pf rq e pw dev sid tok (mi_core s') = (Inr tp, t)"
  shows "\<exists>u. find_login (mi_core s') (normalize_email e) = Some u \<and> pf_argonVerify pf (u_passwordHash u) pw
    \<and> (u \<in> set (users (mi_core s)) \<or> starts_with (u_passwordHash u) ''$argon2'')"
proof -
  obtain u where u: "find_login (mi_core s') (normalize_email e) = Some u" "login_valid pf (rq_now rq) pw u"
    using login_needs_account [OF assms(2)] by blast
  obtain us ps ds qs where r: "mi_system s' = appended us ps ds qs (mi_system s)" "rows_imported en us ps ds qs"
    using run_extends [OF assms(1)] unfolding extends_def by blast
  have "u \<in> set (users (mi_core s')) " using u(1) unfolding find_login_def by (auto dest: find_first_Some)
  with r u(2) have "u \<in> set (users (mi_core s)) \<or> starts_with (u_passwordHash u) ''$argon2''"
    by (auto simp: appended_users rows_imported_def user_imported_def login_valid_def split: if_splits)
  with u show ?thesis by (auto simp: login_valid_def)
qed

lemma imported_logins_example:
  "\<exists>u. find_login (mi_core (snd (run_migration (demo_migration_env True) demo_migration))) (normalize_email ''a@B'') = Some u
    \<and> starts_with (u_passwordHash u) ''$argon2''"
proof -
  let ?s = "mi_core (snd (run_migration (demo_migration_env True) demo_migration))"
  have "case find_login ?s (normalize_email ''a@B'') of None \<Rightarrow> False
      | Some u \<Rightarrow> login_valid demo_platform (rq_now demo_request) ''argon2id'' u"
    by code_simp
  then obtain u where u: "find_login ?s (normalize_email ''a@B'') = Some u" "login_valid demo_platform (rq_now demo_request) ''argon2id'' u"
    by (auto split: option.splits)
  have "refreshSessions ?s = []"
    using run_extends [of "demo_migration_env True" demo_migration, OF prod.collapse [symmetric]]
    by (auto simp: extends_def appended_def upd_defs demo_migration_def no_legacy_rows_def empty_state_def)
  then obtain tp t where "login demo_config demo_platform demo_request ''a@B'' ''argon2id'' None ''s1'' ''tok'' ?s = (Inr tp, t)"
    using login_accepted [OF u, of demo_config None "''s1''" "''tok''"] by (auto simp: issue_token_pair_apply fresh_session_def)
  from imported_logins [OF prod.collapse [symmetric] this] show ?thesis
    by (auto simp: demo_migration_def no_legacy_rows_def empty_state_def)
qed

text \<open>
  \<open>verify.ts\<close> confirms a completed run: it finds as many records as the run wrote, per entity as many as the run
  reported, and every account, drama and season that the records name.
\<close>

lemma verification_agrees:
  assumes "mv_apply en" and "run_migration en s = (c, s')" and "c \<noteq> 1"
    and "\<forall>r\<in>set (mi_records s). lm_runId r \<noteq> mv_runId en" and "mv_runId en \<noteq> []"
  shows "\<exists>v. verify_run (Some (mv_runId en)) s' = (Inr v, s')
    \<and> ve_recordCount v + length (mi_records s) = length (mi_records s') \<and> ve_byEntity v = mi_counts s'
    \<and> ve_users v = (case mi_counts s' ''User'' of None \<Rightarrow> 0 | Some n \<Rightarrow> n)
    \<and> ve_dramas v = (case mi_counts s' ''Drama'' of None \<Rightarrow> 0 | Some n \<Rightarrow> n)
    \<and> ve_seasons v = (case mi_counts s' ''Season'' of None \<Rightarrow> 0 | Some n \<Rightarrow> n)"
proof -
  obtain s1 s2 s3 us ur ps pr ds dr qs qr where
    g: "mu.grown en (new_report s) s1 us ur" "mp.grown en s1 s2 ps pr" "md.grown en s2 s3 ds dr" "mq.grown en s3 s' qs qr"
    using run_grown [OF assms(1) run_completed [OF assms(2,3)]] by metis
  let ?rs = "ur @ pr @ dr @ qr"
  have old: "\<forall>r\<in>set (mi_records (new_report s)). lm_runId r \<noteq> mv_runId en" using assms(4) by simp
  note F = run_records [OF g old]
  have recs: "mi_records s' = mi_records s @ ?rs"
    by (simp add: mu.grownD(2) [OF g(1)] mp.grownD(2) [OF g(2)] md.grownD(2) [OF g(3)] mq.grownD(2) [OF g(4)])
  have counts: "mi_counts s' = count_entity ?rs"
    by (simp add: mu.grown_counts [OF g(1)] mp.grown_counts [OF g(2)] md.grown_counts [OF g(3)] mq.grown_counts [OF g(4)]
      count_entity_more count_more_append)
  have found: "(case mi_counts s' e of None \<Rightarrow> 0 | Some n \<Rightarrow> n) = length (filter (\<lambda>r. lm_targetEntity r = e) ?rs)" for e
    unfolding counts count_entity_more count_more_at Let_def by (simp only: if_split option.case) simp
  have tables: "users (mi_core s') = users (mi_core s1)" "dramas (mi_core s') = dramas (mi_core s3)"
    by (simp_all add: mp.grownD(1) [OF g(2)] md.grownD(1) [OF g(3)] mq.grownD(1) [OF g(4)] upd_defs)
  have targets: "set (targets ?rs ''User'') = lm_targetId ` set ur" "set (targets ?rs ''Drama'') = lm_targetId ` set dr"
    "set (targets ?rs ''Season'') = lm_targetId ` set qr"
    by (simp_all only: targets_def F set_map)
  let ?v = "\<lparr>ve_recordCount = length ?rs, ve_byEntity = count_entity ?rs,
    ve_users = length ur, ve_dramas = length dr, ve_seasons = length qr\<rparr>"
  have "truthy (Some (mv_runId en)) = Some (mv_runId en)" using assms(5) by (simp add: truthy_def split: list.split)
  moreover have "count_where (\<lambda>u. u_id u \<in> set (targets ?rs ''User'')) (users (mi_core s')) = length ur"
    unfolding targets tables by (rule mu.grown_targets [OF g(1)])
  moreover have "count_where (\<lambda>d. dr_id d \<in> set (targets ?rs ''Drama'')) (dramas (mi_core s')) = length dr"
    unfolding targets tables by (rule md.grown_targets [OF g(3)])
  moreover have "count_where (\<lambda>q. se_id q \<in> set (targets ?rs ''Season'')) (seasons (mi_core s')) = length qr"
    unfolding targets by (rule mq.grown_targets [OF g(4)])
  ultimately have "verify_run (Some (mv_runId en)) s' = (Inr ?v, s')"
    by (simp only: verify_run_def and_then_expect option.case and_then_gets gets_apply F(1))
  moreover have "length ur = (case mi_counts s' ''User'' of None \<Rightarrow> 0 | Some n \<Rightarrow> n)"
    "length dr = (case mi_counts s' ''Drama'' of None \<Rightarrow> 0 | Some n \<Rightarrow> n)"
    "length qr = (case mi_counts s' ''Season'' of None \<Rightarrow> 0 | Some n \<Rightarrow> n)"
    by (simp_all only: found F)
  ultimately show ?thesis
    by (intro exI [of _ ?v]) (simp add: recs counts [symmetric])
qed

lemma verification_agrees_example:
  "\<exists>v. verify_run (Some ''r'') (snd (run_migration (demo_migration_env True) demo_migration)) = (Inr v, snd (run_migration (demo_migration_env True) demo_migration))
    \<and> ve_byEntity v = mi_counts (snd (run_migration (demo_migration_env True) demo_migration))"
proof -
  have env: "mv_apply (demo_migration_env True)" "mv_runId (demo_migration_env True) = ''r''" by (simp_all add: demo_migration_env_def)
  show ?thesis
    using verification_agrees [OF env(1) prod.collapse [symmetric], of demo_migration]
    by (simp add: demo_completes env) (auto simp: demo_migration_def)
qed

section \<open>What the scripts do not do\<close>

text \<open>A migrated account has no role: \<open>register\<close> and the SQL import give it \<open>USER\<close>, this script does not.\<close>

lemma migrated_account_without_role:
  assumes "run_migration en s = (c, s')"
  shows "userRoles (mi_core s') = userRoles (mi_core s)"
  using run_extends [OF assms] by (auto simp: extends_def appended_def upd_defs)

text \<open>A dry run of a source with a new drama reports its seasons as errors, which the run itself imports.\<close>

definition season_source :: migration_env where
  "season_source = (demo_migration_env True)\<lparr>mv_env := map_of [(''LEGACY_DRAMAS_TABLE'', ''d''), (''LEGACY_SEASONS_TABLE'', ''q''),
     (''LEGACY_DATABASE_URL'', ''m''), (''MIGRATION_MAX_ROWS'', ''9'')]\<rparr>"

lemma dry_run_misses_seasons:
  "fst (run_migration season_source demo_migration) = 0"
  "fst (run_migration (season_source\<lparr>mv_apply := False\<rparr>) demo_migration) = 2"
  by code_simp+

text \<open>
  A row and its record are written one after the other: two plans with one id in the source violate the unique key of
  the records, the run stops, and the second plan stays without a record, out of reach of the rollback.
\<close>

definition twin_source :: migration_env where
  "twin_source = (demo_migration_env True)\<lparr>mv_env := map_of [(''LEGACY_PLANS_TABLE'', ''p''), (''LEGACY_DATABASE_URL'', ''m''), (''MIGRATION_MAX_ROWS'', ''9'')],
     mv_source := (\<lambda>_. Some [[''user_id'' \<mapsto> Cell_int 1, ''code'' \<mapsto> Cell_text ''a''], [''user_id'' \<mapsto> Cell_int 1, ''code'' \<mapsto> Cell_text ''b'']])\<rparr>"

lemma orphan_left:
  "fst (run_migration twin_source demo_migration) = 1"
  "length (subscriptionPlans (mi_core (snd (run_migration twin_source demo_migration)))) = 2"
  "length (mi_records (snd (run_migration twin_source demo_migration))) = 1"
  by code_simp+

text \<open>The rollback knows four entities; it leaves the others of the SQL import and counts them as removed.\<close>

lemma rollback_ignores_other_entities:
  assumes "\<forall>r\<in>set (mi_records s). lm_targetEntity r \<notin> set rollback_order" and "rid \<noteq> []"
  shows "rollback (Some rid) (Some ''YES'') s = (Inr (int (length (filter (\<lambda>r. lm_runId r = rid) (mi_records s))), []), s)"
proof -
  have "filter (\<lambda>r. lm_targetEntity r = e) (filter (\<lambda>r. lm_runId r = rid) (mi_records s)) = []" if "e \<in> set rollback_order" for e
    using assms(1) that by (auto simp: filter_empty_conv)
  moreover have "truthy (Some rid) = Some rid" using assms(2) by (simp add: truthy_def split: list.split)
  moreover from calculation(1) have "for_each rollback_order (rollback_entity (filter (\<lambda>r. lm_runId r = rid) (mi_records s))) s = (Inr [[], [], [], []], s)"
    by (simp add: rollback_order_def rollback_entity_def and_then_def)
  ultimately show ?thesis by (simp add: rollback_def and_then_def [of "for_each xs f" for xs f])
qed

end
