(* ===== verification/MigrationRerun.thy ===== *)
theory MigrationRerun
  imports MigrationRuns
begin

text \<open>
  A second run of the migration over the same source: every row of the first run is settled, so the second imports
  nothing. \<open>loop_settles\<close> and \<open>loop_quiet\<close> are the two halves for one table.
\<close>

section \<open>Settled rows\<close>

definition settled_user :: "legacy_state \<Rightarrow> source_row \<Rightarrow> bool" where
  "settled_user l row \<longleftrightarrow> CHR ''@'' \<notin> set (row_email row) \<or> row_email row \<in> u_email ` set (users (core l))"

definition plan_values :: "source_row \<Rightarrow> (int \<times> int) option" where
  "plan_values row = (case (row_integer row [''price_pkr'', ''price'', ''amount''] 0, row_integer row [''duration_days'', ''days'', ''duration''] 30) of
     (Some price, Some days) \<Rightarrow> if price < 0 \<or> days < 1 then None else Some (price, days) | _ \<Rightarrow> None)"

definition settled_plan :: "legacy_state \<Rightarrow> nat \<Rightarrow> source_row \<Rightarrow> bool" where
  "settled_plan l n row \<longleftrightarrow> plan_values row = None \<or> row_plan_code n row \<in> pl_code ` set (subscriptionPlans (core l))"

definition settled_drama :: "legacy_state \<Rightarrow> nat \<Rightarrow> source_row \<Rightarrow> bool" where
  "settled_drama l n row \<longleftrightarrow> row_slug n row \<in> dr_slug ` set (dramas (core l))"

definition season_values :: "source_row \<Rightarrow> (string \<times> int) option" where
  "season_values row = (case (truthy (row_text row [''drama_slug'', ''drama_code'', ''slug_parent'']),
       row_integer row [''season_number'', ''season'', ''number''] 1) of
     (Some slug, Some n) \<Rightarrow> if n < 1 then None else Some (slug, n) | _ \<Rightarrow> None)"

definition settled_season :: "legacy_state \<Rightarrow> source_row \<Rightarrow> bool" where
  "settled_season l row \<longleftrightarrow> (case season_values row of None \<Rightarrow> True
     | Some (slug, n) \<Rightarrow> (case find_first (\<lambda>d. dr_slug d = to_lower slug) (dramas (core l)) of None \<Rightarrow> True
       | Some d \<Rightarrow> int32 n \<and> (dr_id d, n) \<in> (\<lambda>q. (se_dramaId q, se_seasonNumber q)) ` set (seasons (core l))))"

lemma migrate_plan_values:
  "migrate_plan en table n row u = (case plan_values row of None \<Rightarrow> push_error (table @ '':'' @ decimal n @ '' invalid plan values'')
     | Some (price, days) \<Rightarrow> and_then (gets (\<lambda>s. find_first (\<lambda>p. pl_code p = row_plan_code n row) (subscriptionPlans (mi_core s)))) (\<lambda>existing.
         if existing \<noteq> None then push_duplicate (table @ '':'' @ row_plan_code n row)
         else if mv_apply en
         then and_then (new_id en) (\<lambda>i. and_then (create_plan_row (migrated_plan en row (row_plan_code n row) price days i)) (\<lambda>_.
              record_row en table (source_key row (row_plan_code n row)) ''SubscriptionPlan'' i))
         else increment ''SubscriptionPlan''))"
  unfolding migrate_plan_def plan_values_def Let_def by (simp split: option.split)

lemma migrate_season_values:
  "migrate_season en table n row u = (case season_values row of None \<Rightarrow> push_error (table @ '':'' @ decimal n @ '' invalid season'')
     | Some (slug, k) \<Rightarrow> and_then (gets (\<lambda>s. find_first (\<lambda>d. dr_slug d = to_lower slug) (dramas (mi_core s)))) (\<lambda>d.
         case d of None \<Rightarrow> push_error (table @ '':'' @ decimal n @ '' drama not found'')
         | Some d \<Rightarrow> and_then (require (int32 k) (Internal ''P2000'')) (\<lambda>_.
             and_then (gets (\<lambda>s. find_first (\<lambda>q. se_dramaId q = dr_id d \<and> se_seasonNumber q = k) (seasons (mi_core s)))) (\<lambda>existing.
             if existing \<noteq> None then push_duplicate (table @ '':'' @ slug @ '':'' @ int_text k)
             else if mv_apply en
             then and_then (new_id en) (\<lambda>i. and_then (create_season_row (migrated_season en row (dr_id d) k i)) (\<lambda>_.
                  record_row en table (source_key row (slug @ '':'' @ int_text k)) ''Season'' i))
             else increment ''Season''))))"
  unfolding migrate_season_def season_values_def by (simp split: option.split)

section \<open>One table\<close>

lemma loop_settles:
  assumes step: "\<And>i row acc s acc' s'. I acc s \<Longrightarrow> f i row acc s = (Inr acc', s') \<Longrightarrow> I acc' s' \<and> done_row s' i row"
    and kept: "\<And>i row acc s acc' s' j q. f i row acc s = (Inr acc', s') \<Longrightarrow> done_row s j q \<Longrightarrow> done_row s' j q"
  shows "I acc s \<Longrightarrow> row_loop f i xs acc s = (Inr acc', s') \<Longrightarrow> \<forall>j<length xs. done_row s' (i + j) (xs ! j)"
proof -
  have later: "row_loop f i xs acc s = (Inr acc', s') \<Longrightarrow> done_row s j q \<Longrightarrow> done_row s' j q" for i xs acc s acc' s' j q
    by (induction xs arbitrary: i acc s) (auto simp: and_then_Inr dest: kept)
  show "I acc s \<Longrightarrow> row_loop f i xs acc s = (Inr acc', s') \<Longrightarrow> \<forall>j<length xs. done_row s' (i + j) (xs ! j)"
  proof (induction xs arbitrary: i acc s)
    case Nil
    then show ?case by simp
  next
    case (Cons x xs)
    then obtain a t where x: "f i x acc s = (Inr a, t)" and xs: "row_loop f (Suc i) xs a t = (Inr acc', s')"
      by (auto simp: and_then_Inr)
    from step [OF Cons.prems(1) x] have I: "I a t" and "done_row t i x" by simp_all
    then have "done_row s' i x" by (blast intro: later [OF xs])
    with Cons.IH [OF I xs] show ?case by (simp add: All_less_Suc2)
  qed
qed

text \<open>\<open>quiet\<close>: the step reports at most, and imports nothing.\<close>

definition quiet :: "migration \<Rightarrow> migration \<Rightarrow> bool" where
  "quiet s s' \<longleftrightarrow> mi_system s' = mi_system s \<and> mi_records s' = mi_records s \<and> mi_counts s' = mi_counts s"

lemma quiet_trans: "quiet s t \<Longrightarrow> quiet t u \<Longrightarrow> quiet s u"
  by (simp add: quiet_def)

lemma loop_quiet:
  assumes step: "\<And>i row acc s. done_row (mi_system s) i row \<Longrightarrow> \<exists>a s'. f i row acc s = (Inr a, s') \<and> quiet s s'"
  shows "\<forall>j<length xs. done_row (mi_system s) (i + j) (xs ! j) \<Longrightarrow> \<exists>a s'. row_loop f i xs acc s = (Inr a, s') \<and> quiet s s'"
proof (induction xs arbitrary: i acc s)
  case Nil
  then show ?case by (simp add: quiet_def)
next
  case (Cons x xs)
  then have "done_row (mi_system s) i x" by (metis add.right_neutral length_greater_0_conv list.distinct(1) nth_Cons_0)
  from step [OF this] obtain a t where x: "f i x acc s = (Inr a, t)" and q: "quiet s t" by blast
  from Cons.prems q have "\<forall>j<length xs. done_row (mi_system t) (Suc i + j) (xs ! j)" by (simp add: quiet_def All_less_Suc2)
  from Cons.IH [OF this] x q show ?case by (simp add: and_then_def) (meson quiet_trans)
qed

section \<open>The first run settles its rows\<close>

lemma quiet_reports [simp]: "quiet s s" "quiet s (mi_duplicates_update f s)" "quiet s (mi_errors_update g s)"
  by (simp_all add: quiet_def)

lemma key_known: "find_first (\<lambda>r. k r = x) t = Some r \<Longrightarrow> x \<in> k ` set t"
  by (auto dest: find_first_Some)

lemma key_found: "x \<in> k ` set t \<Longrightarrow> \<exists>r. find_first (\<lambda>r. k r = x) t = Some r"
  by (auto simp: find_first_ex)

lemma record_row_system: "record_row en table key entity i s = (Inr x, s') \<Longrightarrow> mi_system s' = mi_system s"
  by (auto simp: record_row_Inr increment_Inr Let_def split: if_splits)

lemma user_settles:
  assumes "mv_apply en" and "set seen \<subseteq> u_email ` set (users (mi_core s))"
    and "migrate_user en table h n row seen s = (Inr seen', s')"
  shows "set seen' \<subseteq> u_email ` set (users (mi_core s')) \<and> settled_user (mi_system s') row"
  using assms unfolding migrate_user_def Let_def create_user_row_def
  by (auto simp: and_then_Inr settled_user_def new_id_Inr create_row_Inr tables migrated_user_def Let_def
    split: if_splits dest!: record_row_system dest: key_known)

lemma plan_settles:
  "mv_apply en \<Longrightarrow> migrate_plan en table n row u s = (Inr v, s') \<Longrightarrow> settled_plan (mi_system s') n row"
  unfolding migrate_plan_values create_plan_row_def
  by (auto simp: and_then_Inr settled_plan_def new_id_Inr create_row_Inr tables migrated_plan_def
    split: if_splits option.splits dest!: record_row_system dest: key_known)

lemma drama_settles:
  "mv_apply en \<Longrightarrow> migrate_drama en table n row u s = (Inr v, s') \<Longrightarrow> settled_drama (mi_system s') n row"
  unfolding migrate_drama_def Let_def create_drama_row_def
  by (auto simp: and_then_Inr settled_drama_def new_id_Inr create_row_Inr tables migrated_drama_def
    split: if_splits option.splits dest!: record_row_system dest: key_known)

lemma season_known:
  "find_first (\<lambda>q. se_dramaId q = i \<and> se_seasonNumber q = k) t = Some r \<Longrightarrow> (i, k) \<in> (\<lambda>q. (se_dramaId q, se_seasonNumber q)) ` set t"
  by (auto dest!: find_first_Some)

lemma season_found:
  "(i, k) \<in> (\<lambda>q. (se_dramaId q, se_seasonNumber q)) ` set t \<Longrightarrow> \<exists>r. find_first (\<lambda>q. se_dramaId q = i \<and> se_seasonNumber q = k) t = Some r"
  by (auto simp: find_first_ex)

lemma season_settles:
  assumes "mv_apply en" and m: "migrate_season en table n row u s = (Inr v, s')"
  shows "settled_season (mi_system s') row"
proof -
  have same: "dramas (mi_core s') = dramas (mi_core s)"
    using migrate_season_grown [OF assms] mq.grownD(1) by (fastforce simp: upd_seasons_def)
  show ?thesis
    using m assms(1) unfolding settled_season_def same unfolding migrate_season_values create_season_row_def
    by (auto simp: and_then_Inr new_id_Inr create_row_Inr tables migrated_season_def
      split: if_splits option.splits prod.splits dest!: record_row_system dest: season_known simp del: find_first_None)
qed

lemma step_systems:
  assumes "mv_apply en"
  shows "migrate_user en table h n row seen s = (Inr a, s') \<Longrightarrow> \<exists>rows. mi_system s' = upd_users (\<lambda>t. t @ rows) (mi_system s)"
    and "migrate_plan en table n row u s = (Inr v, s') \<Longrightarrow> \<exists>rows. mi_system s' = upd_plans (\<lambda>t. t @ rows) (mi_system s)"
    and "migrate_drama en table n row u s = (Inr v, s') \<Longrightarrow> \<exists>rows. mi_system s' = upd_dramas (\<lambda>t. t @ rows) (mi_system s)"
    and "migrate_season en table n row u s = (Inr v, s') \<Longrightarrow> \<exists>rows. mi_system s' = upd_seasons (\<lambda>t. t @ rows) (mi_system s)"
  using migrate_user_grown [OF assms] migrate_plan_grown [OF assms] migrate_drama_grown [OF assms] migrate_season_grown [OF assms]
    mu.grownD(1) mp.grownD(1) md.grownD(1) mq.grownD(1) by metis+

lemma settled_append:
  "settled_user l row \<Longrightarrow> settled_user (upd_users (\<lambda>t. t @ us) l) row"
  "settled_plan l n row \<Longrightarrow> settled_plan (upd_plans (\<lambda>t. t @ ps) l) n row"
  "settled_drama l n row \<Longrightarrow> settled_drama (upd_dramas (\<lambda>t. t @ ds) l) n row"
  "settled_season l row \<Longrightarrow> settled_season (upd_seasons (\<lambda>t. t @ qs) l) row"
  by (auto simp: settled_user_def settled_plan_def settled_drama_def settled_season_def upd_defs image_Un split: option.splits prod.splits)

lemma settled_elsewhere [simp]:
  "settled_user (upd_plans g l) row = settled_user l row" "settled_user (upd_dramas h l) row = settled_user l row"
  "settled_user (upd_seasons k l) row = settled_user l row" "settled_plan (upd_dramas h l) n row = settled_plan l n row"
  "settled_plan (upd_seasons k l) n row = settled_plan l n row" "settled_drama (upd_seasons k l) n row = settled_drama l n row"
  by (simp_all add: settled_user_def settled_plan_def settled_drama_def upd_defs)

lemma loops_settle:
  assumes ap: "mv_apply en"
  shows "row_loop (migrate_user en table h) 0 xs [] s = (Inr a, s') \<Longrightarrow> \<forall>j<length xs. settled_user (mi_system s') (xs ! j)"
    and "row_loop (migrate_plan en table) 0 xs () s = (Inr v, s') \<Longrightarrow> \<forall>j<length xs. settled_plan (mi_system s') j (xs ! j)"
    and "row_loop (migrate_drama en table) 0 xs () s = (Inr v, s') \<Longrightarrow> \<forall>j<length xs. settled_drama (mi_system s') j (xs ! j)"
    and "row_loop (migrate_season en table) 0 xs () s = (Inr v, s') \<Longrightarrow> \<forall>j<length xs. settled_season (mi_system s') (xs ! j)"
proof -
  note settles = user_settles [OF ap] plan_settles [OF ap] drama_settles [OF ap] season_settles [OF ap]
  show "row_loop (migrate_user en table h) 0 xs [] s = (Inr a, s') \<Longrightarrow> \<forall>j<length xs. settled_user (mi_system s') (xs ! j)"
    by (rule loop_settles [where I = "\<lambda>seen s. set seen \<subseteq> u_email ` set (users (mi_core s))" and i = 0 and acc = "[]"
          and f = "migrate_user en table h" and done_row = "\<lambda>s i row. settled_user (mi_system s) row"])
      (simp_all add: settles(1), metis step_systems(1) [OF ap] settled_append(1))
  show "row_loop (migrate_plan en table) 0 xs () s = (Inr v, s') \<Longrightarrow> \<forall>j<length xs. settled_plan (mi_system s') j (xs ! j)"
    by (rule loop_settles [where I = "\<lambda>_ _. True" and i = 0 and f = "migrate_plan en table"
          and done_row = "\<lambda>s i row. settled_plan (mi_system s) i row", unfolded add_0])
      (simp_all add: settles(2), metis step_systems(2) [OF ap] settled_append(2))
  show "row_loop (migrate_drama en table) 0 xs () s = (Inr v, s') \<Longrightarrow> \<forall>j<length xs. settled_drama (mi_system s') j (xs ! j)"
    by (rule loop_settles [where I = "\<lambda>_ _. True" and i = 0 and f = "migrate_drama en table"
          and done_row = "\<lambda>s i row. settled_drama (mi_system s) i row", unfolded add_0])
      (simp_all add: settles(3), metis step_systems(3) [OF ap] settled_append(3))
  show "row_loop (migrate_season en table) 0 xs () s = (Inr v, s') \<Longrightarrow> \<forall>j<length xs. settled_season (mi_system s') (xs ! j)"
    by (rule loop_settles [where I = "\<lambda>_ _. True" and i = 0 and f = "migrate_season en table"
          and done_row = "\<lambda>s i row. settled_season (mi_system s) row"])
      (simp_all add: settles(4), metis step_systems(4) [OF ap] settled_append(4))
qed

section \<open>The second run is quiet\<close>

lemma user_quiet:
  assumes "settled_user (mi_system s) row"
  shows "\<exists>a s'. migrate_user en table h n row seen s = (Inr a, s') \<and> quiet s s'"
proof (cases "CHR ''@'' \<in> set (row_email row)")
  case True
  with assms obtain u where "find_first (\<lambda>u. u_email u = row_email row) (users (mi_core s)) = Some u"
    unfolding settled_user_def using key_found [of "row_email row" u_email] by blast
  then show ?thesis by (simp add: migrate_user_def Let_def push_error_def push_duplicate_def)
qed (simp add: migrate_user_def push_error_def)

lemma plan_quiet:
  assumes "settled_plan (mi_system s) n row"
  shows "\<exists>a s'. migrate_plan en table n row u s = (Inr a, s') \<and> quiet s s'"
proof (cases "plan_values row")
  case (Some v)
  with assms obtain p where "find_first (\<lambda>p. pl_code p = row_plan_code n row) (subscriptionPlans (mi_core s)) = Some p"
    unfolding settled_plan_def using key_found [of "row_plan_code n row" pl_code] by auto
  with Some show ?thesis by (simp add: migrate_plan_values push_duplicate_def split: prod.split)
qed (simp add: migrate_plan_values push_error_def)

lemma drama_quiet:
  assumes "settled_drama (mi_system s) n row"
  shows "\<exists>a s'. migrate_drama en table n row u s = (Inr a, s') \<and> quiet s s'"
proof -
  from assms obtain d where "find_first (\<lambda>d. dr_slug d = row_slug n row) (dramas (mi_core s)) = Some d"
    unfolding settled_drama_def using key_found [of "row_slug n row" dr_slug] by blast
  then show ?thesis by (simp add: migrate_drama_def push_duplicate_def Let_def)
qed

lemma season_quiet:
  assumes t: "settled_season (mi_system s) row"
  shows "\<exists>a s'. migrate_season en table n row u s = (Inr a, s') \<and> quiet s s'"
proof (cases "season_values row")
  case (Some v)
  obtain slug k where v: "v = (slug, k)" by fastforce
  show ?thesis
  proof (cases "find_first (\<lambda>d. dr_slug d = to_lower slug) (dramas (mi_core s))")
    case None
    with Some v show ?thesis by (simp add: migrate_season_values push_error_def del: find_first_None)
  next
    case (Some d)
    with t \<open>season_values row = Some v\<close> v have k: "int32 k"
      and known: "(dr_id d, k) \<in> (\<lambda>q. (se_dramaId q, se_seasonNumber q)) ` set (seasons (mi_core s))"
      by (simp_all add: settled_season_def del: find_first_None)
    from season_found [OF known] obtain q where
      "find_first (\<lambda>q. se_dramaId q = dr_id d \<and> se_seasonNumber q = k) (seasons (mi_core s)) = Some q" by blast
    with k Some \<open>season_values row = Some v\<close> v show ?thesis
      by (simp add: migrate_season_values push_duplicate_def del: find_first_None)
  qed
qed (simp add: migrate_season_values push_error_def)

definition same_source :: "migration_env \<Rightarrow> migration_env \<Rightarrow> bool" where
  "same_source en en' \<longleftrightarrow> mv_env en' = mv_env en \<and> mv_source en' = mv_source en"

lemma queries_again:
  assumes "same_source en en'"
  shows "table_name en v s = (Inr x, s') \<Longrightarrow> table_name en' v t = (Inr x, t)"
    and "required en v s = (Inr y, s') \<Longrightarrow> required en' v t = (Inr y, t)"
    and "source_rows en v s = (Inr rows, s') \<Longrightarrow> source_rows en' v t = (Inr rows, t)"
  using assms by (auto simp: same_source_def table_name_def required_def source_rows_def max_rows_def split: option.splits if_splits)

text \<open>The phases of the tables without a carried state have one shape.\<close>

definition table_phase :: "migration_env \<Rightarrow> string \<Rightarrow> (string \<Rightarrow> nat \<Rightarrow> source_row \<Rightarrow> unit \<Rightarrow> unit script) \<Rightarrow> unit script" where
  "table_phase en v f = and_then (table_name en v) (\<lambda>t. case t of None \<Rightarrow> ret () | Some table \<Rightarrow>
     and_then (source_rows en table) (\<lambda>rows. row_loop (f table) 0 rows ()))"

lemma phases: "migrate_plans en = table_phase en ''LEGACY_PLANS_TABLE'' (migrate_plan en)"
  "migrate_dramas en = table_phase en ''LEGACY_DRAMAS_TABLE'' (migrate_drama en)"
  "migrate_seasons en = table_phase en ''LEGACY_SEASONS_TABLE'' (migrate_season en)"
  by (simp_all add: table_phase_def migrate_plans_def migrate_dramas_def migrate_seasons_def)

lemma table_phase_quiet:
  assumes src: "same_source en en'" and m: "table_phase en v f s = (Inr (), s')"
    and settles: "\<And>table xs s. row_loop (f table) 0 xs () s = (Inr (), s') \<Longrightarrow> \<forall>j<length xs. done_row (mi_system t) j (xs ! j)"
    and step: "\<And>table i row acc s. done_row (mi_system s) i row \<Longrightarrow> \<exists>a s'. f' table i row acc s = (Inr a, s') \<and> quiet s s'"
  shows "\<exists>t'. table_phase en' v f' t = (Inr (), t') \<and> quiet t t'"
proof -
  note again = queries_again [OF src]
  from m obtain x s1 where x: "table_name en v s = (Inr x, s1)" by (auto simp: table_phase_def and_then_Inr)
  show ?thesis
  proof (cases x)
    case None
    then show ?thesis by (simp add: table_phase_def and_then_def again(1) [OF x])
  next
    case (Some table)
    with m x obtain rows s3 where r: "source_rows en table s1 = (Inr rows, s3)" and l: "row_loop (f table) 0 rows () s3 = (Inr (), s')"
      by (auto simp: table_phase_def and_then_Inr)
    from settles [OF l] have "\<forall>j<length rows. done_row (mi_system t) (0 + j) (rows ! j)" by simp
    with loop_quiet [where done_row = done_row and f = "f' table", OF step]
    obtain b t' where "row_loop (f' table) 0 rows () t = (Inr b, t')" "quiet t t'" by meson
    then show ?thesis by (simp add: table_phase_def and_then_def again(1) [OF x] again(3) [OF r] Some)
  qed
qed

lemma users_quiet:
  assumes ap: "mv_apply en" and src: "same_source en en'" and m: "migrate_users en s = (Inr (), s')"
    and k: "\<And>row. settled_user (mi_system s') row \<Longrightarrow> settled_user (mi_system t) row"
  shows "\<exists>t'. migrate_users en' t = (Inr (), t') \<and> quiet t t'"
proof -
  note again = queries_again [OF src]
  from m obtain x s1 where x: "table_name en ''LEGACY_USERS_TABLE'' s = (Inr x, s1)" by (auto simp: migrate_users_def and_then_Inr)
  show ?thesis
  proof (cases x)
    case None
    then show ?thesis by (simp add: migrate_users_def and_then_def again(1) [OF x])
  next
    case (Some table)
    with m x obtain h rows s2 s3 a where h: "required en ''ARGON2_DUMMY_HASH'' s1 = (Inr h, s2)" and r: "source_rows en table s2 = (Inr rows, s3)"
      and l: "row_loop (migrate_user en table h) 0 rows [] s3 = (Inr a, s')"
      by (auto simp: migrate_users_def and_then_Inr)
    from loops_settle(1) [OF ap l] k have "\<forall>j<length rows. settled_user (mi_system t) (rows ! (j))" by blast
    with loop_quiet [where done_row = "\<lambda>l i row. settled_user l row" and f = "migrate_user en' table h", OF user_quiet]
    obtain b t' where "row_loop (migrate_user en' table h) 0 rows [] t = (Inr b, t')" "quiet t t'" by meson
    then show ?thesis
      by (simp add: migrate_users_def and_then_def again(1) [OF x] again(2) [OF h] again(3) [OF r] Some)
  qed
qed

lemma tables_quiet:
  assumes ap: "mv_apply en" and src: "same_source en en'"
  shows "migrate_plans en s = (Inr (), s') \<Longrightarrow> (\<And>n row. settled_plan (mi_system s') n row \<Longrightarrow> settled_plan (mi_system t) n row)
      \<Longrightarrow> \<exists>t'. migrate_plans en' t = (Inr (), t') \<and> quiet t t'"
    and "migrate_dramas en s = (Inr (), s') \<Longrightarrow> (\<And>n row. settled_drama (mi_system s') n row \<Longrightarrow> settled_drama (mi_system t) n row)
      \<Longrightarrow> \<exists>t'. migrate_dramas en' t = (Inr (), t') \<and> quiet t t'"
  unfolding phases
  by (erule table_phase_quiet [OF src, where done_row = settled_plan and f' = "migrate_plan en'"]; blast dest: loops_settle(2) [OF ap] intro: plan_quiet)
    (erule table_phase_quiet [OF src, where done_row = settled_drama and f' = "migrate_drama en'"]; blast dest: loops_settle(3) [OF ap] intro: drama_quiet)

lemma seasons_quiet:
  assumes ap: "mv_apply en" and src: "same_source en en'"
  shows "migrate_seasons en s = (Inr (), s') \<Longrightarrow> (\<And>row. settled_season (mi_system s') row \<Longrightarrow> settled_season (mi_system t) row)
      \<Longrightarrow> \<exists>t'. migrate_seasons en' t = (Inr (), t') \<and> quiet t t'"
  unfolding phases
  by (erule table_phase_quiet [OF src, where done_row = "\<lambda>l i row. settled_season l row" and f' = "migrate_season en'"];
      blast dest: loops_settle(4) [OF ap] intro: season_quiet)

text \<open>
  C22. Running the migration again is harmless: after a completed run of \<open>migrate.ts --apply\<close>, a run over the same source
  and environment, whatever its run id, its clock and its mode, ends without a crash, creates no row and no record, and
  counts nothing as imported.
\<close>

theorem rerun_imports_nothing:
  assumes "mv_apply en" and "run_migration en s = (c, s')" and "c \<noteq> 1"
    and "mv_env en' = mv_env en" and "mv_source en' = mv_source en"
  shows "\<exists>c' s''. run_migration en' s' = (c', s'') \<and> c' \<noteq> 1 \<and> mi_system s'' = mi_system s' \<and> mi_records s'' = mi_records s'
    \<and> mi_counts s'' = Map.empty"
proof -
  have src: "same_source en en'" using assms by (simp add: same_source_def)
  from run_completed [OF assms(2,3)] obtain s0 s1 s2 s3 url where url: "required en ''LEGACY_DATABASE_URL'' (new_report s) = (Inr url, s0)"
    and m: "migrate_users en s0 = (Inr (), s1)" "migrate_plans en s1 = (Inr (), s2)" "migrate_dramas en s2 = (Inr (), s3)"
      "migrate_seasons en s3 = (Inr (), s')"
    by (auto simp: run_tables_def and_then_Inr)
  obtain ps pr ds dr qs qr where g: "mp.grown en s1 s2 ps pr" "md.grown en s2 s3 ds dr" "mq.grown en s3 s' qs qr"
    using phases_grown(2,3,4) [OF assms(1)] m(2-4) by meson
  note sys = mp.grownD(1) [OF g(1)] md.grownD(1) [OF g(2)] mq.grownD(1) [OF g(3)]
  let ?t = "new_report s'"
  obtain t1 where t1: "migrate_users en' ?t = (Inr (), t1)" "quiet ?t t1"
    using users_quiet [OF assms(1) src m(1), of ?t] by (auto simp: sys)
  then have s1: "mi_system t1 = mi_system s'" by (simp add: quiet_def)
  obtain t2 where t2: "migrate_plans en' t1 = (Inr (), t2)" "quiet t1 t2"
    using tables_quiet(1) [OF assms(1) src m(2), of t1] by (auto simp: s1 sys)
  then have s2: "mi_system t2 = mi_system s'" by (simp add: quiet_def s1)
  obtain t3 where t3: "migrate_dramas en' t2 = (Inr (), t3)" "quiet t2 t3"
    using tables_quiet(2) [OF assms(1) src m(3), of t2] by (auto simp: s2 sys)
  then have s3: "mi_system t3 = mi_system s'" by (simp add: quiet_def s2)
  obtain t4 where t4: "migrate_seasons en' t3 = (Inr (), t4)" "quiet t3 t4"
    using seasons_quiet [OF assms(1) src m(4), of t3] by (auto simp: s3)
  have "run_tables en' ?t = (Inr (), t4)"
    by (simp add: run_tables_def and_then_def queries_again(2) [OF src url] t1 t2 t3 t4)
  moreover have "quiet ?t t4" using t1 t2 t3 t4 by (meson quiet_trans)
  ultimately show ?thesis by (simp add: run_migration_def quiet_def)
qed

theorem rerun_imports_nothing_witness:
  "\<exists>c' s''. run_migration (demo_migration_env False) (snd (run_migration (demo_migration_env True) demo_migration)) = (c', s'')
    \<and> mi_counts s'' = Map.empty"
proof -
  have env: "mv_apply (demo_migration_env True)" "mv_env (demo_migration_env False) = mv_env (demo_migration_env True)"
    "mv_source (demo_migration_env False) = mv_source (demo_migration_env True)" by (simp_all add: demo_migration_env_def)
  show ?thesis
    using rerun_imports_nothing [OF env(1) prod.collapse [symmetric] _ env(2,3), of demo_migration] by (auto simp: demo_completes)
qed

end
