(* ===== verification/Cleanup.thy ===== *)
theory Cleanup
  imports Migration
begin

text \<open>
  \<open>scripts/maintenance-cleanup.ts\<close>: playback sessions past their end become \<open>EXPIRED\<close>, old heartbeats and refresh
  sessions that are both expired and revoked are deleted. The arguments are \<open>NODE_ENV\<close>, whether \<open>--apply\<close> is given,
  \<open>PLAYBACK_HEARTBEAT_RETENTION_DAYS\<close>, and the clock.
\<close>

definition retention_days :: "string option \<Rightarrow> int option" where
  "retention_days v = (case v of None \<Rightarrow> Some 30 | Some s \<Rightarrow> js_integer s)"

definition session_expired :: "instant \<Rightarrow> playback_session \<Rightarrow> bool" where
  "session_expired now p \<longleftrightarrow> ps_status p = Play_ACTIVE \<and> ps_expiresAt p < now"

definition expire_session :: "instant \<Rightarrow> playback_session \<Rightarrow> playback_session" where
  "expire_session now p = p\<lparr>ps_status := Play_EXPIRED, ps_closedAt := Some now\<rparr>"

definition session_discardable :: "instant \<Rightarrow> refresh_session \<Rightarrow> bool" where
  "session_discardable now r \<longleftrightarrow> rs_expiresAt r < now \<and> rs_revokedAt r \<noteq> None"

text \<open>A deleted session that another one names as its replacement is cleared there (\<open>onDelete: SetNull\<close>).\<close>

definition delete_sessions :: "(refresh_session \<Rightarrow> bool) \<Rightarrow> refresh_session list \<Rightarrow> refresh_session list" where
  "delete_sessions P t = update_many (\<lambda>r. case rs_replacedById r of None \<Rightarrow> False | Some i \<Rightarrow> i \<in> set (map rs_id (filter P t)))
     (\<lambda>r. r\<lparr>rs_replacedById := None\<rparr>) (delete_many P t)"

definition maintenance_cleanup :: "bool \<Rightarrow> bool \<Rightarrow> string option \<Rightarrow> instant \<Rightarrow> (nat \<times> nat \<times> nat) handler" where
  "maintenance_cleanup production apply_flag retention now =
     and_then (require (\<not> production \<or> apply_flag) (Internal ''Production cleanup requires the --apply flag'')) (\<lambda>_.
     and_then (expect (retention_days retention) (Internal ''Invalid retention period'')) (\<lambda>days.
     and_then (require (7 \<le> days \<and> days \<le> 365) (Internal ''Invalid retention period'')) (\<lambda>_.
     and_then (gets (\<lambda>s. count_where (session_expired now) (playbackSessions s))) (\<lambda>expired.
     and_then (modify (\<lambda>s. s\<lparr>playbackSessions := update_many (session_expired now) (expire_session now) (playbackSessions s)\<rparr>)) (\<lambda>_.
     and_then (gets (\<lambda>s. count_where (\<lambda>h. hb_createdAt h < now - days * ms_per_day) (playbackHeartbeats s))) (\<lambda>heartbeats.
     and_then (modify (\<lambda>s. s\<lparr>playbackHeartbeats := delete_many (\<lambda>h. hb_createdAt h < now - days * ms_per_day) (playbackHeartbeats s)\<rparr>)) (\<lambda>_.
     and_then (gets (\<lambda>s. count_where (session_discardable now) (refreshSessions s))) (\<lambda>sessions.
     and_then (modify (\<lambda>s. s\<lparr>refreshSessions := delete_sessions (session_discardable now) (refreshSessions s)\<rparr>)) (\<lambda>_.
     ret (expired, heartbeats, sessions))))))))))"

section \<open>Expiring playback sessions\<close>

interpretation expiring: guarded_update ps_id "session_expired now" "expire_session now" for now
  by unfold_locales (simp_all add: session_expired_def expire_session_def)

lemma cleanup_state:
  assumes "maintenance_cleanup production ap keep now s = (Inr r, s')"
  shows "(production \<longrightarrow> ap) \<and> (\<exists>days. retention_days keep = Some days \<and> 7 \<le> days \<and> days \<le> 365
    \<and> s' = s\<lparr>playbackSessions := update_many (session_expired now) (expire_session now) (playbackSessions s),
        playbackHeartbeats := delete_many (\<lambda>h. hb_createdAt h < now - days * ms_per_day) (playbackHeartbeats s),
        refreshSessions := delete_sessions (session_discardable now) (refreshSessions s)\<rparr>)"
  using assms by (auto simp: maintenance_cleanup_def split: option.splits if_splits)

section \<open>Signed-in accounts\<close>

lemma find_first_cleaned:
  assumes "\<And>r. Q r \<Longrightarrow> \<not> D r" and "\<And>r. Q (f r) = Q r"
  shows "find_first Q (update_many P f (delete_many D t)) = map_option (\<lambda>r. if P r then f r else r) (find_first Q t)"
  by (induction t) (auto simp: delete_many_def assms)

lemma access_session_cleaned:
  "access_session (s\<lparr>playbackSessions := ps, playbackHeartbeats := hs, refreshSessions := delete_sessions (session_discardable now) (refreshSessions s)\<rparr>) t sub sid
    = map_option (\<lambda>r. if (case rs_replacedById r of None \<Rightarrow> False | Some i \<Rightarrow> i \<in> set (map rs_id (filter (session_discardable now) (refreshSessions s))))
        then r\<lparr>rs_replacedById := None\<rparr> else r) (access_session s t sub sid)"
  unfolding access_session_def delete_sessions_def
  by (subst find_first_cleaned [symmetric]) (simp_all add: session_discardable_def user_not_deleted_def)

lemma jwt_validate_cleaned:
  "fst (jwt_validate t sub sid (s\<lparr>playbackSessions := ps, playbackHeartbeats := hs, refreshSessions := delete_sessions (session_discardable now) (refreshSessions s)\<rparr>))
    = fst (jwt_validate t sub sid s)"
  unfolding jwt_validate_def and_then_gets access_session_cleaned
  by (cases "access_session s t sub sid")
    (simp_all add: find_user_def principal_of_def roles_of_user_def codes_of_role_def direct_codes_def Let_def
      split: option.split del: find_first_None)

lemma delete_sessions_again: "delete_sessions P (delete_sessions P t) = delete_sessions P t" if "\<And>r. P (r\<lparr>rs_replacedById := None\<rparr>) = P r"
proof -
  have "\<not> P r" if "r \<in> set (delete_sessions P t)" for r
    using that \<open>\<And>r. P (r\<lparr>rs_replacedById := None\<rparr>) = P r\<close> by (auto simp: delete_sessions_def split: if_splits)
  then have "filter P (delete_sessions P t) = []" "delete_many P (delete_sessions P t) = delete_sessions P t"
    by (simp_all add: delete_many_def filter_empty_conv filter_id_conv)
  then show ?thesis by (subst delete_sessions_def) (auto intro!: update_many_none split: option.splits)
qed

lemma discard_again: "delete_sessions (session_discardable now) (delete_sessions (session_discardable now) t) = delete_sessions (session_discardable now) t"
  by (rule delete_sessions_again) (simp add: session_discardable_def)

text \<open>
  The maintenance job does what it says and no more: afterwards no active playback session is past its end, those
  that were not stay as they were, heartbeats of the last seven days are kept whatever the retention period, every
  access token is accepted or refused as before, and a second pass at the same time finds nothing to do.
\<close>

lemma cleanup_correct:
  assumes "maintenance_cleanup production ap keep now s = (Inr r, s')"
  shows "(\<forall>p\<in>set (playbackSessions s'). ps_status p = Play_ACTIVE \<longrightarrow> now \<le> ps_expiresAt p)
    \<and> (\<forall>p\<in>set (playbackSessions s). ps_status p = Play_ACTIVE \<and> now \<le> ps_expiresAt p \<longrightarrow> p \<in> set (playbackSessions s'))
    \<and> (\<forall>h\<in>set (playbackHeartbeats s). now - 7 * ms_per_day \<le> hb_createdAt h \<longrightarrow> h \<in> set (playbackHeartbeats s'))
    \<and> (\<forall>t sub sid. fst (jwt_validate t sub sid s') = fst (jwt_validate t sub sid s))
    \<and> maintenance_cleanup production ap keep now s' = (Inr (0, 0, 0), s')"
proof -
  obtain days where d: "retention_days keep = Some days" "7 \<le> days" "days \<le> 365"
    and s': "s' = s\<lparr>playbackSessions := update_many (session_expired now) (expire_session now) (playbackSessions s),
        playbackHeartbeats := delete_many (\<lambda>h. hb_createdAt h < now - days * ms_per_day) (playbackHeartbeats s),
        refreshSessions := delete_sessions (session_discardable now) (refreshSessions s)\<rparr>"
    using cleanup_state [OF assms] by blast
  have flag: "\<not> production \<or> ap" using cleanup_state [OF assms] by blast
  have dead: "session_discardable now (r\<lparr>rs_replacedById := None\<rparr>) = session_discardable now r" for r by (simp add: session_discardable_def)
  have none: "\<not> session_discardable now r" if "r \<in> set (delete_sessions (session_discardable now) t)" for r t
    using that by (auto simp: delete_sessions_def dead split: if_splits)
  have "\<forall>p\<in>set (playbackSessions s'). ps_status p = Play_ACTIVE \<longrightarrow> now \<le> ps_expiresAt p"
  proof
    fix p assume "p \<in> set (playbackSessions s')"
    then have "\<not> session_expired now p" unfolding s' by (auto simp del: in_update_many dest: expiring.none_left)
    then show "ps_status p = Play_ACTIVE \<longrightarrow> now \<le> ps_expiresAt p" by (auto simp: session_expired_def)
  qed
  moreover have "p \<in> set (playbackSessions s')" if "p \<in> set (playbackSessions s)" "now \<le> ps_expiresAt p" for p
    using expiring.others_kept [of p _ now] that by (simp add: s' session_expired_def del: in_update_many)
  moreover have "maintenance_cleanup production ap keep now s' = (Inr (0, 0, 0), s')"
    using flag d none by (simp add: maintenance_cleanup_def s' expiring.idempotent expiring.second_count discard_again)
      (simp add: count_where_def filter_empty_conv delete_many_def)
  moreover have "fst (jwt_validate t sub sid s') = fst (jwt_validate t sub sid s)" for t sub sid
    by (simp add: s' jwt_validate_cleaned)
  moreover have "h \<in> set (playbackHeartbeats s')" if "h \<in> set (playbackHeartbeats s)" "now - 7 * ms_per_day \<le> hb_createdAt h" for h
    using that d(2) by (simp add: s')
  ultimately show ?thesis by blast
qed

definition cleanup_demo :: state where
  "cleanup_demo = demo_state\<lparr>refreshSessions := [demo_session, demo_session\<lparr>rs_id := ''s0'', rs_expiresAt := 1, rs_revokedAt := Some 0, rs_replacedById := Some ''s1''\<rparr>]\<rparr>"

lemma cleanup_correct_example:
  "\<exists>s'. maintenance_cleanup True True None 5000 cleanup_demo = (Inr (0, 0, 1), s') \<and> maintenance_cleanup True True None 5000 s' = (Inr (0, 0, 0), s')"
proof -
  have "fst (maintenance_cleanup True True None 5000 cleanup_demo) = Inr (0, 0, 1)" by code_simp
  then obtain s' where "maintenance_cleanup True True None 5000 cleanup_demo = (Inr (0, 0, 1), s')" by (metis prod.collapse)
  with cleanup_correct [OF this] show ?thesis by blast
qed

end
