(* ===== verification/ImportSql.thy ===== *)
theory ImportSql
  imports Migration MediaGateway
begin

text \<open>
  The import of a parsed dump, \<open>scripts/legacy-migration/import-sql.ts\<close>: the helpers of the source, the report, the
  records that let \<open>rollback.ts\<close> and the next run find a row, and \<open>create\<close> for each table.

  The URL parser, the cipher and the media variables are those of \<open>media_env\<close>; \<open>iv_date\<close> is \<open>new Date(text)\<close> with
  \<open>None\<close> for an invalid one, \<open>iv_bytes\<close> the random initialisation vectors. A slug is drawn again while it is taken; a
  loop of more than \<open>iv_attempts\<close> draws counts as one that does not end and is an error here. A number is printed in
  positional notation, and \<open>normalize('NFKD')\<close> is the identity, as it is on ASCII.
\<close>

section \<open>State\<close>

record import_state =
  is_run :: migration
  is_skipped :: "string list"
  is_maps :: "string \<Rightarrow> string \<Rightarrow> string option"
  is_slugs :: "string list"

record import_env =
  iv_run :: migration_env
  iv_media :: media_env
  iv_date :: "string \<Rightarrow> instant option"
  iv_bytes :: "nat \<Rightarrow> bytes"
  iv_attempts :: nat

type_synonym 'a importer = "(import_state, 'a) prog"

abbreviation is_system :: "import_state \<Rightarrow> legacy_state" where "is_system s \<equiv> mi_system (is_run s)"
abbreviation is_core :: "import_state \<Rightarrow> state" where "is_core s \<equiv> core (is_system s)"

definition on_run :: "'a script \<Rightarrow> 'a importer" where
  "on_run m s = (case m (is_run s) of (r, t) \<Rightarrow> (r, s\<lparr>is_run := t\<rparr>))"

section \<open>Cells\<close>

text \<open>\<open>String(n)\<close> of a number with a fraction: no superfluous zeros.\<close>

definition fraction_text :: "string \<Rightarrow> string" where
  "fraction_text n =
     (let whole = dropWhile (\<lambda>c. c = CHR ''0'') (takeWhile (\<lambda>c. c \<noteq> CHR ''.'') (unsigned_part n));
          fraction = rev (dropWhile (\<lambda>c. c = CHR ''0'') (rev (tl (dropWhile (\<lambda>c. c \<noteq> CHR ''.'') n)))) in
      (if hd n = CHR ''-'' then ''-'' else []) @ (if whole = [] then ''0'' else whole) @ ''.'' @ fraction)"

fun sql_cell :: "sql_value \<Rightarrow> cell" where
  "sql_cell V_null = Cell_null"
| "sql_cell (V_text s) = Cell_text s"
| "sql_cell (V_number n) = (case js_integer n of Some i \<Rightarrow> Cell_int i | None \<Rightarrow> Cell_other (fraction_text n) None)"

definition dump_row :: "sql_row \<Rightarrow> source_row" where
  "dump_row r n = map_option sql_cell (r n)"

definition dump_rows :: "sql_tables \<Rightarrow> string \<Rightarrow> source_row list" where
  "dump_rows tables t = (case map_of tables t of None \<Rightarrow> [] | Some rows \<Rightarrow> map dump_row rows)"

definition source_id :: "source_row \<Rightarrow> nat \<Rightarrow> string" where
  "source_id row index = (case row_text row [''id'', ''uuid''] of None \<Rightarrow> decimal index | Some t \<Rightarrow> t)"

definition row_int :: "source_row \<Rightarrow> string \<Rightarrow> int option" where
  "row_int row name = (case first_cell row [name] of None \<Rightarrow> None | Some c \<Rightarrow> cell_integer c)"

text \<open>\<open>String(val(row, name))\<close>, the key of a parent.\<close>

definition ref_key :: "source_row \<Rightarrow> string \<Rightarrow> string" where
  "ref_key row name = (case first_cell row [name] of None \<Rightarrow> ''undefined'' | Some c \<Rightarrow> cell_text c)"

text \<open>\<open>text(row, name)?.slice(0, n) || undefined\<close>.\<close>

definition short_text :: "source_row \<Rightarrow> string \<Rightarrow> nat \<Rightarrow> string option" where
  "short_text row name n = truthy (map_option (take n) (row_text row [name]))"

fun first_space :: "string \<Rightarrow> string" where
  "first_space [] = []"
| "first_space (c # s) = (if c = CHR '' '' then CHR ''T'' # s else c # first_space s)"

definition date_of :: "import_env \<Rightarrow> cell option \<Rightarrow> instant \<Rightarrow> instant" where
  "date_of en v fallback =
     (case v of None \<Rightarrow> fallback
      | Some c \<Rightarrow> if c = Cell_null \<or> c = Cell_text [] \<or> c = Cell_int 0 then fallback
          else (case iv_date en (first_space (cell_text c) @ (if length (cell_text c) = 10 then ''T00:00:00Z'' else ''Z'')) of
            None \<Rightarrow> fallback | Some t \<Rightarrow> t))"

definition row_date :: "import_env \<Rightarrow> source_row \<Rightarrow> string \<Rightarrow> instant" where
  "row_date en row name = date_of en (first_cell row [name]) (mv_now (iv_run en))"

definition date_window :: "import_env \<Rightarrow> cell option \<Rightarrow> cell option \<Rightarrow> cell option \<Rightarrow> instant \<times> instant" where
  "date_window en startValue endValue createdValue =
     (let startsAt = date_of en startValue (date_of en createdValue (mv_now (iv_run en)));
          endsAt = date_of en endValue (startsAt + 30 * ms_per_day) in
      (startsAt, if endsAt \<le> startsAt then startsAt + 30 * ms_per_day else endsAt))"

text \<open>\<open>/^[^\s@]+@[^\s@]+\.[^\s@]+$/\<close>: one \<open>@\<close>, no space, and a dot inside what follows it.\<close>

definition valid_email :: "string \<Rightarrow> bool" where
  "valid_email e \<longleftrightarrow> (\<forall>c\<in>set e. \<not> is_space c) \<and>
     (case split_on (CHR ''@'') e of [l, d] \<Rightarrow> l \<noteq> [] \<and> d \<noteq> [] \<and> CHR ''.'' \<in> set (butlast (tl d)) | _ \<Rightarrow> False)"

definition slug_char :: "char \<Rightarrow> bool" where
  "slug_char c \<longleftrightarrow> (let n = (of_char c :: nat) in 97 \<le> n \<and> n \<le> 122 \<or> 48 \<le> n \<and> n \<le> 57)"

text \<open>\<open>replace(/[^a-z0-9]+/g, '-')\<close>; the flag says that a run of other characters was just replaced.\<close>

fun dashes :: "bool \<Rightarrow> string \<Rightarrow> string" where
  "dashes b [] = []"
| "dashes b (c # s) = (if slug_char c then c # dashes False s else if b then dashes True s else CHR ''-'' # dashes True s)"

definition strip_dashes :: "string \<Rightarrow> string" where
  "strip_dashes s = rev (dropWhile (\<lambda>c. c = CHR ''-'') (rev (dropWhile (\<lambda>c. c = CHR ''-'') s)))"

definition slugify :: "string \<Rightarrow> string \<Rightarrow> string" where
  "slugify value suffix =
     (let base = take 190 (strip_dashes (dashes False (to_lower value))) in
      take 220 ((if base = [] then ''legacy-drama'' else base) @ ''-'' @ suffix))"

text \<open>\<open>/\.m3u8(?:\?|$)/i\<close>: the extension at the end or before a question mark.\<close>

fun has_extension :: "string \<Rightarrow> string \<Rightarrow> bool" where
  "has_extension ext [] = False"
| "has_extension ext (c # s) =
     (starts_with (to_lower (c # s)) ext \<and> (let r = drop (length ext) (c # s) in r = [] \<or> hd r = CHR ''?'') \<or> has_extension ext s)"

definition media_type_of :: "string \<Rightarrow> media_type" where
  "media_type_of locator = (if has_extension ''.m3u8'' locator then HLS else if has_extension ''.mpd'' locator then DASH
     else if has_extension ''.mp4'' locator then MP4 else Media_OTHER)"

definition allowed_media :: "media_env \<Rightarrow> string \<Rightarrow> bool" where
  "allowed_media mn value = (case me_parse mn value None of None \<Rightarrow> False | Some u \<Rightarrow> allowed_url mn u)"

definition import_locator :: "media_env \<Rightarrow> bytes \<Rightarrow> string \<Rightarrow> ('s, string) prog" where
  "import_locator mn iv value =
     (let key = base64_bytes (case me_locatorKey mn of None \<Rightarrow> [] | Some k \<Rightarrow> k) in
      and_then (require (length key = 32) (Internal ''MEDIA_LOCATOR_ENCRYPTION_KEY_B64 must be configured before importing media'')) (\<lambda>_.
      case ae_seal (me_aead mn) key iv (text_bytes value) of (tag, ciphertext) \<Rightarrow>
      ret (''v1.'' @ base64url iv @ ''.'' @ base64url tag @ ''.'' @ base64url ciphertext)))"

section \<open>Report and records\<close>

text \<open>\<open>add(list, value)\<close> keeps the first 250 lines.\<close>

definition add_line :: "string \<Rightarrow> string list \<Rightarrow> string list" where
  "add_line e t = (if length t < 250 then t @ [e] else t)"

definition add_duplicate :: "string \<Rightarrow> unit importer" where
  "add_duplicate e = on_run (modify (mi_duplicates_update (add_line e)))"

definition add_skipped :: "string \<Rightarrow> unit importer" where
  "add_skipped e = modify (is_skipped_update (add_line e))"

definition count_entity_row :: "string \<Rightarrow> unit importer" where
  "count_entity_row entity = on_run (increment entity)"

definition draw_id :: "import_env \<Rightarrow> string importer" where
  "draw_id en = on_run (new_id (iv_run en))"

definition set_map :: "string \<Rightarrow> string \<Rightarrow> string \<Rightarrow> unit importer" where
  "set_map kind key i = modify (is_maps_update (\<lambda>m. m(kind := (m kind)(key \<mapsto> i))))"

definition mapped :: "import_state \<Rightarrow> string \<Rightarrow> string \<Rightarrow> string option" where
  "mapped s kind key = truthy (is_maps s kind key)"

definition write_record :: "import_env \<Rightarrow> string \<Rightarrow> string \<Rightarrow> string \<Rightarrow> string \<Rightarrow> unit importer" where
  "write_record en table key entity targetId =
     and_then (draw_id en) (\<lambda>i. on_run (create_record \<lparr>lm_id = i, lm_runId = mv_runId (iv_run en), lm_sourceTable = table,
       lm_sourceKey = take 160 key, lm_targetEntity = entity, lm_targetId = targetId\<rparr>))"

text \<open>The records of earlier runs; of several for one key the last one counts.\<close>

definition record_key :: "string \<Rightarrow> string \<Rightarrow> string \<Rightarrow> string" where
  "record_key table key entity = table @ '':'' @ key @ '':'' @ entity"

definition prior_of :: "migration_record list \<Rightarrow> string \<Rightarrow> string option" where
  "prior_of records = map_of (rev (map (\<lambda>r. (record_key (lm_sourceTable r) (lm_sourceKey r) (lm_targetEntity r), lm_targetId r)) records))"

text \<open>\<open>resolveRecord\<close>: the id of the row, and whether this run created it.\<close>

definition resolve_record :: "import_env \<Rightarrow> (string \<Rightarrow> string option) \<Rightarrow> string \<Rightarrow> string \<Rightarrow> string
    \<Rightarrow> string option importer \<Rightarrow> (string \<Rightarrow> unit importer) \<Rightarrow> (string \<times> bool) importer" where
  "resolve_record en prior entity table key lookup create =
     (case truthy (prior (record_key table key entity)) of Some i \<Rightarrow> ret (i, False)
      | None \<Rightarrow>
        and_then lookup (\<lambda>existing. case existing of
          Some i \<Rightarrow> and_then (add_duplicate (record_key table key entity)) (\<lambda>_. ret (i, False))
        | None \<Rightarrow>
            and_then (draw_id en) (\<lambda>i.
            and_then (if mv_apply (iv_run en)
              then and_then (create i) (\<lambda>_. write_record en table key entity i) else ret ()) (\<lambda>_.
            and_then (count_entity_row entity) (\<lambda>_. ret (i, True))))))"

text \<open>
  \<open>create\<close> in a table of the shared database (\<open>core_rows\<close>) or of the legacy service; \<open>parents\<close> says that the rows
  it names exist.
\<close>

definition core_rows :: "(('r list \<Rightarrow> 'r list) \<Rightarrow> state \<Rightarrow> state) \<Rightarrow> ('r list \<Rightarrow> 'r list) \<Rightarrow> legacy_state \<Rightarrow> legacy_state" where
  "core_rows upd f l = set_core l (upd f (core l))"

definition create_in :: "(legacy_state \<Rightarrow> 'r list) \<Rightarrow> (('r list \<Rightarrow> 'r list) \<Rightarrow> legacy_state \<Rightarrow> legacy_state)
    \<Rightarrow> ('r \<Rightarrow> string) \<Rightarrow> ('r \<Rightarrow> 'k) \<Rightarrow> ('r \<Rightarrow> bool) \<Rightarrow> (legacy_state \<Rightarrow> bool) \<Rightarrow> 'r \<Rightarrow> unit importer" where
  "create_in sel upd i k fits parents r =
     and_then (gets (\<lambda>s. parents (is_system s))) (\<lambda>ok.
     and_then (require ok (Internal ''P2003'')) (\<lambda>_.
     on_run (create_row (\<lambda>s. sel (mi_system s)) (\<lambda>f. mi_system_update (upd f)) i k fits r)))"

definition user_exists :: "string \<Rightarrow> legacy_state \<Rightarrow> bool" where
  "user_exists i l \<longleftrightarrow> i \<in> u_id ` set (users (core l))"

definition drama_exists :: "string \<Rightarrow> legacy_state \<Rightarrow> bool" where
  "drama_exists i l \<longleftrightarrow> i \<in> dr_id ` set (dramas (core l))"

definition season_exists :: "string \<Rightarrow> legacy_state \<Rightarrow> bool" where
  "season_exists i l \<longleftrightarrow> i \<in> se_id ` set (seasons (core l))"

definition episode_exists :: "string \<Rightarrow> legacy_state \<Rightarrow> bool" where
  "episode_exists i l \<longleftrightarrow> i \<in> ep_id ` set (episodes (core l))"

definition group_exists :: "string \<Rightarrow> legacy_state \<Rightarrow> bool" where
  "group_exists i l \<longleftrightarrow> i \<in> ag_id ` set (accessGroups (core l))"

definition import_user :: "user \<Rightarrow> unit importer" where
  "import_user = create_in (\<lambda>l. users (core l)) (core_rows users_update) u_id u_email user_fits (\<lambda>_. True)"

definition import_drama :: "drama \<Rightarrow> unit importer" where
  "import_drama = create_in (\<lambda>l. dramas (core l)) (core_rows dramas_update) dr_id dr_slug
     (\<lambda>d. drama_fits d \<and> int32 (dr_totalSeasons d) \<and> (case dr_dramaNumber d of None \<Rightarrow> True | Some n \<Rightarrow> int32 n)) (\<lambda>_. True)"

definition import_season :: "season \<Rightarrow> unit importer" where
  "import_season q = create_in (\<lambda>l. seasons (core l)) (core_rows seasons_update) se_id (\<lambda>q. (se_dramaId q, se_seasonNumber q))
     (\<lambda>q. season_fits q \<and> int32 (se_totalEpisodes q)) (drama_exists (se_dramaId q)) q"

definition import_episode :: "episode \<Rightarrow> unit importer" where
  "import_episode e = create_in (\<lambda>l. episodes (core l)) (core_rows episodes_update) ep_id (\<lambda>e. (ep_seasonId e, ep_episodeNumber e))
     (\<lambda>e. int32 (ep_episodeNumber e)) (season_exists (ep_seasonId e)) e"

definition import_media :: "media_asset \<Rightarrow> unit importer" where
  "import_media a = create_in (\<lambda>l. mediaAssets (core l)) (core_rows mediaAssets_update) ma_id ma_episodeId (\<lambda>_. True)
     (episode_exists (ma_episodeId a)) a"

definition import_group :: "access_group \<Rightarrow> unit importer" where
  "import_group = create_in (\<lambda>l. accessGroups (core l)) (core_rows accessGroups_update) ag_id ag_name (\<lambda>_. True) (\<lambda>_. True)"

definition import_member :: "group_member \<Rightarrow> unit importer" where
  "import_member m = create_in (\<lambda>l. groupMembers (core l)) (core_rows groupMembers_update) gm_id (\<lambda>m. (gm_groupId m, gm_userId m)) (\<lambda>_. True)
     (\<lambda>l. group_exists (gm_groupId m) l \<and> user_exists (gm_userId m) l) m"

definition import_grant :: "episode_grant \<Rightarrow> unit importer" where
  "import_grant g = create_in (\<lambda>l. episodeGrants (core l)) (core_rows episodeGrants_update) eg_id eg_id (\<lambda>_. True)
     (\<lambda>l. episode_exists (eg_episodeId g) l \<and> (case eg_userId g of None \<Rightarrow> True | Some u \<Rightarrow> user_exists u l)
       \<and> (case eg_groupId g of None \<Rightarrow> True | Some i \<Rightarrow> group_exists i l)) g"

definition import_notification :: "notification \<Rightarrow> unit importer" where
  "import_notification n = create_in lg_notifications lg_notifications_update nf_id nf_id (\<lambda>_. True) (user_exists (nf_createdById n)) n"

definition import_banner :: "banner \<Rightarrow> unit importer" where
  "import_banner = create_in lg_banners lg_banners_update bn_id bn_id (\<lambda>_. True) (\<lambda>_. True)"

definition import_trending :: "trending_drama \<Rightarrow> unit importer" where
  "import_trending t = create_in lg_trending lg_trending_update tg_id tg_position (\<lambda>t. int32 (tg_position t)) (drama_exists (tg_dramaId t)) t"

definition import_message :: "user_message \<Rightarrow> unit importer" where
  "import_message m = create_in lg_messages lg_messages_update mg_id mg_id (\<lambda>m. length (mg_status m) \<le> 20) (user_exists (mg_userId m)) m"

definition import_view :: "video_view \<Rightarrow> unit importer" where
  "import_view v = create_in lg_views lg_views_update vw_id vw_id (\<lambda>_. True)
     (\<lambda>l. episode_exists (vw_episodeId v) l \<and> user_exists (vw_userId v) l) v"

definition import_release :: "app_release \<Rightarrow> unit importer" where
  "import_release = create_in lg_releases lg_releases_update re_id re_id (\<lambda>_. True) (\<lambda>_. True)"

end
