(* ===== verification/ImportRows.thy ===== *)
theory ImportRows
  imports ImportSql
begin

text \<open>
  The loops of \<open>import-sql.ts\<close>, one definition per table with the body of its loop, in the order of \<open>main\<close>, and the
  run: \<open>run_import\<close> parses a dump and imports its fifteen tables.
\<close>

section \<open>Roles\<close>

text \<open>\<open>ensureUserRole\<close>: the role is given to the account whether the import created it or found it.\<close>

definition ensure_user_role :: "import_env \<Rightarrow> string \<Rightarrow> role_code \<Rightarrow> unit importer" where
  "ensure_user_role en uid code =
     and_then (gets (\<lambda>s. find_first (\<lambda>ro. ro_code ro = code) (roleDefinitions (is_core s)))) (\<lambda>r.
     case r of None \<Rightarrow> ret ()
     | Some ro \<Rightarrow>
         if \<not> mv_apply (iv_run en) then ret ()
         else let row = \<lparr>ur_userId = uid, ur_roleId = ro_id ro\<rparr> in
           and_then (gets (\<lambda>s. row \<in> set (userRoles (is_core s)))) (\<lambda>has.
           if has then ret ()
           else and_then (gets (\<lambda>s. user_exists uid (is_system s))) (\<lambda>known.
             and_then (require known (Internal ''P2003'')) (\<lambda>_.
             on_run (modify (mi_system_update (core_rows userRoles_update (\<lambda>t. t @ [row]))))))))"

section \<open>Accounts\<close>

text \<open>\<open>prior\<close> of the source, the records of earlier runs, is the parameter \<open>prior\<close> of every handler.\<close>

fun import_loop :: "(nat \<Rightarrow> source_row \<Rightarrow> unit importer) \<Rightarrow> nat \<Rightarrow> source_row list \<Rightarrow> unit importer" where
  "import_loop f i [] = ret ()"
| "import_loop f i (row # rows) = and_then (f i row) (\<lambda>_. import_loop f (Suc i) rows)"

definition legacy_email :: "string \<Rightarrow> string option \<Rightarrow> string" where
  "legacy_email fallback raw = (case raw of None \<Rightarrow> fallback | Some e \<Rightarrow> if valid_email e then to_lower e else fallback)"

definition disabled_user :: "string \<Rightarrow> string \<Rightarrow> string \<Rightarrow> string \<Rightarrow> string option \<Rightarrow> string option \<Rightarrow> instant \<Rightarrow> user" where
  "disabled_user i username email dummyHash profileImage device createdAt =
     \<lparr>u_id = i, u_username = take 80 username, u_email = email, u_passwordHash = dummyHash, u_status = User_DISABLED,
      u_profileImageKey = profileImage, u_failedLoginCount = 0, u_lockedUntil = None, u_lastLoginAt = None,
      u_createdAt = createdAt, u_deletedAt = None, u_deviceToken = device\<rparr>"

definition account_of_email :: "string \<Rightarrow> string option importer" where
  "account_of_email email = gets (\<lambda>s. map_option u_id (find_first (\<lambda>u. u_email u = email) (users (is_core s))))"

definition admin_role :: "source_row \<Rightarrow> role_code" where
  "admin_role row = (if row_text row [''admin_type''] = Some ''owner'' then SUPER_ADMIN else ADMIN)"

definition import_admin_row :: "import_env \<Rightarrow> (string \<Rightarrow> string option) \<Rightarrow> string \<Rightarrow> nat \<Rightarrow> source_row \<Rightarrow> unit importer" where
  "import_admin_row en prior dummyHash index row =
     (let key = source_id row index;
          email = legacy_email (''legacy-admin-'' @ key @ ''@legacy.invalid'') (row_text row [''admin_email'', ''email'']) in
      and_then (resolve_record en prior ''User'' ''admin'' key (account_of_email email) (\<lambda>i. import_user (disabled_user i
        (case row_text row [''admin_name'', ''name''] of None \<Rightarrow> ''Legacy admin '' @ key | Some n \<Rightarrow> n)
        email dummyHash None None (row_date en row ''created_at'')))) (\<lambda>resolved.
      and_then (set_map ''admin'' key (fst resolved)) (\<lambda>_.
      and_then (ensure_user_role en (fst resolved) (admin_role row)) (\<lambda>_.
      if snd resolved then count_entity_row ''Admin'' else ret ()))))"

definition user_email :: "source_row \<Rightarrow> nat \<Rightarrow> string" where
  "user_email row index = legacy_email (''legacy-user-'' @ source_id row index @ ''@legacy.invalid'') (row_text row [''email''])"

definition import_user_row :: "import_env \<Rightarrow> (string \<Rightarrow> string option) \<Rightarrow> string \<Rightarrow> nat \<Rightarrow> source_row \<Rightarrow> unit importer" where
  "import_user_row en prior dummyHash index row =
     (let key = source_id row index; email = user_email row index in
      and_then (resolve_record en prior ''User'' ''users'' key (account_of_email email) (\<lambda>i. import_user (disabled_user i
        (case row_text row [''username'', ''name''] of None \<Rightarrow> ''Legacy user '' @ key | Some n \<Rightarrow> n)
        email dummyHash (short_text row ''profile_image'' 512) (short_text row ''device_token'' 512) (row_date en row ''created_at'')))) (\<lambda>resolved.
      and_then (set_map ''user'' key (fst resolved)) (\<lambda>_.
      ensure_user_role en (fst resolved) USER)))"

section \<open>Catalogue\<close>

fun unused_slug :: "nat \<Rightarrow> import_env \<Rightarrow> string \<Rightarrow> string \<Rightarrow> string \<Rightarrow> string importer" where
  "unused_slug n en name key slug =
     and_then (gets (\<lambda>s. slug \<in> set (is_slugs s))) (\<lambda>used.
     if \<not> used then ret slug
     else case n of 0 \<Rightarrow> throw (Internal ''no slug'')
       | Suc m \<Rightarrow> and_then (draw_id en) (\<lambda>u. unused_slug m en name key (slugify (name @ ''-'' @ take 6 u) key)))"

declare unused_slug.simps [simp del]

definition import_drama_row :: "import_env \<Rightarrow> (string \<Rightarrow> string option) \<Rightarrow> nat \<Rightarrow> source_row \<Rightarrow> unit importer" where
  "import_drama_row en prior index row =
     (let key = source_id row index;
          name = take 200 (case row_text row [''name'', ''title''] of None \<Rightarrow> ''Legacy drama '' @ key | Some n \<Rightarrow> n) in
      and_then (unused_slug (iv_attempts en) en name key (slugify name key)) (\<lambda>slug.
      and_then (modify (is_slugs_update (\<lambda>t. slug # t))) (\<lambda>_.
      and_then (resolve_record en prior ''Drama'' ''drama'' key
        (gets (\<lambda>s. map_option dr_id (find_first (\<lambda>d. dr_slug d = slug) (dramas (is_core s)))))
        (\<lambda>i. import_drama \<lparr>dr_id = i, dr_name = name, dr_slug = slug, dr_dramaNumber = row_int row ''drama_number'',
          dr_totalSeasons = set_or (row_int row ''total_seasons'') 0, dr_description = None,
          dr_thumbnailKey = short_text row ''thumbnail'' 512, dr_isPublished = True,
          dr_createdAt = row_date en row ''created_at'', dr_deletedAt = None\<rparr>)) (\<lambda>resolved.
      set_map ''drama'' key (fst resolved)))))"

definition import_season_row :: "import_env \<Rightarrow> (string \<Rightarrow> string option) \<Rightarrow> nat \<Rightarrow> source_row \<Rightarrow> unit importer" where
  "import_season_row en prior index row =
     (let key = source_id row index; n = set_or (row_int row ''season_number'') 1 in
      and_then (gets (\<lambda>s. mapped s ''drama'' (ref_key row ''drama_id''))) (\<lambda>parent.
      case parent of None \<Rightarrow> add_skipped (''season:'' @ key @ '':drama_not_found'')
      | Some dramaId \<Rightarrow>
        and_then (resolve_record en prior ''Season'' ''season'' key
          (and_then (require (int32 n) (Internal ''P2000'')) (\<lambda>_.
           gets (\<lambda>s. map_option se_id (find_first (\<lambda>q. se_dramaId q = dramaId \<and> se_seasonNumber q = n) (seasons (is_core s))))))
          (\<lambda>i. import_season \<lparr>se_id = i, se_dramaId = dramaId, se_seasonNumber = n, se_title = Some (''Season '' @ int_text n),
            se_totalEpisodes = set_or (row_int row ''total_episodes'') 0, se_thumbnailKey = short_text row ''thumbnail'' 512,
            se_createdAt = row_date en row ''created_at'', se_deletedAt = None\<rparr>)) (\<lambda>resolved.
        set_map ''season'' key (fst resolved))))"

definition download_of :: "string option \<Rightarrow> download_access" where
  "download_of d = (if d = Some ''appstorage'' then APP_STORAGE else if d = Some ''both'' then Both
     else if d = Some ''never'' then NEVER else GALLERY)"

definition imported_episode :: "import_env \<Rightarrow> source_row \<Rightarrow> string \<Rightarrow> int \<Rightarrow> string \<Rightarrow> episode" where
  "imported_episode en row seasonId n i =
     \<lparr>ep_id = i, ep_seasonId = seasonId, ep_episodeNumber = n, ep_title = Some (''Episode '' @ int_text n),
      ep_description = truthy (row_text row [''description'']), ep_thumbnailKey = short_text row ''thumbnail'' 512,
      ep_isPublished = True, ep_status = PUBLISHED,
      ep_visibility = (if map_option to_lower (row_text row [''privacy'']) = Some ''private'' then PRIVATE else PUBLIC),
      ep_isPremium = True, ep_downloadAccess = download_of (map_option to_lower (row_text row [''download_access''])),
      ep_createdAt = row_date en row ''created_at'', ep_deletedAt = None\<rparr>"

definition imported_media :: "import_env \<Rightarrow> string \<Rightarrow> string \<Rightarrow> string \<Rightarrow> string \<Rightarrow> string \<Rightarrow> media_asset" where
  "imported_media en key episodeId locator encrypted i =
     \<lparr>ma_id = i, ma_episodeId = episodeId, ma_kind = media_type_of locator, ma_mediaType = media_type_of locator,
      ma_provider = (case me_parse (iv_media en) locator None of None \<Rightarrow> ''legacy-import'' | Some u \<Rightarrow> take 80 (u_hostname u)),
      ma_encryptedLocator = encrypted, ma_checksum = None,
      ma_status = (if allowed_media (iv_media en) locator then Media_ACTIVE else Media_INACTIVE),
      ma_metadata = Some [(''source'', JStr ''legacy-sql''), (''legacyEpisodeId'', JStr key)], ma_version = 1,
      ma_durationSeconds = None, ma_sizeBytes = None, ma_createdAt = mv_now (iv_run en), ma_rotatedAt = None, ma_deletedAt = None\<rparr>"

text \<open>The bytes of the initialisation vector are drawn with the id of the asset.\<close>

definition import_media_row :: "import_env \<Rightarrow> string \<Rightarrow> string \<Rightarrow> string \<Rightarrow> unit importer" where
  "import_media_row en key episodeId locator =
     and_then (gets (\<lambda>s. \<exists>a\<in>set (mediaAssets (is_core s)). ma_episodeId a = episodeId)) (\<lambda>taken.
     if taken then add_duplicate (''episode:'' @ key @ '':media'')
     else
       and_then (if allowed_media (iv_media en) locator then ret ()
         else add_skipped (''media:'' @ key @ '':provider_not_allowlisted_or_not_https'')) (\<lambda>_.
       and_then (gets (\<lambda>s. mi_uuids (is_run s))) (\<lambda>n.
       and_then (draw_id en) (\<lambda>i.
       and_then (if mv_apply (iv_run en)
         then and_then (import_locator (iv_media en) (iv_bytes en n) locator) (\<lambda>encrypted.
              and_then (import_media (imported_media en key episodeId locator encrypted i)) (\<lambda>_.
              write_record en ''episode'' (key @ '':media'') ''MediaAsset'' i))
         else ret ()) (\<lambda>_.
       count_entity_row ''MediaAsset'')))))"

definition import_episode_row :: "import_env \<Rightarrow> (string \<Rightarrow> string option) \<Rightarrow> nat \<Rightarrow> source_row \<Rightarrow> unit importer" where
  "import_episode_row en prior index row =
     (let key = source_id row index; n = set_or (row_int row ''episode_number'') 1 in
      and_then (gets (\<lambda>s. mapped s ''season'' (ref_key row ''season_id''))) (\<lambda>parent.
      case parent of None \<Rightarrow> add_skipped (''episode:'' @ key @ '':season_not_found'')
      | Some seasonId \<Rightarrow>
        and_then (resolve_record en prior ''Episode'' ''episode'' key
          (and_then (require (int32 n) (Internal ''P2000'')) (\<lambda>_.
           gets (\<lambda>s. map_option ep_id (find_first (\<lambda>e. ep_seasonId e = seasonId \<and> ep_episodeNumber e = n) (episodes (is_core s))))))
          (\<lambda>i. import_episode (imported_episode en row seasonId n i))) (\<lambda>resolved.
        and_then (set_map ''episode'' key (fst resolved)) (\<lambda>_.
        case truthy (row_text row [''video_path'']) of None \<Rightarrow> ret ()
        | Some locator \<Rightarrow> if snd resolved then import_media_row en key (fst resolved) locator else ret ()))))"

section \<open>Groups, members and grants\<close>

definition import_group_row :: "import_env \<Rightarrow> (string \<Rightarrow> string option) \<Rightarrow> nat \<Rightarrow> source_row \<Rightarrow> unit importer" where
  "import_group_row en prior index row =
     (let key = source_id row index;
          name = take 120 (case row_text row [''group_name'', ''name''] of None \<Rightarrow> ''Legacy group '' @ key | Some n \<Rightarrow> n) in
      and_then (resolve_record en prior ''AccessGroup'' ''groups'' key
        (gets (\<lambda>s. map_option ag_id (find_first (\<lambda>g. ag_name g = name) (accessGroups (is_core s)))))
        (\<lambda>i. import_group \<lparr>ag_id = i, ag_name = name\<rparr>)) (\<lambda>resolved.
      set_map ''group'' key (fst resolved)))"

text \<open>\<open>Number(value) > 0\<close>; a text that is no integer may still be a positive fraction or infinite.\<close>

definition positive_text :: "string \<Rightarrow> bool" where
  "positive_text s = (case js_integer s of Some i \<Rightarrow> 0 < i
     | None \<Rightarrow>
        let t = trim s; u = (if starts_with t ''+'' then tl t else t);
            mantissa = takeWhile (\<lambda>c. c \<noteq> CHR ''e'' \<and> c \<noteq> CHR ''E'') u;
            digits = takeWhile (\<lambda>c. c \<noteq> CHR ''.'') mantissa @ tl (dropWhile (\<lambda>c. c \<noteq> CHR ''.'') mantissa) in
        u = ''Infinity'' \<or> (case numeral_value 10 digits of None \<Rightarrow> False
          | Some n \<Rightarrow> 0 < n \<and> exponent_value (drop (length mantissa) u) \<noteq> None))"

definition row_positive :: "source_row \<Rightarrow> string \<Rightarrow> bool" where
  "row_positive row name = (case first_cell row [name] of None \<Rightarrow> False | Some c \<Rightarrow> positive_text (cell_text c))"

definition import_member_row :: "import_env \<Rightarrow> (string \<Rightarrow> string option) \<Rightarrow> nat \<Rightarrow> source_row \<Rightarrow> unit importer" where
  "import_member_row en prior index row =
     (let key = source_id row index;
          window = date_window en (first_cell row [''start_date'']) (first_cell row [''end_date'']) (first_cell row [''created_at'']) in
      and_then (gets (\<lambda>s. (mapped s ''group'' (ref_key row ''group_id''), mapped s ''user'' (ref_key row ''user_id'')))) (\<lambda>parents.
      case parents of
        (Some groupId, Some userId) \<Rightarrow>
          and_then (resolve_record en prior ''GroupMember'' ''group_members'' key
            (gets (\<lambda>s. map_option gm_id (find_first (\<lambda>m. gm_groupId m = groupId \<and> gm_userId m = userId) (groupMembers (is_core s)))))
            (\<lambda>i. import_member \<lparr>gm_id = i, gm_groupId = groupId, gm_userId = userId, gm_startsAt = fst window, gm_endsAt = snd window,
              gm_revokedAt = None, gm_comment = truthy (row_text row [''comment'']), gm_subscription = row_positive row ''subscription''\<rparr>))
            (\<lambda>_. ret ())
      | _ \<Rightarrow> add_skipped (''group_member:'' @ key @ '':parent_not_found'')))"

text \<open>\<open>grant\<close>: an id that is not given does not restrict the search for an existing grant.\<close>

definition import_grant_row :: "import_env \<Rightarrow> string \<Rightarrow> nat \<Rightarrow> source_row \<Rightarrow> string option \<Rightarrow> string option \<Rightarrow> unit importer" where
  "import_grant_row en table index row groupId userId =
     (let key = source_id row index;
          window = date_window en (first_cell row [''start_date'']) (first_cell row [''end_date'']) None in
      and_then (gets (\<lambda>s. mapped s ''episode'' (ref_key row ''video_id''))) (\<lambda>episode.
      case episode of
        None \<Rightarrow> add_skipped (table @ '':'' @ key @ '':parent_not_found'')
      | Some episodeId \<Rightarrow>
        if truthy groupId = None \<and> truthy userId = None then add_skipped (table @ '':'' @ key @ '':parent_not_found'')
        else
          and_then (gets (\<lambda>s. \<exists>g\<in>set (episodeGrants (is_core s)). eg_episodeId g = episodeId
            \<and> (groupId = None \<or> eg_groupId g = groupId) \<and> (userId = None \<or> eg_userId g = userId)
            \<and> eg_startsAt g = fst window \<and> eg_endsAt g = snd window)) (\<lambda>existing.
          if existing then add_duplicate (table @ '':'' @ key @ '':grant'')
          else
            and_then (draw_id en) (\<lambda>i.
            and_then (if mv_apply (iv_run en)
              then and_then (import_grant \<lparr>eg_id = i, eg_episodeId = episodeId, eg_userId = userId, eg_groupId = groupId,
                     eg_startsAt = fst window, eg_endsAt = snd window, eg_status = Grant_ACTIVE, eg_revokedAt = None,
                     eg_createdAt = mv_now (iv_run en)\<rparr>) (\<lambda>_. write_record en table key ''EpisodeGrant'' i)
              else ret ()) (\<lambda>_.
            count_entity_row ''EpisodeGrant'')))))"

definition import_group_video :: "import_env \<Rightarrow> nat \<Rightarrow> source_row \<Rightarrow> unit importer" where
  "import_group_video en index row =
     and_then (gets (\<lambda>s. is_maps s ''group'' (ref_key row ''group_id''))) (\<lambda>g. import_grant_row en ''group_videos'' index row g None)"

definition import_user_video :: "import_env \<Rightarrow> nat \<Rightarrow> source_row \<Rightarrow> unit importer" where
  "import_user_video en index row =
     and_then (gets (\<lambda>s. is_maps s ''user'' (ref_key row ''user_id''))) (\<lambda>u. import_grant_row en ''user_videos'' index row None u)"

section \<open>The application's own tables\<close>

definition import_notification_row :: "import_env \<Rightarrow> (string \<Rightarrow> string option) \<Rightarrow> string \<Rightarrow> nat \<Rightarrow> source_row \<Rightarrow> unit importer" where
  "import_notification_row en prior fallbackAdmin index row =
     (let key = source_id row index in
      and_then (gets (\<lambda>s. truthy (Some (set_or (is_maps s ''admin'' (ref_key row ''admin_id'')) fallbackAdmin)))) (\<lambda>creator.
      case creator of None \<Rightarrow> add_skipped (''notification:'' @ key @ '':admin_not_found'')
      | Some createdById \<Rightarrow>
        and_then (resolve_record en prior ''Notification'' ''notifications'' key (ret None)
          (\<lambda>i. import_notification \<lparr>nf_id = i, nf_createdById = createdById,
            nf_title = take 255 (set_or (row_text row [''title'']) ''Legacy notification''), nf_message = set_or (row_text row [''message'']) [],
            nf_imageKey = short_text row ''image'' 512, nf_createdAt = row_date en row ''created_at'', nf_deletedAt = None\<rparr>)) (\<lambda>_. ret ())))"

definition import_banner_row :: "import_env \<Rightarrow> (string \<Rightarrow> string option) \<Rightarrow> nat \<Rightarrow> source_row \<Rightarrow> unit importer" where
  "import_banner_row en prior index row =
     and_then (resolve_record en prior ''Banner'' ''banners'' (source_id row index) (ret None)
       (\<lambda>i. import_banner \<lparr>bn_id = i, bn_imageKey = short_text row ''image_url'' 512, bn_videoKey = short_text row ''video_url'' 512,
         bn_isActive = True, bn_createdAt = row_date en row ''created_at'', bn_deletedAt = None\<rparr>)) (\<lambda>_. ret ())"

definition import_trending_row :: "import_env \<Rightarrow> nat \<Rightarrow> source_row \<Rightarrow> unit importer" where
  "import_trending_row en index row =
     (let key = source_id row index; position = set_or (row_int row ''position'') (int index + 1) in
      and_then (gets (\<lambda>s. mapped s ''drama'' (ref_key row ''drama_id''))) (\<lambda>parent.
      case parent of None \<Rightarrow> add_skipped (''trending:'' @ key @ '':drama_not_found'')
      | Some dramaId \<Rightarrow>
        and_then (require (int32 position) (Internal ''P2000'')) (\<lambda>_.
        and_then (gets (\<lambda>s. \<exists>t\<in>set (lg_trending (is_system s)). tg_dramaId t = dramaId \<or> tg_position t = position)) (\<lambda>existing.
        if existing then add_duplicate (''trending:'' @ key)
        else
          and_then (draw_id en) (\<lambda>i.
          and_then (if mv_apply (iv_run en)
            then and_then (import_trending \<lparr>tg_id = i, tg_dramaId = dramaId, tg_position = position,
                   tg_createdAt = row_date en row ''created_at''\<rparr>) (\<lambda>_. write_record en ''trending_dramas'' key ''TrendingDrama'' i)
            else ret ()) (\<lambda>_.
          count_entity_row ''TrendingDrama''))))))"

definition import_message_row :: "import_env \<Rightarrow> (string \<Rightarrow> string option) \<Rightarrow> nat \<Rightarrow> source_row \<Rightarrow> unit importer" where
  "import_message_row en prior index row =
     (let key = source_id row index in
      and_then (gets (\<lambda>s. mapped s ''user'' (ref_key row ''user_id''))) (\<lambda>parent.
      case parent of None \<Rightarrow> add_skipped (''message:'' @ key @ '':user_not_found'')
      | Some userId \<Rightarrow>
        and_then (resolve_record en prior ''UserMessage'' ''user_message'' key (ret None)
          (\<lambda>i. import_message \<lparr>mg_id = i, mg_userId = userId, mg_senderId = None, mg_groupId = None,
            mg_message = set_or (row_text row [''message'']) [], mg_status = set_or (row_text row [''status'']) ''unread'',
            mg_createdAt = row_date en row ''created_at'', mg_readAt = None\<rparr>)) (\<lambda>_. ret ())))"

definition import_view_row :: "import_env \<Rightarrow> nat \<Rightarrow> source_row \<Rightarrow> unit importer" where
  "import_view_row en index row =
     (let key = source_id row index in
      and_then (gets (\<lambda>s. (mapped s ''episode'' (ref_key row ''video_id''), mapped s ''user'' (ref_key row ''user_id'')))) (\<lambda>parents.
      case parents of
        (Some episodeId, Some userId) \<Rightarrow>
          and_then (draw_id en) (\<lambda>i.
          and_then (if mv_apply (iv_run en)
            then and_then (import_view \<lparr>vw_id = i, vw_episodeId = episodeId, vw_userId = userId,
                   vw_viewedAt = row_date en row ''view_time'', vw_ipAddress = None, vw_userAgent = None\<rparr>) (\<lambda>_.
                 write_record en ''video_views'' key ''VideoView'' i)
            else ret ()) (\<lambda>_.
          count_entity_row ''VideoView''))
      | _ \<Rightarrow> add_skipped (''view:'' @ key @ '':parent_not_found'')))"

definition import_release_row :: "import_env \<Rightarrow> (string \<Rightarrow> string option) \<Rightarrow> nat \<Rightarrow> source_row \<Rightarrow> unit importer" where
  "import_release_row en prior index row =
     (let key = source_id row index in
      and_then (resolve_record en prior ''AppRelease'' ''apk_files'' key (ret None)
        (\<lambda>i. import_release \<lparr>re_id = i, re_versionName = map_option (take 60) (row_text row [''string'']), re_versionCode = None,
          re_storageKey = (case row_text row [''apk_url''] of None \<Rightarrow> ''legacy://'' @ key | Some t \<Rightarrow> take 512 t),
          re_originalName = Some ''legacy-urdu-bolo.apk'', re_fileSize = None, re_isActive = False, re_uploadedById = None,
          re_createdAt = row_date en row ''uploaded_at''\<rparr>)) (\<lambda>_. ret ()))"

section \<open>The run\<close>

definition seeded_admin :: "state \<Rightarrow> string option" where
  "seeded_admin s = map_option ur_userId (find_first (\<lambda>r. \<exists>ro\<in>set (roleDefinitions s). ro_id ro = ur_roleId r \<and> ro_code ro = SUPER_ADMIN) (userRoles s))"

text \<open>The tables after the accounts.\<close>

definition import_content :: "import_env \<Rightarrow> (string \<Rightarrow> string option) \<Rightarrow> string option \<Rightarrow> (string \<Rightarrow> source_row list) \<Rightarrow> unit importer" where
  "import_content en prior adminFallback rows =
     and_then (import_loop (import_drama_row en prior) 0 (rows ''drama'')) (\<lambda>_.
     and_then (import_loop (import_season_row en prior) 0 (rows ''season'')) (\<lambda>_.
     and_then (import_loop (import_episode_row en prior) 0 (rows ''episode'')) (\<lambda>_.
     and_then (import_loop (import_group_row en prior) 0 (rows ''groups'')) (\<lambda>_.
     and_then (import_loop (import_member_row en prior) 0 (rows ''group_members'')) (\<lambda>_.
     and_then (import_loop (import_group_video en) 0 (rows ''group_videos'')) (\<lambda>_.
     and_then (import_loop (import_user_video en) 0 (rows ''user_videos'')) (\<lambda>_.
     and_then (case adminFallback of None \<Rightarrow> draw_id en | Some a \<Rightarrow> ret a) (\<lambda>fallbackAdmin.
     and_then (import_loop (import_notification_row en prior fallbackAdmin) 0 (rows ''notifications'')) (\<lambda>_.
     and_then (import_loop (import_banner_row en prior) 0 (rows ''banners'')) (\<lambda>_.
     and_then (import_loop (import_trending_row en) 0 (rows ''trending_dramas'')) (\<lambda>_.
     and_then (import_loop (import_message_row en prior) 0 (rows ''user_message'')) (\<lambda>_.
     and_then (import_loop (import_view_row en) 0 (rows ''video_views'')) (\<lambda>_.
     import_loop (import_release_row en prior) 0 (rows ''apk_files''))))))))))))))"

definition import_tables :: "import_env \<Rightarrow> (string \<Rightarrow> string option) \<Rightarrow> string \<Rightarrow> string option \<Rightarrow> (string \<Rightarrow> source_row list) \<Rightarrow> unit importer" where
  "import_tables en prior dummyHash adminFallback rows =
     and_then (import_loop (import_admin_row en prior dummyHash) 0 (rows ''admin'')) (\<lambda>_.
     and_then (import_loop (import_user_row en prior dummyHash) 0 (rows ''users'')) (\<lambda>_.
     import_content en prior adminFallback rows))"

definition import_main :: "import_env \<Rightarrow> (string \<Rightarrow> source_row list) \<Rightarrow> unit importer" where
  "import_main en rows =
     and_then (gets (\<lambda>s. prior_of (mi_records (is_run s)))) (\<lambda>prior.
     and_then (expect (truthy (mv_env (iv_run en) ''ARGON2_DUMMY_HASH'')) (Internal ''ARGON2_DUMMY_HASH is required'')) (\<lambda>dummyHash.
     and_then (gets (\<lambda>s. seeded_admin (is_core s))) (\<lambda>adminFallback.
     and_then (require (truthy adminFallback \<noteq> None \<or> \<not> mv_apply (iv_run en))
       (Internal ''A seeded SUPER_ADMIN is required before importing legacy data'')) (\<lambda>_.
     import_tables en prior dummyHash adminFallback rows))))"

text \<open>A run starts with an empty report and empty maps; its result is the exit code.\<close>

definition new_import :: "migration \<Rightarrow> import_state" where
  "new_import t = \<lparr>is_run = new_report t, is_skipped = [], is_maps = (\<lambda>_. Map.empty), is_slugs = []\<rparr>"

definition run_import :: "import_env \<Rightarrow> string \<Rightarrow> migration \<Rightarrow> nat \<times> import_state" where
  "run_import en source t = (case import_main en (dump_rows (parse_dump source)) (new_import t) of
     (Inr _, s) \<Rightarrow> (0, s)
   | (Inl e, s) \<Rightarrow> (1, s\<lparr>is_run := (is_run s)\<lparr>mi_errors := mi_errors (is_run s) @ [script_message e]\<rparr>\<rparr>))"

end
