(* ===== verification/ImportProps.thy ===== *)
theory ImportProps
  imports ImportRows MigrationRuns
begin

text \<open>
  What any run of the import leaves, one that crashed on a row included: which rows it may add to which table, and that
  it changes nothing else. The locale \<open>import_invariant\<close> is the interface of an invariant of the import: what is closed
  under the permitted rows, the report and the maps is kept by every handler. It is interpreted with \<open>import_ok\<close>, what a
  run leaves, and with \<open>user_served\<close>, that a user of the dump has an account and its role.
\<close>

named_theorems import_keeps "steps of the import that only add permitted rows"

section \<open>The rows that may be added\<close>

definition table_added :: "('r \<Rightarrow> bool) \<Rightarrow> 'r list \<Rightarrow> 'r list \<Rightarrow> bool" where
  "table_added Q old new \<longleftrightarrow> (\<exists>rows. new = old @ rows \<and> list_all Q rows)"

lemma table_added_refl [simp]: "table_added Q t t"
  by (simp add: table_added_def)

lemma table_added_snoc [simp]: "Q r \<Longrightarrow> table_added Q old new \<Longrightarrow> table_added Q old (new @ [r])"
  unfolding table_added_def by force

lemma table_added_set: "table_added Q old new \<Longrightarrow> r \<in> set new \<Longrightarrow> r \<in> set old \<or> Q r"
  by (auto simp: table_added_def list_all_iff)

text \<open>No password opens the account; no window is empty; a grant names somebody; a release is not offered.\<close>

definition account_added :: "import_env \<Rightarrow> user \<Rightarrow> bool" where
  "account_added en u \<longleftrightarrow> u_status u = User_DISABLED \<and> u_deletedAt u = None \<and> mv_env (iv_run en) ''ARGON2_DUMMY_HASH'' = Some (u_passwordHash u)"

text \<open>A role other than \<open>USER\<close> comes from a row of the table of administrators, \<open>SUPER_ADMIN\<close> from that of an owner.\<close>

definition role_from :: "source_row list \<Rightarrow> role_code \<Rightarrow> bool" where
  "role_from adm code \<longleftrightarrow> code = USER \<or> (\<exists>row\<in>set adm. code = admin_role row)"

definition role_added :: "source_row list \<Rightarrow> state \<Rightarrow> user_role \<Rightarrow> bool" where
  "role_added adm s r \<longleftrightarrow> (\<exists>ro\<in>set (roleDefinitions s). ro_id ro = ur_roleId r \<and> role_from adm (ro_code ro))"

definition episode_added :: "episode \<Rightarrow> bool" where
  "episode_added e \<longleftrightarrow> ep_isPremium e \<and> ep_isPublished e \<and> ep_status e = PUBLISHED \<and> ep_deletedAt e = None"

text \<open>The encrypted locator of a new asset opens to an address, and the asset is active only if that may be fetched.\<close>

definition media_added :: "import_env \<Rightarrow> media_asset \<Rightarrow> bool" where
  "media_added en a \<longleftrightarrow> (\<exists>address. address \<noteq> []
     \<and> (aead_ok (me_aead (iv_media en)) \<longrightarrow> (\<forall>n. length (iv_bytes en n) = 12) \<longrightarrow>
          open_locator (me_aead (iv_media en)) (me_locatorKey (iv_media en)) (ma_encryptedLocator a) = Some address)
     \<and> ma_status a = (if allowed_media (iv_media en) address then Media_ACTIVE else Media_INACTIVE)
     \<and> ma_mediaType a = media_type_of address \<and> ma_deletedAt a = None)"

definition member_added :: "group_member \<Rightarrow> bool" where
  "member_added m \<longleftrightarrow> gm_startsAt m < gm_endsAt m \<and> gm_revokedAt m = None"

definition grant_added :: "episode_grant \<Rightarrow> bool" where
  "grant_added g \<longleftrightarrow> eg_startsAt g < eg_endsAt g \<and> eg_status g = Grant_ACTIVE \<and> eg_revokedAt g = None
     \<and> (eg_userId g = None) \<noteq> (eg_groupId g = None)"

definition core_rest :: "state \<Rightarrow> state" where
  "core_rest s = s\<lparr>users := [], userRoles := [], dramas := [], seasons := [], episodes := [], mediaAssets := [],
     accessGroups := [], groupMembers := [], episodeGrants := []\<rparr>"

definition system_rest :: "legacy_state \<Rightarrow> legacy_state" where
  "system_rest l = (set_core l (core_rest (core l)))\<lparr>lg_notifications := [], lg_banners := [], lg_trending := [],
     lg_messages := [], lg_views := [], lg_releases := []\<rparr>"

definition core_added :: "import_env \<Rightarrow> source_row list \<Rightarrow> state \<Rightarrow> state \<Rightarrow> bool" where
  "core_added en adm s0 s \<longleftrightarrow> table_added (account_added en) (users s0) (users s) \<and> table_added (role_added adm s0) (userRoles s0) (userRoles s)
     \<and> table_added (\<lambda>d. dr_isPublished d \<and> dr_deletedAt d = None) (dramas s0) (dramas s)
     \<and> table_added (\<lambda>q. se_deletedAt q = None) (seasons s0) (seasons s)
     \<and> table_added episode_added (episodes s0) (episodes s) \<and> table_added (media_added en) (mediaAssets s0) (mediaAssets s)
     \<and> table_added (\<lambda>_. True) (accessGroups s0) (accessGroups s) \<and> table_added member_added (groupMembers s0) (groupMembers s)
     \<and> table_added grant_added (episodeGrants s0) (episodeGrants s)"

definition legacy_added :: "legacy_state \<Rightarrow> legacy_state \<Rightarrow> bool" where
  "legacy_added l0 l \<longleftrightarrow> table_added (\<lambda>n. nf_deletedAt n = None) (lg_notifications l0) (lg_notifications l)
     \<and> table_added (\<lambda>b. bn_isActive b) (lg_banners l0) (lg_banners l) \<and> table_added (\<lambda>_. True) (lg_trending l0) (lg_trending l)
     \<and> table_added (\<lambda>m. mg_senderId m = None \<and> mg_readAt m = None) (lg_messages l0) (lg_messages l)
     \<and> table_added (\<lambda>v. vw_ipAddress v = None) (lg_views l0) (lg_views l)
     \<and> table_added (\<lambda>r. \<not> re_isActive r) (lg_releases l0) (lg_releases l)"

definition system_added :: "import_env \<Rightarrow> source_row list \<Rightarrow> legacy_state \<Rightarrow> legacy_state \<Rightarrow> bool" where
  "system_added en adm l0 l \<longleftrightarrow> core_added en adm (core l0) (core l) \<and> legacy_added l0 l \<and> system_rest l = system_rest l0"

text \<open>Without \<open>--apply\<close> nothing is added at all.\<close>

definition import_ok :: "import_env \<Rightarrow> source_row list \<Rightarrow> migration \<Rightarrow> import_state \<Rightarrow> bool" where
  "import_ok en adm t s \<longleftrightarrow>
     (if mv_apply (iv_run en)
      then system_added en adm (mi_system t) (is_system s)
        \<and> table_added (\<lambda>r. lm_runId r = mv_runId (iv_run en)) (mi_records t) (mi_records (is_run s))
      else is_system s = mi_system t \<and> mi_records (is_run s) = mi_records t)"

lemma table_added_trans: "table_added Q a b \<Longrightarrow> table_added Q b c \<Longrightarrow> table_added Q a c"
  unfolding table_added_def by force

lemmas added_defs = system_added_def core_added_def legacy_added_def system_rest_def core_rest_def core_rows_def

lemma system_added_refl: "system_added en adm l l"
  by (simp add: system_added_def core_added_def legacy_added_def)

lemma system_added_roles: "system_added en adm l0 l \<Longrightarrow> roleDefinitions (core l) = roleDefinitions (core l0)"
proof -
  assume "system_added en adm l0 l"
  then have "roleDefinitions (core (system_rest l)) = roleDefinitions (core (system_rest l0))" by (simp add: system_added_def)
  then show ?thesis by (simp add: system_rest_def core_rest_def)
qed

lemma system_added_trans: "system_added en adm a b \<Longrightarrow> system_added en adm b c \<Longrightarrow> system_added en adm a c"
proof -
  assume h: "system_added en adm a b" "system_added en adm b c"
  have "role_added adm (core b) = role_added adm (core a)"
    using system_added_roles [OF h(1)] by (intro ext) (simp add: role_added_def)
  with h show ?thesis
    unfolding system_added_def core_added_def legacy_added_def by (auto elim: table_added_trans)
qed

lemma system_added_subset:
  "system_added en adm l0 l \<Longrightarrow> set (users (core l0)) \<subseteq> set (users (core l))"
  "system_added en adm l0 l \<Longrightarrow> set (userRoles (core l0)) \<subseteq> set (userRoles (core l))"
  by (auto simp: system_added_def core_added_def table_added_def)

section \<open>Invariants of the import\<close>

lemma keeps_create_in:
  assumes "\<And>s. I s \<Longrightarrow> I (s\<lparr>is_run := mi_system_update (upd (\<lambda>t. t @ [r])) (is_run s)\<rparr>)"
  shows "keeps I (create_in sel upd i k fits parents r)"
proof -
  have "keeps I (on_run (create_row (\<lambda>s. sel (mi_system s)) (\<lambda>f. mi_system_update (upd f)) i k fits r))"
    using assms by (auto simp: keeps_def on_run_def create_row_def require_def)
  then show ?thesis unfolding create_in_def by (auto intro!: keeps_rules)
qed

lemma keeps_import_locator:
  assumes "\<And>e. (aead_ok (me_aead mn) \<longrightarrow> length iv = 12 \<longrightarrow> value \<noteq> [] \<longrightarrow> open_locator (me_aead mn) (me_locatorKey mn) e = Some value)
      \<Longrightarrow> keeps I (k e)"
  shows "keeps I (and_then (import_locator mn iv value) k)"
proof (cases "\<exists>key. me_locatorKey mn = Some key \<and> length (base64_bytes key) = 32")
  case True
  then obtain key where key: "me_locatorKey mn = Some key" "length (base64_bytes key) = 32" by blast
  obtain t c where tc: "ae_seal (me_aead mn) (base64_bytes key) iv (text_bytes value) = (t, c)" by force
  show ?thesis
    using assms [of "''v1.'' @ base64url iv @ ''.'' @ base64url t @ ''.'' @ base64url c"] sealed_opens [OF _ key(2) _ _ tc]
    by (simp add: import_locator_def key tc Let_def keeps_def require_def and_then_def)
next
  case False
  then show ?thesis
    by (auto simp: keeps_def and_then_def import_locator_def Let_def require_def base64_bytes_def List.map_filter_simps split: option.split)
qed

lemma keeps_pair_option:
  "(\<And>a b. keeps I (f a b)) \<Longrightarrow> keeps I n \<Longrightarrow> keeps I (case p of (Some a, Some b) \<Rightarrow> f a b | _ \<Rightarrow> n)"
  by (auto split: option.split prod.split)

lemma truthy_nonempty: "truthy x = Some t \<Longrightarrow> t \<noteq> []"
  by (auto simp: truthy_def split: option.splits list.splits)

lemma date_window_proper: "fst (date_window en a b c) < snd (date_window en a b c)"
  by (simp add: date_window_def Let_def)

lemma keeps_import_loop: "(\<And>i row. row \<in> set rows \<Longrightarrow> keeps I (f i row)) \<Longrightarrow> keeps I (import_loop f i rows)"
  by (induction rows arbitrary: i) (auto intro!: keeps_rules)

lemma keeps_expect_truthy: "(\<And>h. truthy x = Some h \<Longrightarrow> keeps I (k h)) \<Longrightarrow> keeps I (and_then (expect (truthy x) e) k)"
  by (simp add: keeps_def split: option.split)

locale import_invariant =
  fixes en :: import_env and adm :: "source_row list" and I :: "import_state \<Rightarrow> bool"
  assumes report: "I s \<Longrightarrow> is_system s' = is_system s \<Longrightarrow> mi_records (is_run s') = mi_records (is_run s) \<Longrightarrow> is_maps s' = is_maps s \<Longrightarrow> I s'"
    and mapping: "I s \<Longrightarrow> kind \<noteq> ''user'' \<Longrightarrow> I (is_maps_update (\<lambda>m. m(kind := g (m kind))) s)"
    and rows: "I s \<Longrightarrow> mv_apply (iv_run en) \<Longrightarrow> system_added en adm (is_system s) (f (is_system s))
      \<Longrightarrow> I (s\<lparr>is_run := mi_system_update f (is_run s)\<rparr>)"
    and recs: "I s \<Longrightarrow> mv_apply (iv_run en) \<Longrightarrow> lm_runId r = mv_runId (iv_run en)
      \<Longrightarrow> I (s\<lparr>is_run := mi_records_update (\<lambda>t. t @ [r]) (is_run s)\<rparr>)"
begin

lemma keeps_report [import_keeps]:
  "keeps I (add_duplicate e)" "keeps I (add_skipped e)" "keeps I (count_entity_row n)" "keeps I (draw_id en')"
  "keeps I (modify (is_slugs_update f))"
  by (auto simp: keeps_def add_duplicate_def add_skipped_def count_entity_row_def draw_id_def on_run_def increment_def new_id_def elim!: report)

lemma keeps_map [import_keeps]: "kind \<noteq> ''user'' \<Longrightarrow> keeps I (set_map kind a b)"
  unfolding set_map_def using mapping [where g = "\<lambda>m. m(a \<mapsto> b)"] by (intro keeps_modify) simp

lemma keeps_creates:
  assumes ap: "mv_apply (iv_run en)"
  shows "account_added en u \<Longrightarrow> keeps (I) (import_user u)"
    and "dr_isPublished d \<and> dr_deletedAt d = None \<Longrightarrow> keeps (I) (import_drama d)"
    and "se_deletedAt q = None \<Longrightarrow> keeps (I) (import_season q)"
    and "episode_added e \<Longrightarrow> keeps (I) (import_episode e)"
    and "media_added en a \<Longrightarrow> keeps (I) (import_media a)"
    and "keeps (I) (import_group g)"
    and "member_added m \<Longrightarrow> keeps (I) (import_member m)"
    and "grant_added gr \<Longrightarrow> keeps (I) (import_grant gr)"
    and "nf_deletedAt n = None \<Longrightarrow> keeps (I) (import_notification n)"
    and "bn_isActive b \<Longrightarrow> keeps (I) (import_banner b)"
    and "keeps (I) (import_trending tr)"
    and "mg_senderId ms = None \<and> mg_readAt ms = None \<Longrightarrow> keeps (I) (import_message ms)"
    and "vw_ipAddress v = None \<Longrightarrow> keeps (I) (import_view v)"
    and "\<not> re_isActive re \<Longrightarrow> keeps (I) (import_release re)"
  unfolding import_user_def import_drama_def import_season_def import_episode_def import_media_def import_group_def import_member_def
    import_grant_def import_notification_def import_banner_def import_trending_def import_message_def import_view_def import_release_def
  by (rule keeps_create_in, rule rows [OF _ ap], assumption, simp add: added_defs)+

lemma keeps_write_record [import_keeps]: "mv_apply (iv_run en) \<Longrightarrow> keeps I (write_record en table key entity i)"
  unfolding write_record_def
  by (intro keeps_and_then import_keeps) (auto simp: keeps_def on_run_def create_record_def create_row_def require_def intro: recs)

lemma keeps_ensure_role [import_keeps]:
  assumes "role_from adm code"
  shows "keeps I (ensure_user_role en uid code)"
proof (rule keepsI)
  fix s assume ok: "I s"
  show "I (snd (ensure_user_role en uid code s))"
  proof (cases "find_first (\<lambda>ro. ro_code ro = code) (roleDefinitions (is_core s))")
    case None
    with ok show ?thesis by (simp add: ensure_user_role_def del: find_first_None)
  next
    case (Some ro)
    then have ro: "ro \<in> set (roleDefinitions (is_core s))" "ro_code ro = code" by (auto dest: find_first_Some)
    then have "role_added adm (is_core s) \<lparr>ur_userId = uid, ur_roleId = ro_id ro\<rparr>" using assms by (auto simp: role_added_def)
    then have "system_added en adm (is_system s) (core_rows userRoles_update (\<lambda>x. x @ [\<lparr>ur_userId = uid, ur_roleId = ro_id ro\<rparr>]) (is_system s))"
      by (simp add: added_defs)
    with Some ok show ?thesis
      by (auto simp: ensure_user_role_def Let_def on_run_def require_def intro: rows simp del: find_first_None)
  qed
qed

lemma keeps_resolve:
  assumes "keeps (I) lookup" and "\<And>i. mv_apply (iv_run en) \<Longrightarrow> keeps (I) (create i)"
  shows "keeps (I) (resolve_record en prior entity table key lookup create)"
  unfolding resolve_record_def
  by (auto intro!: assms keeps_and_then keeps_ret keeps_either keeps_case_option import_keeps)

lemma account_added: "truthy (mv_env (iv_run en) ''ARGON2_DUMMY_HASH'') = Some h \<Longrightarrow> account_added en (disabled_user i name email h p d c)"
  by (auto simp: account_added_def disabled_user_def truthy_def split: option.splits list.splits)

lemma keeps_admin_row:
  assumes "truthy (mv_env (iv_run en) ''ARGON2_DUMMY_HASH'') = Some h" and "row \<in> set adm"
  shows "keeps I (import_admin_row en prior h n row)"
  unfolding import_admin_row_def Let_def account_of_email_def
  by (auto intro!: keeps_rules keeps_resolve keeps_creates import_keeps account_added assms simp: role_from_def assms)

text \<open>The map of the users is the only one that the invariant may speak about.\<close>

lemma keeps_user_row:
  assumes "truthy (mv_env (iv_run en) ''ARGON2_DUMMY_HASH'') = Some h" and "\<And>i. keeps I (set_map ''user'' (source_id row n) i)"
  shows "keeps I (import_user_row en prior h n row)"
  unfolding import_user_row_def Let_def account_of_email_def
  by (auto intro!: keeps_rules keeps_resolve keeps_creates import_keeps account_added assms simp: role_from_def)

lemma keeps_unused_slug [import_keeps]: "keeps (I) (unused_slug m en' name key slug)"
proof (induction m arbitrary: slug)
  case (Suc m)
  then show ?case by (subst unused_slug.simps) (auto intro!: keeps_rules import_keeps)
qed (subst unused_slug.simps, auto intro!: keeps_rules)

lemma keeps_drama_row [import_keeps]: "keeps (I) (import_drama_row en prior n row)"
  unfolding import_drama_row_def Let_def by (auto intro!: keeps_and_then keeps_gets keeps_resolve keeps_creates import_keeps)

lemma keeps_season_row [import_keeps]: "keeps (I) (import_season_row en prior n row)"
  unfolding import_season_row_def Let_def
  by (auto intro!: keeps_and_then keeps_gets keeps_require keeps_case_option keeps_resolve keeps_creates import_keeps)

lemma keeps_media_row [import_keeps]:
  assumes "locator \<noteq> []" shows "keeps (I) (import_media_row en key episodeId locator)"
proof -
  have "media_added en (imported_media en key episodeId locator e i)"
    if "aead_ok (me_aead (iv_media en)) \<longrightarrow> length (iv_bytes en n) = 12 \<longrightarrow> locator \<noteq> [] \<longrightarrow>
      open_locator (me_aead (iv_media en)) (me_locatorKey (iv_media en)) e = Some locator" for e i n
    unfolding media_added_def using that assms by (intro exI [of _ locator]) (simp add: imported_media_def)
  then show ?thesis
    unfolding import_media_row_def
    by (cases "mv_apply (iv_run en)") (auto intro!: keeps_and_then keeps_gets keeps_either keeps_ret keeps_import_locator keeps_creates import_keeps)
qed

lemma keeps_episode_row [import_keeps]: "keeps (I) (import_episode_row en prior n row)"
proof -
  have "episode_added (imported_episode en row q m i)" for q m i by (simp add: episode_added_def imported_episode_def)
  moreover have "keeps (I) (case truthy v of None \<Rightarrow> ret () | Some l \<Rightarrow> if b then import_media_row en k e l else ret ())" for v b k e
    by (auto intro!: keeps_ret import_keeps dest: truthy_nonempty split: option.split)
  ultimately show ?thesis
    unfolding import_episode_row_def Let_def
    by (auto intro!: keeps_and_then keeps_gets keeps_require keeps_case_option [of _ "add_skipped _"] keeps_resolve keeps_creates import_keeps)
qed

lemma keeps_group_rows [import_keeps]:
  "keeps (I) (import_group_row en prior n row)" "keeps (I) (import_member_row en prior n row)"
  unfolding import_group_row_def import_member_row_def Let_def
  by (auto intro!: keeps_and_then keeps_gets keeps_ret keeps_pair_option keeps_case_option keeps_resolve keeps_creates import_keeps
    simp: member_added_def date_window_proper)

lemma keeps_grant_row [import_keeps]:
  assumes "(u = None) \<or> (g = None)" shows "keeps (I) (import_grant_row en table n row g u)"
proof (cases "truthy g = None \<and> truthy u = None")
  case True
  then show ?thesis unfolding import_grant_row_def Let_def by (auto intro!: keeps_and_then keeps_gets keeps_case_option import_keeps)
next
  case False
  then have "(u = None) \<noteq> (g = None)" using assms by (cases g; cases u) (auto simp: truthy_def)
  then show ?thesis
    unfolding import_grant_row_def Let_def
    by (cases "mv_apply (iv_run en)")
      (auto intro!: keeps_and_then keeps_gets keeps_ret keeps_either keeps_case_option keeps_creates import_keeps simp: grant_added_def date_window_proper)
qed

lemma keeps_video_rows [import_keeps]:
  "keeps (I) (import_group_video en n row)" "keeps (I) (import_user_video en n row)"
  unfolding import_group_video_def import_user_video_def by (auto intro!: keeps_and_then keeps_gets import_keeps)

lemma keeps_application_rows [import_keeps]:
  "keeps (I) (import_notification_row en prior a n row)" "keeps (I) (import_banner_row en prior n row)"
  "keeps (I) (import_message_row en prior n row)" "keeps (I) (import_release_row en prior n row)"
  unfolding import_notification_row_def import_banner_row_def import_message_row_def import_release_row_def Let_def
  by (auto intro!: keeps_and_then keeps_gets keeps_ret keeps_case_option keeps_resolve keeps_creates import_keeps)

lemma keeps_unrecorded_rows [import_keeps]:
  "keeps (I) (import_trending_row en n row)" "keeps (I) (import_view_row en n row)"
  unfolding import_trending_row_def import_view_row_def Let_def
  by (cases "mv_apply (iv_run en)";
      auto intro!: keeps_and_then keeps_gets keeps_ret keeps_require keeps_either keeps_case_option keeps_pair_option keeps_creates import_keeps)+

lemma keeps_content: "keeps I (import_content en prior a rws)"
  unfolding import_content_def
  by (intro keeps_and_then keeps_import_loop import_keeps) (auto intro!: keeps_ret import_keeps split: option.split)

end

section \<open>What a run leaves\<close>

interpretation run: import_invariant en adm "import_ok en adm t" for en adm t
proof
  show "import_ok en adm t (s\<lparr>is_run := mi_system_update f (is_run s)\<rparr>)"
    if "import_ok en adm t s" "mv_apply (iv_run en)" "system_added en adm (is_system s) (f (is_system s))" for s f
    using that system_added_trans by (auto simp: import_ok_def)
qed (auto simp: import_ok_def)

lemma keeps_import_main: "keeps (import_ok en (rows ''admin'') t) (import_main en rows)"
proof -
  have "keeps (import_ok en (rows ''admin'') t) (set_map ''user'' k i)" for k i
    by (simp add: keeps_def set_map_def import_ok_def)
  then show ?thesis
    unfolding import_main_def import_tables_def
    by (intro keeps_and_then [OF keeps_gets] keeps_expect_truthy)
      (auto intro!: keeps_and_then keeps_gets keeps_require keeps_import_loop run.keeps_admin_row run.keeps_user_row run.keeps_content)
qed

lemma run_import_ok: "run_import en source t = (c, s) \<Longrightarrow> import_ok en (dump_rows (parse_dump source) ''admin'') t s"
proof -
  assume run: "run_import en source t = (c, s)"
  have "import_ok en (dump_rows (parse_dump source) ''admin'') t (new_import t)" by (simp add: import_ok_def new_import_def new_report_def system_added_refl)
  then have "import_ok en (dump_rows (parse_dump source) ''admin'') t (snd (import_main en (dump_rows (parse_dump source)) (new_import t)))" by (rule keeps_apply [OF keeps_import_main])
  moreover have "import_ok en adm t (s\<lparr>is_run := (is_run s)\<lparr>mi_errors := e\<rparr>\<rparr>) = import_ok en adm t s" for adm s e by (simp add: import_ok_def)
  ultimately show ?thesis using run by (auto simp: run_import_def split: prod.splits sum.splits)
qed

end
