(* ===== verification/ImportUsers.thy ===== *)
theory ImportUsers
  imports ImportProps
begin

text \<open>
  That a completed import serves every user of the dump: an account with the e-mail address of the row and the role
  \<open>USER\<close>. The invariant \<open>user_served\<close> interprets \<open>import_invariant\<close>, so that the tables after the users keep it.
\<close>

section \<open>Every user has an account\<close>

text \<open>The user of the dump with this key has an account with this e-mail address, or one of an earlier run, and its role.\<close>

definition user_served :: "migration \<Rightarrow> string \<Rightarrow> string \<Rightarrow> string \<Rightarrow> import_state \<Rightarrow> bool" where
  "user_served t roleId key email s \<longleftrightarrow> (\<exists>i. is_maps s ''user'' key = Some i
     \<and> \<lparr>ur_userId = i, ur_roleId = roleId\<rparr> \<in> set (userRoles (is_core s))
     \<and> ((\<exists>u\<in>set (users (is_core s)). u_id u = i \<and> u_email u = email) \<or> i \<in> lm_targetId ` set (mi_records t)))"

interpretation cov: import_invariant en adm "user_served t roleId key email" for en adm t roleId key email
proof
  show "user_served t roleId key email (s\<lparr>is_run := mi_system_update f (is_run s)\<rparr>)"
    if "user_served t roleId key email s" "mv_apply (iv_run en)" "system_added en adm (is_system s) (f (is_system s))" for s f
    using that(1) system_added_subset [OF that(3)] unfolding user_served_def by fastforce
qed (auto simp: user_served_def)

lemma prior_target: "prior_of recs k = Some i \<Longrightarrow> i \<in> lm_targetId ` set recs"
  unfolding prior_of_def by (drule map_of_SomeD) auto

lemma resolved_account:
  assumes "mv_apply (iv_run en)" and "\<And>i. u_id (f i) = i \<and> u_email (f i) = email"
    and "resolve_record en (prior_of recs) entity table key (account_of_email email) (\<lambda>i. import_user (f i)) s = (Inr x, s')"
  shows "(\<exists>u\<in>set (users (is_core s')). u_id u = fst x \<and> u_email u = email) \<or> fst x \<in> lm_targetId ` set recs"
proof (cases "truthy (prior_of recs (record_key table key entity))")
  case None
  show ?thesis
  proof (cases "find_first (\<lambda>u. u_email u = email) (users (is_core s))")
    case None
    with assms \<open>truthy _ = None\<close> show ?thesis
      by (auto simp: resolve_record_def account_of_email_def import_user_def create_in_def create_row_def write_record_def draw_id_def
        count_entity_row_def on_run_def and_then_Inr create_record_def increment_def new_id_def core_rows_def require_def
        split: if_splits prod.splits simp del: find_first_None)
  next
    case (Some u)
    with assms(3) None find_first_Some [OF Some] show ?thesis
      by (auto simp: resolve_record_def account_of_email_def add_duplicate_def on_run_def and_then_Inr simp del: find_first_None)
  qed
next
  case (Some i)
  then have "prior_of recs (record_key table key entity) = Some i" by (auto simp: truthy_def split: option.splits list.splits)
  with assms(3) Some show ?thesis by (auto simp: resolve_record_def dest: prior_target)
qed

lemma role_ensured:
  assumes "mv_apply (iv_run en)" and "find_first (\<lambda>ro. ro_code ro = code) (roleDefinitions (is_core s)) = Some ro"
    and "ensure_user_role en uid code s = (Inr (), s')"
  shows "\<lparr>ur_userId = uid, ur_roleId = ro_id ro\<rparr> \<in> set (userRoles (is_core s')) \<and> users (is_core s') = users (is_core s) \<and> is_maps s' = is_maps s"
  using assms by (auto simp: ensure_user_role_def Let_def on_run_def require_def core_rows_def split: if_splits simp del: find_first_None)

lemma user_covered:
  assumes ap: "mv_apply (iv_run en)" and h: "truthy (mv_env (iv_run en) ''ARGON2_DUMMY_HASH'') = Some h"
    and ok: "import_ok en adm t s" and role: "find_first (\<lambda>ro. ro_code ro = USER) (roleDefinitions (mi_core t)) = Some ro"
    and run: "import_user_row en (prior_of (mi_records t)) h n row s = (Inr (), s')"
  shows "user_served t (ro_id ro) (source_id row n) (user_email row n) s'"
proof -
  let ?key = "source_id row n"
  let ?f = "\<lambda>i. disabled_user i (case row_text row [''username'', ''name''] of None \<Rightarrow> ''Legacy user '' @ ?key | Some n \<Rightarrow> n)
    (user_email row n) h (short_text row ''profile_image'' 512) (short_text row ''device_token'' 512) (row_date en row ''created_at'')"
  let ?m = "resolve_record en (prior_of (mi_records t)) ''User'' ''users'' ?key (account_of_email (user_email row n)) (\<lambda>i. import_user (?f i))"
  from run obtain x s1 where r: "?m s = (Inr x, s1)"
    and e: "ensure_user_role en (fst x) USER (is_maps_update (\<lambda>m. m(''user'' := (m ''user'')(?key \<mapsto> fst x))) s1) = (Inr (), s')"
    by (auto simp: import_user_row_def Let_def and_then_Inr set_map_def)
  have "keeps (import_ok en adm t) ?m"
    by (auto intro!: run.keeps_resolve run.keeps_creates run.account_added h keeps_gets simp: account_of_email_def)
  from keepsD [OF this ok r] ap have "roleDefinitions (is_core s1) = roleDefinitions (mi_core t)"
    by (auto simp: import_ok_def dest: system_added_roles)
  with role have "find_first (\<lambda>ro. ro_code ro = USER) (roleDefinitions (is_core (is_maps_update m s1))) = Some ro" for m by simp
  note role_ensured [OF ap this e]
  moreover have "(\<exists>u\<in>set (users (is_core s1)). u_id u = fst x \<and> u_email u = user_email row n) \<or> fst x \<in> lm_targetId ` set (mi_records t)"
    by (rule resolved_account [OF ap _ r]) (simp add: disabled_user_def)
  ultimately show ?thesis by (simp add: user_served_def)
qed

lemma users_covered:
  assumes ap: "mv_apply (iv_run en)" and h: "truthy (mv_env (iv_run en) ''ARGON2_DUMMY_HASH'') = Some h"
    and role: "find_first (\<lambda>ro. ro_code ro = USER) (roleDefinitions (mi_core t)) = Some ro"
    and "import_ok en adm t s" and "import_loop (import_user_row en (prior_of (mi_records t)) h) i rows s = (Inr (), s')"
    and "distinct (map (\<lambda>k. source_id (rows ! k) (i + k)) [0..<length rows])"
  shows "\<forall>k<length rows. user_served t (ro_id ro) (source_id (rows ! k) (i + k)) (user_email (rows ! k) (i + k)) s'"
  using assms(4-)
proof (induction rows arbitrary: i s)
  case (Cons row rows)
  then obtain s1 where one: "import_user_row en (prior_of (mi_records t)) h i row s = (Inr (), s1)"
    and rest: "import_loop (import_user_row en (prior_of (mi_records t)) h) (Suc i) rows s1 = (Inr (), s')"
    by (auto simp: and_then_Inr)
  have "keeps (import_ok en adm t) (set_map ''user'' k v)" for k v by (simp add: keeps_def set_map_def import_ok_def)
  then have ok: "import_ok en adm t s1" by (rule keepsD [OF run.keeps_user_row [OF h] Cons.prems(1) one])
  have split: "map (\<lambda>k. source_id ((row # rows) ! k) (i + k)) [0..<length (row # rows)]
      = source_id row i # map (\<lambda>k. source_id (rows ! k) (Suc i + k)) [0..<length rows]"
    by (simp add: upt_conv_Cons map_Suc_upt [symmetric] comp_def del: upt_Suc)
  have new: "source_id row i \<notin> set (map (\<lambda>k. source_id (rows ! k) (Suc i + k)) [0..<length rows])"
    and dist: "distinct (map (\<lambda>k. source_id (rows ! k) (Suc i + k)) [0..<length rows])"
    using Cons.prems(3) unfolding split by simp_all
  have later: "\<forall>k<length rows. user_served t (ro_id ro) (source_id (rows ! k) (Suc i + k)) (user_email (rows ! k) (Suc i + k)) s'"
    by (rule Cons.IH [OF ok rest dist])
  have keep: "keeps (user_served t r key email) (import_loop (import_user_row en p h) j qs)"
    if "\<forall>k<length qs. source_id (qs ! k) (j + k) \<noteq> key" for r key email p j qs
    using that
  proof (induction qs arbitrary: j)
    case (Cons q qs)
    have "keeps (user_served t r key email) (set_map ''user'' (source_id q j) v)" for v
      using Cons.prems [rule_format, of 0] by (auto simp: keeps_def set_map_def user_served_def)
    moreover have "\<forall>k<length qs. source_id (qs ! k) (Suc j + k) \<noteq> key" using Cons.prems by fastforce
    ultimately show ?case using Cons.IH by (auto intro!: keeps_and_then cov.keeps_user_row [OF h])
  qed (simp add: keeps_ret)
  have "user_served t (ro_id ro) (source_id row i) (user_email row i) s1" by (rule user_covered [OF ap h Cons.prems(1) role one])
  moreover have "\<forall>k<length rows. source_id (rows ! k) (Suc i + k) \<noteq> source_id row i" using new by (auto simp: image_iff) (metis atLeast0LessThan lessThan_iff)
  ultimately have "user_served t (ro_id ro) (source_id row i) (user_email row i) s'" using keepsD [OF keep _ rest] by blast
  with later show ?case by (auto simp: nth_Cons split: nat.split)
qed simp

lemma main_covers:
  assumes "mv_apply (iv_run en)" and "import_main en rows (new_import t) = (Inr (), s)"
    and "find_first (\<lambda>ro. ro_code ro = USER) (roleDefinitions (mi_core t)) = Some ro"
    and "distinct (map (\<lambda>k. source_id (rows ''users'' ! k) k) [0..<length (rows ''users'')])" and "n < length (rows ''users'')"
  shows "user_served t (ro_id ro) (source_id (rows ''users'' ! n) n) (user_email (rows ''users'' ! n) n) s"
proof -
  let ?p = "prior_of (mi_records t)"
  have start: "mi_records (is_run (new_import t)) = mi_records t" by (simp add: new_import_def new_report_def)
  from assms(2) obtain h a s1 s2 where h: "truthy (mv_env (iv_run en) ''ARGON2_DUMMY_HASH'') = Some h"
    and adm: "import_loop (import_admin_row en ?p h) 0 (rows ''admin'') (new_import t) = (Inr (), s1)"
    and us: "import_loop (import_user_row en ?p h) 0 (rows ''users'') s1 = (Inr (), s2)"
    and rest: "import_content en ?p a rows s2 = (Inr (), s)"
    by (auto simp: import_main_def import_tables_def and_then_Inr start split: option.splits if_splits)
  have "import_ok en (rows ''admin'') t (new_import t)" by (simp add: import_ok_def new_import_def new_report_def system_added_refl)
  moreover have "keeps (import_ok en (rows ''admin'') t) (import_loop (import_admin_row en ?p h) 0 (rows ''admin''))"
    by (intro keeps_import_loop run.keeps_admin_row [OF h])
  ultimately have "import_ok en (rows ''admin'') t s1" using adm by (blast intro: keepsD)
  from users_covered [OF assms(1) h assms(3) this us] assms(4,5)
  have "user_served t (ro_id ro) (source_id (rows ''users'' ! n) n) (user_email (rows ''users'' ! n) n) s2" by simp
  then show ?thesis using keepsD [OF cov.keeps_content _ rest] by blast
qed

end
