(* ===== verification/ImportRuns.thy ===== *)
theory ImportRuns
  imports ImportUsers
begin

text \<open>
  The claims on the import of a dump, and runs of it on small dumps: what it adds, who can log in afterwards, and the
  cases in which it does not do what it means to.
\<close>

section \<open>Small dumps\<close>

definition demo_import_env :: "bool \<Rightarrow> import_env" where
  "demo_import_env ap = \<lparr>iv_run = \<lparr>mv_runId = ''r'', mv_apply = ap, mv_env = [''ARGON2_DUMMY_HASH'' \<mapsto> ''h''], mv_now = 0,
     mv_uuid = (\<lambda>n. replicate (Suc n) CHR ''i''), mv_source = Map.empty\<rparr>,
     iv_media = demo_env, iv_date = (\<lambda>_. None), iv_bytes = (\<lambda>_. replicate 12 1), iv_attempts = 10\<rparr>"

text \<open>A database with its three roles and an account of a super administrator.\<close>

definition demo_account :: user where
  "demo_account = disabled_user ''a'' ''root'' ''root@x.y'' ''$p'' None None 0"

definition demo_database :: migration where
  "demo_database = \<lparr>mi_system = no_legacy_rows (empty_state\<lparr>users := [demo_account\<lparr>u_status := User_ACTIVE\<rparr>],
       roleDefinitions := map (\<lambda>(i, c). \<lparr>ro_id = i, ro_code = c, ro_name = [], ro_description = None, ro_systemManaged = True\<rparr>)
         [(''r1'', SUPER_ADMIN), (''r2'', ADMIN), (''r3'', USER)],
       userRoles := [\<lparr>ur_userId = ''a'', ur_roleId = ''r1''\<rparr>]\<rparr>),
     mi_records = [], mi_counts = Map.empty, mi_duplicates = [], mi_errors = [], mi_uuids = 0\<rparr>"

definition demo_tables :: "(string \<times> string list \<times> sql_value list list) list" where
  "demo_tables =
     [(''admin'', [''id'', ''admin_email'', ''admin_type''], [[V_number ''1'', V_text ''o@x.y'', V_text ''owner'']]),
      (''users'', [''id'', ''email''], [[V_number ''2'', V_text ''U@x.y''], [V_number ''3'', V_text ''none'']]),
      (''drama'', [''id'', ''name''], [[V_number ''1'', V_text ''D'']]),
      (''season'', [''id'', ''drama_id''], [[V_number ''1'', V_number ''1''], [V_number ''2'', V_number ''9'']]),
      (''episode'', [''id'', ''season_id'', ''video_path''], [[V_number ''1'', V_number ''1'', V_text ''https://h/v.mp4'']]),
      (''user_videos'', [''id'', ''user_id'', ''video_id''], [[V_number ''1'', V_number ''3'', V_number ''1'']])]"

definition demo_dump :: string where
  "demo_dump = concat (map dump_table demo_tables)"

lemma demo_parsed: "parse_dump demo_dump = map table_rows demo_tables"
proof -
  have "integer_literal ''1''" "integer_literal ''2''" "integer_literal ''3''" "integer_literal ''9''" by code_simp+
  then show ?thesis unfolding demo_dump_def
    by (intro dump_read) (simp_all add: demo_tables_def dump_ok_def table_ok_def column_ok_def value_ok_def)
qed

text \<open>What the run adds: accounts, roles, the status of the media, the grants and the records.\<close>

definition demo_outcome :: "nat \<times> import_state \<Rightarrow> bool" where
  "demo_outcome = (\<lambda>(c, s). c = 0 \<and> map u_email (users (is_core s)) = [''root@x.y'', ''o@x.y'', ''u@x.y'', ''legacy-user-3@legacy.invalid'']
     \<and> length (userRoles (is_core s)) = 4 \<and> map ma_status (mediaAssets (is_core s)) = [Media_ACTIVE]
     \<and> length (episodeGrants (is_core s)) = 1 \<and> is_skipped s = [''season:2:drama_not_found''] \<and> length (mi_records (is_run s)) = 8)"

lemma demo_imports: "demo_outcome (run_import (demo_import_env True) demo_dump demo_database)"
  unfolding run_import_def demo_parsed by code_simp

section \<open>What an import leaves\<close>

text \<open>
  C23. Whatever happens, the import only adds permitted rows: the database that a run leaves, one that crashed included, is
  the one it found with new rows behind the old ones of the fifteen tables that it writes. New accounts are disabled and
  have the dummy hash, a new role other than \<open>USER\<close> is that of a row of the table of administrators, new grants and
  memberships have a proper window, and a new media asset that is active has an encrypted locator that opens to an HTTPS
  address of an allowed host. Without \<open>--apply\<close> nothing is written.
\<close>

theorem import_adds_only:
  assumes "run_import en source t = (c, s)"
  shows "if mv_apply (iv_run en)
    then system_added en (dump_rows (parse_dump source) ''admin'') (mi_system t) (is_system s)
      \<and> table_added (\<lambda>r. lm_runId r = mv_runId (iv_run en)) (mi_records t) (mi_records (is_run s))
    else is_system s = mi_system t \<and> mi_records (is_run s) = mi_records t"
  using run_import_ok [OF assms] unfolding import_ok_def .

theorem import_adds_only_witness:
  "\<exists>c s. run_import (demo_import_env True) demo_dump demo_database = (c, s) \<and> c = 0 \<and> length (mi_records (is_run s)) = 8
    \<and> (\<exists>a. mediaAssets (is_core s) = [a] \<and> media_added (demo_import_env True) a \<and> ma_status a = Media_ACTIVE)"
proof -
  obtain c s where r: "run_import (demo_import_env True) demo_dump demo_database = (c, s)" by fastforce
  with demo_imports have out: "demo_outcome (c, s)" by simp
  then obtain a where a: "mediaAssets (is_core s) = [a]" "ma_status a = Media_ACTIVE" by (auto simp: demo_outcome_def)
  have "table_added (media_added (demo_import_env True)) (mediaAssets (mi_core demo_database)) (mediaAssets (is_core s))"
    using import_adds_only [OF r] by (simp add: demo_import_env_def system_added_def core_added_def)
  with a have "media_added (demo_import_env True) a"
    by (simp add: table_added_def demo_database_def no_legacy_rows_def empty_state_def)
  with r a out show ?thesis by (auto simp: demo_outcome_def)
qed

text \<open>
  C24. The import opens no account: whoever logs in after a run, complete or not, logs in to an account from before the
  run, with the password of that account.
\<close>

theorem import_opens_no_account:
  assumes "run_import en source t = (c, s)"
    and "login cf pf rq e pw dev sid tok (is_core s) = (Inr tp, s')"
  shows "\<exists>u. find_login (mi_core t) (normalize_email e) = Some u \<and> find_login (is_core s) (normalize_email e) = Some u
    \<and> pf_argonVerify pf (u_passwordHash u) pw"
proof -
  obtain u where u: "find_login (is_core s) (normalize_email e) = Some u" "login_valid pf (rq_now rq) pw u"
    using login_needs_account [OF assms(2)] by blast
  have "table_added (account_added en) (users (mi_core t)) (users (is_core s))"
    using run_import_ok [OF assms(1)] by (auto simp: import_ok_def system_added_def core_added_def split: if_splits)
  then obtain us where us: "users (is_core s) = users (mi_core t) @ us" "list_all (account_added en) us"
    by (auto simp: table_added_def)
  have "find_login (mi_core t) (normalize_email e) = Some u"
  proof (cases "find_login (mi_core t) (normalize_email e)")
    case None
    with u(1) us(1) have "find_first (\<lambda>u. u_email u = normalize_email e \<and> u_deletedAt u = None) us = Some u"
      by (simp add: find_login_def find_first_append del: find_first_None)
    then have "u \<in> set us" by (auto dest: find_first_Some)
    with us(2) u(2) show ?thesis by (auto simp: list_all_iff account_added_def login_valid_def)
  next
    case (Some v)
    with u(1) us(1) show ?thesis by (simp add: find_login_def find_first_append del: find_first_None)
  qed
  with u show ?thesis by (auto simp: login_valid_def)
qed

theorem import_opens_no_account_witness:
  "\<exists>u. find_login (mi_core demo_database) (normalize_email ''Root@x.y'') = Some u \<and> u_id u = ''a''"
proof -
  obtain c s where r: "run_import (demo_import_env True) demo_dump demo_database = (c, s)" by fastforce
  have added: "system_added (demo_import_env True) (dump_rows (parse_dump demo_dump) ''admin'') (mi_system demo_database) (is_system s)"
    using run_import_ok [OF r] by (simp add: import_ok_def demo_import_env_def)
  have "refreshSessions (core (system_rest (is_system s))) = refreshSessions (core (system_rest (mi_system demo_database)))"
    using added by (simp add: system_added_def)
  then have sessions: "refreshSessions (is_core s) = []"
    by (simp add: system_rest_def core_rest_def demo_database_def no_legacy_rows_def empty_state_def)
  obtain us where "users (is_core s) = users (mi_core demo_database) @ us"
    using added by (auto simp: system_added_def core_added_def table_added_def)
  moreover have email: "normalize_email ''Root@x.y'' = ''root@x.y''" by code_simp
  ultimately have u: "find_login (is_core s) (normalize_email ''Root@x.y'') = Some (demo_account\<lparr>u_status := User_ACTIVE\<rparr>)"
    by (simp add: find_login_def demo_database_def no_legacy_rows_def demo_account_def disabled_user_def)
  have "login_valid demo_platform (rq_now demo_request) ''p'' (demo_account\<lparr>u_status := User_ACTIVE\<rparr>)"
    by code_simp
  from login_accepted [OF u this, of demo_config None "''s1''" "''tok''"] sessions
  obtain tp t where "login demo_config demo_platform demo_request ''Root@x.y'' ''p'' None ''s1'' ''tok'' (is_core s) = (Inr tp, t)"
    by (auto simp: issue_token_pair_apply fresh_session_def)
  from import_opens_no_account [OF r this] u show ?thesis by (auto simp: demo_account_def disabled_user_def)
qed

text \<open>
  C25. A completed import serves every user of the dump: if the rows have different keys and the role \<open>USER\<close> exists, each
  row is mapped to an account that has its e-mail address, or that an earlier run recorded, and that has the role.
\<close>

theorem import_covers_users:
  assumes "run_import en source t = (0, s)" and "mv_apply (iv_run en)"
    and "find_first (\<lambda>ro. ro_code ro = USER) (roleDefinitions (mi_core t)) = Some ro"
    and "rows = dump_rows (parse_dump source) ''users''" and "distinct (map (\<lambda>k. source_id (rows ! k) k) [0..<length rows])"
    and "n < length rows"
  shows "\<exists>i. is_maps s ''user'' (source_id (rows ! n) n) = Some i \<and> \<lparr>ur_userId = i, ur_roleId = ro_id ro\<rparr> \<in> set (userRoles (is_core s))
    \<and> ((\<exists>u\<in>set (users (is_core s)). u_id u = i \<and> u_email u = user_email (rows ! n) n) \<or> i \<in> lm_targetId ` set (mi_records t))"
proof -
  have "import_main en (dump_rows (parse_dump source)) (new_import t) = (Inr (), s)"
    using assms(1) by (auto simp: run_import_def split: prod.splits sum.splits)
  from main_covers [OF assms(2) this assms(3)] assms(4-6) show ?thesis by (simp add: user_served_def)
qed

theorem import_covers_users_witness:
  "\<exists>s i u. run_import (demo_import_env True) demo_dump demo_database = (0, s) \<and> is_maps s ''user'' ''2'' = Some i
    \<and> u \<in> set (users (is_core s)) \<and> u_id u = i \<and> u_email u = ''u@x.y''"
proof -
  let ?rows = "dump_rows (parse_dump demo_dump) ''users''"
  obtain s where r: "run_import (demo_import_env True) demo_dump demo_database = (0, s)"
    using demo_imports by (auto simp: demo_outcome_def split: prod.splits)
  have role: "find_first (\<lambda>ro. ro_code ro = USER) (roleDefinitions (mi_core demo_database))
      = Some \<lparr>ro_id = ''r3'', ro_code = USER, ro_name = [], ro_description = None, ro_systemManaged = True\<rparr>"
    by (simp add: demo_database_def no_legacy_rows_def)
  have rows: "length ?rows = 2 \<and> source_id (?rows ! 0) 0 = ''2'' \<and> source_id (?rows ! 1) 1 = ''3'' \<and> user_email (?rows ! 0) 0 = ''u@x.y''"
    unfolding demo_parsed by code_simp
  then have "distinct (map (\<lambda>k. source_id (?rows ! k) k) [0..<length ?rows])" by (simp add: upt_conv_Cons)
  from import_covers_users [OF r _ role refl this, of 0] rows show ?thesis
    using r by (auto simp: demo_import_env_def demo_database_def)
qed

section \<open>Where the import does not do what it means to\<close>

text \<open>
  Administrators and users are both recorded as \<open>User\<close> under their own id, which the unique key of the records allows
  once per run: if an administrator and a user have the same id, the import aborts, with the account of the user created
  but not recorded.
\<close>

lemma equal_ids_abort:
  "case import_main (demo_import_env True) (dump_rows (map table_rows
       [(''admin'', [''id''], [[V_number ''1'']]), (''users'', [''id''], [[V_number ''1'']])])) (new_import demo_database) of
     (r, s) \<Rightarrow> r = Inl (Internal ''P2002'') \<and> map u_email (users (is_core s)) = [''root@x.y'', ''legacy-admin-1@legacy.invalid'', ''legacy-user-1@legacy.invalid'']
       \<and> length (mi_records (is_run s)) = 1"
  by code_simp

text \<open>
  An account that exists already is not replaced, but it is given the role of the administrator with its e-mail address:
  whoever owns that account becomes an administrator.
\<close>

lemma existing_account_promoted:
  assumes "mv_apply (iv_run en)" and "truthy (prior (record_key ''admin'' (source_id row n) ''User'')) = None"
    and "row_text row [''admin_email'', ''email''] = Some email" and "valid_email email"
    and u: "find_first (\<lambda>u. u_email u = to_lower email) (users (is_core s)) = Some u"
    and ro: "find_first (\<lambda>ro. ro_code ro = admin_role row) (roleDefinitions (is_core s)) = Some ro"
  shows "\<exists>s'. import_admin_row en prior h n row s = (Inr (), s') \<and> users (is_core s') = users (is_core s)
    \<and> \<lparr>ur_userId = u_id u, ur_roleId = ro_id ro\<rparr> \<in> set (userRoles (is_core s'))"
proof -
  have "user_exists (u_id u) (is_system s)" using find_first_Some [OF u] by (auto simp: user_exists_def)
  with assms show ?thesis
    by (auto simp: import_admin_row_def resolve_record_def account_of_email_def legacy_email_def ensure_user_role_def set_map_def
      add_duplicate_def on_run_def and_then_def require_def core_rows_def Let_def user_exists_def simp del: find_first_None first_cell.simps)
qed

text \<open>A view is not looked up among the records of earlier runs: importing the same dump again adds every view again.\<close>

lemma view_added_again:
  assumes "mv_apply (iv_run en)" and "mapped s ''episode'' (ref_key row ''video_id'') = Some e" and "mapped s ''user'' (ref_key row ''user_id'') = Some u"
    and "import_view_row en n row s = (Inr (), s')"
  shows "\<exists>v. lg_views (is_system s') = lg_views (is_system s) @ [v] \<and> vw_episodeId v = e \<and> vw_userId v = u"
  using assms
  by (auto simp: import_view_row_def Let_def and_then_Inr draw_id_def new_id_def on_run_def import_view_def create_in_def create_row_def
    write_record_def create_record_def count_entity_row_def increment_def require_def split: if_splits prod.splits)

end
