(* ===== verification/Validation.thy ===== *)
theory Validation
  imports Http
begin

text \<open>
  The validation of request bodies and queries: the global \<open>ValidationPipe\<close> of \<open>main.ts\<close> (\<open>whitelist\<close>,
  \<open>forbidNonWhitelisted\<close>, \<open>transform\<close>) over the decorators of the DTO classes, which \<open>Dtos\<close> lists.

  The libraries class-validator and class-transformer are parameters, the record \<open>validation\<close>: whether a decorator
  accepts a value, and what \<open>@Type(() => Number)\<close> makes of it. What their documentation promises is \<open>documented\<close>.
\<close>

section \<open>Values and rules\<close>

text \<open>A value of a JSON body or a query: \<open>B_fraction\<close> is a number that is not an integer.\<close>

datatype body_value = B_undefined | B_null | B_string string | B_number int | B_fraction | B_boolean bool
  | B_array "body_value list" | B_object "(string \<times> body_value) list"

type_synonym body = "(string \<times> body_value) list"

text \<open>The regular expressions of the DTO classes.\<close>

datatype pattern = P_device | P_username | P_password | P_slug | P_permission | P_not_url | P_digits

datatype rule = R_string | R_int | R_boolean | R_array | R_object | R_hexadecimal | R_defined | R_email | R_uuid | R_url | R_date
  | R_in "string list" | R_enum "string list" | R_length int int | R_matches pattern | R_min int | R_max int
  | R_array_min int | R_array_max int | R_array_unique | R_each_uuid

definition code_between :: "nat \<Rightarrow> nat \<Rightarrow> char \<Rightarrow> bool" where
  "code_between a b c \<longleftrightarrow> (let n = (of_char c :: nat) in a \<le> n \<and> n \<le> b)"

definition lower_letter :: "char \<Rightarrow> bool" where "lower_letter = code_between 97 122"
definition upper_letter :: "char \<Rightarrow> bool" where "upper_letter = code_between 65 90"
definition decimal_digit :: "char \<Rightarrow> bool" where "decimal_digit = code_between 48 57"

definition word_char :: "char \<Rightarrow> bool" where "word_char c \<longleftrightarrow> lower_letter c \<or> decimal_digit c"

fun split_where :: "(char \<Rightarrow> bool) \<Rightarrow> string \<Rightarrow> string list" where
  "split_where P [] = [[]]"
| "split_where P (c # s) = (if P c then [] # split_where P s
     else case split_where P s of [] \<Rightarrow> [[c]] | p # ps \<Rightarrow> (c # p) # ps)"

definition words :: "(char \<Rightarrow> bool) \<Rightarrow> string \<Rightarrow> bool" where
  "words separator s \<longleftrightarrow> list_all (\<lambda>p. p \<noteq> [] \<and> list_all word_char p) (split_where separator s)"

fun matches :: "pattern \<Rightarrow> string \<Rightarrow> bool" where
  "matches P_device s = (8 \<le> length s \<and> length s \<le> 128 \<and> list_all id_char s)"
| "matches P_username s = (s \<noteq> [] \<and> list_all (\<lambda>c. lower_letter c \<or> upper_letter c \<or> decimal_digit c \<or> c \<in> set '' ._-'') s)"
| "matches P_password s = (s \<noteq> [] \<and> list_all (\<lambda>c. c \<noteq> CHR 0x0A \<and> c \<noteq> CHR 0x0D) s
     \<and> list_ex lower_letter s \<and> list_ex upper_letter s \<and> list_ex decimal_digit s
     \<and> list_ex (\<lambda>c. \<not> lower_letter c \<and> \<not> upper_letter c \<and> \<not> decimal_digit c) s)"
| "matches P_slug s = words (\<lambda>c. c = CHR ''-'') s"
| "matches P_permission s = (words (\<lambda>c. c \<in> set ''._:-'') s \<and> list_ex (\<lambda>c. c \<in> set ''._:-'') s)"
| "matches P_not_url s = (\<not> starts_with (to_lower s) ''http://'' \<and> \<not> starts_with (to_lower s) ''https://'')"
| "matches P_digits s = (s \<noteq> [] \<and> list_all decimal_digit s)"

section \<open>DTO classes\<close>

text \<open>The decorator that converts a value before it is checked: \<open>@Type(() => Number)\<close>, \<open>@Transform(booleanQuery)\<close>.\<close>

datatype conversion = As_is | To_number | Boolean_query

record dto_property =
  dp_name :: string
  dp_optional :: bool
  dp_convert :: conversion
  dp_default :: body_value
  dp_rules :: "rule list"

type_synonym dto = "dto_property list"

definition needed :: "string \<Rightarrow> rule list \<Rightarrow> dto_property" where
  "needed n rules = \<lparr>dp_name = n, dp_optional = False, dp_convert = As_is, dp_default = B_undefined, dp_rules = rules\<rparr>"

definition optional :: "string \<Rightarrow> rule list \<Rightarrow> dto_property" where
  "optional n rules = (needed n rules)\<lparr>dp_optional := True\<rparr>"

definition numeric :: "dto_property \<Rightarrow> dto_property" where
  "numeric p = p\<lparr>dp_convert := To_number\<rparr>"

definition boolean_query :: "dto_property \<Rightarrow> dto_property" where
  "boolean_query p = p\<lparr>dp_convert := Boolean_query\<rparr>"

definition default_to :: "body_value \<Rightarrow> dto_property \<Rightarrow> dto_property" where
  "default_to v p = p\<lparr>dp_default := v\<rparr>"

section \<open>The pipe\<close>

record validation =
  vl_holds :: "rule \<Rightarrow> body_value \<Rightarrow> bool"
  vl_number :: "body_value \<Rightarrow> body_value"
  vl_message :: string

fun convert :: "validation \<Rightarrow> conversion \<Rightarrow> body_value \<Rightarrow> body_value" where
  "convert V As_is v = v"
| "convert V To_number v = vl_number V v"
| "convert V Boolean_query v = (if v = B_string ''true'' then B_boolean True else if v = B_string ''false'' then B_boolean False else v)"

definition property_value :: "validation \<Rightarrow> body \<Rightarrow> dto_property \<Rightarrow> body_value" where
  "property_value V b p = (case map_of b (dp_name p) of None \<Rightarrow> dp_default p | Some v \<Rightarrow> convert V (dp_convert p) v)"

definition property_ok :: "validation \<Rightarrow> dto_property \<Rightarrow> body_value \<Rightarrow> bool" where
  "property_ok V p v \<longleftrightarrow> dp_optional p \<and> (v = B_undefined \<or> v = B_null) \<or> list_all (\<lambda>r. vl_holds V r v) (dp_rules p)"

definition accept :: "validation \<Rightarrow> dto \<Rightarrow> body \<Rightarrow> body option" where
  "accept V d b = (if list_all (\<lambda>(k, v). k \<in> dp_name ` set d) b \<and> list_all (\<lambda>p. property_ok V p (property_value V b p)) d
     then Some (map (\<lambda>p. (dp_name p, property_value V b p)) d) else None)"

text \<open>A handler behind the pipe.\<close>

definition with_body :: "validation \<Rightarrow> dto \<Rightarrow> body \<Rightarrow> (body \<Rightarrow> ('s, 'a) prog) \<Rightarrow> ('s, 'a) prog" where
  "with_body V d b handler = (case accept V d b of None \<Rightarrow> throw (BadRequest (vl_message V)) | Some x \<Rightarrow> handler x)"

section \<open>What the libraries promise\<close>

definition documented :: "validation \<Rightarrow> bool" where
  "documented V \<longleftrightarrow>
     (\<forall>v. vl_holds V R_string v \<longleftrightarrow> (\<exists>s. v = B_string s)) \<and> (\<forall>v. vl_holds V R_int v \<longleftrightarrow> (\<exists>i. v = B_number i))
     \<and> (\<forall>v. vl_holds V R_boolean v \<longleftrightarrow> (\<exists>b. v = B_boolean b))
     \<and> (\<forall>v xs. vl_holds V (R_in xs) v \<longleftrightarrow> (\<exists>s\<in>set xs. v = B_string s)) \<and> (\<forall>v xs. vl_holds V (R_enum xs) v \<longleftrightarrow> (\<exists>s\<in>set xs. v = B_string s))
     \<and> (\<forall>v a b. vl_holds V (R_length a b) v \<longleftrightarrow> (\<exists>s. v = B_string s \<and> a \<le> int (length s) \<and> int (length s) \<le> b))
     \<and> (\<forall>v p. vl_holds V (R_matches p) v \<longleftrightarrow> (\<exists>s. v = B_string s \<and> matches p s))
     \<and> (\<forall>n i. vl_holds V (R_min n) (B_number i) \<longleftrightarrow> n \<le> i) \<and> (\<forall>n i. vl_holds V (R_max n) (B_number i) \<longleftrightarrow> i \<le> n)
     \<and> (\<forall>v. vl_holds V R_email v \<longrightarrow> (\<exists>s. v = B_string s \<and> length s \<le> 320))
     \<and> (\<forall>v. vl_holds V R_uuid v \<longrightarrow> (\<exists>s. v = B_string s)) \<and> (\<forall>v. vl_holds V R_date v \<longrightarrow> (\<exists>s. v = B_string s))
     \<and> (\<forall>s. vl_number V (B_string s) = B_fraction \<or> (\<exists>i. vl_number V (B_string s) = B_number i))"

text \<open>An instance to run the model on, with simple formats.\<close>

definition text_with :: "(string \<Rightarrow> bool) \<Rightarrow> body_value \<Rightarrow> bool" where
  "text_with P v \<longleftrightarrow> (case v of B_string s \<Rightarrow> P s | _ \<Rightarrow> False)"

definition number_with :: "(int \<Rightarrow> bool) \<Rightarrow> body_value \<Rightarrow> bool" where
  "number_with P v \<longleftrightarrow> (case v of B_number i \<Rightarrow> P i | _ \<Rightarrow> False)"

definition array_with :: "(body_value list \<Rightarrow> bool) \<Rightarrow> body_value \<Rightarrow> bool" where
  "array_with P v \<longleftrightarrow> (case v of B_array xs \<Rightarrow> P xs | _ \<Rightarrow> False)"

fun plain_rule :: "rule \<Rightarrow> body_value \<Rightarrow> bool" where
  "plain_rule R_string v = text_with (\<lambda>_. True) v"
| "plain_rule R_int v = number_with (\<lambda>_. True) v"
| "plain_rule R_boolean v = (v = B_boolean True \<or> v = B_boolean False)"
| "plain_rule R_array v = array_with (\<lambda>_. True) v"
| "plain_rule R_object v = (case v of B_object xs \<Rightarrow> True | _ \<Rightarrow> False)"
| "plain_rule R_hexadecimal v = text_with (\<lambda>s. s \<noteq> [] \<and> list_all (\<lambda>c. decimal_digit c \<or> code_between 97 102 c \<or> code_between 65 70 c) s) v"
| "plain_rule R_defined v = (v \<noteq> B_undefined \<and> v \<noteq> B_null)"
| "plain_rule R_email v = text_with (\<lambda>s. CHR ''@'' \<in> set s \<and> length s \<le> 254) v"
| "plain_rule R_uuid v = text_with (\<lambda>s. length s = 36) v"
| "plain_rule R_url v = text_with (\<lambda>s. starts_with s ''https://'') v"
| "plain_rule R_date v = text_with (\<lambda>s. 10 \<le> length s) v"
| "plain_rule (R_in xs) v = text_with (\<lambda>s. s \<in> set xs) v"
| "plain_rule (R_enum xs) v = text_with (\<lambda>s. s \<in> set xs) v"
| "plain_rule (R_length a b) v = text_with (\<lambda>s. a \<le> int (length s) \<and> int (length s) \<le> b) v"
| "plain_rule (R_matches p) v = text_with (matches p) v"
| "plain_rule (R_min n) v = number_with (\<lambda>i. n \<le> i) v"
| "plain_rule (R_max n) v = number_with (\<lambda>i. i \<le> n) v"
| "plain_rule (R_array_min n) v = array_with (\<lambda>xs. n \<le> int (length xs)) v"
| "plain_rule (R_array_max n) v = array_with (\<lambda>xs. int (length xs) \<le> n) v"
| "plain_rule R_array_unique v = array_with distinct v"
| "plain_rule R_each_uuid v = array_with (list_all (text_with (\<lambda>s. length s = 36))) v"

fun plain_number :: "body_value \<Rightarrow> body_value" where
  "plain_number (B_string s) = (if s \<noteq> [] \<and> list_all decimal_digit s
     then B_number (foldl (\<lambda>n c. n * 10 + (of_char c - 48)) 0 s) else B_fraction)"
| "plain_number v = v"

definition plain_validation :: validation where
  "plain_validation = \<lparr>vl_holds = plain_rule, vl_number = plain_number, vl_message = ''Bad Request''\<rparr>"

lemma plain_documented: "documented plain_validation"
proof -
  have "plain_rule R_string v \<longleftrightarrow> (\<exists>s. v = B_string s)" "plain_rule R_int v \<longleftrightarrow> (\<exists>i. v = B_number i)"
    "plain_rule R_boolean v \<longleftrightarrow> (\<exists>b. v = B_boolean b)"
    "plain_rule (R_in xs) v \<longleftrightarrow> (\<exists>s\<in>set xs. v = B_string s)" "plain_rule (R_enum xs) v \<longleftrightarrow> (\<exists>s\<in>set xs. v = B_string s)"
    "plain_rule (R_length a b) v \<longleftrightarrow> (\<exists>s. v = B_string s \<and> a \<le> int (length s) \<and> int (length s) \<le> b)"
    "plain_rule (R_matches p) v \<longleftrightarrow> (\<exists>s. v = B_string s \<and> matches p s)"
    "plain_rule R_email v \<longrightarrow> (\<exists>s. v = B_string s \<and> length s \<le> 320)"
    "plain_rule R_uuid v \<longrightarrow> (\<exists>s. v = B_string s)" "plain_rule R_date v \<longrightarrow> (\<exists>s. v = B_string s)" for v xs a b p
    by (cases v; simp add: text_with_def number_with_def)+
  then show ?thesis by (auto simp: documented_def plain_validation_def number_with_def)
qed

lemma accept_Some:
  "accept V d b = Some x \<longleftrightarrow> list_all (\<lambda>(k, v). k \<in> dp_name ` set d) b \<and> list_all (\<lambda>p. property_ok V p (property_value V b p)) d
    \<and> x = map (\<lambda>p. (dp_name p, property_value V b p)) d"
  by (auto simp: accept_def)

text \<open>An accepted property has passed its rules, or is optional and was left out.\<close>

lemma accepted_value:
  assumes "accept V d b = Some x" and "p \<in> set d" and "distinct (map dp_name d)"
  shows "\<exists>v. map_of x (dp_name p) = Some v \<and> property_ok V p v"
proof -
  have "map_of (map (\<lambda>p. (dp_name p, f p)) d) (dp_name p) = Some (f p)" for f :: "dto_property \<Rightarrow> body_value"
    using assms(2,3) by (intro map_of_is_SomeI) (auto simp: comp_def)
  with assms(1,2) show ?thesis by (auto simp: accept_Some list_all_iff)
qed

text \<open>Nothing else reaches the handler.\<close>

lemma accepted_keys: "accept V d b = Some x \<Longrightarrow> map fst x = map dp_name d"
  by (auto simp: accept_Some)

end
