(* ===== verification/Dtos.thy ===== *)
theory Dtos
  imports Validation
begin

text \<open>
  The DTO classes of all controllers with their decorators, in the order of the source: \<open>needed\<close> or \<open>optional\<close> (with
  \<open>@IsOptional\<close>), the property and its rules; \<open>numeric\<close> is \<open>@Type(() => Number)\<close>, \<open>boolean_query\<close> is
  \<open>@Transform(booleanQuery)\<close>, and \<open>default_to\<close> the value of the property initialiser. \<open>extends\<close> is \<open>@\<close>.
\<close>

section \<open>\<open>common/pagination/page.dto.ts\<close>\<close>

definition PageQueryDto :: dto where
  "PageQueryDto =
    [default_to (B_number 1) (numeric (optional ''page'' [R_int, R_min 1])),
     default_to (B_number 25) (numeric (optional ''limit'' [R_int, R_min 1, R_max 100]))]"

section \<open>\<open>auth/dto/login.dto.ts\<close>\<close>

definition LoginDto :: dto where
  "LoginDto =
    [needed ''email'' [R_email],
     needed ''password'' [R_string, R_length 12 128],
     optional ''deviceId'' [R_string, R_matches P_device]]"

definition RegisterDto :: dto where
  "RegisterDto =
    [needed ''username'' [R_string, R_length 2 80, R_matches P_username],
     needed ''email'' [R_email],
     needed ''password'' [R_string, R_length 12 128, R_matches P_password],
     optional ''deviceId'' [R_string, R_matches P_device]]"

definition RefreshTokenDto :: dto where
  "RefreshTokenDto =
    [needed ''refreshToken'' [R_string, R_length 40 256]]"

definition ChangePasswordDto :: dto where
  "ChangePasswordDto =
    [needed ''currentPassword'' [R_string, R_length 12 128],
     needed ''newPassword'' [R_string, R_length 12 128, R_matches P_password]]"

definition DeviceRegistrationDto :: dto where
  "DeviceRegistrationDto =
    [needed ''deviceId'' [R_string, R_matches P_device],
     needed ''fingerprint'' [R_string, R_length 16 512],
     optional ''deviceName'' [R_string, R_length 1 160],
     optional ''deviceToken'' [R_string, R_length 1 512]]"

definition SessionIdDto :: dto where
  "SessionIdDto =
    [needed ''id'' [R_uuid]]"

section \<open>\<open>users/dto/user.dto.ts\<close>\<close>

definition CreateUserDto :: dto where
  "CreateUserDto =
    [needed ''username'' [R_string, R_length 2 80, R_matches P_username],
     needed ''email'' [R_email],
     needed ''password'' [R_string, R_length 12 128, R_matches P_password],
     optional ''role'' [R_enum [''SUPER_ADMIN'', ''ADMIN'', ''SUB_ADMIN'', ''MODERATOR'', ''USER'']]]"

definition UpdateProfileDto :: dto where
  "UpdateProfileDto =
    [optional ''username'' [R_string, R_length 2 80, R_matches P_username],
     optional ''email'' [R_email],
     optional ''profileImageKey'' [R_string, R_length 1 512]]"

definition UpdateStatusDto :: dto where
  "UpdateStatusDto =
    [needed ''status'' [R_enum [''ACTIVE'', ''SUSPENDED'', ''DISABLED'']]]"

definition ListUsersDto :: dto where
  "ListUsersDto =
    PageQueryDto @
    [optional ''search'' [R_string, R_length 1 100],
     optional ''status'' [R_enum [''ACTIVE'', ''SUSPENDED'', ''DISABLED'']],
     optional ''role'' [R_enum [''SUPER_ADMIN'', ''ADMIN'', ''SUB_ADMIN'', ''MODERATOR'', ''USER'']]]"

section \<open>\<open>rbac/dto/rbac.dto.ts\<close>\<close>

definition CreateRoleDto :: dto where
  "CreateRoleDto =
    [needed ''code'' [R_enum [''SUPER_ADMIN'', ''ADMIN'', ''SUB_ADMIN'', ''MODERATOR'', ''USER'']],
     needed ''name'' [R_string, R_length 2 80],
     optional ''description'' [R_string, R_length 1 255]]"

definition UpdateRoleDto :: dto where
  "UpdateRoleDto =
    [optional ''name'' [R_string, R_length 2 80],
     optional ''description'' [R_string, R_length 1 255]]"

definition CreatePermissionDto :: dto where
  "CreatePermissionDto =
    [needed ''code'' [R_string, R_length 3 120, R_matches P_permission],
     optional ''description'' [R_string, R_length 1 255]]"

definition UpdatePermissionDto :: dto where
  "UpdatePermissionDto =
    [optional ''description'' [R_string, R_length 1 255]]"

definition AssignRoleDto :: dto where
  "AssignRoleDto =
    [needed ''role'' [R_enum [''SUPER_ADMIN'', ''ADMIN'', ''SUB_ADMIN'', ''MODERATOR'', ''USER'']]]"

definition AssignPermissionDto :: dto where
  "AssignPermissionDto =
    [needed ''permissionId'' [R_uuid],
     optional ''granted'' [R_boolean]]"

definition AssignRolePermissionDto :: dto where
  "AssignRolePermissionDto =
    [needed ''permissionId'' [R_uuid]]"

section \<open>\<open>subscriptions/dto/subscription.dto.ts\<close>\<close>

definition CreatePlanDto :: dto where
  "CreatePlanDto =
    [needed ''code'' [R_string, R_length 2 50],
     needed ''name'' [R_string, R_length 2 120],
     needed ''pricePkr'' [R_int, R_min 1],
     needed ''durationDays'' [R_int, R_min 1]]"

definition UpdatePlanDto :: dto where
  "UpdatePlanDto =
    [optional ''name'' [R_string, R_length 2 120],
     optional ''pricePkr'' [R_int, R_min 1],
     optional ''durationDays'' [R_int, R_min 1],
     optional ''isActive'' [R_boolean]]"

definition CreateSubscriptionDto :: dto where
  "CreateSubscriptionDto =
    [needed ''userId'' [R_uuid],
     needed ''planId'' [R_uuid],
     optional ''note'' [R_string, R_length 1 500]]"

definition PaymentDto :: dto where
  "PaymentDto =
    [needed ''userId'' [R_uuid],
     optional ''planId'' [R_uuid],
     needed ''amountPkr'' [R_int, R_min 0],
     needed ''method'' [R_enum [''CASH'', ''BANK_TRANSFER'', ''EASYPaisa'', ''JAZZCASH'', ''OTHER'']],
     optional ''reference'' [R_string, R_length 1 160],
     optional ''proofKey'' [R_string, R_length 1 512],
     optional ''note'' [R_string, R_length 1 500],
     optional ''paidAt'' [R_date]]"

definition ExtendSubscriptionDto :: dto where
  "ExtendSubscriptionDto =
    [needed ''days'' [R_int, R_min 1],
     optional ''note'' [R_string, R_length 1 500]]"

definition CancelSubscriptionDto :: dto where
  "CancelSubscriptionDto =
    [optional ''note'' [R_string, R_length 1 500]]"

definition SubscriptionHistoryQueryDto :: dto where
  "SubscriptionHistoryQueryDto =
    PageQueryDto @
    [optional ''userId'' [R_uuid]]"

section \<open>\<open>access/dto/access.dto.ts\<close>\<close>

definition CreateGroupDto :: dto where
  "CreateGroupDto =
    [needed ''name'' [R_string, R_length 2 120]]"

definition UpdateGroupDto :: dto where
  "UpdateGroupDto =
    [needed ''name'' [R_string, R_length 2 120]]"

definition GroupMemberDto :: dto where
  "GroupMemberDto =
    [needed ''userId'' [R_uuid],
     needed ''startsAt'' [R_date],
     needed ''endsAt'' [R_date],
     optional ''comment'' [R_string, R_length 1 5000],
     optional ''subscription'' [R_boolean]]"

definition DirectGrantDto :: dto where
  "DirectGrantDto =
    [needed ''userId'' [R_uuid],
     needed ''episodeId'' [R_uuid],
     needed ''startsAt'' [R_date],
     needed ''endsAt'' [R_date],
     optional ''note'' [R_string, R_length 1 500]]"

definition GroupGrantDto :: dto where
  "GroupGrantDto =
    [needed ''groupId'' [R_uuid],
     needed ''episodeId'' [R_uuid],
     needed ''startsAt'' [R_date],
     needed ''endsAt'' [R_date],
     optional ''note'' [R_string, R_length 1 500]]"

definition BulkDirectGrantDto :: dto where
  "BulkDirectGrantDto =
    [needed ''userId'' [R_uuid],
     needed ''episodeIds'' [R_array, R_array_unique, R_array_max 500, R_each_uuid],
     needed ''startsAt'' [R_date],
     needed ''endsAt'' [R_date],
     optional ''note'' [R_string, R_length 1 500]]"

definition BulkGroupGrantDto :: dto where
  "BulkGroupGrantDto =
    [needed ''groupId'' [R_uuid],
     needed ''episodeIds'' [R_array, R_array_unique, R_array_max 500, R_each_uuid],
     needed ''startsAt'' [R_date],
     needed ''endsAt'' [R_date],
     optional ''note'' [R_string, R_length 1 500]]"

definition AccessListDto :: dto where
  "AccessListDto =
    PageQueryDto @
    [optional ''search'' [R_string, R_length 1 100],
     optional ''episodeId'' [R_uuid],
     optional ''userId'' [R_uuid],
     optional ''groupId'' [R_uuid]]"

section \<open>\<open>content/dto/content-query.dto.ts\<close>\<close>

definition ContentListQueryDto :: dto where
  "ContentListQueryDto =
    PageQueryDto @
    [optional ''search'' [R_string, R_length 1 100],
     default_to (B_string ''createdAt'') (optional ''sort'' [R_string, R_in [''name'', ''slug'', ''title'', ''seasonNumber'', ''episodeNumber'', ''createdAt'', ''updatedAt'', ''version'']]),
     default_to (B_string ''desc'') (optional ''order'' [R_string, R_in [''asc'', ''desc'']]),
     boolean_query (optional ''includeDeleted'' [R_boolean])]"

definition DramaListQueryDto :: dto where
  "DramaListQueryDto =
    ContentListQueryDto @
    [boolean_query (optional ''published'' [R_boolean])]"

definition SeasonListQueryDto :: dto where
  "SeasonListQueryDto =
    ContentListQueryDto @
    [optional ''dramaId'' [R_uuid]]"

definition EpisodeListQueryDto :: dto where
  "EpisodeListQueryDto =
    ContentListQueryDto @
    [optional ''seasonId'' [R_uuid],
     optional ''dramaId'' [R_uuid],
     boolean_query (optional ''published'' [R_boolean]),
     optional ''visibility'' [R_enum [''PUBLIC'', ''PRIVATE'']],
     boolean_query (optional ''premium'' [R_boolean]),
     optional ''status'' [R_enum [''DRAFT'', ''PUBLISHED'', ''ARCHIVED'']]]"

definition MediaAssetListQueryDto :: dto where
  "MediaAssetListQueryDto =
    ContentListQueryDto @
    [optional ''episodeId'' [R_uuid],
     optional ''status'' [R_enum [''PROCESSING'', ''ACTIVE'', ''INACTIVE'', ''ERROR'']],
     optional ''mediaType'' [R_enum [''MP4'', ''HLS'', ''DASH'', ''OTHER'']]]"

definition BulkIdsDto :: dto where
  "BulkIdsDto =
    [needed ''ids'' [R_array, R_array_min 1, R_array_max 100, R_each_uuid]]"

section \<open>\<open>dramas/dto/drama.dto.ts\<close>\<close>

definition CreateDramaDto :: dto where
  "CreateDramaDto =
    [needed ''name'' [R_string, R_length 2 200],
     needed ''slug'' [R_string, R_length 2 220, R_matches P_slug],
     optional ''dramaNumber'' [R_int, R_min 0],
     optional ''totalSeasons'' [R_int, R_min 0],
     optional ''description'' [R_string, R_length 1 10000],
     optional ''thumbnailKey'' [R_string, R_length 1 512],
     optional ''isPublished'' [R_boolean]]"

definition UpdateDramaDto :: dto where
  "UpdateDramaDto =
    [optional ''name'' [R_string, R_length 2 200],
     optional ''slug'' [R_string, R_length 2 220, R_matches P_slug],
     optional ''dramaNumber'' [R_int, R_min 0],
     optional ''totalSeasons'' [R_int, R_min 0],
     optional ''description'' [R_string, R_length 1 10000],
     optional ''thumbnailKey'' [R_string, R_length 1 512],
     optional ''isPublished'' [R_boolean]]"

section \<open>\<open>seasons/dto/season.dto.ts\<close>\<close>

definition CreateSeasonDto :: dto where
  "CreateSeasonDto =
    [needed ''dramaId'' [R_uuid],
     needed ''seasonNumber'' [R_int, R_min 1],
     optional ''title'' [R_string, R_length 1 200],
     optional ''totalEpisodes'' [R_int, R_min 0],
     optional ''thumbnailKey'' [R_string, R_length 1 512]]"

definition UpdateSeasonDto :: dto where
  "UpdateSeasonDto =
    [optional ''dramaId'' [R_uuid],
     optional ''seasonNumber'' [R_int, R_min 1],
     optional ''title'' [R_string, R_length 1 200],
     optional ''totalEpisodes'' [R_int, R_min 0],
     optional ''thumbnailKey'' [R_string, R_length 1 512]]"

section \<open>\<open>episodes/dto/episode.dto.ts\<close>\<close>

definition CreateEpisodeDto :: dto where
  "CreateEpisodeDto =
    [needed ''seasonId'' [R_uuid],
     needed ''episodeNumber'' [R_int, R_min 1],
     optional ''title'' [R_string, R_length 1 200],
     optional ''description'' [R_string, R_length 1 10000],
     optional ''thumbnailKey'' [R_string, R_length 1 512],
     optional ''isPublished'' [R_boolean],
     optional ''visibility'' [R_enum [''PUBLIC'', ''PRIVATE'']],
     optional ''isPremium'' [R_boolean],
     optional ''downloadAccess'' [R_enum [''GALLERY'', ''APP_STORAGE'', ''BOTH'', ''NEVER'']],
     optional ''status'' [R_enum [''DRAFT'', ''PUBLISHED'', ''ARCHIVED'']]]"

definition UpdateEpisodeDto :: dto where
  "UpdateEpisodeDto =
    [optional ''seasonId'' [R_uuid],
     optional ''episodeNumber'' [R_int, R_min 1],
     optional ''title'' [R_string, R_length 1 200],
     optional ''description'' [R_string, R_length 1 10000],
     optional ''thumbnailKey'' [R_string, R_length 1 512],
     optional ''isPublished'' [R_boolean],
     optional ''visibility'' [R_enum [''PUBLIC'', ''PRIVATE'']],
     optional ''isPremium'' [R_boolean],
     optional ''downloadAccess'' [R_enum [''GALLERY'', ''APP_STORAGE'', ''BOTH'', ''NEVER'']],
     optional ''status'' [R_enum [''DRAFT'', ''PUBLISHED'', ''ARCHIVED'']]]"

section \<open>\<open>media-assets/dto/media-asset.dto.ts\<close>\<close>

definition CreateMediaAssetDto :: dto where
  "CreateMediaAssetDto =
    [needed ''episodeId'' [R_uuid],
     needed ''mediaType'' [R_enum [''MP4'', ''HLS'', ''DASH'', ''OTHER'']],
     needed ''provider'' [R_string, R_length 2 80],
     needed ''encryptedLocator'' [R_string, R_length 8 10000, R_matches P_not_url],
     optional ''checksum'' [R_hexadecimal, R_length 64 64],
     optional ''status'' [R_enum [''PROCESSING'', ''ACTIVE'', ''INACTIVE'', ''ERROR'']],
     optional ''metadata'' [R_object],
     optional ''version'' [R_int, R_min 1],
     optional ''durationSeconds'' [R_int, R_min 0],
     optional ''sizeBytes'' [R_string, R_matches P_digits]]"

definition UpdateMediaAssetDto :: dto where
  "UpdateMediaAssetDto =
    [optional ''mediaType'' [R_enum [''MP4'', ''HLS'', ''DASH'', ''OTHER'']],
     optional ''provider'' [R_string, R_length 2 80],
     optional ''encryptedLocator'' [R_string, R_length 8 10000, R_matches P_not_url],
     optional ''checksum'' [R_hexadecimal, R_length 64 64],
     optional ''status'' [R_enum [''PROCESSING'', ''ACTIVE'', ''INACTIVE'', ''ERROR'']],
     optional ''metadata'' [R_object],
     optional ''version'' [R_int, R_min 1],
     optional ''durationSeconds'' [R_int, R_min 0],
     optional ''sizeBytes'' [R_string, R_matches P_digits]]"

section \<open>\<open>playback/dto/playback.dto.ts\<close>\<close>

definition PlaybackDeviceDto :: dto where
  "PlaybackDeviceDto =
    [needed ''deviceId'' [R_string, R_matches P_device],
     needed ''fingerprint'' [R_string, R_length 16 512]]"

definition HeartbeatDto :: dto where
  "HeartbeatDto =
    [needed ''deviceId'' [R_string, R_matches P_device],
     needed ''fingerprint'' [R_string, R_length 16 512],
     needed ''positionSeconds'' [R_int, R_min 0, R_max 86400],
     optional ''bufferedSeconds'' [R_int, R_min 0, R_max 86400]]"

definition StopPlaybackDto :: dto where
  "StopPlaybackDto = PlaybackDeviceDto"

definition PlaybackHistoryQueryDto :: dto where
  "PlaybackHistoryQueryDto =
    PageQueryDto @
    [optional ''episodeId'' [R_uuid]]"

section \<open>\<open>support-chat/dto/support-chat.dto.ts\<close>\<close>

definition SupportMessageQueryDto :: dto where
  "SupportMessageQueryDto =
    [default_to (B_number 1) (numeric (optional ''page'' [R_int, R_min 1])),
     default_to (B_number 40) (numeric (optional ''limit'' [R_int, R_min 1, R_max 100]))]"

definition SupportConversationQueryDto :: dto where
  "SupportConversationQueryDto =
    SupportMessageQueryDto @
    [optional ''search'' [R_string, R_length 1 120],
     optional ''status'' [R_in [''OPEN'', ''WAITING'', ''RESOLVED'', ''BLOCKED'', ''UNREAD'']],
     optional ''sort'' [R_in [''newest'', ''oldest'']]]"

definition CreateSupportMessageDto :: dto where
  "CreateSupportMessageDto =
    [optional ''text'' [R_string, R_length 1 5000],
     optional ''message'' [R_string, R_length 1 5000],
     optional ''messageType'' [R_in [''TEXT'', ''IMAGE'', ''VIDEO'', ''VOICE'', ''FILE'']],
     optional ''mediaUrl'' [R_string, R_length 1 2048],
     optional ''thumbnail'' [R_string, R_length 1 2048],
     optional ''mimeType'' [R_string, R_length 1 160],
     optional ''originalName'' [R_string, R_length 1 255],
     numeric (optional ''fileSize'' [R_int, R_min 1]),
     numeric (optional ''voiceDuration'' [R_int, R_min 1]),
     optional ''replyToMessageId'' [R_uuid]]"

definition UpdateSupportConversationStatusDto :: dto where
  "UpdateSupportConversationStatusDto =
    [needed ''status'' [R_in [''OPEN'', ''WAITING'', ''RESOLVED'', ''BLOCKED'']]]"

definition SupportTypingDto :: dto where
  "SupportTypingDto =
    [needed ''conversationId'' [R_uuid],
     optional ''state'' [R_in [''typing'', ''stop'']]]"

section \<open>\<open>uploads/uploads.dto.ts\<close>\<close>

definition InitUploadDto :: dto where
  "InitUploadDto =
    [needed ''purpose'' [R_in [''episode_video'', ''thumbnail'', ''notification_image'', ''banner'', ''apk'', ''support_attachment'']],
     optional ''targetId'' [R_uuid],
     needed ''originalName'' [R_string],
     needed ''mimeType'' [R_string],
     needed ''sizeBytes'' [R_int, R_min 1, R_max 20000000000],
     needed ''totalChunks'' [R_int, R_min 1, R_max 10000]]"

definition UploadChunkDto :: dto where
  "UploadChunkDto =
    [numeric (needed ''chunkIndex'' [R_int, R_min 0, R_max 10000])]"

section \<open>\<open>admin-tools/admin-tools.dto.ts\<close>\<close>

definition FirebaseTestDto :: dto where
  "FirebaseTestDto =
    [needed ''userId'' [R_uuid],
     needed ''title'' [R_string, R_length 1 120],
     needed ''message'' [R_string, R_length 1 1000]]"

definition DrmValidationDto :: dto where
  "DrmValidationDto =
    [optional ''licenseUrl'' [R_url]]"

section \<open>\<open>common/audit/audit.dto.ts\<close>\<close>

definition AuditListDto :: dto where
  "AuditListDto =
    PageQueryDto @
    [optional ''search'' [R_string, R_length 1 120],
     optional ''outcome'' [R_in [''SUCCESS'', ''DENIED'', ''ERROR'']]]"

section \<open>\<open>legacy/legacy.dto.ts\<close>\<close>

definition LegacyListDto :: dto where
  "LegacyListDto =
    PageQueryDto @
    [optional ''search'' [R_string, R_length 1 100],
     default_to (B_string ''createdAt'') (optional ''sort'' [R_string, R_in [''createdAt'', ''updatedAt'', ''position'', ''status'']]),
     default_to (B_string ''desc'') (optional ''order'' [R_string, R_in [''asc'', ''desc'']])]"

definition CreateNotificationDto :: dto where
  "CreateNotificationDto =
    [needed ''title'' [R_string, R_length 1 255],
     needed ''message'' [R_string, R_length 1 10000],
     optional ''imageKey'' [R_string, R_length 1 512]]"

definition UpdateNotificationDto :: dto where
  "UpdateNotificationDto = CreateNotificationDto"

definition MessageListDto :: dto where
  "MessageListDto =
    LegacyListDto @
    [optional ''status'' [R_in [''unread'', ''read'']]]"

definition SendAdminNotificationDto :: dto where
  "SendAdminNotificationDto =
    [needed ''message'' [R_string, R_length 1 10000]]"

definition MobileSupportMessageDto :: dto where
  "MobileSupportMessageDto =
    [needed ''message'' [R_string, R_length 1 4000]]"

definition AccountDeletionRequestDto :: dto where
  "AccountDeletionRequestDto =
    [optional ''reason'' [R_string, R_length 1 2000]]"

definition ReviewAccountDeletionRequestDto :: dto where
  "ReviewAccountDeletionRequestDto =
    [needed ''status'' [R_in [''approved'', ''rejected'']],
     optional ''adminNote'' [R_string, R_length 1 5000]]"

definition AdminRoleDto :: dto where
  "AdminRoleDto =
    [needed ''role'' [R_enum [''SUPER_ADMIN'', ''ADMIN'', ''SUB_ADMIN'', ''MODERATOR'', ''USER'']]]"

definition CreateAdminDto :: dto where
  "CreateAdminDto =
    [needed ''username'' [R_string, R_length 2 80],
     needed ''email'' [R_email],
     needed ''password'' [R_string, R_length 12 128],
     needed ''role'' [R_enum [''SUPER_ADMIN'', ''ADMIN'', ''SUB_ADMIN'', ''MODERATOR'', ''USER'']]]"

definition SendMessageDto :: dto where
  "SendMessageDto =
    [needed ''userId'' [R_uuid],
     needed ''message'' [R_string, R_length 1 10000]]"

definition SendGroupMessageDto :: dto where
  "SendGroupMessageDto =
    [needed ''groupId'' [R_uuid],
     needed ''message'' [R_string, R_length 1 10000]]"

definition MarkMessageDto :: dto where
  "MarkMessageDto =
    [optional ''messageId'' [R_uuid]]"

definition CreateBannerDto :: dto where
  "CreateBannerDto =
    [optional ''imageKey'' [R_string, R_length 1 512],
     optional ''videoKey'' [R_string, R_length 1 512],
     optional ''isActive'' [R_boolean]]"

definition UpdateBannerDto :: dto where
  "UpdateBannerDto = CreateBannerDto"

definition AssignTrendingDto :: dto where
  "AssignTrendingDto =
    [needed ''dramaId'' [R_uuid],
     numeric (needed ''position'' [R_int, R_min 1, R_max 10000])]"

definition UpdateTrendingDto :: dto where
  "UpdateTrendingDto = AssignTrendingDto"

definition CreateReleaseDto :: dto where
  "CreateReleaseDto =
    [optional ''versionName'' [R_string, R_length 1 60],
     numeric (optional ''versionCode'' [R_int, R_min 1]),
     needed ''storageKey'' [R_string, R_length 1 512],
     optional ''originalName'' [R_string, R_length 1 255],
     numeric (optional ''fileSize'' [R_int, R_min 1]),
     optional ''isActive'' [R_boolean]]"

definition UpdateReleaseDto :: dto where
  "UpdateReleaseDto = CreateReleaseDto"

definition RemoteConfigDto :: dto where
  "RemoteConfigDto =
    [needed ''configKey'' [R_string, R_length 1 120],
     needed ''value'' [R_defined],
     optional ''isActive'' [R_boolean]]"

definition SubscriptionSettingsDto :: dto where
  "SubscriptionSettingsDto =
    [numeric (optional ''monthlyAmountPkr'' [R_int, R_min 0]),
     optional ''currency'' [R_string, R_length 3 10],
     optional ''defaultGroupId'' [R_uuid],
     optional ''jazzcashNumber'' [R_string, R_length 1 50],
     optional ''jazzcashTitle'' [R_string, R_length 1 160],
     optional ''easypaisaNumber'' [R_string, R_length 1 50],
     optional ''easypaisaTitle'' [R_string, R_length 1 160],
     optional ''bankName'' [R_string, R_length 1 160],
     optional ''bankAccountTitle'' [R_string, R_length 1 160],
     optional ''bankAccountNumber'' [R_string, R_length 1 80],
     optional ''bankIban'' [R_string, R_length 1 80],
     optional ''paymentInstructions'' [R_string, R_length 1 10000]]"

definition CreateSubscriptionRequestDto :: dto where
  "CreateSubscriptionRequestDto =
    [optional ''groupId'' [R_uuid],
     optional ''planId'' [R_uuid],
     numeric (optional ''amountPkr'' [R_int, R_min 0]),
     optional ''paymentMethod'' [R_string, R_length 1 40],
     optional ''screenshotKey'' [R_string, R_length 1 512],
     optional ''note'' [R_string, R_length 1 5000],
     numeric (optional ''monthsAdded'' [R_int, R_min 1, R_max 24])]"

definition ReviewSubscriptionRequestDto :: dto where
  "ReviewSubscriptionRequestDto =
    [needed ''status'' [R_in [''approved'', ''rejected'']],
     optional ''adminNote'' [R_string, R_length 1 5000],
     optional ''subscriptionStartDate'' [R_date],
     optional ''subscriptionEndDate'' [R_date]]"

definition SecurityBlockDto :: dto where
  "SecurityBlockDto =
    [needed ''isBlocked'' [R_boolean],
     optional ''message'' [R_string, R_length 1 1000]]"

definition SecurityIncidentDto :: dto where
  "SecurityIncidentDto =
    [needed ''incidentType'' [R_string, R_length 1 80],
     optional ''incidentLabel'' [R_string, R_length 1 160],
     optional ''appArea'' [R_string, R_length 1 120],
     optional ''deviceModel'' [R_string, R_length 1 160],
     optional ''manufacturer'' [R_string, R_length 1 120],
     optional ''androidVersion'' [R_string, R_length 1 60],
     optional ''appVersion'' [R_string, R_length 1 60],
     numeric (optional ''appVersionCode'' [R_int, R_min 0]),
     optional ''packageName'' [R_string, R_length 1 160],
     optional ''deviceId'' [R_string, R_length 1 160],
     optional ''deviceBrand'' [R_string, R_length 1 120],
     optional ''deviceProduct'' [R_string, R_length 1 160],
     optional ''deviceHardware'' [R_string, R_length 1 160],
     optional ''deviceFingerprint'' [R_string, R_length 1 255],
     numeric (optional ''latitude'' []),
     numeric (optional ''longitude'' []),
     numeric (optional ''locationAccuracy'' []),
     optional ''extra'' [R_defined],
     optional ''severity'' [R_in [''info'', ''warning'', ''critical'']]]"

definition CreateCommentDto :: dto where
  "CreateCommentDto =
    [optional ''episodeId'' [R_uuid],
     optional ''groupId'' [R_uuid],
     needed ''body'' [R_string, R_length 1 5000]]"

definition UpdateCommentDto :: dto where
  "UpdateCommentDto =
    [optional ''body'' [R_string, R_length 1 5000],
     optional ''status'' [R_in [''visible'', ''hidden'']]]"

definition RecordViewDto :: dto where
  "RecordViewDto =
    [needed ''episodeId'' [R_uuid]]"

definition SearchDto :: dto where
  "SearchDto =
    PageQueryDto @
    [needed ''q'' [R_string, R_length 1 100]]"

end
