(* ===== verification/Validated.thy ===== *)
theory Validated
  imports Dtos Subscriptions Migration
begin

text \<open>
  What the validation guarantees: texts fit their columns, pages are positive and bounded, and the routes of the
  subscriptions keep the invariant of the subscriptions for every body that a client can send.
\<close>

section \<open>Bounds of accepted bodies\<close>

text \<open>The width that a rule admits for a text.\<close>

fun rule_width :: "rule \<Rightarrow> int option" where
  "rule_width (R_length a b) = Some b"
| "rule_width (R_matches P_device) = Some 128"
| "rule_width R_email = Some 320"
| "rule_width (R_in xs) = Some (foldr (\<lambda>x m. max (int (length x)) m) xs 0)"
| "rule_width _ = None"

definition narrow :: "int \<Rightarrow> rule list \<Rightarrow> bool" where
  "narrow w rules \<longleftrightarrow> list_ex (\<lambda>r. case rule_width r of None \<Rightarrow> False | Some n \<Rightarrow> n \<le> w) rules"

lemma longest: "x \<in> set xs \<Longrightarrow> int (length x) \<le> foldr (\<lambda>x m. max (int (length x)) m) xs 0"
  by (induction xs) auto

lemma rule_narrow:
  assumes "documented V" and "vl_holds V r (B_string t)" and "rule_width r = Some n"
  shows "int (length t) \<le> n"
proof (cases r rule: rule_width.cases)
  case (4 xs)
  with assms show ?thesis by (auto simp: documented_def longest)
qed (use assms in \<open>auto simp: documented_def\<close>)

lemma accepted_narrow:
  assumes "documented V" and "accept V d b = Some x" and "p \<in> set d" and "distinct (map dp_name d)" and "narrow w (dp_rules p)"
    and "map_of x (dp_name p) = Some (B_string t)"
  shows "int (length t) \<le> w"
proof -
  have "property_ok V p (B_string t)" using accepted_value [OF assms(2-4)] assms(6) by auto
  then have "\<forall>r\<in>set (dp_rules p). vl_holds V r (B_string t)" by (simp add: property_ok_def list_all_iff)
  moreover obtain r n where "r \<in> set (dp_rules p)" "rule_width r = Some n" "n \<le> w"
    using assms(5) by (auto simp: narrow_def list_ex_iff split: option.splits)
  ultimately show ?thesis using rule_narrow [OF assms(1)] by fastforce
qed

text \<open>
  The texts of the bodies that are written to a column with a width: the property and the width of \<open>VARCHAR\<close> in
  \<open>prisma/schema.prisma\<close>.
\<close>

definition column_widths :: "(dto \<times> (string \<times> int) list) list" where
  "column_widths =
    [(RegisterDto, [(''username'', 80), (''email'', 320)]),
     (CreateUserDto, [(''username'', 80), (''email'', 320)]),
     (UpdateProfileDto, [(''username'', 80), (''email'', 320), (''profileImageKey'', 512)]),
     (CreateAdminDto, [(''username'', 80), (''email'', 320)]),
     (CreateDramaDto, [(''name'', 200), (''slug'', 220), (''thumbnailKey'', 512)]),
     (UpdateDramaDto, [(''name'', 200), (''slug'', 220), (''thumbnailKey'', 512)]),
     (CreateSeasonDto, [(''title'', 200), (''thumbnailKey'', 512)]),
     (UpdateSeasonDto, [(''title'', 200), (''thumbnailKey'', 512)]),
     (CreateEpisodeDto, [(''title'', 200), (''thumbnailKey'', 512)]),
     (UpdateEpisodeDto, [(''title'', 200), (''thumbnailKey'', 512)]),
     (CreateMediaAssetDto, [(''provider'', 80), (''checksum'', 64)]),
     (UpdateMediaAssetDto, [(''provider'', 80), (''checksum'', 64)]),
     (CreatePlanDto, [(''code'', 50), (''name'', 120)]),
     (UpdatePlanDto, [(''name'', 120)]),
     (PaymentDto, [(''reference'', 160), (''proofKey'', 512), (''note'', 500)]),
     (CreateGroupDto, [(''name'', 120)]),
     (UpdateGroupDto, [(''name'', 120)]),
     (CreateRoleDto, [(''name'', 80), (''description'', 255)]),
     (UpdateRoleDto, [(''name'', 80), (''description'', 255)]),
     (CreatePermissionDto, [(''code'', 120), (''description'', 255)]),
     (UpdatePermissionDto, [(''description'', 255)]),
     (CreateNotificationDto, [(''title'', 255), (''imageKey'', 512)]),
     (UpdateNotificationDto, [(''title'', 255), (''imageKey'', 512)]),
     (ReviewAccountDeletionRequestDto, [(''status'', 20)]),
     (CreateBannerDto, [(''imageKey'', 512), (''videoKey'', 512)]),
     (UpdateBannerDto, [(''imageKey'', 512), (''videoKey'', 512)]),
     (CreateReleaseDto, [(''versionName'', 60), (''storageKey'', 512), (''originalName'', 255)]),
     (UpdateReleaseDto, [(''versionName'', 60), (''storageKey'', 512), (''originalName'', 255)]),
     (RemoteConfigDto, [(''configKey'', 120)]),
     (SubscriptionSettingsDto, [(''currency'', 10), (''jazzcashNumber'', 50), (''jazzcashTitle'', 160), (''easypaisaNumber'', 50), (''easypaisaTitle'', 160), (''bankName'', 160), (''bankAccountTitle'', 160), (''bankAccountNumber'', 80), (''bankIban'', 80)]),
     (CreateSubscriptionRequestDto, [(''paymentMethod'', 40), (''screenshotKey'', 512)]),
     (ReviewSubscriptionRequestDto, [(''status'', 20)]),
     (SecurityIncidentDto, [(''incidentType'', 80), (''incidentLabel'', 160), (''appArea'', 120), (''deviceModel'', 160), (''manufacturer'', 120), (''androidVersion'', 60), (''appVersion'', 60), (''packageName'', 160), (''deviceId'', 160), (''deviceBrand'', 120), (''deviceProduct'', 160), (''deviceHardware'', 160), (''deviceFingerprint'', 255), (''severity'', 30)]),
     (UpdateCommentDto, [(''status'', 20)]),
     (CreateSupportMessageDto, [(''mediaUrl'', 2048), (''thumbnail'', 2048), (''mimeType'', 160)]),
     (DeviceRegistrationDto, [(''deviceId'', 128), (''deviceName'', 160), (''deviceToken'', 512)])]"

definition fits_columns :: "dto \<Rightarrow> (string \<times> int) list \<Rightarrow> bool" where
  "fits_columns d cols \<longleftrightarrow> distinct (map dp_name d)
     \<and> list_all (\<lambda>(n, w). list_ex (\<lambda>p. dp_name p = n \<and> narrow w (dp_rules p)) d) cols"

text \<open>The queries of the lists, which all inherit \<open>page\<close> and \<open>limit\<close>.\<close>

definition page_dtos :: "dto list" where
  "page_dtos =
    [PageQueryDto, ListUsersDto, SubscriptionHistoryQueryDto, AccessListDto, ContentListQueryDto,
     DramaListQueryDto, SeasonListQueryDto, EpisodeListQueryDto, MediaAssetListQueryDto, PlaybackHistoryQueryDto,
     AuditListDto, LegacyListDto, MessageListDto, SearchDto]"

lemma all_fit: "list_all (\<lambda>(d, cols). fits_columns d cols) column_widths"
  by code_simp

lemma page_first: "list_all (\<lambda>d. take 2 d = PageQueryDto \<and> distinct (map dp_name d)) page_dtos"
  by code_simp

lemma documented_numbers:
  assumes "documented V"
  shows "vl_holds V R_int v \<Longrightarrow> \<exists>i. v = B_number i" "vl_holds V (R_min n) (B_number i) \<Longrightarrow> n \<le> i"
    "vl_holds V (R_max n) (B_number i) \<Longrightarrow> i \<le> n"
  using assms by (simp_all add: documented_def)

lemma accepted_number:
  assumes "documented V" and "accept V d b = Some x" and "p \<in> set d" and "distinct (map dp_name d)" and "R_int \<in> set (dp_rules p)"
    and "\<not> dp_optional p \<or> v \<noteq> B_undefined \<and> v \<noteq> B_null" and "map_of x (dp_name p) = Some v"
  shows "\<exists>i. v = B_number i \<and> (\<forall>n. R_min n \<in> set (dp_rules p) \<longrightarrow> n \<le> i) \<and> (\<forall>n. R_max n \<in> set (dp_rules p) \<longrightarrow> i \<le> n)"
proof -
  have "\<forall>r\<in>set (dp_rules p). vl_holds V r v"
    using accepted_value [OF assms(2-4)] assms(6,7) by (auto simp: property_ok_def list_all_iff)
  with assms(5) documented_numbers [OF assms(1)] show ?thesis by metis
qed

text \<open>A query string has only texts; its page and limit arrive as numbers, the defaults of the class if they are left out.\<close>

definition query_string :: "body \<Rightarrow> bool" where
  "query_string b \<longleftrightarrow> list_all (\<lambda>(k, v). case v of B_string s \<Rightarrow> True | _ \<Rightarrow> False) b"

lemma query_number:
  assumes "documented V" and "query_string b" and "accept V d b = Some x" and "p \<in> set d" and "distinct (map dp_name d)"
    and "R_int \<in> set (dp_rules p)" and "dp_convert p = To_number" and "dp_default p = B_number i0"
  shows "\<exists>i. map_of x (dp_name p) = Some (B_number i) \<and> (\<forall>n. R_min n \<in> set (dp_rules p) \<longrightarrow> n \<le> i) \<and> (\<forall>n. R_max n \<in> set (dp_rules p) \<longrightarrow> i \<le> n)"
proof -
  let ?v = "property_value V b p"
  have "map_of x (dp_name p) = Some ?v"
    using assms(3-5) by (auto simp: accept_Some comp_def intro!: map_of_is_SomeI)
  moreover have "\<not> dp_optional p \<or> ?v \<noteq> B_undefined \<and> ?v \<noteq> B_null"
  proof (cases "map_of b (dp_name p)")
    case (Some v)
    then have "(dp_name p, v) \<in> set b" by (rule map_of_SomeD)
    then obtain s where "v = B_string s" using assms(2) by (auto simp: query_string_def list_all_iff split: body_value.splits)
    moreover have "vl_number V (B_string s) = B_fraction \<or> (\<exists>i. vl_number V (B_string s) = B_number i)"
      using assms(1) by (simp add: documented_def)
    ultimately show ?thesis using Some assms(7) by (auto simp: property_value_def)
  qed (use assms(8) in \<open>simp add: property_value_def\<close>)
  ultimately show ?thesis using accepted_number [OF assms(1,3-6), of ?v] by auto
qed

lemma page_rules:
  assumes "d \<in> set page_dtos"
  shows "PageQueryDto ! 0 \<in> set d" "PageQueryDto ! 1 \<in> set d" "distinct (map dp_name d)"
proof -
  from assms page_first have d: "take 2 d = PageQueryDto" "distinct (map dp_name d)" by (auto simp: list_all_iff)
  moreover have "set (take 2 d) \<subseteq> set d" by (rule set_take_subset)
  ultimately show "PageQueryDto ! 0 \<in> set d" "PageQueryDto ! 1 \<in> set d" "distinct (map dp_name d)"
    by (auto simp: PageQueryDto_def)
qed



section \<open>The routes of the subscriptions\<close>

definition text_of :: "body \<Rightarrow> string \<Rightarrow> string option" where
  "text_of x n = (case map_of x n of Some (B_string s) \<Rightarrow> Some s | _ \<Rightarrow> None)"

definition int_of_body :: "body \<Rightarrow> string \<Rightarrow> int option" where
  "int_of_body x n = (case map_of x n of Some (B_number i) \<Rightarrow> Some i | _ \<Rightarrow> None)"

definition boolean_of :: "body \<Rightarrow> string \<Rightarrow> bool option" where
  "boolean_of x n = (case map_of x n of Some (B_boolean v) \<Rightarrow> Some v | _ \<Rightarrow> None)"

definition null_in :: "body \<Rightarrow> string list \<Rightarrow> bool" where
  "null_in x ns \<longleftrightarrow> list_ex (\<lambda>n. map_of x n = Some B_null) ns"

definition fits_int :: "int option \<Rightarrow> bool" where
  "fits_int i \<longleftrightarrow> (case i of None \<Rightarrow> True | Some n \<Rightarrow> int32 n)"

text \<open>
  The handlers of \<open>SubscriptionsController\<close> behind the pipe. The database refuses a number outside the 32 bits of its
  column, and an update that sets such a column to \<open>null\<close>.
\<close>

definition create_plan_route :: "validation \<Rightarrow> request \<Rightarrow> principal \<Rightarrow> string \<Rightarrow> body \<Rightarrow> subscription_plan handler" where
  "create_plan_route V rq actor newId b = with_body V CreatePlanDto b (\<lambda>x.
     case (text_of x ''code'', text_of x ''name'', int_of_body x ''pricePkr'', int_of_body x ''durationDays'') of
       (Some c, Some n, Some price, Some days) \<Rightarrow>
         and_then (require (int32 price \<and> int32 days) (Internal ''P2000'')) (\<lambda>_. create_plan rq actor newId c n price days)
     | _ \<Rightarrow> throw (Internal ''validation''))"

definition update_plan_route :: "validation \<Rightarrow> request \<Rightarrow> principal \<Rightarrow> string \<Rightarrow> body \<Rightarrow> subscription_plan handler" where
  "update_plan_route V rq actor pid b = with_body V UpdatePlanDto b (\<lambda>x.
     and_then (require (\<not> null_in x [''name'', ''pricePkr'', ''durationDays'', ''isActive'']
         \<and> fits_int (int_of_body x ''pricePkr'') \<and> fits_int (int_of_body x ''durationDays'')) (Internal ''validation'')) (\<lambda>_.
     update_plan rq actor pid \<lparr>pc_name = text_of x ''name'', pc_pricePkr = int_of_body x ''pricePkr'',
       pc_durationDays = int_of_body x ''durationDays'', pc_isActive = boolean_of x ''isActive''\<rparr>))"

definition subscribe_route :: "validation \<Rightarrow> request \<Rightarrow> principal \<Rightarrow> string \<Rightarrow> body \<Rightarrow> subscription handler" where
  "subscribe_route V rq actor newId b = with_body V CreateSubscriptionDto b (\<lambda>x.
     case (text_of x ''userId'', text_of x ''planId'') of
       (Some u, Some p) \<Rightarrow> subscribe rq actor newId u p (text_of x ''note'') | _ \<Rightarrow> throw (Internal ''validation''))"

definition extend_route :: "validation \<Rightarrow> request \<Rightarrow> principal \<Rightarrow> string \<Rightarrow> body \<Rightarrow> subscription handler" where
  "extend_route V rq actor sid b = with_body V ExtendSubscriptionDto b (\<lambda>x.
     case int_of_body x ''days'' of Some d \<Rightarrow> extend_subscription rq actor sid d (text_of x ''note'') | None \<Rightarrow> throw (Internal ''validation''))"

definition cancel_route :: "validation \<Rightarrow> request \<Rightarrow> principal \<Rightarrow> string \<Rightarrow> body \<Rightarrow> subscription handler" where
  "cancel_route V rq actor sid b = with_body V CancelSubscriptionDto b (\<lambda>x. cancel_subscription rq actor sid (text_of x ''note''))"

lemma with_body_Inr: "with_body V d b h s = (Inr r, s') \<longleftrightarrow> (\<exists>x. accept V d b = Some x \<and> h x s = (Inr r, s'))"
  by (simp add: with_body_def split: option.split)

text \<open>Of a positive property only positive numbers arrive.\<close>

lemma positive_property:
  assumes "documented V" and "accept V d b = Some x" and "p \<in> set d" and "distinct (map dp_name d)"
    and "R_int \<in> set (dp_rules p)" and "R_min 1 \<in> set (dp_rules p)" and "int_of_body x (dp_name p) = Some i"
  shows "1 \<le> i"
proof -
  have v: "map_of x (dp_name p) = Some (B_number i)"
    using assms(7) by (auto simp: int_of_body_def split: option.splits body_value.splits)
  from accepted_number [OF assms(1-5) _ v] assms(6) show ?thesis by auto
qed

lemmas plan_fields = CreatePlanDto_def UpdatePlanDto_def ExtendSubscriptionDto_def needed_def optional_def

inductive validated_request :: "validation \<Rightarrow> state \<Rightarrow> state \<Rightarrow> bool" for V where
  "create_plan_route V rq actor newId b s = (Inr pl, s') \<Longrightarrow> validated_request V s s'"
| "update_plan_route V rq actor pid b s = (Inr pl, s') \<Longrightarrow> validated_request V s s'"
| "subscribe_route V rq actor newId b s = (Inr item, s') \<Longrightarrow> validated_request V s s'"
| "extend_route V rq actor sid b s = (Inr item, s') \<Longrightarrow> validated_request V s s'"
| "cancel_route V rq actor sid b s = (Inr item, s') \<Longrightarrow> validated_request V s s'"

text \<open>What the steps of \<open>Subscriptions\<close> ask of their numbers, the rules of the DTO classes give.\<close>

lemma validated_step:
  assumes V: "documented V" and "validated_request V s s'"
  shows "subscription_step s s'"
  using assms(2)
proof cases
  case (1 rq actor newId b pl)
  then obtain x where acc: "accept V CreatePlanDto b = Some x" and run:
    "(case (text_of x ''code'', text_of x ''name'', int_of_body x ''pricePkr'', int_of_body x ''durationDays'') of
       (Some c, Some n, Some price, Some days) \<Rightarrow>
         and_then (require (int32 price \<and> int32 days) (Internal ''P2000'')) (\<lambda>_. create_plan rq actor newId c n price days)
     | _ \<Rightarrow> throw (Internal ''validation'')) s = (Inr pl, s')"
    by (auto simp only: create_plan_route_def with_body_Inr)
  then obtain c n p d where x: "accept V CreatePlanDto b = Some x" "int_of_body x ''durationDays'' = Some d"
    "create_plan rq actor newId c n p d s = (Inr pl, s')"
    by (cases "text_of x ''code''"; cases "text_of x ''name''"; cases "int_of_body x ''pricePkr''"; cases "int_of_body x ''durationDays''")
      (auto split: if_splits)
  have "1 \<le> d"
    by (rule positive_property [OF V x(1), where p = "CreatePlanDto ! 3"]) (use x(2) in \<open>simp_all add: plan_fields\<close>)
  with x(3) show ?thesis by (rule subscription_step.plan_created)
next
  case (2 rq actor pid b pl)
  then obtain x where x: "accept V UpdatePlanDto b = Some x"
    "update_plan rq actor pid \<lparr>pc_name = text_of x ''name'', pc_pricePkr = int_of_body x ''pricePkr'',
       pc_durationDays = int_of_body x ''durationDays'', pc_isActive = boolean_of x ''isActive''\<rparr> s = (Inr pl, s')"
    by (auto simp: update_plan_route_def with_body_Inr split: if_splits)
  have "1 \<le> d" if "int_of_body x ''durationDays'' = Some d" for d
    by (rule positive_property [OF V x(1), where p = "UpdatePlanDto ! 2"]) (use that in \<open>simp_all add: plan_fields\<close>)
  with x(2) show ?thesis by (auto intro: subscription_step.plan_updated)
next
  case (3 rq actor newId b item)
  then show ?thesis by (auto simp: subscribe_route_def with_body_Inr split: option.splits intro: subscription_step.subscribed)
next
  case (4 rq actor sid b item)
  then obtain x d where x: "accept V ExtendSubscriptionDto b = Some x" "int_of_body x ''days'' = Some d"
    "extend_subscription rq actor sid d (text_of x ''note'') s = (Inr item, s')"
    by (auto simp: extend_route_def with_body_Inr split: option.splits)
  have "1 \<le> d"
    by (rule positive_property [OF V x(1), where p = "ExtendSubscriptionDto ! 0"]) (use x(2) in \<open>simp_all add: plan_fields\<close>)
  with x(3) show ?thesis by (rule subscription_step.extended)
next
  case (5 rq actor sid b item)
  then show ?thesis by (auto simp: cancel_route_def with_body_Inr intro: subscription_step.cancelled)
qed

text \<open>
  C37. No request can break the subscriptions: whatever bodies clients send to the routes that create and change plans,
  subscribe, extend and cancel, after any sequence of successful requests every subscription has a proper window,
  ids are unique and every plan lasts a day or more.
\<close>

theorem subscription_requests_safe:
  assumes "documented V" and "(validated_request V)\<^sup>*\<^sup>* s s'" and "subs_inv s"
  shows "subs_inv s'"
  using assms(2,3)
  by (induction rule: rtranclp_induct) (use validated_step [OF assms(1)] subscription_step_inv in blast)+

text \<open>A plan created, and extended requests refused, through the pipe.\<close>

definition plan_body :: "int \<Rightarrow> body" where
  "plan_body price = [(''code'', B_string ''gold''), (''name'', B_string ''Gold''), (''pricePkr'', B_number price), (''durationDays'', B_number 30)]"

lemma demo_plan_created: "\<exists>pl s'. create_plan_route plain_validation demo_request demo_admin ''p9'' (plan_body 500) empty_state = (Inr pl, s')"
proof -
  have "\<not> isl (fst (create_plan_route plain_validation demo_request demo_admin ''p9'' (plan_body 500) empty_state))" by code_simp
  then show ?thesis by (rule prog_result)
qed

theorem subscription_requests_safe_witness:
  "\<exists>s'. (validated_request plain_validation)\<^sup>*\<^sup>* empty_state s' \<and> s' \<noteq> empty_state \<and> subs_inv s'"
proof -
  obtain pl s' where r: "create_plan_route plain_validation demo_request demo_admin ''p9'' (plan_body 500) empty_state = (Inr pl, s')"
    using demo_plan_created by blast
  have run: "(validated_request plain_validation)\<^sup>*\<^sup>* empty_state s'" by (rule r_into_rtranclp) (rule validated_request.intros(1) [OF r])
  have "subs_inv empty_state" by (simp add: subs_inv_def subscriptions_wf_def plans_wf_def empty_state_def)
  moreover have "length (subscriptionPlans (snd (create_plan_route plain_validation demo_request demo_admin ''p9'' (plan_body 500) empty_state))) = 1"
    by code_simp
  then have "s' \<noteq> empty_state" using r by (auto simp: empty_state_def)
  ultimately show ?thesis using run subscription_requests_safe [OF plain_documented run] by blast
qed

text \<open>Where the bounds end: a price that PostgreSQL cannot store is accepted, and the request then fails with a status of 500.\<close>

lemma large_price_accepted:
  "accept plain_validation CreatePlanDto (plan_body 2147483648) \<noteq> None
   \<and> fst (create_plan_route plain_validation demo_request demo_admin ''p9'' (plan_body 2147483648) empty_state)
       = Inl (Internal ''P2000'')"
  by code_simp

text \<open>\<open>@IsOptional\<close> lets \<open>null\<close> pass, which the update of a plan then writes to a column that forbids it.\<close>

lemma null_accepted:
  "fst (update_plan_route plain_validation demo_request demo_admin ''p9'' [(''name'', B_null)]
     (empty_state\<lparr>subscriptionPlans := [\<lparr>pl_id = ''p9'', pl_code = ''c'', pl_name = ''n'', pl_pricePkr = 1, pl_durationDays = 1,
        pl_isActive = True, pl_createdAt = 0\<rparr>]\<rparr>)) = Inl (Internal ''validation'')"
  by code_simp

text \<open>The pipe refuses what the class does not declare, and what it declares otherwise.\<close>

lemma refused_bodies:
  "accept plain_validation CreatePlanDto ((''isActive'', B_boolean True) # plan_body 500) = None"
  "accept plain_validation CreatePlanDto (plan_body 0) = None"
  "accept plain_validation ExtendSubscriptionDto [(''days'', B_string ''30'')] = None"
  "accept plain_validation LegacyListDto [(''limit'', B_string ''101'')] = None"
  by code_simp+

end
