(* ===== verification/Settings.thy ===== *)
theory Settings
  imports Migration Http
begin

text \<open>
  The environment schema, \<open>config/env.validation.ts\<close>, and the configuration that the services read from it
  (\<open>ConfigModule.forRoot\<close> in \<open>app.module.ts\<close>). Joi is a parameter, the record \<open>joi\<close>; its documentation promises
  \<open>joi_documented\<close>.
\<close>

datatype setting_value = S_text string | S_number int | S_boolean bool

datatype joi_rule = J_string | J_number | J_boolean | J_integer | J_port | J_base64 | J_allow_empty | J_valid "string list"
  | J_uri "string list" | J_min_length int | J_max_length int | J_at_least int | J_at_most int

record setting =
  st_name :: string
  st_rules :: "joi_rule list"
  st_default :: "setting_value option"

definition required_setting :: "string \<Rightarrow> joi_rule list \<Rightarrow> setting" where
  "required_setting n rules = \<lparr>st_name = n, st_rules = rules, st_default = None\<rparr>"

definition default_setting :: "string \<Rightarrow> joi_rule list \<Rightarrow> setting_value \<Rightarrow> setting" where
  "default_setting n rules v = \<lparr>st_name = n, st_rules = rules, st_default = Some v\<rparr>"

definition env_schema :: "bool \<Rightarrow> setting list" where
  "env_schema production =
    [default_setting ''NODE_ENV'' [J_string, J_valid [''development'', ''test'', ''production'']] (S_text ''development''),
     default_setting ''PORT'' [J_number, J_port] (S_number 3000),
     required_setting ''PUBLIC_API_ORIGIN'' (if production then [J_string, J_uri [''https'']] else [J_string, J_uri [''http'', ''https'']]),
     required_setting ''ADMIN_WEB_ORIGIN'' (if production then [J_string, J_uri [''https'']] else [J_string, J_uri [''http'', ''https'']]),
     required_setting ''DATABASE_URL'' [J_string, J_uri [''postgresql'', ''postgres'']],
     required_setting ''REDIS_URL'' [J_string, J_uri [''redis'', ''rediss'']],
     required_setting ''JWT_ISSUER'' [J_string, J_min_length 3, J_max_length 100],
     required_setting ''JWT_AUDIENCE'' [J_string, J_min_length 3, J_max_length 100],
     required_setting ''JWT_PRIVATE_KEY_B64'' [J_string, J_min_length 100],
     required_setting ''JWT_PUBLIC_KEY_B64'' [J_string, J_min_length 100],
     default_setting ''JWT_ACCESS_TTL_SECONDS'' [J_number, J_integer, J_at_least 60, J_at_most 900] (S_number 600),
     default_setting ''REFRESH_TOKEN_TTL_DAYS'' [J_number, J_integer, J_at_least 1, J_at_most 90] (S_number 30),
     default_setting ''TRUSTED_PROXY_HOPS'' [J_number, J_integer, J_at_least 0, J_at_most 5] (S_number 0),
     default_setting ''LOG_LEVEL'' [J_string, J_valid [''fatal'', ''error'', ''warn'', ''info'', ''debug'', ''trace'']] (S_text ''info''),
     default_setting ''ENABLE_SWAGGER'' [J_boolean] (S_boolean False),
     required_setting ''METRICS_TOKEN'' [J_string, J_min_length 32],
     default_setting ''FIREBASE_SERVICE_ACCOUNT_B64'' [J_string, J_base64, J_allow_empty] (S_text []),
     default_setting ''WIDEVINE_PROVIDER'' [J_string, J_max_length 80, J_allow_empty] (S_text []),
     default_setting ''WIDEVINE_LICENSE_URL'' [J_string, J_uri [''https''], J_allow_empty] (S_text []),
     required_setting ''ARGON2_DUMMY_HASH'' [J_string, J_min_length 20],
     required_setting ''MEDIA_GATEWAY_PUBLIC_URL'' [J_string, J_uri [''https'']],
     required_setting ''MEDIA_LOCATOR_ENCRYPTION_KEY_B64'' [J_string, J_base64],
     required_setting ''MEDIA_PROVIDER_ALLOWED_HOSTS'' [J_string, J_min_length 3],
     required_setting ''MEDIA_PROVIDER_ORIGIN_SECRET'' [J_string, J_min_length 32],
     default_setting ''MEDIA_PROVIDER_TIMEOUT_MS'' [J_number, J_integer, J_at_least 1000, J_at_most 30000] (S_number 10000),
     default_setting ''UPLOAD_STAGING_DIR'' [J_string] (S_text ''.runtime/uploads''),
     default_setting ''MAX_UPLOAD_BYTES'' [J_number, J_integer, J_at_least 1, J_at_most 20000000000] (S_number 20000000000),
     default_setting ''STORAGE_UPLOAD_URL'' [J_string, J_uri [''https''], J_allow_empty] (S_text []),
     default_setting ''STORAGE_UPLOAD_TOKEN'' [J_string, J_allow_empty] (S_text []),
     default_setting ''R2_ACCOUNT_ID'' [J_string, J_allow_empty] (S_text []),
     default_setting ''R2_ACCESS_KEY_ID'' [J_string, J_allow_empty] (S_text []),
     default_setting ''R2_SECRET_ACCESS_KEY'' [J_string, J_allow_empty] (S_text []),
     default_setting ''R2_BUCKET'' [J_string, J_allow_empty] (S_text []),
     default_setting ''R2_PUBLIC_BASE_URL'' [J_string, J_uri [''https''], J_allow_empty] (S_text []),
     default_setting ''PLAYBACK_CAPABILITY_TTL_SECONDS'' [J_number, J_integer, J_at_least 30, J_at_most 300] (S_number 120),
     default_setting ''MAX_CONCURRENT_PLAYBACK_SESSIONS'' [J_number, J_integer, J_at_least 1, J_at_most 5] (S_number 1),
     default_setting ''MAX_TRUSTED_DEVICES'' [J_number, J_integer, J_at_least 1, J_at_most 10] (S_number 3)]"

section \<open>Validation\<close>

text \<open>What the rules of a key make of its text: the value, or \<open>None\<close> for an error.\<close>

record joi =
  joi_check :: "joi_rule list \<Rightarrow> string \<Rightarrow> setting_value option"

type_synonym settings = "string \<Rightarrow> setting_value option"

definition setting_of :: "joi \<Rightarrow> (string \<Rightarrow> string option) \<Rightarrow> setting \<Rightarrow> setting_value option" where
  "setting_of J env q = (case env (st_name q) of None \<Rightarrow> st_default q | Some t \<Rightarrow> joi_check J (st_rules q) t)"

definition in_production :: "joi \<Rightarrow> (string \<Rightarrow> string option) \<Rightarrow> bool" where
  "in_production J env \<longleftrightarrow> setting_of J env (hd (env_schema False)) = Some (S_text ''production'')"

definition validate_env :: "joi \<Rightarrow> (string \<Rightarrow> string option) \<Rightarrow> settings option" where
  "validate_env J env =
     (let schema = env_schema (in_production J env) in
      if list_all (\<lambda>q. setting_of J env q \<noteq> None) schema
      then Some (map_of (map (\<lambda>q. (st_name q, the (setting_of J env q))) schema)) else None)"

definition number_setting :: "settings \<Rightarrow> string \<Rightarrow> int" where
  "number_setting st n = (case st n of Some (S_number i) \<Rightarrow> i | _ \<Rightarrow> 0)"

definition text_setting :: "settings \<Rightarrow> string \<Rightarrow> string" where
  "text_setting st n = (case st n of Some (S_text t) \<Rightarrow> t | _ \<Rightarrow> [])"

text \<open>The keys that the modelled services read.\<close>

definition config_of :: "settings \<Rightarrow> config" where
  "config_of st = \<lparr>cf_argon2DummyHash = text_setting st ''ARGON2_DUMMY_HASH'', cf_refreshTtlDays = number_setting st ''REFRESH_TOKEN_TTL_DAYS'',
     cf_accessTtlSeconds = number_setting st ''JWT_ACCESS_TTL_SECONDS'', cf_maxTrustedDevices = nat (number_setting st ''MAX_TRUSTED_DEVICES''),
     cf_capabilityTtlSeconds = number_setting st ''PLAYBACK_CAPABILITY_TTL_SECONDS'',
     cf_maxConcurrentPlayback = nat (number_setting st ''MAX_CONCURRENT_PLAYBACK_SESSIONS''),
     cf_mediaGatewayPublicUrl = text_setting st ''MEDIA_GATEWAY_PUBLIC_URL'', cf_r2Bucket = text_setting st ''R2_BUCKET'',
     cf_r2PublicBaseUrl = text_setting st ''R2_PUBLIC_BASE_URL'', cf_maxUploadBytes = number_setting st ''MAX_UPLOAD_BYTES''\<rparr>"

text \<open>
  A number in the bounds of its rules, a text of the length they ask for. An empty text passes only with \<open>allow('')\<close>.
\<close>

definition joi_documented :: "joi \<Rightarrow> bool" where
  "joi_documented J \<longleftrightarrow>
     (\<forall>rules t v. joi_check J rules t = Some v \<longrightarrow> J_number \<in> set rules \<longrightarrow> J_integer \<in> set rules \<longrightarrow>
        (\<exists>i. v = S_number i \<and> (\<forall>n. J_at_least n \<in> set rules \<longrightarrow> n \<le> i) \<and> (\<forall>n. J_at_most n \<in> set rules \<longrightarrow> i \<le> n)))
     \<and> (\<forall>rules t v. joi_check J rules t = Some v \<longrightarrow> J_string \<in> set rules \<longrightarrow> J_allow_empty \<notin> set rules \<longrightarrow>
        v = S_text t \<and> t \<noteq> [] \<and> (\<forall>n. J_min_length n \<in> set rules \<longrightarrow> n \<le> int (length t)))"

text \<open>A number setting has a default in the bounds of its own rules, and all names are different.\<close>

definition bounded_setting :: "setting \<Rightarrow> bool" where
  "bounded_setting q \<longleftrightarrow> J_number \<in> set (st_rules q) \<longrightarrow> J_integer \<in> set (st_rules q) \<longrightarrow>
     (\<exists>i. st_default q = Some (S_number i) \<and> list_all (\<lambda>r. case r of J_at_least n \<Rightarrow> n \<le> i | J_at_most n \<Rightarrow> i \<le> n | _ \<Rightarrow> True) (st_rules q))"

lemma schema_bounded: "q \<in> set (env_schema b) \<Longrightarrow> bounded_setting q"
  by (auto simp: env_schema_def bounded_setting_def required_setting_def default_setting_def split: if_splits)

lemma schema_names: "distinct (map st_name (env_schema b))"
  by (simp add: env_schema_def required_setting_def default_setting_def)

lemma validated_value:
  assumes "validate_env J env = Some st" and "q \<in> set (env_schema (in_production J env))"
  shows "\<exists>v. st (st_name q) = Some v \<and> setting_of J env q = Some v"
proof -
  let ?schema = "env_schema (in_production J env)"
  have st: "st = map_of (map (\<lambda>q. (st_name q, the (setting_of J env q))) ?schema)" and all: "setting_of J env q \<noteq> None"
    using assms by (auto simp: validate_env_def Let_def list_all_iff split: if_splits)
  have "st (st_name q) = Some (the (setting_of J env q))"
    unfolding st using assms(2) schema_names by (intro map_of_is_SomeI) (auto simp: comp_def)
  with all show ?thesis by auto
qed

lemma validated_number:
  assumes J: "joi_documented J" and st: "validate_env J env = Some st" and q: "q \<in> set (env_schema (in_production J env))"
    and num: "J_number \<in> set (st_rules q)" "J_integer \<in> set (st_rules q)" and r: "J_at_least a \<in> set (st_rules q)" "J_at_most b \<in> set (st_rules q)"
  shows "a \<le> number_setting st (st_name q) \<and> number_setting st (st_name q) \<le> b"
proof -
  obtain v where v: "st (st_name q) = Some v" "setting_of J env q = Some v" using validated_value [OF st q] by blast
  have "\<exists>i. v = S_number i \<and> a \<le> i \<and> i \<le> b"
  proof (cases "env (st_name q)")
    case None
    with v(2) have "st_default q = Some v" by (simp add: setting_of_def)
    with schema_bounded [OF q] num r show ?thesis by (fastforce simp: bounded_setting_def list_all_iff)
  next
    case (Some t)
    with v(2) have "joi_check J (st_rules q) t = Some v" by (simp add: setting_of_def)
    with J num r show ?thesis unfolding joi_documented_def by metis
  qed
  with v(1) show ?thesis by (auto simp: number_setting_def)
qed

text \<open>
  The configuration that a validated environment gives: access tokens live between 1 and 15 minutes, sessions up to 90
  days, playback capabilities between 30 seconds and 5 minutes; there is at least one device and one playback session,
  and an upload has a limit. The numbers that other theorems ask to be positive are.
\<close>

lemma validated_configuration:
  assumes "joi_documented J" and "validate_env J env = Some st"
  shows "cf_accessTtlSeconds (config_of st) \<in> {60..900}" "cf_refreshTtlDays (config_of st) \<in> {1..90}"
    "cf_capabilityTtlSeconds (config_of st) \<in> {30..300}" "cf_maxConcurrentPlayback (config_of st) \<in> {1..5}"
    "cf_maxTrustedDevices (config_of st) \<in> {1..10}" "cf_maxUploadBytes (config_of st) \<in> {1..20000000000}"
proof -
  have bound: "number_setting st n \<in> {a..b}"
    if "default_setting n [J_number, J_integer, J_at_least a, J_at_most b] d \<in> set (env_schema (in_production J env))" for n a b d
    using validated_number [OF assms that, of a b] by (simp add: default_setting_def)
  have "number_setting st ''JWT_ACCESS_TTL_SECONDS'' \<in> {60..900}" "number_setting st ''REFRESH_TOKEN_TTL_DAYS'' \<in> {1..90}"
    "number_setting st ''PLAYBACK_CAPABILITY_TTL_SECONDS'' \<in> {30..300}" "number_setting st ''MAX_CONCURRENT_PLAYBACK_SESSIONS'' \<in> {1..5}"
    "number_setting st ''MAX_TRUSTED_DEVICES'' \<in> {1..10}" "number_setting st ''MAX_UPLOAD_BYTES'' \<in> {1..20000000000}"
    by (rule bound [where d = "S_number 600"], simp add: env_schema_def, rule bound [where d = "S_number 30"], simp add: env_schema_def,
      rule bound [where d = "S_number 120"], simp add: env_schema_def, rule bound [where d = "S_number 1"], simp add: env_schema_def,
      rule bound [where d = "S_number 3"], simp add: env_schema_def, rule bound [where d = "S_number 20000000000"], simp add: env_schema_def)
  then show "cf_accessTtlSeconds (config_of st) \<in> {60..900}" "cf_refreshTtlDays (config_of st) \<in> {1..90}"
    "cf_capabilityTtlSeconds (config_of st) \<in> {30..300}" "cf_maxConcurrentPlayback (config_of st) \<in> {1..5}"
    "cf_maxTrustedDevices (config_of st) \<in> {1..10}" "cf_maxUploadBytes (config_of st) \<in> {1..20000000000}"
    by (auto simp: config_of_def)
qed

section \<open>An environment\<close>

definition plain_number_check :: "joi_rule list \<Rightarrow> int \<Rightarrow> bool" where
  "plain_number_check rules i \<longleftrightarrow> list_all (\<lambda>r. case r of J_at_least n \<Rightarrow> n \<le> i | J_at_most n \<Rightarrow> i \<le> n | _ \<Rightarrow> True) rules"

definition plain_text_check :: "joi_rule list \<Rightarrow> string \<Rightarrow> bool" where
  "plain_text_check rules t \<longleftrightarrow> (t = [] \<longrightarrow> J_allow_empty \<in> set rules)
     \<and> list_all (\<lambda>r. case r of J_min_length n \<Rightarrow> n \<le> int (length t) | J_valid xs \<Rightarrow> t \<in> set xs | _ \<Rightarrow> True) rules"

definition plain_joi :: joi where
  "plain_joi = \<lparr>joi_check = (\<lambda>rules t.
     if J_string \<in> set rules then (if J_number \<notin> set rules \<and> plain_text_check rules t then Some (S_text t) else None)
     else if J_number \<in> set rules then (case numeral_value 10 t of None \<Rightarrow> None
       | Some i \<Rightarrow> if plain_number_check rules i then Some (S_number i) else None)
     else Some (S_boolean (t = ''true'')))\<rparr>"

lemma plain_joi_documented: "joi_documented plain_joi"
  by (fastforce simp: joi_documented_def plain_joi_def plain_number_check_def plain_text_check_def list_all_iff
    split: option.splits if_splits)

definition demo_environment :: "string \<Rightarrow> string option" where
  "demo_environment = map_of ((''MAX_TRUSTED_DEVICES'', ''5'') # map (\<lambda>n. (n, replicate 100 (CHR ''k'')))
     [''PUBLIC_API_ORIGIN'', ''ADMIN_WEB_ORIGIN'', ''DATABASE_URL'', ''REDIS_URL'', ''JWT_ISSUER'', ''JWT_AUDIENCE'', ''JWT_PRIVATE_KEY_B64'',
      ''JWT_PUBLIC_KEY_B64'', ''METRICS_TOKEN'', ''ARGON2_DUMMY_HASH'', ''MEDIA_GATEWAY_PUBLIC_URL'', ''MEDIA_LOCATOR_ENCRYPTION_KEY_B64'',
      ''MEDIA_PROVIDER_ALLOWED_HOSTS'', ''MEDIA_PROVIDER_ORIGIN_SECRET''])"

lemma demo_environment_valid:
  "case validate_env plain_joi demo_environment of None \<Rightarrow> False
   | Some st \<Rightarrow> cf_capabilityTtlSeconds (config_of st) = 120 \<and> cf_maxTrustedDevices (config_of st) = 5"
  by code_simp

text \<open>Every key that the preflight of \<open>main.ts\<close> asks for is required by the schema, and conversely.\<close>

lemma preflight_keys: "set required_boot_env_keys = st_name ` set (filter (\<lambda>q. st_default q = None) (env_schema b))"
  by (cases b) (simp_all add: required_boot_env_keys_def env_schema_def required_setting_def default_setting_def insert_commute)

end
