(* ===== verification/Operations.thy ===== *)
theory Operations
  imports Settings
begin

text \<open>
  What runs the service: the start script \<open>scripts/render-start.mjs\<close>, \<open>bootstrap\<close> of \<open>main.ts\<close>, the connection of \<open>common/redis/redis.service.ts\<close>,
  and the metrics and the log line of every request (\<open>common/metrics/metrics.service.ts\<close>,
  \<open>common/logging/request-logging.middleware.ts\<close>). Child processes, Joi, the frameworks and
  the Redis client are parameters.
\<close>

section \<open>Starting\<close>

text \<open>How a child process ends: with its exit code (\<open>None\<close> after a signal), or not started at all; and what it printed.\<close>

datatype child_end = Child_closed "int option" string | Child_failed string string

fun run_result :: "child_end \<Rightarrow> int \<times> string" where
  "run_result (Child_closed code output) = (case code of None \<Rightarrow> 1 | Some n \<Rightarrow> n, output)"
| "run_result (Child_failed message output) = (1, output @ message @ [CHR 0x0A])"

definition transient_lock :: "string \<Rightarrow> bool" where
  "transient_lock output \<longleftrightarrow> str_includes output ''P1002'' \<or> str_includes (to_lower output) ''advisory lock''"

definition migration_retries :: nat where "migration_retries = 6"

definition retry_delay :: "nat \<Rightarrow> nat" where
  "retry_delay attempt = (let delays = [5000, 10000, 15000, 30000, 30000] in
     if attempt - 1 < length delays then delays ! (attempt - 1) else 30000)"

datatype start_event = Migrated nat | Waited nat | Seeded | Api_started | Exited int

text \<open>The loop; \<open>Some code\<close> if it ends the process.\<close>

function retry_loop :: "(nat \<Rightarrow> child_end) \<Rightarrow> nat \<Rightarrow> start_event list \<times> int option" where
  "retry_loop child attempt =
     (if migration_retries < attempt then ([], None)
      else case run_result (child attempt) of (code, out) \<Rightarrow>
        if code = 0 then ([Migrated attempt], None)
        else if \<not> transient_lock out \<or> attempt = migration_retries then ([Migrated attempt], Some code)
        else case retry_loop child (Suc attempt) of (events, ended) \<Rightarrow> (Migrated attempt # Waited (retry_delay attempt) # events, ended))"
  by pat_completeness auto
termination
  by (relation "measure (\<lambda>(child, attempt). Suc migration_retries - attempt)") (auto simp: migration_retries_def)

declare retry_loop.simps [simp del]

definition render_start :: "(nat \<Rightarrow> child_end) \<Rightarrow> child_end \<Rightarrow> child_end \<Rightarrow> start_event list" where
  "render_start child seed api =
     (case retry_loop child 1 of
        (events, Some code) \<Rightarrow> events @ [Exited code]
      | (events, None) \<Rightarrow>
          let code = fst (run_result seed) in
          if code \<noteq> 0 then events @ [Seeded, Exited code]
          else events @ [Seeded, Api_started, Exited (fst (run_result api))])"

text \<open>A run of the loop: it goes on after a busy lock only, and it ends at the latest with the sixth attempt.\<close>

definition lock_busy :: "child_end \<Rightarrow> bool" where
  "lock_busy c \<longleftrightarrow> fst (run_result c) \<noteq> 0 \<and> transient_lock (snd (run_result c))"

lemma retry_loop_past: "migration_retries < attempt \<Longrightarrow> retry_loop child attempt = ([], None)"
  by (simp add: retry_loop.simps)

lemma retry_loop_step:
  assumes "attempt \<le> migration_retries"
  shows "retry_loop child attempt =
    (let (code, out) = run_result (child attempt); (events, ended) = retry_loop child (Suc attempt) in
     if code = 0 then ([Migrated attempt], None)
     else if \<not> transient_lock out \<or> attempt = migration_retries then ([Migrated attempt], Some code)
     else (Migrated attempt # Waited (retry_delay attempt) # events, ended))"
  using assms by (subst retry_loop.simps) (simp add: Let_def split: prod.split)

lemma retry_loop_cases:
  assumes "attempt \<le> migration_retries"
  obtains (succeeded) "fst (run_result (child attempt)) = 0" "retry_loop child attempt = ([Migrated attempt], None)"
  | (given_up) "\<not> lock_busy (child attempt) \<or> attempt = migration_retries" "fst (run_result (child attempt)) \<noteq> 0"
      "retry_loop child attempt = ([Migrated attempt], Some (fst (run_result (child attempt))))"
  | (retried) events ended where "lock_busy (child attempt)" "attempt < migration_retries"
      "retry_loop child (Suc attempt) = (events, ended)"
      "retry_loop child attempt = (Migrated attempt # Waited (retry_delay attempt) # events, ended)"
proof -
  obtain code out where r: "run_result (child attempt) = (code, out)" by fastforce
  obtain events ended where e: "retry_loop child (Suc attempt) = (events, ended)" by fastforce
  show thesis
    using retry_loop_step [OF assms, of child] that assms by (cases "code = 0"; cases "lock_busy (child attempt) \<and> attempt \<noteq> migration_retries")
      (simp_all add: r e lock_busy_def Let_def)
qed

definition succeeds_from :: "(nat \<Rightarrow> child_end) \<Rightarrow> nat \<Rightarrow> bool" where
  "succeeds_from child attempt \<longleftrightarrow> (\<exists>k \<in> {attempt..migration_retries}. fst (run_result (child k)) = 0
     \<and> (\<forall>j \<in> {attempt..<k}. lock_busy (child j)))"

lemma succeeds_from_step:
  assumes "attempt < migration_retries" and "lock_busy (child attempt)"
  shows "succeeds_from child attempt \<longleftrightarrow> succeeds_from child (Suc attempt)"
proof
  assume "succeeds_from child attempt"
  then obtain k where "k \<in> {attempt..migration_retries}" "fst (run_result (child k)) = 0" "\<forall>j \<in> {attempt..<k}. lock_busy (child j)"
    by (auto simp: succeeds_from_def)
  moreover have "k \<noteq> attempt" using calculation(2) assms(2) by (auto simp: lock_busy_def)
  ultimately show "succeeds_from child (Suc attempt)" unfolding succeeds_from_def by (intro bexI [of _ k]) auto
next
  assume "succeeds_from child (Suc attempt)"
  then obtain k where "k \<in> {Suc attempt..migration_retries}" "fst (run_result (child k)) = 0" "\<forall>j \<in> {Suc attempt..<k}. lock_busy (child j)"
    by (auto simp: succeeds_from_def)
  then show "succeeds_from child attempt"
    unfolding succeeds_from_def using assms(2) by (intro bexI [of _ k]) (auto simp: Suc_le_eq le_less)
qed

lemma retry_loop_succeeds: "attempt \<le> migration_retries \<Longrightarrow> snd (retry_loop child attempt) = None \<longleftrightarrow> succeeds_from child attempt"
proof (induction "migration_retries - attempt" arbitrary: attempt rule: less_induct)
  case less
  show ?case
  proof (rule retry_loop_cases [OF less.prems, of child])
    fix events ended
    assume r: "lock_busy (child attempt)" "attempt < migration_retries" "retry_loop child (Suc attempt) = (events, ended)"
      "retry_loop child attempt = (Migrated attempt # Waited (retry_delay attempt) # events, ended)"
    then show ?thesis using less.hyps [of "Suc attempt"] succeeds_from_step [of attempt child] by simp
  next
    assume "fst (run_result (child attempt)) = 0" "retry_loop child attempt = ([Migrated attempt], None)"
    then show ?thesis using less.prems by (auto simp: succeeds_from_def)
  next
    assume g: "\<not> lock_busy (child attempt) \<or> attempt = migration_retries" "fst (run_result (child attempt)) \<noteq> 0"
      "retry_loop child attempt = ([Migrated attempt], Some (fst (run_result (child attempt))))"
    have "\<not> succeeds_from child attempt"
    proof
      assume "succeeds_from child attempt"
      then obtain k where k: "k \<in> {attempt..migration_retries}" "fst (run_result (child k)) = 0" "\<forall>j \<in> {attempt..<k}. lock_busy (child j)"
        by (auto simp: succeeds_from_def)
      with g(2) have "attempt < k" by (cases "k = attempt") auto
      with k g(1) show False by auto
    qed
    with g(3) show ?thesis by simp
  qed
qed

lemma retry_loop_quiet:
  assumes "attempt \<le> migration_retries"
  shows "Api_started \<notin> set (fst (retry_loop child attempt)) \<and> (\<forall>c. Exited c \<notin> set (fst (retry_loop child attempt)))"
  using assms
proof (induction "migration_retries - attempt" arbitrary: attempt rule: less_induct)
  case less
  show ?case
    by (rule retry_loop_cases [OF less.prems, of child]) (use less.hyps [of "Suc attempt"] in auto)
qed

text \<open>The attempts are at most six and the waiting at most a minute and a half, whatever the migration tool does.\<close>

definition waited :: "start_event list \<Rightarrow> nat" where
  "waited es = sum_list (map (\<lambda>e. case e of Waited n \<Rightarrow> n | _ \<Rightarrow> 0) es)"

definition attempts :: "start_event list \<Rightarrow> nat" where
  "attempts es = length (filter (\<lambda>e. case e of Migrated _ \<Rightarrow> True | _ \<Rightarrow> False) es)"

lemma retry_loop_bounded:
  assumes "attempt \<le> migration_retries"
  shows "attempts (fst (retry_loop child attempt)) \<le> Suc migration_retries - attempt
    \<and> waited (fst (retry_loop child attempt)) \<le> sum retry_delay {attempt..<migration_retries}"
  using assms
proof (induction "migration_retries - attempt" arbitrary: attempt rule: less_induct)
  case less
  show ?case
  proof (rule retry_loop_cases [OF less.prems, of child])
    fix events ended
    assume "lock_busy (child attempt)" "attempt < migration_retries" "retry_loop child (Suc attempt) = (events, ended)"
      "retry_loop child attempt = (Migrated attempt # Waited (retry_delay attempt) # events, ended)"
    then show ?thesis using less.hyps [of "Suc attempt"] by (auto simp: attempts_def waited_def sum.atLeast_Suc_lessThan Suc_diff_le)
  qed (use less.prems in \<open>auto simp: attempts_def waited_def\<close>)
qed

lemma delays_total: "sum retry_delay {1..<migration_retries} = 90000"
proof -
  have "{1..<migration_retries} = {1, 2, 3, 4, 5}" by (auto simp: migration_retries_def)
  then show ?thesis by (simp add: retry_delay_def)
qed

text \<open>
  The service starts exactly when a migration attempt succeeds after nothing but busy locks and the seed succeeds; and
  then the process ends only with the service. Otherwise it ends with an error code.
\<close>

lemma service_started:
  "Api_started \<in> set (render_start child seed api) \<longleftrightarrow> succeeds_from child 1 \<and> fst (run_result seed) = 0"
proof -
  have one: "1 \<le> migration_retries" by (simp add: migration_retries_def)
  obtain events ended where r: "retry_loop child 1 = (events, ended)" by fastforce
  show ?thesis
    using retry_loop_succeeds [OF one, of child] retry_loop_quiet [OF one, of child]
    by (cases ended) (auto simp: r render_start_def Let_def simp del: One_nat_def)
qed

lemma start_bounded:
  "attempts (render_start child seed api) \<le> 6 \<and> waited (render_start child seed api) \<le> 90000"
proof -
  have one: "1 \<le> migration_retries" by (simp add: migration_retries_def)
  obtain events ended where r: "retry_loop child 1 = (events, ended)" by fastforce
  have "attempts events \<le> 6 \<and> waited events \<le> 90000"
    using retry_loop_bounded [OF one, of child] delays_total by (simp add: r migration_retries_def del: One_nat_def)
  then show ?thesis by (cases ended) (auto simp: r render_start_def Let_def attempts_def waited_def simp del: One_nat_def)
qed

section \<open>The bootstrap\<close>

text \<open>
  What \<open>bootstrap\<close> sets up around the routes: the content security policy of helmet, the trusted proxies, the limits of
  the bodies in bytes, the CORS lists, whether a validation error names its rules, and whether the API document is served.
\<close>

record web_app =
  wa_contentSecurityPolicy :: bool
  wa_trustProxy :: int
  wa_jsonLimit :: int
  wa_formLimit :: int
  wa_origins :: "string list"
  wa_credentials :: bool
  wa_methods :: "string list"
  wa_allowedHeaders :: "string list"
  wa_errorMessages :: bool
  wa_swagger :: bool

definition boolean_setting :: "settings \<Rightarrow> string \<Rightarrow> bool" where
  "boolean_setting st n = (st n = Some (S_boolean True))"

definition web_app_of :: "settings \<Rightarrow> web_app" where
  "web_app_of st =
     (let isProduction = (text_setting st ''NODE_ENV'' = ''production'') in
      \<lparr>wa_contentSecurityPolicy = isProduction, wa_trustProxy = number_setting st ''TRUSTED_PROXY_HOPS'',
       wa_jsonLimit = 64 * 1024, wa_formLimit = 32 * 1024,
       wa_origins = [text_setting st ''PUBLIC_API_ORIGIN'', text_setting st ''ADMIN_WEB_ORIGIN''], wa_credentials = True,
       wa_methods = [''GET'', ''POST'', ''PATCH'', ''PUT'', ''DELETE'', ''OPTIONS''],
       wa_allowedHeaders = [''Authorization'', ''Content-Type'', ''X-Request-Id''],
       wa_errorMessages = (\<not> isProduction), wa_swagger = boolean_setting st ''ENABLE_SWAGGER''\<rparr>)"

datatype boot_event = Boot_entry "string option" "string list" | Boot_fatal string "string list" | Listening web_app int

text \<open>
  \<open>NestFactory.create\<close> validates the environment, and may fail for other reasons (\<open>created\<close>), as may \<open>listen\<close>.
\<close>

definition bootstrap :: "joi \<Rightarrow> (string \<Rightarrow> string) \<Rightarrow> environment \<Rightarrow> bool \<Rightarrow> bool \<Rightarrow> boot_event list" where
  "bootstrap J base64 env created listens =
     Boot_entry (env ''PORT'') (missing_env env) #
     (case preflight base64 env of
        Inl (event, keys) \<Rightarrow> [Boot_fatal event keys]
      | Inr _ \<Rightarrow>
          (case validate_env J env of
             Some st \<Rightarrow> if created \<and> listens then [Listening (web_app_of st) (number_setting st ''PORT'')] else [Boot_fatal ''bootstrap_failed'' []]
           | None \<Rightarrow> [Boot_fatal ''bootstrap_failed'' []]))"

text \<open>The key of the modelled services: it has the 32 bytes of AES-256 whenever the service listens.\<close>

lemma listening_checked:
  assumes "Listening app port \<in> set (bootstrap J base64 env created listens)"
  shows "missing_env env = []" and "\<exists>v. env ''MEDIA_LOCATOR_ENCRYPTION_KEY_B64'' = Some v \<and> length (base64 v) = 32"
    and "\<exists>st. validate_env J env = Some st \<and> app = web_app_of st \<and> port = number_setting st ''PORT''"
proof -
  have ok: "preflight base64 env = Inr ()"
    using assms by (auto simp: bootstrap_def split: sum.splits)
  then show "missing_env env = []" by (auto simp: preflight_def preflight_environment_def Let_def split: sum.splits if_splits)
  have "env ''MEDIA_LOCATOR_ENCRYPTION_KEY_B64'' \<noteq> None"
    using ok unfolding preflight_ok by (auto simp: required_boot_env_keys_def)
  then show "\<exists>v. env ''MEDIA_LOCATOR_ENCRYPTION_KEY_B64'' = Some v \<and> length (base64 v) = 32"
    using ok unfolding preflight_ok Let_def by (cases "env ''MEDIA_LOCATOR_ENCRYPTION_KEY_B64''") simp_all
  show "\<exists>st. validate_env J env = Some st \<and> app = web_app_of st \<and> port = number_setting st ''PORT''"
    using assms by (auto simp: bootstrap_def split: sum.splits option.splits if_splits)
qed

text \<open>
  A production service sends the content security policy and keeps the rules of its validation to itself, and no service
  serves its API document unless its environment asks for it.
\<close>

lemma setting_validated:
  assumes "validate_env J env = Some st" and "q \<in> set (env_schema (in_production J env))"
  shows "st (st_name q) = setting_of J env q"
  using validated_value [OF assms] by auto

lemma production_hardened:
  assumes "Listening app port \<in> set (bootstrap J base64 env created listens)"
  shows "wa_contentSecurityPolicy app \<longleftrightarrow> in_production J env" and "wa_errorMessages app \<longleftrightarrow> \<not> in_production J env"
    and "env ''ENABLE_SWAGGER'' = None \<Longrightarrow> \<not> wa_swagger app"
proof -
  obtain st where st: "validate_env J env = Some st" and app: "app = web_app_of st" using listening_checked(3) [OF assms] by blast
  let ?node = "default_setting ''NODE_ENV'' [J_string, J_valid [''development'', ''test'', ''production'']] (S_text ''development'')"
  have node: "st ''NODE_ENV'' = setting_of J env ?node"
    using setting_validated [OF st, of ?node] by (simp add: env_schema_def default_setting_def)
  have prod: "text_setting st ''NODE_ENV'' = ''production'' \<longleftrightarrow> in_production J env"
    by (auto simp: text_setting_def node in_production_def env_schema_def split: option.splits setting_value.splits)
  then show "wa_contentSecurityPolicy app \<longleftrightarrow> in_production J env" "wa_errorMessages app \<longleftrightarrow> \<not> in_production J env"
    by (simp_all add: app web_app_of_def Let_def)
  have "st ''ENABLE_SWAGGER'' = setting_of J env (default_setting ''ENABLE_SWAGGER'' [J_boolean] (S_boolean False))"
    using setting_validated [OF st, of "default_setting ''ENABLE_SWAGGER'' [J_boolean] (S_boolean False)"]
    by (simp add: env_schema_def default_setting_def)
  then show "env ''ENABLE_SWAGGER'' = None \<Longrightarrow> \<not> wa_swagger app"
    by (simp add: app web_app_of_def Let_def boolean_setting_def setting_of_def default_setting_def)
qed

definition demo_base64 :: "string \<Rightarrow> string" where
  "demo_base64 t = (if t = ''locator'' then replicate 32 (CHR ''x'') else ''BEGIN PRIVATE KEY BEGIN PUBLIC KEY'')"

lemma demo_boot:
  "case bootstrap plain_joi demo_base64 (demo_environment(''MEDIA_LOCATOR_ENCRYPTION_KEY_B64'' \<mapsto> ''locator'')) True True of
     [Boot_entry _ missing, Listening app port] \<Rightarrow> missing = [] \<and> port = 3000 \<and> wa_errorMessages app \<and> \<not> wa_swagger app
   | _ \<Rightarrow> False"
  by code_simp

section \<open>The connection to Redis\<close>

text \<open>\<open>isOpen\<close>, \<open>isReady\<close> and whether \<open>connectPromise\<close> is set. \<open>opens\<close>: does \<open>connect()\<close> make \<open>isOpen\<close> true at once?\<close>

record redis_client =
  rc_open :: bool
  rc_ready :: bool
  rc_connecting :: bool

text \<open>The start of \<open>ensureConnected\<close>: whether the caller waits for the promise.\<close>

definition ensure_connected :: "bool \<Rightarrow> redis_client \<Rightarrow> bool \<times> redis_client" where
  "ensure_connected opens c =
     (if rc_open c \<or> rc_ready c then (False, c)
      else if \<not> rc_connecting c then (True, c\<lparr>rc_connecting := True, rc_open := opens\<rparr>)
      else (True, c))"

text \<open>The promise is settled: connected, or refused.\<close>

definition connect_settled :: "bool \<Rightarrow> redis_client \<Rightarrow> redis_client" where
  "connect_settled ok c = c\<lparr>rc_connecting := False, rc_open := ok, rc_ready := ok\<rparr>"

text \<open>\<open>ping\<close> after \<open>ensureConnected\<close>; \<open>answers\<close>: does the server answer?\<close>

definition ping :: "bool \<Rightarrow> redis_client \<Rightarrow> http_error + unit" where
  "ping answers c = (if \<not> rc_ready c then Inl (ServiceUnavailable ''Redis is unavailable'')
     else if answers then Inr () else Inl (Internal ''Socket closed unexpectedly''))"

definition module_destroyed :: "redis_client \<Rightarrow> redis_client" where
  "module_destroyed c = (if rc_open c then c\<lparr>rc_open := False, rc_ready := False\<rparr> else c)"

text \<open>A caller that waits for a connection that succeeds is served.\<close>

lemma waiting_caller_served: "ensure_connected opens c = (True, c') \<Longrightarrow> ping True (connect_settled True c') = Inr ()"
  by (auto simp: ping_def connect_settled_def ensure_connected_def)

text \<open>
  While the first caller waits, the promise that it stored is meant to be shared. If \<open>connect()\<close> opens the client at once,
  the second caller does not reach it: it goes on with a client that is not ready and is refused.
\<close>

lemma second_caller_refused:
  assumes "\<not> rc_open c" and "\<not> rc_ready c" and "\<not> rc_connecting c" and "ensure_connected True c = (waits, c')"
  shows "waits \<and> ensure_connected True c' = (False, c') \<and> ping answers c' = Inl (ServiceUnavailable ''Redis is unavailable'')"
  using assms by (auto simp: ensure_connected_def ping_def split: if_splits)

section \<open>Metrics and the log of requests\<close>

type_synonym labels = "string \<times> string \<times> string"

record metrics =
  mt_requests :: "labels \<Rightarrow> nat"
  mt_durations :: "(labels \<times> int) list"
  mt_databaseUp :: bool
  mt_redisUp :: bool

definition new_metrics :: metrics where
  "new_metrics = \<lparr>mt_requests = (\<lambda>_. 0), mt_durations = [], mt_databaseUp = False, mt_redisUp = False\<rparr>"

text \<open>The duration is in nanoseconds.\<close>

definition observe_http :: "string \<Rightarrow> string \<Rightarrow> nat \<Rightarrow> int \<Rightarrow> metrics \<Rightarrow> metrics" where
  "observe_http http_method route statusCode duration m =
     (let l = (http_method, normalize_route route, decimal statusCode) in
      m\<lparr>mt_requests := (mt_requests m)(l := Suc (mt_requests m l)), mt_durations := mt_durations m @ [(l, duration)]\<rparr>)"

definition set_database_up :: "bool \<Rightarrow> metrics \<Rightarrow> metrics" where "set_database_up v = mt_databaseUp_update (\<lambda>_. v)"
definition set_redis_up :: "bool \<Rightarrow> metrics \<Rightarrow> metrics" where "set_redis_up v = mt_redisUp_update (\<lambda>_. v)"

text \<open>A finished request: its method, the path of its route if one was found, and what the log line holds.\<close>

record finished_request =
  fq_method :: string
  fq_baseUrl :: string
  fq_routePath :: "string option"
  fq_path :: string
  fq_statusCode :: nat
  fq_duration :: int
  fq_requestId :: string
  fq_ip :: string
  fq_userAgent :: "string option"

definition request_route :: "finished_request \<Rightarrow> string" where
  "request_route q = (case truthy (fq_routePath q) of None \<Rightarrow> fq_path q | Some p \<Rightarrow> fq_baseUrl q @ p)"

text \<open>\<open>Math.round(durationMs * 100) / 100\<close>, in nanoseconds.\<close>

definition rounded_duration :: "int \<Rightarrow> int" where "rounded_duration d = (d + 5000) div 10000 * 10000"

definition request_finished :: "string \<Rightarrow> finished_request \<Rightarrow> metrics \<times> finished_request list \<Rightarrow> metrics \<times> finished_request list" where
  "request_finished minimum q = (\<lambda>(m, log).
     (observe_http (fq_method q) (request_route q) (fq_statusCode q) (fq_duration q) m,
      if writes_log minimum Log_info then log @ [q\<lparr>fq_duration := rounded_duration (fq_duration q), fq_userAgent := map_option (take 160) (fq_userAgent q)\<rparr>] else log))"

text \<open>\<open>HealthController.ready\<close> with the two gauges, and \<open>MetricsController.getMetrics\<close> with the registry behind its token.\<close>

definition health_ready :: "bool \<Rightarrow> bool \<Rightarrow> redis_client \<Rightarrow> metrics \<Rightarrow> (http_error + bool \<times> bool) \<times> metrics" where
  "health_ready postgresReady answers c m =
     (let redisReady = (case ping answers c of Inr _ \<Rightarrow> True | Inl _ \<Rightarrow> False) in
      (ready_probe postgresReady redisReady, set_redis_up redisReady (set_database_up postgresReady m)))"

definition get_metrics :: "string \<Rightarrow> string option \<Rightarrow> metrics \<Rightarrow> http_error + metrics" where
  "get_metrics configured header m =
     (if metrics_access configured header then Inr m else Inl (Unauthorized ''Metrics access denied''))"

lemma health_gauges:
  assumes "health_ready postgresReady answers c m = (r, m')"
  shows "mt_databaseUp m' = postgresReady" "mt_redisUp m' \<longleftrightarrow> rc_ready c \<and> answers"
    and "r = (if mt_databaseUp m' \<and> mt_redisUp m' then Inr (True, True) else Inl (ServiceUnavailable ''Service is not ready''))"
    and "get_metrics configured (Some configured) m' = Inr m' \<longleftrightarrow> configured \<noteq> []"
  using assms by (auto simp: health_ready_def ping_def ready_probe_def set_redis_up_def set_database_up_def get_metrics_def
    metrics_access_iff Let_def split: if_splits)

text \<open>The counter of a label combination is the number of its observations: every finished request counts once.\<close>

definition counts_exact :: "metrics \<Rightarrow> bool" where
  "counts_exact m \<longleftrightarrow> (\<forall>l. mt_requests m l = length (filter (\<lambda>d. fst d = l) (mt_durations m)))"

lemma requests_counted:
  assumes "fold (request_finished minimum) qs (new_metrics, []) = (m, log)"
  shows "counts_exact m \<and> length (mt_durations m) = length qs \<and> length log = (if writes_log minimum Log_info then length qs else 0)"
proof -
  have "counts_exact m' \<and> length (mt_durations m') = length (mt_durations m0) + length qs
      \<and> length log' = length log0 + (if writes_log minimum Log_info then length qs else 0)"
    if "fold (request_finished minimum) qs (m0, log0) = (m', log')" "counts_exact m0" for m0 log0 m' log'
    using that
  proof (induction qs arbitrary: m0 log0)
    case (Cons q qs)
    obtain m1 log1 where one: "request_finished minimum q (m0, log0) = (m1, log1)" by fastforce
    then have "counts_exact m1" "length (mt_durations m1) = Suc (length (mt_durations m0))"
      "length log1 = length log0 + (if writes_log minimum Log_info then 1 else 0)"
      using Cons.prems(2) by (auto simp: request_finished_def observe_http_def Let_def counts_exact_def)
    then show ?case using Cons.IH [of m1 log1] Cons.prems(1) one by auto
  qed simp
  moreover have "counts_exact new_metrics" by (simp add: counts_exact_def new_metrics_def)
  ultimately show ?thesis using assms by (fastforce simp: new_metrics_def)
qed

end
