(* ===== verification/Spec2Isabelle.thy ===== *)
theory Spec2Isabelle
  imports ContentProps Rbac ChatGateway Uploads MediaGateway SqlLoops LegacyReview Seed Http AdminTools MigrationRerun Cleanup ImportRuns Validated Operations
begin

text \<open>
  A model of the backend of a video streaming service (NestJS, Prisma on PostgreSQL, Redis) and the
  theorems that make its core correct: who may call what, who may watch what, and what each handler leaves
  in the database. The TypeScript sources are under \<open>src/\<close> of the repository (\<open>src/auth/auth.service.ts\<close>
  and so on); a handler of a service is one definition with the same steps in the same order.

  \<^bold>\<open>Parts and theories\<close>

  \<^item> \<open>Prelude\<close>: handlers as functions from the state to a result and the state they leave
    (\<open>and_then\<close>, \<open>require\<close>, \<open>expect\<close>, \<open>transaction\<close>, \<open>catch_error\<close>), tables as lists of rows
    (\<open>find_first\<close>, \<open>update_many\<close>, \<open>delete_many\<close>, \<open>count_where\<close>), pages, strings, invariants of handlers
    (\<open>keeps\<close>) and the locale \<open>guarded_update\<close> for updates that disable their own condition.
  \<^item> \<open>Schema\<close>: the enums and models of \<open>prisma/schema.prisma\<close>, the Redis entries, the state, requests,
    principals, configuration, and the cryptographic functions as parameters (\<open>platform\<close>).
  \<^item> \<open>Redis\<close>: \<open>common/redis/redis.service.ts\<close> and the locale \<open>timed_cache\<close>.
  \<^item> \<open>Principals\<close>: \<open>common/auth/jwt.strategy.ts\<close> and the four global guards of \<open>app.module.ts\<close>.
  \<^item> \<open>Auth\<close>: \<open>auth/auth.service.ts\<close>: registration, login with lockout, refresh token rotation, sessions,
    trusted devices, passwords.
  \<^item> \<open>Users\<close>, \<open>Rbac\<close>: \<open>users/users.service.ts\<close>, \<open>rbac/rbac.service.ts\<close>, and the queries of the audit log.
  \<^item> \<open>Subscriptions\<close>, \<open>Access\<close>: \<open>subscriptions/subscriptions.service.ts\<close>, \<open>access/access.service.ts\<close>.
  \<^item> \<open>Content\<close>, \<open>ContentProps\<close>: the catalogue (dramas, seasons, episodes, media assets) and its theorems.
  \<^item> \<open>Playback\<close>, \<open>PlaybackTokens\<close>: \<open>playback/playback-policy.service.ts\<close>,
    \<open>playback/playback-token.service.ts\<close>, \<open>playback/playback.service.ts\<close>; the second theory adds the theorems
    that need the signing library to read back what it signed.
  \<^item> \<open>SupportChat\<close>, \<open>ChatGateway\<close>: \<open>support-chat/support-chat.service.ts\<close>, and the socket gateway with the
    routes that emit to it (\<open>support-chat.gateway.ts\<close>, \<open>support-chat.controller.ts\<close>).
  \<^item> \<open>Locator\<close>, \<open>MediaGateway\<close>: \<open>media-gateway/media-locator-cipher.service.ts\<close>;
    \<open>media-gateway/media-gateway.service.ts\<close> with its storage provider and its two routes.
  \<^item> \<open>Uploads\<close>: \<open>uploads/uploads.service.ts\<close>, chunked uploads to the local disk or in parts to R2.
  \<^item> \<open>LegacySchema\<close>, \<open>Legacy\<close>, \<open>LegacyProps\<close>, \<open>LegacyReview\<close>: \<open>legacy/legacy.service.ts\<close> and
    \<open>legacy/firebase-push.service.ts\<close>: the tables and the row operations, the handlers, the integrity of the tables,
    the review of requests. \<open>Calendar\<close> holds what they use of the JavaScript \<open>Date\<close>.
  \<^item> \<open>SqlDump\<close>, \<open>SqlLoops\<close>: the parser of the MySQL dump in \<open>scripts/legacy-migration/import-sql.ts\<close>, as recursive
    functions and as the loops of the source.
  \<^item> \<open>Migration\<close>, \<open>Rollback\<close>: \<open>scripts/legacy-migration/migrate.ts\<close>, \<open>rollback.ts\<close> and \<open>verify.ts\<close>; \<open>MigrationProps\<close>,
    \<open>MigrationRuns\<close>, \<open>MigrationRerun\<close>: their theorems. \<open>Cleanup\<close>: \<open>scripts/maintenance-cleanup.ts\<close>.
  \<^item> \<open>ImportSql\<close>, \<open>ImportRows\<close>: the rest of \<open>import-sql.ts\<close>, the mapping of the fifteen tables of the dump; \<open>ImportProps\<close>
    with the locale \<open>import_invariant\<close> of the invariants that its handlers keep, \<open>ImportUsers\<close>, \<open>ImportRuns\<close>: its theorems.
  \<^item> \<open>Routes\<close>: the routes of all controllers with their guard metadata, and the dispatch of a request to its handler;
    \<open>Seed\<close>: \<open>prisma/seed.ts\<close> and what a seeded database lets whom do.
  \<^item> \<open>Http\<close>: what stands around a handler: request ids, exception filter, audit interceptor, metrics access, health
    probes, log level, preflight checks. \<open>AdminTools\<close>: \<open>admin-tools/admin-tools.service.ts\<close>.
  \<^item> \<open>Validation\<close>, \<open>Dtos\<close>, \<open>Validated\<close>: the validation pipe of \<open>main.ts\<close>, the DTO classes of all controllers with their
    decorators, what an accepted body guarantees, and the routes of the subscriptions behind the pipe. \<open>Settings\<close>:
    \<open>config/env.validation.ts\<close> and the configuration that a validated environment gives.
  \<^item> \<open>Operations\<close>: the start script \<open>scripts/render-start.mjs\<close>, \<open>bootstrap\<close> of \<open>main.ts\<close>, the connection to Redis, the
    metrics and the log of requests.

  \<^bold>\<open>How the parts interact\<close>

  Every request passes \<open>guard_request\<close>, which reads the session and the account again. \<open>Auth\<close>, \<open>Users\<close> and
  \<open>Rbac\<close> write the tables that it reads, so their theorems are stated through \<open>jwt_validate\<close> and the
  permission codes. \<open>Playback\<close> asks \<open>Subscriptions\<close> and \<open>Access\<close> through the locale \<open>decision_service\<close>,
  reads the catalogue of \<open>Content\<close> and the devices of \<open>Auth\<close>, and keeps its capabilities in \<open>Redis\<close>.
  \<open>MediaGateway\<close> answers only for a capability that \<open>Playback\<close> accepts, and its state (\<open>media_system\<close>) holds the
  database. The state of \<open>Legacy\<close> holds that of the media gateway, so that its handlers run those of the other
  services (\<open>in_core\<close>, \<open>on_media\<close>): an approval writes the subscription and the membership that \<open>Subscriptions\<close> and
  \<open>Access\<close> then read, and an approved deletion closes the account for \<open>Auth\<close> and \<open>Principals\<close>. \<open>ChatGateway\<close> runs
  the handlers of \<open>SupportChat\<close> and records the events it emits; \<open>Uploads\<close> has a state of its own with the files, the
  object store and Redis. \<open>dispatch\<close> of \<open>Routes\<close> finds the handler of a request and its guards, and \<open>serve\<close> of \<open>Http\<close>
  runs it inside the interceptor and the filter. The state of the migration holds that of \<open>Legacy\<close>: its accounts log in
  through \<open>Auth\<close>, and a rollback follows the foreign keys of all tables. The SQL import works on the same state, writes the
  same records, and encrypts media addresses so that \<open>Locator\<close> opens them.

  \<^bold>\<open>Conventions\<close>

  \<^item> A Prisma query is a function on the rows with the \<open>where\<close> and \<open>data\<close> literals of the source. The
    unique and foreign keys that the handlers rely on are checked where a row is written: \<open>P2002\<close>, \<open>P2025\<close>
    and \<open>P2003\<close> are \<open>Internal\<close> errors unless the handler translates them. An error keeps what was written
    before it, except inside \<open>transaction\<close>, which rolls back.
  \<^item> One handler invocation reads the clock once (\<open>rq_now\<close>). Fresh ids and random tokens are arguments.
    Where another request may run between two parts of a handler and this matters, the parts are separate
    definitions and an inductive step relation interleaves them (\<open>auth_step\<close>, \<open>play_step\<close>,
    \<open>chat_system_step\<close>, \<open>upload_reach\<close>, \<open>media_reach\<close>). \<open>legacy_step\<close> takes whole requests.
  \<^item> Code outside the repository is a parameter: the hashes and tokens (\<open>platform\<close>), the cipher (\<open>aead\<close>), the URL
    parser, \<open>fetch\<close> and HMAC (\<open>media_env\<close>), the S3 client and the upload endpoint (\<open>storage\<close>), the Firebase library
    (\<open>legacy_env\<close>), the pattern matcher of Express and the UUID check (\<open>Routes\<close>), the MySQL connection
    (\<open>migration_env\<close>), child processes, class-validator and Joi. What a theorem needs of it is a named hypothesis with a witness.
  \<^item> Strings are ASCII and ordered character by character; dates arrive parsed, \<open>None\<close> being an invalid one.
    JavaScript numbers are \<open>int\<close> or \<open>nat\<close>. That an integer column has 32 bits is checked where rows are imported and in
    the routes of \<open>Validated\<close>; the DTO classes often set no upper bound, and the services then fail in the database.
  \<^item> Rows of logs are appended without an id of their own; \<open>updatedAt\<close> is left out.
  \<^item> Apart from one, no loop needs fuel: the loops run over a list or consume a text. Those of the SQL import, which move an index,
    are \<open>partial_function\<close>s that are shown to end. The exception is a loop of the import that may run for ever, the search for an unused slug:
    it has a bound (\<open>iv_attempts\<close>), and running into it is an error; no theorem depends on the bound.

  \<^bold>\<open>What the lemmas show\<close>

  Per component: an invariant or well-formedness predicate with one preservation lemma per operation
  (\<open>auth_inv\<close>, \<open>subs_inv\<close>, \<open>publication_inv\<close>, \<open>rbac_inv\<close>, \<open>chat_inv\<close>, \<open>media_inv\<close>, \<open>legacy_inv\<close>), the exact
  condition under which a handler succeeds and what it then changes, the theorems, each under its claim id, and
  examples of what the code does not check.

  \<^bold>\<open>Not modelled\<close>

  The text of log lines and of the metrics page, which is pure output, the module declarations, and the two models of the
  schema that no code uses. The rules of class-validator and Joi are parameters (\<open>validation\<close>, \<open>joi\<close>); the pipe is put before the routes
  of the subscriptions, and the bounds that a theorem on another service needs are hypotheses of it.
\<close>

end
